(* ===== verification/FecaPrelude.thy ===== *)
theory FecaPrelude
  imports Main "HOL-Library.Sublist" "HOL-Library.Multiset"
begin

text \<open>
  The prelude of the development: the result and state conventions every component shares.

  A NestJS service method is an asynchronous function that reads and writes the database and either
  returns a value or throws an HTTP exception.  It is modelled as a state transformer
  \<open>'s \<Rightarrow> (http_error + 'a) \<times> 's\<close>: \<open>Inl\<close> carries the exception, \<open>Inr\<close> the value, and the second
  component is the database after the call.  An exception does not undo the writes made before it;
  only \<open>tx\<close> (Prisma's \<open>$transaction\<close>) does.  The collection \<open>svc_defs\<close> holds the definitions of
  the combinators and \<open>keeps_intro\<close> the rules that push an invariant through them.
\<close>

section \<open>Errors\<close>

text \<open>The NestJS exception classes the modelled services throw, with the machine readable code or the
  message they carry, and the Prisma errors that reach the caller.\<close>

datatype http_error =
    BadRequest string
  | Unauthorized string
  | Forbidden string
  | NotFound string
  | Conflict string
  | Unprocessable string
  | ServiceUnavailable string
  | PayloadTooLarge string
  | BadGateway string
  | PrismaError string
  | InternalError string

section \<open>State passing with exceptions\<close>

type_synonym ('s, 'a) svc = "'s \<Rightarrow> (http_error + 'a) \<times> 's"

named_theorems svc_defs "definitions of the service combinators"
named_theorems svc_exec "execution of the service combinators on a state"
named_theorems keeps_intro "invariant preservation rules of the service combinators"
named_theorems returns_intro "rules for calls that never throw"

definition ret :: "'a \<Rightarrow> ('s, 'a) svc" where
  "ret a = (\<lambda>s. (Inr a, s))"

definition throw :: "http_error \<Rightarrow> ('s, 'a) svc" where
  "throw e = (\<lambda>s. (Inl e, s))"

definition bindS :: "('s, 'a) svc \<Rightarrow> ('a \<Rightarrow> ('s, 'b) svc) \<Rightarrow> ('s, 'b) svc" where
  "bindS m f = (\<lambda>s. case m s of (Inl e, s') \<Rightarrow> (Inl e, s') | (Inr a, s') \<Rightarrow> f a s')"

definition seqS :: "('s, 'a) svc \<Rightarrow> ('s, 'b) svc \<Rightarrow> ('s, 'b) svc" where
  "seqS m n = bindS m (\<lambda>_. n)"

definition gets :: "('s \<Rightarrow> 'a) \<Rightarrow> ('s, 'a) svc" where
  "gets f = (\<lambda>s. (Inr (f s), s))"

definition modify :: "('s \<Rightarrow> 's) \<Rightarrow> ('s, unit) svc" where
  "modify f = (\<lambda>s. (Inr (), f s))"

definition liftE :: "http_error + 'a \<Rightarrow> ('s, 'a) svc" where
  "liftE r = (\<lambda>s. (r, s))"

definition throw_if :: "bool \<Rightarrow> http_error \<Rightarrow> ('s, unit) svc" where
  "throw_if b e = (if b then throw e else ret ())"

text \<open>\<open>require\<close> unwraps a nullable result, throwing when it is null.\<close>

definition require :: "http_error \<Rightarrow> 'a option \<Rightarrow> ('s, 'a) svc" where
  "require e x = (case x of None \<Rightarrow> throw e | Some a \<Rightarrow> ret a)"

text \<open>Prisma's interactive transaction: every write is undone when the callback throws.\<close>

definition tx :: "('s, 'a) svc \<Rightarrow> ('s, 'a) svc" where
  "tx m = (\<lambda>s. case m s of (Inl e, _) \<Rightarrow> (Inl e, s) | (Inr a, s') \<Rightarrow> (Inr a, s'))"

text \<open>A \<open>try ... catch\<close>: the writes made before the exception stay.\<close>

definition catchS :: "('s, 'a) svc \<Rightarrow> (http_error \<Rightarrow> ('s, 'a) svc) \<Rightarrow> ('s, 'a) svc" where
  "catchS m h = (\<lambda>s. case m s of (Inl e, s') \<Rightarrow> h e s' | (Inr a, s') \<Rightarrow> (Inr a, s'))"

fun mapS :: "('a \<Rightarrow> ('s, 'b) svc) \<Rightarrow> 'a list \<Rightarrow> ('s, 'b list) svc" where
  "mapS f [] = ret []"
| "mapS f (x # xs) = bindS (f x) (\<lambda>y. bindS (mapS f xs) (\<lambda>ys. ret (y # ys)))"

text \<open>\<open>Promise.all\<close>: every call runs; the first rejection, if any, is what the caller sees.\<close>

primrec promise_all :: "('a \<Rightarrow> ('s, 'b) svc) \<Rightarrow> 'a list \<Rightarrow> ('s, 'b list) svc" where
  "promise_all f [] = ret []"
| "promise_all f (x # xs) = (\<lambda>s.
     let (r, s') = f x s; (rs, s'') = promise_all f xs s'
     in (case r of Inl e \<Rightarrow> Inl e | Inr y \<Rightarrow> map_sum id (Cons y) rs, s''))"

declare ret_def [svc_defs] throw_def [svc_defs] bindS_def [svc_defs] seqS_def [svc_defs]
  gets_def [svc_defs] modify_def [svc_defs] liftE_def [svc_defs] throw_if_def [svc_defs]
  require_def [svc_defs] tx_def [svc_defs] catchS_def [svc_defs]

lemma ret_run [simp]: "ret a s = (Inr a, s)" by (simp add: ret_def)
lemma throw_run [simp]: "throw e s = (Inl e, s)" by (simp add: throw_def)
lemma gets_run [simp]: "gets f s = (Inr (f s), s)" by (simp add: gets_def)
lemma modify_run [simp]: "modify f s = (Inr (), f s)" by (simp add: modify_def)
lemma liftE_run [simp]: "liftE r s = (r, s)" by (simp add: liftE_def)

lemma bindS_gets [simp]: "bindS (gets f) g s = g (f s) s" by (simp add: bindS_def)
lemma bindS_ret [simp]: "bindS (ret a) g = g a" by (simp add: bindS_def ret_def)
lemma bindS_throw [simp]: "bindS (throw e) g = throw e" by (simp add: bindS_def throw_def)
lemma bindS_modify [simp]: "bindS (modify f) g s = g () (f s)" by (simp add: bindS_def)
lemma seqS_modify [simp]: "seqS (modify f) m s = m (f s)" by (simp add: seqS_def)
lemma seqS_ret [simp]: "seqS (ret a) m = m" by (simp add: seqS_def)
lemma seqS_throw [simp]: "seqS (throw e) m = throw e" by (simp add: seqS_def)

lemma bindS_assoc: "bindS (bindS m f) g = bindS m (\<lambda>x. bindS (f x) g)"
  by (auto simp: bindS_def fun_eq_iff split: prod.splits sum.splits)

lemma require_simps [simp]:
  "require e None = throw e"
  "require e (Some a) = ret a"
  by (simp_all add: require_def)

lemma throw_if_simps [simp]:
  "throw_if True e = throw e"
  "throw_if False e = ret ()"
  by (simp_all add: throw_if_def)

lemma bindS_Inr: "m s = (Inr a, s') \<Longrightarrow> bindS m f s = f a s'" by (simp add: bindS_def)
lemma bindS_Inl: "m s = (Inl e, s') \<Longrightarrow> bindS m f s = (Inl e, s')" by (simp add: bindS_def)

lemma bindS_apply [svc_exec]:
  "bindS m f s = (case m s of (Inl e, s') \<Rightarrow> (Inl e, s') | (Inr a, s') \<Rightarrow> f a s')"
  by (simp add: bindS_def)

lemma seqS_apply [svc_exec]:
  "seqS m n s = (case m s of (Inl e, s') \<Rightarrow> (Inl e, s') | (Inr a, s') \<Rightarrow> n s')"
  by (simp add: seqS_def bindS_def)

lemma tx_apply [svc_exec]:
  "tx m s = (case m s of (Inl e, _) \<Rightarrow> (Inl e, s) | (Inr a, s') \<Rightarrow> (Inr a, s'))"
  by (simp add: tx_def)

lemma catchS_apply [svc_exec]:
  "catchS m h s = (case m s of (Inl e, s') \<Rightarrow> h e s' | (Inr a, s') \<Rightarrow> (Inr a, s'))"
  by (simp add: catchS_def)

lemma bindS_eq_Inr:
  "bindS m f s = (Inr b, t) \<longleftrightarrow> (\<exists>a s'. m s = (Inr a, s') \<and> f a s' = (Inr b, t))"
  by (auto simp: bindS_def split: prod.splits sum.splits)

lemma bindS_eq_Inl:
  "bindS m f s = (Inl e, t) \<longleftrightarrow>
   m s = (Inl e, t) \<or> (\<exists>a s'. m s = (Inr a, s') \<and> f a s' = (Inl e, t))"
  by (auto simp: bindS_def split: prod.splits sum.splits)

lemma seqS_eq_Inr:
  "seqS m n s = (Inr b, t) \<longleftrightarrow> (\<exists>a s'. m s = (Inr a, s') \<and> n s' = (Inr b, t))"
  by (simp add: seqS_def bindS_eq_Inr)

lemma throw_if_eq [simp]:
  "throw_if b e s = (Inr u, t) \<longleftrightarrow> \<not> b \<and> t = s"
  "throw_if b e s = (Inl e', t) \<longleftrightarrow> b \<and> e' = e \<and> t = s"
  by (auto simp: throw_if_def)

lemma require_eq [simp]:
  "require e x s = (Inr a, t) \<longleftrightarrow> x = Some a \<and> t = s"
  "require e x s = (Inl e', t) \<longleftrightarrow> x = None \<and> e' = e \<and> t = s"
  by (cases x; auto)+

lemma tx_error_unchanged: "fst (tx m s) = Inl e \<Longrightarrow> snd (tx m s) = s"
  by (auto simp: tx_def split: prod.splits sum.splits)

lemma tx_eq_Inr [simp]: "tx m s = (Inr a, t) \<longleftrightarrow> m s = (Inr a, t)"
  by (auto simp: tx_def split: prod.splits sum.splits)

lemmas svc_run = bindS_eq_Inr bindS_eq_Inl seqS_eq_Inr

section \<open>Invariants through the combinators\<close>

definition keeps :: "('s \<Rightarrow> bool) \<Rightarrow> ('s, 'a) svc \<Rightarrow> bool" where
  "keeps P m \<longleftrightarrow> (\<forall>s. P s \<longrightarrow> P (snd (m s)))"

lemma keepsI: "(\<And>s. P s \<Longrightarrow> P (snd (m s))) \<Longrightarrow> keeps P m" by (simp add: keeps_def)
lemma keepsD: "keeps P m \<Longrightarrow> P s \<Longrightarrow> P (snd (m s))" by (simp add: keeps_def)

lemma keeps_ret [keeps_intro]: "keeps P (ret a)" by (simp add: keeps_def)
lemma keeps_throw [keeps_intro]: "keeps P (throw e)" by (simp add: keeps_def)
lemma keeps_gets [keeps_intro]: "keeps P (gets f)" by (simp add: keeps_def)
lemma keeps_liftE [keeps_intro]: "keeps P (liftE r)" by (simp add: keeps_def)
lemma keeps_throw_if [keeps_intro]: "keeps P (throw_if b e)" by (simp add: keeps_def throw_if_def)
lemma keeps_require [keeps_intro]: "keeps P (require e x)"
  by (simp add: keeps_def require_def split: option.splits)
lemma keeps_modify: "(\<And>s. P s \<Longrightarrow> P (f s)) \<Longrightarrow> keeps P (modify f)" by (simp add: keeps_def)

lemma keeps_bind [keeps_intro]: "keeps P m \<Longrightarrow> (\<And>a. keeps P (f a)) \<Longrightarrow> keeps P (bindS m f)"
  by (fastforce simp: keeps_def bindS_def split: prod.splits sum.splits)

lemma keeps_bind_gets:
  "(\<And>s. P s \<Longrightarrow> P (snd (g (f s) s))) \<Longrightarrow> keeps P (bindS (gets f) g)"
  by (simp add: keeps_def)

lemma keeps_seq [keeps_intro]: "keeps P m \<Longrightarrow> keeps P n \<Longrightarrow> keeps P (seqS m n)"
  by (simp add: seqS_def keeps_bind)

lemma keeps_tx [keeps_intro]: "keeps P m \<Longrightarrow> keeps P (tx m)"
  by (fastforce simp: keeps_def tx_def split: prod.splits sum.splits)

lemma keeps_catch [keeps_intro]: "keeps P m \<Longrightarrow> (\<And>e. keeps P (h e)) \<Longrightarrow> keeps P (catchS m h)"
  by (fastforce simp: keeps_def catchS_def split: prod.splits sum.splits)

lemma keeps_mapS [keeps_intro]: "(\<And>x. x \<in> set xs \<Longrightarrow> keeps P (f x)) \<Longrightarrow> keeps P (mapS f xs)"
  by (induction xs) (auto intro!: keeps_intro)

lemma keeps_promise_all [keeps_intro]: "(\<And>x. keeps P (f x)) \<Longrightarrow> keeps P (promise_all f xs)"
proof (induction xs)
  case (Cons x xs)
  show ?case
  proof (rule keepsI)
    fix s assume "P s"
    then have "P (snd (f x s))" using Cons.prems by (rule keepsD [rotated])
    then have "P (snd (promise_all f xs (snd (f x s))))" using Cons by (blast intro: keepsD)
    then show "P (snd (promise_all f (x # xs) s))" by (simp add: case_prod_unfold Let_def)
  qed
qed (simp add: keeps_ret)

lemma keeps_if [keeps_intro]:
  "(b \<Longrightarrow> keeps P m) \<Longrightarrow> (\<not> b \<Longrightarrow> keeps P n) \<Longrightarrow> keeps P (if b then m else n)"
  by simp

lemma keeps_case_option [keeps_intro]:
  "keeps P m \<Longrightarrow> (\<And>a. keeps P (f a)) \<Longrightarrow> keeps P (case x of None \<Rightarrow> m | Some a \<Rightarrow> f a)"
  by (cases x) auto

lemma keeps_case_sum [keeps_intro]:
  "(\<And>a. keeps P (f a)) \<Longrightarrow> (\<And>b. keeps P (g b)) \<Longrightarrow> keeps P (case x of Inl a \<Rightarrow> f a | Inr b \<Rightarrow> g b)"
  by (cases x) auto

lemma keeps_case_prod [keeps_intro]:
  "(\<And>a b. keeps P (f a b)) \<Longrightarrow> keeps P (case x of (a, b) \<Rightarrow> f a b)"
  by (cases x) auto

lemma keeps_conj: "keeps P m \<Longrightarrow> keeps Q m \<Longrightarrow> keeps (\<lambda>s. P s \<and> Q s) m"
  by (simp add: keeps_def)

section \<open>Calls that never throw\<close>

definition returns :: "('s, 'a) svc \<Rightarrow> bool" where
  "returns m \<longleftrightarrow> (\<forall>s. \<exists>a. fst (m s) = Inr a)"

lemma returnsD: "returns m \<Longrightarrow> \<exists>a. m s = (Inr a, snd (m s))"
  unfolding returns_def by (metis prod.collapse)

lemma returns_ret [returns_intro]: "returns (ret a)" by (simp add: returns_def)
lemma returns_gets [returns_intro]: "returns (gets f)" by (simp add: returns_def)
lemma returns_modify [returns_intro]: "returns (modify f)" by (simp add: returns_def)

lemma returns_bind [returns_intro]:
  assumes "returns m" "\<And>a. returns (f a)" shows "returns (bindS m f)"
  unfolding returns_def
proof
  fix s
  obtain a s' where "m s = (Inr a, s')" using returnsD [OF assms(1)] by blast
  then show "\<exists>b. fst (bindS m f s) = Inr b"
    using returnsD [OF assms(2), of a s'] by (metis bindS_Inr fst_conv)
qed

lemma returns_seq [returns_intro]: "returns m \<Longrightarrow> returns n \<Longrightarrow> returns (seqS m n)"
  by (simp add: seqS_def returns_bind)

lemma returns_tx [returns_intro]: "returns m \<Longrightarrow> returns (tx m)"
  unfolding returns_def tx_def by (auto split: prod.splits sum.splits) (metis Inr_not_Inl fst_conv)

lemma returns_catch [returns_intro]: "returns m \<Longrightarrow> returns (catchS m h)"
  unfolding returns_def catchS_def by (auto split: prod.splits sum.splits) (metis Inr_not_Inl fst_conv)

lemma returns_if [returns_intro]:
  "(b \<Longrightarrow> returns m) \<Longrightarrow> (\<not> b \<Longrightarrow> returns n) \<Longrightarrow> returns (if b then m else n)"
  by simp

lemma returns_case_option [returns_intro]:
  "returns m \<Longrightarrow> (\<And>a. returns (f a)) \<Longrightarrow> returns (case x of None \<Rightarrow> m | Some a \<Rightarrow> f a)"
  by (cases x) auto

lemma returns_let [returns_intro]: "returns (f x) \<Longrightarrow> returns (Let x f)" by simp

lemma returns_mapS [returns_intro]: "(\<And>x. x \<in> set xs \<Longrightarrow> returns (f x)) \<Longrightarrow> returns (mapS f xs)"
  by (induction xs) (auto intro!: returns_intro)

section \<open>Lists, options and JavaScript idioms\<close>

text \<open>\<open>Array.from(new Set(xs))\<close>: the first occurrences, in order.\<close>

definition dedupe :: "'a list \<Rightarrow> 'a list" where
  "dedupe xs = rev (remdups (rev xs))"

lemma set_dedupe [simp]: "set (dedupe xs) = set xs" by (simp add: dedupe_def)
lemma distinct_dedupe [simp]: "distinct (dedupe xs)" by (simp add: dedupe_def)
lemma dedupe_Nil [simp]: "dedupe [] = []" by (simp add: dedupe_def)
lemma dedupe_eq_Nil [simp]: "dedupe xs = [] \<longleftrightarrow> xs = []" by (simp add: dedupe_def)
lemma dedupe_distinct [simp]: "distinct xs \<Longrightarrow> dedupe xs = xs"
  by (simp add: dedupe_def distinct_remdups_id)
lemma length_dedupe_le: "length (dedupe xs) \<le> length xs"
  by (metis dedupe_def length_remdups_leq length_rev)

text \<open>\<open>x ?? d\<close>.\<close>

definition default_to :: "'a option \<Rightarrow> 'a \<Rightarrow> 'a" where
  "default_to x d = (case x of None \<Rightarrow> d | Some a \<Rightarrow> a)"

lemma default_to_simps [simp]: "default_to None d = d" "default_to (Some a) d = a"
  by (simp_all add: default_to_def)

text \<open>\<open>a ?? b\<close> where \<open>b\<close> may be missing too.\<close>

definition or_else :: "'a option \<Rightarrow> 'a option \<Rightarrow> 'a option" where
  "or_else a b = (case a of None \<Rightarrow> b | Some x \<Rightarrow> Some x)"

lemma or_else_simps [simp]: "or_else None b = b" "or_else (Some a) b = Some a"
  by (simp_all add: or_else_def)

definition head_opt :: "'a list \<Rightarrow> 'a option" where
  "head_opt xs = (case xs of [] \<Rightarrow> None | x # _ \<Rightarrow> Some x)"

lemma head_opt_simps [simp]: "head_opt [] = None" "head_opt (x # xs) = Some x"
  by (simp_all add: head_opt_def)

lemma head_opt_Some: "head_opt xs = Some x \<Longrightarrow> x \<in> set xs"
  by (cases xs) auto

lemma head_opt_None [simp]: "head_opt xs = None \<longleftrightarrow> xs = []"
  by (cases xs) auto

lemma distinct_map_filter_unique:
  assumes "distinct (map f xs)" "x \<in> set xs" "y \<in> set xs" "f x = f y"
  shows "x = y"
  using assms by (meson distinct_map inj_onD)

text \<open>JavaScript's stable \<open>sort\<close> by a comparison, as insertion into a sorted list: an element is placed
  before the first one it compares strictly below.  \<open>le x y\<close> stands for \<open>cmp(x, y) <= 0\<close>.\<close>

primrec insort_by :: "('a \<Rightarrow> 'a \<Rightarrow> bool) \<Rightarrow> 'a \<Rightarrow> 'a list \<Rightarrow> 'a list" where
  "insort_by le x [] = [x]"
| "insort_by le x (y # ys) = (if le x y then x # y # ys else y # insort_by le x ys)"

primrec sort_by :: "('a \<Rightarrow> 'a \<Rightarrow> bool) \<Rightarrow> 'a list \<Rightarrow> 'a list" where
  "sort_by le [] = []"
| "sort_by le (x # xs) = insort_by le x (sort_by le xs)"

lemma mset_insort_by [simp]: "mset (insort_by le x xs) = add_mset x (mset xs)"
  by (induction xs) auto

lemma mset_sort_by [simp]: "mset (sort_by le xs) = mset xs"
  by (induction xs) auto

lemma set_sort_by [simp]: "set (sort_by le xs) = set xs"
  by (metis mset_sort_by set_mset_mset)

lemma length_sort_by [simp]: "length (sort_by le xs) = length xs"
  by (metis mset_sort_by size_mset)

lemma distinct_sort_by [simp]: "distinct (sort_by le xs) = distinct xs"
  by (metis mset_sort_by mset_eq_imp_distinct_iff)

lemma set_insort_by [simp]: "set (insort_by le x xs) = insert x (set xs)"
  by (metis mset_insort_by set_mset_add_mset_insert set_mset_mset)

definition total_preorder :: "('a \<Rightarrow> 'a \<Rightarrow> bool) \<Rightarrow> bool" where
  "total_preorder le \<longleftrightarrow> (\<forall>x y. le x y \<or> le y x) \<and> (\<forall>x y z. le x y \<longrightarrow> le y z \<longrightarrow> le x z)"

lemma total_preorder_key [simp]: "total_preorder (\<lambda>x y. (f x :: 'b :: linorder) \<le> f y)"
  unfolding total_preorder_def by (meson linear order_trans)

lemma total_preorder_key_desc [simp]: "total_preorder (\<lambda>x y. (f y :: 'b :: linorder) \<le> f x)"
  unfolding total_preorder_def by (meson linear order_trans)

lemma sorted_insort_by:
  assumes "total_preorder le" "sorted_wrt le xs"
  shows "sorted_wrt le (insort_by le x xs)"
  using assms(2)
proof (induction xs)
  case (Cons y ys)
  show ?case
  proof (cases "le x y")
    case True
    then show ?thesis using Cons.prems assms(1) unfolding total_preorder_def by (auto; blast)
  next
    case False
    then have "le y x" using assms(1) unfolding total_preorder_def by blast
    then show ?thesis using False Cons by auto
  qed
qed simp

lemma sorted_sort_by: "total_preorder le \<Longrightarrow> sorted_wrt le (sort_by le xs)"
  by (induction xs) (auto intro: sorted_insort_by)

lemma sort_by_sorted: "sorted_wrt le xs \<Longrightarrow> sort_by le xs = xs"
proof (induction xs)
  case (Cons x xs)
  then show ?case by (cases xs) auto
qed simp

text \<open>Stability: elements that compare equal to each other both ways keep their order.\<close>

lemma filter_insort_by_same:
  assumes "\<not> P x" shows "filter P (insort_by le x xs) = filter P xs"
  using assms by (induction xs) auto

lemma filter_insort_by_eq:
  assumes "P x" "\<forall>y\<in>set xs. P y \<longrightarrow> le x y"
  shows "filter P (insort_by le x xs) = x # filter P xs"
  using assms by (induction xs) auto

lemma sort_by_stable:
  assumes "\<forall>x y. P x \<longrightarrow> P y \<longrightarrow> le x y"
  shows "filter P (sort_by le xs) = filter P xs"
proof (induction xs)
  case (Cons x xs)
  show ?case
  proof (cases "P x")
    case True
    have "\<forall>y\<in>set (sort_by le xs). P y \<longrightarrow> le x y" using True assms by blast
    then have "filter P (insort_by le x (sort_by le xs)) = x # filter P (sort_by le xs)"
      by (intro filter_insort_by_eq True)
    then show ?thesis using Cons.IH True by simp
  next
    case False
    then show ?thesis using Cons.IH filter_insort_by_same [of P x le] by simp
  qed
qed simp

lemma sort_by_eq_Nil [simp]: "sort_by le xs = [] \<longleftrightarrow> xs = []"
  by (metis length_0_conv length_sort_by)

lemma sort_by_hd_mem: "sort_by le xs = y # ys \<Longrightarrow> y \<in> set xs"
  by (metis list.set_intros(1) set_sort_by)

lemma hd_sort_by_le:
  assumes "total_preorder le" "sort_by le xs = y # ys" "z \<in> set xs"
  shows "le y z"
proof -
  have s: "sorted_wrt le (y # ys)" using sorted_sort_by [OF assms(1), of xs] assms(2) by simp
  have "z \<in> set (y # ys)" using assms(2,3) by (metis set_sort_by)
  moreover have "le y y" using assms(1) unfolding total_preorder_def by blast
  ultimately show ?thesis using s by auto
qed

text \<open>Sorting and filtering commute.\<close>

lemma insort_by_head: "\<forall>z\<in>set zs. le x z \<Longrightarrow> insort_by le x zs = x # zs"
  by (cases zs) auto

lemma filter_insort_by_le:
  "sorted_wrt le xs \<Longrightarrow> total_preorder le \<Longrightarrow> P x \<Longrightarrow> filter P (insort_by le x xs) = insort_by le x (filter P xs)"
proof (induction xs)
  case (Cons y ys)
  show ?case
  proof (cases "le x y")
    case True
    have "\<forall>z\<in>set (y # ys). le x z"
      using True Cons.prems(1,2) unfolding total_preorder_def by (auto; blast)
    then have "insort_by le x (filter P (y # ys)) = x # filter P (y # ys)" by (intro insort_by_head) auto
    then show ?thesis using True Cons.prems(3) by simp
  next
    case False
    then show ?thesis using Cons by auto
  qed
qed simp

lemma filter_sort_by:
  assumes "total_preorder le" shows "filter P (sort_by le xs) = sort_by le (filter P xs)"
proof (induction xs)
  case (Cons x xs)
  show ?case
  proof (cases "P x")
    case True
    then show ?thesis using Cons.IH filter_insort_by_le [OF sorted_sort_by [OF assms] assms] by simp
  next
    case False
    then show ?thesis using Cons.IH filter_insort_by_same [of P x le] by simp
  qed
qed simp

section \<open>Strings\<close>

text \<open>Strings are lists of Latin-1 code units.  \<open>trim\<close> strips JavaScript white space of that range;
  \<open>toLowerCase\<close> and \<open>toUpperCase\<close> map ASCII and Latin-1 letters one to one (the three Latin-1 letters
  whose upper case lies outside Latin-1 or has two letters are left alone).\<close>

definition code_unit :: "char \<Rightarrow> nat" where "code_unit c = of_char c"

definition is_ws :: "char \<Rightarrow> bool" where
  "is_ws c \<longleftrightarrow> (let n = code_unit c in (9 \<le> n \<and> n \<le> 13) \<or> n = 32 \<or> n = 160)"

definition js_trim :: "string \<Rightarrow> string" where
  "js_trim s = rev (dropWhile is_ws (rev (dropWhile is_ws s)))"

definition upper_char :: "char \<Rightarrow> char" where
  "upper_char c = (let n = code_unit c in
     if (97 \<le> n \<and> n \<le> 122) \<or> (224 \<le> n \<and> n \<le> 254 \<and> n \<noteq> 247) then char_of (n - 32) else c)"

definition lower_char :: "char \<Rightarrow> char" where
  "lower_char c = (let n = code_unit c in
     if (65 \<le> n \<and> n \<le> 90) \<or> (192 \<le> n \<and> n \<le> 222 \<and> n \<noteq> 215) then char_of (n + 32) else c)"

definition js_upper :: "string \<Rightarrow> string" where "js_upper = map upper_char"
definition js_lower :: "string \<Rightarrow> string" where "js_lower = map lower_char"

text \<open>\<open>s.replace(/\s+/g, " ")\<close>.\<close>

fun collapse_ws :: "string \<Rightarrow> string" where
  "collapse_ws [] = []"
| "collapse_ws [c] = (if is_ws c then '' '' else [c])"
| "collapse_ws (c # d # s) =
     (if is_ws c then (if is_ws d then collapse_ws (d # s) else CHR '' '' # collapse_ws (d # s))
      else c # collapse_ws (d # s))"

text \<open>\<open>s.startsWith(p)\<close> and \<open>s.includes(p)\<close>.\<close>

definition starts_with :: "string \<Rightarrow> string \<Rightarrow> bool" where
  "starts_with s p \<longleftrightarrow> take (length p) s = p"

fun includes_str :: "string \<Rightarrow> string \<Rightarrow> bool" where
  "includes_str [] p = (p = [])"
| "includes_str (c # s) p = (starts_with (c # s) p \<or> includes_str s p)"

text \<open>A \<open>contains\<close> filter of the database with \<open>mode: "insensitive"\<close>.\<close>

definition contains_ci :: "string \<Rightarrow> string \<Rightarrow> bool" where
  "contains_ci field q = includes_str (js_lower field) (js_lower q)"

text \<open>\<open>s.split(c)\<close> for a separator of one character.\<close>

fun split_on :: "char \<Rightarrow> string \<Rightarrow> string list" where
  "split_on c [] = [[]]"
| "split_on c (d # s) = (if d = c then [] # split_on c s
     else case split_on c s of [] \<Rightarrow> [[d]] | p # ps \<Rightarrow> (d # p) # ps)"

lemma includes_str_iff: "includes_str s p \<longleftrightarrow> (\<exists>a b. s = a @ p @ b)"
proof (induction s)
  case (Cons c s)
  show ?case
  proof
    assume "includes_str (c # s) p"
    then consider "starts_with (c # s) p" | "includes_str s p" by auto
    then show "\<exists>a b. c # s = a @ p @ b"
    proof cases
      case 1
      then have "c # s = [] @ p @ drop (length p) (c # s)"
        unfolding starts_with_def by (metis append_Nil append_take_drop_id)
      then show ?thesis by blast
    next
      case 2
      then obtain a b where "s = a @ p @ b" using Cons.IH by blast
      then have "c # s = (c # a) @ p @ b" by simp
      then show ?thesis by blast
    qed
  next
    assume "\<exists>a b. c # s = a @ p @ b"
    then obtain a b where e: "c # s = a @ p @ b" by blast
    show "includes_str (c # s) p"
    proof (cases a)
      case Nil
      then have "starts_with (c # s) p" using e by (simp add: starts_with_def)
      then show ?thesis by simp
    next
      case (Cons d a')
      then have "s = a' @ p @ b" using e by simp
      then show ?thesis using Cons.IH by auto
    qed
  qed
qed simp

lemma dropWhile_idem: "dropWhile P (dropWhile P xs) = dropWhile P xs"
  by (induction xs) auto

lemma js_trim_no_ws_ends:
  "js_trim s = [] \<or> \<not> is_ws (hd (js_trim s)) \<and> \<not> is_ws (last (js_trim s))"
proof (cases "js_trim s = []")
  case False
  let ?a = "dropWhile is_ws s"
  have a: "?a \<noteq> []"
  proof
    assume "?a = []"
    then have "js_trim s = []" by (simp only: js_trim_def) simp
    then show False using False by simp
  qed
  then have h: "\<not> is_ws (hd ?a)" by (rule hd_dropWhile)
  have d: "dropWhile is_ws (rev ?a) \<noteq> []" using False by (simp add: js_trim_def)
  then have "\<not> is_ws (last (js_trim s))"
    using hd_dropWhile [OF d] by (simp add: js_trim_def last_rev)
  moreover have "hd (js_trim s) = hd ?a"
  proof -
    obtain ys where y: "rev ?a = ys @ dropWhile is_ws (rev ?a)"
      by (metis takeWhile_dropWhile_id)
    then have "?a = js_trim s @ rev ys" unfolding js_trim_def by (metis rev_append rev_rev_ident)
    then show ?thesis using False by (metis hd_append2)
  qed
  ultimately show ?thesis using h by simp
qed simp

section \<open>Decimal numbers\<close>

text \<open>The decimal text of a number.\<close>

fun nat_text :: "nat \<Rightarrow> string" where
  "nat_text n = (if n < 10 then [char_of (48 + n)] else nat_text (n div 10) @ [char_of (48 + n mod 10)])"

declare nat_text.simps [simp del]

text \<open>\<open>Number(...)\<close> on a decimal text, as an inverse.\<close>

definition text_nat :: "string \<Rightarrow> nat" where
  "text_nat s = foldl (\<lambda>n c. 10 * n + (of_char c - 48)) 0 s"

lemma text_nat_text [simp]: "text_nat (nat_text n) = n"
proof (induction n rule: nat_text.induct)
  case (1 n)
  show ?case
  proof (cases "n < 10")
    case True
    then have "(48 + n) mod 256 = 48 + n" by simp
    then show ?thesis using True by (subst nat_text.simps) (simp add: text_nat_def)
  next
    case False
    have "(48 + n mod 10) mod 256 = 48 + n mod 10" by simp
    then have "text_nat (nat_text n) = 10 * text_nat (nat_text (n div 10)) + n mod 10"
      using False by (subst nat_text.simps) (simp add: text_nat_def)
    then show ?thesis using 1 [OF False] by simp
  qed
qed

lemma nat_text_inj: "nat_text m = nat_text n \<longleftrightarrow> m = n"
  by (metis text_nat_text)

lemma nat_text_not_Nil [simp]: "nat_text n \<noteq> []"
  by (subst nat_text.simps) simp

end
