(* ===== verification/FecaTables.thy ===== *)
theory FecaTables
  imports FecaPrelude
begin

text \<open>
  The Prisma client operations the repositories use, on a table held as the list of its rows in
  insertion order: \<open>findUnique\<close>, \<open>findMany\<close>, \<open>count\<close>, \<open>create\<close> (which fails with P2002 on a clash of a
  unique key), \<open>update\<close>, \<open>updateMany\<close> (which returns the number of rows it changed) and \<open>deleteMany\<close>.
  The locale \<open>claim_store\<close> is the contract of a guarded \<open>updateMany\<close> used as a compare-and-set: the
  first caller wins and every later one gets a count of 0.
\<close>

section \<open>Queries and updates\<close>

definition find_unique :: "('r \<Rightarrow> bool) \<Rightarrow> 'r list \<Rightarrow> 'r option" where
  "find_unique p t = find p t"

definition find_many :: "('r \<Rightarrow> bool) \<Rightarrow> 'r list \<Rightarrow> 'r list" where
  "find_many p t = filter p t"

definition count_rows :: "('r \<Rightarrow> bool) \<Rightarrow> 'r list \<Rightarrow> nat" where
  "count_rows p t = length (filter p t)"

definition create_row :: "('r \<Rightarrow> 'k) \<Rightarrow> 'r \<Rightarrow> 'r list \<Rightarrow> 'r list option" where
  "create_row key r t = (if key r \<in> set (map key t) then None else Some (t @ [r]))"

definition update_many :: "('r \<Rightarrow> bool) \<Rightarrow> ('r \<Rightarrow> 'r) \<Rightarrow> 'r list \<Rightarrow> 'r list" where
  "update_many p f t = map (\<lambda>r. if p r then f r else r) t"

definition delete_many :: "('r \<Rightarrow> bool) \<Rightarrow> 'r list \<Rightarrow> 'r list" where
  "delete_many p t = filter (\<lambda>r. \<not> p r) t"

text \<open>\<open>createMany\<close> with \<open>skipDuplicates\<close>.\<close>

primrec create_many_skip :: "('r \<Rightarrow> 'k) \<Rightarrow> 'r list \<Rightarrow> 'r list \<Rightarrow> 'r list" where
  "create_many_skip key [] t = t"
| "create_many_skip key (r # rs) t =
     create_many_skip key rs (case create_row key r t of None \<Rightarrow> t | Some t' \<Rightarrow> t')"

abbreviation unique_key :: "('r \<Rightarrow> 'k) \<Rightarrow> 'r list \<Rightarrow> bool" where
  "unique_key key t \<equiv> distinct (map key t)"

lemma find_unique_Some:
  "find_unique p t = Some r \<Longrightarrow> r \<in> set t \<and> p r"
  by (auto simp: find_unique_def find_Some_iff)

lemma find_unique_None: "find_unique p t = None \<longleftrightarrow> (\<forall>r\<in>set t. \<not> p r)"
  by (auto simp: find_unique_def find_None_iff)

lemma find_unique_Nil [simp]: "find_unique p [] = None" by (simp add: find_unique_def)

lemma find_unique_Cons [simp]:
  "find_unique p (r # t) = (if p r then Some r else find_unique p t)"
  by (simp add: find_unique_def)

lemma find_unique_append:
  "find_unique p (t @ u) = (case find_unique p t of Some r \<Rightarrow> Some r | None \<Rightarrow> find_unique p u)"
  by (induction t) auto

lemma find_unique_key:
  assumes "unique_key key t" "r \<in> set t"
  shows "find_unique (\<lambda>x. key x = key r) t = Some r"
proof (cases "find_unique (\<lambda>x. key x = key r) t")
  case None
  then show ?thesis using assms(2) by (auto simp: find_unique_None)
next
  case (Some q)
  then have "q \<in> set t" "key q = key r" using find_unique_Some [OF Some] by auto
  then have "q = r" using assms distinct_map_filter_unique by metis
  then show ?thesis using Some by simp
qed

lemma set_find_many [simp]: "set (find_many p t) = {r \<in> set t. p r}"
  by (auto simp: find_many_def)

lemma set_delete_many [simp]: "set (delete_many p t) = {r \<in> set t. \<not> p r}"
  by (auto simp: delete_many_def)

lemma set_update_many:
  "set (update_many p f t) = (\<lambda>r. if p r then f r else r) ` set t"
  by (simp add: update_many_def)

lemma update_many_Nil [simp]: "update_many p f [] = []" by (simp add: update_many_def)

lemma update_many_Cons [simp]:
  "update_many p f (r # t) = (if p r then f r else r) # update_many p f t"
  by (simp add: update_many_def)

lemma update_many_append [simp]:
  "update_many p f (t @ u) = update_many p f t @ update_many p f u"
  by (simp add: update_many_def)

lemma map_key_update_many:
  assumes "\<And>r. key (f r) = key r"
  shows "map key (update_many p f t) = map key t"
  using assms by (simp add: update_many_def)

lemma update_many_noop: "\<forall>r\<in>set t. \<not> p r \<Longrightarrow> update_many p f t = t"
  by (simp add: update_many_def map_idI)

lemma unique_key_create:
  "unique_key key t \<Longrightarrow> create_row key r t = Some t' \<Longrightarrow> unique_key key t'"
  by (auto simp: create_row_def split: if_splits)

lemma unique_key_delete: "unique_key key t \<Longrightarrow> unique_key key (delete_many p t)"
  by (simp add: delete_many_def distinct_map_filter)

lemma unique_key_create_many:
  "unique_key key t \<Longrightarrow> unique_key key (create_many_skip key rs t)"
  by (induction rs arbitrary: t) (auto split: option.splits intro: unique_key_create)

lemma create_many_skip_set:
  "r \<in> set (create_many_skip key rs t) \<Longrightarrow> r \<in> set t \<or> r \<in> set rs"
proof (induction rs arbitrary: t)
  case (Cons q rs)
  then have "r \<in> set (case create_row key q t of None \<Rightarrow> t | Some t' \<Rightarrow> t') \<or> r \<in> set rs"
    by (metis create_many_skip.simps(2))
  then show ?case by (auto simp: create_row_def split: if_splits)
qed simp

lemma create_many_skip_fresh:
  assumes "\<forall>r\<in>set rs. key r \<notin> set (map key t)" "distinct (map key rs)"
  shows "create_many_skip key rs t = t @ rs"
  using assms
proof (induction rs arbitrary: t)
  case (Cons r rs)
  have "create_row key r t = Some (t @ [r])" using Cons.prems by (simp add: create_row_def)
  moreover have "create_many_skip key rs (t @ [r]) = (t @ [r]) @ rs"
  proof (rule Cons.IH)
    have "key q \<noteq> key r" if "q \<in> set rs" for q using that Cons.prems(2) by (metis distinct.simps(2) imageI list.map(2) list.set_map)
    then show "\<forall>q\<in>set rs. key q \<notin> set (map key (t @ [r]))" using Cons.prems(1) by auto
  qed (use Cons.prems in simp)
  ultimately show ?case by simp
qed simp

lemma find_unique_update_many_other:
  assumes "\<And>r. p r \<Longrightarrow> \<not> q r" "\<And>r. p r \<Longrightarrow> \<not> q (f r)"
  shows "find_unique q (update_many p f t) = find_unique q t"
  using assms by (induction t) auto

lemma find_unique_update_many_same:
  assumes "\<And>r. q (f r) = q r"
  shows "find_unique q (update_many p f t) =
         map_option (\<lambda>r. if p r then f r else r) (find_unique q t)"
  using assms by (induction t) auto

lemma filter_update_many_other:
  assumes "\<And>r. p r \<Longrightarrow> \<not> q r" "\<And>r. p r \<Longrightarrow> \<not> q (f r)"
  shows "filter q (update_many p f t) = filter q t"
  using assms by (induction t) auto

section \<open>Guarded updates as compare-and-set\<close>

text \<open>\<open>claim k a s\<close> is a guarded \<open>updateMany\<close> on the row \<open>k\<close> with the new data \<open>a\<close>: it returns the number of
  rows it changed and the new state.  A run of claims by competing callers, in the order the database
  serialises them, gives for each whether it changed a row.\<close>

primrec run_claims :: "('k \<Rightarrow> 'a \<Rightarrow> 's \<Rightarrow> nat \<times> 's) \<Rightarrow> ('k \<times> 'a) list \<Rightarrow> 's \<Rightarrow> bool list \<times> 's" where
  "run_claims claim [] s = ([], s)"
| "run_claims claim (c # cs) s =
     (let (n, s') = claim (fst c) (snd c) s; (ws, s'') = run_claims claim cs s'
      in ((0 < n) # ws, s''))"

definition count_wins :: "('k \<Rightarrow> 'a \<Rightarrow> 's \<Rightarrow> nat \<times> 's) \<Rightarrow> 'k \<Rightarrow> ('k \<times> 'a) list \<Rightarrow> 's \<Rightarrow> nat" where
  "count_wins claim k cs s =
     length (filter (\<lambda>(c, won). fst c = k \<and> won) (zip cs (fst (run_claims claim cs s))))"

text \<open>\<open>free k s\<close> says that the guard holds for the row \<open>k\<close>.\<close>

locale claim_store =
  fixes claim :: "'k \<Rightarrow> 'a \<Rightarrow> 's \<Rightarrow> nat \<times> 's"
    and free :: "'k \<Rightarrow> 's \<Rightarrow> bool"
  assumes claim_wins: "0 < fst (claim k a s) \<longleftrightarrow> free k s"
    and claim_takes: "\<not> free k (snd (claim k a s))"
    and claim_frame: "j \<noteq> k \<Longrightarrow> free j (snd (claim k a s)) = free j s"
begin

lemma wins_Nil: "count_wins claim k [] s = 0"
  by (simp add: count_wins_def)

lemma wins_Cons:
  "count_wins claim k (c # cs) s =
   (if fst c = k \<and> free k s then 1 else 0) + count_wins claim k cs (snd (claim (fst c) (snd c) s))"
proof -
  obtain n s' where c: "claim (fst c) (snd c) s = (n, s')" by force
  obtain ws s'' where d: "run_claims claim cs s' = (ws, s'')" by force
  have "0 < n \<longleftrightarrow> free (fst c) s" using claim_wins [of "fst c" "snd c" s] c by simp
  then show ?thesis by (auto simp: count_wins_def c d)
qed

lemma wins_not_free: "\<not> free k s \<Longrightarrow> count_wins claim k cs s = 0"
proof (induction cs arbitrary: s)
  case (Cons c cs)
  have "\<not> free k (snd (claim (fst c) (snd c) s))"
    using Cons.prems claim_takes [of k "snd c" s] claim_frame [of k "fst c" "snd c" s]
    by (cases "fst c = k") auto
  with Cons show ?case by (simp add: wins_Cons)
qed (simp add: wins_Nil)

text \<open>Of any number of competing claims on a free row exactly one wins.\<close>

lemma one_winner: "free k s \<Longrightarrow> k \<in> fst ` set cs \<Longrightarrow> count_wins claim k cs s = 1"
proof (induction cs arbitrary: s)
  case (Cons c cs)
  show ?case
  proof (cases "fst c = k")
    case True
    then show ?thesis using Cons.prems claim_takes [of k "snd c" s]
      by (simp add: wins_Cons wins_not_free)
  next
    case False
    then have "free k (snd (claim (fst c) (snd c) s))"
      using Cons.prems(1) claim_frame [of k "fst c" "snd c" s] by simp
    then show ?thesis using False Cons by (simp add: wins_Cons image_iff)
  qed
qed simp

lemma second_claim_loses: "fst (claim k b (snd (claim k a s))) = 0"
  using claim_takes [of k a s] claim_wins [of k b "snd (claim k a s)"] by simp

end

section \<open>Keyset pagination\<close>

text \<open>A client that follows the cursor of each page, for at most \<open>n\<close> pages: the cursor is the key of the
  last row of the page, and it stops when a page says there is no more.\<close>

primrec walk_pages ::
  "('k option \<Rightarrow> 'r list \<times> bool) \<Rightarrow> ('r \<Rightarrow> 'k) \<Rightarrow> nat \<Rightarrow> 'k option \<Rightarrow> 'r list" where
  "walk_pages page key 0 c = []"
| "walk_pages page key (Suc n) c =
     (let (rows, more) = page c
      in rows @ (if more then walk_pages page key n (Some (key (last rows))) else []))"

text \<open>The same client at a service that encodes its cursors as strings and may refuse a call.\<close>

primrec follow_cursor :: "(string option \<Rightarrow> 'e + (string option \<times> 'v list)) \<Rightarrow> nat \<Rightarrow> string option \<Rightarrow> 'v list" where
  "follow_cursor call 0 c = []"
| "follow_cursor call (Suc n) c = (case call c of
     Inl _ \<Rightarrow> []
   | Inr (nxt, vs) \<Rightarrow> vs @ (case nxt of None \<Rightarrow> [] | Some _ \<Rightarrow> follow_cursor call n nxt))"

text \<open>The contract of a page: the first \<open>limit\<close> rows after the cursor in a strict order of the keys, and
  whether more follow.\<close>

locale keyset_pages =
  fixes before :: "'k \<Rightarrow> 'k \<Rightarrow> bool"
    and key :: "'r \<Rightarrow> 'k"
    and rows :: "'s \<Rightarrow> 'r list"
    and ok :: "'s \<Rightarrow> bool"
    and page :: "'s \<Rightarrow> nat \<Rightarrow> 'k option \<Rightarrow> 'r list \<times> bool"
  assumes before_trans: "before i j \<Longrightarrow> before j k \<Longrightarrow> before i k"
    and before_irrefl: "\<not> before i i"
    and rows_sorted: "ok s \<Longrightarrow> sorted_wrt (\<lambda>a b. before (key a) (key b)) (rows s)"
    and page_spec: "ok s \<Longrightarrow> page s l c =
      (let xs = filter (\<lambda>r. case c of None \<Rightarrow> True | Some k \<Rightarrow> before k (key r)) (rows s)
       in (take l xs, l < length xs))"
begin

lemma filter_after:
  assumes "sorted_wrt (\<lambda>a b. before (key a) (key b)) (xs @ y # ys)"
  shows "filter (\<lambda>r. before (key y) (key r)) (xs @ y # ys) = ys"
proof -
  have "before (key x) (key y)" if "x \<in> set xs" for x
    using assms that by (simp add: sorted_wrt_append)
  then have "\<forall>x\<in>set xs. \<not> before (key y) (key x)"
    using before_trans before_irrefl by blast
  moreover have "\<forall>z\<in>set ys. before (key y) (key z)"
    using assms by (simp add: sorted_wrt_append)
  ultimately show ?thesis using before_irrefl by (simp add: filter_empty_conv filter_id_conv)
qed

lemma after_cursor:
  assumes "ok s" "rows s = xs @ ys" "c = (if xs = [] then None else Some (key (last xs)))"
  shows "filter (\<lambda>r. case c of None \<Rightarrow> True | Some k \<Rightarrow> before k (key r)) (rows s) = ys"
proof (cases xs rule: rev_cases)
  case Nil
  then show ?thesis using assms by simp
next
  case (snoc zs z)
  have "sorted_wrt (\<lambda>a b. before (key a) (key b)) (zs @ z # ys)"
    using rows_sorted [OF assms(1)] assms(2) snoc by simp
  from filter_after [OF this] show ?thesis using assms snoc by simp
qed

lemma page_after:
  assumes "ok s" "rows s = xs @ ys" "c = (if xs = [] then None else Some (key (last xs)))"
  shows "page s l c = (take l ys, l < length ys)"
  unfolding page_spec [OF assms(1)] after_cursor [OF assms] Let_def ..

lemma walk_from:
  assumes "ok s" "0 < l" "rows s = xs @ ys" "length ys \<le> n"
    and "c = (if xs = [] then None else Some (key (last xs)))"
  shows "walk_pages (page s l) key (Suc n) c = ys"
  using assms(3-5)
proof (induction n arbitrary: xs ys c)
  case (0 xs ys c)
  have "page s l c = (take l ys, l < length ys)" using page_after [OF assms(1) 0(1,3)] .
  then show ?case using 0(2) by simp
next
  case (Suc n xs ys c)
  have pg: "page s l c = (take l ys, l < length ys)"
    using page_after [OF assms(1) Suc.prems(1,3)] .
  show ?case
  proof (cases "l < length ys")
    case False
    then show ?thesis using pg by simp
  next
    case True
    then have ne: "take l ys \<noteq> []" using assms(2) by auto
    have "walk_pages (page s l) key (Suc n) (Some (key (last (take l ys)))) = drop l ys"
    proof (rule Suc.IH)
      show "rows s = (xs @ take l ys) @ drop l ys" using Suc.prems(1) by simp
      show "length (drop l ys) \<le> n" using Suc.prems(2) assms(2) by simp
      show "Some (key (last (take l ys))) =
          (if xs @ take l ys = [] then None else Some (key (last (xs @ take l ys))))"
        using ne by simp
    qed
    moreover have "walk_pages (page s l) key (Suc (Suc n)) c =
        take l ys @ walk_pages (page s l) key (Suc n) (Some (key (last (take l ys))))"
      using pg True by (simp only: walk_pages.simps(2) [of _ _ "Suc n"] Let_def prod.case if_True)
    ultimately show ?thesis by simp
  qed
qed

text \<open>Following the cursors reads every row exactly once, in order.\<close>

lemma walk_all:
  assumes "ok s" "0 < l" "length (rows s) \<le> n"
  shows "walk_pages (page s l) key (Suc n) None = rows s"
  using walk_from [OF assms(1,2), of "[]" "rows s" n None] assms(3) by simp

lemma page_more:
  assumes "ok s" "0 < l" "page s l c = (rs, True)"
  shows "rs \<noteq> [] \<and> set rs \<subseteq> set (rows s)"
proof -
  let ?xs = "filter (\<lambda>r. case c of None \<Rightarrow> True | Some k \<Rightarrow> before k (key r)) (rows s)"
  have "(rs, True) = (take l ?xs, l < length ?xs)"
    using page_spec [OF assms(1), of l c] assms(3) by (simp only: Let_def)
  then have rs: "rs = take l ?xs" "l < length ?xs" by (simp_all only: prod.inject)
  have "set rs \<subseteq> set ?xs" unfolding rs(1) by (rule set_take_subset)
  moreover have "?xs \<noteq> []" using rs(2) by (metis list.size(3) not_less0)
  then have "rs \<noteq> []" unfolding rs(1) using assms(2) by (simp only: take_eq_Nil) simp
  ultimately show ?thesis by (meson filter_is_subset subset_trans)
qed

lemma follow_walk:
  assumes "ok s" "0 < l"
    and call: "\<And>c. (case c of None \<Rightarrow> True | Some k \<Rightarrow> k \<in> key ` set (rows s)) \<Longrightarrow>
      call (map_option enc c) = Inr (let (rs, more) = page s l c
        in (if more then Some (enc (key (last rs))) else None, map view rs))"
    and "case c of None \<Rightarrow> True | Some k \<Rightarrow> k \<in> key ` set (rows s)"
  shows "follow_cursor call n (map_option enc c) = map view (walk_pages (page s l) key n c)"
  using assms(4)
proof (induction n arbitrary: c)
  case (Suc n)
  obtain rs more where pg: "page s l c = (rs, more)" by force
  show ?case
  proof (cases more)
    case True
    then have "rs \<noteq> []" "set rs \<subseteq> set (rows s)" using page_more [OF assms(1,2)] pg by auto
    then have "key (last rs) \<in> key ` set (rows s)" by (meson imageI last_in_set subsetD)
    then have "follow_cursor call n (map_option enc (Some (key (last rs)))) =
        map view (walk_pages (page s l) key n (Some (key (last rs))))"
      by (intro Suc.IH) simp
    then show ?thesis using True by (simp add: call [OF Suc.prems] pg)
  qed (simp add: call [OF Suc.prems] pg)
qed simp

lemma follow_all:
  assumes "ok s" "0 < l" "length (rows s) \<le> n"
    and "\<And>c. (case c of None \<Rightarrow> True | Some k \<Rightarrow> k \<in> key ` set (rows s)) \<Longrightarrow>
      call (map_option enc c) = Inr (let (rs, more) = page s l c
        in (if more then Some (enc (key (last rs))) else None, map view rs))"
  shows "follow_cursor call (Suc n) None = map view (rows s)"
  using follow_walk [OF assms(1,2,4), where c = None and n = "Suc n"] walk_all [OF assms(1,2,3)] by simp

end

section \<open>Transition systems\<close>

text \<open>A system of atomic operations with an initial condition: an invariant that holds initially and that
  every step keeps holds in every reachable state.\<close>

locale transition_system =
  fixes init :: "'s \<Rightarrow> bool"
    and stepr :: "'s \<Rightarrow> 's \<Rightarrow> bool"
    and inv :: "'s \<Rightarrow> bool"
  assumes inv_init: "init s \<Longrightarrow> inv s"
    and inv_step: "inv s \<Longrightarrow> stepr s t \<Longrightarrow> inv t"
begin

lemma inv_steps: "stepr\<^sup>*\<^sup>* s t \<Longrightarrow> inv s \<Longrightarrow> inv t"
  by (induction rule: rtranclp_induct) (auto intro: inv_step)

lemma inv_reachable: "init s \<Longrightarrow> stepr\<^sup>*\<^sup>* s t \<Longrightarrow> inv t"
  by (blast intro: inv_steps inv_init)

end

section \<open>JavaScript maps\<close>

text \<open>A \<open>Map\<close> as the list of its entries in insertion order; \<open>set\<close> keeps the position of a key it holds.  The
  locale \<open>keyed_store\<close> is what the clients of a map rely on: what \<open>get\<close> returns after a \<open>set\<close>.  \<open>upsert\<close> is
  the loop body the code repeats: store the value, combined with the one already there.\<close>

definition put_entry :: "'k \<Rightarrow> 'v \<Rightarrow> ('k \<times> 'v) list \<Rightarrow> ('k \<times> 'v) list" where
  "put_entry k x m = (if k \<in> set (map fst m) then map (\<lambda>(j, y). (j, if j = k then x else y)) m else m @ [(k, x)])"

locale keyed_store =
  fixes put :: "'k \<Rightarrow> 'v \<Rightarrow> 'm \<Rightarrow> 'm"
    and fetch :: "'m \<Rightarrow> 'k \<Rightarrow> 'v option"
  assumes fetch_put: "fetch (put k v m) = (fetch m)(k \<mapsto> v)"
begin

definition upsert :: "('v \<Rightarrow> 'v \<Rightarrow> 'v) \<Rightarrow> 'm \<Rightarrow> 'k \<times> 'v \<Rightarrow> 'm" where
  "upsert combine m x = put (fst x) (case fetch m (fst x) of None \<Rightarrow> snd x | Some v \<Rightarrow> combine v (snd x)) m"

definition gather :: "('v \<Rightarrow> 'v \<Rightarrow> 'v) \<Rightarrow> 'v option \<Rightarrow> 'v list \<Rightarrow> 'v option" where
  "gather combine = foldl (\<lambda>acc v. Some (case acc of None \<Rightarrow> v | Some u \<Rightarrow> combine u v))"

lemma fetch_upsert:
  "fetch (upsert combine m x) k = (if k = fst x then gather combine (fetch m k) [snd x] else fetch m k)"
  by (simp add: upsert_def gather_def fetch_put)

lemma fetch_upserts:
  "fetch (foldl (upsert combine) m xs) k = gather combine (fetch m k) (map snd (filter (\<lambda>x. fst x = k) xs))"
proof (induction xs arbitrary: m)
  case (Cons x xs)
  then show ?case by (simp add: fetch_upsert gather_def)
qed (simp add: gather_def)

lemma gather_Some:
  "gather combine (Some v) vs = Some (foldl combine v vs)"
  unfolding gather_def by (induction vs arbitrary: v) simp_all

lemma gather_None: "gather combine None vs = (case vs of [] \<Rightarrow> None | v # us \<Rightarrow> Some (foldl combine v us))"
  using gather_Some by (cases vs) (simp_all add: gather_def)

end

lemma map_of_put_entry: "map_of (put_entry k v m) = (map_of m)(k \<mapsto> v)"
proof
  fix j
  have "map_of (map (\<lambda>(i, y). (i, if i = k then v else y)) m) j = (map_option (\<lambda>y. if j = k then v else y) (map_of m j))"
    by (induction m) auto
  moreover have "k \<notin> set (map fst m) \<longleftrightarrow> map_of m k = None" by (simp add: map_of_eq_None_iff)
  ultimately show "map_of (put_entry k v m) j = ((map_of m)(k \<mapsto> v)) j"
    by (cases "map_of m k"; cases "j = k"; cases "map_of m j") (simp_all add: put_entry_def map_add_def)
qed

interpretation js_map: keyed_store put_entry map_of
  by unfold_locales (rule map_of_put_entry)

lemma put_entry_mem: "(j, y) \<in> set (put_entry k x m) \<Longrightarrow> (j, y) \<in> set m \<or> y = x"
  by (auto simp: put_entry_def split: if_splits)

lemma put_entry_keys: "map fst (put_entry k x m) = (if k \<in> set (map fst m) then map fst m else map fst m @ [k])"
  by (auto simp: put_entry_def comp_def case_prod_unfold)

lemma distinct_put_entry: "distinct (map fst m) \<Longrightarrow> distinct (map fst (put_entry k x m))"
  by (simp add: put_entry_keys)

abbreviation map_upsert :: "('v \<Rightarrow> 'v \<Rightarrow> 'v) \<Rightarrow> ('k \<times> 'v) list \<Rightarrow> 'k \<times> 'v \<Rightarrow> ('k \<times> 'v) list" where
  "map_upsert combine m x \<equiv>
     put_entry (fst x) (case map_of m (fst x) of None \<Rightarrow> snd x | Some v \<Rightarrow> combine v (snd x)) m"

lemma map_upserts_fetch:
  "map_of (foldl (map_upsert combine) m xs) k = js_map.gather combine (map_of m k) (map snd (filter (\<lambda>x. fst x = k) xs))"
  by (rule js_map.fetch_upserts [unfolded js_map.upsert_def])

lemma distinct_map_upserts: "distinct (map fst m) \<Longrightarrow> distinct (map fst (foldl (map_upsert combine) m xs))"
  by (induction xs arbitrary: m) (simp_all add: distinct_put_entry)

lemma map_upserts_keys:
  "set (map fst (foldl (map_upsert combine) m xs)) = set (map fst m) \<union> set (map fst xs)"
proof (induction xs arbitrary: m)
  case (Cons x xs)
  have "set (map fst (map_upsert combine m x)) = insert (fst x) (set (map fst m))" unfolding put_entry_keys by auto
  then show ?case unfolding foldl_Cons Cons by auto
qed simp

end
