(* ===== verification/FecaDb.thy ===== *)
theory FecaDb
  imports Complex_Main "HOL-Library.List_Lexorder" "HOL-Library.Char_ord" FecaTables
begin

text \<open>
  The database of the service: the Prisma enums as datatypes, the models as records, the whole
  database as the record \<open>db\<close> with one field per table (\<open>src/prisma/schema.prisma\<close>).  Times are
  milliseconds since the epoch.  The clock a request reads (\<open>db_now\<close>) and the supply of fresh cuids
  (\<open>db_cuid\<close>, \<open>db_next\<close>) are fields of the state; \<open>wf_db\<close> collects the unique keys of the schema.
\<close>

section \<open>JSON columns\<close>

datatype json =
    JNull
  | JBool bool
  | JNum rat
  | JStr string
  | JArr "json list"
  | JObj "(string \<times> json) list"

section \<open>Enums\<close>

datatype content_visibility = CPublic | CFollowers | CPrivate
datatype group_invite_policy = Anyone | FollowingOnly | MutualsOnly
datatype group_event_status = EProposed | EAnnouncement | EConfirmed | ECompleted | ECancelled
datatype group_visibility = GPrivate | GPublicFollowers | GPublic
datatype group_join_policy = JOpen | JRequestApproval | JInviteOnly
datatype place_proposal_policy = AllMembers | OwnerOnly
datatype member_proposal_interaction = Collaborative | AnnouncementLocked
datatype member_role = Owner | Admin | Member
datatype member_status = MPending | MRequested | MAccepted | MDeclined | MLeft
datatype place_source = SrcGoogle | SrcManual
datatype would_return = WYes | WMaybe | WNo
datatype guide_visibility = DPrivate | DUnlisted | DPublic
datatype rsvp_status = RGoing | RMaybe | RDeclined

datatype notification_type =
    NFollow | NGroupInvite | NGroupJoined | NGroupJoinRequest | NGroupJoinApproved
  | NGroupJoinRejected | NGroupMessage | NGroupReport | NGroupEventProposed | NGroupEventRsvp
  | NVisitCreated | NDiaryPublished | NGroupInviteReminder | NGroupEventRsvpReminder
  | NGroupEventTodayReminder | NWeeklyDigest | NContextualRecommendation

datatype entity_type = EntUser | EntGroup | EntGroupEvent | EntVisit | EntDiary | EntPlace

datatype push_provider = Expo
datatype push_platform = Ios | Android
datatype delivery_status = PPending | PTicketed | PDelivered | PFailed | PCancelled

datatype import_status =
    IPending | IAuthorizing | IFetching | IProcessing | IComplete | IFailed | IRevoked
datatype import_consent = OneTime | TimeBased
datatype import_item_kind = SavedPlace | VisitItem
datatype import_confidence = CHigh | CMedium | CLow
datatype import_item_status = ItParsed | ItMatched | ItSkipped | ItManualReview

section \<open>Rows\<close>

record user_row =
  u_id :: string
  u_email :: string
  u_email_verified :: bool
  u_username :: string
  u_display_name :: string
  u_avatar :: "string option"
  u_bio :: "string option"
  u_city :: "string option"
  u_city_id :: "string option"
  u_lat :: "rat option"
  u_lng :: "rat option"
  u_taste_ids :: "string list"
  u_outing :: "json option"
  u_created :: int
  u_is_editor :: bool

record identity_row =
  ai_id :: string
  ai_user :: string
  ai_provider_user :: string
  ai_email :: string
  ai_email_verified :: bool

record session_row =
  ss_id :: string
  ss_user :: string
  ss_hash :: string
  ss_agent :: "string option"
  ss_ip :: "string option"
  ss_expires :: int
  ss_revoked :: "int option"

record settings_row =
  st_user :: string
  st_activity :: content_visibility
  st_diary :: content_visibility
  st_invite :: group_invite_policy
  st_push :: bool

record follow_row =
  fo_follower :: string
  fo_followed :: string
  fo_created :: int

record place_row =
  pl_id :: string
  pl_google_id :: "string option"
  pl_name :: string
  pl_address :: string
  pl_city :: string
  pl_city_id :: "string option"
  pl_lat :: "rat option"
  pl_lng :: "rat option"
  pl_categories :: "string list"
  pl_photo :: "string option"
  pl_hidden :: bool
  pl_source :: place_source
  pl_rating :: "rat option"
  pl_rating_count :: "int option"
  pl_phone :: "string option"
  pl_website :: "string option"
  pl_hours :: "string list"
  pl_maps_uri :: "string option"
  pl_photo_ref :: "string option"
  pl_synced :: "int option"
  pl_created :: int
  pl_updated :: int

record city_row =
  ci_id :: string
  ci_google_id :: string
  ci_name :: string
  ci_display :: string
  ci_lat :: "rat option"
  ci_lng :: "rat option"
  ci_created :: int
  ci_updated :: int

record visit_row =
  vi_id :: string
  vi_place :: string
  vi_user :: string
  vi_rating :: int
  vi_note :: string
  vi_tags :: "string list"
  vi_would_return :: "would_return option"
  vi_noise :: "int option"
  vi_wifi :: "int option"
  vi_wait :: "int option"
  vi_visited :: int
  vi_created :: int
  vi_ordered :: "string option"
  vi_price :: "int option"
  vi_photos :: "string list"
  vi_detail_tags :: "string list"
  vi_parking :: "bool option"
  vi_pets :: "bool option"

record user_tag_row =
  ut_user :: string
  ut_label :: string
  ut_updated :: int

record place_tag_row =
  pt_user :: string
  pt_place :: string
  pt_label :: string
  pt_updated :: int

record curation_row =
  cu_id :: string
  cu_place :: string
  cu_city :: "string option"
  cu_boost :: int
  cu_pick :: bool
  cu_label :: "string option"
  cu_active :: bool
  cu_badge :: bool
  cu_expires :: "int option"
  cu_created_by :: string
  cu_created :: int
  cu_updated :: int

record save_row =
  sv_user :: string
  sv_place :: string
  sv_reason :: "string option"
  sv_created :: int

record group_row =
  g_id :: string
  g_name :: string
  g_description :: "string option"
  g_created_by :: string
  g_invite_code :: string
  g_visibility :: group_visibility
  g_join_policy :: group_join_policy
  g_proposal_policy :: place_proposal_policy
  g_interaction :: member_proposal_interaction
  g_created :: int

record member_row =
  gm_id :: string
  gm_group :: string
  gm_user :: string
  gm_inviter :: "string option"
  gm_role :: member_role
  gm_status :: member_status
  gm_created :: int

record event_row =
  ev_id :: string
  ev_group :: string
  ev_place :: string
  ev_proposer :: string
  ev_date :: int
  ev_status :: group_event_status
  ev_created :: int

record message_row =
  ms_id :: string
  ms_group :: string
  ms_author :: string
  ms_body :: string
  ms_created :: int
  ms_deleted :: "int option"

record rsvp_row =
  rs_event :: string
  rs_user :: string
  rs_rsvp :: rsvp_status

record diary_row =
  di_id :: string
  di_name :: string
  di_description :: "string option"
  di_created_by :: string
  di_intro :: "string option"
  di_editorial :: "string option"
  di_cover :: "string option"
  di_visibility :: guide_visibility
  di_published :: "int option"
  di_city :: "string option"
  di_created :: int

record diary_place_row =
  dp_diary :: string
  dp_place :: string
  dp_position :: int
  dp_note :: "string option"
  dp_created :: int

record notification_row =
  n_id :: string
  n_user :: string
  n_actor :: "string option"
  n_type :: notification_type
  n_entity :: "(string \<times> entity_type) option"
  n_dedupe :: "string option"
  n_payload :: json
  n_read :: "int option"
  n_created :: int

record installation_row =
  pi_id :: string
  pi_user :: string
  pi_provider :: push_provider
  pi_installation :: string
  pi_token :: string
  pi_platform :: push_platform
  pi_timezone :: string
  pi_last_seen :: int
  pi_disabled :: "int option"
  pi_revoked :: "int option"
  pi_created :: int

record delivery_row =
  pd_id :: string
  pd_notification :: string
  pd_installation :: string
  pd_status :: delivery_status
  pd_scheduled :: int
  pd_attempts :: nat
  pd_ticket :: "string option"
  pd_error :: "string option"
  pd_sent :: "int option"
  pd_delivered :: "int option"
  pd_failed :: "int option"
  pd_created :: int
  pd_updated :: int

record import_row =
  im_id :: string
  im_user :: string
  im_status :: import_status
  im_scopes :: json
  im_consent :: import_consent
  im_job :: "string option"
  im_state :: "string option"
  im_urls :: "string list option"
  im_access :: "string option"
  im_refresh :: "string option"
  im_expires :: "int option"
  im_error :: "string option"
  im_created :: int
  im_updated :: int
  im_completed :: "int option"

record import_item_row =
  ii_id :: string
  ii_import :: string
  ii_group :: string
  ii_source_key :: string
  ii_title :: "string option"
  ii_url :: "string option"
  ii_payload :: json
  ii_place :: "string option"
  ii_kind :: import_item_kind
  ii_confidence :: import_confidence
  ii_status :: import_item_status
  ii_created :: int

section \<open>The database\<close>

record db =
  db_now :: int
  db_cuid :: "nat \<Rightarrow> string"
  db_next :: nat
  t_users :: "user_row list"
  t_identities :: "identity_row list"
  t_sessions :: "session_row list"
  t_settings :: "settings_row list"
  t_follows :: "follow_row list"
  t_places :: "place_row list"
  t_cities :: "city_row list"
  t_visits :: "visit_row list"
  t_saves :: "save_row list"
  t_groups :: "group_row list"
  t_members :: "member_row list"
  t_events :: "event_row list"
  t_messages :: "message_row list"
  t_rsvps :: "rsvp_row list"
  t_diaries :: "diary_row list"
  t_diary_places :: "diary_place_row list"
  t_notifications :: "notification_row list"
  t_installations :: "installation_row list"
  t_deliveries :: "delivery_row list"
  t_imports :: "import_row list"
  t_import_items :: "import_item_row list"
  t_user_tags :: "user_tag_row list"
  t_place_tags :: "place_tag_row list"
  t_curations :: "curation_row list"

type_synonym 'a dbm = "(db, 'a) svc"

definition fresh_id :: "string dbm" where
  "fresh_id = (\<lambda>w. (Inr (db_cuid w (db_next w)), w\<lparr>db_next := Suc (db_next w)\<rparr>))"

definition now :: "int dbm" where
  "now = gets db_now"

lemma now_apply [svc_exec]: "now w = (Inr (db_now w), w)" by (simp add: now_def)

lemma fresh_id_apply [svc_exec]:
  "fresh_id w = (Inr (db_cuid w (db_next w)), w\<lparr>db_next := Suc (db_next w)\<rparr>)"
  by (simp add: fresh_id_def)

lemma now_run [simp]: "bindS now f w = f (db_now w) w" by (simp add: now_def)

lemma fresh_id_run [simp]:
  "bindS fresh_id f w = f (db_cuid w (db_next w)) (w\<lparr>db_next := Suc (db_next w)\<rparr>)"
  by (simp add: bindS_def fresh_id_def)

definition user_by_id :: "string \<Rightarrow> db \<Rightarrow> user_row option" where
  "user_by_id uid w = find_unique (\<lambda>u. u_id u = uid) (t_users w)"

definition settings_of :: "string \<Rightarrow> db \<Rightarrow> settings_row option" where
  "settings_of uid w = find_unique (\<lambda>s. st_user s = uid) (t_settings w)"

definition group_by_id :: "string \<Rightarrow> db \<Rightarrow> group_row option" where
  "group_by_id gid w = find_unique (\<lambda>g. g_id g = gid) (t_groups w)"

definition membership :: "string \<Rightarrow> string \<Rightarrow> db \<Rightarrow> member_row option" where
  "membership gid uid w = find_unique (\<lambda>m. gm_group m = gid \<and> gm_user m = uid) (t_members w)"

definition place_by_id :: "string \<Rightarrow> db \<Rightarrow> place_row option" where
  "place_by_id pid w = find_unique (\<lambda>p. pl_id p = pid) (t_places w)"

abbreviation member_key :: "member_row \<Rightarrow> string \<times> string" where
  "member_key m \<equiv> (gm_group m, gm_user m)"

abbreviation rsvp_key :: "rsvp_row \<Rightarrow> string \<times> string" where
  "rsvp_key r \<equiv> (rs_event r, rs_user r)"

abbreviation follow_key :: "follow_row \<Rightarrow> string \<times> string" where
  "follow_key f \<equiv> (fo_follower f, fo_followed f)"

abbreviation delivery_key :: "delivery_row \<Rightarrow> string \<times> string" where
  "delivery_key d \<equiv> (pd_notification d, pd_installation d)"

abbreviation installation_key :: "installation_row \<Rightarrow> push_provider \<times> string" where
  "installation_key i \<equiv> (pi_provider i, pi_installation i)"

abbreviation item_key :: "import_item_row \<Rightarrow> string \<times> string \<times> string" where
  "item_key i \<equiv> (ii_import i, ii_group i, ii_source_key i)"

text \<open>The keys of the membership tables and the ids Prisma's default \<open>cuid()\<close> hands out: ids in use
  come from the supply below \<open>db_next\<close>, so the next one is fresh.\<close>

definition ids_below :: "(nat \<Rightarrow> string) \<Rightarrow> nat \<Rightarrow> string list \<Rightarrow> bool" where
  "ids_below c n ids \<longleftrightarrow> distinct ids \<and> set ids \<subseteq> c ` {..<n}"

definition wf_db :: "db \<Rightarrow> bool" where
  "wf_db w \<longleftrightarrow>
     inj (db_cuid w)
   \<and> ids_below (db_cuid w) (db_next w) (map g_id (t_groups w))
   \<and> ids_below (db_cuid w) (db_next w) (map gm_id (t_members w))
   \<and> unique_key member_key (t_members w)
   \<and> unique_key g_invite_code (t_groups w)
   \<and> unique_key u_id (t_users w)
   \<and> unique_key st_user (t_settings w)
   \<and> unique_key rsvp_key (t_rsvps w)"

lemma ids_below_fresh:
  "inj c \<Longrightarrow> ids_below c n ids \<Longrightarrow> ids_below c (Suc n) (ids @ [c n])"
  by (auto simp: ids_below_def lessThan_Suc dest: injD)

lemma ids_below_Suc: "ids_below c n ids \<Longrightarrow> ids_below c (Suc n) ids"
  by (auto simp: ids_below_def lessThan_Suc)

text \<open>A concrete id supply and an empty database, for evaluating the model on examples.\<close>

definition unary_cuid :: "nat \<Rightarrow> string" where
  "unary_cuid n = replicate n (CHR ''c'')"

lemma inj_unary_cuid [simp]: "inj unary_cuid"
  by (rule injI) (metis length_replicate unary_cuid_def)

lemma mem_unary_cuid:
  "s \<in> unary_cuid ` {..<n} \<longleftrightarrow> length s < n \<and> s = replicate (length s) (CHR ''c'')"
  by (auto simp: unary_cuid_def image_iff intro!: bexI [of _ "length s"])

definition empty_db :: "int \<Rightarrow> db" where
  "empty_db t = \<lparr>db_now = t, db_cuid = unary_cuid, db_next = 0, t_users = [], t_identities = [],
     t_sessions = [], t_settings = [], t_follows = [], t_places = [], t_cities = [], t_visits = [], t_saves = [],
     t_groups = [], t_members = [], t_events = [], t_messages = [], t_rsvps = [], t_diaries = [],
     t_diary_places = [], t_notifications = [], t_installations = [], t_deliveries = [],
     t_imports = [], t_import_items = [], t_user_tags = [], t_place_tags = [], t_curations = []\<rparr>"

definition sample_user :: "string \<Rightarrow> user_row" where
  "sample_user i = \<lparr>u_id = i, u_email = i @ ''@x'', u_email_verified = True, u_username = i,
     u_display_name = i, u_avatar = None, u_bio = None, u_city = None, u_city_id = None,
     u_lat = None, u_lng = None, u_taste_ids = [], u_outing = None, u_created = 0,
     u_is_editor = False\<rparr>"

end
