(* ===== verification/SocialPermissions.thy ===== *)
theory SocialPermissions
  imports FecaDb
begin

text \<open>
  Who may see and invite whom: the social settings, the follow relation and the permissions derived
  from them (\<open>social.repository.helpers.ts\<close>, \<open>social.repository.support.ts\<close>), and the user
  presenters with the API names of the invite policy (\<open>lib/presenters/user.presenter.ts\<close>).
\<close>

section \<open>Settings and social state\<close>

record social_settings_view =
  activityVisibility :: content_visibility
  diaryVisibility :: content_visibility
  groupInvitePolicy :: group_invite_policy
  pushEnabled :: bool

record social_state =
  followsYou :: bool
  following :: bool
  mutual :: bool

record user_permissions =
  canInviteToGroupP :: bool
  canViewActivityP :: bool
  canViewDiariesP :: bool

record relationship_maps =
  followersOfViewer :: "string set"
  followingByViewer :: "string set"

definition DEFAULT_SOCIAL_SETTINGS :: social_settings_view where
  "DEFAULT_SOCIAL_SETTINGS = \<lparr>activityVisibility = CPublic, diaryVisibility = CPublic,
     groupInvitePolicy = Anyone, pushEnabled = True\<rparr>"

definition normalizeSettings :: "settings_row option \<Rightarrow> social_settings_view" where
  "normalizeSettings settings = \<lparr>
     activityVisibility = default_to (map_option st_activity settings)
       (activityVisibility DEFAULT_SOCIAL_SETTINGS),
     diaryVisibility = default_to (map_option st_diary settings)
       (diaryVisibility DEFAULT_SOCIAL_SETTINGS),
     groupInvitePolicy = default_to (map_option st_invite settings)
       (groupInvitePolicy DEFAULT_SOCIAL_SETTINGS),
     pushEnabled = default_to (map_option st_push settings)
       (pushEnabled DEFAULT_SOCIAL_SETTINGS)\<rparr>"

definition buildSocialState :: "string \<Rightarrow> relationship_maps \<Rightarrow> social_state" where
  "buildSocialState userId relationships =
     (let fg = userId \<in> followingByViewer relationships;
          fy = userId \<in> followersOfViewer relationships
      in \<lparr>followsYou = fy, following = fg, mutual = (fg \<and> fy)\<rparr>)"

definition canViewContent :: "content_visibility \<Rightarrow> bool \<Rightarrow> bool" where
  "canViewContent visibility viewerFollowsTarget =
     (if visibility = CPublic then True
      else if visibility = CFollowers then viewerFollowsTarget
      else False)"

definition canInviteToGroup :: "group_invite_policy \<Rightarrow> social_state \<Rightarrow> bool" where
  "canInviteToGroup policy social =
     (if policy = Anyone then True
      else if policy = FollowingOnly then followsYou social
      else mutual social)"

definition buildPermissions ::
  "string \<Rightarrow> string \<Rightarrow> social_settings_view \<Rightarrow> social_state \<Rightarrow> user_permissions" where
  "buildPermissions viewerId targetUserId settings social =
     (if viewerId = targetUserId
      then \<lparr>canInviteToGroupP = False, canViewActivityP = True, canViewDiariesP = True\<rparr>
      else \<lparr>canInviteToGroupP = canInviteToGroup (groupInvitePolicy settings) social,
            canViewActivityP = canViewContent (activityVisibility settings) (following social),
            canViewDiariesP = canViewContent (diaryVisibility settings) (following social)\<rparr>)"

definition isVisitVisibleToViewer ::
  "string \<Rightarrow> string \<Rightarrow> social_settings_view \<Rightarrow> bool \<Rightarrow> bool" where
  "isVisitVisibleToViewer viewerId visitUserId settings viewerFollowsTarget =
     (if viewerId = visitUserId then True
      else canViewContent (activityVisibility settings) viewerFollowsTarget)"

section \<open>The repository support\<close>

text \<open>\<open>upsert\<close> with an empty update: an existing row is left alone, a missing one is created with the
  schema's defaults, which needs the user to exist (the foreign key; Prisma raises P2003).\<close>

definition default_settings_row :: "string \<Rightarrow> settings_row" where
  "default_settings_row userId = \<lparr>st_user = userId, st_activity = CPublic, st_diary = CPublic,
     st_invite = Anyone, st_push = True\<rparr>"

definition ensureUserSettings :: "string \<Rightarrow> unit dbm" where
  "ensureUserSettings userId =
     bindS (gets (settings_of userId)) (\<lambda>existing.
       case existing of
         Some _ \<Rightarrow> ret ()
       | None \<Rightarrow>
           bindS (gets (user_by_id userId)) (\<lambda>user.
             case user of
               None \<Rightarrow> throw (PrismaError ''P2003'')
             | Some _ \<Rightarrow>
                 modify (\<lambda>w. w\<lparr>t_settings := t_settings w @ [default_settings_row userId]\<rparr>)))"

definition ensureUserSettingsForUsers :: "string list \<Rightarrow> unit dbm" where
  "ensureUserSettingsForUsers userIds =
     (let distinctUserIds = dedupe (filter (\<lambda>u. u \<noteq> []) userIds)
      in bindS (promise_all ensureUserSettings distinctUserIds) (\<lambda>_. ret ()))"

definition getRelationshipMaps :: "string \<Rightarrow> string list \<Rightarrow> db \<Rightarrow> relationship_maps" where
  "getRelationshipMaps viewerId userIds w =
     (let distinctUserIds = dedupe (filter (\<lambda>u. u \<noteq> []) userIds) in
      if distinctUserIds = [] then \<lparr>followersOfViewer = {}, followingByViewer = {}\<rparr>
      else
        let rows = find_many (\<lambda>f. (fo_follower f = viewerId \<and> fo_followed f \<in> set distinctUserIds)
                                \<or> (fo_follower f \<in> set distinctUserIds \<and> fo_followed f = viewerId))
                     (t_follows w)
        in \<lparr>followersOfViewer =
               set (map fo_follower (filter (\<lambda>r. fo_followed r = viewerId) rows)),
            followingByViewer =
               set (map fo_followed (filter (\<lambda>r. fo_follower r = viewerId) rows))\<rparr>)"

definition getUserRelationshipContext ::
  "string \<Rightarrow> user_row \<Rightarrow> db \<Rightarrow> user_permissions \<times> social_settings_view \<times> social_state" where
  "getUserRelationshipContext viewerId targetUser w =
     (let relationships = getRelationshipMaps viewerId [u_id targetUser] w;
          social = buildSocialState (u_id targetUser) relationships;
          settings = normalizeSettings (settings_of (u_id targetUser) w)
      in (buildPermissions viewerId (u_id targetUser) settings social, settings, social))"

definition listFollowingIds :: "string \<Rightarrow> db \<Rightarrow> string list" where
  "listFollowingIds userId w = map fo_followed (find_many (\<lambda>f. fo_follower f = userId) (t_follows w))"

definition getUserCoordinates :: "string \<Rightarrow> db \<Rightarrow> (rat \<times> rat) option" where
  "getUserCoordinates userId w =
     (case user_by_id userId w of
        None \<Rightarrow> None
      | Some user \<Rightarrow>
          (case (u_lat user, u_lng user) of
             (Some lat, Some lng) \<Rightarrow> Some (lat, lng)
           | _ \<Rightarrow> None))"

section \<open>User presenters\<close>

record user_summary =
  us_avatarUrl :: "string option"
  us_city :: "string option"
  us_displayName :: string
  us_id :: string
  us_username :: string

record user_public =
  up_email :: "string option"
  up_avatarUrl :: "string option"
  up_bio :: "string option"
  up_city :: "string option"
  up_displayName :: string
  up_id :: string
  up_lat :: "rat option"
  up_lng :: "rat option"
  up_username :: string

definition serializeUserSummary :: "user_row \<Rightarrow> user_summary" where
  "serializeUserSummary user = \<lparr>us_avatarUrl = u_avatar user, us_city = u_city user,
     us_displayName = u_display_name user, us_id = u_id user, us_username = u_username user\<rparr>"

text \<open>\<open>includeEmail\<close> is the option of the same name; an absent key of the JSON object is \<open>None\<close>.\<close>

definition serializeUserPublic :: "bool \<Rightarrow> user_row \<Rightarrow> user_public" where
  "serializeUserPublic includeEmail user = \<lparr>
     up_email = (if includeEmail then Some (u_email user) else None),
     up_avatarUrl = u_avatar user, up_bio = u_bio user, up_city = u_city user,
     up_displayName = u_display_name user, up_id = u_id user,
     up_lat = u_lat user, up_lng = u_lng user, up_username = u_username user\<rparr>"

datatype api_group_invite_policy = Everyone | FromFollowingOnly

definition mapGroupInvitePolicyToApi :: "group_invite_policy \<Rightarrow> api_group_invite_policy" where
  "mapGroupInvitePolicyToApi policy =
     (if policy = FollowingOnly then FromFollowingOnly else Everyone)"

definition mapApiGroupInvitePolicyToPrisma :: "api_group_invite_policy \<Rightarrow> group_invite_policy" where
  "mapApiGroupInvitePolicyToPrisma policy =
     (if policy = FromFollowingOnly then FollowingOnly else Anyone)"

record api_social_settings =
  as_activityVisibility :: content_visibility
  as_diaryVisibility :: content_visibility
  as_groupInvitePolicy :: api_group_invite_policy
  as_pushEnabled :: bool

definition serializeSocialSettings :: "social_settings_view \<Rightarrow> api_social_settings" where
  "serializeSocialSettings settings = \<lparr>as_activityVisibility = activityVisibility settings,
     as_diaryVisibility = diaryVisibility settings,
     as_groupInvitePolicy = mapGroupInvitePolicyToApi (groupInvitePolicy settings),
     as_pushEnabled = pushEnabled settings\<rparr>"

section \<open>Lemmas\<close>

lemma normalizeSettings_default_row [simp]:
  "normalizeSettings (Some (default_settings_row u)) = normalizeSettings None"
  by (simp add: normalizeSettings_def default_settings_row_def DEFAULT_SOCIAL_SETTINGS_def)

lemma mem_followersOfViewer:
  "u \<in> followersOfViewer (getRelationshipMaps v us w) \<longleftrightarrow>
   (\<exists>f\<in>set (t_follows w). fo_follower f = u \<and> fo_followed f = v
      \<and> ((u = v \<and> v \<in> set us \<and> v \<noteq> []) \<or> u \<in> set us \<and> u \<noteq> []))"
  by (auto simp: getRelationshipMaps_def Let_def filter_empty_conv)

lemma mem_followingByViewer:
  "u \<in> followingByViewer (getRelationshipMaps v us w) \<longleftrightarrow>
   (\<exists>f\<in>set (t_follows w). fo_follower f = v \<and> fo_followed f = u \<and> u \<in> set us \<and> u \<noteq> [])"
  by (auto simp: getRelationshipMaps_def Let_def filter_empty_conv)

definition follows :: "db \<Rightarrow> string \<Rightarrow> string \<Rightarrow> bool" where
  "follows w a b \<longleftrightarrow> (\<exists>f\<in>set (t_follows w). fo_follower f = a \<and> fo_followed f = b)"

lemma social_state_of_maps:
  assumes "u \<in> set us" "u \<noteq> []"
  shows "buildSocialState u (getRelationshipMaps v us w) =
    \<lparr>followsYou = follows w u v, following = follows w v u,
     mutual = (follows w v u \<and> follows w u v)\<rparr>"
proof -
  have "u \<in> followersOfViewer (getRelationshipMaps v us w) \<longleftrightarrow> follows w u v"
    unfolding mem_followersOfViewer follows_def using assms by blast
  moreover have "u \<in> followingByViewer (getRelationshipMaps v us w) \<longleftrightarrow> follows w v u"
    unfolding mem_followingByViewer follows_def using assms by blast
  ultimately show ?thesis by (simp add: buildSocialState_def Let_def)
qed

lemma settings_of_append:
  "settings_of u (w\<lparr>t_settings := t_settings w @ [r]\<rparr>) =
   (case settings_of u w of Some s \<Rightarrow> Some s | None \<Rightarrow> if st_user r = u then Some r else None)"
  by (simp add: settings_of_def find_unique_append split: option.splits)

text \<open>Running \<open>ensureUserSettings\<close> changes the settings table only, and no permission.\<close>

definition settings_extended :: "db \<Rightarrow> db \<Rightarrow> bool" where
  "settings_extended w w' \<longleftrightarrow>
     (\<exists>t. w' = w\<lparr>t_settings := t\<rparr>)
   \<and> (\<forall>u. settings_of u w' = settings_of u w
        \<or> settings_of u w = None \<and> settings_of u w' = Some (default_settings_row u))
   \<and> (unique_key st_user (t_settings w) \<longrightarrow> unique_key st_user (t_settings w'))"

lemma settings_extended_refl [simp]: "settings_extended w w"
  unfolding settings_extended_def by (metis db.surjective db.update_convs(7))

lemma settings_extended_trans:
  assumes "settings_extended u v" "settings_extended v w"
  shows "settings_extended u w"
proof -
  obtain t where "v = u\<lparr>t_settings := t\<rparr>" using assms(1) by (auto simp: settings_extended_def)
  moreover obtain t' where "w = v\<lparr>t_settings := t'\<rparr>" using assms(2) by (auto simp: settings_extended_def)
  ultimately have "\<exists>t. w = u\<lparr>t_settings := t\<rparr>" by auto
  then show ?thesis using assms unfolding settings_extended_def by (metis option.distinct(1))
qed

lemma settings_extended_normalize:
  "settings_extended w w' \<Longrightarrow>
   normalizeSettings (settings_of u w') = normalizeSettings (settings_of u w)"
  unfolding settings_extended_def by (metis normalizeSettings_default_row)

lemma settings_of_None: "settings_of u w = None \<longleftrightarrow> u \<notin> st_user ` set (t_settings w)"
  by (auto simp: settings_of_def find_unique_None)

lemma ensureUserSettings_extends: "settings_extended w (snd (ensureUserSettings u w))"
proof (cases "settings_of u w")
  case None
  show ?thesis
  proof (cases "user_by_id u w")
    case (Some x)
    have "settings_extended w (w\<lparr>t_settings := t_settings w @ [default_settings_row u]\<rparr>)"
      using None unfolding settings_extended_def settings_of_append
      by (auto simp: default_settings_row_def settings_of_None [symmetric] split: option.splits)
    then show ?thesis using None Some by (simp add: ensureUserSettings_def)
  qed (simp add: ensureUserSettings_def None)
qed (simp add: ensureUserSettings_def)

lemma keeps_settings_extended:
  "keeps (settings_extended w) m \<Longrightarrow> settings_extended w (snd (m w))"
  by (simp add: keeps_def)

lemma keeps_ensureUserSettings: "keeps (settings_extended w) (ensureUserSettings u)"
  by (rule keepsI) (blast intro: settings_extended_trans ensureUserSettings_extends)

lemma ensureUserSettingsForUsers_extends:
  "settings_extended w (snd (ensureUserSettingsForUsers us w))"
  unfolding ensureUserSettingsForUsers_def Let_def
  by (rule keeps_settings_extended) (intro keeps_intro keeps_ensureUserSettings)

lemma user_by_id_ensure [simp]:
  "user_by_id v (snd (ensureUserSettings u w)) = user_by_id v w"
  using ensureUserSettings_extends [of w u] by (auto simp: settings_extended_def user_by_id_def)

lemma ensureUserSettings_result:
  "fst (ensureUserSettings u w) =
   (if settings_of u w = None \<and> user_by_id u w = None then Inl (PrismaError ''P2003'') else Inr ())"
  by (auto simp: ensureUserSettings_def split: option.splits)

lemma settings_of_ensure_other:
  assumes "u \<noteq> v" shows "settings_of v (snd (ensureUserSettings u w)) = settings_of v w"
  using assms
  by (auto simp: ensureUserSettings_def settings_of_append default_settings_row_def split: option.splits)

lemma promise_all_ensure:
  assumes "distinct us"
  shows "(\<exists>e. fst (promise_all ensureUserSettings us w) = Inl e) \<longleftrightarrow>
         (\<exists>u\<in>set us. settings_of u w = None \<and> user_by_id u w = None)"
  using assms
proof (induction us arbitrary: w)
  case (Cons u us)
  obtain r w1 where 1: "ensureUserSettings u w = (r, w1)" by force
  obtain rs w2 where 2: "promise_all ensureUserSettings us w1 = (rs, w2)" by force
  have w1: "w1 = snd (ensureUserSettings u w)" using 1 by simp
  have "settings_of v w1 = settings_of v w" if "v \<in> set us" for v
    using that Cons.prems settings_of_ensure_other [of u v w] unfolding w1 by auto
  then have "(\<exists>e. rs = Inl e) \<longleftrightarrow> (\<exists>v\<in>set us. settings_of v w = None \<and> user_by_id v w = None)"
    using Cons.IH [of w1] Cons.prems 2 by (simp add: w1)
  moreover have "(\<exists>e. r = Inl e) \<longleftrightarrow> settings_of u w = None \<and> user_by_id u w = None"
    using ensureUserSettings_result [of u w] 1 by auto
  ultimately show ?case using 1 2 by (cases r; cases rs; auto)
qed simp

lemma promise_all_ensure_P2003:
  "fst (promise_all ensureUserSettings us w) = Inl e \<Longrightarrow> e = PrismaError ''P2003''"
proof (induction us arbitrary: w)
  case (Cons u us)
  then show ?case
    using ensureUserSettings_result [of u w]
    by (auto simp: Let_def case_prod_unfold map_sum_def split: sum.splits if_splits)
qed simp

lemma ensure_settings_fails_iff:
  "fst (ensureUserSettingsForUsers ids w) =
   (if \<exists>u\<in>set ids. u \<noteq> [] \<and> settings_of u w = None \<and> user_by_id u w = None
    then Inl (PrismaError ''P2003'') else Inr ())"
proof -
  let ?us = "dedupe (filter (\<lambda>u. u \<noteq> []) ids)"
  obtain r w1 where 1: "promise_all ensureUserSettings ?us w = (r, w1)" by force
  have "(\<exists>e. r = Inl e) \<longleftrightarrow> (\<exists>u\<in>set ?us. settings_of u w = None \<and> user_by_id u w = None)"
    using promise_all_ensure [of ?us w] 1 by simp
  moreover have "r = Inl e \<Longrightarrow> e = PrismaError ''P2003''" for e
    using promise_all_ensure_P2003 [of ?us w e] 1 by simp
  ultimately show ?thesis
    by (cases r) (auto simp: ensureUserSettingsForUsers_def Let_def bindS_def 1)
qed

lemma settings_extended_context:
  assumes e: "settings_extended w w'"
  shows "getUserRelationshipContext viewer target w' = getUserRelationshipContext viewer target w"
proof -
  obtain t where t: "w' = w\<lparr>t_settings := t\<rparr>" using e by (auto simp: settings_extended_def)
  have "getRelationshipMaps viewer us w' = getRelationshipMaps viewer us w" for us
    by (simp add: t getRelationshipMaps_def Let_def)
  then show ?thesis
    using settings_extended_normalize [OF e, of "u_id target"]
    by (simp add: getUserRelationshipContext_def Let_def)
qed

section \<open>Properties\<close>

text \<open>C25: the permissions the backend reports for another user are exactly the matrix of the settings
  against the follow table: an absent settings row behaves as public and open to everyone, \<open>followers\<close>
  content is visible to the viewers that follow the target, \<open>following_only\<close> admits invitations from
  the users the target follows, and \<open>mutuals_only\<close> needs both directions.\<close>

theorem permissions_matrix:
  assumes "u_id target \<noteq> viewer" "u_id target \<noteq> []"
  shows "fst (getUserRelationshipContext viewer target w) = \<lparr>
     canInviteToGroupP =
       (case map_option st_invite (settings_of (u_id target) w) of
          None \<Rightarrow> True | Some Anyone \<Rightarrow> True
        | Some FollowingOnly \<Rightarrow> follows w (u_id target) viewer
        | Some MutualsOnly \<Rightarrow> follows w (u_id target) viewer \<and> follows w viewer (u_id target)),
     canViewActivityP =
       (case map_option st_activity (settings_of (u_id target) w) of
          None \<Rightarrow> True | Some CPublic \<Rightarrow> True
        | Some CFollowers \<Rightarrow> follows w viewer (u_id target) | Some CPrivate \<Rightarrow> False),
     canViewDiariesP =
       (case map_option st_diary (settings_of (u_id target) w) of
          None \<Rightarrow> True | Some CPublic \<Rightarrow> True
        | Some CFollowers \<Rightarrow> follows w viewer (u_id target) | Some CPrivate \<Rightarrow> False)\<rparr>"
proof -
  have s: "buildSocialState (u_id target) (getRelationshipMaps viewer [u_id target] w) =
    \<lparr>followsYou = follows w (u_id target) viewer, following = follows w viewer (u_id target),
     mutual = (follows w viewer (u_id target) \<and> follows w (u_id target) viewer)\<rparr>"
    by (rule social_state_of_maps) (simp_all add: assms(2))
  show ?thesis using assms(1)
    by (cases "settings_of (u_id target) w")
       (auto simp: getUserRelationshipContext_def Let_def s buildPermissions_def canViewContent_def
          canInviteToGroup_def normalizeSettings_def DEFAULT_SOCIAL_SETTINGS_def
          split: content_visibility.splits group_invite_policy.splits)
qed

theorem permissions_matrix_witness:
  "fst (getUserRelationshipContext ''v'' (sample_user ''u'')
     (empty_db 0\<lparr>t_follows := [\<lparr>fo_follower = ''u'', fo_followed = ''v'', fo_created = 0\<rparr>],
        t_settings := [\<lparr>st_user = ''u'', st_activity = CFollowers, st_diary = CPublic,
                        st_invite = FollowingOnly, st_push = True\<rparr>]\<rparr>))
   = \<lparr>canInviteToGroupP = True, canViewActivityP = False, canViewDiariesP = True\<rparr>"
  using permissions_matrix [of "sample_user ''u''" "''v''"
    "empty_db 0\<lparr>t_follows := [\<lparr>fo_follower = ''u'', fo_followed = ''v'', fo_created = 0\<rparr>],
        t_settings := [\<lparr>st_user = ''u'', st_activity = CFollowers, st_diary = CPublic,
                        st_invite = FollowingOnly, st_push = True\<rparr>]\<rparr>"]
  by (simp add: sample_user_def settings_of_def follows_def)

text \<open>Creating the missing settings rows before an operation is invisible: whatever ids are passed,
  and even when one of them makes the call fail, no permission between any two users changes.\<close>

theorem ensure_settings_transparent:
  "getUserRelationshipContext viewer target (snd (ensureUserSettingsForUsers ids w))
   = getUserRelationshipContext viewer target w"
  by (rule settings_extended_context [OF ensureUserSettingsForUsers_extends])

text \<open>The invite policy round trips from the API to the database and back, and a stored policy
  survives the round trip exactly when it is not \<open>mutuals_only\<close>, which the API reports as open.\<close>

theorem invite_policy_roundtrip:
  "mapGroupInvitePolicyToApi (mapApiGroupInvitePolicyToPrisma a) = a
   \<and> (mapApiGroupInvitePolicyToPrisma (mapGroupInvitePolicyToApi p) = p) = (p \<noteq> MutualsOnly)
   \<and> mapGroupInvitePolicyToApi MutualsOnly = Everyone"
  by (cases a; cases p)
     (simp_all add: mapGroupInvitePolicyToApi_def mapApiGroupInvitePolicyToPrisma_def)

end
