(* ===== verification/Notifications.thy ===== *)
theory Notifications
  imports SocialPermissions
begin

text \<open>
  The notification inbox and the registration of push installations: the repository
  (\<open>notifications.repository.ts\<close>) and the service (\<open>social/notifications.service.ts\<close>).
  \<open>publish\<close> creates one notification per recipient and one pending push delivery per active
  installation, in one transaction.  The job it enqueues afterwards (\<open>scheduleDispatch\<close>, whose failures
  are swallowed) has no effect on the database and is left out.  Foreign keys to users are not checked
  for the actor, who is the authenticated caller.
\<close>

section \<open>The inbox\<close>

text \<open>\<open>orderBy: [{ createdAt: "desc" }]\<close>, \<open>skip\<close> and \<open>take\<close>; rows with equal times are taken in table order.\<close>

definition page_rows :: "nat \<Rightarrow> nat \<Rightarrow> 'r list \<Rightarrow> 'r list" where
  "page_rows offset limit rows = take limit (drop offset rows)"

record notification_page =
  np_notifications :: "notification_row list"
  np_total :: nat
  np_unreadTotal :: nat

definition listForUser :: "string \<Rightarrow> nat \<Rightarrow> nat \<Rightarrow> bool \<Rightarrow> db \<Rightarrow> notification_page" where
  "listForUser userId limit offset unreadOnly w =
     (let matches = (\<lambda>n. n_user n = userId \<and> (unreadOnly \<longrightarrow> n_read n = None));
          unread = (\<lambda>n. n_user n = userId \<and> n_read n = None)
      in \<lparr>np_notifications = page_rows offset limit
            (sort_by (\<lambda>a b. n_created b \<le> n_created a) (find_many matches (t_notifications w))),
          np_total = count_rows matches (t_notifications w),
          np_unreadTotal = count_rows unread (t_notifications w)\<rparr>)"

definition set_notifications :: "(notification_row \<Rightarrow> bool) \<Rightarrow> (notification_row \<Rightarrow> notification_row) \<Rightarrow> unit dbm" where
  "set_notifications p f = modify (\<lambda>w. w\<lparr>t_notifications := update_many p f (t_notifications w)\<rparr>)"

definition markRead :: "string \<Rightarrow> string \<Rightarrow> bool dbm" where
  "markRead userId notificationId =
     bindS (gets (\<lambda>w. find_unique (\<lambda>n. n_id n = notificationId \<and> n_user n = userId) (t_notifications w)))
       (\<lambda>notification. case notification of
          None \<Rightarrow> ret False
        | Some n \<Rightarrow>
            (if n_read n = None
             then bindS now (\<lambda>t.
                    seqS (set_notifications (\<lambda>x. n_id x = n_id n) (\<lambda>x. x\<lparr>n_read := Some t\<rparr>)) (ret True))
             else ret True))"

definition markAllRead :: "string \<Rightarrow> nat dbm" where
  "markAllRead userId =
     bindS now (\<lambda>t.
     bindS (gets (\<lambda>w. count_rows (\<lambda>n. n_read n = None \<and> n_user n = userId) (t_notifications w))) (\<lambda>count.
     seqS (set_notifications (\<lambda>n. n_read n = None \<and> n_user n = userId) (\<lambda>n. n\<lparr>n_read := Some t\<rparr>))
       (ret count)))"

definition markMyNotificationRead :: "string \<Rightarrow> string \<Rightarrow> unit dbm" where
  "markMyNotificationRead userId notificationId =
     bindS (markRead userId notificationId) (\<lambda>found.
       if \<not> found then throw (NotFound ''Notification not found'') else ret ())"

section \<open>Push installations\<close>

record upsert_push_token =
  ut_installationId :: string
  ut_platform :: push_platform
  ut_provider :: push_provider
  ut_timezone :: string
  ut_token :: string

definition same_installation :: "upsert_push_token \<Rightarrow> installation_row \<Rightarrow> bool" where
  "same_installation input i \<longleftrightarrow>
     pi_provider i = ut_provider input \<and> pi_installation i = ut_installationId input"

definition token_elsewhere :: "upsert_push_token \<Rightarrow> installation_row \<Rightarrow> bool" where
  "token_elsewhere input i \<longleftrightarrow>
     pi_installation i \<noteq> ut_installationId input \<and> pi_provider i = ut_provider input
     \<and> pi_revoked i = None \<and> pi_token i = ut_token input"

definition refreshed_installation ::
  "string \<Rightarrow> upsert_push_token \<Rightarrow> int \<Rightarrow> installation_row \<Rightarrow> installation_row" where
  "refreshed_installation userId input t i = i\<lparr>pi_disabled := None, pi_last_seen := t,
     pi_platform := ut_platform input, pi_revoked := None, pi_timezone := ut_timezone input,
     pi_token := ut_token input, pi_user := userId\<rparr>"

definition new_installation :: "string \<Rightarrow> upsert_push_token \<Rightarrow> int \<Rightarrow> string \<Rightarrow> installation_row" where
  "new_installation userId input t i = \<lparr>pi_id = i, pi_user = userId, pi_provider = ut_provider input,
     pi_installation = ut_installationId input, pi_token = ut_token input,
     pi_platform = ut_platform input, pi_timezone = ut_timezone input,
     pi_last_seen = t, pi_disabled = None, pi_revoked = None, pi_created = t\<rparr>"

definition registerMyPushInstallation :: "string \<Rightarrow> upsert_push_token \<Rightarrow> unit dbm" where
  "registerMyPushInstallation userId input =
     bindS now (\<lambda>t. tx (
       seqS (modify (\<lambda>w. w\<lparr>t_installations :=
               update_many (token_elsewhere input) (\<lambda>i. i\<lparr>pi_revoked := Some t\<rparr>) (t_installations w)\<rparr>))
       (bindS (gets (\<lambda>w. find_unique (same_installation input) (t_installations w))) (\<lambda>existing.
        case existing of
          Some _ \<Rightarrow>
            modify (\<lambda>w. w\<lparr>t_installations := update_many (same_installation input)
               (refreshed_installation userId input t) (t_installations w)\<rparr>)
        | None \<Rightarrow> bindS fresh_id (\<lambda>i.
            modify (\<lambda>w. w\<lparr>t_installations :=
               t_installations w @ [new_installation userId input t i]\<rparr>))))))"

definition revokeMyPushInstallation :: "string \<Rightarrow> string \<Rightarrow> unit dbm" where
  "revokeMyPushInstallation userId installationId =
     bindS now (\<lambda>t.
       modify (\<lambda>w. w\<lparr>t_installations := update_many
         (\<lambda>i. pi_installation i = installationId \<and> pi_revoked i = None \<and> pi_user i = userId)
         (\<lambda>i. i\<lparr>pi_revoked := Some t\<rparr>) (t_installations w)\<rparr>))"

section \<open>Publishing\<close>

record publish_input =
  pb_actorId :: "string option"
  pb_dedupeKey :: "string option"
  pb_entity :: "(string \<times> entity_type) option"
  pb_payload :: "(string \<times> json option) list option"
  pb_recipientIds :: "string list"
  pb_scheduledFor :: "int option"
  pb_type :: notification_type

record publish_result =
  pr_count :: nat
  pr_deliveryCount :: nat

text \<open>JavaScript truthiness of an optional string.\<close>

definition truthy :: "string option \<Rightarrow> bool" where
  "truthy s = (case s of None \<Rightarrow> False | Some x \<Rightarrow> x \<noteq> [])"

text \<open>Keys whose value is \<open>undefined\<close> are dropped; an absent or empty payload is stored as JSON null.\<close>

definition normalizeNotificationPayload :: "(string \<times> json option) list option \<Rightarrow> json option" where
  "normalizeNotificationPayload payload =
     (case payload of
        None \<Rightarrow> None
      | Some kvs \<Rightarrow>
          let entries = [(k, the v). (k, v) \<leftarrow> kvs, v \<noteq> None]
          in if entries = [] then None else Some (JObj entries))"

definition publish_recipients :: "publish_input \<Rightarrow> string list" where
  "publish_recipients input =
     dedupe (filter (\<lambda>r. r \<noteq> [] \<and> (\<not> truthy (pb_actorId input) \<or> Some r \<noteq> pb_actorId input))
               (pb_recipientIds input))"

definition active_installations :: "string \<Rightarrow> db \<Rightarrow> installation_row list" where
  "active_installations userId w =
     sort_by (\<lambda>a b. pi_last_seen b < pi_last_seen a
                  \<or> pi_last_seen b = pi_last_seen a \<and> pi_created b \<le> pi_created a)
       (find_many (\<lambda>i. pi_user i = userId \<and> pi_disabled i = None \<and> pi_revoked i = None)
          (t_installations w))"

definition push_enabled_for :: "string \<Rightarrow> db \<Rightarrow> bool" where
  "push_enabled_for userId w = default_to (map_option st_push (settings_of userId w)) True"

definition new_notification :: "publish_input \<Rightarrow> string \<Rightarrow> string \<Rightarrow> int \<Rightarrow> notification_row" where
  "new_notification input recipientId i t = \<lparr>n_id = i, n_user = recipientId,
     n_actor = pb_actorId input, n_type = pb_type input, n_entity = pb_entity input,
     n_dedupe = pb_dedupeKey input,
     n_payload = default_to (normalizeNotificationPayload (pb_payload input)) JNull,
     n_read = None, n_created = t\<rparr>"

text \<open>\<open>create\<close> of a notification: the unique key \<open>(userId, dedupeKey)\<close> does not constrain null keys.\<close>

definition create_notification :: "publish_input \<Rightarrow> string \<Rightarrow> string dbm" where
  "create_notification input recipientId =
     bindS fresh_id (\<lambda>i. bindS now (\<lambda>t.
     bindS (gets t_notifications) (\<lambda>rows.
       if pb_dedupeKey input \<noteq> None
          \<and> (\<exists>n\<in>set rows. n_user n = recipientId \<and> n_dedupe n = pb_dedupeKey input)
       then throw (PrismaError ''P2002'')
       else seqS (modify (\<lambda>w. w\<lparr>t_notifications := rows @ [new_notification input recipientId i t]\<rparr>))
              (ret i))))"

definition new_delivery :: "string \<Rightarrow> int \<Rightarrow> int \<Rightarrow> string \<Rightarrow> string \<Rightarrow> delivery_row" where
  "new_delivery notificationId scheduledFor t installation did = \<lparr>pd_id = did,
     pd_notification = notificationId, pd_installation = installation, pd_status = PPending,
     pd_scheduled = scheduledFor, pd_attempts = 0, pd_ticket = None, pd_error = None,
     pd_sent = None, pd_delivered = None, pd_failed = None, pd_created = t, pd_updated = t\<rparr>"

definition fresh_delivery :: "string \<Rightarrow> int \<Rightarrow> int \<Rightarrow> installation_row \<Rightarrow> delivery_row dbm" where
  "fresh_delivery notificationId scheduledFor t i =
     bindS fresh_id (\<lambda>d. ret (new_delivery notificationId scheduledFor t (pi_id i) d))"

definition create_deliveries :: "string \<Rightarrow> int \<Rightarrow> installation_row list \<Rightarrow> nat dbm" where
  "create_deliveries notificationId scheduledFor installations =
     bindS now (\<lambda>t. bindS (mapS (fresh_delivery notificationId scheduledFor t) installations) (\<lambda>rows.
     bindS (gets t_deliveries) (\<lambda>old.
     let new = create_many_skip delivery_key rows old in
     seqS (modify (\<lambda>w. w\<lparr>t_deliveries := new\<rparr>)) (ret (length new - length old)))))"

text \<open>One iteration of the loop over the recipients, with the catch of a dedupe conflict.\<close>

definition publish_one :: "publish_input \<Rightarrow> int \<Rightarrow> string \<Rightarrow> (nat \<times> nat) dbm" where
  "publish_one input scheduledFor recipientId =
     bindS (gets (user_by_id recipientId)) (\<lambda>recipient.
       case recipient of
         None \<Rightarrow> ret (0, 0)
       | Some _ \<Rightarrow>
           catchS
             (bindS (create_notification input recipientId) (\<lambda>nid.
              bindS (gets (active_installations recipientId)) (\<lambda>installations.
              bindS (gets (push_enabled_for recipientId)) (\<lambda>enabled.
                if \<not> (enabled \<and> installations \<noteq> []) then ret (1, 0)
                else bindS (create_deliveries nid scheduledFor installations) (\<lambda>c. ret (1, c))))))
             (\<lambda>e. if truthy (pb_dedupeKey input) \<and> e = PrismaError ''P2002'' then ret (0, 0) else throw e))"

text \<open>Recipients without a notification that carries the same dedupe key.\<close>

definition publish_candidates :: "publish_input \<Rightarrow> notification_row list \<Rightarrow> string list" where
  "publish_candidates input rows =
     (let recipientIds = publish_recipients input;
          existingByUserId =
            (if truthy (pb_dedupeKey input)
             then set (map n_user (find_many (\<lambda>n. n_dedupe n = pb_dedupeKey input
                                                \<and> n_user n \<in> set recipientIds) rows))
             else {})
      in filter (\<lambda>r. r \<notin> existingByUserId) recipientIds)"

definition publish :: "publish_input \<Rightarrow> publish_result dbm" where
  "publish input =
     (if publish_recipients input = [] then ret \<lparr>pr_count = 0, pr_deliveryCount = 0\<rparr>
      else bindS now (\<lambda>t.
        tx (bindS (gets t_notifications) (\<lambda>rows.
          if publish_candidates input rows = []
          then ret \<lparr>pr_count = 0, pr_deliveryCount = 0\<rparr>
          else bindS (mapS (publish_one input (default_to (pb_scheduledFor input) t))
                        (publish_candidates input rows)) (\<lambda>cs.
                 ret \<lparr>pr_count = sum_list (map fst cs),
                      pr_deliveryCount = sum_list (map snd cs)\<rparr>)))))"

section \<open>What publishing changes\<close>

definition notif_erase :: "db \<Rightarrow> db" where
  "notif_erase w = w\<lparr>db_next := 0, t_notifications := [], t_deliveries := []\<rparr>"

definition notif_frame :: "db \<Rightarrow> db \<Rightarrow> bool" where
  "notif_frame w w' \<longleftrightarrow> notif_erase w = notif_erase w'"

lemma notif_frame_refl [simp]: "notif_frame w w" by (simp add: notif_frame_def)

lemma notif_frame_trans: "notif_frame u v \<Longrightarrow> notif_frame v w \<Longrightarrow> notif_frame u w"
  by (simp add: notif_frame_def)

lemma notif_frame_updates [simp]:
  "notif_frame u (w\<lparr>db_next := n\<rparr>) = notif_frame u w"
  "notif_frame u (w\<lparr>t_notifications := ns\<rparr>) = notif_frame u w"
  "notif_frame u (w\<lparr>t_deliveries := ds\<rparr>) = notif_frame u w"
  by (simp_all add: notif_frame_def notif_erase_def)

lemma notif_frame_fields:
  assumes "notif_frame w w'"
  shows "db_now w' = db_now w" "db_cuid w' = db_cuid w" "t_users w' = t_users w"
    "t_settings w' = t_settings w" "t_follows w' = t_follows w" "t_places w' = t_places w"
    "t_visits w' = t_visits w" "t_saves w' = t_saves w" "t_groups w' = t_groups w"
    "t_members w' = t_members w" "t_events w' = t_events w" "t_messages w' = t_messages w"
    "t_rsvps w' = t_rsvps w" "t_diaries w' = t_diaries w" "t_diary_places w' = t_diary_places w"
    "t_installations w' = t_installations w" "t_sessions w' = t_sessions w"
  using assms by (cases w; cases w'; simp add: notif_frame_def notif_erase_def)+

lemma keeps_fresh_id: "(\<And>w n. P w \<Longrightarrow> P (w\<lparr>db_next := n\<rparr>)) \<Longrightarrow> keeps P fresh_id"
  by (simp add: keeps_def fresh_id_def)

lemma keeps_now [keeps_intro]: "keeps P now" by (simp add: now_def keeps_gets)

lemma keeps_let [keeps_intro]: "keeps P (f x) \<Longrightarrow> keeps P (Let x f)" by simp

lemma publish_one_frame: "keeps (notif_frame u) (publish_one input t r)"
  unfolding publish_one_def create_notification_def create_deliveries_def fresh_delivery_def
  by (intro keeps_intro keeps_fresh_id keeps_modify) simp_all

lemma publish_keeps_frame: "keeps (notif_frame u) (publish input)"
  unfolding publish_def by (intro keeps_intro publish_one_frame)

lemma publish_next_mono: "db_next w \<le> db_next (snd (publish input w))"
proof -
  have "keeps (\<lambda>v. db_next w \<le> db_next v) (publish input)"
    unfolding publish_def publish_one_def create_notification_def create_deliveries_def fresh_delivery_def
    by (intro keeps_intro keeps_modify) (simp_all add: keeps_def fresh_id_def)
  then show ?thesis by (simp add: keeps_def)
qed

text \<open>Without a dedupe key publishing never throws.\<close>

lemma returns_fresh_id [returns_intro]: "returns fresh_id" by (simp add: returns_def fresh_id_def)
lemma returns_now [returns_intro]: "returns now" by (simp add: now_def returns_gets)

lemma publish_returns:
  assumes "pb_dedupeKey input = None" shows "returns (publish input)"
proof -
  have "returns (create_notification input r)" for r
    unfolding create_notification_def assms by (intro returns_intro) simp
  then show ?thesis
    unfolding publish_def publish_one_def create_deliveries_def fresh_delivery_def by (intro returns_intro)
qed

text \<open>What a client may rely on: publishing changes the notification tables and the id supply only.\<close>

locale notifier =
  fixes notify :: "'i \<Rightarrow> 'a dbm"
  assumes notify_frame: "notif_frame w (snd (notify i w))"
begin

lemma notify_keeps:
  assumes "\<And>w w'. notif_frame w w' \<Longrightarrow> P w \<Longrightarrow> P w'"
  shows "keeps P (notify i)"
  by (rule keepsI) (blast intro: assms notify_frame)

lemma notify_fields:
  "t_members (snd (notify i w)) = t_members w" "t_groups (snd (notify i w)) = t_groups w"
  "t_events (snd (notify i w)) = t_events w" "t_rsvps (snd (notify i w)) = t_rsvps w"
  "t_users (snd (notify i w)) = t_users w" "t_settings (snd (notify i w)) = t_settings w"
  "t_messages (snd (notify i w)) = t_messages w" "t_follows (snd (notify i w)) = t_follows w"
  "db_cuid (snd (notify i w)) = db_cuid w" "db_now (snd (notify i w)) = db_now w"
  by (rule notif_frame_fields [OF notify_frame])+

end

interpretation pub: notifier publish
proof
  show "notif_frame w (snd (publish i w))" for w i
    using publish_keeps_frame [of w i] by (simp add: keeps_def)
qed

section \<open>The specification of publishing\<close>

definition wf_notif :: "db \<Rightarrow> bool" where
  "wf_notif w \<longleftrightarrow>
     inj (db_cuid w)
   \<and> ids_below (db_cuid w) (db_next w) (map n_id (t_notifications w))
   \<and> (\<forall>d\<in>set (t_deliveries w). pd_notification d \<in> n_id ` set (t_notifications w))
   \<and> distinct (map pi_id (t_installations w))"

definition dedupe_clash :: "publish_input \<Rightarrow> string \<Rightarrow> db \<Rightarrow> bool" where
  "dedupe_clash input r w \<longleftrightarrow> pb_dedupeKey input \<noteq> None
     \<and> (\<exists>n\<in>set (t_notifications w). n_user n = r \<and> n_dedupe n = pb_dedupeKey input)"

text \<open>The deliveries owed for a notification: one per active installation of a recipient with push on.\<close>

definition owed_deliveries :: "db \<Rightarrow> notification_row \<Rightarrow> (string \<times> string) list" where
  "owed_deliveries w n =
     (if push_enabled_for (n_user n) w
      then map (\<lambda>i. (n_id n, pi_id i)) (active_installations (n_user n) w) else [])"

definition published :: "publish_input \<Rightarrow> int \<Rightarrow> string list \<Rightarrow> db \<Rightarrow> db \<Rightarrow> nat \<times> nat \<Rightarrow> bool" where
  "published input t rs w w' k \<longleftrightarrow>
     (\<exists>ns ds. t_notifications w' = t_notifications w @ ns
        \<and> t_deliveries w' = t_deliveries w @ ds
        \<and> map n_user ns = rs
        \<and> (\<forall>n\<in>set ns. n = new_notification input (n_user n) (n_id n) (db_now w))
        \<and> map delivery_key ds = concat (map (owed_deliveries w) ns)
        \<and> (\<forall>d\<in>set ds. d = new_delivery (pd_notification d) t (db_now w) (pd_installation d) (pd_id d))
        \<and> k = (length ns, length ds))
   \<and> notif_frame w w' \<and> wf_notif w'"

lemma frame_reads:
  assumes "notif_frame w w'"
  shows "user_by_id r w' = user_by_id r w" "active_installations r w' = active_installations r w"
    "push_enabled_for r w' = push_enabled_for r w" "db_now w' = db_now w"
    "owed_deliveries w' = owed_deliveries w" "t_installations w' = t_installations w"
    "db_cuid w' = db_cuid w"
  using notif_frame_fields [OF assms]
  by (simp_all add: user_by_id_def active_installations_def push_enabled_for_def
      settings_of_def owed_deliveries_def fun_eq_iff)

lemma published_Nil: "wf_notif w \<Longrightarrow> published input t [] w w (0, 0)"
  by (simp add: published_def)

lemma published_append:
  assumes "published input t rs w v k" "published input t rs' v u k'"
  shows "published input t (rs @ rs') w u (fst k + fst k', snd k + snd k')"
proof -
  have f: "notif_frame w v" using assms(1) by (simp add: published_def)
  obtain ns ds where 1: "t_notifications v = t_notifications w @ ns" "t_deliveries v = t_deliveries w @ ds"
    "map n_user ns = rs" "\<forall>n\<in>set ns. n = new_notification input (n_user n) (n_id n) (db_now w)"
    "map delivery_key ds = concat (map (owed_deliveries w) ns)"
    "\<forall>d\<in>set ds. d = new_delivery (pd_notification d) t (db_now w) (pd_installation d) (pd_id d)"
    "k = (length ns, length ds)"
    using assms(1) unfolding published_def by blast
  obtain ns' ds' where 2: "t_notifications u = t_notifications v @ ns'" "t_deliveries u = t_deliveries v @ ds'"
    "map n_user ns' = rs'" "\<forall>n\<in>set ns'. n = new_notification input (n_user n) (n_id n) (db_now v)"
    "map delivery_key ds' = concat (map (owed_deliveries v) ns')"
    "\<forall>d\<in>set ds'. d = new_delivery (pd_notification d) t (db_now v) (pd_installation d) (pd_id d)"
    "k' = (length ns', length ds')"
    using assms(2) unfolding published_def by blast
  have "notif_frame w u \<and> wf_notif u"
    using assms f unfolding published_def by (blast intro: notif_frame_trans)
  then show ?thesis
    unfolding published_def using 1 2 frame_reads [OF f]
    by (intro conjI exI [of _ "ns @ ns'"] exI [of _ "ds @ ds'"]) auto
qed

lemma distinct_active_installations:
  "wf_notif w \<Longrightarrow> distinct (map pi_id (active_installations r w))"
  by (simp add: wf_notif_def active_installations_def find_many_def distinct_map
      inj_on_def)

lemma map2_left: "length ys = length xs \<Longrightarrow> map (\<lambda>p. f (fst p)) (zip xs ys) = map f xs"
  by (induction xs ys rule: list_induct2') auto

lemma fresh_delivery_run:
  "fresh_delivery nid sch t i w =
   (Inr (new_delivery nid sch t (pi_id i) (db_cuid w (db_next w))), w\<lparr>db_next := Suc (db_next w)\<rparr>)"
  by (simp add: fresh_delivery_def)

lemma mapS_new_deliveries:
  "\<exists>ids n. mapS (fresh_delivery nid sch t) is w
     = (Inr (map2 (\<lambda>i d. new_delivery nid sch t (pi_id i) d) is ids), w\<lparr>db_next := n\<rparr>)
   \<and> length ids = length is \<and> db_next w \<le> n"
proof (induction "is" arbitrary: w)
  case Nil
  show ?case by (intro exI [of _ "[]"] exI [of _ "db_next w"]) simp
next
  case (Cons i "is")
  let ?w = "w\<lparr>db_next := Suc (db_next w)\<rparr>"
  from Cons.IH [of ?w] obtain ids n where
    *: "mapS (fresh_delivery nid sch t) is ?w
     = (Inr (map2 (\<lambda>i d. new_delivery nid sch t (pi_id i) d) is ids), ?w\<lparr>db_next := n\<rparr>)"
    "length ids = length is" "Suc (db_next w) \<le> n" by (metis db.select_convs(3) db.update_convs(3) db.surjective)
  have "mapS (fresh_delivery nid sch t) (i # is) w =
     bindS (mapS (fresh_delivery nid sch t) is)
       (\<lambda>ys. ret (new_delivery nid sch t (pi_id i) (db_cuid w (db_next w)) # ys)) ?w"
    by (simp, rule bindS_Inr, rule fresh_delivery_run)
  also have "\<dots> = (Inr (new_delivery nid sch t (pi_id i) (db_cuid w (db_next w)) #
       map2 (\<lambda>i d. new_delivery nid sch t (pi_id i) d) is ids), ?w\<lparr>db_next := n\<rparr>)"
    by (subst bindS_apply, subst *(1)) simp
  finally show ?case using *
    by (intro exI [of _ "db_cuid w (db_next w) # ids"] exI [of _ n]) simp
qed


lemma create_deliveries_run:
  assumes "wf_notif w" "nid \<in> n_id ` set (t_notifications w)"
    "\<forall>d\<in>set (t_deliveries w). pd_notification d \<noteq> nid" "distinct (map pi_id is)"
  shows "\<exists>ds n. create_deliveries nid sch is w
       = (Inr (length ds), w\<lparr>db_next := n, t_deliveries := t_deliveries w @ ds\<rparr>)
     \<and> map delivery_key ds = map (\<lambda>i. (nid, pi_id i)) is
     \<and> (\<forall>d\<in>set ds. d = new_delivery nid sch (db_now w) (pd_installation d) (pd_id d))
     \<and> db_next w \<le> n"
proof -
  obtain ids n where *: "mapS (fresh_delivery nid sch (db_now w)) is w
     = (Inr (map2 (\<lambda>i d. new_delivery nid sch (db_now w) (pi_id i) d) is ids), w\<lparr>db_next := n\<rparr>)"
    "length ids = length is" "db_next w \<le> n"
    using mapS_new_deliveries by blast
  let ?ds = "map2 (\<lambda>i d. new_delivery nid sch (db_now w) (pi_id i) d) is ids"
  have k: "map delivery_key ?ds = map (\<lambda>i. (nid, pi_id i)) is"
    using *(2) by (simp add: new_delivery_def comp_def case_prod_unfold
        map2_left [of ids "is" "\<lambda>i. (nid, pi_id i)"])
  have "create_many_skip delivery_key ?ds (t_deliveries w) = t_deliveries w @ ?ds"
  proof (rule create_many_skip_fresh)
    have "fst (delivery_key d) = nid" if "d \<in> set ?ds" for d
      using that by (auto simp: new_delivery_def set_zip)
    then show "\<forall>d\<in>set ?ds. delivery_key d \<notin> set (map delivery_key (t_deliveries w))"
      using assms(3) by (metis (no_types, lifting) fst_conv imageE list.set_map)
    show "distinct (map delivery_key ?ds)"
      unfolding k using assms(4) by (simp add: distinct_map inj_on_def)
  qed
  then have "create_deliveries nid sch is w
       = (Inr (length ?ds), w\<lparr>db_next := n, t_deliveries := t_deliveries w @ ?ds\<rparr>)"
    unfolding create_deliveries_def by (simp add: svc_exec *(1) Let_def)
  moreover have "\<forall>d\<in>set ?ds. d = new_delivery nid sch (db_now w) (pd_installation d) (pd_id d)"
    by (auto simp: new_delivery_def set_zip)
  ultimately show ?thesis using k *(3) by blast
qed


lemma wf_notif_new_notification:
  assumes "wf_notif w"
  shows "wf_notif (w\<lparr>db_next := Suc (db_next w), t_notifications := t_notifications w @
           [new_notification input r (db_cuid w (db_next w)) (db_now w)]\<rparr>)"
    and "\<forall>d\<in>set (t_deliveries w). pd_notification d \<noteq> db_cuid w (db_next w)"
proof -
  have f: "ids_below (db_cuid w) (Suc (db_next w)) (map n_id (t_notifications w) @ [db_cuid w (db_next w)])"
    using assms by (intro ids_below_fresh) (simp_all add: wf_notif_def)
  then show "wf_notif (w\<lparr>db_next := Suc (db_next w), t_notifications := t_notifications w @
           [new_notification input r (db_cuid w (db_next w)) (db_now w)]\<rparr>)"
    using assms by (auto simp: wf_notif_def new_notification_def)
  show "\<forall>d\<in>set (t_deliveries w). pd_notification d \<noteq> db_cuid w (db_next w)"
  proof -
    have "db_cuid w (db_next w) \<notin> n_id ` set (t_notifications w)"
      using f by (simp add: ids_below_def)
    then show ?thesis using assms unfolding wf_notif_def by metis
  qed
qed

lemma publish_one_missing:
  "user_by_id r w = None \<Longrightarrow> publish_one input t r w = (Inr (0, 0), w)"
  by (simp add: publish_one_def)

lemma publish_one_creates:
  assumes wf: "wf_notif w" and u: "user_by_id r w \<noteq> None" and nc: "\<not> dedupe_clash input r w"
  shows "\<exists>k w'. publish_one input t r w = (Inr k, w') \<and> published input t [r] w w' k"
proof -
  let ?i = "db_cuid w (db_next w)"
  let ?n = "new_notification input r ?i (db_now w)"
  let ?w1 = "w\<lparr>db_next := Suc (db_next w), t_notifications := t_notifications w @ [?n]\<rparr>"
  let ?is = "active_installations r w"
  have c: "create_notification input r w = (Inr ?i, ?w1)"
    using nc by (auto simp: create_notification_def dedupe_clash_def)
  have fr: "notif_frame w ?w1" by simp
  have wf1: "wf_notif ?w1" and new: "\<forall>d\<in>set (t_deliveries ?w1). pd_notification d \<noteq> ?i"
    using wf_notif_new_notification [OF wf] by simp_all
  have n: "n_user ?n = r" "n_id ?n = ?i" by (simp_all add: new_notification_def)
  show ?thesis
  proof (cases "push_enabled_for r w \<and> ?is \<noteq> []")
    case False
    then have "publish_one input t r w = (Inr (1, 0), ?w1)"
      using u by (auto simp: publish_one_def svc_exec c frame_reads [OF fr])
    moreover have "published input t [r] w ?w1 (1, 0)"
      unfolding published_def using wf1 False n
      by (intro conjI exI [of _ "[?n]"] exI [of _ "[]"]) (auto simp: owed_deliveries_def)
    ultimately show ?thesis by blast
  next
    case True
    have "distinct (map pi_id ?is)" using wf by (rule distinct_active_installations)
    then obtain ds m where d: "create_deliveries ?i t ?is ?w1
         = (Inr (length ds), ?w1\<lparr>db_next := m, t_deliveries := t_deliveries w @ ds\<rparr>)"
      "map delivery_key ds = map (\<lambda>i. (?i, pi_id i)) ?is"
      "\<forall>d\<in>set ds. d = new_delivery ?i t (db_now w) (pd_installation d) (pd_id d)"
      "Suc (db_next w) \<le> m"
      using create_deliveries_run [OF wf1 _ new, of ?is t] n by auto
    let ?w2 = "?w1\<lparr>db_next := m, t_deliveries := t_deliveries w @ ds\<rparr>"
    have "publish_one input t r w = (Inr (1, length ds), ?w2)"
      using u True by (auto simp: publish_one_def svc_exec c frame_reads [OF fr] d(1))
    moreover have "published input t [r] w ?w2 (1, length ds)"
    proof -
      have nid: "\<forall>d\<in>set ds. pd_notification d = ?i" using d(3) by (metis new_delivery_def delivery_row.select_convs(2))
      have "ids_below (db_cuid w) m (map n_id (t_notifications ?w1))"
        using wf1 d(4) by (auto simp: wf_notif_def ids_below_def)
      then have "wf_notif ?w2" using wf1 nid n by (auto simp: wf_notif_def)
      moreover have "map delivery_key ds = concat (map (owed_deliveries w) [?n])"
        using True d(2) n by (simp add: owed_deliveries_def)
      moreover have "\<forall>d\<in>set ds. d = new_delivery (pd_notification d) t (db_now w) (pd_installation d) (pd_id d)"
        using d(3) nid by metis
      ultimately show ?thesis unfolding published_def
        by (intro conjI exI [of _ "[?n]"] exI [of _ ds]) (simp_all add: n)
    qed
    ultimately show ?thesis by blast
  qed
qed

lemma dedupe_clash_published:
  assumes "published input t rs w w' k" "r \<notin> set rs" "\<not> dedupe_clash input r w"
  shows "\<not> dedupe_clash input r w'"
  using assms unfolding published_def dedupe_clash_def by auto

lemma mapS_publish_one:
  assumes "wf_notif w" "distinct rs" "\<forall>r\<in>set rs. \<not> dedupe_clash input r w"
  shows "\<exists>ks w'. mapS (publish_one input t) rs w = (Inr ks, w')
     \<and> published input t (filter (\<lambda>r. user_by_id r w \<noteq> None) rs) w w'
         (sum_list (map fst ks), sum_list (map snd ks))"
  using assms
proof (induction rs arbitrary: w)
  case Nil
  then show ?case by (simp add: published_Nil)
next
  case (Cons r rs)
  obtain k w1 where 1: "publish_one input t r w = (Inr k, w1)"
      "published input t (filter (\<lambda>r. user_by_id r w \<noteq> None) [r]) w w1 k"
    using publish_one_creates [OF Cons.prems(1), of r input t] Cons.prems publish_one_missing [of r w input t]
      published_Nil [OF Cons.prems(1), of input t]
    by (cases "user_by_id r w = None") auto
  have f: "notif_frame w w1" "wf_notif w1" using 1(2) by (auto simp: published_def)
  have "\<forall>q\<in>set rs. \<not> dedupe_clash input q w1"
  proof
    fix q assume q: "q \<in> set rs"
    then have "q \<notin> set (filter (\<lambda>r. user_by_id r w \<noteq> None) [r])" using Cons.prems(2) by auto
    then show "\<not> dedupe_clash input q w1"
      using dedupe_clash_published [OF 1(2)] Cons.prems(3) q by simp
  qed
  then obtain ks w2 where 2: "mapS (publish_one input t) rs w1 = (Inr ks, w2)"
      "published input t (filter (\<lambda>r. user_by_id r w1 \<noteq> None) rs) w1 w2
         (sum_list (map fst ks), sum_list (map snd ks))"
    using Cons.IH [OF f(2)] Cons.prems by auto
  have "mapS (publish_one input t) (r # rs) w = (Inr (k # ks), w2)"
    by (simp add: bindS_apply 1(1) 2(1))
  moreover have split: "filter (\<lambda>r. user_by_id r w \<noteq> None) (r # rs) =
      filter (\<lambda>r. user_by_id r w \<noteq> None) [r] @ filter (\<lambda>r. user_by_id r w1 \<noteq> None) rs"
    by (simp add: frame_reads [OF f(1)])
  ultimately show ?case
    using published_append [OF 1(2) 2(2)] unfolding split
    by (intro exI [of _ "k # ks"] exI [of _ w2]) simp
qed

text \<open>The recipients that get a notification: existing users, once each, never the actor, and not those
  who already have one with the same dedupe key.\<close>

definition notified_users :: "publish_input \<Rightarrow> db \<Rightarrow> string list" where
  "notified_users input w =
     filter (\<lambda>r. \<not> dedupe_clash input r w \<and> user_by_id r w \<noteq> None) (publish_recipients input)"

lemma publish_candidates_eq:
  assumes "pb_dedupeKey input \<noteq> Some []"
  shows "publish_candidates input (t_notifications w) =
         filter (\<lambda>r. \<not> dedupe_clash input r w) (publish_recipients input)"
  unfolding publish_candidates_def Let_def
  by (rule filter_cong) (use assms in \<open>auto simp: truthy_def dedupe_clash_def split: option.splits\<close>)

lemma publish_run:
  assumes "wf_notif w" "pb_dedupeKey input \<noteq> Some []"
  shows "\<exists>k w'. publish input w = (Inr \<lparr>pr_count = fst k, pr_deliveryCount = snd k\<rparr>, w')
     \<and> published input (default_to (pb_scheduledFor input) (db_now w)) (notified_users input w) w w' k"
proof -
  let ?rs = "publish_recipients input" and ?t = "default_to (pb_scheduledFor input) (db_now w)"
  let ?cs = "publish_candidates input (t_notifications w)"
  note cs = publish_candidates_eq [OF assms(2), of w]
  have dc: "distinct ?cs" unfolding cs by (simp add: publish_recipients_def)
  have nu: "notified_users input w = filter (\<lambda>r. user_by_id r w \<noteq> None) ?cs"
    unfolding notified_users_def cs by (simp add: conj_commute)
  obtain ks w' where 1: "mapS (publish_one input ?t) ?cs w = (Inr ks, w')"
     "published input ?t (notified_users input w) w w' (sum_list (map fst ks), sum_list (map snd ks))"
    using mapS_publish_one [OF assms(1) dc, of input ?t] unfolding nu by (auto simp: cs)
  have p0: "published input ?t [] w w (0, 0)" using assms(1) by (rule published_Nil)
  show ?thesis
  proof (cases "?rs = [] \<or> ?cs = []")
    case True
    then have "publish input w = (Inr \<lparr>pr_count = 0, pr_deliveryCount = 0\<rparr>, w)"
      by (auto simp: publish_def svc_exec)
    moreover have "notified_users input w = []" using True by (auto simp: nu cs filter_empty_conv)
    ultimately show ?thesis using p0 by (intro exI [of _ "(0, 0)"] exI [of _ w]) simp
  next
    case False
    then have "publish input w = (Inr \<lparr>pr_count = sum_list (map fst ks), pr_deliveryCount = sum_list (map snd ks)\<rparr>, w')"
      by (simp add: publish_def svc_exec 1(1))
    then show ?thesis using 1(2)
      by (intro exI [of _ "(sum_list (map fst ks), sum_list (map snd ks))"] exI [of _ w']) simp
  qed
qed


lemma mapS_publish_missing:
  "\<forall>r\<in>set rs. user_by_id r w = None \<Longrightarrow>
   mapS (publish_one input t) rs w = (Inr (map (\<lambda>_. (0, 0)) rs), w)"
  by (induction rs) (simp_all add: svc_exec publish_one_missing)

lemma publish_nobody:
  assumes "pb_dedupeKey input \<noteq> Some []" "notified_users input w = []"
  shows "publish input w = (Inr \<lparr>pr_count = 0, pr_deliveryCount = 0\<rparr>, w)"
proof -
  let ?cs = "publish_candidates input (t_notifications w)"
  have "\<forall>r\<in>set ?cs. user_by_id r w = None"
    using assms(2) by (auto simp: publish_candidates_eq [OF assms(1)] notified_users_def filter_empty_conv)
  then have "mapS (publish_one input t) ?cs w = (Inr (map (\<lambda>_. (0, 0)) ?cs), w)" for t
    by (rule mapS_publish_missing)
  then show ?thesis by (simp add: publish_def svc_exec comp_def)
qed

text \<open>After publishing under a dedupe key nobody is left to tell, and later publishing does not change that.\<close>

lemma publish_settles:
  assumes "wf_notif w" "pb_dedupeKey input = Some key" "key \<noteq> []"
  shows "notified_users input (snd (publish input w)) = []"
proof -
  have k: "pb_dedupeKey input \<noteq> Some []" using assms(2,3) by simp
  obtain k w' where run: "snd (publish input w) = w'"
    and p: "published input (default_to (pb_scheduledFor input) (db_now w)) (notified_users input w) w w' k"
    using publish_run [OF assms(1) k] by auto
  then have f: "notif_frame w w'" "wf_notif w'" by (simp_all add: published_def)
  have "dedupe_clash input r w' \<or> user_by_id r w' = None" if "r \<in> set (publish_recipients input)" for r
  proof (cases "user_by_id r w = None \<or> dedupe_clash input r w")
    case True
    then show ?thesis using p frame_reads(1) [OF f(1)]
      by (auto simp: published_def dedupe_clash_def)
  next
    case False
    then have "r \<in> set (notified_users input w)" using that by (simp add: notified_users_def)
    moreover obtain ns where ns: "t_notifications w' = t_notifications w @ ns"
        "map n_user ns = notified_users input w"
        "\<forall>n\<in>set ns. n = new_notification input (n_user n) (n_id n) (db_now w)"
      using p unfolding published_def by blast
    ultimately obtain n where "n \<in> set ns" "n_user n = r" by (metis imageE list.set_map)
    moreover from this have "n_dedupe n = pb_dedupeKey input"
      using ns(3) by (metis new_notification_def notification_row.select_convs(6))
    ultimately show ?thesis using ns(1) assms(2) by (auto simp: dedupe_clash_def)
  qed
  then show ?thesis unfolding run notified_users_def by (auto simp: filter_empty_conv)
qed

lemma notified_users_later:
  assumes "notified_users input w = []" "t_users w' = t_users w" "t_notifications w' = t_notifications w @ ns"
  shows "notified_users input w' = []"
  using assms unfolding notified_users_def by (auto simp: filter_empty_conv dedupe_clash_def user_by_id_def)

text \<open>Under a dedupe key publishing never throws: the only error is the conflict that the loop catches.\<close>

lemma returns_catch_errors:
  assumes "\<And>w e. fst (m w) = Inl e \<Longrightarrow> returns (h e)"
  shows "returns (catchS m h)"
  unfolding returns_def catchS_apply
proof
  fix s show "\<exists>a. fst (case m s of (Inl e, s') \<Rightarrow> h e s' | (Inr a, s') \<Rightarrow> (Inr a, s')) = Inr a"
  proof (cases "m s")
    case (Pair r s')
    then show ?thesis using assms [of s] by (cases r) (auto simp: returns_def)
  qed
qed

lemma bindS_error:
  assumes "fst (bindS m f w) = Inl e" "\<And>a. returns (f a)"
  shows "fst (m w) = Inl e"
proof (cases "m w")
  case (Pair r w')
  then show ?thesis using assms(1) returnsD [OF assms(2)] by (cases r) (auto simp: bindS_apply dest: sym, metis Inl_Inr_False fst_conv)
qed

lemma publish_one_returns_keyed:
  assumes "truthy (pb_dedupeKey input)" shows "returns (publish_one input t r)"
proof -
  have c: "e = PrismaError ''P2002''" if "fst (create_notification input r w) = Inl e" for w e
    using that by (auto simp: create_notification_def seqS_apply split: if_splits)
  have f: "returns (bindS (gets (active_installations r)) (\<lambda>installations. bindS (gets (push_enabled_for r)) (\<lambda>enabled.
      if \<not> (enabled \<and> installations \<noteq> []) then ret (1, 0)
      else bindS (create_deliveries nid t installations) (\<lambda>c. ret (1, c)))))" for nid
    unfolding create_deliveries_def fresh_delivery_def by (intro returns_intro)
  show ?thesis
    unfolding publish_one_def
    by (rule returns_bind [OF returns_gets], rule returns_case_option [OF returns_ret], rule returns_catch_errors,
        drule bindS_error [OF _ f], drule c) (simp add: assms returns_ret)
qed

lemma publish_returns_keyed: "truthy (pb_dedupeKey input) \<Longrightarrow> returns (publish input)"
  unfolding publish_def by (intro returns_intro publish_one_returns_keyed)

section \<open>The inbox and the installations\<close>

lemma update_read_count:
  assumes "unique_key n_id ns" "n \<in> set ns" "n_read n = None" "n_user n = u"
  shows "count_rows (\<lambda>x. n_user x = u \<and> n_read x = None) ns =
    Suc (count_rows (\<lambda>x. n_user x = u \<and> n_read x = None)
          (update_many (\<lambda>x. n_id x = n_id n) (\<lambda>x. x\<lparr>n_read := Some t\<rparr>) ns))"
  using assms
proof (induction ns)
  case (Cons a ns)
  show ?case
  proof (cases "a = n")
    case True
    then have "n_id n \<notin> n_id ` set ns" using Cons.prems(1) by simp
    then have "update_many (\<lambda>x. n_id x = n_id n) (\<lambda>x. x\<lparr>n_read := Some t\<rparr>) ns = ns"
      by (intro update_many_noop) (metis imageI)
    then show ?thesis using True Cons.prems by (simp add: count_rows_def)
  next
    case False
    then have "n \<in> set ns" "n_id a \<noteq> n_id n" using Cons.prems by auto
    then show ?thesis using Cons by (simp add: count_rows_def)
  qed
qed simp

lemma count_rows_update_none:
  assumes "\<And>r. p r \<Longrightarrow> \<not> q (f r)" "\<And>r. q r \<Longrightarrow> p r"
  shows "count_rows q (update_many p f t) = 0"
  using assms by (induction t) (auto simp: count_rows_def)

text \<open>No device token is active on two installations of a provider.\<close>

definition token_exclusive :: "db \<Rightarrow> bool" where
  "token_exclusive w \<longleftrightarrow>
     (\<forall>i\<in>set (t_installations w). \<forall>j\<in>set (t_installations w).
        pi_revoked i = None \<longrightarrow> pi_revoked j = None \<longrightarrow> pi_provider i = pi_provider j \<longrightarrow>
        pi_token i = pi_token j \<longrightarrow> installation_key i = installation_key j)"

lemma register_run:
  "t_installations (snd (registerMyPushInstallation u input w)) =
   (let rows = update_many (token_elsewhere input) (\<lambda>i. i\<lparr>pi_revoked := Some (db_now w)\<rparr>) (t_installations w)
    in if \<exists>r\<in>set rows. same_installation input r
       then update_many (same_installation input) (refreshed_installation u input (db_now w)) rows
       else rows @ [new_installation u input (db_now w) (db_cuid w (db_next w))])"
proof -
  let ?rows = "update_many (token_elsewhere input) (\<lambda>i. i\<lparr>pi_revoked := Some (db_now w)\<rparr>) (t_installations w)"
  show ?thesis
  proof (cases "find_unique (same_installation input) ?rows")
    case None
    then have "\<not> (\<exists>r\<in>set ?rows. same_installation input r)" by (simp add: find_unique_None)
    then show ?thesis using None
      by (simp add: registerMyPushInstallation_def svc_exec Let_def)
  next
    case (Some r)
    then have "\<exists>r\<in>set ?rows. same_installation input r" by (meson find_unique_Some)
    then show ?thesis using Some
      by (simp add: registerMyPushInstallation_def svc_exec Let_def)
  qed
qed

lemma register_rows:
  assumes "i \<in> set (t_installations (snd (registerMyPushInstallation u input w)))"
  shows "(same_installation input i \<and> pi_token i = ut_token input \<and> pi_user i = u
          \<and> pi_revoked i = None \<and> pi_disabled i = None)
       \<or> (\<not> same_installation input i \<and> \<not> token_elsewhere input i
          \<and> (\<exists>j\<in>set (t_installations w). installation_key j = installation_key i
               \<and> pi_token j = pi_token i \<and> (pi_revoked i = None \<longrightarrow> pi_revoked j = None)))"
proof -
  let ?rows = "update_many (token_elsewhere input) (\<lambda>i. i\<lparr>pi_revoked := Some (db_now w)\<rparr>) (t_installations w)"
  have hit: "\<not> token_elsewhere input (q\<lparr>pi_revoked := Some t\<rparr>)" for q t
    by (simp add: token_elsewhere_def)
  have old: "\<not> token_elsewhere input q \<and> (\<exists>j\<in>set (t_installations w). installation_key j = installation_key q
               \<and> pi_token j = pi_token q \<and> (pi_revoked q = None \<longrightarrow> pi_revoked j = None))"
    if "q \<in> set ?rows" for q
  proof -
    obtain j where j: "j \<in> set (t_installations w)"
      "q = (if token_elsewhere input j then j\<lparr>pi_revoked := Some (db_now w)\<rparr> else j)"
      using \<open>q \<in> set ?rows\<close> unfolding set_update_many by blast
    then show ?thesis using hit by (cases "token_elsewhere input j") auto
  qed
  have ref: "same_installation input (refreshed_installation u input t q) = same_installation input q" for t q
    by (simp add: same_installation_def refreshed_installation_def)
  consider (ref) q where "q \<in> set ?rows" "same_installation input q" "i = refreshed_installation u input (db_now w) q"
    | (new) k where "i = new_installation u input (db_now w) k"
    | (old) "i \<in> set ?rows" "\<not> same_installation input i"
  proof -
    consider "i \<in> set (update_many (same_installation input) (refreshed_installation u input (db_now w)) ?rows)"
      | "i \<in> set (?rows @ [new_installation u input (db_now w) (db_cuid w (db_next w))])"
          "\<not> (\<exists>r\<in>set ?rows. same_installation input r)"
      using assms unfolding register_run Let_def
      by (cases "\<exists>r\<in>set ?rows. same_installation input r") simp_all
    then show thesis
    proof cases
      case 1
      then obtain q where "q \<in> set ?rows"
          "i = (if same_installation input q then refreshed_installation u input (db_now w) q else q)"
        unfolding set_update_many [of "same_installation input"] by blast
      then show ?thesis using that by metis
    next
      case 2
      then show ?thesis using that(2,3) by (metis Un_iff empty_iff insert_iff list.set set_append)
    qed
  qed
  then show ?thesis
  proof cases
    case ref
    then show ?thesis by (simp add: same_installation_def refreshed_installation_def)
  next
    case new
    then show ?thesis by (simp add: same_installation_def new_installation_def)
  next
    case old
    then show ?thesis using \<open>\<And>q. q \<in> set ?rows \<Longrightarrow> _\<close> by blast
  qed
qed

section \<open>Properties\<close>

text \<open>C1: \<open>publish\<close> never fails and does exactly this: one unread notification for every distinct existing
  recipient that is not the actor and has none with the dedupe key yet, in order; for each of them one
  pending delivery per active installation of the recipient if push is enabled; nothing else in
  the database changes, and the counts it returns are those of the rows it created.\<close>

theorem publish_exact:
  assumes "wf_notif w" "pb_dedupeKey input \<noteq> Some []"
  shows "\<exists>ns ds w'. publish input w =
       (Inr \<lparr>pr_count = length ns, pr_deliveryCount = length ds\<rparr>, w')
     \<and> t_notifications w' = t_notifications w @ ns \<and> t_deliveries w' = t_deliveries w @ ds
     \<and> map n_user ns = notified_users input w
     \<and> (\<forall>n\<in>set ns. n = new_notification input (n_user n) (n_id n) (db_now w))
     \<and> map delivery_key ds = concat (map (owed_deliveries w) ns)
     \<and> (\<forall>d\<in>set ds. d = new_delivery (pd_notification d)
           (default_to (pb_scheduledFor input) (db_now w)) (db_now w) (pd_installation d) (pd_id d))
     \<and> notif_frame w w' \<and> wf_notif w'"
  using publish_run [OF assms] unfolding published_def by fastforce

definition sample_input :: publish_input where
  "sample_input = \<lparr>pb_actorId = Some ''a'', pb_dedupeKey = Some ''k'', pb_entity = None,
     pb_payload = None, pb_recipientIds = [''a'', ''b'', ''b'', ''z''], pb_scheduledFor = Some 5,
     pb_type = NGroupInvite\<rparr>"

definition sample_installation :: installation_row where
  "sample_installation = \<lparr>pi_id = ''i'', pi_user = ''b'', pi_provider = Expo, pi_installation = ''dev'',
     pi_token = ''tok'', pi_platform = Ios, pi_timezone = ''UTC'', pi_last_seen = 0,
     pi_disabled = None, pi_revoked = None, pi_created = 0\<rparr>"

definition sample_inbox :: db where
  "sample_inbox = empty_db 1\<lparr>t_users := [sample_user ''a'', sample_user ''b''],
     t_installations := [sample_installation]\<rparr>"

lemma sample_inbox_wf: "wf_notif sample_inbox"
  by (simp add: wf_notif_def sample_inbox_def empty_db_def ids_below_def)

lemma sample_notified: "notified_users sample_input sample_inbox = [''b'']"
  by (simp add: notified_users_def publish_recipients_def sample_input_def truthy_def dedupe_def
      sample_inbox_def empty_db_def dedupe_clash_def user_by_id_def sample_user_def)

theorem publish_exact_witness:
  "\<exists>(ns :: notification_row list) (ds :: delivery_row list) w'. publish sample_input sample_inbox = (Inr \<lparr>pr_count = 1, pr_deliveryCount = 1\<rparr>, w')
     \<and> map n_user ns = [''b''] \<and> map delivery_key ds = [(n_id (hd ns), ''i'')]"
proof -
  have "pb_dedupeKey sample_input \<noteq> Some []" by (simp add: sample_input_def)
  from publish_exact [OF sample_inbox_wf this] obtain ns ds w' where
    *: "publish sample_input sample_inbox = (Inr \<lparr>pr_count = length ns, pr_deliveryCount = length ds\<rparr>, w')"
    "map n_user ns = [''b'']" "map delivery_key ds = concat (map (owed_deliveries sample_inbox) ns)"
    unfolding sample_notified by (elim exE conjE) (rule that; assumption)
  then obtain n where n: "ns = [n]" "n_user n = ''b''" by auto
  have "owed_deliveries sample_inbox n = [(n_id n, ''i'')]"
    by (simp add: owed_deliveries_def n(2) push_enabled_for_def settings_of_def sample_inbox_def
        empty_db_def active_installations_def find_many_def sample_installation_def)
  then have d: "map delivery_key ds = [(n_id n, ''i'')]" using *(3) n(1) by simp
  then have "length (map delivery_key ds) = 1" by simp
  then have "length ds = 1" by (simp only: length_map)
  then show ?thesis using * d n
    by - (rule exI [of _ ns], rule exI [of _ ds], rule exI [of _ w'], simp)
qed

text \<open>Publishing the same event twice under a dedupe key notifies nobody the second time and leaves the
  database as it is.\<close>

theorem publish_idempotent:
  assumes "wf_notif w" "pb_dedupeKey input = Some key" "key \<noteq> []" "publish input w = (r, w')"
  shows "publish input w' = (Inr \<lparr>pr_count = 0, pr_deliveryCount = 0\<rparr>, w')"
  using assms publish_settles [OF assms(1), of input key] by (intro publish_nobody) auto

theorem publish_idempotent_witness:
  "publish sample_input (snd (publish sample_input sample_inbox))
   = (Inr \<lparr>pr_count = 0, pr_deliveryCount = 0\<rparr>, snd (publish sample_input sample_inbox))"
  by (rule publish_idempotent [OF sample_inbox_wf _ _ prod.collapse [symmetric], of _ "''k''"])
     (simp_all add: sample_input_def)

text \<open>After a device registers its token, that token is active on no other installation of the
  provider, the installation belongs to the caller and can receive, and exclusiveness of tokens is an
  invariant of registering and revoking.\<close>

theorem register_token_exclusive:
  "(\<forall>i\<in>set (t_installations (snd (registerMyPushInstallation u input w))).
      if pi_provider i = ut_provider input \<and> pi_installation i = ut_installationId input
      then pi_user i = u \<and> pi_token i = ut_token input \<and> pi_revoked i = None \<and> pi_disabled i = None
      else \<not> (pi_provider i = ut_provider input \<and> pi_token i = ut_token input \<and> pi_revoked i = None))
   \<and> (\<exists>i\<in>set (t_installations (snd (registerMyPushInstallation u input w))).
        installation_key i = (ut_provider input, ut_installationId input))
   \<and> keeps token_exclusive (registerMyPushInstallation u input)
   \<and> keeps token_exclusive (revokeMyPushInstallation u iid)"
proof (intro conjI keepsI ballI)
  fix i assume "i \<in> set (t_installations (snd (registerMyPushInstallation u input w)))"
  from register_rows [OF this] show "if pi_provider i = ut_provider input \<and> pi_installation i = ut_installationId input
      then pi_user i = u \<and> pi_token i = ut_token input \<and> pi_revoked i = None \<and> pi_disabled i = None
      else \<not> (pi_provider i = ut_provider input \<and> pi_token i = ut_token input \<and> pi_revoked i = None)"
    by (auto simp: same_installation_def token_elsewhere_def)
next
  show "\<exists>i\<in>set (t_installations (snd (registerMyPushInstallation u input w))).
        installation_key i = (ut_provider input, ut_installationId input)"
  proof -
    let ?rows = "update_many (token_elsewhere input) (\<lambda>i. i\<lparr>pi_revoked := Some (db_now w)\<rparr>) (t_installations w)"
    have k: "installation_key (refreshed_installation u input t q) = installation_key q" for t q
      by (simp add: refreshed_installation_def)
    show ?thesis
    proof (cases "\<exists>r\<in>set ?rows. same_installation input r")
      case True
      then obtain r where r: "r \<in> set ?rows" "same_installation input r" by blast
      then have "refreshed_installation u input (db_now w) r
          \<in> set (update_many (same_installation input) (refreshed_installation u input (db_now w)) ?rows)"
        unfolding set_update_many [of "same_installation input"] by (intro image_eqI [of _ _ r]) simp_all
      moreover have "installation_key (refreshed_installation u input (db_now w) r)
          = (ut_provider input, ut_installationId input)"
        using r(2) unfolding k by (simp add: same_installation_def)
      ultimately show ?thesis unfolding register_run Let_def if_P [OF True] by (rule bexI [rotated])
    next
      case False
      then show ?thesis unfolding register_run Let_def by (simp add: new_installation_def)
    qed
  qed
next
  fix v assume ex: "token_exclusive v"
  show "token_exclusive (snd (registerMyPushInstallation u input v))"
    unfolding token_exclusive_def
  proof (intro ballI impI)
    fix i j
    assume i: "i \<in> set (t_installations (snd (registerMyPushInstallation u input v)))"
      and j: "j \<in> set (t_installations (snd (registerMyPushInstallation u input v)))"
      and a: "pi_revoked i = None" "pi_revoked j = None" "pi_provider i = pi_provider j" "pi_token i = pi_token j"
    show "installation_key i = installation_key j"
      using register_rows [OF i] register_rows [OF j]
    proof (elim disjE conjE bexE)
      fix i' j' assume "i' \<in> set (t_installations v)" "j' \<in> set (t_installations v)"
        "installation_key i' = installation_key i" "installation_key j' = installation_key j"
        "pi_token i' = pi_token i" "pi_token j' = pi_token j"
        "pi_revoked i = None \<longrightarrow> pi_revoked i' = None" "pi_revoked j = None \<longrightarrow> pi_revoked j' = None"
      then show ?thesis using a ex unfolding token_exclusive_def by (metis prod.inject)
    qed (use a in \<open>simp_all add: same_installation_def token_elsewhere_def\<close>)
  qed
next
  fix v assume "token_exclusive v"
  moreover have "i \<in> set (t_installations v)"
    if "i \<in> set (t_installations (snd (revokeMyPushInstallation u iid v)))" "pi_revoked i = None" for i
    using that by (auto simp: revokeMyPushInstallation_def set_update_many split: if_splits)
  ultimately show "token_exclusive (snd (revokeMyPushInstallation u iid v))"
    unfolding token_exclusive_def by blast
qed

theorem register_token_exclusive_witness:
  "pi_user (hd (t_installations (snd (registerMyPushInstallation ''c''
     \<lparr>ut_installationId = ''dev'', ut_platform = Ios, ut_provider = Expo, ut_timezone = ''UTC'',
      ut_token = ''tok2''\<rparr> sample_inbox)))) = ''c''"
  using register_token_exclusive [of "''c''" "\<lparr>ut_installationId = ''dev'', ut_platform = Ios,
      ut_provider = Expo, ut_timezone = ''UTC'', ut_token = ''tok2''\<rparr>" sample_inbox "''dev''"]
  by (simp add: register_run Let_def sample_inbox_def empty_db_def sample_installation_def
      token_elsewhere_def same_installation_def refreshed_installation_def)

text \<open>Marking a notification read is confined to its owner: an id that is not the caller's gives 404
  and changes nothing; otherwise no other row changes and the unread total drops by one exactly when the
  notification was unread.\<close>

theorem mark_read_confined:
  assumes "unique_key n_id (t_notifications w)"
  shows "case find_unique (\<lambda>n. n_id n = nid \<and> n_user n = u) (t_notifications w) of
      None \<Rightarrow> markMyNotificationRead u nid w = (Inl (NotFound ''Notification not found''), w)
    | Some n \<Rightarrow>
        fst (markMyNotificationRead u nid w) = Inr ()
      \<and> filter (\<lambda>x. n_id x \<noteq> nid) (t_notifications (snd (markMyNotificationRead u nid w)))
          = filter (\<lambda>x. n_id x \<noteq> nid) (t_notifications w)
      \<and> np_unreadTotal (listForUser u l off b w)
          = np_unreadTotal (listForUser u l off b (snd (markMyNotificationRead u nid w)))
            + (if n_read n = None then 1 else 0)"
proof (cases "find_unique (\<lambda>n. n_id n = nid \<and> n_user n = u) (t_notifications w)")
  case None
  then show ?thesis by (simp add: markMyNotificationRead_def markRead_def svc_exec)
next
  case (Some n)
  then have n: "n \<in> set (t_notifications w)" "n_id n = nid" "n_user n = u"
    using find_unique_Some by fastforce+
  show ?thesis
  proof (cases "n_read n")
    case None
    let ?t = "update_many (\<lambda>x. n_id x = n_id n) (\<lambda>x. x\<lparr>n_read := Some (db_now w)\<rparr>) (t_notifications w)"
    have run: "markMyNotificationRead u nid w = (Inr (), w\<lparr>t_notifications := ?t\<rparr>)"
      by (simp add: markMyNotificationRead_def markRead_def svc_exec Some None set_notifications_def)
    have "filter (\<lambda>x. n_id x \<noteq> nid) ?t = filter (\<lambda>x. n_id x \<noteq> nid) (t_notifications w)"
      by (rule filter_update_many_other) (simp_all add: n(2))
    then show ?thesis
      using update_read_count [OF assms n(1) None n(3), of "db_now w"]
      by (simp add: Some run None listForUser_def Let_def)
  next
    case (Some t)
    then show ?thesis
      using \<open>find_unique _ _ = Some n\<close>
      by (simp add: markMyNotificationRead_def markRead_def svc_exec)
  qed
qed

definition sample_notification :: "string \<Rightarrow> string \<Rightarrow> notification_row" where
  "sample_notification i u = \<lparr>n_id = i, n_user = u, n_actor = None, n_type = NFollow, n_entity = None,
     n_dedupe = None, n_payload = JNull, n_read = None, n_created = 0\<rparr>"

theorem mark_read_confined_witness:
  "markMyNotificationRead ''a'' ''n2''
     (empty_db 3\<lparr>t_notifications := [sample_notification ''n1'' ''a'', sample_notification ''n2'' ''b'']\<rparr>)
   = (Inl (NotFound ''Notification not found''),
      empty_db 3\<lparr>t_notifications := [sample_notification ''n1'' ''a'', sample_notification ''n2'' ''b'']\<rparr>)"
  using mark_read_confined [where nid = "''n2''" and u = "''a''" and w =
     "empty_db 3\<lparr>t_notifications := [sample_notification ''n1'' ''a'', sample_notification ''n2'' ''b'']\<rparr>"]
  by (simp add: sample_notification_def)

text \<open>C7: \<open>markAllRead\<close> returns the caller's unread total and leaves it at zero, and the rows of other users
  as they are.\<close>

theorem mark_all_read_total:
  "fst (markAllRead u w) = Inr (np_unreadTotal (listForUser u l off b w))
   \<and> np_unreadTotal (listForUser u l off b (snd (markAllRead u w))) = 0
   \<and> filter (\<lambda>n. n_user n \<noteq> u) (t_notifications (snd (markAllRead u w)))
       = filter (\<lambda>n. n_user n \<noteq> u) (t_notifications w)"
proof -
  have "filter (\<lambda>n. n_user n \<noteq> u) (update_many (\<lambda>n. n_read n = None \<and> n_user n = u) f ns)
      = filter (\<lambda>n. n_user n \<noteq> u) ns" if "\<And>n. n_user (f n) = n_user n" for f :: "notification_row \<Rightarrow> notification_row" and ns
    using that by (induction ns) auto
  then show ?thesis
    by (simp add: markAllRead_def svc_exec set_notifications_def listForUser_def Let_def conj_commute
        count_rows_update_none)
qed

end
