(* ===== verification/PushDispatch.thy ===== *)
theory PushDispatch
  imports Notifications
begin

text \<open>
  The text of a notification (\<open>lib/presenters/notification.presenter.ts\<close>) and the dispatcher of push
  deliveries (\<open>social/push-dispatch.service.ts\<close>): sending pending deliveries to Expo in batches, retrying,
  giving up, and reading the receipts.  The HTTP call is the parameter \<open>fetch\<close>; it may change the database,
  since other requests run while a call is awaited.  The messages of exceptions that are not the service's
  own are the parameter \<open>emsg\<close>.  The request header with the access token and the log lines are left out.
\<close>

section \<open>The text of a notification\<close>

type_synonym notification_data = "(string \<times> json) list option"

definition normalizeNotificationData :: "json \<Rightarrow> notification_data" where
  "normalizeNotificationData payload = (case payload of JObj kvs \<Rightarrow> Some kvs | _ \<Rightarrow> None)"

text \<open>A value that is missing, not a string or blank counts as absent.\<close>

definition readNotificationString :: "notification_data \<Rightarrow> string \<Rightarrow> string option" where
  "readNotificationString data key =
     (case data of
        None \<Rightarrow> None
      | Some kvs \<Rightarrow> (case map_of kvs key of
            Some (JStr v) \<Rightarrow> if js_trim v \<noteq> [] then Some v else None
          | _ \<Rightarrow> None))"

record presentation =
  pn_body :: string
  pn_deepLink :: "string option"
  pn_title :: string

definition readCustomNotificationPresentation :: "notification_data \<Rightarrow> presentation option" where
  "readCustomNotificationPresentation data =
     (case (readNotificationString data ''title'', readNotificationString data ''body'') of
        (Some title, Some body) \<Rightarrow>
          Some \<lparr>pn_body = body, pn_deepLink = readNotificationString data ''deepLink'', pn_title = title\<rparr>
      | _ \<Rightarrow> None)"

definition mapRsvpLabel :: "string option \<Rightarrow> string" where
  "mapRsvpLabel v =
     [CHR 0x22] @ (if v = Some ''going'' then ''voy''
       else if v = Some ''maybe'' then ''quiz'' @ [CHR 0xE1] @ ''s''
       else if v = Some ''declined'' then ''no voy''
       else ''sin respuesta'') @ [CHR 0x22]"

text \<open>\<open>id ? prefix + id + suffix : null\<close>.\<close>

definition deep_link :: "string \<Rightarrow> string option \<Rightarrow> string \<Rightarrow> string option" where
  "deep_link pre i post = (if truthy i then Some (pre @ the i @ post) else None)"

definition buildNotificationPresentation ::
  "notification_type \<Rightarrow> user_summary option \<Rightarrow> notification_data \<Rightarrow> (string \<times> entity_type) option \<Rightarrow> presentation" where
  "buildNotificationPresentation ty actor data entity =
     (let actorName = (case actor of
              None \<Rightarrow> ''Alguien''
            | Some a \<Rightarrow> if us_displayName a \<noteq> [] then us_displayName a
                       else if us_username a \<noteq> [] then us_username a else ''Alguien'');
          custom = readCustomNotificationPresentation data;
          rd = readNotificationString data;
          groupId = or_else (rd ''groupId'') (map_option fst entity);
          groupLink = deep_link ''/group/'' groupId [];
          ownGroupLink = deep_link ''/group/'' (rd ''groupId'') [];
          yourPlan = default_to (rd ''groupName'') ''tu plan'';
          aPlan = default_to (rd ''groupName'') ''un plan'';
          say = (\<lambda>b l t. \<lparr>pn_body = b, pn_deepLink = l, pn_title = t\<rparr>)
      in case ty of
        NFollow \<Rightarrow> say (actorName @ '' empez'' @ [CHR 0xF3] @ '' a seguirte'')
          (case actor of None \<Rightarrow> None | Some a \<Rightarrow> Some (''/user/'' @ us_id a)) ''Nuevo seguidor''
      | NGroupInvite \<Rightarrow> say (actorName @ '' te invit'' @ [CHR 0xF3] @ '' a '' @ yourPlan) groupLink
          (''Invitaci'' @ [CHR 0xF3] @ ''n a un plan'')
      | NGroupJoined \<Rightarrow> say (actorName @ '' se sum'' @ [CHR 0xF3] @ '' a '' @ yourPlan) groupLink
          ''Nuevo miembro en el plan''
      | NGroupJoinRequest \<Rightarrow> say (actorName @ '' quiere sumarse a '' @ yourPlan) groupLink
          ''Nueva solicitud para tu plan''
      | NGroupJoinApproved \<Rightarrow> say (''Ya pod'' @ [CHR 0xE9] @ ''s participar en '' @ aPlan) groupLink
          ''Solicitud aprobada''
      | NGroupJoinRejected \<Rightarrow> say (''Tu solicitud para '' @ default_to (rd ''groupName'') ''ese plan''
            @ '' no fue aprobada'') groupLink ''Solicitud rechazada''
      | NGroupMessage \<Rightarrow> say (''Hay un mensaje nuevo en '' @ aPlan) (deep_link ''/group/'' groupId ''/chat'')
          ''Mensaje nuevo''
      | NGroupReport \<Rightarrow> say (case rd ''reason'' of
              Some reason \<Rightarrow> actorName @ '' report'' @ [CHR 0xF3] @ '' '' @ yourPlan @ '': '' @ reason
            | None \<Rightarrow> actorName @ '' report'' @ [CHR 0xF3] @ '' '' @ yourPlan) groupLink ''Plan reportado''
      | NGroupEventProposed \<Rightarrow> say (actorName @ '' propuso '' @ default_to (rd ''placeName'') ''un lugar''
            @ '' para '' @ yourPlan) ownGroupLink ''Nuevo plan propuesto''
      | NGroupEventRsvp \<Rightarrow> say (actorName @ '' respondi'' @ [CHR 0xF3] @ '' '' @ mapRsvpLabel (rd ''rsvp'')
            @ '' para '' @ default_to (rd ''placeName'') ''el plan'') ownGroupLink ''Nuevo RSVP''
      | NVisitCreated \<Rightarrow> say (actorName @ '' visit'' @ [CHR 0xF3] @ '' '' @ default_to (rd ''placeName'') ''un lugar'')
          (deep_link ''/place/'' (or_else (rd ''placeGooglePlaceId'') (rd ''placeId'')) []) ''Nueva visita''
      | NDiaryPublished \<Rightarrow> say (actorName @ '' public'' @ [CHR 0xF3] @ '' ''
            @ default_to (rd ''diaryName'') (''una gu'' @ [CHR 0xED] @ ''a''))
          (deep_link ''/diary/'' (or_else (rd ''diaryId'') (map_option fst entity)) [])
          (''Nueva gu'' @ [CHR 0xED] @ ''a publicada'')
      | NGroupInviteReminder \<Rightarrow> default_to custom
          (say (''Todav'' @ [CHR 0xED] @ ''a ten'' @ [CHR 0xE9] @ ''s pendiente la invitaci'' @ [CHR 0xF3] @ ''n a '' @ yourPlan)
            groupLink (''Invitaci'' @ [CHR 0xF3] @ ''n pendiente''))
      | NGroupEventRsvpReminder \<Rightarrow> default_to custom
          (say (''Falta tu respuesta para '' @ default_to (rd ''placeName'') ''tu plan'') ownGroupLink
            ''Recordatorio de RSVP'')
      | NGroupEventTodayReminder \<Rightarrow> default_to custom
          (say (''Tu plan de hoy sigue en pie: '' @ default_to (rd ''placeName'') ''tu plan'') ownGroupLink
            ''Plan para hoy'')
      | NWeeklyDigest \<Rightarrow> default_to custom
          (say (''Mir'' @ [CHR 0xE1] @ '' lo m'' @ [CHR 0xE1] @ ''s interesante de tu red esta semana.'')
            (Some ''/notifications'') ''Resumen semanal'')
      | NContextualRecommendation \<Rightarrow> default_to custom
          (say (''Tenemos una recomendaci'' @ [CHR 0xF3] @ ''n para tu pr'' @ [CHR 0xF3] @ ''xima salida: ''
              @ default_to (rd ''placeName'') ''un lugar'')
            (deep_link ''/place/'' (or_else (or_else (rd ''placeGooglePlaceId'') (rd ''placeId'')) (map_option fst entity)) [])
            (''Recomendaci'' @ [CHR 0xF3] @ ''n para vos'')))"

record notification_view =
  nv_actor :: "user_summary option"
  nv_body :: string
  nv_createdAt :: int
  nv_data :: notification_data
  nv_deepLink :: "string option"
  nv_entity :: "(string \<times> entity_type) option"
  nv_id :: string
  nv_read :: bool
  nv_title :: string
  nv_type :: notification_type

text \<open>An entity with an empty id counts as none.\<close>

definition serializeNotification :: "db \<Rightarrow> notification_row \<Rightarrow> notification_view" where
  "serializeNotification w n =
     (let actor = map_option serializeUserSummary
            (case n_actor n of None \<Rightarrow> None | Some a \<Rightarrow> user_by_id a w);
          data = normalizeNotificationData (n_payload n);
          entity = (case n_entity n of Some (i, k) \<Rightarrow> if i \<noteq> [] then Some (i, k) else None | None \<Rightarrow> None);
          p = buildNotificationPresentation (n_type n) actor data entity
      in \<lparr>nv_actor = actor, nv_body = pn_body p, nv_createdAt = n_created n, nv_data = data,
          nv_deepLink = pn_deepLink p, nv_entity = entity, nv_id = n_id n, nv_read = (n_read n \<noteq> None),
          nv_title = pn_title p, nv_type = n_type n\<rparr>)"

section \<open>Batches\<close>

definition MAX_SEND_BATCH_SIZE :: nat where "MAX_SEND_BATCH_SIZE = 100"
definition MAX_RECEIPT_BATCH_SIZE :: nat where "MAX_RECEIPT_BATCH_SIZE = 300"
definition MAX_SEND_ATTEMPTS :: nat where "MAX_SEND_ATTEMPTS = 5"
definition STALLED_PENDING_AFTER_MS :: int where "STALLED_PENDING_AFTER_MS = 20 * 60 * 1000"
definition STALE_TICKET_AFTER_MS :: int where "STALE_TICKET_AFTER_MS = 24 * 60 * 60 * 1000"

text \<open>\<open>chunk(items, size)\<close> with the size written \<open>Suc n\<close>: both calls pass a positive constant (with 0 the loop
  of the code would not advance).\<close>

function chunk :: "nat \<Rightarrow> 'a list \<Rightarrow> 'a list list" where
  "chunk n [] = []"
| "chunk n (x # xs) = take (Suc n) (x # xs) # chunk n (drop (Suc n) (x # xs))"
  by pat_completeness auto
termination by (relation "measure (\<lambda>(n, xs). length xs)") auto

lemma concat_chunk [simp]: "concat (chunk n xs) = xs"
  by (induction n xs rule: chunk.induct) simp_all

lemma chunk_bounds: "b \<in> set (chunk n xs) \<Longrightarrow> b \<noteq> [] \<and> length b \<le> Suc n"
  by (induction n xs rule: chunk.induct) auto

section \<open>Expo\<close>

datatype expo_ticket = TicketOk string | TicketError "string option" "string option"

datatype expo_data = OneTicket expo_ticket | ManyTickets "expo_ticket list"

definition normalizeExpoTickets :: "expo_data option \<Rightarrow> expo_ticket list" where
  "normalizeExpoTickets data = (case data of
     None \<Rightarrow> [] | Some (OneTicket t) \<Rightarrow> [t] | Some (ManyTickets ts) \<Rightarrow> ts)"

text \<open>The message and the code of an error; empty strings count as absent in the first test only.\<close>

definition buildExpoErrorMessage :: "string option \<Rightarrow> string option \<Rightarrow> string" where
  "buildExpoErrorMessage msg code =
     (if truthy msg \<and> truthy code then the code @ '': '' @ the msg
      else default_to code (default_to msg ''Unknown Expo push error''))"

definition isPermanentExpoError :: "string option \<Rightarrow> bool" where
  "isPermanentExpoError code \<longleftrightarrow> code = Some ''DeviceNotRegistered'' \<or> code = Some ''MessageTooBig''"

definition shouldDisableInstallation :: "string option \<Rightarrow> bool" where
  "shouldDisableInstallation code \<longleftrightarrow> code = Some ''DeviceNotRegistered''"

record push_message =
  pm_badge :: "nat option"
  pm_body :: string
  pm_deepLink :: "string option"
  pm_notificationId :: string
  pm_type :: notification_type
  pm_title :: string
  pm_to :: string

datatype expo_receipt = ReceiptOk | ReceiptError "string option" "string option"

record 'r fetch_response =
  fr_status :: nat
  fr_json :: 'r

definition postExpo :: "('b \<Rightarrow> 'r fetch_response dbm) \<Rightarrow> 'b \<Rightarrow> 'r dbm" where
  "postExpo fetch body =
     bindS (fetch body) (\<lambda>r.
       if fr_status r < 200 \<or> 299 < fr_status r
       then throw (InternalError (''Expo API responded '' @ nat_text (fr_status r)))
       else ret (fr_json r))"

section \<open>Sending\<close>

text \<open>A delivery with its installation and notification; the foreign keys make both required.\<close>

record sending =
  sg_delivery :: delivery_row
  sg_installation :: installation_row
  sg_notification :: notification_row

definition with_sending :: "db \<Rightarrow> delivery_row \<Rightarrow> sending list" where
  "with_sending w d =
     (case (find_unique (\<lambda>i. pi_id i = pd_installation d) (t_installations w),
            find_unique (\<lambda>n. n_id n = pd_notification d) (t_notifications w)) of
        (Some i, Some n) \<Rightarrow> [\<lparr>sg_delivery = d, sg_installation = i, sg_notification = n\<rparr>]
      | _ \<Rightarrow> [])"

definition due :: "db \<Rightarrow> delivery_row \<Rightarrow> bool" where
  "due w d \<longleftrightarrow> pd_scheduled d \<le> db_now w \<and> pd_status d = PPending"

definition due_sendings :: "nat \<Rightarrow> db \<Rightarrow> sending list" where
  "due_sendings limit w = concat (map (with_sending w) (take limit
     (sort_by (\<lambda>a b. pd_scheduled a < pd_scheduled b \<or> pd_scheduled a = pd_scheduled b \<and> pd_created a \<le> pd_created b)
       (find_many (due w) (t_deliveries w)))))"

definition inactive_sending :: "sending \<Rightarrow> bool" where
  "inactive_sending s \<longleftrightarrow> pi_disabled (sg_installation s) \<noteq> None \<or> pi_revoked (sg_installation s) \<noteq> None
     \<or> pi_token (sg_installation s) = []"

text \<open>\<open>pushDelivery.update\<close>: fails when the row is gone; \<open>updatedAt\<close> is maintained by the client.\<close>

definition update_delivery :: "string \<Rightarrow> (delivery_row \<Rightarrow> delivery_row) \<Rightarrow> unit dbm" where
  "update_delivery i f = (\<lambda>w.
     if list_ex (\<lambda>d. pd_id d = i) (t_deliveries w)
     then (Inr (), w\<lparr>t_deliveries := update_many (\<lambda>d. pd_id d = i) (\<lambda>d. (f d)\<lparr>pd_updated := db_now w\<rparr>) (t_deliveries w)\<rparr>)
     else (Inl (PrismaError ''P2025''), w))"

definition disableInstallation :: "string \<Rightarrow> int \<Rightarrow> unit dbm" where
  "disableInstallation installationId t =
     modify (\<lambda>w. w\<lparr>t_installations := update_many (\<lambda>i. pi_disabled i = None \<and> pi_id i = installationId)
        (\<lambda>i. i\<lparr>pi_disabled := Some t\<rparr>) (t_installations w)\<rparr>)"

text \<open>The counters are variables outside the \<open>try\<close> block, so they survive an exception: they are a second
  component of the state.\<close>

record tally =
  ty_good :: nat
  ty_failed :: nat

type_synonym 'a counted = "(db \<times> tally, 'a) svc"

definition on_db :: "'a dbm \<Rightarrow> 'a counted" where
  "on_db m = (\<lambda>(w, c). case m w of (r, w') \<Rightarrow> (r, (w', c)))"

definition count_good :: "unit counted" where
  "count_good = modify (\<lambda>(w, c). (w, c\<lparr>ty_good := Suc (ty_good c)\<rparr>))"

definition count_failed :: "unit counted" where
  "count_failed = modify (\<lambda>(w, c). (w, c\<lparr>ty_failed := Suc (ty_failed c)\<rparr>))"

definition with_tally :: "'a counted \<Rightarrow> tally dbm" where
  "with_tally m = (\<lambda>w. case m (w, \<lparr>ty_good = 0, ty_failed = 0\<rparr>) of
     (Inl e, (w', c)) \<Rightarrow> (Inl e, w') | (Inr _, (w', c)) \<Rightarrow> (Inr c, w'))"

text \<open>\<open>badge\<close> is the unread count by user, absent for users with none.\<close>

definition push_message_of :: "db \<Rightarrow> (string \<Rightarrow> nat option) \<Rightarrow> sending \<Rightarrow> push_message" where
  "push_message_of w badge s =
     (let p = serializeNotification w (sg_notification s)
      in \<lparr>pm_badge = badge (n_user (sg_notification s)), pm_body = nv_body p, pm_deepLink = nv_deepLink p,
          pm_notificationId = nv_id p, pm_type = nv_type p, pm_title = nv_title p,
          pm_to = pi_token (sg_installation s)\<rparr>)"

definition next_status :: "bool \<Rightarrow> nat \<Rightarrow> delivery_status" where
  "next_status permanent attemptCount =
     (if permanent \<or> MAX_SEND_ATTEMPTS \<le> attemptCount then PFailed else PPending)"

text \<open>The row after a failed attempt, from the attempt count that was read before the call.\<close>

definition attempt_failed :: "int \<Rightarrow> nat \<Rightarrow> string \<Rightarrow> delivery_status \<Rightarrow> delivery_row \<Rightarrow> delivery_row" where
  "attempt_failed sendAt attemptCount msg status d = d\<lparr>pd_attempts := attemptCount,
     pd_failed := (if status = PFailed then Some sendAt else None), pd_error := Some msg,
     pd_sent := (if status = PFailed then Some sendAt else None), pd_status := status\<rparr>"

definition attempt_ok :: "int \<Rightarrow> nat \<Rightarrow> string \<Rightarrow> delivery_row \<Rightarrow> delivery_row" where
  "attempt_ok sendAt attemptCount ticket d = d\<lparr>pd_attempts := attemptCount, pd_ticket := Some ticket,
     pd_failed := None, pd_error := None, pd_sent := Some sendAt, pd_status := PTicketed\<rparr>"

definition fail_delivery :: "int \<Rightarrow> bool \<Rightarrow> string \<Rightarrow> string option \<Rightarrow> sending \<Rightarrow> unit counted" where
  "fail_delivery sendAt permanent msg code s =
     (let d = sg_delivery s; attemptCount = Suc (pd_attempts d); status = next_status permanent attemptCount in
      seqS (on_db (update_delivery (pd_id d) (attempt_failed sendAt attemptCount msg status)))
      (seqS (if shouldDisableInstallation code
             then on_db (disableInstallation (pi_id (sg_installation s)) sendAt) else ret ())
       (if status = PFailed then count_failed else ret ())))"

definition handle_ticket :: "int \<Rightarrow> sending \<times> expo_ticket \<Rightarrow> unit counted" where
  "handle_ticket sendAt st = (case snd st of
     TicketOk ticket \<Rightarrow>
       (let d = sg_delivery (fst st) in
        seqS (on_db (update_delivery (pd_id d) (attempt_ok sendAt (Suc (pd_attempts d)) ticket))) count_good)
   | TicketError msg code \<Rightarrow>
       fail_delivery sendAt (isPermanentExpoError code) (buildExpoErrorMessage msg code) code (fst st))"

definition error_text :: "(http_error \<Rightarrow> string) \<Rightarrow> http_error \<Rightarrow> string" where
  "error_text emsg e = (case e of InternalError s \<Rightarrow> s | _ \<Rightarrow> emsg e)"

definition send_batch ::
  "(push_message list \<Rightarrow> expo_data option fetch_response dbm) \<Rightarrow> (http_error \<Rightarrow> string)
     \<Rightarrow> (string \<Rightarrow> nat option) \<Rightarrow> sending list \<Rightarrow> unit list counted" where
  "send_batch fetch emsg badge batch =
     bindS (on_db now) (\<lambda>sendAt.
     bindS (on_db (gets (\<lambda>w. map (push_message_of w badge) batch))) (\<lambda>messages.
     catchS
       (bindS (on_db (postExpo fetch messages)) (\<lambda>data.
        let tickets = normalizeExpoTickets data in
        if length tickets \<noteq> length batch then throw (InternalError ''Expo push tickets count mismatch'')
        else mapS (handle_ticket sendAt) (zip batch tickets)))
       (\<lambda>e. mapS (fail_delivery sendAt False (error_text emsg e) None) batch)))"

record dispatch_result =
  dr_cancelled :: nat
  dr_failed :: nat
  dr_processed :: nat
  dr_ticketed :: nat

definition cancel_deliveries :: "string list \<Rightarrow> nat dbm" where
  "cancel_deliveries ids =
     (let this = (\<lambda>d. pd_id d \<in> set ids) in
      bindS now (\<lambda>t. bindS (gets (\<lambda>w. count_rows this (t_deliveries w))) (\<lambda>n.
      seqS (modify (\<lambda>w. w\<lparr>t_deliveries := update_many this
              (\<lambda>d. d\<lparr>pd_failed := Some t, pd_error := Some ''Installation is inactive'', pd_status := PCancelled,
                    pd_updated := t\<rparr>) (t_deliveries w)\<rparr>)) (ret n))))"

definition unread_badges :: "db \<Rightarrow> string \<Rightarrow> nat option" where
  "unread_badges w u =
     (let n = count_rows (\<lambda>x. n_read x = None \<and> n_user x = u) (t_notifications w)
      in if n = 0 then None else Some n)"

definition dispatchPending ::
  "(push_message list \<Rightarrow> expo_data option fetch_response dbm) \<Rightarrow> (http_error \<Rightarrow> string) \<Rightarrow> nat \<Rightarrow> dispatch_result dbm" where
  "dispatchPending fetch emsg limit =
     bindS (gets (due_sendings limit)) (\<lambda>deliveries.
     if deliveries = [] then ret \<lparr>dr_cancelled = 0, dr_failed = 0, dr_processed = 0, dr_ticketed = 0\<rparr>
     else
       let inactive = filter inactive_sending deliveries;
           active = filter (\<lambda>s. pd_id (sg_delivery s) \<notin> set (map (\<lambda>e. pd_id (sg_delivery e)) inactive)) deliveries
       in bindS (if inactive = [] then ret 0 else cancel_deliveries (map (\<lambda>s. pd_id (sg_delivery s)) inactive)) (\<lambda>cancelled.
          if active = [] then ret \<lparr>dr_cancelled = cancelled, dr_failed = 0, dr_processed = length deliveries, dr_ticketed = 0\<rparr>
          else
            bindS (gets unread_badges) (\<lambda>badge.
            bindS (with_tally (mapS (send_batch fetch emsg badge) (chunk (MAX_SEND_BATCH_SIZE - 1) active))) (\<lambda>c.
            ret \<lparr>dr_cancelled = cancelled, dr_failed = ty_failed c, dr_processed = length deliveries,
                 dr_ticketed = ty_good c\<rparr>))))"

section \<open>Receipts\<close>

text \<open>\<open>orderBy sentAt asc\<close> puts nulls last.\<close>

definition nulls_last_le :: "int option \<Rightarrow> int option \<Rightarrow> bool" where
  "nulls_last_le a b = (case (a, b) of (_, None) \<Rightarrow> True | (None, Some _) \<Rightarrow> False | (Some x, Some y) \<Rightarrow> x \<le> y)"

definition ticketed_deliveries :: "nat \<Rightarrow> db \<Rightarrow> delivery_row list" where
  "ticketed_deliveries limit w = take limit
     (sort_by (\<lambda>a b. if pd_sent a = pd_sent b then pd_created a \<le> pd_created b else nulls_last_le (pd_sent a) (pd_sent b))
       (find_many (\<lambda>d. pd_ticket d \<noteq> None \<and> pd_status d = PTicketed) (t_deliveries w)))"

definition handle_receipt :: "int \<Rightarrow> (string \<times> expo_receipt) list \<Rightarrow> delivery_row \<Rightarrow> unit counted" where
  "handle_receipt handledAt receipts d =
     (if \<not> truthy (pd_ticket d) then ret ()
      else case map_of receipts (the (pd_ticket d)) of
        None \<Rightarrow> ret ()
      | Some ReceiptOk \<Rightarrow>
          seqS (on_db (update_delivery (pd_id d) (\<lambda>d. d\<lparr>pd_delivered := Some handledAt, pd_failed := None,
                  pd_error := None, pd_status := PDelivered\<rparr>))) count_good
      | Some (ReceiptError msg code) \<Rightarrow>
          seqS (on_db (update_delivery (pd_id d) (\<lambda>d. d\<lparr>pd_failed := Some handledAt,
                  pd_error := Some (buildExpoErrorMessage msg code), pd_status := PFailed\<rparr>)))
          (seqS (if shouldDisableInstallation code
                 then on_db (disableInstallation (pd_installation d) handledAt) else ret ())
            count_failed))"

definition sync_batch ::
  "(string list \<Rightarrow> (string \<times> expo_receipt) list option fetch_response dbm) \<Rightarrow> delivery_row list \<Rightarrow> unit list counted" where
  "sync_batch fetch batch =
     (let receiptIds = map the (filter truthy (map pd_ticket batch)) in
      if receiptIds = [] then ret []
      else catchS
        (bindS (on_db (postExpo fetch receiptIds)) (\<lambda>data.
         bindS (on_db now) (\<lambda>handledAt.
         mapS (handle_receipt handledAt (default_to data [])) batch)))
        (\<lambda>e. ret []))"

record sync_result =
  sr_checked :: nat
  sr_delivered :: nat
  sr_failed :: nat

definition syncReceipts ::
  "(string list \<Rightarrow> (string \<times> expo_receipt) list option fetch_response dbm) \<Rightarrow> nat \<Rightarrow> sync_result dbm" where
  "syncReceipts fetch limit =
     bindS (gets (ticketed_deliveries limit)) (\<lambda>deliveries.
     if deliveries = [] then ret \<lparr>sr_checked = 0, sr_delivered = 0, sr_failed = 0\<rparr>
     else bindS (with_tally (mapS (sync_batch fetch) (chunk (MAX_RECEIPT_BATCH_SIZE - 1) deliveries))) (\<lambda>c.
       ret \<lparr>sr_checked = length deliveries, sr_delivered = ty_good c, sr_failed = ty_failed c\<rparr>))"

section \<open>Operational status\<close>

record operational_status =
  os_counts :: "delivery_status \<Rightarrow> nat"
  os_healthy :: bool
  os_latestDeliveredAt :: "int option"
  os_oldestPendingAt :: "int option"
  os_staleTicketed :: nat
  os_stalledPending :: nat

text \<open>\<open>orderBy deliveredAt desc\<close> puts nulls first.\<close>

definition getOperationalStatus :: "int \<Rightarrow> db \<Rightarrow> operational_status" where
  "getOperationalStatus t w =
     (let ds = t_deliveries w;
          stalledPending = count_rows (\<lambda>d. pd_scheduled d \<le> t - STALLED_PENDING_AFTER_MS \<and> pd_status d = PPending) ds;
          staleTicketed = count_rows (\<lambda>d. (case pd_sent d of None \<Rightarrow> False | Some x \<Rightarrow> x \<le> t - STALE_TICKET_AFTER_MS)
                             \<and> pd_status d = PTicketed) ds;
          oldestPending = head_opt (sort_by (\<lambda>a b. pd_scheduled a < pd_scheduled b
                             \<or> pd_scheduled a = pd_scheduled b \<and> pd_created a \<le> pd_created b)
                           (find_many (\<lambda>d. pd_status d = PPending) ds));
          latestDelivered = head_opt (sort_by (\<lambda>a b. nulls_last_le (pd_delivered b) (pd_delivered a))
                           (find_many (\<lambda>d. pd_status d = PDelivered) ds))
      in \<lparr>os_counts = (\<lambda>st. count_rows (\<lambda>d. pd_status d = st) ds),
          os_healthy = (stalledPending = 0 \<and> staleTicketed = 0),
          os_latestDeliveredAt = (case latestDelivered of None \<Rightarrow> None | Some d \<Rightarrow> pd_delivered d),
          os_oldestPendingAt = map_option pd_scheduled oldestPending,
          os_staleTicketed = staleTicketed, os_stalledPending = stalledPending\<rparr>)"

section \<open>What one delivery goes through\<close>

text \<open>A batch of attempts moves exactly the rows with the given ids, each by \<open>attempted\<close>.\<close>

definition attempted :: "delivery_row \<Rightarrow> delivery_row \<Rightarrow> bool" where
  "attempted d d' \<longleftrightarrow> pd_attempts d' = Suc (pd_attempts d)
     \<and> (pd_status d' = PTicketed \<and> pd_ticket d' \<noteq> None \<and> pd_sent d' \<noteq> None
        \<or> pd_status d' = PFailed \<and> pd_failed d' \<noteq> None
        \<or> pd_status d' = PPending \<and> pd_attempts d' < MAX_SEND_ATTEMPTS \<and> pd_sent d' = None)"

definition same_delivery :: "delivery_row \<Rightarrow> delivery_row \<Rightarrow> bool" where
  "same_delivery d d' \<longleftrightarrow> pd_id d' = pd_id d \<and> pd_notification d' = pd_notification d
     \<and> pd_installation d' = pd_installation d \<and> pd_scheduled d' = pd_scheduled d \<and> pd_created d' = pd_created d"

definition moved :: "(delivery_row \<Rightarrow> delivery_row \<Rightarrow> bool) \<Rightarrow> string set \<Rightarrow> delivery_row list \<Rightarrow> delivery_row list \<Rightarrow> bool" where
  "moved R ids t t' \<longleftrightarrow> list_all2 (\<lambda>d d'. same_delivery d d' \<and> (if pd_id d \<in> ids then R d d' else d' = d)) t t'"

lemma same_delivery_refl [simp]: "same_delivery d d" by (simp add: same_delivery_def)

lemma moved_refl: "moved R {} t t"
  by (simp add: moved_def list.rel_refl)

lemma moved_trans:
  assumes "moved R A t t'" "moved R B t' t''" "A \<inter> B = {}"
  shows "moved R (A \<union> B) t t''"
  using assms(1,2) unfolding moved_def
proof (rule list_all2_trans [rotated 1])
  fix a b c
  assume "same_delivery a b \<and> (if pd_id a \<in> A then R a b else b = a)"
    "same_delivery b c \<and> (if pd_id b \<in> B then R b c else c = b)"
  then show "same_delivery a c \<and> (if pd_id a \<in> A \<union> B then R a c else c = a)"
    using assms(3) by (auto simp: same_delivery_def split: if_splits)
qed

lemma moved_ids: "moved R A t t' \<Longrightarrow> map pd_id t' = map pd_id t"
  unfolding moved_def by (induction rule: list_all2_induct) (auto simp: same_delivery_def)

lemma moved_keeps_row: "moved R A t t' \<Longrightarrow> d \<in> set t \<Longrightarrow> pd_id d \<notin> A \<Longrightarrow> d \<in> set t'"
  unfolding moved_def by (induction rule: list_all2_induct) auto

lemma moved_update:
  assumes "distinct (map pd_id t)" "d \<in> set t" "R d (f d)" "\<And>x. same_delivery x (f x)"
  shows "moved R {pd_id d} t (update_many (\<lambda>x. pd_id x = pd_id d) f t)"
proof -
  have "x = d" if "x \<in> set t" "pd_id x = pd_id d" for x
    using assms(1,2) that by (metis distinct_map_filter_unique)
  then show ?thesis
    using assms(3,4) unfolding moved_def update_many_def by (auto simp: list_all2_map2 list_all2_same)
qed

end
