(* ===== verification/PushProperties.thy ===== *)
theory PushProperties
  imports PushDispatch
begin

text \<open>
  What the push dispatcher keeps to.  \<open>moves R m ds\<close> says of a step \<open>m\<close> that it cannot throw and changes exactly the
  rows \<open>ds\<close> of the deliveries, each as \<open>R\<close> allows; it holds of a ticket, a failure and a receipt and composes over
  batches.
\<close>

section \<open>Steps that move deliveries\<close>

definition moves :: "(delivery_row \<Rightarrow> delivery_row \<Rightarrow> bool) \<Rightarrow> 'a counted \<Rightarrow> delivery_row list \<Rightarrow> bool" where
  "moves R m ds \<longleftrightarrow> (\<forall>w c. unique_key pd_id (t_deliveries w) \<longrightarrow> set ds \<subseteq> set (t_deliveries w) \<longrightarrow>
     distinct (map pd_id ds) \<longrightarrow>
     (\<exists>x w' c'. m (w, c) = (Inr x, (w', c')) \<and> moved R (pd_id ` set ds) (t_deliveries w) (t_deliveries w')))"

lemma movesI:
  assumes "\<And>w c. unique_key pd_id (t_deliveries w) \<Longrightarrow> set ds \<subseteq> set (t_deliveries w) \<Longrightarrow> distinct (map pd_id ds) \<Longrightarrow>
     \<exists>x w' c'. m (w, c) = (Inr x, (w', c')) \<and> moved R (pd_id ` set ds) (t_deliveries w) (t_deliveries w')"
  shows "moves R m ds"
  using assms by (simp add: moves_def)

lemma movesD:
  "moves R m ds \<Longrightarrow> unique_key pd_id (t_deliveries w) \<Longrightarrow> set ds \<subseteq> set (t_deliveries w) \<Longrightarrow>
   distinct (map pd_id ds) \<Longrightarrow>
   \<exists>x w' c'. m (w, c) = (Inr x, (w', c')) \<and> moved R (pd_id ` set ds) (t_deliveries w) (t_deliveries w')"
  unfolding moves_def by blast

lemma moves_mapS:
  assumes "\<And>x. x \<in> set xs \<Longrightarrow> moves R (f x) (g x)"
  shows "moves R (mapS f xs) (concat (map g xs))"
  using assms
proof (induction xs)
  case Nil
  show ?case by (rule movesI) (simp add: moved_refl)
next
  case (Cons x xs)
  show ?case
  proof (rule movesI)
    fix w :: db and c :: tally
    assume u: "unique_key pd_id (t_deliveries w)" and s: "set (concat (map g (x # xs))) \<subseteq> set (t_deliveries w)"
      and d: "distinct (map pd_id (concat (map g (x # xs))))"
    let ?rest = "concat (map g xs)"
    have dj: "pd_id ` set (g x) \<inter> pd_id ` set ?rest = {}" using d by simp
    have hx: "moves R (f x) (g x)" "set (g x) \<subseteq> set (t_deliveries w)" "distinct (map pd_id (g x))"
      using Cons.prems s d by simp_all
    from movesD [OF hx(1) u hx(2,3)] obtain a w1 c1 where 1: "f x (w, c) = (Inr a, (w1, c1))"
      "moved R (pd_id ` set (g x)) (t_deliveries w) (t_deliveries w1)" by blast
    have hr: "moves R (mapS f xs) ?rest" "distinct (map pd_id ?rest)"
      using Cons.IH Cons.prems d by simp_all
    have u1: "unique_key pd_id (t_deliveries w1)" using moved_ids [OF 1(2)] u by simp
    have s1: "set ?rest \<subseteq> set (t_deliveries w1)"
    proof
      fix y assume y: "y \<in> set ?rest"
      then have "y \<in> set (t_deliveries w)" using s by auto
      moreover have "pd_id y \<notin> pd_id ` set (g x)" using y dj by (metis IntI empty_iff imageI)
      ultimately show "y \<in> set (t_deliveries w1)" by (rule moved_keeps_row [OF 1(2)])
    qed
    from movesD [OF hr(1) u1 s1 hr(2)] obtain b w2 c2 where 2: "mapS f xs (w1, c1) = (Inr b, (w2, c2))"
      "moved R (pd_id ` set ?rest) (t_deliveries w1) (t_deliveries w2)" by blast
    have "moved R (pd_id ` set (concat (map g (x # xs)))) (t_deliveries w) (t_deliveries w2)"
      using moved_trans [OF 1(2) 2(2) dj] by (simp add: image_Un)
    moreover have "mapS f (x # xs) (w, c) = (Inr (a # b), (w2, c2))"
      by (simp add: bindS_apply 1(1) 2(1))
    ultimately show "\<exists>y w' c'. mapS f (x # xs) (w, c) = (Inr y, (w', c')) \<and>
        moved R (pd_id ` set (concat (map g (x # xs)))) (t_deliveries w) (t_deliveries w')" by blast
  qed
qed

lemma update_delivery_run:
  assumes "unique_key pd_id (t_deliveries w)" "d \<in> set (t_deliveries w)"
    and "\<And>t. R d ((f d)\<lparr>pd_updated := t\<rparr>)" "\<And>x t. same_delivery x ((f x)\<lparr>pd_updated := t\<rparr>)"
  shows "\<exists>w'. update_delivery (pd_id d) f w = (Inr (), w') \<and> moved R {pd_id d} (t_deliveries w) (t_deliveries w')"
proof -
  have "list_ex (\<lambda>x. pd_id x = pd_id d) (t_deliveries w)" using assms(2) by (auto simp: list_ex_iff)
  moreover have "moved R {pd_id d} (t_deliveries w) (update_many (\<lambda>x. pd_id x = pd_id d)
      (\<lambda>x. (f x)\<lparr>pd_updated := db_now w\<rparr>) (t_deliveries w))"
    using assms by (intro moved_update) simp_all
  ultimately show ?thesis by (simp add: update_delivery_def)
qed

lemma attempts_fail: "moves attempted (fail_delivery t p msg code s) [sg_delivery s]"
proof (rule movesI)
  fix w :: db and c :: tally
  assume u: "unique_key pd_id (t_deliveries w)" and s: "set [sg_delivery s] \<subseteq> set (t_deliveries w)"
  let ?d = "sg_delivery s" and ?st = "next_status p (Suc (pd_attempts (sg_delivery s)))"
  have "attempted ?d ((attempt_failed t (Suc (pd_attempts ?d)) msg ?st ?d)\<lparr>pd_updated := x\<rparr>)" for x
    by (auto simp: attempted_def attempt_failed_def next_status_def)
  moreover have "same_delivery y ((attempt_failed t (Suc (pd_attempts ?d)) msg ?st y)\<lparr>pd_updated := x\<rparr>)" for x y
    by (simp add: same_delivery_def attempt_failed_def)
  ultimately have "\<exists>w'. update_delivery (pd_id ?d) (attempt_failed t (Suc (pd_attempts ?d)) msg ?st) w = (Inr (), w')
      \<and> moved attempted {pd_id ?d} (t_deliveries w) (t_deliveries w')"
    using s by (intro update_delivery_run [OF u]) simp_all
  then obtain w' where "update_delivery (pd_id ?d) (attempt_failed t (Suc (pd_attempts ?d)) msg ?st) w = (Inr (), w')"
    "moved attempted {pd_id ?d} (t_deliveries w) (t_deliveries w')" by blast
  then show "\<exists>x w' c'. fail_delivery t p msg code s (w, c) = (Inr x, (w', c')) \<and>
      moved attempted (pd_id ` set [?d]) (t_deliveries w) (t_deliveries w')"
    by (simp add: fail_delivery_def Let_def seqS_apply on_db_def count_failed_def disableInstallation_def)
qed

lemma attempts_ticket: "moves attempted (handle_ticket t (s, ticket)) [sg_delivery s]"
proof (cases ticket)
  case (TicketError msg code)
  then show ?thesis using attempts_fail by (simp add: handle_ticket_def)
next
  case (TicketOk i)
  show ?thesis
  proof (rule movesI)
    fix w :: db and c :: tally
    assume u: "unique_key pd_id (t_deliveries w)" and s: "set [sg_delivery s] \<subseteq> set (t_deliveries w)"
    let ?d = "sg_delivery s"
    have "attempted ?d ((attempt_ok t (Suc (pd_attempts ?d)) i ?d)\<lparr>pd_updated := x\<rparr>)" for x
      by (auto simp: attempted_def attempt_ok_def)
    moreover have "same_delivery y ((attempt_ok t (Suc (pd_attempts ?d)) i y)\<lparr>pd_updated := x\<rparr>)" for x y
      by (simp add: same_delivery_def attempt_ok_def)
    ultimately have "\<exists>w'. update_delivery (pd_id ?d) (attempt_ok t (Suc (pd_attempts ?d)) i) w = (Inr (), w')
        \<and> moved attempted {pd_id ?d} (t_deliveries w) (t_deliveries w')"
      using s by (intro update_delivery_run [OF u]) simp_all
    then obtain w' where "update_delivery (pd_id ?d) (attempt_ok t (Suc (pd_attempts ?d)) i) w = (Inr (), w')"
      "moved attempted {pd_id ?d} (t_deliveries w) (t_deliveries w')" by blast
    then show "\<exists>x w' c'. handle_ticket t (s, ticket) (w, c) = (Inr x, (w', c')) \<and>
        moved attempted (pd_id ` set [?d]) (t_deliveries w) (t_deliveries w')"
      by (simp add: handle_ticket_def TicketOk Let_def seqS_apply on_db_def count_good_def)
  qed
qed

text \<open>A call during which nothing else changes the database.\<close>

definition quiet :: "('b \<Rightarrow> 'r dbm) \<Rightarrow> bool" where
  "quiet fetch \<longleftrightarrow> (\<forall>b w. snd (fetch b w) = w)"

lemma postExpo_quiet:
  assumes "quiet fetch" shows "snd (postExpo fetch b w) = w"
proof -
  obtain r where "fetch b w = (r, w)" using assms unfolding quiet_def by (metis prod.collapse)
  then show ?thesis by (cases r) (simp_all add: postExpo_def bindS_apply)
qed

lemma send_batch_run:
  assumes "postExpo fetch (map (push_message_of w badge) batch) w = (r, w)"
  shows "send_batch fetch emsg badge batch (w, c) = (let fail = (\<lambda>e. mapS (fail_delivery (db_now w) False (error_text emsg e) None) batch)
     in case r of
       Inl e \<Rightarrow> fail e (w, c)
     | Inr data \<Rightarrow>
         if length (normalizeExpoTickets data) \<noteq> length batch
         then fail (InternalError ''Expo push tickets count mismatch'') (w, c)
         else (case mapS (handle_ticket (db_now w)) (zip batch (normalizeExpoTickets data)) (w, c) of
                 (Inl e, s) \<Rightarrow> fail e s | (Inr x, s) \<Rightarrow> (Inr x, s)))"
  using assms by (cases r) (simp_all add: send_batch_def bindS_apply on_db_def now_apply catchS_apply Let_def)

lemma attempts_batch:
  assumes "quiet fetch"
  shows "moves attempted (send_batch fetch emsg badge batch) (map sg_delivery batch)"
proof (rule movesI)
  fix w :: db and c :: tally
  assume u: "unique_key pd_id (t_deliveries w)" "set (map sg_delivery batch) \<subseteq> set (t_deliveries w)"
    "distinct (map pd_id (map sg_delivery batch))"
  let ?msgs = "map (push_message_of w badge) batch"
  obtain r where r: "postExpo fetch ?msgs w = (r, w)" using postExpo_quiet [OF assms, of ?msgs w] by (metis prod.collapse)
  have failing: "\<exists>x w' c'. mapS (fail_delivery (db_now w) False m None) batch (w, c) = (Inr x, (w', c')) \<and>
      moved attempted (pd_id ` set (map sg_delivery batch)) (t_deliveries w) (t_deliveries w')" for m
    by (rule movesD [OF _ u])
      (rule moves_mapS [where g = "\<lambda>s. [sg_delivery s]", unfolded concat_map_singleton], rule attempts_fail)
  show "\<exists>x w' c'. send_batch fetch emsg badge batch (w, c) = (Inr x, (w', c')) \<and>
      moved attempted (pd_id ` set (map sg_delivery batch)) (t_deliveries w) (t_deliveries w')"
  proof (cases r)
    case (Inl e)
    then show ?thesis using failing unfolding send_batch_run [OF r] by simp
  next
    case (Inr data)
    let ?ts = "normalizeExpoTickets data"
    show ?thesis
    proof (cases "length ?ts = length batch")
      case False
      then show ?thesis using failing unfolding send_batch_run [OF r] Let_def Inr by simp
    next
      case True
      have "moves attempted (mapS (handle_ticket (db_now w)) (zip batch ?ts)) (concat (map (\<lambda>st. [sg_delivery (fst st)]) (zip batch ?ts)))"
        by (rule moves_mapS) (use attempts_ticket in \<open>auto simp: split_paired_all\<close>)
      moreover have "concat (map (\<lambda>st. [sg_delivery (fst st)]) (zip batch ?ts)) = map sg_delivery batch"
      proof -
        have "map (\<lambda>st. sg_delivery (fst st)) (zip batch ?ts) = map sg_delivery (map fst (zip batch ?ts))" by simp
        then show ?thesis unfolding concat_map_singleton using True by (simp only: map_fst_zip)
      qed
      ultimately have "moves attempted (mapS (handle_ticket (db_now w)) (zip batch ?ts)) (map sg_delivery batch)" by simp
      from movesD [OF this u] obtain x w' c' where
        m1: "mapS (handle_ticket (db_now w)) (zip batch ?ts) (w, c) = (Inr x, (w', c'))" and
        m2: "moved attempted (pd_id ` set (map sg_delivery batch)) (t_deliveries w) (t_deliveries w')" by blast
      have "send_batch fetch emsg badge batch (w, c) = (Inr x, (w', c'))"
        unfolding send_batch_run [OF r] Let_def Inr sum.case using True m1 by simp
      then show ?thesis using m2 by blast
    qed
  qed
qed

definition cancelled :: "delivery_row \<Rightarrow> delivery_row \<Rightarrow> bool" where
  "cancelled d d' \<longleftrightarrow> pd_status d' = PCancelled \<and> pd_attempts d' = pd_attempts d \<and> pd_failed d' \<noteq> None"

lemma with_sending_delivery: "s \<in> set (with_sending w d) \<Longrightarrow> sg_delivery s = d"
  by (auto simp: with_sending_def split: option.splits)

lemma with_sending_cases: "with_sending w d = [] \<or> (\<exists>s. with_sending w d = [s] \<and> sg_delivery s = d)"
  by (auto simp: with_sending_def split: option.splits)

lemma map_concat_sendings:
  "distinct (map pd_id ds) \<Longrightarrow> distinct (map (\<lambda>s. pd_id (sg_delivery s)) (concat (map (with_sending w) ds)))"
proof (induction ds)
  case (Cons d ds)
  then show ?case using with_sending_cases [of w d] with_sending_delivery by fastforce
qed simp

lemma due_sendings_props:
  assumes "unique_key pd_id (t_deliveries w)"
  shows "distinct (map (\<lambda>s. pd_id (sg_delivery s)) (due_sendings limit w))"
    and "s \<in> set (due_sendings limit w) \<Longrightarrow> sg_delivery s \<in> set (t_deliveries w) \<and> due w (sg_delivery s)"
proof -
  let ?le = "\<lambda>a b. pd_scheduled a < pd_scheduled b \<or> pd_scheduled a = pd_scheduled b \<and> pd_created a \<le> pd_created b"
  let ?ds = "sort_by ?le (find_many (due w) (t_deliveries w))"
  have "inj_on pd_id (set ?ds)" using assms by (auto simp: distinct_map find_many_def intro: inj_on_subset)
  moreover have "distinct ?ds" using assms by (simp add: distinct_map find_many_def)
  ultimately have "distinct (map pd_id (take limit ?ds))"
    by (meson distinct_map distinct_take inj_on_subset set_take_subset)
  then show "distinct (map (\<lambda>s. pd_id (sg_delivery s)) (due_sendings limit w))"
    unfolding due_sendings_def by (rule map_concat_sendings)
  assume "s \<in> set (due_sendings limit w)"
  then obtain d where d: "d \<in> set (take limit ?ds)" "s \<in> set (with_sending w d)" by (auto simp: due_sendings_def)
  have "d \<in> set ?ds" using d(1) by (rule in_set_takeD)
  moreover have "sg_delivery s = d" using d(2) by (rule with_sending_delivery)
  ultimately show "sg_delivery s \<in> set (t_deliveries w) \<and> due w (sg_delivery s)" by (simp add: find_many_def)
qed

lemma cancel_run:
  "\<exists>n w'. cancel_deliveries ids w = (Inr n, w') \<and> moved cancelled (set ids) (t_deliveries w) (t_deliveries w')
     \<and> w' = w\<lparr>t_deliveries := t_deliveries w'\<rparr>"
  by (auto simp: cancel_deliveries_def Let_def seqS_apply moved_def update_many_def list_all2_map2 list_all2_same
      cancelled_def same_delivery_def)

lemma attempts_batches:
  assumes "quiet fetch"
  shows "moves attempted (mapS (send_batch fetch emsg badge) (chunk n xs)) (map sg_delivery xs)"
proof -
  have "moves attempted (mapS (send_batch fetch emsg badge) (chunk n xs)) (concat (map (map sg_delivery) (chunk n xs)))"
    by (rule moves_mapS) (rule attempts_batch [OF assms])
  then show ?thesis by (simp add: map_concat [symmetric])
qed

definition dispatched :: "sending list \<Rightarrow> delivery_row list \<Rightarrow> delivery_row list \<Rightarrow> bool" where
  "dispatched sel t t' \<longleftrightarrow> list_all2 (\<lambda>d d'. same_delivery d d' \<and>
     (if \<exists>s\<in>set sel. pd_id (sg_delivery s) = pd_id d \<and> inactive_sending s then cancelled d d'
      else if \<exists>s\<in>set sel. pd_id (sg_delivery s) = pd_id d then attempted d d' else d' = d)) t t'"

lemma moved_dispatched:
  assumes c: "moved cancelled A t t1" and a: "moved attempted B t1 t'"
    and A: "A = {pd_id (sg_delivery s) |s. s \<in> set sel \<and> inactive_sending s}"
    and B: "B = {pd_id (sg_delivery s) |s. s \<in> set sel} - A"
  shows "dispatched sel t t'"
  using c a unfolding moved_def dispatched_def
proof (rule list_all2_trans [rotated 1])
  fix d e f
  assume "same_delivery d e \<and> (if pd_id d \<in> A then cancelled d e else e = d)"
    "same_delivery e f \<and> (if pd_id e \<in> B then attempted e f else f = e)"
  moreover have "pd_id d \<in> A \<longleftrightarrow> (\<exists>s\<in>set sel. pd_id (sg_delivery s) = pd_id d \<and> inactive_sending s)"
    "pd_id d \<in> B \<longleftrightarrow> (\<exists>s\<in>set sel. pd_id (sg_delivery s) = pd_id d) \<and> pd_id d \<notin> A"
    unfolding B by (simp_all add: A) (metis, metis)
  ultimately show "same_delivery d f \<and>
     (if \<exists>s\<in>set sel. pd_id (sg_delivery s) = pd_id d \<and> inactive_sending s then cancelled d f
      else if \<exists>s\<in>set sel. pd_id (sg_delivery s) = pd_id d then attempted d f else f = d)"
    by (auto simp: same_delivery_def split: if_splits)
qed

lemma dispatch_run:
  assumes "unique_key pd_id (t_deliveries w)" "quiet fetch"
  shows "\<exists>r w'. dispatchPending fetch emsg limit w = (Inr r, w') \<and> dr_processed r = length (due_sendings limit w)
     \<and> dispatched (due_sendings limit w) (t_deliveries w) (t_deliveries w')"
proof -
  let ?sel = "due_sendings limit w"
  let ?in = "filter inactive_sending ?sel"
  let ?A = "set (map (\<lambda>s. pd_id (sg_delivery s)) ?in)"
  let ?act = "filter (\<lambda>s. pd_id (sg_delivery s) \<notin> ?A) ?sel"
  have A: "?A = {pd_id (sg_delivery s) |s. s \<in> set ?sel \<and> inactive_sending s}" by auto
  have B: "pd_id ` set (map sg_delivery ?act) = {pd_id (sg_delivery s) |s. s \<in> set ?sel} - ?A" by auto
  define cancel where "cancel = (if ?in = [] then ret 0 else cancel_deliveries (map (\<lambda>s. pd_id (sg_delivery s)) ?in))"
  obtain n w1 where 1: "cancel w = (Inr n, w1)"
    "moved cancelled ?A (t_deliveries w) (t_deliveries w1)"
  proof (cases "?in = []")
    case True
    show ?thesis by (rule that [of 0 w]) (simp_all add: cancel_def True moved_refl del: filter_empty_conv)
  next
    case False
    then show ?thesis using cancel_run [of "map (\<lambda>s. pd_id (sg_delivery s)) ?in" w] that by (auto simp: cancel_def)
  qed
  show ?thesis
  proof (cases "?sel = []")
    case True
    have "dispatched [] t t" for t by (simp add: dispatched_def list.rel_refl)
    then show ?thesis using True by (simp add: dispatchPending_def)
  next
    case sel: False
    show ?thesis
    proof (cases "?act = []")
      case True
      then have "dispatched ?sel (t_deliveries w) (t_deliveries w1)"
        using moved_dispatched [OF 1(2) moved_refl A] B by simp
      moreover have "dispatchPending fetch emsg limit w = (Inr \<lparr>dr_cancelled = n, dr_failed = 0,
          dr_processed = length ?sel, dr_ticketed = 0\<rparr>, w1)"
        unfolding dispatchPending_def bindS_gets Let_def if_not_P [OF sel] cancel_def [symmetric]
          bindS_Inr [where m = cancel and s = w, OF 1(1)] if_P [OF True] by simp
      ultimately show ?thesis by simp
    next
      case False
      have u1: "unique_key pd_id (t_deliveries w1)" using moved_ids [OF 1(2)] assms(1) by simp
      have s1: "set (map sg_delivery ?act) \<subseteq> set (t_deliveries w1)"
        using due_sendings_props(2) [OF assms(1)] moved_keeps_row [OF 1(2)] by fastforce
      have d1: "distinct (map pd_id (map sg_delivery ?act))"
        using due_sendings_props(1) [OF assms(1), of limit] by (simp add: comp_def distinct_map_filter)
      from movesD [OF attempts_batches [OF assms(2)] u1 s1 d1] obtain x w2 c2 where 2:
        "mapS (send_batch fetch emsg (unread_badges w1)) (chunk (MAX_SEND_BATCH_SIZE - 1) ?act) (w1, \<lparr>ty_good = 0, ty_failed = 0\<rparr>)
           = (Inr x, (w2, c2))"
        "moved attempted (pd_id ` set (map sg_delivery ?act)) (t_deliveries w1) (t_deliveries w2)" by blast
      define send where "send = with_tally (mapS (send_batch fetch emsg (unread_badges w1)) (chunk (MAX_SEND_BATCH_SIZE - 1) ?act))"
      have t: "send w1 = (Inr c2, w2)" unfolding send_def with_tally_def 2(1) by simp
      have "dispatchPending fetch emsg limit w = (Inr \<lparr>dr_cancelled = n, dr_failed = ty_failed c2,
          dr_processed = length ?sel, dr_ticketed = ty_good c2\<rparr>, w2)"
        unfolding dispatchPending_def bindS_gets Let_def if_not_P [OF sel] cancel_def [symmetric]
          bindS_Inr [where m = cancel and s = w, OF 1(1)] if_not_P [OF False]
          bindS_gets send_def [symmetric] bindS_Inr [where m = send and s = w1, OF t] by simp
      moreover have "dispatched ?sel (t_deliveries w) (t_deliveries w2)"
        by (rule moved_dispatched [OF 1(2) 2(2) A B])
      ultimately show ?thesis by simp
    qed
  qed
qed

section \<open>Bounded retries\<close>

text \<open>The attempts a pending delivery has left.\<close>

definition attempts_left :: "delivery_row \<Rightarrow> nat" where
  "attempts_left d = (if pd_status d = PPending then MAX_SEND_ATTEMPTS - pd_attempts d else 0)"

definition retry_budget :: "db \<Rightarrow> nat" where
  "retry_budget w = sum_list (map attempts_left (t_deliveries w))"

definition attempts_inv :: "db \<Rightarrow> bool" where
  "attempts_inv w \<longleftrightarrow> unique_key pd_id (t_deliveries w)
     \<and> (\<forall>d\<in>set (t_deliveries w). pd_status d = PPending \<longrightarrow> pd_attempts d < MAX_SEND_ATTEMPTS)"

lemma attempted_left: "attempted d d' \<Longrightarrow> pd_status d = PPending \<Longrightarrow> pd_attempts d < MAX_SEND_ATTEMPTS \<Longrightarrow>
   attempts_left d' < attempts_left d"
  by (auto simp: attempted_def attempts_left_def)

lemma cancelled_left: "cancelled d d' \<Longrightarrow> pd_status d = PPending \<Longrightarrow> pd_attempts d < MAX_SEND_ATTEMPTS \<Longrightarrow>
   attempts_left d' < attempts_left d"
  by (auto simp: cancelled_def attempts_left_def)

lemma sum_list_less:
  assumes "list_all2 R t t'" "\<And>d d'. d \<in> set t \<Longrightarrow> R d d' \<Longrightarrow> f d' \<le> f d"
    and "x \<in> set t" "\<And>d'. R x d' \<Longrightarrow> f d' < (f x :: nat)"
  shows "sum_list (map f t') < sum_list (map f t)"
  using assms
proof (induction rule: list_all2_induct)
  case (Cons a t b t')
  have le: "sum_list (map f t') \<le> sum_list (map f t)"
    using Cons.hyps(2) Cons.prems(1) by (induction rule: list_all2_induct) (auto intro: add_mono)
  show ?case
  proof (cases "x = a")
    case True
    then show ?thesis using le Cons by (simp add: add_less_le_mono)
  next
    case False
    then show ?thesis using Cons by (simp add: add_le_less_mono)
  qed
qed simp

definition dispatched_row :: "sending list \<Rightarrow> delivery_row \<Rightarrow> delivery_row \<Rightarrow> bool" where
  "dispatched_row sel d d' \<longleftrightarrow> same_delivery d d' \<and>
     (if \<exists>s\<in>set sel. pd_id (sg_delivery s) = pd_id d \<and> inactive_sending s then cancelled d d'
      else if \<exists>s\<in>set sel. pd_id (sg_delivery s) = pd_id d then attempted d d' else d' = d)"

lemma dispatched_rows: "dispatched sel t t' \<longleftrightarrow> list_all2 (dispatched_row sel) t t'"
  by (simp add: dispatched_def dispatched_row_def [abs_def])

lemma dispatched_row_bound:
  "dispatched_row sel d d' \<Longrightarrow> (pd_status d = PPending \<Longrightarrow> pd_attempts d < MAX_SEND_ATTEMPTS) \<Longrightarrow>
   pd_id d' = pd_id d \<and> (pd_status d' = PPending \<longrightarrow> pd_attempts d' < MAX_SEND_ATTEMPTS)"
  by (auto simp: dispatched_row_def same_delivery_def cancelled_def attempted_def split: if_splits)

lemma dispatched_inv:
  assumes "attempts_inv w" "dispatched sel (t_deliveries w) (t_deliveries w')"
  shows "attempts_inv w'"
proof -
  have all: "list_all2 (\<lambda>d d'. pd_id d' = pd_id d \<and> (pd_status d' = PPending \<longrightarrow> pd_attempts d' < MAX_SEND_ATTEMPTS))
      (t_deliveries w) (t_deliveries w')"
    by (rule list.rel_mono_strong [OF assms(2) [unfolded dispatched_rows]])
      (use assms(1) dispatched_row_bound in \<open>auto simp: attempts_inv_def\<close>)
  then have "map pd_id (t_deliveries w') = map pd_id (t_deliveries w)"
    by (induction rule: list_all2_induct) auto
  moreover have "\<forall>d\<in>set (t_deliveries w'). pd_status d = PPending \<longrightarrow> pd_attempts d < MAX_SEND_ATTEMPTS"
    using all by (induction rule: list_all2_induct) auto
  ultimately show ?thesis using assms(1) by (simp add: attempts_inv_def)
qed

lemma dispatched_progress:
  assumes "attempts_inv w" "dispatched sel (t_deliveries w) (t_deliveries w')"
    and "s \<in> set sel" and sel: "\<And>s. s \<in> set sel \<Longrightarrow> sg_delivery s \<in> set (t_deliveries w) \<and> due w (sg_delivery s)"
  shows "retry_budget w' < retry_budget w"
  unfolding retry_budget_def
proof (rule sum_list_less [OF assms(2) [unfolded dispatched_rows]])
  have pend: "pd_status d = PPending \<and> pd_attempts d < MAX_SEND_ATTEMPTS"
    if "d \<in> set (t_deliveries w)" "s \<in> set sel" "pd_id (sg_delivery s) = pd_id d" for d s
  proof -
    have "sg_delivery s = d"
      using sel [OF that(2)] that assms(1) distinct_map_filter_unique unfolding attempts_inv_def by metis
    then show ?thesis using sel [OF that(2)] assms(1) by (auto simp: attempts_inv_def due_def)
  qed
  show "sg_delivery s \<in> set (t_deliveries w)" using sel [OF assms(3)] by simp
  show "attempts_left d' < attempts_left (sg_delivery s)" if "dispatched_row sel (sg_delivery s) d'" for d'
  proof -
    have "cancelled (sg_delivery s) d' \<or> attempted (sg_delivery s) d'"
      using that assms(3) by (auto simp: dispatched_row_def split: if_splits)
    moreover have "pd_status (sg_delivery s) = PPending \<and> pd_attempts (sg_delivery s) < MAX_SEND_ATTEMPTS"
      using pend sel [OF assms(3)] assms(3) by blast
    ultimately show ?thesis using cancelled_left attempted_left by blast
  qed
  show "attempts_left d' \<le> attempts_left d" if "d \<in> set (t_deliveries w)" "dispatched_row sel d d'" for d d'
  proof (cases "\<exists>s\<in>set sel. pd_id (sg_delivery s) = pd_id d")
    case True
    then have "cancelled d d' \<or> attempted d d'"
      using that(2) by (auto simp: dispatched_row_def split: if_splits)
    moreover have "pd_status d = PPending \<and> pd_attempts d < MAX_SEND_ATTEMPTS" using pend that(1) True by blast
    ultimately show ?thesis using cancelled_left attempted_left less_imp_le by blast
  next
    case False
    then have "d' = d" using that(2) by (auto simp: dispatched_row_def split: if_splits)
    then show ?thesis by simp
  qed
qed

text \<open>Runs of the dispatcher, each with its own answers from Expo.\<close>

primrec dispatch_runs ::
  "(nat \<Rightarrow> push_message list \<Rightarrow> expo_data option fetch_response dbm) \<Rightarrow> (http_error \<Rightarrow> string) \<Rightarrow> nat \<Rightarrow> nat \<Rightarrow> db \<Rightarrow> db" where
  "dispatch_runs fetch emsg limit 0 w = w"
| "dispatch_runs fetch emsg limit (Suc n) w =
     dispatch_runs fetch emsg limit n (snd (dispatchPending (fetch n) emsg limit w))"

lemma dispatch_runs_drain:
  assumes "attempts_inv w" "\<And>k. quiet (fetch k)" "retry_budget w \<le> n"
  shows "due_sendings limit (dispatch_runs fetch emsg limit n w) = [] \<and> attempts_inv (dispatch_runs fetch emsg limit n w)"
  using assms(1,3)
proof (induction n arbitrary: w)
  case 0
  have "due_sendings limit w = []"
  proof (rule ccontr)
    assume "due_sendings limit w \<noteq> []"
    then obtain s where s: "s \<in> set (due_sendings limit w)" by (cases "due_sendings limit w") auto
    have u: "unique_key pd_id (t_deliveries w)" using 0(1) by (simp add: attempts_inv_def)
    obtain w' :: db where "dispatched (due_sendings limit w) (t_deliveries w) (t_deliveries w')"
      using dispatch_run [OF u assms(2) [of 0], of undefined limit] by blast
    from dispatched_progress [OF 0(1) this s] due_sendings_props(2) [OF u] 0(2) show False by fastforce
  qed
  then show ?case using 0 by simp
next
  case (Suc n)
  have u: "unique_key pd_id (t_deliveries w)" using Suc.prems(1) by (simp add: attempts_inv_def)
  obtain r w' where 1: "dispatchPending (fetch n) emsg limit w = (Inr r, w')"
    "dispatched (due_sendings limit w) (t_deliveries w) (t_deliveries w')"
    using dispatch_run [OF u assms(2) [of n]] by blast
  show ?case
  proof (cases "due_sendings limit w")
    case Nil
    then have w': "w' = w" using 1(1) by (simp add: dispatchPending_def)
    have "due_sendings limit (dispatch_runs fetch emsg limit k w) = [] \<and> dispatch_runs fetch emsg limit k w = w" for k
      by (induction k) (simp_all add: Nil dispatchPending_def)
    then show ?thesis using 1(1) w' Suc.prems(1) Nil by (simp del: append.simps)
  next
    case (Cons s ss)
    then have "s \<in> set (due_sendings limit w)" by simp
    then have "retry_budget w' < retry_budget w"
      by (rule dispatched_progress [OF Suc.prems(1) 1(2)]) (rule due_sendings_props(2) [OF u])
    then have "retry_budget w' \<le> n" using Suc.prems(2) by simp
    then show ?thesis using Suc.IH [OF dispatched_inv [OF Suc.prems(1) 1(2)]] 1(1) by simp
  qed
qed

lemma retry_budget_le:
  "retry_budget w \<le> MAX_SEND_ATTEMPTS * count_rows (\<lambda>d. pd_status d = PPending) (t_deliveries w)"
proof -
  have "sum_list (map attempts_left t) \<le> MAX_SEND_ATTEMPTS * length (filter (\<lambda>d. pd_status d = PPending) t)" for t
    by (induction t) (auto simp: attempts_left_def)
  then show ?thesis by (simp add: retry_budget_def count_rows_def)
qed

section \<open>Receipts\<close>

definition finalised :: "delivery_row \<Rightarrow> delivery_row \<Rightarrow> bool" where
  "finalised d d' \<longleftrightarrow> d' = d \<or> (pd_status d = PTicketed \<and> pd_ticket d' = pd_ticket d \<and> pd_attempts d' = pd_attempts d
     \<and> pd_sent d' = pd_sent d
     \<and> (pd_status d' = PDelivered \<and> pd_delivered d' \<noteq> None \<or> pd_status d' = PFailed \<and> pd_failed d' \<noteq> None))"

lemma moved_unchanged: "(\<And>d. R d d) \<Longrightarrow> moved R A t t"
  by (simp add: moved_def list_all2_same)

lemma moves_receipt:
  assumes "pd_status d = PTicketed"
  shows "moves finalised (handle_receipt t receipts d) [d]"
proof (rule movesI)
  fix w :: db and c :: tally
  assume u: "unique_key pd_id (t_deliveries w)" and s: "set [d] \<subseteq> set (t_deliveries w)"
  let ?ok = "\<lambda>d. d\<lparr>pd_delivered := Some t, pd_failed := None, pd_error := None, pd_status := PDelivered\<rparr>"
  let ?bad = "\<lambda>m d. d\<lparr>pd_failed := Some t, pd_error := Some m, pd_status := PFailed\<rparr>"
  have d: "d \<in> set (t_deliveries w)" using s by simp
  have same: "moved finalised {pd_id d} (t_deliveries w) (t_deliveries w)"
    by (rule moved_unchanged) (simp add: finalised_def)
  obtain w1 where 1: "update_delivery (pd_id d) ?ok w = (Inr (), w1)" "moved finalised {pd_id d} (t_deliveries w) (t_deliveries w1)"
    using update_delivery_run [OF u d, of finalised ?ok] assms by (auto simp: finalised_def same_delivery_def)
  obtain w2 where 2: "update_delivery (pd_id d) (?bad m) w = (Inr (), w2 m)"
    "moved finalised {pd_id d} (t_deliveries w) (t_deliveries (w2 m))" for m
    using update_delivery_run [OF u d, of finalised "?bad _"] assms by (simp add: finalised_def same_delivery_def) metis
  consider "\<not> truthy (pd_ticket d) \<or> map_of receipts (the (pd_ticket d)) = None"
    | "truthy (pd_ticket d)" "map_of receipts (the (pd_ticket d)) = Some ReceiptOk"
    | m k where "truthy (pd_ticket d)" "map_of receipts (the (pd_ticket d)) = Some (ReceiptError m k)"
    by (cases "map_of receipts (the (pd_ticket d))" rule: option.exhaust; cases "the (map_of receipts (the (pd_ticket d)))") auto
  then show "\<exists>x w' c'. handle_receipt t receipts d (w, c) = (Inr x, (w', c')) \<and>
      moved finalised (pd_id ` set [d]) (t_deliveries w) (t_deliveries w')"
  proof cases
    case 1
    then show ?thesis using same by (auto simp: handle_receipt_def)
  next
    case 2
    then show ?thesis using 1 by (simp add: handle_receipt_def seqS_apply on_db_def count_good_def)
  next
    case (3 m k)
    then show ?thesis using 2 [of "buildExpoErrorMessage m k"]
      by (simp add: handle_receipt_def seqS_apply on_db_def count_failed_def disableInstallation_def)
  qed
qed

lemma moves_sync_batch:
  assumes "quiet fetch" "\<forall>d\<in>set batch. pd_status d = PTicketed"
  shows "moves finalised (sync_batch fetch batch) batch"
proof (rule movesI)
  fix w :: db and c :: tally
  assume u: "unique_key pd_id (t_deliveries w)" "set batch \<subseteq> set (t_deliveries w)" "distinct (map pd_id batch)"
  let ?ids = "map the (filter truthy (map pd_ticket batch))"
  have same: "moved finalised (pd_id ` set batch) (t_deliveries w) (t_deliveries w)"
    by (rule moved_unchanged) (simp add: finalised_def)
  obtain r where r: "postExpo fetch ?ids w = (r, w)" using postExpo_quiet [OF assms(1), of ?ids w] by (metis prod.collapse)
  have run: "sync_batch fetch batch (w, c) = (if ?ids = [] then (Inr [], (w, c)) else case r of
      Inl e \<Rightarrow> (Inr [], (w, c))
    | Inr data \<Rightarrow> (case mapS (handle_receipt (db_now w) (default_to data [])) batch (w, c) of
         (Inl e, s) \<Rightarrow> (Inr [], s) | (Inr x, s) \<Rightarrow> (Inr x, s)))"
  proof (cases "?ids = []")
    case True
    then show ?thesis unfolding sync_batch_def Let_def by (simp only: True if_True ret_run simp_thms)
  next
    case False
    show ?thesis unfolding sync_batch_def Let_def if_not_P [OF False]
      by (simp add: catchS_apply bindS_apply on_db_def r now_apply split: sum.splits prod.splits)
  qed
  show "\<exists>x w' c'. sync_batch fetch batch (w, c) = (Inr x, (w', c')) \<and>
      moved finalised (pd_id ` set batch) (t_deliveries w) (t_deliveries w')"
  proof (cases "?ids = [] \<or> (\<exists>e. r = Inl e)")
    case True
    then show ?thesis unfolding run using same by (elim disjE exE) simp_all
  next
    case False
    then obtain data where d: "r = Inr data" by (cases r) auto
    have "moves finalised (mapS (handle_receipt (db_now w) (default_to data [])) batch) batch"
      by (rule moves_mapS [where g = "\<lambda>d. [d]", unfolded concat_map_singleton list.map_ident])
        (use assms(2) moves_receipt in blast)
    from movesD [OF this u] obtain x w' c' where
      1: "mapS (handle_receipt (db_now w) (default_to data [])) batch (w, c) = (Inr x, (w', c'))" and
      2: "moved finalised (pd_id ` set batch) (t_deliveries w) (t_deliveries w')" by blast
    have "sync_batch fetch batch (w, c) = (Inr x, (w', c'))"
      unfolding run d sum.case 1 using False by simp
    then show ?thesis using 2 by blast
  qed
qed

lemma sync_run:
  assumes "unique_key pd_id (t_deliveries w)" "quiet fetch"
  shows "\<exists>r w'. syncReceipts fetch limit w = (Inr r, w') \<and> sr_checked r = length (ticketed_deliveries limit w)
     \<and> moved finalised (pd_id ` set (ticketed_deliveries limit w)) (t_deliveries w) (t_deliveries w')"
proof -
  let ?ds = "ticketed_deliveries limit w"
  have mem: "set ?ds \<subseteq> set (find_many (\<lambda>d. pd_ticket d \<noteq> None \<and> pd_status d = PTicketed) (t_deliveries w))"
    unfolding ticketed_deliveries_def by (rule subset_trans [OF set_take_subset]) simp
  then have st: "\<forall>d\<in>set ?ds. pd_status d = PTicketed" and s: "set ?ds \<subseteq> set (t_deliveries w)"
    by (auto simp: find_many_def)
  have "distinct ?ds"
    using assms(1) unfolding ticketed_deliveries_def by (simp add: find_many_def distinct_map)
  then have d: "distinct (map pd_id ?ds)"
    using s assms(1) by (auto simp: distinct_map intro: inj_on_subset)
  show ?thesis
  proof (cases "?ds = []")
    case True
    then show ?thesis by (simp add: syncReceipts_def moved_refl)
  next
    case False
    define sync where "sync = with_tally (mapS (sync_batch fetch) (chunk (MAX_RECEIPT_BATCH_SIZE - 1) ?ds))"
    have "moves finalised (mapS (sync_batch fetch) (chunk (MAX_RECEIPT_BATCH_SIZE - 1) ?ds)) ?ds"
    proof -
      have "moves finalised (mapS (sync_batch fetch) (chunk (MAX_RECEIPT_BATCH_SIZE - 1) ?ds))
          (concat (map (\<lambda>b. b) (chunk (MAX_RECEIPT_BATCH_SIZE - 1) ?ds)))"
      proof (rule moves_mapS)
        fix b assume "b \<in> set (chunk (MAX_RECEIPT_BATCH_SIZE - 1) ?ds)"
        then have "set b \<subseteq> set (concat (chunk (MAX_RECEIPT_BATCH_SIZE - 1) ?ds))"
          unfolding set_concat by blast
        then have "set b \<subseteq> set ?ds" by (simp only: concat_chunk)
        then show "moves finalised (sync_batch fetch b) b" using st by (intro moves_sync_batch assms(2)) blast
      qed
      then show ?thesis by simp
    qed
    from movesD [OF this assms(1) s d] obtain x w' c' where
      1: "mapS (sync_batch fetch) (chunk (MAX_RECEIPT_BATCH_SIZE - 1) ?ds) (w, \<lparr>ty_good = 0, ty_failed = 0\<rparr>) = (Inr x, (w', c'))" and
      2: "moved finalised (pd_id ` set ?ds) (t_deliveries w) (t_deliveries w')" by blast
    have t: "sync w = (Inr c', w')" unfolding sync_def with_tally_def 1 by simp
    have "syncReceipts fetch limit w = (Inr \<lparr>sr_checked = length ?ds, sr_delivered = ty_good c',
        sr_failed = ty_failed c'\<rparr>, w')"
      unfolding syncReceipts_def bindS_gets if_not_P [OF False] sync_def [symmetric]
        bindS_Inr [where m = sync and s = w, OF t] by simp
    then show ?thesis using 2 by simp
  qed
qed

section \<open>Properties\<close>

text \<open>C26: one run of the dispatcher, whatever Expo answers (an error status, a mismatched or malformed answer,
  tickets, per-ticket errors): it returns normally, counts every delivery it took as processed, cancels
  exactly those of inactive installations, attempts each other one exactly once (it is then ticketed,
  failed, or pending with fewer than five attempts made), and leaves every other delivery as it was.\<close>

theorem dispatch_attempts_each_once:
  assumes "unique_key pd_id (t_deliveries w)" "quiet fetch"
  shows "\<exists>r w'. dispatchPending fetch emsg limit w = (Inr r, w') \<and> dr_processed r = length (due_sendings limit w)
     \<and> dispatched (due_sendings limit w) (t_deliveries w) (t_deliveries w')"
  by (rule dispatch_run [OF assms])

text \<open>C27: retries are bounded: from a state where pending deliveries have been tried fewer than five times,
  after at most five runs per pending delivery the dispatcher finds nothing more to send, however Expo
  answers and whatever the batch limit; no delivery is ever tried a sixth time.\<close>

theorem dispatch_drains:
  assumes "attempts_inv w" "\<And>k. quiet (fetch k)"
    and "MAX_SEND_ATTEMPTS * count_rows (\<lambda>d. pd_status d = PPending) (t_deliveries w) \<le> n"
  shows "due_sendings limit (dispatch_runs fetch emsg limit n w) = []
     \<and> attempts_inv (dispatch_runs fetch emsg limit n w)"
  by (rule dispatch_runs_drain [OF assms(1,2)]) (use retry_budget_le [of w] assms(3) in linarith)

text \<open>Reading the receipts only finalises: it returns normally, and every delivery is left as it was or,
  being ticketed, becomes delivered or failed with its ticket, its attempts and its sending time kept.\<close>

theorem receipts_finalise:
  assumes "unique_key pd_id (t_deliveries w)" "quiet fetch"
  shows "\<exists>r w'. syncReceipts fetch limit w = (Inr r, w') \<and> sr_checked r = length (ticketed_deliveries limit w)
     \<and> moved finalised (pd_id ` set (ticketed_deliveries limit w)) (t_deliveries w) (t_deliveries w')"
  by (rule sync_run [OF assms])

definition sample_delivery :: "string \<Rightarrow> nat \<Rightarrow> delivery_row" where
  "sample_delivery i n = \<lparr>pd_id = i, pd_notification = ''n'', pd_installation = ''i'', pd_status = PPending,
     pd_scheduled = 0, pd_attempts = n, pd_ticket = None, pd_error = None, pd_sent = None, pd_delivered = None,
     pd_failed = None, pd_created = 0, pd_updated = 0\<rparr>"

definition sample_push_db :: db where
  "sample_push_db = sample_inbox\<lparr>t_notifications := [\<lparr>n_id = ''n'', n_user = ''b'', n_actor = None, n_type = NWeeklyDigest,
     n_entity = None, n_dedupe = None, n_payload = JNull, n_read = None, n_created = 0\<rparr>],
     t_deliveries := [sample_delivery ''p'' 0, sample_delivery ''q'' 4]\<rparr>"

lemma sample_push_inv: "attempts_inv sample_push_db"
  by (simp add: attempts_inv_def sample_push_db_def sample_delivery_def MAX_SEND_ATTEMPTS_def)

lemma sample_push_due: "map (\<lambda>s. pd_id (sg_delivery s)) (due_sendings 100 sample_push_db) = [''p'', ''q'']"
  by (simp add: due_sendings_def due_def with_sending_def sample_push_db_def sample_delivery_def sample_inbox_def
      empty_db_def sample_installation_def find_many_def)

text \<open>Expo is down.\<close>

definition expo_down :: "'b \<Rightarrow> 'r fetch_response dbm" where
  "expo_down body = throw (InternalError ''down'')"

lemma expo_down_quiet: "quiet expo_down"
  by (simp add: quiet_def expo_down_def)

theorem dispatch_attempts_each_once_witness:
  "\<exists>r w'. dispatchPending expo_down (\<lambda>_. []) 100 sample_push_db = (Inr r, w') \<and> dr_processed r = 2"
proof -
  have "unique_key pd_id (t_deliveries sample_push_db)" using sample_push_inv by (simp add: attempts_inv_def)
  moreover have "length (due_sendings 100 sample_push_db) = 2"
    using arg_cong [OF sample_push_due, of length] by simp
  ultimately show ?thesis
    using dispatch_attempts_each_once [OF _ expo_down_quiet, of sample_push_db "\<lambda>_. []" 100] by auto
qed

theorem dispatch_drains_witness:
  "due_sendings 100 (dispatch_runs (\<lambda>_. expo_down) (\<lambda>_. []) 100 10 sample_push_db) = []"
  using dispatch_drains [OF sample_push_inv expo_down_quiet, of 10 100 "\<lambda>_. []"]
  by (simp add: sample_push_db_def sample_delivery_def MAX_SEND_ATTEMPTS_def count_rows_def)

theorem receipts_finalise_witness:
  "\<exists>r w'. syncReceipts expo_down 300 sample_push_db = (Inr r, w') \<and> sr_checked r = 0"
proof -
  have "unique_key pd_id (t_deliveries sample_push_db)" using sample_push_inv by (simp add: attempts_inv_def)
  moreover have "ticketed_deliveries 300 sample_push_db = []"
    by (simp add: ticketed_deliveries_def find_many_def sample_push_db_def sample_delivery_def)
  ultimately show ?thesis using receipts_finalise [OF _ expo_down_quiet, of sample_push_db 300] by auto
qed

text \<open>While Expo answers, the account behind the second delivery is deleted.\<close>

definition expo_while_deleting :: "push_message list \<Rightarrow> expo_data option fetch_response dbm" where
  "expo_while_deleting messages =
     seqS (modify (\<lambda>w. w\<lparr>t_deliveries := delete_many (\<lambda>d. pd_id d = ''q'') (t_deliveries w)\<rparr>))
       (ret \<lparr>fr_status = 200, fr_json = Some (ManyTickets [TicketOk ''t1'', TicketOk ''t2''])\<rparr>)"

text \<open>A delivery deleted while a batch is under way undoes its batch: Expo has accepted the first message
  (its ticket is even stored), the missing second row makes the update fail, the error handler sets the
  first delivery back to pending, to be sent again, and then fails on the same row, so that the run itself
  ends with the database's error.\<close>

theorem deleted_delivery_resends:
  "fst (dispatchPending expo_while_deleting (\<lambda>_. ''gone'') 100 sample_push_db) = Inl (PrismaError ''P2025'')
   \<and> map (\<lambda>d. (pd_id d, pd_status d, pd_ticket d)) (t_deliveries (snd (dispatchPending expo_while_deleting (\<lambda>_. ''gone'') 100 sample_push_db)))
     = [(''p'', PPending, Some ''t1'')]"
  by (simp add: dispatchPending_def due_sendings_def due_def with_sending_def sample_push_db_def sample_delivery_def
      sample_inbox_def empty_db_def sample_installation_def find_many_def inactive_sending_def bindS_apply with_tally_def
      MAX_SEND_BATCH_SIZE_def send_batch_def on_db_def now_apply postExpo_def expo_while_deleting_def seqS_apply catchS_apply
      delete_many_def normalizeExpoTickets_def handle_ticket_def update_delivery_def fail_delivery_def Let_def
      count_good_def attempt_ok_def attempt_failed_def next_status_def MAX_SEND_ATTEMPTS_def update_many_def
      shouldDisableInstallation_def error_text_def)

end
