(* ===== verification/SingleFlight.thy ===== *)
theory SingleFlight
  imports FecaTables
begin

text \<open>
  \<open>src/infrastructure/cache/distributed-single-flight.service.ts\<close>: concurrent requests for one key share one load.

  Inside a process the map \<open>localInflight\<close> joins the callers to the running promise; between processes a lock in
  Redis does, with a time to live.  Every \<open>await\<close> of the routine is a point where other requests run, so the
  service is a state machine: a \<^emph>\<open>flight\<close> is one execution of \<open>runWithOptionalRedis\<close> (with its recursive retries)
  and its \<open>phase\<close> says what it waits for.  \<open>sf_do\<close> executes one event on the state of all the processes and of
  Redis; \<open>sf_step\<close> is the relation of all possible events, in any order.  The load, the cached read and the
  digest of the lock key are the environment: their answers are part of the events, and SHA-256 is the parameter
  \<open>sf_digest\<close>.
\<close>

section \<open>State\<close>

datatype 'v phase =
    Trying nat
  | LoadingLocked int
  | Releasing int "string + 'v"
  | Reading nat int
  | Checking nat int
  | Sleeping nat int int
  | LoadingFree
  | Settled "string + 'v"
  | Forgotten "string + 'v"

record 'v flight =
  fl_process :: nat
  fl_key :: string
  fl_readsCache :: bool
  fl_loads :: nat
  fl_phase :: "'v phase"

record 'v sf_state =
  sf_now :: int
  sf_locks :: "string \<Rightarrow> int option"
  sf_inflight :: "nat \<times> string \<Rightarrow> nat option"
  sf_flights :: "'v flight list"
  sf_joined :: nat

record sf_config =
  sf_redis :: bool
  sf_digest :: "string \<Rightarrow> string"

definition lock_ttl_ms :: int where "lock_ttl_ms = 30 * 1000"
definition poll_interval_ms :: int where "poll_interval_ms = 50"
definition max_wait_ms :: int where "max_wait_ms = 30000"

definition buildLockKey :: "sf_config \<Rightarrow> string \<Rightarrow> string" where
  "buildLockKey c k = ''feca:sf:lock:'' @ sf_digest c k"

text \<open>Redis keeps an entry until its time to live is over.\<close>

definition lock_held :: "string \<Rightarrow> 'v sf_state \<Rightarrow> bool" where
  "lock_held lk s = (case sf_locks s lk of None \<Rightarrow> False | Some expires \<Rightarrow> sf_now s < expires)"

section \<open>Events\<close>

text \<open>\<open>NewCall\<close> is a call of \<open>run\<close> in a process; the other events answer what a flight waits for: the \<open>SET NX\<close>, its own
  load, the \<open>DEL\<close>, the cached read, the \<open>EXISTS\<close>, the timer.  \<open>CallFails\<close> is a rejection of Redis or of the cached
  read, \<open>Cleanup\<close> the \<open>finally\<close> of \<open>run\<close>, \<open>Wait\<close> the time that passes.\<close>

datatype 'v sf_event =
    NewCall nat string bool
  | SetNX nat
  | LoadDone nat "string + 'v"
  | LockDeleted nat
  | CachedRead nat "'v option"
  | LockExists nat
  | Wake nat
  | CallFails nat string
  | Cleanup nat
  | Wait nat

definition set_flight :: "nat \<Rightarrow> 'v flight \<Rightarrow> 'v sf_state \<Rightarrow> 'v sf_state" where
  "set_flight f x s = s\<lparr>sf_flights := (sf_flights s)[f := x]\<rparr>"

definition to_phase :: "nat \<Rightarrow> 'v phase \<Rightarrow> 'v sf_state \<Rightarrow> 'v sf_state" where
  "to_phase f ph s = set_flight f ((sf_flights s ! f)\<lparr>fl_phase := ph\<rparr>) s"

text \<open>\<open>load()\<close> is called: the flight counts it.\<close>

definition start_load :: "'v phase \<Rightarrow> 'v flight \<Rightarrow> 'v flight" where
  "start_load ph x = x\<lparr>fl_phase := ph, fl_loads := Suc (fl_loads x)\<rparr>"

definition load_in :: "nat \<Rightarrow> 'v phase \<Rightarrow> 'v sf_state \<Rightarrow> 'v sf_state" where
  "load_in f ph s = set_flight f (start_load ph (sf_flights s ! f)) s"

text \<open>The head of \<open>runWithOptionalRedis\<close> with its two ways to load without a lock.\<close>

definition begin_attempt :: "sf_config \<Rightarrow> nat \<Rightarrow> 'v flight \<Rightarrow> 'v flight" where
  "begin_attempt c n x =
     (if \<not> sf_redis c then start_load LoadingFree x
      else if 3 < n then start_load LoadingFree x
      else x\<lparr>fl_phase := Trying n\<rparr>)"

definition sf_run_call :: "sf_config \<Rightarrow> nat \<Rightarrow> string \<Rightarrow> bool \<Rightarrow> 'v sf_state \<Rightarrow> 'v sf_state" where
  "sf_run_call c p k reads s = (case sf_inflight s (p, k) of
      Some f \<Rightarrow> s\<lparr>sf_joined := Suc (sf_joined s)\<rparr>
    | None \<Rightarrow> s\<lparr>sf_flights := sf_flights s @
          [begin_attempt c 0 \<lparr>fl_process = p, fl_key = k, fl_readsCache = reads, fl_loads = 0, fl_phase = Trying 0\<rparr>],
        sf_inflight := (sf_inflight s)((p, k) \<mapsto> length (sf_flights s))\<rparr>)"

text \<open>The test of the \<open>while\<close> loop, which runs again after each sleep.\<close>

definition poll_again :: "nat \<Rightarrow> nat \<Rightarrow> int \<Rightarrow> 'v sf_state \<Rightarrow> 'v sf_state" where
  "poll_again f n deadline s =
     (if sf_now s < deadline then to_phase f (Reading n deadline) s else load_in f LoadingFree s)"

definition try_lock :: "sf_config \<Rightarrow> nat \<Rightarrow> nat \<Rightarrow> 'v sf_state \<Rightarrow> 'v sf_state" where
  "try_lock c f n s = (let x = sf_flights s ! f; lk = buildLockKey c (fl_key x) in
     if lock_held lk s then
       (let s = s\<lparr>sf_joined := Suc (sf_joined s)\<rparr> in
        if fl_readsCache x then poll_again f n (sf_now s + max_wait_ms) s
        else load_in f LoadingFree s)
     else load_in f (LoadingLocked (sf_now s)) (s\<lparr>sf_locks := (sf_locks s)(lk \<mapsto> sf_now s + lock_ttl_ms)\<rparr>))"

definition delete_lock :: "sf_config \<Rightarrow> nat \<Rightarrow> 'v sf_state \<Rightarrow> 'v sf_state" where
  "delete_lock c f s = s\<lparr>sf_locks := (sf_locks s)(buildLockKey c (fl_key (sf_flights s ! f)) := None)\<rparr>"

definition forget :: "nat \<Rightarrow> 'v sf_state \<Rightarrow> 'v sf_state" where
  "forget f s = (let x = sf_flights s ! f in s\<lparr>sf_inflight := (sf_inflight s)((fl_process x, fl_key x) := None)\<rparr>)"

text \<open>One event; \<open>None\<close> when the flight is not waiting for it.\<close>

primrec sf_answer :: "sf_config \<Rightarrow> 'v sf_event \<Rightarrow> nat \<Rightarrow> 'v phase \<Rightarrow> 'v sf_state \<Rightarrow> 'v sf_state option" where
  "sf_answer c e f (Trying n) s = (case e of
      SetNX _ \<Rightarrow> Some (try_lock c f n s)
    | CallFails _ m \<Rightarrow> Some (to_phase f (Settled (Inl m)) s)
    | _ \<Rightarrow> None)"
| "sf_answer c e f (LoadingLocked t) s = (case e of
      LoadDone _ r \<Rightarrow> Some (to_phase f (Releasing t r) s)
    | _ \<Rightarrow> None)"
| "sf_answer c e f (Releasing t r) s = (case e of
      LockDeleted _ \<Rightarrow> Some (to_phase f (Settled r) (delete_lock c f s))
    | CallFails _ m \<Rightarrow> Some (to_phase f (Settled (Inl m)) s)
    | _ \<Rightarrow> None)"
| "sf_answer c e f (Reading n d) s = (case e of
      CachedRead _ v \<Rightarrow> Some (to_phase f (case v of None \<Rightarrow> Checking n d | Some x \<Rightarrow> Settled (Inr x)) s)
    | CallFails _ m \<Rightarrow> Some (to_phase f (Settled (Inl m)) s)
    | _ \<Rightarrow> None)"
| "sf_answer c e f (Checking n d) s = (case e of
      LockExists _ \<Rightarrow> Some
        (if lock_held (buildLockKey c (fl_key (sf_flights s ! f))) s
         then to_phase f (Sleeping n d (sf_now s + poll_interval_ms)) s
         else set_flight f (begin_attempt c (Suc n) (sf_flights s ! f)) s)
    | CallFails _ m \<Rightarrow> Some (to_phase f (Settled (Inl m)) s)
    | _ \<Rightarrow> None)"
| "sf_answer c e f (Sleeping n d t) s = (case e of
      Wake _ \<Rightarrow> if t \<le> sf_now s then Some (poll_again f n d s) else None
    | _ \<Rightarrow> None)"
| "sf_answer c e f LoadingFree s = (case e of
      LoadDone _ r \<Rightarrow> Some (to_phase f (Settled r) s)
    | _ \<Rightarrow> None)"
| "sf_answer c e f (Settled r) s = (case e of
      Cleanup _ \<Rightarrow> Some (to_phase f (Forgotten r) (forget f s))
    | _ \<Rightarrow> None)"
| "sf_answer c e f (Forgotten r) s = None"

primrec event_flight :: "'v sf_event \<Rightarrow> nat option" where
  "event_flight (NewCall _ _ _) = None"
| "event_flight (SetNX f) = Some f"
| "event_flight (LoadDone f _) = Some f"
| "event_flight (LockDeleted f) = Some f"
| "event_flight (CachedRead f _) = Some f"
| "event_flight (LockExists f) = Some f"
| "event_flight (Wake f) = Some f"
| "event_flight (CallFails f _) = Some f"
| "event_flight (Cleanup f) = Some f"
| "event_flight (Wait _) = None"

definition sf_do :: "sf_config \<Rightarrow> 'v sf_event \<Rightarrow> 'v sf_state \<Rightarrow> 'v sf_state option" where
  "sf_do c e s = (case e of
      NewCall p k reads \<Rightarrow> Some (sf_run_call c p k reads s)
    | Wait d \<Rightarrow> Some (s\<lparr>sf_now := sf_now s + int d\<rparr>)
    | _ \<Rightarrow> (case event_flight e of
          None \<Rightarrow> None
        | Some f \<Rightarrow> if f < length (sf_flights s) then sf_answer c e f (fl_phase (sf_flights s ! f)) s else None))"

text \<open>A run of events, for concrete scenarios.\<close>

fun sf_run :: "sf_config \<Rightarrow> 'v sf_event list \<Rightarrow> 'v sf_state \<Rightarrow> 'v sf_state option" where
  "sf_run c [] s = Some s"
| "sf_run c (e # es) s = (case sf_do c e s of None \<Rightarrow> None | Some t \<Rightarrow> sf_run c es t)"

inductive sf_step :: "sf_config \<Rightarrow> 'v sf_state \<Rightarrow> 'v sf_state \<Rightarrow> bool" for c where
  "sf_do c e s = Some t \<Longrightarrow> sf_step c s t"

definition sf_start :: "'v sf_state" where
  "sf_start = \<lparr>sf_now = 0, sf_locks = (\<lambda>_. None), sf_inflight = (\<lambda>_. None), sf_flights = [], sf_joined = 0\<rparr>"

lemma sf_run_steps: "sf_run c es s = Some t \<Longrightarrow> (sf_step c)\<^sup>*\<^sup>* s t"
proof (induction es arbitrary: s)
  case (Cons e es)
  then obtain u where "sf_do c e s = Some u" "sf_run c es u = Some t" by (cases "sf_do c e s") auto
  then show ?case using Cons.IH by (blast intro: converse_rtranclp_into_rtranclp sf_step.intros)
qed simp

section \<open>What an event changes\<close>

named_theorems sf_defs "definitions of the events of a flight"
declare to_phase_def [sf_defs] set_flight_def [sf_defs] load_in_def [sf_defs] start_load_def [sf_defs]
  begin_attempt_def [sf_defs] poll_again_def [sf_defs] try_lock_def [sf_defs] delete_lock_def [sf_defs]
  forget_def [sf_defs] Let_def [sf_defs]

lemmas sf_splits = if_split_asm option.split_asm sf_event.split_asm

lemma sf_stepE:
  assumes "sf_step c s t"
  obtains
    (joined) p k f where "sf_inflight s (p, k) = Some f" "t = s\<lparr>sf_joined := Suc (sf_joined s)\<rparr>"
  | (called) p k reads where "sf_inflight s (p, k) = None" "t = sf_run_call c p k reads s"
  | (waited) d where "t = s\<lparr>sf_now := sf_now s + int d\<rparr>"
  | (answered) e f where "f < length (sf_flights s)" "event_flight e = Some f"
      "sf_answer c e f (fl_phase (sf_flights s ! f)) s = Some t"
  using assms
proof cases
  case (1 e)
  show thesis
  proof (cases e)
    case (NewCall p k reads)
    then show thesis using 1 joined called by (cases "sf_inflight s (p, k)") (auto simp: sf_do_def sf_run_call_def)
  next
    case (Wait d)
    then show thesis using 1 waited [of d] by (auto simp: sf_do_def)
  qed (use 1 in \<open>auto simp: sf_do_def split: if_split_asm intro: answered [of _ e]\<close>)
qed

text \<open>An answer replaces its own flight and keeps the process and the key.\<close>

lemma sf_answer_flight:
  assumes "sf_answer c e f (fl_phase (sf_flights s ! f)) s = Some t" "f < length (sf_flights s)"
  shows "sf_flights t = (sf_flights s)[f := sf_flights t ! f]"
    and "fl_process (sf_flights t ! f) = fl_process (sf_flights s ! f)"
    and "fl_key (sf_flights t ! f) = fl_key (sf_flights s ! f)"
    and "fl_readsCache (sf_flights t ! f) = fl_readsCache (sf_flights s ! f)"
    and "sf_now t = sf_now s"
  using assms by (cases "fl_phase (sf_flights s ! f)"; auto simp: sf_defs split: sf_splits)+

lemma sf_answer_length:
  assumes "sf_answer c e f (fl_phase (sf_flights s ! f)) s = Some t" "f < length (sf_flights s)"
  shows "length (sf_flights t) = length (sf_flights s)"
  using sf_answer_flight(1) [OF assms] by (metis length_list_update)

lemma sf_answer_nth:
  assumes "sf_answer c e f (fl_phase (sf_flights s ! f)) s = Some t" "f < length (sf_flights s)" "g \<noteq> f"
  shows "sf_flights t ! g = sf_flights s ! g"
  using sf_answer_flight(1) [OF assms(1,2)] assms(3) by (metis nth_list_update_neq)

section \<open>One flight per process and key\<close>

text \<open>The map holds exactly the flights whose \<open>run\<close> has not cleaned up yet.\<close>

definition is_forgotten :: "'v phase \<Rightarrow> bool" where
  "is_forgotten ph = (case ph of Forgotten _ \<Rightarrow> True | _ \<Rightarrow> False)"

definition inflight_key :: "'v flight \<Rightarrow> nat \<times> string" where
  "inflight_key x = (fl_process x, fl_key x)"

definition local_ok :: "'v sf_state \<Rightarrow> bool" where
  "local_ok s \<longleftrightarrow>
     (\<forall>pk f. sf_inflight s pk = Some f \<longleftrightarrow>
        f < length (sf_flights s) \<and> inflight_key (sf_flights s ! f) = pk \<and> \<not> is_forgotten (fl_phase (sf_flights s ! f)))"

lemma local_ok_iff:
  "local_ok s \<Longrightarrow> sf_inflight s pk = Some f \<longleftrightarrow>
     f < length (sf_flights s) \<and> inflight_key (sf_flights s ! f) = pk \<and> \<not> is_forgotten (fl_phase (sf_flights s ! f))"
  unfolding local_ok_def by blast

lemma is_forgotten_simps [simp]:
  "is_forgotten (Forgotten r)" "\<not> is_forgotten (Trying n)" "\<not> is_forgotten (LoadingLocked t)"
  "\<not> is_forgotten (Releasing t r)" "\<not> is_forgotten (Reading n d)" "\<not> is_forgotten (Checking n d)"
  "\<not> is_forgotten (Sleeping n d t)" "\<not> is_forgotten LoadingFree" "\<not> is_forgotten (Settled r)"
  by (simp_all add: is_forgotten_def)

lemma sf_answer_inflight:
  assumes "sf_answer c e f (fl_phase (sf_flights s ! f)) s = Some t" "f < length (sf_flights s)"
  shows "\<not> is_forgotten (fl_phase (sf_flights s ! f))"
    and "sf_inflight t = (if is_forgotten (fl_phase (sf_flights t ! f))
           then (sf_inflight s)(inflight_key (sf_flights s ! f) := None) else sf_inflight s)"
  using assms by (cases "fl_phase (sf_flights s ! f)"; auto simp: sf_defs inflight_key_def split: sf_splits option.splits)+

lemma local_ok_answer:
  assumes ok: "local_ok s" and a: "sf_answer c e f (fl_phase (sf_flights s ! f)) s = Some t" "f < length (sf_flights s)"
  shows "local_ok t"
  unfolding local_ok_def
proof (intro allI)
  fix pk g
  note k = sf_answer_flight [OF a] and n = sf_answer_nth [OF a] and l = sf_answer_length [OF a]
    and i = sf_answer_inflight [OF a]
  have key: "inflight_key (sf_flights t ! f) = inflight_key (sf_flights s ! f)" using k by (simp add: inflight_key_def)
  have mine: "sf_inflight s (inflight_key (sf_flights s ! f)) = Some f" using a(2) i(1) by (simp add: local_ok_iff [OF ok])
  show "sf_inflight t pk = Some g \<longleftrightarrow> g < length (sf_flights t) \<and> inflight_key (sf_flights t ! g) = pk
      \<and> \<not> is_forgotten (fl_phase (sf_flights t ! g))"
  proof (cases "g = f")
    case True
    then show ?thesis using mine key l i a(2) by (auto simp: local_ok_iff [OF ok])
  next
    case False
    then show ?thesis using mine n [OF False] l i False local_ok_iff [OF ok, of pk g] by auto
  qed
qed

lemma begin_attempt_keeps:
  "fl_process (begin_attempt c n x) = fl_process x" "fl_key (begin_attempt c n x) = fl_key x"
  "fl_readsCache (begin_attempt c n x) = fl_readsCache x" "\<not> is_forgotten (fl_phase (begin_attempt c n x))"
  by (simp_all add: begin_attempt_def start_load_def)

lemma local_ok_call:
  assumes ok: "local_ok s" and new: "sf_inflight s (p, k) = None"
  shows "local_ok (sf_run_call c p k reads s)"
  unfolding local_ok_def
proof (intro allI)
  fix pk g
  let ?t = "sf_run_call c p k reads s"
  let ?x = "sf_flights ?t ! length (sf_flights s)"
  have x: "inflight_key ?x = (p, k)" "\<not> is_forgotten (fl_phase ?x)" "length (sf_flights ?t) = Suc (length (sf_flights s))"
    "sf_inflight ?t = (sf_inflight s)((p, k) \<mapsto> length (sf_flights s))"
    using new by (simp_all add: sf_run_call_def inflight_key_def begin_attempt_keeps)
  have old: "g < length (sf_flights s) \<Longrightarrow> sf_flights ?t ! g = sf_flights s ! g"
    using new by (simp add: sf_run_call_def nth_append)
  show "sf_inflight ?t pk = Some g \<longleftrightarrow> g < length (sf_flights ?t) \<and> inflight_key (sf_flights ?t ! g) = pk
      \<and> \<not> is_forgotten (fl_phase (sf_flights ?t ! g))"
  proof (cases "g < length (sf_flights s)")
    case True
    then show ?thesis using new x old local_ok_iff [OF ok, of pk g] by auto
  next
    case False
    then have "sf_inflight s pk \<noteq> Some g" by (simp add: local_ok_iff [OF ok])
    then show ?thesis using False x by (auto simp: less_Suc_eq)
  qed
qed

lemma local_ok_same_flights:
  "sf_flights t = sf_flights s \<Longrightarrow> sf_inflight t = sf_inflight s \<Longrightarrow> local_ok s \<Longrightarrow> local_ok t"
  by (simp add: local_ok_def)

lemma local_ok_step: "local_ok s \<Longrightarrow> sf_step c s t \<Longrightarrow> local_ok t"
  by (erule sf_stepE)
    (auto intro: local_ok_answer local_ok_call elim: local_ok_same_flights [rotated -1])

interpretation flights: transition_system "\<lambda>s. s = sf_start" "sf_step c" local_ok for c
  proof
  show "local_ok s" if "s = sf_start" for s :: "'a sf_state"
    using that by (simp add: sf_start_def local_ok_def)
qed (rule local_ok_step)

section \<open>One load, four attempts\<close>

text \<open>What the phase of a flight says of it: it loads at most once, and it waits for Redis only in the first four
  attempts.\<close>

definition flight_ok :: "sf_config \<Rightarrow> 'v flight \<Rightarrow> bool" where
  "flight_ok c x = (case fl_phase x of
      Trying n \<Rightarrow> fl_loads x = 0 \<and> n \<le> 3 \<and> sf_redis c
    | Reading n d \<Rightarrow> fl_loads x = 0 \<and> n \<le> 3 \<and> sf_redis c \<and> fl_readsCache x
    | Checking n d \<Rightarrow> fl_loads x = 0 \<and> n \<le> 3 \<and> sf_redis c \<and> fl_readsCache x
    | Sleeping n d t \<Rightarrow> fl_loads x = 0 \<and> n \<le> 3 \<and> sf_redis c \<and> fl_readsCache x
    | LoadingLocked t \<Rightarrow> fl_loads x = 1 \<and> sf_redis c
    | Releasing t r \<Rightarrow> fl_loads x = 1 \<and> sf_redis c
    | LoadingFree \<Rightarrow> fl_loads x = 1
    | Settled r \<Rightarrow> fl_loads x \<le> 1
    | Forgotten r \<Rightarrow> fl_loads x \<le> 1)"

definition flights_ok :: "sf_config \<Rightarrow> 'v sf_state \<Rightarrow> bool" where
  "flights_ok c s \<longleftrightarrow> (\<forall>f < length (sf_flights s). flight_ok c (sf_flights s ! f))"

lemma flight_ok_answer:
  assumes "sf_answer c e f (fl_phase (sf_flights s ! f)) s = Some t" "f < length (sf_flights s)"
    "flight_ok c (sf_flights s ! f)"
  shows "flight_ok c (sf_flights t ! f)"
  using assms by (cases "fl_phase (sf_flights s ! f)"; auto simp: sf_defs flight_ok_def split: sf_splits option.splits)

lemma flights_ok_step:
  assumes ok: "flights_ok c s" and "sf_step c s t"
  shows "flights_ok c t"
  using assms(2)
proof (cases rule: sf_stepE)
  case (called p k reads)
  then show ?thesis using ok
    by (auto simp: flights_ok_def flight_ok_def sf_run_call_def begin_attempt_def start_load_def nth_append less_Suc_eq)
next
  case (answered e f)
  then have "g < length (sf_flights t) \<Longrightarrow> flight_ok c (sf_flights t ! g)" for g
    using ok flight_ok_answer [OF answered(3,1)] sf_answer_nth [OF answered(3,1), of g] sf_answer_length [OF answered(3,1)]
    unfolding flights_ok_def by (cases "g = f") auto
  then show ?thesis unfolding flights_ok_def by blast
qed (use ok in \<open>simp_all add: flights_ok_def\<close>)

section \<open>Every flight ends\<close>

text \<open>What a flight may still cost, counted in answers: each attempt waits at most thirty seconds, and between two
  reads of the cache at least fifty milliseconds pass.\<close>

definition attempt_cost :: nat where "attempt_cost = 30010"

primrec phase_budget :: "int \<Rightarrow> 'v phase \<Rightarrow> nat" where
  "phase_budget t (Trying n) = (4 - n) * attempt_cost"
| "phase_budget t (Reading n d) = (3 - n) * attempt_cost + 6 + (nat (d - t) + 2)"
| "phase_budget t (Checking n d) = (3 - n) * attempt_cost + 6 + (nat (d - t) + 1)"
| "phase_budget t (Sleeping n d w) = (3 - n) * attempt_cost + 6 + (if d \<le> max t w then 0 else nat (d - max t w) + 3)"
| "phase_budget t (LoadingLocked l) = 3"
| "phase_budget t (Releasing l r) = 2"
| "phase_budget t LoadingFree = 2"
| "phase_budget t (Settled r) = 1"
| "phase_budget t (Forgotten r) = 0"

definition flight_budget :: "'v sf_state \<Rightarrow> nat \<Rightarrow> nat" where
  "flight_budget s f = phase_budget (sf_now s) (fl_phase (sf_flights s ! f))"

lemma phase_budget_time: "t \<le> t' \<Longrightarrow> phase_budget t' ph \<le> phase_budget t ph"
  by (cases ph) auto

lemma attempts_left: "n \<le> 3 \<Longrightarrow> (4 - n) * attempt_cost = (3 - n) * attempt_cost + 30010"
  by (simp add: attempt_cost_def)

lemma begin_attempt_budget:
  "n \<le> 3 \<Longrightarrow> phase_budget t (fl_phase (begin_attempt c (Suc n) x)) < (3 - n) * attempt_cost + 6"
  by (simp add: begin_attempt_def start_load_def)

lemma answer_spends:
  assumes "sf_answer c e f (fl_phase (sf_flights s ! f)) s = Some t" "f < length (sf_flights s)"
    "flight_ok c (sf_flights s ! f)"
  shows "flight_budget t f < flight_budget s f"
proof (cases "fl_phase (sf_flights s ! f)")
  case (Trying n)
  then show ?thesis using assms attempts_left [of n]
    by (auto simp: sf_defs flight_budget_def flight_ok_def max_wait_ms_def split: sf_splits)
next
  case (Reading n d)
  then show ?thesis using assms by (auto simp: sf_defs flight_budget_def flight_ok_def split: sf_splits option.splits)
next
  case (Checking n d)
  then show ?thesis using assms begin_attempt_budget [of n "sf_now s" c "sf_flights s ! f"]
    by (auto simp: to_phase_def set_flight_def flight_budget_def flight_ok_def poll_interval_ms_def split: sf_splits)
next
  case (Sleeping n d w)
  then show ?thesis using assms by (auto simp: sf_defs flight_budget_def flight_ok_def split: sf_splits)
qed (use assms in \<open>auto simp: sf_defs flight_budget_def flight_ok_def split: sf_splits\<close>)

definition answers_to :: "nat \<Rightarrow> 'v sf_event list \<Rightarrow> nat" where
  "answers_to f es = length (filter (\<lambda>e. event_flight e = Some f) es)"

definition budget_left :: "'v sf_state \<Rightarrow> nat \<Rightarrow> nat" where
  "budget_left s f = (if f < length (sf_flights s) then flight_budget s f else 4 * attempt_cost)"

lemma event_spends:
  assumes "sf_do c e s = Some t" "flights_ok c s"
  shows "(if event_flight e = Some f then Suc (budget_left t f) else budget_left t f) \<le> budget_left s f"
proof (cases "event_flight e")
  case None
  then have "(\<exists>p k r. e = NewCall p k r) \<or> (\<exists>d. e = Wait d)" by (cases e) auto
  then show ?thesis using assms(1)
    by (auto simp: sf_do_def budget_left_def flight_budget_def sf_run_call_def nth_append begin_attempt_def start_load_def
        attempt_cost_def split: option.splits intro!: phase_budget_time)
next
  case (Some g)
  then have a: "g < length (sf_flights s)" "sf_answer c e g (fl_phase (sf_flights s ! g)) s = Some t"
    using assms(1) by (auto simp: sf_do_def split: sf_event.split_asm if_split_asm)
  then have "flight_budget t g < flight_budget s g" using answer_spends [OF a(2,1)] assms(2) a(1) by (simp add: flights_ok_def)
  moreover have "f \<noteq> g \<Longrightarrow> flight_budget t f = flight_budget s f"
    using sf_answer_nth [OF a(2,1)] sf_answer_flight(5) [OF a(2,1)] by (simp add: flight_budget_def)
  ultimately show ?thesis using Some a sf_answer_length [OF a(2,1)] by (auto simp: budget_left_def)
qed

lemma run_spends:
  "sf_run c es s = Some t \<Longrightarrow> flights_ok c s \<Longrightarrow> answers_to f es + budget_left t f \<le> budget_left s f"
proof (induction es arbitrary: s)
  case (Cons e es)
  then obtain u where u: "sf_do c e s = Some u" "sf_run c es u = Some t" by (cases "sf_do c e s") auto
  then have "answers_to f es + budget_left t f \<le> budget_left u f"
    using Cons flights_ok_step sf_step.intros by blast
  then show ?case using event_spends [OF u(1) Cons.prems(2), of f] by (auto simp: answers_to_def split: if_split_asm)
qed (simp add: answers_to_def)

text \<open>A flight that has not ended always has an answer to receive, at the latest when its timer is due.\<close>

lemma flight_progress:
  fixes s :: "'v sf_state"
  assumes "f < length (sf_flights s)" "\<not> is_forgotten (fl_phase (sf_flights s ! f))"
  shows "\<exists>e d. event_flight e = Some f \<and> sf_do c e (s\<lparr>sf_now := sf_now s + int d\<rparr>) \<noteq> None"
proof -
  define e :: "'v sf_event" and d where "e = (case fl_phase (sf_flights s ! f) of
      Trying n \<Rightarrow> SetNX f | LoadingLocked t \<Rightarrow> LoadDone f (Inl []) | Releasing t r \<Rightarrow> LockDeleted f
    | Reading n b \<Rightarrow> CachedRead f None | Checking n b \<Rightarrow> LockExists f | Sleeping n b t \<Rightarrow> Wake f
    | LoadingFree \<Rightarrow> LoadDone f (Inl []) | Settled r \<Rightarrow> Cleanup f | Forgotten r \<Rightarrow> Cleanup f)"
    and "d = (case fl_phase (sf_flights s ! f) of Sleeping n b t \<Rightarrow> nat (t - sf_now s) | _ \<Rightarrow> 0)"
  then have "event_flight e = Some f \<and> sf_do c e (s\<lparr>sf_now := sf_now s + int d\<rparr>) \<noteq> None"
    using assms by (cases "fl_phase (sf_flights s ! f)") (simp_all add: sf_do_def)
  then show ?thesis by blast
qed

section \<open>Mutual exclusion\<close>

text \<open>The lock protects a load for thirty seconds.  \<open>timely\<close> says that no locked load has outlived its lock yet.\<close>

definition locked_since :: "'v flight \<Rightarrow> int option" where
  "locked_since x = (case fl_phase x of LoadingLocked t \<Rightarrow> Some t | Releasing t r \<Rightarrow> Some t | _ \<Rightarrow> None)"

definition timely :: "'v sf_state \<Rightarrow> bool" where
  "timely s \<longleftrightarrow> (\<forall>f < length (sf_flights s). \<forall>t. locked_since (sf_flights s ! f) = Some t \<longrightarrow> sf_now s < t + lock_ttl_ms)"

definition exclusive :: "sf_config \<Rightarrow> 'v sf_state \<Rightarrow> bool" where
  "exclusive c s \<longleftrightarrow>
     (\<forall>f < length (sf_flights s). \<forall>g < length (sf_flights s).
        locked_since (sf_flights s ! f) \<noteq> None \<and> locked_since (sf_flights s ! g) \<noteq> None
          \<and> buildLockKey c (fl_key (sf_flights s ! f)) = buildLockKey c (fl_key (sf_flights s ! g)) \<longrightarrow> f = g)"

definition lock_inv :: "sf_config \<Rightarrow> 'v sf_state \<Rightarrow> bool" where
  "lock_inv c s \<longleftrightarrow> timely s \<and> exclusive c s
     \<and> (\<forall>f < length (sf_flights s). \<forall>t. locked_since (sf_flights s ! f) = Some t \<longrightarrow>
          sf_locks s (buildLockKey c (fl_key (sf_flights s ! f))) = Some (t + lock_ttl_ms))"

text \<open>Only the \<open>SET NX\<close> makes a flight a holder, when the lock is free; a holder that stays one keeps its lease, and
  only a holder that leaves deletes the lock.\<close>

lemma sf_answer_locks:
  assumes "sf_answer c e f (fl_phase (sf_flights s ! f)) s = Some t" "f < length (sf_flights s)"
  defines "lk \<equiv> buildLockKey c (fl_key (sf_flights s ! f))"
  shows "(locked_since (sf_flights s ! f) = None \<and> locked_since (sf_flights t ! f) = Some (sf_now s) \<and> \<not> lock_held lk s
            \<and> sf_locks t = (sf_locks s)(lk \<mapsto> sf_now s + lock_ttl_ms))
       \<or> (locked_since (sf_flights t ! f) = locked_since (sf_flights s ! f) \<and> sf_locks t = sf_locks s)
       \<or> (locked_since (sf_flights s ! f) \<noteq> None \<and> locked_since (sf_flights t ! f) = None
            \<and> (sf_locks t = sf_locks s \<or> sf_locks t = (sf_locks s)(lk := None)))"
  using assms by (cases "fl_phase (sf_flights s ! f)";
      auto simp: sf_defs locked_since_def split: sf_splits option.splits)

lemma begin_attempt_unlocked: "locked_since (begin_attempt c n x) = None"
  by (simp add: begin_attempt_def start_load_def locked_since_def)

lemma lock_inv_unchanged:
  assumes "lock_inv c s" "sf_flights t = sf_flights s" "sf_locks t = sf_locks s" "timely t"
  shows "lock_inv c t"
  using assms by (simp add: lock_inv_def exclusive_def)

lemma lock_inv_call:
  assumes inv: "lock_inv c s" and new: "sf_inflight s (p, k) = None" and "timely (sf_run_call c p k r s)"
  shows "lock_inv c (sf_run_call c p k r s)"
  using assms unfolding lock_inv_def exclusive_def
  by (simp add: sf_run_call_def nth_append less_Suc_eq begin_attempt_unlocked)

lemma lock_inv_answer:
  assumes inv: "lock_inv c s" and a: "sf_answer c e f (fl_phase (sf_flights s ! f)) s = Some t" "f < length (sf_flights s)"
    and tm: "timely t"
  shows "lock_inv c t"
proof -
  let ?lk = "\<lambda>s g. buildLockKey c (fl_key (sf_flights s ! g))"
  note len = sf_answer_length [OF a] and nth = sf_answer_nth [OF a]
  have lk: "?lk t g = ?lk s g" for g using nth sf_answer_flight(3) [OF a] by (cases "g = f") simp_all
  have ex: "g = h" if "g < length (sf_flights s)" "h < length (sf_flights s)" "locked_since (sf_flights s ! g) \<noteq> None"
    "locked_since (sf_flights s ! h) \<noteq> None" "?lk s g = ?lk s h" for g h
    using inv that unfolding lock_inv_def exclusive_def by blast
  have lease: "sf_locks s (?lk s g) = Some (u + lock_ttl_ms) \<and> lock_held (?lk s g) s"
    if "g < length (sf_flights s)" "locked_since (sf_flights s ! g) = Some u" for g u
    using inv that unfolding lock_inv_def timely_def lock_held_def by auto
  from sf_answer_locks [OF a] consider
      (acquired) "locked_since (sf_flights s ! f) = None" "locked_since (sf_flights t ! f) = Some (sf_now s)"
        "\<not> lock_held (?lk s f) s" "sf_locks t = (sf_locks s)(?lk s f \<mapsto> sf_now s + lock_ttl_ms)"
    | (kept) "locked_since (sf_flights t ! f) = locked_since (sf_flights s ! f)" "sf_locks t = sf_locks s"
    | (left) "locked_since (sf_flights s ! f) \<noteq> None" "locked_since (sf_flights t ! f) = None"
        "sf_locks t = sf_locks s \<or> sf_locks t = (sf_locks s)(?lk s f := None)" by argo
  then show ?thesis
  proof cases
    case acquired
    then have other: "g < length (sf_flights s) \<Longrightarrow> locked_since (sf_flights s ! g) \<noteq> None \<Longrightarrow> ?lk s g \<noteq> ?lk s f" for g
      using lease [of g] by fastforce
    have "exclusive c t" unfolding exclusive_def len lk
      using acquired(1,2) other nth ex by metis
    moreover have "sf_locks t (?lk t g) = Some (u + lock_ttl_ms)"
      if "g < length (sf_flights t)" "locked_since (sf_flights t ! g) = Some u" for g u
      using that acquired(2,4) other [of g] nth [of g] lease [of g u] lk [of g] len by (cases "g = f") auto
    ultimately show ?thesis using tm unfolding lock_inv_def by blast
  next
    case kept
    then have "locked_since (sf_flights t ! g) = locked_since (sf_flights s ! g)" for g using nth by (cases "g = f") simp_all
    then show ?thesis using inv tm kept(2) unfolding lock_inv_def exclusive_def len lk by simp
  next
    case left
    then have sub: "locked_since (sf_flights t ! g) \<noteq> None \<Longrightarrow> g \<noteq> f \<and> locked_since (sf_flights s ! g) \<noteq> None" for g
      using nth by (cases "g = f") simp_all
    have "exclusive c t" unfolding exclusive_def len lk using sub ex by blast
    moreover have "sf_locks t (?lk t g) = Some (u + lock_ttl_ms)"
      if "g < length (sf_flights t)" "locked_since (sf_flights t ! g) = Some u" for g u
    proof -
      have g: "g \<noteq> f" "locked_since (sf_flights s ! g) = Some u" using that(2) sub [of g] nth [of g] by auto
      then have "?lk s g \<noteq> ?lk s f" using ex [of g f] left(1) a(2) that(1) len by auto
      then show ?thesis using left(3) lease [of g u] g that(1) len lk [of g] by auto
    qed
    ultimately show ?thesis using tm unfolding lock_inv_def by blast
  qed
qed

definition timely_step :: "sf_config \<Rightarrow> 'v sf_state \<Rightarrow> 'v sf_state \<Rightarrow> bool" where
  "timely_step c s t \<longleftrightarrow> sf_step c s t \<and> timely t"

lemma lock_inv_step:
  assumes "lock_inv c s" "timely_step c s t"
  shows "lock_inv c t"
  using assms(2) [unfolded timely_step_def, THEN conjunct1]
proof (cases rule: sf_stepE)
  case (called p k r)
  then show ?thesis using assms by (auto intro!: lock_inv_call simp: timely_step_def)
next
  case (answered e f)
  then show ?thesis using assms lock_inv_answer [OF _ answered(3,1)] by (simp add: timely_step_def)
qed (use assms in \<open>auto intro: lock_inv_unchanged simp: timely_step_def\<close>)

interpretation locks: transition_system "\<lambda>s. s = sf_start" "timely_step c" "lock_inv c" for c
proof
  show "lock_inv c s" if "s = sf_start" for s :: "'a sf_state"
    using that by (simp add: sf_start_def lock_inv_def timely_def exclusive_def)
qed (rule lock_inv_step)

interpretation loads: transition_system "\<lambda>s. s = sf_start" "sf_step c" "flights_ok c" for c
proof
  show "flights_ok c s" if "s = sf_start" for s :: "'a sf_state"
    using that by (simp add: sf_start_def flights_ok_def)
qed (rule flights_ok_step)

section \<open>Properties\<close>

text \<open>C11: whatever the order in which calls, answers and failures arrive, a process has at most one flight for a key,
  each flight calls the load at most once, and a call that finds a flight joins it without starting anything.\<close>

theorem single_flight_shared:
  assumes "(sf_step c)\<^sup>*\<^sup>* sf_start s" "f < length (sf_flights s)" "\<not> is_forgotten (fl_phase (sf_flights s ! f))"
  shows "fl_loads (sf_flights s ! f) \<le> 1
    \<and> (\<forall>g. g < length (sf_flights s) \<and> inflight_key (sf_flights s ! g) = inflight_key (sf_flights s ! f)
          \<and> \<not> is_forgotten (fl_phase (sf_flights s ! g)) \<longrightarrow> g = f)
    \<and> sf_run_call c (fl_process (sf_flights s ! f)) (fl_key (sf_flights s ! f)) reads s = s\<lparr>sf_joined := Suc (sf_joined s)\<rparr>"
proof -
  have ok: "local_ok s" and "flights_ok c s" using flights.inv_reachable loads.inv_reachable assms(1) by blast+
  then have x: "flight_ok c (sf_flights s ! f)" using assms(2) by (simp add: flights_ok_def)
  have mine: "sf_inflight s (inflight_key (sf_flights s ! f)) = Some f" using assms(2,3) by (simp add: local_ok_iff [OF ok])
  then have "g = f" if "g < length (sf_flights s)" "inflight_key (sf_flights s ! g) = inflight_key (sf_flights s ! f)"
    "\<not> is_forgotten (fl_phase (sf_flights s ! g))" for g
    using that mine local_ok_iff [OF ok, of "inflight_key (sf_flights s ! f)" g] by (metis option.inject)
  moreover have "fl_loads (sf_flights s ! f) \<le> 1" using x by (auto simp: flight_ok_def split: phase.splits)
  moreover have "sf_run_call c (fl_process (sf_flights s ! f)) (fl_key (sf_flights s ! f)) reads s
      = s\<lparr>sf_joined := Suc (sf_joined s)\<rparr>"
    using mine unfolding inflight_key_def by (simp add: sf_run_call_def)
  ultimately show ?thesis by blast
qed

definition two_hosts :: sf_config where "two_hosts = \<lparr>sf_redis = True, sf_digest = id\<rparr>"

text \<open>Two processes ask for one key: the first loads, the second polls the cache and reads what the first stored.\<close>

definition shared_run :: "nat sf_event list" where
  "shared_run = [NewCall 0 ''k'' True, NewCall 1 ''k'' True, SetNX 0, SetNX 1, CachedRead 1 None, LockExists 1, Wait 50,
     Wake 1, LoadDone 0 (Inr 7), CachedRead 1 (Some 7), LockDeleted 0]"

definition shared_end :: "nat sf_state" where "shared_end = the (sf_run two_hosts shared_run sf_start)"

lemmas sf_eval = sf_start_def two_hosts_def sf_do_def sf_run_call_def sf_defs lock_held_def buildLockKey_def lock_ttl_ms_def
  max_wait_ms_def poll_interval_ms_def

lemma shared_run_ends:
  "sf_run two_hosts shared_run sf_start = Some shared_end"
  "map fl_phase (sf_flights shared_end) = [Settled (Inr 7), Settled (Inr 7)]"
  "map fl_loads (sf_flights shared_end) = [1, 0]"
  by (simp_all add: shared_end_def shared_run_def sf_eval)

theorem single_flight_shared_witness:
  "sf_run_call two_hosts 1 ''k'' False shared_end = shared_end\<lparr>sf_joined := Suc (sf_joined shared_end)\<rparr>"
proof -
  have l: "length (sf_flights shared_end) = 2" using arg_cong [OF shared_run_ends(2), of length] by simp
  have ph: "fl_phase (sf_flights shared_end ! 1) = Settled (Inr 7)"
    using arg_cong [OF shared_run_ends(2), of "\<lambda>xs. xs ! 1"] l by simp
  have k: "fl_process (sf_flights shared_end ! 1) = 1" "fl_key (sf_flights shared_end ! 1) = ''k''"
    by (simp_all add: shared_end_def shared_run_def sf_eval)
  from single_flight_shared [OF sf_run_steps [OF shared_run_ends(1)], of 1 False] show ?thesis
    using l ph k by simp
qed

text \<open>C12: as long as no load outlives the thirty seconds of its lock, two flights never load under the lock of one key
  at the same time, in whatever processes they run.\<close>

theorem lock_excludes:
  assumes "(timely_step c)\<^sup>*\<^sup>* sf_start s" "f < length (sf_flights s)" "g < length (sf_flights s)"
    and "locked_since (sf_flights s ! f) \<noteq> None" "locked_since (sf_flights s ! g) \<noteq> None"
    and "buildLockKey c (fl_key (sf_flights s ! f)) = buildLockKey c (fl_key (sf_flights s ! g))"
  shows "f = g"
  using locks.inv_reachable [of sf_start c s] assms unfolding lock_inv_def exclusive_def by blast

definition waiting_end :: "nat sf_state" where "waiting_end = the (sf_run two_hosts (take 4 shared_run) sf_start)"

primrec timely_run :: "sf_config \<Rightarrow> 'v sf_event list \<Rightarrow> 'v sf_state \<Rightarrow> bool" where
  "timely_run c [] s = True"
| "timely_run c (e # es) s = (case sf_do c e s of None \<Rightarrow> False | Some t \<Rightarrow> timely t \<and> timely_run c es t)"

lemma timely_run_steps: "timely_run c es s \<Longrightarrow> sf_run c es s = Some t \<Longrightarrow> (timely_step c)\<^sup>*\<^sup>* s t"
proof (induction es arbitrary: s)
  case (Cons e es)
  then obtain u where "sf_do c e s = Some u" "timely u" "(timely_step c)\<^sup>*\<^sup>* u t" by (cases "sf_do c e s") auto
  then show ?case by (blast intro: converse_rtranclp_into_rtranclp sf_step.intros timely_step_def [THEN iffD2])
qed simp

lemma waiting_ends:
  "sf_run two_hosts (take 4 shared_run) sf_start = Some waiting_end"
  "map locked_since (sf_flights waiting_end) = [Some 0, None]"
  "timely_run two_hosts (take 4 shared_run) sf_start"
  by (simp_all add: waiting_end_def shared_run_def sf_eval timely_def locked_since_def less_Suc_eq)

theorem lock_excludes_witness: "filter (\<lambda>g. locked_since (sf_flights waiting_end ! g) \<noteq> None) [0, 1] = [0]"
proof -
  have l: "length (sf_flights waiting_end) = 2" using arg_cong [OF waiting_ends(2), of length] by simp
  then have "locked_since (sf_flights waiting_end ! 0) \<noteq> None"
    using arg_cong [OF waiting_ends(2), of "\<lambda>xs. xs ! 0"] by simp
  moreover have "buildLockKey two_hosts (fl_key (sf_flights waiting_end ! 0)) = buildLockKey two_hosts (fl_key (sf_flights waiting_end ! 1))"
    by (simp add: waiting_end_def shared_run_def sf_eval)
  ultimately have "locked_since (sf_flights waiting_end ! 1) = None"
    using lock_excludes [OF timely_run_steps [OF waiting_ends(3,1)], of 0 1] l zero_neq_one by force
  then show ?thesis using \<open>locked_since (sf_flights waiting_end ! 0) \<noteq> None\<close> by simp
qed


text \<open>C13: a flight ends: from the start on it receives at most a fixed number of answers, and until it has ended there is
  always one more for it, at the latest when its timer is due.\<close>

theorem flight_ends:
  assumes "sf_run c es sf_start = Some s"
  shows "answers_to f es \<le> 4 * attempt_cost
    \<and> (f < length (sf_flights s) \<and> \<not> is_forgotten (fl_phase (sf_flights s ! f)) \<longrightarrow>
         (\<exists>e d. event_flight e = Some f \<and> sf_do c e (s\<lparr>sf_now := sf_now s + int d\<rparr>) \<noteq> None))"
proof -
  have "flights_ok c (sf_start :: 'a sf_state)" by (simp add: sf_start_def flights_ok_def)
  then have "answers_to f es + budget_left s f \<le> 4 * attempt_cost"
    using run_spends [OF assms, of f] by (simp add: budget_left_def sf_start_def)
  then show ?thesis using flight_progress [of f s] by auto
qed

theorem flight_ends_witness: "answers_to 1 shared_run \<le> 4 * attempt_cost \<and> answers_to 1 shared_run = 5"
  using flight_ends [OF shared_run_ends(1), of 1] by (simp add: answers_to_def shared_run_def)

end
