(* ===== verification/Calendar.thy ===== *)
theory Calendar
  imports FecaPrelude
begin

text \<open>
  The UTC calendar of JavaScript's \<open>Date\<close>, on milliseconds since the epoch, and the identifiers the
  rankings derive from it (\<open>lib/ranking-time-seed.ts\<close>, \<open>lib/dynamic-ranking.ts\<close>).  Years are those of
  the Gregorian calendar; the texts are the ones of the years 0 to 9999.
\<close>

section \<open>Civil dates\<close>

abbreviation ms_per_hour :: int where "ms_per_hour \<equiv> 3600000"
abbreviation ms_per_day :: int where "ms_per_day \<equiv> 86400000"

definition day_number :: "int \<Rightarrow> int" where
  "day_number t = t div ms_per_day"

text \<open>Year, month and day of a day number, counting 400 year cycles that start on the first of March.\<close>

definition civil_from_days :: "int \<Rightarrow> int \<times> int \<times> int" where
  "civil_from_days z =
     (let z = z + 719468;
          era = z div 146097;
          doe = z mod 146097;
          yoe = (doe - doe div 1460 + doe div 36524 - doe div 146096) div 365;
          doy = doe - (365 * yoe + yoe div 4 - yoe div 100);
          mp = (5 * doy + 2) div 153;
          d = doy - (153 * mp + 2) div 5 + 1;
          m = (if mp < 10 then mp + 3 else mp - 9);
          y = yoe + era * 400
      in (if m \<le> 2 then y + 1 else y, m, d))"

definition days_from_civil :: "int \<Rightarrow> int \<Rightarrow> int \<Rightarrow> int" where
  "days_from_civil y m d =
     (let y = (if m \<le> 2 then y - 1 else y);
          era = y div 400;
          yoe = y mod 400;
          mp = (if 2 < m then m - 3 else m + 9);
          doy = (153 * mp + 2) div 5 + d - 1;
          doe = yoe * 365 + yoe div 4 - yoe div 100 + doy
      in era * 146097 + doe - 719468)"

definition utc_year :: "int \<Rightarrow> int" where "utc_year t = fst (civil_from_days (day_number t))"
definition utc_month :: "int \<Rightarrow> int" where "utc_month t = fst (snd (civil_from_days (day_number t)))"
definition utc_date :: "int \<Rightarrow> int" where "utc_date t = snd (snd (civil_from_days (day_number t)))"
definition utc_hours :: "int \<Rightarrow> int" where "utc_hours t = (t mod ms_per_day) div ms_per_hour"

text \<open>\<open>getUTCDay()\<close>: Sunday is 0; the epoch was a Thursday.\<close>

definition utc_weekday :: "int \<Rightarrow> int" where "utc_weekday t = (day_number t + 4) mod 7"

section \<open>Texts\<close>

definition int_text :: "int \<Rightarrow> string" where
  "int_text i = (if i < 0 then CHR ''-'' # nat_text (nat (- i)) else nat_text (nat i))"

text \<open>\<open>padStart(n, "0")\<close>.\<close>

definition pad_zeros :: "nat \<Rightarrow> string \<Rightarrow> string" where
  "pad_zeros n s = replicate (n - length s) (CHR ''0'') @ s"

text \<open>\<open>toISOString().slice(0, 10)\<close>.\<close>

definition iso_date :: "int \<Rightarrow> string" where
  "iso_date t = pad_zeros 4 (int_text (utc_year t)) @ ''-'' @ pad_zeros 2 (int_text (utc_month t))
     @ ''-'' @ pad_zeros 2 (int_text (utc_date t))"

section \<open>Buckets of the rankings\<close>

definition utcWeekBucketId :: "int \<Rightarrow> string" where
  "utcWeekBucketId t =
     (let y = utc_year t;
          start = days_from_civil y 1 1 * ms_per_day;
          day = (t - start) div ms_per_day;
          bucket = day div 7
      in int_text y @ ''w'' @ int_text bucket)"

definition utcHourBucketId :: "int \<Rightarrow> string" where
  "utcHourBucketId t = int_text (utc_year t) @ ''-'' @ pad_zeros 2 (int_text (utc_month t))
     @ ''-'' @ pad_zeros 2 (int_text (utc_date t)) @ ''h'' @ pad_zeros 2 (int_text (utc_hours t))"

definition buildTimeBucket :: "int \<Rightarrow> int \<Rightarrow> string" where
  "buildTimeBucket t bucketHours = int_text (utc_year t) @ ''-'' @ pad_zeros 2 (int_text (utc_month t))
     @ ''-'' @ pad_zeros 2 (int_text (utc_date t)) @ '':'' @ int_text (utc_hours t div max 1 bucketHours)"

section \<open>Lemmas\<close>

text \<open>The two conversions agree with the calendar on sample days: the epoch, a leap day and a new year.\<close>

lemma civil_samples:
  "civil_from_days 0 = (1970, 1, 1)" "civil_from_days 11016 = (2000, 2, 29)"
  "civil_from_days 20454 = (2026, 1, 1)" "days_from_civil 2000 2 29 = 11016"
  by code_simp+

lemma pad_zeros_length: "n \<le> length s \<Longrightarrow> pad_zeros n s = s"
  by (simp add: pad_zeros_def)

lemma utc_hours_bounds: "0 \<le> utc_hours t \<and> utc_hours t < 24"
proof -
  have m: "0 \<le> t mod ms_per_day" "t mod ms_per_day \<le> ms_per_day - 1" by simp_all
  have "t mod ms_per_day div ms_per_hour \<le> (ms_per_day - 1) div ms_per_hour"
    using m(2) by (rule zdiv_mono1) simp
  moreover have "0 \<le> t mod ms_per_day div ms_per_hour"
    using m(1) by (simp add: pos_imp_zdiv_nonneg_iff)
  ultimately show ?thesis by (simp add: utc_hours_def)
qed

lemma utc_weekday_bounds: "0 \<le> utc_weekday t \<and> utc_weekday t < 7"
  by (simp add: utc_weekday_def)

end
