(* ===== verification/Ranking.thy ===== *)
theory Ranking
  imports Complex_Main "HOL-Library.Word" Calendar
begin

text \<open>
  The pseudo random orders of the backend: the Fisher-Yates shuffle driven by mulberry32
  (\<open>shuffleDeterministic\<close> of \<open>social.repository.helpers.ts\<close>) and the ranking with a jitter that changes
  with the hour (\<open>lib/dynamic-ranking.ts\<close>).  SHA-256 is a parameter.  Scores are rationals, where the
  code has doubles; \<open>rnd() * (i + 1)\<close> is exact in a double as long as the list has fewer than \<open>2 ^ 21\<close> entries.
\<close>

unbundle bit_operations_syntax

section \<open>Shuffling\<close>

text \<open>One call of the generator: the new seed and the number drawn, before its division by \<open>2 ^ 32\<close>.\<close>

definition mulberry32 :: "32 word \<Rightarrow> 32 word \<times> 32 word" where
  "mulberry32 seed =
     (let seed' = seed + 0x6d2b79f5;
          t = (seed' XOR drop_bit 15 seed') * (seed' OR 1);
          t' = t XOR (t + (t XOR drop_bit 7 t) * (t OR 61))
      in (seed', t' XOR drop_bit 14 t'))"

definition swap_items :: "nat \<Rightarrow> nat \<Rightarrow> 'a list \<Rightarrow> 'a list" where
  "swap_items i j arr = arr[i := arr ! j, j := arr ! i]"

fun shuffle_loop :: "nat \<Rightarrow> 32 word \<Rightarrow> 'a list \<Rightarrow> 'a list" where
  "shuffle_loop 0 seed arr = arr"
| "shuffle_loop (Suc i) seed arr =
     (let (seed', r) = mulberry32 seed;
          j = unat r * (Suc i + 1) div 2 ^ 32
      in shuffle_loop i seed' (swap_items (Suc i) j arr))"

text \<open>\<open>sha\<close> gives the first three big-endian words of the digest.\<close>

definition shuffleDeterministic ::
  "(string \<Rightarrow> 32 word \<times> 32 word \<times> 32 word) \<Rightarrow> 'a list \<Rightarrow> string \<Rightarrow> 'a list" where
  "shuffleDeterministic sha items seedMaterial =
     (if length items \<le> 1 then items
      else let (a, b, c) = sha seedMaterial
           in shuffle_loop (length items - 1) (a XOR b XOR c) items)"

lemma draw_in_range:
  fixes r :: "32 word" shows "unat r * n div 2 ^ 32 < n \<or> n = 0"
proof -
  have "unat r < 2 ^ 32" using unsigned_less [of r, where 'a = nat] by simp
  then have "unat r * n < 2 ^ 32 * n" if "0 < n" using that by (rule mult_strict_right_mono)
  then show ?thesis by (auto simp: div_less_iff_less_mult mult.commute)
qed

lemma mset_swap_items: "i < length xs \<Longrightarrow> j < length xs \<Longrightarrow> mset (swap_items i j xs) = mset xs"
  by (simp add: swap_items_def mset_swap)

lemma mset_shuffle_loop: "i < length xs \<Longrightarrow> mset (shuffle_loop i seed xs) = mset xs"
proof (induction i seed xs rule: shuffle_loop.induct)
  case (2 i seed xs)
  obtain seed' r where g: "mulberry32 seed = (seed', r)" by force
  let ?j = "unat r * (Suc i + 1) div 2 ^ 32"
  have j: "?j < Suc i + 1" using draw_in_range [of r "Suc i + 1"] by simp
  have "mset (shuffle_loop i seed' (swap_items (Suc i) ?j xs)) = mset (swap_items (Suc i) ?j xs)"
    using 2 g by (simp add: swap_items_def)
  also have "\<dots> = mset xs" using 2(2) j by (intro mset_swap_items) auto
  finally show ?case using g by simp
qed simp

lemma mset_shuffle [simp]: "mset (shuffleDeterministic sha xs seed) = mset xs"
  by (auto simp: shuffleDeterministic_def mset_shuffle_loop split: prod.splits)

lemma set_shuffle [simp]: "set (shuffleDeterministic sha xs seed) = set xs"
  by (metis mset_shuffle set_mset_mset)

lemma length_shuffle [simp]: "length (shuffleDeterministic sha xs seed) = length xs"
  by (metis mset_shuffle size_mset)

lemma distinct_shuffle [simp]: "distinct (shuffleDeterministic sha xs seed) = distinct xs"
  by (metis mset_shuffle mset_eq_imp_distinct_iff)

section \<open>Ranking with rotation\<close>

record 'a candidate =
  cd_baseScore :: rat
  cd_id :: string
  cd_item :: 'a

record ranking_options =
  ro_bucketHours :: "int option"
  ro_jitterRatio :: "rat option"
  ro_maxJitter :: "rat option"
  ro_seed :: string
  ro_topWindow :: "int option"

definition resolveJitterSpan :: "rat \<Rightarrow> ranking_options \<Rightarrow> rat" where
  "resolveJitterSpan baseScore options =
     (let ratio = default_to (ro_jitterRatio options) (8 / 100);
          maxJitter = default_to (ro_maxJitter options) 14
      in min maxJitter (max 4 (\<bar>baseScore\<bar> * ratio)))"

text \<open>\<open>sha\<close> gives the first eight hexadecimal digits of the digest, as a number.\<close>

definition stableUnitInterval :: "(string \<Rightarrow> 32 word) \<Rightarrow> string \<Rightarrow> rat" where
  "stableUnitInterval sha seed = rat_of_nat (unat (sha seed)) / 0xffffffff"

definition computeStableJitter :: "(string \<Rightarrow> 32 word) \<Rightarrow> string \<Rightarrow> rat \<Rightarrow> rat" where
  "computeStableJitter sha seed width =
     (if width \<le> 0 then 0 else (stableUnitInterval sha seed * 2 - 1) * width)"

text \<open>\<open>collate a b\<close> is \<open>a.localeCompare(b) <= 0\<close>.\<close>

definition by_score :: "(string \<Rightarrow> string \<Rightarrow> bool) \<Rightarrow> 'a candidate \<Rightarrow> 'a candidate \<Rightarrow> bool" where
  "by_score collate a b \<longleftrightarrow> cd_baseScore b < cd_baseScore a
     \<or> cd_baseScore a = cd_baseScore b \<and> collate (cd_id a) (cd_id b)"

definition by_jittered ::
  "(string \<Rightarrow> string \<Rightarrow> bool) \<Rightarrow> 'a candidate \<times> rat \<Rightarrow> 'a candidate \<times> rat \<Rightarrow> bool" where
  "by_jittered collate a b \<longleftrightarrow> snd b < snd a
     \<or> snd a = snd b \<and> by_score collate (fst a) (fst b)"

definition jittered_score ::
  "(string \<Rightarrow> 32 word) \<Rightarrow> int \<Rightarrow> ranking_options \<Rightarrow> 'a candidate \<Rightarrow> rat" where
  "jittered_score sha t options c =
     cd_baseScore c + computeStableJitter sha
       (ro_seed options @ '':'' @ buildTimeBucket t (default_to (ro_bucketHours options) 2) @ '':'' @ cd_id c)
       (resolveJitterSpan (cd_baseScore c) options)"

definition top_window :: "ranking_options \<Rightarrow> nat \<Rightarrow> nat" where
  "top_window options n =
     nat (max 1 (min (int n) (default_to (ro_topWindow options) (max 18 (int n)))))"

definition rankCandidatesWithRotation ::
  "(string \<Rightarrow> 32 word) \<Rightarrow> (string \<Rightarrow> string \<Rightarrow> bool) \<Rightarrow> int \<Rightarrow> 'a candidate list \<Rightarrow> ranking_options
     \<Rightarrow> ('a candidate \<times> rat) list" where
  "rankCandidatesWithRotation sha collate t candidates options =
     (if length candidates \<le> 1 then map (\<lambda>c. (c, cd_baseScore c)) candidates
      else
        let sorted = sort_by (by_score collate) candidates;
            topWindow = top_window options (length sorted);
            rotatedTop = sort_by (by_jittered collate)
              (map (\<lambda>c. (c, jittered_score sha t options c)) (take topWindow sorted))
        in rotatedTop @ map (\<lambda>c. (c, cd_baseScore c)) (drop topWindow sorted))"

lemma unit_interval_bounds: "0 \<le> stableUnitInterval sha s \<and> stableUnitInterval sha s \<le> 1"
proof -
  have "unat (sha s) \<le> 0xffffffff" using unsigned_less [of "sha s", where 'a = nat] by simp
  then have "rat_of_nat (unat (sha s)) \<le> rat_of_nat 0xffffffff" by (simp only: of_nat_le_iff)
  moreover have "0 \<le> rat_of_nat (unat (sha s))" by (rule of_nat_0_le_iff)
  ultimately show ?thesis unfolding stableUnitInterval_def by (simp only: zero_le_divide_iff divide_le_eq_1) simp
qed

lemma jitter_bounds: "\<bar>computeStableJitter sha s width\<bar> \<le> max 0 width"
proof (cases "width \<le> 0")
  case False
  let ?u = "stableUnitInterval sha s"
  have "\<bar>?u * 2 - 1\<bar> \<le> 1" using unit_interval_bounds [of sha s] by (simp add: abs_le_iff)
  then have "\<bar>?u * 2 - 1\<bar> * \<bar>width\<bar> \<le> 1 * \<bar>width\<bar>" by (rule mult_right_mono) simp
  then show ?thesis using False by (simp add: computeStableJitter_def abs_mult)
qed (simp add: computeStableJitter_def)

lemma jittered_score_bounds:
  "\<bar>jittered_score sha t options c - cd_baseScore c\<bar> \<le> max 0 (default_to (ro_maxJitter options) 14)"
proof -
  have "resolveJitterSpan (cd_baseScore c) options \<le> default_to (ro_maxJitter options) 14"
    by (simp add: resolveJitterSpan_def Let_def)
  moreover have "\<bar>jittered_score sha t options c - cd_baseScore c\<bar>
      \<le> max 0 (resolveJitterSpan (cd_baseScore c) options)"
    unfolding jittered_score_def by (simp add: jitter_bounds)
  ultimately show ?thesis by linarith
qed

lemma map_fst_score: "map fst (map (\<lambda>c. (c, f c)) cs) = cs"
  by (induction cs) auto

lemma rank_short:
  "length cs \<le> 1 \<Longrightarrow> rankCandidatesWithRotation sha collate t cs options = map (\<lambda>c. (c, cd_baseScore c)) cs"
  by (simp add: rankCandidatesWithRotation_def)

lemma rank_long:
  assumes "\<not> length cs \<le> 1"
  shows "rankCandidatesWithRotation sha collate t cs options =
    sort_by (by_jittered collate) (map (\<lambda>c. (c, jittered_score sha t options c))
      (take (top_window options (length cs)) (sort_by (by_score collate) cs)))
    @ map (\<lambda>c. (c, cd_baseScore c)) (drop (top_window options (length cs)) (sort_by (by_score collate) cs))"
  using assms by (simp add: rankCandidatesWithRotation_def Let_def)

lemma rank_mset: "mset (map fst (rankCandidatesWithRotation sha collate t cs options)) = mset cs"
proof (cases "length cs \<le> 1")
  case True
  then show ?thesis by (simp add: rank_short map_fst_score del: map_map)
next
  case False
  let ?s = "sort_by (by_score collate) cs" and ?k = "top_window options (length cs)"
  have "mset (map fst (rankCandidatesWithRotation sha collate t cs options)) =
      image_mset fst (mset (map (\<lambda>c. (c, jittered_score sha t options c)) (take ?k ?s)))
      + mset (map fst (map (\<lambda>c. (c, cd_baseScore c)) (drop ?k ?s)))"
    unfolding rank_long [OF False] by (simp only: map_append mset_append mset_map mset_sort_by)
  also have "\<dots> = mset (take ?k ?s) + mset (drop ?k ?s)"
    by (simp only: mset_map [symmetric] map_fst_score)
  also have "\<dots> = mset cs" by (simp flip: mset_append)
  finally show ?thesis .
qed

lemma top_window_bounds:
  "1 \<le> top_window options n \<and> (1 \<le> n \<longrightarrow> top_window options n \<le> n)"
  by (auto simp: top_window_def)

definition score_within :: "rat \<Rightarrow> 'a candidate \<times> rat \<Rightarrow> bool" where
  "score_within d r \<longleftrightarrow> \<bar>snd r - cd_baseScore (fst r)\<bar> \<le> max 0 d"

lemma rank_scores:
  "list_all (score_within (default_to (ro_maxJitter options) 14)) (rankCandidatesWithRotation sha collate t cs options)"
proof (cases "length cs \<le> 1")
  case True
  then show ?thesis by (simp add: rank_short score_within_def list_all_iff)
next
  case False
  show ?thesis unfolding rank_long [OF False]
    using jittered_score_bounds by (auto simp: list_all_iff score_within_def)
qed

text \<open>The rotating ranking loses and invents nothing, moves no score by more than the largest jitter,
  and leaves everything below its window in the plain order of the scores.\<close>

theorem ranking_rotation_bounds:
  "mset (map fst (rankCandidatesWithRotation sha collate t cs options)) = mset cs
   \<and> list_all (score_within (default_to (ro_maxJitter options) 14)) (rankCandidatesWithRotation sha collate t cs options)
   \<and> map fst (drop (top_window options (length cs)) (rankCandidatesWithRotation sha collate t cs options))
     = drop (top_window options (length cs)) (sort_by (by_score collate) cs)"
proof -
  have "map fst (drop (top_window options (length cs)) (rankCandidatesWithRotation sha collate t cs options))
     = drop (top_window options (length cs)) (sort_by (by_score collate) cs)"
  proof (cases "length cs \<le> 1")
    case True
    then have "length cs \<le> top_window options (length cs)"
      using top_window_bounds [of options "length cs"] by linarith
    then show ?thesis using True by (simp add: rank_short)
  next
    case False
    then have "top_window options (length cs) \<le> length cs"
      using top_window_bounds [of options "length cs"] by simp
    then show ?thesis unfolding rank_long [OF False] by (simp add: map_fst_score del: map_map)
  qed
  then show ?thesis using rank_mset rank_scores by blast
qed

end
