(* ===== verification/SocialGraph.thy ===== *)
theory SocialGraph
  imports Notifications Ranking
begin

text \<open>
  The follow graph and the profile of a user (\<open>social-graph.repository.ts\<close>, \<open>social-users.service.ts\<close>):
  following and unfollowing with the notification, search, suggestions, settings, statistics and
  taste.  Texts compare in the database by its collation, a parameter; a \<open>contains\<close> with
  \<open>mode: "insensitive"\<close> ignores the case of Latin-1 letters.
\<close>

section \<open>The repository\<close>

record user_stats =
  followersCount :: nat
  followingCount :: nat
  savedCount :: nat
  visitCount :: nat

definition getProfileStats :: "string \<Rightarrow> db \<Rightarrow> user_stats" where
  "getProfileStats userId w = \<lparr>
     followersCount = count_rows (\<lambda>f. fo_followed f = userId) (t_follows w),
     followingCount = count_rows (\<lambda>f. fo_follower f = userId) (t_follows w),
     savedCount = count_rows (\<lambda>s. sv_user s = userId) (t_saves w),
     visitCount = count_rows (\<lambda>v. vi_user v = userId) (t_visits w)\<rparr>"

record user_with_stats =
  uw_settings :: social_settings_view
  uw_stats :: user_stats
  uw_user :: user_row

definition findUserByIdWithStats :: "string \<Rightarrow> user_with_stats option dbm" where
  "findUserByIdWithStats userId =
     seqS (ensureUserSettings userId)
     (bindS (gets (user_by_id userId)) (\<lambda>user. case user of
        None \<Rightarrow> ret None
      | Some u \<Rightarrow> gets (\<lambda>w. Some \<lparr>uw_settings = normalizeSettings (settings_of (u_id u) w),
            uw_stats = getProfileStats userId w, uw_user = u\<rparr>)))"

record user_context =
  uc_permissions :: user_permissions
  uc_settings :: social_settings_view
  uc_social :: social_state
  uc_stats :: user_stats
  uc_user :: user_row

definition findUserByIdWithContext :: "string \<Rightarrow> string \<Rightarrow> user_context option dbm" where
  "findUserByIdWithContext viewerId userId =
     seqS (ensureUserSettingsForUsers [viewerId, userId])
     (bindS (gets (user_by_id userId)) (\<lambda>user. case user of
        None \<Rightarrow> ret None
      | Some u \<Rightarrow> gets (\<lambda>w. let (permissions, settings, social) = getUserRelationshipContext viewerId u w
          in Some \<lparr>uc_permissions = permissions, uc_settings = settings, uc_social = social,
                   uc_stats = getProfileStats userId w, uc_user = u\<rparr>)))"

text \<open>\<open>orderBy: [{ displayName }, { username }]\<close>.\<close>

definition by_display_name :: "(string \<Rightarrow> string \<Rightarrow> bool) \<Rightarrow> user_row \<Rightarrow> user_row \<Rightarrow> bool" where
  "by_display_name collate a b =
     (if collate (u_display_name a) (u_display_name b) \<and> collate (u_display_name b) (u_display_name a)
      then collate (u_username a) (u_username b) else collate (u_display_name a) (u_display_name b))"

definition searchUsersRepo ::
  "(string \<Rightarrow> string \<Rightarrow> bool) \<Rightarrow> string \<Rightarrow> nat \<Rightarrow> nat \<Rightarrow> string \<Rightarrow> db \<Rightarrow> user_row list \<times> nat" where
  "searchUsersRepo collate viewerId limit offset q w =
     (let matches = (\<lambda>u. u_id u \<noteq> viewerId \<and> (q \<noteq> [] \<longrightarrow>
            contains_ci (u_display_name u) q \<or> contains_ci (u_username u) q
            \<or> (case u_city u of None \<Rightarrow> False | Some c \<Rightarrow> contains_ci c q)))
      in (page_rows offset limit (sort_by (by_display_name collate) (find_many matches (t_users w))),
          count_rows matches (t_users w)))"

text \<open>The suggestions: a pool of the newest users the viewer does not follow, those of the viewer's own
  city first when the client names it, shuffled by the day.\<close>

definition fetch_pool :: "string list \<Rightarrow> nat \<Rightarrow> string option \<Rightarrow> db \<Rightarrow> user_row list" where
  "fetch_pool notIn poolCap cityId w =
     take poolCap (sort_by (\<lambda>a b. u_created b \<le> u_created a)
       (find_many (\<lambda>u. u_id u \<notin> set notIn \<and> (truthy cityId \<longrightarrow> u_city_id u = cityId)) (t_users w)))"

fun fill_pool :: "nat \<Rightarrow> string list \<Rightarrow> user_row list \<Rightarrow> user_row list \<Rightarrow> user_row list" where
  "fill_pool poolCap seen pool [] = pool"
| "fill_pool poolCap seen pool (row # rows) =
     (if poolCap \<le> length seen then pool
      else if u_id row \<in> set seen then fill_pool poolCap seen pool rows
      else fill_pool poolCap (u_id row # seen) (pool @ [row]) rows)"

definition restrict_city :: "string option \<Rightarrow> user_row option \<Rightarrow> db \<Rightarrow> string option" where
  "restrict_city cityGooglePlaceId viewer w =
     (let paramCity = js_trim (default_to cityGooglePlaceId []);
          viewerCityId = (case viewer of None \<Rightarrow> None | Some v \<Rightarrow> u_city_id v);
          cityRef = (case viewerCityId of None \<Rightarrow> None
                     | Some c \<Rightarrow> find_unique (\<lambda>r. ci_id r = c) (t_cities w))
      in if paramCity \<noteq> [] \<and> map_option ci_google_id cityRef = Some paramCity \<and> truthy viewerCityId
         then viewerCityId else None)"

definition suggestion_pool :: "string \<Rightarrow> nat \<Rightarrow> string option \<Rightarrow> db \<Rightarrow> user_row list" where
  "suggestion_pool viewerId limit cityGooglePlaceId w =
     (let restrictCityId = restrict_city cityGooglePlaceId (user_by_id viewerId w) w;
          notIn = dedupe (viewerId # listFollowingIds viewerId w);
          poolCap = max (limit * 20) 60;
          pool = fetch_pool notIn poolCap restrictCityId w
      in if length pool < limit \<and> truthy restrictCityId
         then fill_pool poolCap (dedupe (map u_id pool)) pool (fetch_pool notIn poolCap None w)
         else pool)"

definition listSuggestedOnboardingUsersRepo ::
  "(string \<Rightarrow> 32 word \<times> 32 word \<times> 32 word) \<Rightarrow> string \<Rightarrow> int \<Rightarrow> string option \<Rightarrow> db \<Rightarrow> user_row list" where
  "listSuggestedOnboardingUsersRepo sha viewerId requested cityGooglePlaceId w =
     (let limit = nat (min (max requested 1) 10);
          pool = suggestion_pool viewerId limit cityGooglePlaceId w
      in take limit (shuffleDeterministic sha pool (viewerId @ '':'' @ iso_date (db_now w))))"

definition viewerFollowsUser :: "string \<Rightarrow> string \<Rightarrow> db \<Rightarrow> bool" where
  "viewerFollowsUser viewerId targetUserId w =
     (find_unique (\<lambda>f. fo_follower f = viewerId \<and> fo_followed f = targetUserId) (t_follows w) \<noteq> None)"

definition create_follow :: "string \<Rightarrow> string \<Rightarrow> unit dbm" where
  "create_follow viewerId targetUserId =
     bindS now (\<lambda>t. bindS (gets t_follows) (\<lambda>rows.
       case create_row follow_key \<lparr>fo_follower = viewerId, fo_followed = targetUserId, fo_created = t\<rparr> rows of
         None \<Rightarrow> throw (PrismaError ''P2002'')
       | Some rows' \<Rightarrow> modify (\<lambda>w. w\<lparr>t_follows := rows'\<rparr>)))"

type_synonym relationship = "user_permissions \<times> social_settings_view \<times> social_state"

definition followUserRepo :: "string \<Rightarrow> string \<Rightarrow> (relationship \<times> bool) option dbm" where
  "followUserRepo viewerId targetUserId =
     seqS (ensureUserSettingsForUsers [viewerId, targetUserId])
     (bindS (gets (user_by_id targetUserId)) (\<lambda>user. case user of
        None \<Rightarrow> ret None
      | Some u \<Rightarrow>
          bindS (gets (viewerFollowsUser viewerId targetUserId)) (\<lambda>existing.
          seqS (if existing then ret () else create_follow viewerId targetUserId)
            (gets (\<lambda>w. Some (getUserRelationshipContext viewerId u w, \<not> existing))))))"

definition unfollowUserRepo :: "string \<Rightarrow> string \<Rightarrow> relationship option dbm" where
  "unfollowUserRepo viewerId targetUserId =
     seqS (modify (\<lambda>w. w\<lparr>t_follows := delete_many
            (\<lambda>f. fo_followed f = targetUserId \<and> fo_follower f = viewerId) (t_follows w)\<rparr>))
     (seqS (ensureUserSettings targetUserId)
     (bindS (gets (user_by_id targetUserId)) (\<lambda>user. case user of
        None \<Rightarrow> ret None
      | Some u \<Rightarrow> gets (\<lambda>w. Some (getUserRelationshipContext viewerId u w)))))"

text \<open>Pages of the follow lists, the newest first, with the users they refer to.\<close>

definition follow_page ::
  "(follow_row \<Rightarrow> bool) \<Rightarrow> (follow_row \<Rightarrow> string) \<Rightarrow> nat \<Rightarrow> nat \<Rightarrow> db \<Rightarrow> user_row list \<times> nat" where
  "follow_page p other limit offset w =
     (let rows = page_rows offset limit (sort_by (\<lambda>a b. fo_created b \<le> fo_created a) (find_many p (t_follows w)))
      in (map the (filter (\<lambda>u. u \<noteq> None) (map (\<lambda>r. user_by_id (other r) w) rows)),
          count_rows p (t_follows w)))"

definition listFollowingRepo :: "string \<Rightarrow> nat \<Rightarrow> nat \<Rightarrow> db \<Rightarrow> user_row list \<times> nat" where
  "listFollowingRepo userId = follow_page (\<lambda>f. fo_follower f = userId) fo_followed"

definition listFollowersRepo :: "string \<Rightarrow> nat \<Rightarrow> nat \<Rightarrow> db \<Rightarrow> user_row list \<times> nat" where
  "listFollowersRepo userId = follow_page (\<lambda>f. fo_followed f = userId) fo_follower"

definition listFollowerIds :: "string \<Rightarrow> db \<Rightarrow> string list" where
  "listFollowerIds userId w = map fo_follower (find_many (\<lambda>f. fo_followed f = userId) (t_follows w))"

definition getSocialSettingsRepo :: "string \<Rightarrow> social_settings_view dbm" where
  "getSocialSettingsRepo userId =
     seqS (ensureUserSettings userId) (gets (\<lambda>w. normalizeSettings (settings_of userId w)))"

record social_settings_patch =
  sp_activity :: "content_visibility option"
  sp_diary :: "content_visibility option"
  sp_invite :: "group_invite_policy option"
  sp_push :: "bool option"

definition patch_settings :: "social_settings_patch \<Rightarrow> settings_row \<Rightarrow> settings_row" where
  "patch_settings p s = s\<lparr>st_activity := default_to (sp_activity p) (st_activity s),
     st_diary := default_to (sp_diary p) (st_diary s), st_invite := default_to (sp_invite p) (st_invite s),
     st_push := default_to (sp_push p) (st_push s)\<rparr>"

text \<open>\<open>upsert\<close> of the settings: the defaults of the create branch are those of a new row.\<close>

definition upsert_settings :: "string \<Rightarrow> social_settings_patch \<Rightarrow> settings_row dbm" where
  "upsert_settings userId p =
     bindS (gets (settings_of userId)) (\<lambda>existing. case existing of
        Some s \<Rightarrow>
          seqS (modify (\<lambda>w. w\<lparr>t_settings := update_many (\<lambda>r. st_user r = userId) (patch_settings p) (t_settings w)\<rparr>))
            (ret (patch_settings p s))
      | None \<Rightarrow>
          bindS (gets (user_by_id userId)) (\<lambda>user. case user of
             None \<Rightarrow> throw (PrismaError ''P2003'')
           | Some _ \<Rightarrow>
               let row = patch_settings p (default_settings_row userId) in
               seqS (modify (\<lambda>w. w\<lparr>t_settings := t_settings w @ [row]\<rparr>)) (ret row)))"

definition updateSocialSettingsRepo :: "string \<Rightarrow> social_settings_patch \<Rightarrow> social_settings_view dbm" where
  "updateSocialSettingsRepo userId p =
     bindS (upsert_settings userId p) (\<lambda>s. ret (normalizeSettings (Some s)))"

definition updateUserTastePreferenceIds :: "string \<Rightarrow> string list \<Rightarrow> string list dbm" where
  "updateUserTastePreferenceIds userId tasteIds =
     bindS (gets (user_by_id userId)) (\<lambda>u.
     bindS (require (PrismaError ''P2025'') u) (\<lambda>_.
     seqS (modify (\<lambda>w. w\<lparr>t_users := update_many (\<lambda>r. u_id r = userId) (\<lambda>r. r\<lparr>u_taste_ids := tasteIds\<rparr>) (t_users w)\<rparr>))
       (ret tasteIds)))"

section \<open>The service\<close>

text \<open>\<open>normalizeRequiredSearchQuery\<close>.\<close>

definition normalizeRequiredSearchQuery :: "string option \<Rightarrow> string \<Rightarrow> bool \<Rightarrow> http_error + string" where
  "normalizeRequiredSearchQuery query msg stripLeadingAt =
     (let trimmed = collapse_ws (js_trim (default_to query []));
          normalized = (if stripLeadingAt then dropWhile (\<lambda>c. c = CHR ''@'') trimmed else trimmed)
      in if length normalized < 2 then Inl (BadRequest msg) else Inr normalized)"

definition mergeSerializedUserStats :: "'u \<Rightarrow> user_stats \<Rightarrow> 'u \<times> user_stats" where
  "mergeSerializedUserStats user stats = (user, stats)"

definition serializeSocialState :: "social_state \<Rightarrow> social_state" where
  "serializeSocialState social =
     \<lparr>followsYou = followsYou social, following = following social, mutual = mutual social\<rparr>"

definition getUserProfile :: "string \<Rightarrow> string \<Rightarrow> (social_state \<times> user_public \<times> user_stats) dbm" where
  "getUserProfile viewerId userId =
     bindS (findUserByIdWithContext viewerId userId) (\<lambda>profile.
     bindS (require (NotFound ''User not found'') profile) (\<lambda>p.
       ret (serializeSocialState (uc_social p),
            mergeSerializedUserStats (serializeUserPublic False (uc_user p)) (uc_stats p))))"

definition searchUsers ::
  "(string \<Rightarrow> string \<Rightarrow> bool) \<Rightarrow> string \<Rightarrow> nat \<Rightarrow> nat \<Rightarrow> string option \<Rightarrow> (nat \<times> user_summary list) dbm" where
  "searchUsers collate userId limit offset q =
     bindS (liftE (normalizeRequiredSearchQuery q ''q must have at least 2 characters'' True)) (\<lambda>nq.
     bindS (gets (searchUsersRepo collate userId limit offset nq)) (\<lambda>r.
       ret (snd r, map serializeUserSummary (fst r))))"

definition listSuggestedOnboardingUsers ::
  "(string \<Rightarrow> 32 word \<times> 32 word \<times> 32 word) \<Rightarrow> string \<Rightarrow> int option \<Rightarrow> string option \<Rightarrow> db \<Rightarrow> nat \<times> user_summary list" where
  "listSuggestedOnboardingUsers sha userId limit cityGooglePlaceId w =
     (let users = listSuggestedOnboardingUsersRepo sha userId (default_to limit 6) cityGooglePlaceId w
      in (length users, map serializeUserSummary users))"

definition follow_notification :: "string \<Rightarrow> string \<Rightarrow> publish_input" where
  "follow_notification userId targetUserId = \<lparr>pb_actorId = Some userId, pb_dedupeKey = None,
     pb_entity = Some (userId, EntUser), pb_payload = None, pb_recipientIds = [targetUserId],
     pb_scheduledFor = None, pb_type = NFollow\<rparr>"

text \<open>The results are the \<open>following\<close> flag of the relationship after the call.\<close>

definition followUser :: "string \<Rightarrow> string \<Rightarrow> bool dbm" where
  "followUser userId targetUserId =
     seqS (throw_if (userId = targetUserId) (BadRequest ''You cannot follow yourself''))
     (bindS (followUserRepo userId targetUserId) (\<lambda>result.
      bindS (require (NotFound ''User not found'') result) (\<lambda>r.
      seqS (if snd r then bindS (publish (follow_notification userId targetUserId)) (\<lambda>_. ret ()) else ret ())
        (ret (following (snd (snd (fst r))))))))"

definition unfollowUser :: "string \<Rightarrow> string \<Rightarrow> bool dbm" where
  "unfollowUser userId targetUserId =
     seqS (throw_if (userId = targetUserId) (BadRequest ''You cannot unfollow yourself''))
     (bindS (unfollowUserRepo userId targetUserId) (\<lambda>result.
      bindS (require (NotFound ''User not found'') result) (\<lambda>r. ret (following (snd (snd r))))))"

definition listFollowing :: "string \<Rightarrow> nat \<Rightarrow> nat \<Rightarrow> db \<Rightarrow> nat \<times> user_summary list" where
  "listFollowing userId limit offset w =
     (let r = listFollowingRepo userId limit offset w in (snd r, map serializeUserSummary (fst r)))"

definition listFollowers :: "string \<Rightarrow> nat \<Rightarrow> nat \<Rightarrow> db \<Rightarrow> nat \<times> user_summary list" where
  "listFollowers userId limit offset w =
     (let r = listFollowersRepo userId limit offset w in (snd r, map serializeUserSummary (fst r)))"

definition getSocialSettings :: "string \<Rightarrow> api_social_settings dbm" where
  "getSocialSettings userId = bindS (getSocialSettingsRepo userId) (\<lambda>s. ret (serializeSocialSettings s))"

record update_social_settings_dto =
  us_activity :: "content_visibility option"
  us_diary :: "content_visibility option"
  us_invite :: "api_group_invite_policy option"
  us_push :: "bool option"

definition updateSocialSettings :: "string \<Rightarrow> update_social_settings_dto \<Rightarrow> api_social_settings dbm" where
  "updateSocialSettings userId body =
     bindS (updateSocialSettingsRepo userId \<lparr>sp_activity = us_activity body, sp_diary = us_diary body,
         sp_invite = map_option mapApiGroupInvitePolicyToPrisma (us_invite body), sp_push = us_push body\<rparr>)
       (\<lambda>s. ret (serializeSocialSettings s))"

definition TASTE_OPTIONS :: "(string \<times> string) list" where
  "TASTE_OPTIONS = [
     (''small_bar'', ''Te gustan las barras chicas''),
     (''specialty_over_brunch'', ''Preferis specialty sobre brunch masivo''),
     (''reading_spots'', ''Buscas lugares para leer''),
     (''wifi_outlets'', ''Te importan wifi y enchufes''),
     (''terrace'', ''Preferis terrazas''),
     (''indoor_table'', ''Preferis mesas de interior''),
     (''quiet'', ''Valoras lugares tranquilos''),
     (''bright_light'', ''Te importa la luz natural'')]"

definition TASTE_OPTION_IDS :: "string set" where
  "TASTE_OPTION_IDS = set (map fst TASTE_OPTIONS)"

record update_taste_dto =
  tt_selectedIds :: "string list option"
  tt_preferenceIds :: "string list option"
  tt_preferences :: "string list option"

text \<open>The preferences of the body are their ids; the weights are not read.\<close>

definition normalizeTasteIds :: "update_taste_dto \<Rightarrow> string list" where
  "normalizeTasteIds body =
     (let rawIds = (case tt_selectedIds body of Some ids \<Rightarrow> ids
            | None \<Rightarrow> (case tt_preferenceIds body of Some ids \<Rightarrow> ids
                | None \<Rightarrow> default_to (tt_preferences body) []))
      in dedupe (filter (\<lambda>i. i \<in> TASTE_OPTION_IDS) rawIds))"

definition serializeTasteSelection :: "string list \<Rightarrow> (string \<times> string) list \<times> string list" where
  "serializeTasteSelection selectedIds =
     (filter (\<lambda>o'. fst o' \<in> set selectedIds) TASTE_OPTIONS, selectedIds)"

definition getMyTaste :: "string \<Rightarrow> ((string \<times> string) list \<times> string list) dbm" where
  "getMyTaste userId =
     bindS (gets (user_by_id userId)) (\<lambda>u.
     bindS (require (NotFound ''User not found'') u) (\<lambda>u. ret (serializeTasteSelection (u_taste_ids u))))"

definition updateMyTaste :: "string \<Rightarrow> update_taste_dto \<Rightarrow> ((string \<times> string) list \<times> string list) dbm" where
  "updateMyTaste userId body =
     bindS (updateUserTastePreferenceIds userId (normalizeTasteIds body)) (\<lambda>ids. ret (serializeTasteSelection ids))"

definition getUserTaste :: "string \<Rightarrow> string \<Rightarrow> ((string \<times> string) list \<times> string list) dbm" where
  "getUserTaste viewerId userId =
     bindS (findUserByIdWithContext viewerId userId) (\<lambda>profile.
     bindS (require (NotFound ''User not found'') profile) (\<lambda>p.
       ret (serializeTasteSelection (if viewerId = userId then u_taste_ids (uc_user p)
              else take 4 (u_taste_ids (uc_user p))))))"

section \<open>Following and unfollowing\<close>

lemma viewerFollowsUser_follows: "viewerFollowsUser v t w = follows w v t"
  by (auto simp: viewerFollowsUser_def follows_def find_unique_None)

lemma context_following:
  assumes "u_id u \<noteq> []"
  shows "following (snd (snd (getUserRelationshipContext v u w))) = follows w v (u_id u)"
proof -
  have "u_id u \<in> set [u_id u]" by simp
  from social_state_of_maps [OF this assms]
  show ?thesis by (simp add: getUserRelationshipContext_def Let_def)
qed

definition known_pair :: "string \<Rightarrow> string \<Rightarrow> db \<Rightarrow> bool" where
  "known_pair v t w \<longleftrightarrow> v \<noteq> t \<and> v \<noteq> [] \<and> t \<noteq> [] \<and> user_by_id v w \<noteq> None \<and> user_by_id t w \<noteq> None"

lemma ensure_pair:
  assumes "known_pair v t w"
  obtains w1 where "ensureUserSettingsForUsers [v, t] w = (Inr (), w1)" "settings_extended w w1"
    "settings_of v w1 \<noteq> None" "settings_of t w1 \<noteq> None"
proof -
  have k: "v \<noteq> t" "v \<noteq> []" "t \<noteq> []" "user_by_id v w \<noteq> None" "user_by_id t w \<noteq> None"
    using assms by (simp_all add: known_pair_def)
  have d: "dedupe (filter (\<lambda>u. u \<noteq> []) [v, t]) = [v, t]" using k(1,2,3) by simp
  let ?w1 = "snd (ensureUserSettings t (snd (ensureUserSettings v w)))"
  have r: "fst (ensureUserSettings v w) = Inr ()"
    "fst (ensureUserSettings t (snd (ensureUserSettings v w))) = Inr ()"
    using k(4,5) by (simp_all add: ensureUserSettings_result)
  have run: "ensureUserSettingsForUsers [v, t] w = (Inr (), ?w1)"
    unfolding ensureUserSettingsForUsers_def d Let_def
    using r by (simp add: bindS_def case_prod_unfold Let_def)
  have "settings_of v (snd (ensureUserSettings v w)) \<noteq> None"
    using k(4) by (auto simp: ensureUserSettings_def settings_of_append default_settings_row_def split: option.splits)
  then have "settings_of v ?w1 \<noteq> None" using settings_of_ensure_other [OF k(1) [symmetric]] by simp
  moreover have "settings_of t ?w1 \<noteq> None"
    using k(5) user_by_id_ensure [of t v w]
    by (auto simp: ensureUserSettings_def [of t] settings_of_append default_settings_row_def
        simp del: user_by_id_ensure split: option.splits)
  moreover have "settings_extended w ?w1" using ensureUserSettingsForUsers_extends [of w "[v, t]"] run by simp
  ultimately show thesis using run that by blast
qed

lemma ensure_noop: "settings_of u w \<noteq> None \<Longrightarrow> ensureUserSettings u w = (Inr (), w)"
  by (auto simp: ensureUserSettings_def)

lemma ensure_pair_noop:
  assumes "settings_of v w \<noteq> None" "settings_of t w \<noteq> None"
  shows "ensureUserSettingsForUsers [v, t] w = (Inr (), w)"
proof -
  have "promise_all ensureUserSettings us w = (Inr (replicate (length us) ()), w)"
    if "set us \<subseteq> {v, t}" for us
    using that by (induction us) (use assms ensure_noop in auto)
  moreover have "set (dedupe (filter (\<lambda>u. u \<noteq> []) [v, t])) \<subseteq> {v, t}" by auto
  ultimately show ?thesis by (simp add: ensureUserSettingsForUsers_def Let_def bindS_def)
qed

lemma settings_extended_others:
  assumes "settings_extended w w'"
  shows "t_users w' = t_users w" "t_follows w' = t_follows w" "db_now w' = db_now w"
proof -
  obtain ss where e: "w' = w\<lparr>t_settings := ss\<rparr>" using assms unfolding settings_extended_def by (elim conjE exE)
  show "t_users w' = t_users w" "t_follows w' = t_follows w" "db_now w' = db_now w" unfolding e by simp_all
qed

definition follow_edge :: "string \<Rightarrow> string \<Rightarrow> db \<Rightarrow> follow_row" where
  "follow_edge v t w = \<lparr>fo_follower = v, fo_followed = t, fo_created = db_now w\<rparr>"

lemma create_follow_run:
  assumes "\<not> follows w v t"
  shows "create_follow v t w = (Inr (), w\<lparr>t_follows := t_follows w @ [follow_edge v t w]\<rparr>)"
proof -
  have "follow_key (follow_edge v t w) \<notin> set (map follow_key (t_follows w))"
    using assms by (auto simp: follows_def follow_edge_def)
  then show ?thesis by (simp add: create_follow_def create_row_def follow_edge_def)
qed

lemma followUserRepo_run:
  assumes "ensureUserSettingsForUsers [v, t] w = (Inr (), w1)" "user_by_id t w1 = Some u"
  shows "followUserRepo v t w =
    (let w2 = (if follows w1 v t then w1 else w1\<lparr>t_follows := t_follows w1 @ [follow_edge v t w1]\<rparr>)
     in (Inr (Some (getUserRelationshipContext v u w2, \<not> follows w1 v t)), w2))"
  using assms create_follow_run [of w1 v t]
  by (simp add: followUserRepo_def seqS_apply viewerFollowsUser_follows Let_def)

lemma user_by_id_fields: "user_by_id i w = Some u \<Longrightarrow> u_id u = i"
  unfolding user_by_id_def by (drule find_unique_Some) simp

lemma follows_append [simp]:
  "follows (w\<lparr>t_follows := t_follows w @ [follow_edge v t w']\<rparr>) a b = (follows w a b \<or> a = v \<and> b = t)"
  by (auto simp: follows_def follow_edge_def)

lemma delete_edge:
  "\<not> follows w v t \<Longrightarrow> delete_many (\<lambda>f. fo_followed f = t \<and> fo_follower f = v) (t_follows w) = t_follows w"
  by (auto simp: delete_many_def follows_def filter_id_conv)

lemma publish_follow_frame:
  obtains w' r where "publish (follow_notification v t) w = (Inr r, w')" "notif_frame w w'"
proof -
  have "returns (publish (follow_notification v t))"
    by (rule publish_returns) (simp add: follow_notification_def)
  then show thesis using returnsD pub.notify_frame that by metis
qed

lemma followUser_run:
  assumes k: "known_pair v t w"
  obtains w' where "followUser v t w = (Inr True, w')"
    "t_follows w' = (if follows w v t then t_follows w else t_follows w @ [follow_edge v t w])"
    "t_users w' = t_users w" "settings_of v w' \<noteq> None" "settings_of t w' \<noteq> None"
    "follows w v t \<Longrightarrow> settings_of v w \<noteq> None \<Longrightarrow> settings_of t w \<noteq> None \<Longrightarrow> w' = w"
proof -
  obtain w1 where 1: "ensureUserSettingsForUsers [v, t] w = (Inr (), w1)" "settings_extended w w1"
    "settings_of v w1 \<noteq> None" "settings_of t w1 \<noteq> None" using ensure_pair [OF k] .
  note f1 = settings_extended_others [OF 1(2)]
  have "user_by_id t w \<noteq> None" using k unfolding known_pair_def by (elim conjE)
  then obtain u where u0: "user_by_id t w = Some u" unfolding not_None_eq by (elim exE)
  have u: "user_by_id t w1 = Some u" using u0 unfolding user_by_id_def f1(1) .
  have u: "user_by_id t w1 = Some u" "u_id u = t" by (rule u, rule user_by_id_fields [OF u0])
  have t: "u_id u \<noteq> []" using u(2) k by (simp add: known_pair_def)
  define w2 where "w2 = (if follows w1 v t then w1 else w1\<lparr>t_follows := t_follows w1 @ [follow_edge v t w1]\<rparr>)"
  have fol: "follows w1 v t = follows w v t" by (simp add: follows_def f1)
  have repo: "followUserRepo v t w = (Inr (Some (getUserRelationshipContext v u w2, \<not> follows w v t)), w2)"
    using followUserRepo_run [OF 1(1) u(1)] unfolding w2_def Let_def fol .
  have "follows w2 v t" unfolding w2_def by simp
  then have ctx: "following (snd (snd (getUserRelationshipContext v u w2)))" using context_following [OF t] u(2) by simp
  have t2: "t_follows w2 = (if follows w v t then t_follows w else t_follows w @ [follow_edge v t w])"
    "t_users w2 = t_users w" "t_settings w2 = t_settings w1"
    unfolding w2_def fol using f1 by (simp_all add: follow_edge_def)
  have ne: "v \<noteq> t" using k by (simp add: known_pair_def)
  show thesis
  proof (cases "follows w v t")
    case True
    have "followUser v t w = (Inr True, w2)"
      using repo ctx True ne by (simp add: followUser_def seqS_apply bindS_apply)
    moreover have "w2 = w" if "settings_of v w \<noteq> None" "settings_of t w \<noteq> None"
      using ensure_pair_noop [OF that] 1(1) True fol unfolding w2_def by simp
    ultimately show thesis using that [of w2] t2 1(3,4) by (simp add: settings_of_def)
  next
    case False
    obtain w3 r where p: "publish (follow_notification v t) w2 = (Inr r, w3)" "notif_frame w2 w3"
      by (rule publish_follow_frame)
    have "followUser v t w = (Inr True, w3)"
      using repo ctx False ne p(1) by (simp add: followUser_def seqS_apply bindS_apply)
    then show thesis using that [of w3] t2 1(3,4) notif_frame_fields [OF p(2)] False by (simp add: settings_of_def)
  qed
qed

lemma unfollowUser_run:
  assumes "v \<noteq> t" "t \<noteq> []" "user_by_id t w = Some u" "settings_of t w \<noteq> None"
  shows "unfollowUser v t w = (Inr False, w\<lparr>t_follows := delete_many
      (\<lambda>f. fo_followed f = t \<and> fo_follower f = v) (t_follows w)\<rparr>)"
proof -
  let ?w = "w\<lparr>t_follows := delete_many (\<lambda>f. fo_followed f = t \<and> fo_follower f = v) (t_follows w)\<rparr>"
  have u: "u_id u = t" by (rule user_by_id_fields [OF assms(3)])
  have e: "ensureUserSettings t ?w = (Inr (), ?w)" by (rule ensure_noop) (use assms(4) in \<open>simp add: settings_of_def\<close>)
  have b: "user_by_id t ?w = Some u" using assms(3) by (simp add: user_by_id_def)
  have "\<not> follows ?w v t" by (simp add: follows_def delete_many_def)
  then have "\<not> following (snd (snd (getUserRelationshipContext v u ?w)))"
    using context_following [of u v ?w] u assms(2) by simp
  then show ?thesis
    using assms(1) e b by (simp add: unfollowUser_def unfollowUserRepo_def seqS_apply bindS_apply)
qed

text \<open>Following another user always answers that the viewer follows, adds exactly one edge unless it is
  there, and is idempotent: a second call changes nothing and notifies nobody.  Unfollowing afterwards
  answers that the viewer does not follow and restores the table as it was without the edge.\<close>

theorem follow_roundtrip:
  assumes "known_pair v t w"
  shows "let (r, w') = followUser v t w; (r', w'') = unfollowUser v t w' in
     r = Inr True
   \<and> t_follows w' = (if follows w v t then t_follows w else t_follows w @ [follow_edge v t w])
   \<and> followUser v t w' = (Inr True, w')
   \<and> r' = Inr False
   \<and> t_follows w'' = filter (\<lambda>f. \<not> (fo_followed f = t \<and> fo_follower f = v)) (t_follows w)"
proof -
  obtain w' where f: "followUser v t w = (Inr True, w')"
    "t_follows w' = (if follows w v t then t_follows w else t_follows w @ [follow_edge v t w])"
    "t_users w' = t_users w" "settings_of v w' \<noteq> None" "settings_of t w' \<noteq> None"
    using followUser_run [OF assms] by metis
  have k: "known_pair v t w'" using assms f(3) by (simp add: known_pair_def user_by_id_def)
  have fol: "follows w' v t" using f(2) by (auto simp: follows_def follow_edge_def)
  obtain w2 where "followUser v t w' = (Inr True, w2)" "w2 = w'"
    using followUser_run [OF k] fol f(4,5) by metis
  then have again: "followUser v t w' = (Inr True, w')" by simp
  have ne: "v \<noteq> t" "t \<noteq> []" "user_by_id t w' \<noteq> None" using k unfolding known_pair_def by - (elim conjE, assumption)+
  obtain u where u: "user_by_id t w' = Some u" using ne(3) unfolding not_None_eq by (elim exE)
  have un: "unfollowUser v t w' = (Inr False, w'\<lparr>t_follows := delete_many
      (\<lambda>f. fo_followed f = t \<and> fo_follower f = v) (t_follows w')\<rparr>)"
    by (rule unfollowUser_run [OF ne(1,2) u f(5)])
  have "delete_many (\<lambda>f. fo_followed f = t \<and> fo_follower f = v) (t_follows w') =
      filter (\<lambda>f. \<not> (fo_followed f = t \<and> fo_follower f = v)) (t_follows w)"
    using f(2) by (simp add: delete_many_def follow_edge_def)
  then show ?thesis using f(1,2) again un by simp
qed

definition sample_pair_db :: db where
  "sample_pair_db = (empty_db 5)\<lparr>t_users := [sample_user ''a'', sample_user ''b'']\<rparr>"

theorem follow_roundtrip_witness:
  "t_follows (snd (followUser ''a'' ''b'' sample_pair_db)) = [\<lparr>fo_follower = ''a'', fo_followed = ''b'', fo_created = 5\<rparr>]
   \<and> t_follows (snd (unfollowUser ''a'' ''b'' (snd (followUser ''a'' ''b'' sample_pair_db)))) = []"
proof -
  have "known_pair ''a'' ''b'' sample_pair_db"
    by (simp add: known_pair_def sample_pair_db_def user_by_id_def sample_user_def)
  from follow_roundtrip [OF this] show ?thesis
    by (simp add: case_prod_unfold Let_def)
       (simp add: sample_pair_db_def follows_def follow_edge_def empty_db_def)
qed

text \<open>An id that belongs to no user never gets the intended 404 from the profile, follow and unfollow
  endpoints: the settings row is created before the user is looked up, so the call fails with the
  database's foreign key error, which the client sees as an internal error.\<close>

theorem unknown_user_is_not_404:
  assumes "user_by_id t w = None" "settings_of t w = None" "t \<noteq> []" "v \<noteq> t"
  shows "fst (followUser v t w) = Inl (PrismaError ''P2003'')
   \<and> fst (unfollowUser v t w) = Inl (PrismaError ''P2003'')
   \<and> fst (getUserProfile v t w) = Inl (PrismaError ''P2003'')
   \<and> fst (getUserTaste v t w) = Inl (PrismaError ''P2003'')"
proof -
  have e: "fst (ensureUserSettingsForUsers [v, t] w) = Inl (PrismaError ''P2003'')"
    unfolding ensure_settings_fails_iff using assms by auto
  then obtain w1 where r: "ensureUserSettingsForUsers [v, t] w = (Inl (PrismaError ''P2003''), w1)"
    by (metis prod.collapse)
  let ?w = "w\<lparr>t_follows := delete_many (\<lambda>f. fo_followed f = t \<and> fo_follower f = v) (t_follows w)\<rparr>"
  have "settings_of t ?w = None" "user_by_id t ?w = None" using assms(1,2) by (simp_all add: settings_of_def user_by_id_def)
  then have "ensureUserSettings t ?w = (Inl (PrismaError ''P2003''), ?w)" by (simp add: ensureUserSettings_def)
  then show ?thesis using assms(4) r
    by (simp add: followUser_def followUserRepo_def unfollowUser_def unfollowUserRepo_def getUserProfile_def
        getUserTaste_def findUserByIdWithContext_def seqS_apply bindS_apply)
qed

theorem unknown_user_is_not_404_witness:
  "fst (followUser ''a'' ''z'' sample_pair_db) = Inl (PrismaError ''P2003'')"
  using unknown_user_is_not_404 [of "''z''" sample_pair_db "''a''"]
  by (simp add: sample_pair_db_def user_by_id_def settings_of_def sample_user_def empty_db_def)

section \<open>Suggestions\<close>

lemma fetch_pool_mem:
  "u \<in> set (fetch_pool notIn cap c w) \<Longrightarrow> u \<in> set (t_users w) \<and> u_id u \<notin> set notIn"
  unfolding fetch_pool_def by (drule in_set_takeD) auto

lemma fetch_pool_distinct:
  assumes "unique_key u_id (t_users w)" shows "distinct (map u_id (fetch_pool notIn cap c w))"
proof -
  let ?xs = "sort_by (\<lambda>a b. u_created b \<le> u_created a)
    (find_many (\<lambda>u. u_id u \<notin> set notIn \<and> (truthy c \<longrightarrow> u_city_id u = c)) (t_users w))"
  have "distinct (map u_id (find_many (\<lambda>u. u_id u \<notin> set notIn \<and> (truthy c \<longrightarrow> u_city_id u = c)) (t_users w)))"
    unfolding find_many_def using assms by (rule distinct_map_filter)
  moreover have "mset (map u_id ?xs) = mset (map u_id (find_many (\<lambda>u. u_id u \<notin> set notIn
      \<and> (truthy c \<longrightarrow> u_city_id u = c)) (t_users w)))" by (simp only: mset_map mset_sort_by)
  ultimately have "distinct (map u_id ?xs)" using mset_eq_imp_distinct_iff by blast
  then show ?thesis unfolding fetch_pool_def by (simp only: take_map [symmetric] distinct_take)
qed

lemma fill_pool_mem: "set (fill_pool cap seen pool rows) \<subseteq> set pool \<union> set rows"
  by (induction cap seen pool rows rule: fill_pool.induct) (auto split: if_splits)

lemma fill_pool_distinct:
  "set seen = u_id ` set pool \<Longrightarrow> distinct (map u_id pool) \<Longrightarrow> distinct (map u_id (fill_pool cap seen pool rows))"
  by (induction cap seen pool rows rule: fill_pool.induct) auto

text \<open>Filling reaches the cap or misses nobody.\<close>

lemma fill_pool_complete:
  assumes "length seen = length pool" "set seen = u_id ` set pool"
  shows "cap \<le> length (fill_pool cap seen pool rows)
    \<or> u_id ` set rows \<subseteq> u_id ` set (fill_pool cap seen pool rows)"
proof -
  have "cap \<le> length (fill_pool cap seen pool rows)
    \<or> u_id ` (set pool \<union> set rows) \<subseteq> u_id ` set (fill_pool cap seen pool rows)"
    using assms
  proof (induction cap seen pool rows rule: fill_pool.induct)
    case (2 cap seen pool row rows)
    consider "cap \<le> length seen" | "\<not> cap \<le> length seen" "u_id row \<in> set seen"
      | "\<not> cap \<le> length seen" "u_id row \<notin> set seen" by blast
    then show ?case
    proof cases
      case 1
      then show ?thesis using 2(3) by simp
    next
      case c: 2
      have "u_id row \<in> u_id ` set pool" using c(2) 2(4) by simp
      then have "u_id ` (set pool \<union> set (row # rows)) = u_id ` (set pool \<union> set rows)" by auto
      then show ?thesis using 2(1) c 2(3,4) by simp
    next
      case c: 3
      have "set pool \<union> set (row # rows) = set (pool @ [row]) \<union> set rows" by auto
      moreover have "set (u_id row # seen) = u_id ` set (pool @ [row])" using 2(4) by simp
      ultimately show ?thesis using 2(2) c 2(3) by simp
    qed
  qed simp
  then show ?thesis by (auto simp: image_Un)
qed

definition suggestable :: "string \<Rightarrow> db \<Rightarrow> user_row list" where
  "suggestable v w = filter (\<lambda>u. u_id u \<noteq> v \<and> \<not> follows w v (u_id u)) (t_users w)"

lemma not_in_ids: "set (dedupe (v # listFollowingIds v w)) = insert v {x. follows w v x}"
  by (auto simp: listFollowingIds_def follows_def)

lemma fetch_pool_unrestricted:
  assumes "\<not> truthy c"
  shows "length (fetch_pool (dedupe (v # listFollowingIds v w)) cap c w) = min (length (suggestable v w)) cap"
proof -
  have p: "(u_id u \<notin> set (dedupe (v # listFollowingIds v w)) \<and> (truthy c \<longrightarrow> u_city_id u = c)) =
      (u_id u \<noteq> v \<and> \<not> follows w v (u_id u))" for u
    unfolding not_in_ids using assms by auto
  show ?thesis
    unfolding fetch_pool_def suggestable_def find_many_def p by (simp only: length_take length_sort_by min.commute)
qed

lemma suggestion_pool_mem:
  "u \<in> set (suggestion_pool v n c w) \<Longrightarrow> u \<in> set (t_users w) \<and> u_id u \<noteq> v \<and> \<not> follows w v (u_id u)"
proof -
  let ?notIn = "dedupe (v # listFollowingIds v w)"
  have ids: "set ?notIn = insert v {x. follows w v x}"
    by (auto simp: listFollowingIds_def follows_def)
  assume "u \<in> set (suggestion_pool v n c w)"
  then have "\<exists>cap c'. u \<in> set (fetch_pool ?notIn cap c' w)"
    unfolding suggestion_pool_def Let_def using fill_pool_mem by (fastforce split: if_splits)
  then show ?thesis using fetch_pool_mem ids by fastforce
qed

lemma suggestion_pool_distinct:
  assumes "unique_key u_id (t_users w)" shows "distinct (map u_id (suggestion_pool v n c w))"
  unfolding suggestion_pool_def Let_def
  by (simp add: fetch_pool_distinct [OF assms] fill_pool_distinct)

lemma suggestion_pool_enough:
  assumes u: "unique_key u_id (t_users w)" and n: "n \<le> 10"
  shows "min n (length (suggestable v w)) \<le> length (suggestion_pool v n c w)"
proof -
  let ?notIn = "dedupe (v # listFollowingIds v w)" and ?cap = "max (n * 20) 60"
  let ?r = "restrict_city c (user_by_id v w) w"
  let ?pool = "fetch_pool ?notIn ?cap ?r w" and ?global = "fetch_pool ?notIn ?cap None w"
  show ?thesis
  proof (cases "length ?pool < n \<and> truthy ?r")
    case True
    let ?f = "fill_pool ?cap (dedupe (map u_id ?pool)) ?pool ?global"
    have d: "dedupe (map u_id ?pool) = map u_id ?pool" using fetch_pool_distinct [OF u] by (rule dedupe_distinct)
    have or: "?cap \<le> length ?f \<or> u_id ` set ?global \<subseteq> u_id ` set ?f"
      by (rule fill_pool_complete) (simp_all add: d)
    have le: "length ?global \<le> length ?f" if "u_id ` set ?global \<subseteq> u_id ` set ?f"
    proof -
      have "card (set (map u_id ?global)) \<le> card (set (map u_id ?f))" using that by (intro card_mono) auto
      moreover have "card (set (map u_id ?global)) = length ?global"
        using distinct_card [OF fetch_pool_distinct [OF u]] by simp
      moreover have "card (set (map u_id ?f)) \<le> length ?f" using card_length [of "map u_id ?f"] by simp
      ultimately show ?thesis by linarith
    qed
    have g: "length ?global = min (length (suggestable v w)) ?cap"
      by (rule fetch_pool_unrestricted) (simp add: truthy_def)
    have "min ?cap (length (suggestable v w)) \<le> length ?f" using or
    proof
      assume "u_id ` set ?global \<subseteq> u_id ` set ?f"
      from le [OF this] g show ?thesis by linarith
    qed linarith
    then have "min n (length (suggestable v w)) \<le> length ?f" by linarith
    then show ?thesis using True unfolding suggestion_pool_def Let_def by (simp only: if_True simp_thms)
  next
    case False
    then have "length (suggestion_pool v n c w) = length ?pool"
      unfolding suggestion_pool_def Let_def by (simp only: if_False)
    moreover have "n \<le> length ?pool \<or> length ?pool = min (length (suggestable v w)) ?cap"
      using False fetch_pool_unrestricted [of ?r v w ?cap] by (cases "truthy ?r") simp_all
    ultimately show ?thesis by linarith
  qed
qed

lemma length_eligible:
  assumes "unique_key u_id (t_users w)" "distinct (map u_id us)"
    and "set us \<subseteq> {u \<in> set (t_users w). u_id u \<noteq> v \<and> \<not> follows w v (u_id u)}"
  shows "length us \<le> length (suggestable v w)"
proof -
  have "set us \<subseteq> set (suggestable v w)" using assms(3) by (simp add: suggestable_def)
  then have "card (set us) \<le> card (set (suggestable v w))" by (intro card_mono) simp_all
  moreover have "card (set us) = length us" using assms(2) distinct_card distinct_map by blast
  moreover have "card (set (suggestable v w)) \<le> length (suggestable v w)" by (rule card_length)
  ultimately show ?thesis by linarith
qed

text \<open>Whatever limit and city a client sends, the suggestions are different existing users, none of them
  the viewer or someone the viewer already follows, and exactly as many as the limit, clipped to
  one to ten, and the number of such users allow.\<close>

theorem suggestions_bounds:
  assumes "unique_key u_id (t_users w)"
  shows "let us = listSuggestedOnboardingUsersRepo sha v requested c w in
     length us = min (nat (min (max requested 1) 10)) (length (suggestable v w))
   \<and> distinct (map u_id us)
   \<and> set us \<subseteq> {u \<in> set (t_users w). u_id u \<noteq> v \<and> \<not> follows w v (u_id u)}"
proof -
  let ?n = "nat (min (max requested 1) 10)"
  let ?s = "shuffleDeterministic sha (suggestion_pool v ?n c w) (v @ '':'' @ iso_date (db_now w))"
  have "mset (map u_id ?s) = mset (map u_id (suggestion_pool v ?n c w))" by (simp only: mset_map mset_shuffle)
  then have "distinct (map u_id ?s)"
    using suggestion_pool_distinct [OF assms] mset_eq_imp_distinct_iff by blast
  then have d: "distinct (map u_id (take ?n ?s))" by (simp only: take_map [symmetric] distinct_take)
  have m: "set (take ?n ?s) \<subseteq> {u \<in> set (t_users w). u_id u \<noteq> v \<and> \<not> follows w v (u_id u)}"
  proof
    fix u assume "u \<in> set (take ?n ?s)"
    then have "u \<in> set (suggestion_pool v ?n c w)" using in_set_takeD set_shuffle by metis
    from suggestion_pool_mem [OF this]
    show "u \<in> {u \<in> set (t_users w). u_id u \<noteq> v \<and> \<not> follows w v (u_id u)}" by simp
  qed
  have "?n \<le> 10" by simp
  from suggestion_pool_enough [OF assms this, of v c]
  have "min ?n (length (suggestable v w)) \<le> length (take ?n ?s)"
    unfolding length_take length_shuffle by linarith
  moreover have "length (take ?n ?s) \<le> length (suggestable v w)" by (rule length_eligible [OF assms d m])
  moreover have "length (take ?n ?s) \<le> ?n" unfolding length_take by linarith
  ultimately have "length (take ?n ?s) = min ?n (length (suggestable v w))" by linarith
  then show ?thesis
    unfolding listSuggestedOnboardingUsersRepo_def Let_def using d m by (intro conjI)
qed

theorem suggestions_bounds_witness:
  "set (listSuggestedOnboardingUsersRepo (\<lambda>_. (0, 0, 0)) ''a'' 6 None sample_pair_db) \<subseteq> {sample_user ''b''}"
proof -
  have "unique_key u_id (t_users sample_pair_db)" by (simp add: sample_pair_db_def sample_user_def)
  from suggestions_bounds [OF this, of "\<lambda>_. (0, 0, 0)" "''a''" 6 None]
  have "set (listSuggestedOnboardingUsersRepo (\<lambda>_. (0, 0, 0)) ''a'' 6 None sample_pair_db)
    \<subseteq> {u \<in> set (t_users sample_pair_db). u_id u \<noteq> ''a'' \<and> \<not> follows sample_pair_db ''a'' (u_id u)}"
    unfolding Let_def by (elim conjE)
  also have "\<dots> \<subseteq> {sample_user ''b''}"
  proof
    fix u assume "u \<in> {u \<in> set (t_users sample_pair_db). u_id u \<noteq> ''a'' \<and> \<not> follows sample_pair_db ''a'' (u_id u)}"
    then have "u = sample_user ''a'' \<or> u = sample_user ''b''" "u_id u \<noteq> ''a''"
      by (simp_all add: sample_pair_db_def)
    then show "u \<in> {sample_user ''b''}" by (elim disjE) (simp_all add: sample_user_def)
  qed
  finally show ?thesis .
qed

end
