(* ===== verification/OutingPreferences.thy ===== *)
theory OutingPreferences
  imports FecaDb
begin

text \<open>
  The outing preferences a user stores as JSON and their weight in the ranking
  (\<open>lib/outing-preferences.ts\<close>).  Objects are association lists with the keys in the order they are set.
\<close>

definition ALLOWED_SLOTS :: "string list" where
  "ALLOWED_SLOTS = [''weekday_morning'', ''weekday_afternoon'', ''weekday_evening'', ''weekend_day'', ''weekend_night'']"

definition ALLOWED_COMPANY :: "string list" where
  "ALLOWED_COMPANY = [''solo'', ''couple'', ''small_group'', ''large_group'']"

definition ALLOWED_PRIORITIES :: "string list" where
  "ALLOWED_PRIORITIES = [''atmosphere'', ''distance'', ''food_drink'', ''price'', ''quiet'', ''service'']"

definition allowed_in :: "string list \<Rightarrow> json \<Rightarrow> bool" where
  "allowed_in allowed v = (case v of JStr s \<Rightarrow> s \<in> set allowed | _ \<Rightarrow> False)"

definition set_key :: "string \<Rightarrow> json list \<Rightarrow> (string \<times> json) list" where
  "set_key key vs = (if vs = [] then [] else [(key, JArr vs)])"

text \<open>An array loses every entry that is not an allowed string and everything past a maximum length; a
  single \<open>typicalCompany\<close> counts when there is no array.\<close>

definition sanitize_list :: "string list \<Rightarrow> nat \<Rightarrow> json option \<Rightarrow> json list" where
  "sanitize_list allowed n v = (case v of Some (JArr vs) \<Rightarrow> take n (filter (allowed_in allowed) vs) | _ \<Rightarrow> [])"

definition sanitize_companies :: "(string \<times> json) list \<Rightarrow> json list" where
  "sanitize_companies input = (case map_of input ''typicalCompanies'' of
       Some (JArr vs) \<Rightarrow> sanitize_list ALLOWED_COMPANY 8 (Some (JArr vs))
     | _ \<Rightarrow> (case map_of input ''typicalCompany'' of
           Some (JStr c) \<Rightarrow> if c \<in> set ALLOWED_COMPANY then [JStr c] else []
         | _ \<Rightarrow> []))"

definition sanitizeOutingPreferences :: "json \<Rightarrow> http_error + json option" where
  "sanitizeOutingPreferences raw = (case raw of
     JNull \<Rightarrow> Inr None
   | JObj input \<Rightarrow> Inr (Some (JObj ((''schemaVersion'', JNum 1)
        # set_key ''typicalOutingSlots'' (sanitize_list ALLOWED_SLOTS 8 (map_of input ''typicalOutingSlots''))
        @ set_key ''typicalCompanies'' (sanitize_companies input)
        @ set_key ''placePriorities'' (sanitize_list ALLOWED_PRIORITIES 12 (map_of input ''placePriorities'')))))
   | _ \<Rightarrow> Inl (InternalError ''outingPreferences must be a JSON object or null''))"

datatype explore_intent =
  IOpenNow | IWork2h | IBrunchLong | ISolo | IFirstDate | ISnackFast | IReading | IGroup4

text \<open>The strings of a key that holds an array; the stored value is trusted to be one when present.\<close>

definition stored_strings :: "json option \<Rightarrow> string set" where
  "stored_strings v = (case v of Some (JArr vs) \<Rightarrow> {s. JStr s \<in> set vs} | _ \<Rightarrow> {})"

definition stored_companies :: "(string \<times> json) list \<Rightarrow> string set" where
  "stored_companies p = (case map_of p ''typicalCompanies'' of
       Some (JArr (v # vs)) \<Rightarrow> stored_strings (Some (JArr (v # vs)))
     | _ \<Rightarrow> (case map_of p ''typicalCompany'' of Some (JStr c) \<Rightarrow> if c \<noteq> [] then {c} else {} | _ \<Rightarrow> {}))"

definition scoreOutingAgainstIntent :: "explore_intent \<Rightarrow> json option \<Rightarrow> int" where
  "scoreOutingAgainstIntent intent prefs = (case prefs of
     Some (JObj p) \<Rightarrow>
       (let slots = stored_strings (map_of p ''typicalOutingSlots'');
            companies = stored_companies p
        in (if intent = ISolo \<and> ''solo'' \<in> companies then 10 else 0)
         + (if intent = IGroup4 \<and> (''small_group'' \<in> companies \<or> ''large_group'' \<in> companies) then 12 else 0)
         + (if intent = IFirstDate \<and> (''couple'' \<in> companies \<or> ''solo'' \<in> companies) then 8 else 0)
         + (if intent = IWork2h \<and> ''weekday_morning'' \<in> slots then 8 else 0)
         + (if (intent = IBrunchLong \<or> intent = IReading) \<and> (''weekend_day'' \<in> slots \<or> ''weekday_morning'' \<in> slots)
            then 6 else 0)
         + (if intent = ISnackFast \<and> ''weekday_afternoon'' \<in> slots then 6 else 0)
         + (if intent = IOpenNow \<and> ''weekend_night'' \<in> slots then 4 else 0))
   | _ \<Rightarrow> 0)"

section \<open>The contract of a stored value\<close>

text \<open>\<open>OutingPreferencesV1\<close>: the version, then nonempty bounded arrays of allowed strings, in this order.\<close>

definition valid_list :: "string list \<Rightarrow> nat \<Rightarrow> json list \<Rightarrow> bool" where
  "valid_list allowed n vs \<longleftrightarrow> length vs \<le> n \<and> list_all (allowed_in allowed) vs"

definition outing_v1 :: "json \<Rightarrow> bool" where
  "outing_v1 j \<longleftrightarrow> (\<exists>slots companies priorities.
     valid_list ALLOWED_SLOTS 8 slots \<and> valid_list ALLOWED_COMPANY 8 companies \<and> valid_list ALLOWED_PRIORITIES 12 priorities
     \<and> j = JObj ((''schemaVersion'', JNum 1) # set_key ''typicalOutingSlots'' slots
              @ set_key ''typicalCompanies'' companies @ set_key ''placePriorities'' priorities))"

lemma valid_sanitize_list: "valid_list allowed n (sanitize_list allowed n v)"
  by (auto simp: valid_list_def sanitize_list_def list_all_iff split: option.splits json.splits dest: in_set_takeD)

lemma valid_sanitize_companies: "valid_list ALLOWED_COMPANY 8 (sanitize_companies input)"
  using valid_sanitize_list [of ALLOWED_COMPANY 8]
  by (auto simp: sanitize_companies_def valid_list_def allowed_in_def split: option.splits json.splits)

lemma sanitize_valid: "valid_list allowed n vs \<Longrightarrow> sanitize_list allowed n (Some (JArr vs)) = vs"
  by (auto simp: valid_list_def sanitize_list_def list_all_iff)

lemma sanitize_set_key:
  "valid_list allowed n vs \<Longrightarrow> sanitize_list allowed n (if vs = [] then None else Some (JArr vs)) = vs"
  by (simp add: sanitize_valid) (simp add: sanitize_list_def)

lemma sanitize_outing_v1:
  assumes "outing_v1 j" shows "sanitizeOutingPreferences j = Inr (Some j)"
proof -
  obtain slots companies priorities where v: "valid_list ALLOWED_SLOTS 8 slots" "valid_list ALLOWED_COMPANY 8 companies"
    "valid_list ALLOWED_PRIORITIES 12 priorities" and j: "j = JObj ((''schemaVersion'', JNum 1)
      # set_key ''typicalOutingSlots'' slots @ set_key ''typicalCompanies'' companies @ set_key ''placePriorities'' priorities)"
    using assms unfolding outing_v1_def by blast
  let ?kvs = "(''schemaVersion'', JNum 1) # set_key ''typicalOutingSlots'' slots
      @ set_key ''typicalCompanies'' companies @ set_key ''placePriorities'' priorities"
  have m: "map_of ?kvs ''typicalOutingSlots'' = (if slots = [] then None else Some (JArr slots))"
    "map_of ?kvs ''typicalCompanies'' = (if companies = [] then None else Some (JArr companies))"
    "map_of ?kvs ''placePriorities'' = (if priorities = [] then None else Some (JArr priorities))"
    "map_of ?kvs ''typicalCompany'' = None"
    by (simp_all add: set_key_def)
  have "sanitize_companies ?kvs = companies"
    unfolding sanitize_companies_def m by (cases companies) (use v(2) sanitize_valid in auto)
  then show ?thesis
    unfolding sanitizeOutingPreferences_def j json.case m
    by (simp only: sanitize_set_key [OF v(1)] sanitize_set_key [OF v(3)])
qed

text \<open>What is stored as outing preferences always has the versioned contract, with bounded arrays of
  allowed words only; sanitising a value that has it changes nothing; and anything but an object or null
  is refused.\<close>

theorem sanitize_outing_contract:
  "case sanitizeOutingPreferences raw of
     Inr (Some j) \<Rightarrow> outing_v1 j \<and> sanitizeOutingPreferences j = Inr (Some j)
   | Inr None \<Rightarrow> raw = JNull
   | Inl e \<Rightarrow> raw \<noteq> JNull \<and> (\<forall>kvs. raw \<noteq> JObj kvs)"
proof (cases raw)
  case (JObj input)
  let ?j = "JObj ((''schemaVersion'', JNum 1)
        # set_key ''typicalOutingSlots'' (sanitize_list ALLOWED_SLOTS 8 (map_of input ''typicalOutingSlots''))
        @ set_key ''typicalCompanies'' (sanitize_companies input)
        @ set_key ''placePriorities'' (sanitize_list ALLOWED_PRIORITIES 12 (map_of input ''placePriorities'')))"
  have e: "sanitizeOutingPreferences raw = Inr (Some ?j)" by (simp add: sanitizeOutingPreferences_def JObj)
  have "outing_v1 ?j"
    unfolding outing_v1_def using valid_sanitize_list valid_sanitize_companies by blast
  with sanitize_outing_v1 show ?thesis unfolding e by simp
qed (simp_all add: sanitizeOutingPreferences_def)

lemma outing_score_bounds: "0 \<le> scoreOutingAgainstIntent intent prefs \<and> scoreOutingAgainstIntent intent prefs \<le> 12"
  by (cases intent) (auto simp: scoreOutingAgainstIntent_def Let_def split: option.splits json.splits)

end
