(* ===== verification/Cities.thy ===== *)
theory Cities
  imports FecaDb
begin

text \<open>
  The canonical cities (\<open>cities.repository.ts\<close>).  The distance in meters between two points is a parameter
  (it is the haversine formula in floating point), and so is the collation of the database.
\<close>

type_synonym distance = "rat \<times> rat \<Rightarrow> rat \<times> rat \<Rightarrow> rat"

definition findCityByGooglePlaceId :: "string \<Rightarrow> db \<Rightarrow> city_row option" where
  "findCityByGooglePlaceId gid w = find_unique (\<lambda>c. ci_google_id c = gid) (t_cities w)"

text \<open>The loop of \<open>findNearestCityByCoordinates\<close>; the nearest city so far with its distance.\<close>

fun nearest_loop ::
  "distance \<Rightarrow> rat \<times> rat \<Rightarrow> rat \<Rightarrow> (city_row \<times> rat) option \<Rightarrow> city_row list \<Rightarrow> (city_row \<times> rat) option" where
  "nearest_loop metres p maxDistance nearest [] = nearest"
| "nearest_loop metres p maxDistance nearest (c # cs) =
     (case (ci_lat c, ci_lng c) of
        (Some lat, Some lng) \<Rightarrow>
          (let d = metres p (lat, lng) in
           if maxDistance < d \<or> (case nearest of None \<Rightarrow> False | Some n \<Rightarrow> snd n \<le> d)
           then nearest_loop metres p maxDistance nearest cs
           else nearest_loop metres p maxDistance (Some (c, d)) cs)
      | _ \<Rightarrow> nearest_loop metres p maxDistance nearest cs)"

definition findNearestCityByCoordinates ::
  "distance \<Rightarrow> rat \<Rightarrow> rat \<Rightarrow> rat \<Rightarrow> db \<Rightarrow> city_row option" where
  "findNearestCityByCoordinates metres lat lng maxDistanceMeters w =
     map_option fst (nearest_loop metres (lat, lng) maxDistanceMeters None
       (find_many (\<lambda>c. ci_lat c \<noteq> None \<and> ci_lng c \<noteq> None) (t_cities w)))"

definition by_text :: "(string \<Rightarrow> string \<Rightarrow> bool) \<Rightarrow> ('a \<Rightarrow> string) \<Rightarrow> ('a \<Rightarrow> string) \<Rightarrow> 'a \<Rightarrow> 'a \<Rightarrow> bool" where
  "by_text collate f g a b =
     (if collate (f a) (f b) \<and> collate (f b) (f a) then collate (g a) (g b) else collate (f a) (f b))"

definition listAllCities :: "(string \<Rightarrow> string \<Rightarrow> bool) \<Rightarrow> nat \<Rightarrow> db \<Rightarrow> city_row list" where
  "listAllCities collate limit w = take limit (sort_by (by_text collate ci_display ci_name) (t_cities w))"

definition searchCities :: "(string \<Rightarrow> string \<Rightarrow> bool) \<Rightarrow> string \<Rightarrow> nat \<Rightarrow> db \<Rightarrow> city_row list" where
  "searchCities collate query limit w =
     (let normalizedQuery = js_trim query in
      if normalizedQuery = [] then []
      else take limit (sort_by (\<lambda>a b. ci_updated b < ci_updated a
             \<or> ci_updated a = ci_updated b \<and> collate (ci_name a) (ci_name b))
           (find_many (\<lambda>c. contains_ci (ci_name c) normalizedQuery \<or> contains_ci (ci_display c) normalizedQuery)
             (t_cities w))))"

record city_input =
  cin_googlePlaceId :: string
  cin_name :: string
  cin_displayName :: string
  cin_lat :: "rat option"
  cin_lng :: "rat option"

definition upsertCity :: "city_input \<Rightarrow> city_row dbm" where
  "upsertCity input =
     bindS now (\<lambda>t.
     bindS (gets (findCityByGooglePlaceId (cin_googlePlaceId input))) (\<lambda>existing. case existing of
        Some c \<Rightarrow>
          let f = (\<lambda>r. r\<lparr>ci_display := cin_displayName input, ci_lat := cin_lat input, ci_lng := cin_lng input,
                         ci_name := cin_name input, ci_updated := t\<rparr>)
          in seqS (modify (\<lambda>w. w\<lparr>t_cities := update_many (\<lambda>r. ci_google_id r = cin_googlePlaceId input) f (t_cities w)\<rparr>))
               (ret (f c))
      | None \<Rightarrow>
          bindS fresh_id (\<lambda>i.
            let row = \<lparr>ci_id = i, ci_google_id = cin_googlePlaceId input, ci_name = cin_name input,
                  ci_display = cin_displayName input, ci_lat = cin_lat input, ci_lng = cin_lng input,
                  ci_created = t, ci_updated = t\<rparr>
            in seqS (modify (\<lambda>w. w\<lparr>t_cities := t_cities w @ [row]\<rparr>)) (ret row))))"

section \<open>Lemmas\<close>

definition city_distance :: "distance \<Rightarrow> rat \<times> rat \<Rightarrow> city_row \<Rightarrow> rat option" where
  "city_distance metres p c = (case (ci_lat c, ci_lng c) of
     (Some lat, Some lng) \<Rightarrow> Some (metres p (lat, lng)) | _ \<Rightarrow> None)"

lemma nearest_loop_step:
  "nearest_loop metres p m nearest (c # cs) = (case city_distance metres p c of
     None \<Rightarrow> nearest_loop metres p m nearest cs
   | Some d \<Rightarrow> if m < d \<or> (case nearest of None \<Rightarrow> False | Some n \<Rightarrow> snd n \<le> d)
               then nearest_loop metres p m nearest cs else nearest_loop metres p m (Some (c, d)) cs)"
  by (simp add: city_distance_def Let_def split: option.splits)

declare nearest_loop.simps(2) [simp del]

text \<open>The loop keeps the smallest distance within reach.\<close>

lemma nearest_loop_min:
  assumes "case nearest of None \<Rightarrow> True | Some n \<Rightarrow> snd n \<le> m"
  shows "case nearest_loop metres p m nearest cs of
     None \<Rightarrow> nearest = None \<and> (\<forall>c\<in>set cs. \<forall>d. city_distance metres p c = Some d \<longrightarrow> m < d)
   | Some (c, d) \<Rightarrow> d \<le> m \<and> (nearest = Some (c, d) \<or> c \<in> set cs \<and> city_distance metres p c = Some d)
       \<and> (\<forall>n. nearest = Some n \<longrightarrow> d \<le> snd n)
       \<and> (\<forall>c'\<in>set cs. \<forall>d'. city_distance metres p c' = Some d' \<longrightarrow> d \<le> d')"
  using assms
proof (induction cs arbitrary: nearest)
  case (Cons c cs)
  show ?case
  proof (cases "city_distance metres p c")
    case None
    then show ?thesis using Cons.IH [OF Cons.prems] by (auto simp: nearest_loop_step split: option.splits)
  next
    case (Some d)
    show ?thesis
    proof (cases "m < d \<or> (case nearest of None \<Rightarrow> False | Some n \<Rightarrow> snd n \<le> d)")
      case True
      then show ?thesis using Cons.IH [OF Cons.prems] Some Cons.prems
        by (fastforce simp: nearest_loop_step split: option.splits)
    next
      case False
      then have step: "nearest_loop metres p m nearest (c # cs) = nearest_loop metres p m (Some (c, d)) cs"
        and le: "d \<le> m" "\<forall>n. nearest = Some n \<longrightarrow> d \<le> snd n"
        using Some by (auto simp: nearest_loop_step split: option.splits)
      have ih: "case nearest_loop metres p m (Some (c, d)) cs of
         None \<Rightarrow> Some (c, d) = None \<and> (\<forall>c\<in>set cs. \<forall>d. city_distance metres p c = Some d \<longrightarrow> m < d)
       | Some (c', d') \<Rightarrow> d' \<le> m \<and> (Some (c, d) = Some (c', d') \<or> c' \<in> set cs \<and> city_distance metres p c' = Some d')
           \<and> (\<forall>n. Some (c, d) = Some n \<longrightarrow> d' \<le> snd n)
           \<and> (\<forall>c'\<in>set cs. \<forall>d''. city_distance metres p c' = Some d'' \<longrightarrow> d' \<le> d'')"
        by (rule Cons.IH) (use le(1) in simp)
      obtain c2 d2 where r: "nearest_loop metres p m (Some (c, d)) cs = Some (c2, d2)"
        using ih by (cases "nearest_loop metres p m (Some (c, d)) cs") auto
      have "d2 \<le> m" "Some (c, d) = Some (c2, d2) \<or> c2 \<in> set cs \<and> city_distance metres p c2 = Some d2" "d2 \<le> d"
        and all: "\<forall>c'\<in>set cs. \<forall>d''. city_distance metres p c' = Some d'' \<longrightarrow> d2 \<le> d''"
        using ih unfolding r by simp_all
      then show ?thesis unfolding step r using Some le(2) by auto
    qed
  qed
qed (auto split: option.splits)

end
