(* ===== verification/AuthSessions.thy ===== *)
theory AuthSessions
  imports SocialGraph OutingPreferences Cities
begin

text \<open>
  Accounts and sessions: Google sign-in, refresh tokens that rotate, the account and its deletion
  (\<open>auth/auth.service.ts\<close>, \<open>auth/auth.repository.ts\<close>, \<open>auth/google-identity.service.ts\<close>).  Outside code is
  a parameter: the verification of an ID token, the signature of the access token, SHA-256 and the
  random numbers; times are milliseconds.
\<close>

section \<open>Google identities\<close>

record google_payload =
  gp_sub :: "string option"
  gp_email :: "string option"
  gp_picture :: "string option"
  gp_name :: "string option"
  gp_email_verified :: "bool option"

record google_profile =
  pf_avatar :: "string option"
  pf_display_name :: string
  pf_email :: string
  pf_verified :: bool
  pf_provider_user :: string

text \<open>\<open>verify\<close> is the Google client: no answer when it throws, then perhaps a payload.\<close>

definition verifyIdToken ::
  "(string \<Rightarrow> string \<Rightarrow> google_payload option option) \<Rightarrow> string option \<Rightarrow> string \<Rightarrow> http_error + google_profile" where
  "verifyIdToken verify audience idToken =
     (if \<not> truthy audience then Inl (Unauthorized ''Google OAuth is not configured'')
      else case verify (the audience) idToken of
        None \<Rightarrow> Inl (Unauthorized ''Invalid Google token'')
      | Some None \<Rightarrow> Inl (Unauthorized ''Google token payload is incomplete'')
      | Some (Some p) \<Rightarrow>
          if \<not> truthy (gp_sub p) \<or> \<not> truthy (gp_email p)
          then Inl (Unauthorized ''Google token payload is incomplete'')
          else Inr \<lparr>pf_avatar = gp_picture p,
                 pf_display_name = default_to (gp_name p) (the (gp_email p)),
                 pf_email = the (gp_email p), pf_verified = default_to (gp_email_verified p) False,
                 pf_provider_user = the (gp_sub p)\<rparr>)"

section \<open>Usernames\<close>

definition is_slug_char :: "char \<Rightarrow> bool" where
  "is_slug_char c \<longleftrightarrow> (let n = code_unit c in (97 \<le> n \<and> n \<le> 122) \<or> (48 \<le> n \<and> n \<le> 57))"

text \<open>\<open>replace(/[^a-z0-9]+/g, "-")\<close>: every run of other characters becomes one dash.\<close>

function dash_runs :: "string \<Rightarrow> string" where
  "dash_runs [] = []"
| "dash_runs (c # s) =
     (if is_slug_char c then c # dash_runs s
      else CHR ''-'' # dash_runs (dropWhile (\<lambda>d. \<not> is_slug_char d) s))"
  by pat_completeness auto
termination
  by (relation "measure length") (auto simp: less_Suc_eq_le length_dropWhile_le)

definition strip_dashes :: "string \<Rightarrow> string" where
  "strip_dashes s = (let dash = (\<lambda>c. c = CHR ''-'') in rev (dropWhile dash (rev (dropWhile dash s))))"

definition sanitizeUsername :: "string \<Rightarrow> string" where
  "sanitizeUsername value =
     (let normalized = strip_dashes (dash_runs (js_lower (js_trim value)))
      in if normalized = [] then ''feca'' else normalized)"

text \<open>\<open>value || fallback\<close> on strings.\<close>

definition or_string :: "string \<Rightarrow> string \<Rightarrow> string" where
  "or_string a b = (if a = [] then b else a)"

definition username_base :: "google_profile \<Rightarrow> string" where
  "username_base profile = sanitizeUsername
     (or_string (takeWhile (\<lambda>c. c \<noteq> CHR ''@'') (pf_email profile)) (or_string (pf_display_name profile) ''feca''))"

text \<open>The candidate of the given index; \<open>rnd\<close> is \<open>randomInt(10, 99)\<close>, drawn for index 1.\<close>

definition username_candidate :: "string \<Rightarrow> nat \<Rightarrow> nat \<Rightarrow> string" where
  "username_candidate base rnd i =
     (if i = 0 then base else if i = 1 then base @ nat_text rnd else base @ nat_text i)"

lemma finite_taken_indices: "finite {j. username_candidate base rnd j \<in> set taken}"
proof (rule finite_subset)
  let ?f = "\<lambda>j. base @ nat_text j"
  have "inj_on ?f UNIV" by (simp add: inj_on_def nat_text_inj)
  then have "finite (?f -` set taken)" by (intro finite_vimageI) simp_all
  then show "finite ({0, 1} \<union> ?f -` set taken)" by simp
  show "{j. username_candidate base rnd j \<in> set taken} \<subseteq> {0, 1} \<union> ?f -` set taken"
    by (auto simp: username_candidate_def split: if_splits)
qed

text \<open>The loop of \<open>generateUniqueUsername\<close> from an index; it ends because only finitely many of the candidates are taken.\<close>

function unique_username :: "string list \<Rightarrow> string \<Rightarrow> nat \<Rightarrow> nat \<Rightarrow> string" where
  "unique_username taken base rnd i =
     (if username_candidate base rnd i \<notin> set taken then username_candidate base rnd i
      else unique_username taken base rnd (Suc i))"
  by pat_completeness auto
termination
proof (relation "measure (\<lambda>(taken, base, rnd, i). card {j. i \<le> j \<and> username_candidate base rnd j \<in> set taken})",
       goal_cases)
  case (2 taken base rnd i)
  let ?S = "\<lambda>i. {j. i \<le> j \<and> username_candidate base rnd j \<in> set taken}"
  have "finite (?S i)" by (rule finite_subset [OF _ finite_taken_indices [of base rnd taken]]) auto
  moreover have "?S (Suc i) \<subset> ?S i"
  proof
    show "?S (Suc i) \<subseteq> ?S i" by auto
    have "i \<in> ?S i" "i \<notin> ?S (Suc i)" using 2 by auto
    then show "?S (Suc i) \<noteq> ?S i" by blast
  qed
  ultimately show ?case by (simp add: psubset_card_mono)
qed simp

declare unique_username.simps [simp del]

definition generateUniqueUsername :: "nat \<Rightarrow> google_profile \<Rightarrow> db \<Rightarrow> string" where
  "generateUniqueUsername rnd profile w =
     unique_username (map u_username (t_users w)) (username_base profile) rnd 0"

section \<open>The repository\<close>

text \<open>\<open>user.update\<close>: P2025 without the row, P2002 when another row has the new e-mail or username.\<close>

definition update_user :: "string \<Rightarrow> (user_row \<Rightarrow> user_row) \<Rightarrow> user_row dbm" where
  "update_user userId f =
     bindS (gets (user_by_id userId)) (\<lambda>u.
     bindS (require (PrismaError ''P2025'') u) (\<lambda>old.
     bindS (gets t_users) (\<lambda>rows.
       if list_ex (\<lambda>r. u_id r \<noteq> userId \<and> (u_email r = u_email (f old) \<or> u_username r = u_username (f old))) rows
       then throw (PrismaError ''P2002'')
       else seqS (modify (\<lambda>w. w\<lparr>t_users := update_many (\<lambda>r. u_id r = userId) f (t_users w)\<rparr>)) (ret (f old)))))"

definition create_user :: "google_profile \<Rightarrow> string \<Rightarrow> user_row dbm" where
  "create_user profile username =
     bindS fresh_id (\<lambda>i. bindS now (\<lambda>t. bindS (gets t_users) (\<lambda>rows.
       let row = \<lparr>u_id = i, u_email = pf_email profile, u_email_verified = pf_verified profile,
             u_username = username, u_display_name = pf_display_name profile, u_avatar = pf_avatar profile,
             u_bio = None, u_city = None, u_city_id = None, u_lat = None, u_lng = None, u_taste_ids = [],
             u_outing = None, u_created = t, u_is_editor = False\<rparr>
       in if list_ex (\<lambda>r. u_email r = pf_email profile \<or> u_username r = username) rows
          then throw (PrismaError ''P2002'')
          else seqS (modify (\<lambda>w. w\<lparr>t_users := rows @ [row]\<rparr>)) (ret row))))"

definition create_identity :: "google_profile \<Rightarrow> string \<Rightarrow> unit dbm" where
  "create_identity profile userId =
     bindS fresh_id (\<lambda>i. bindS (gets t_identities) (\<lambda>rows.
       case create_row ai_provider_user \<lparr>ai_id = i, ai_user = userId, ai_provider_user = pf_provider_user profile,
              ai_email = pf_email profile, ai_email_verified = pf_verified profile\<rparr> rows of
         None \<Rightarrow> throw (PrismaError ''P2002'')
       | Some rows' \<Rightarrow> modify (\<lambda>w. w\<lparr>t_identities := rows'\<rparr>)))"

definition create_settings :: "string \<Rightarrow> unit dbm" where
  "create_settings userId =
     bindS (gets t_settings) (\<lambda>rows. case create_row st_user (default_settings_row userId) rows of
         None \<Rightarrow> throw (PrismaError ''P2002'')
       | Some rows' \<Rightarrow> modify (\<lambda>w. w\<lparr>t_settings := rows'\<rparr>))"

text \<open>Sign-in: by the Google identity, else by the e-mail (which links the account), else a new account.  An
  absent picture leaves the avatar alone.\<close>

definition upsertGoogleUser :: "nat \<Rightarrow> google_profile \<Rightarrow> (bool \<times> user_row) dbm" where
  "upsertGoogleUser rnd profile = tx (
     bindS (gets (\<lambda>w. find_unique (\<lambda>i. ai_provider_user i = pf_provider_user profile) (t_identities w))) (\<lambda>identity.
     case identity of
       Some i \<Rightarrow>
         bindS (update_user (ai_user i) (\<lambda>u. u\<lparr>u_avatar := (if pf_avatar profile = None then u_avatar u else pf_avatar profile),
              u_display_name := pf_display_name profile, u_email := pf_email profile,
              u_email_verified := pf_verified profile\<rparr>)) (\<lambda>user.
         seqS (ensureUserSettings (ai_user i))
         (seqS (modify (\<lambda>w. w\<lparr>t_identities := update_many (\<lambda>r. ai_id r = ai_id i)
              (\<lambda>r. r\<lparr>ai_email := pf_email profile, ai_email_verified := pf_verified profile\<rparr>) (t_identities w)\<rparr>))
           (ret (False, user))))
     | None \<Rightarrow>
         bindS (gets (\<lambda>w. find_unique (\<lambda>u. u_email u = pf_email profile) (t_users w))) (\<lambda>existingUser.
         case existingUser of
           Some e \<Rightarrow>
             seqS (create_identity profile (u_id e))
             (bindS (update_user (u_id e) (\<lambda>u. u\<lparr>u_avatar := (if pf_avatar profile = None then u_avatar u else pf_avatar profile),
                  u_display_name := pf_display_name profile, u_email_verified := pf_verified profile\<rparr>)) (\<lambda>user.
              seqS (ensureUserSettings (u_id e)) (ret (False, user))))
         | None \<Rightarrow>
             bindS (gets (generateUniqueUsername rnd profile)) (\<lambda>username.
             bindS (create_user profile username) (\<lambda>user.
             seqS (create_settings (u_id user))
             (seqS (create_identity profile (u_id user)) (ret (True, user))))))))"

text \<open>The fields of \<open>UpdateUserProfileInput\<close>; a bio or outing preferences of null erase the value.\<close>

record update_me_input =
  um_bio :: "string option option"
  um_city :: "string option"
  um_cityGooglePlaceId :: "string option"
  um_displayName :: "string option"
  um_groupInvitePolicy :: "api_group_invite_policy option"
  um_pushEnabled :: "bool option"
  um_lat :: "rat option"
  um_lng :: "rat option"
  um_username :: "string option"
  um_outing :: "json option"

definition new_value :: "'a option \<Rightarrow> 'a option \<Rightarrow> 'a option" where
  "new_value v old = (if v = None then old else v)"

definition profile_data :: "update_me_input \<Rightarrow> string option \<Rightarrow> json option option \<Rightarrow> user_row \<Rightarrow> user_row" where
  "profile_data input cityId outing u = u\<lparr>
     u_bio := default_to (um_bio input) (u_bio u),
     u_username := default_to (um_username input) (u_username u),
     u_display_name := default_to (um_displayName input) (u_display_name u),
     u_city := new_value (um_city input) (u_city u),
     u_city_id := new_value cityId (u_city_id u),
     u_lat := new_value (um_lat input) (u_lat u),
     u_lng := new_value (um_lng input) (u_lng u),
     u_outing := default_to outing (u_outing u)\<rparr>"

definition updateUserProfile ::
  "string \<Rightarrow> (user_row \<Rightarrow> user_row) \<Rightarrow> social_settings_patch \<Rightarrow> (settings_row \<times> user_row) dbm" where
  "updateUserProfile userId data settingsInput = tx (
     bindS (update_user userId data) (\<lambda>user.
     bindS (upsert_settings userId settingsInput) (\<lambda>settings. ret (settings, user))))"

record session_input =
  si_expires :: int
  si_ip :: "string option"
  si_hash :: string
  si_agent :: "string option"
  si_user :: string

text \<open>\<open>session.create\<close>: the hash is unique, the user must exist.\<close>

definition createSession :: "session_input \<Rightarrow> unit dbm" where
  "createSession input =
     bindS fresh_id (\<lambda>i. bindS (gets (\<lambda>w. (user_by_id (si_user input) w, t_sessions w))) (\<lambda>(user, rows).
       case create_row ss_hash \<lparr>ss_id = i, ss_user = si_user input, ss_hash = si_hash input, ss_agent = si_agent input,
              ss_ip = si_ip input, ss_expires = si_expires input, ss_revoked = None\<rparr> rows of
         None \<Rightarrow> throw (PrismaError ''P2002'')
       | Some rows' \<Rightarrow>
           if user = None then throw (PrismaError ''P2003'')
           else modify (\<lambda>w. w\<lparr>t_sessions := rows'\<rparr>)))"

definition active_session :: "int \<Rightarrow> session_row \<Rightarrow> bool" where
  "active_session t s \<longleftrightarrow> t < ss_expires s \<and> ss_revoked s = None"

text \<open>The guarded \<open>updateMany\<close> of a rotation: the number of rows it revoked and the new table.\<close>

definition revoke_active :: "string \<Rightarrow> int \<Rightarrow> session_row list \<Rightarrow> nat \<times> session_row list" where
  "revoke_active sid t rows =
     (let this = (\<lambda>s. ss_id s = sid \<and> active_session t s)
      in (count_rows this rows, update_many this (\<lambda>s. s\<lparr>ss_revoked := Some t\<rparr>) rows))"

abbreviation rotation_conflict :: http_error where
  "rotation_conflict \<equiv> InternalError ''SessionRotationConflictError''"

definition rotateActiveSession :: "string \<Rightarrow> session_input \<Rightarrow> bool dbm" where
  "rotateActiveSession previousSessionId input =
     catchS
       (seqS (tx (
          bindS now (\<lambda>t.
          bindS (gets (\<lambda>w. revoke_active previousSessionId t (t_sessions w))) (\<lambda>(count, rows).
          seqS (modify (\<lambda>w. w\<lparr>t_sessions := rows\<rparr>))
          (seqS (throw_if (count \<noteq> 1) rotation_conflict)
            (createSession input))))))
        (ret True))
       (\<lambda>e. if e = rotation_conflict then ret False else throw e)"

definition findActiveSessionByRefreshTokenHash :: "string \<Rightarrow> db \<Rightarrow> (session_row \<times> user_row) option" where
  "findActiveSessionByRefreshTokenHash h w =
     (case find_unique (\<lambda>s. active_session (db_now w) s \<and> ss_hash s = h) (t_sessions w) of
        None \<Rightarrow> None
      | Some s \<Rightarrow> map_option (\<lambda>u. (s, u)) (user_by_id (ss_user s) w))"

definition revokeSessionByRefreshTokenHash :: "string \<Rightarrow> unit dbm" where
  "revokeSessionByRefreshTokenHash h =
     bindS now (\<lambda>t. modify (\<lambda>w. w\<lparr>t_sessions := update_many (\<lambda>s. ss_hash s = h \<and> ss_revoked s = None)
       (\<lambda>s. s\<lparr>ss_revoked := Some t\<rparr>) (t_sessions w)\<rparr>))"

section \<open>Deleting an account\<close>

text \<open>\<open>user.delete\<close> with the referential actions of the schema: every row that belongs to the user goes, with
  the rows that belong to those rows; the inviter of a membership and the actor of a notification become
  null.\<close>

definition own_groups :: "string \<Rightarrow> db \<Rightarrow> string set" where
  "own_groups uid w = set (map g_id (filter (\<lambda>g. g_created_by g = uid) (t_groups w)))"

definition dead_event :: "string \<Rightarrow> db \<Rightarrow> event_row \<Rightarrow> bool" where
  "dead_event uid w e \<longleftrightarrow> ev_proposer e = uid \<or> ev_group e \<in> own_groups uid w"

definition dead_events :: "string \<Rightarrow> db \<Rightarrow> string set" where
  "dead_events uid w = set (map ev_id (filter (dead_event uid w) (t_events w)))"

definition dead_diaries :: "string \<Rightarrow> db \<Rightarrow> string set" where
  "dead_diaries uid w = set (map di_id (filter (\<lambda>d. di_created_by d = uid) (t_diaries w)))"

definition dead_notifications :: "string \<Rightarrow> db \<Rightarrow> string set" where
  "dead_notifications uid w = set (map n_id (filter (\<lambda>n. n_user n = uid) (t_notifications w)))"

definition dead_installations :: "string \<Rightarrow> db \<Rightarrow> string set" where
  "dead_installations uid w = set (map pi_id (filter (\<lambda>i. pi_user i = uid) (t_installations w)))"

definition dead_imports :: "string \<Rightarrow> db \<Rightarrow> string set" where
  "dead_imports uid w = set (map im_id (filter (\<lambda>i. im_user i = uid) (t_imports w)))"

definition erase_user :: "string \<Rightarrow> db \<Rightarrow> db" where
  "erase_user uid w = w\<lparr>
     t_users := delete_many (\<lambda>u. u_id u = uid) (t_users w),
     t_identities := delete_many (\<lambda>i. ai_user i = uid) (t_identities w),
     t_sessions := delete_many (\<lambda>s. ss_user s = uid) (t_sessions w),
     t_settings := delete_many (\<lambda>s. st_user s = uid) (t_settings w),
     t_follows := delete_many (\<lambda>f. fo_follower f = uid \<or> fo_followed f = uid) (t_follows w),
     t_visits := delete_many (\<lambda>v. vi_user v = uid) (t_visits w),
     t_saves := delete_many (\<lambda>s. sv_user s = uid) (t_saves w),
     t_groups := delete_many (\<lambda>g. g_created_by g = uid) (t_groups w),
     t_members := update_many (\<lambda>m. gm_inviter m = Some uid) (\<lambda>m. m\<lparr>gm_inviter := None\<rparr>)
        (delete_many (\<lambda>m. gm_user m = uid \<or> gm_group m \<in> own_groups uid w) (t_members w)),
     t_events := delete_many (dead_event uid w) (t_events w),
     t_messages := delete_many (\<lambda>m. ms_author m = uid \<or> ms_group m \<in> own_groups uid w) (t_messages w),
     t_rsvps := delete_many (\<lambda>r. rs_user r = uid \<or> rs_event r \<in> dead_events uid w) (t_rsvps w),
     t_diaries := delete_many (\<lambda>d. di_created_by d = uid) (t_diaries w),
     t_diary_places := delete_many (\<lambda>p. dp_diary p \<in> dead_diaries uid w) (t_diary_places w),
     t_notifications := update_many (\<lambda>n. n_actor n = Some uid) (\<lambda>n. n\<lparr>n_actor := None\<rparr>)
        (delete_many (\<lambda>n. n_user n = uid) (t_notifications w)),
     t_installations := delete_many (\<lambda>i. pi_user i = uid) (t_installations w),
     t_deliveries := delete_many (\<lambda>d. pd_notification d \<in> dead_notifications uid w
        \<or> pd_installation d \<in> dead_installations uid w) (t_deliveries w),
     t_imports := delete_many (\<lambda>i. im_user i = uid) (t_imports w),
     t_import_items := delete_many (\<lambda>i. ii_import i \<in> dead_imports uid w) (t_import_items w),
     t_user_tags := delete_many (\<lambda>t. ut_user t = uid) (t_user_tags w),
     t_place_tags := delete_many (\<lambda>t. pt_user t = uid) (t_place_tags w),
     t_curations := delete_many (\<lambda>c. cu_created_by c = uid) (t_curations w)\<rparr>"

definition deleteUserById :: "string \<Rightarrow> unit dbm" where
  "deleteUserById userId =
     bindS (gets (user_by_id userId)) (\<lambda>u.
     bindS (require (PrismaError ''P2025'') u) (\<lambda>_. modify (erase_user userId)))"

definition deleteMyAccount :: "string \<Rightarrow> unit dbm" where
  "deleteMyAccount userId =
     bindS (gets (user_by_id userId)) (\<lambda>u.
     bindS (require (Unauthorized ''User not found'') u) (\<lambda>_. deleteUserById userId))"

section \<open>The service\<close>

record auth_config =
  cf_audience :: "string option"
  cf_access_minutes :: int
  cf_refresh_days :: int
  cf_admins :: "string list"
  cf_local_only :: bool

definition addMinutes :: "int \<Rightarrow> int \<Rightarrow> int" where "addMinutes t m = t + m * 60 * 1000"
definition addDays :: "int \<Rightarrow> int \<Rightarrow> int" where "addDays t d = t + d * 24 * 60 * 60 * 1000"

definition isFecaAdminEmail :: "auth_config \<Rightarrow> string \<Rightarrow> bool" where
  "isFecaAdminEmail cf email \<longleftrightarrow> js_lower (js_trim email) \<in> set (cf_admins cf)"

definition isFecaAdminUser :: "auth_config \<Rightarrow> user_row \<Rightarrow> bool" where
  "isFecaAdminUser cf user \<longleftrightarrow> u_email user \<noteq> [] \<and> isFecaAdminEmail cf (u_email user)"

record authenticated_user =
  au_avatarUrl :: "string option"
  au_bio :: "string option"
  au_city :: "string option"
  au_cityGooglePlaceId :: "string option"
  au_displayName :: string
  au_email :: string
  au_id :: string
  au_isAdmin :: bool
  au_isEditor :: bool
  au_lat :: "rat option"
  au_lng :: "rat option"
  au_outingPreferences :: json
  au_username :: string

definition city_ref :: "user_row \<Rightarrow> db \<Rightarrow> city_row option" where
  "city_ref user w = (case u_city_id user of None \<Rightarrow> None | Some c \<Rightarrow> find_unique (\<lambda>r. ci_id r = c) (t_cities w))"

definition serializeAuthenticatedUser :: "user_row \<Rightarrow> city_row option \<Rightarrow> bool \<Rightarrow> authenticated_user" where
  "serializeAuthenticatedUser user cityRef isAdmin = \<lparr>au_avatarUrl = u_avatar user, au_bio = u_bio user,
     au_city = u_city user, au_cityGooglePlaceId = map_option ci_google_id cityRef,
     au_displayName = u_display_name user, au_email = u_email user, au_id = u_id user, au_isAdmin = isAdmin,
     au_isEditor = u_is_editor user, au_lat = u_lat user, au_lng = u_lng user,
     au_outingPreferences = default_to (u_outing user) JNull, au_username = u_username user\<rparr>"

record session_payload =
  ap_accessToken :: string
  ap_accessExpires :: int
  ap_refreshToken :: string
  ap_refreshExpires :: int
  ap_user :: authenticated_user
  ap_policy :: api_group_invite_policy
  ap_push :: bool

text \<open>\<open>sign\<close> signs the payload (e-mail and user id), \<open>hash\<close> is SHA-256 in hexadecimal, \<open>fresh\<close> the 48 random bytes in base64url.\<close>

definition issueSession ::
  "auth_config \<Rightarrow> (string \<Rightarrow> string \<Rightarrow> int \<Rightarrow> string) \<Rightarrow> (string \<Rightarrow> string) \<Rightarrow> string \<Rightarrow> user_row \<Rightarrow> string option
     \<Rightarrow> session_payload dbm" where
  "issueSession cf sign hash fresh user previousSessionId =
     bindS now (\<lambda>t.
     bindS (gets (user_by_id (u_id user))) (\<lambda>hydratedUser.
     bindS (getSocialSettingsRepo (u_id user)) (\<lambda>socialSettings.
     bindS (require (Unauthorized ''User not found'') hydratedUser) (\<lambda>h.
     let sessionInput = \<lparr>si_expires = addDays t (cf_refresh_days cf), si_ip = None, si_hash = hash fresh,
           si_agent = None, si_user = u_id user\<rparr>
     in seqS (if truthy previousSessionId
              then bindS (rotateActiveSession (the previousSessionId) sessionInput) (\<lambda>rotated.
                     throw_if (\<not> rotated) (Unauthorized ''Invalid refresh token''))
              else createSession sessionInput)
          (gets (\<lambda>w. \<lparr>ap_accessToken = sign (u_email user) (u_id user) (cf_access_minutes cf),
               ap_accessExpires = addMinutes t (cf_access_minutes cf), ap_refreshToken = fresh,
               ap_refreshExpires = addDays t (cf_refresh_days cf),
               ap_user = serializeAuthenticatedUser h (city_ref h w) (isFecaAdminUser cf h),
               ap_policy = mapGroupInvitePolicyToApi (groupInvitePolicy socialSettings),
               ap_push = pushEnabled socialSettings\<rparr>))))))"

definition authenticateWithGoogle ::
  "auth_config \<Rightarrow> (string \<Rightarrow> string \<Rightarrow> google_payload option option) \<Rightarrow> (string \<Rightarrow> string \<Rightarrow> int \<Rightarrow> string)
     \<Rightarrow> (string \<Rightarrow> string) \<Rightarrow> string \<Rightarrow> nat \<Rightarrow> string \<Rightarrow> (bool \<times> session_payload) dbm" where
  "authenticateWithGoogle cf verify sign hash fresh rnd idToken =
     seqS (throw_if (\<not> truthy (cf_audience cf)) (ServiceUnavailable ''Google OAuth is not configured''))
     (bindS (liftE (verifyIdToken verify (cf_audience cf) idToken)) (\<lambda>profile.
      bindS (upsertGoogleUser rnd profile) (\<lambda>(isNewUser, user).
      bindS (issueSession cf sign hash fresh user None) (\<lambda>session. ret (isNewUser, session)))))"

definition refreshSession ::
  "auth_config \<Rightarrow> (string \<Rightarrow> string \<Rightarrow> int \<Rightarrow> string) \<Rightarrow> (string \<Rightarrow> string) \<Rightarrow> string \<Rightarrow> string \<Rightarrow> session_payload dbm" where
  "refreshSession cf sign hash fresh refreshToken =
     bindS (gets (findActiveSessionByRefreshTokenHash (hash refreshToken))) (\<lambda>existingSession.
     bindS (require (Unauthorized ''Invalid refresh token'') existingSession) (\<lambda>(s, user).
       issueSession cf sign hash fresh user (Some (ss_id s))))"

definition logout :: "(string \<Rightarrow> string) \<Rightarrow> string \<Rightarrow> unit dbm" where
  "logout hash refreshToken = revokeSessionByRefreshTokenHash (hash refreshToken)"

type_synonym me_view = "(authenticated_user \<times> user_stats) \<times> api_group_invite_policy \<times> bool"

definition getMe :: "auth_config \<Rightarrow> string \<Rightarrow> me_view dbm" where
  "getMe cf userId =
     bindS (gets (user_by_id userId)) (\<lambda>user.
     bindS (gets (getProfileStats userId)) (\<lambda>stats.
     bindS (getSocialSettingsRepo userId) (\<lambda>socialSettings.
     bindS (require (Unauthorized ''User not found'') user) (\<lambda>u.
       gets (\<lambda>w. (mergeSerializedUserStats (serializeAuthenticatedUser u (city_ref u w) (isFecaAdminUser cf u)) stats,
                  mapGroupInvitePolicyToApi (groupInvitePolicy socialSettings), pushEnabled socialSettings))))))"

text \<open>\<open>assertLocationInputConsistency\<close>: the error names the first missing property.\<close>

definition assertLocationInputConsistency :: "update_me_input \<Rightarrow> http_error + unit" where
  "assertLocationInputConsistency input =
     (let hasLat = um_lat input \<noteq> None; hasLng = um_lng input \<noteq> None; hasCity = um_city input \<noteq> None;
          hasCityGooglePlaceId = um_cityGooglePlaceId input \<noteq> None;
          locationFieldCount = length (filter (\<lambda>b. b) [hasCity, hasCityGooglePlaceId, hasLat, hasLng])
      in if 0 < locationFieldCount \<and> locationFieldCount < 4
         then Inl (Unprocessable (if \<not> hasCity then ''city''
                else if \<not> hasCityGooglePlaceId then ''cityGooglePlaceId'' else if \<not> hasLat then ''lat'' else ''lng''))
         else Inr ())"

text \<open>\<open>getCity\<close> is the Google client: no answer when it throws.\<close>

definition resolveCityId :: "auth_config \<Rightarrow> (string \<Rightarrow> city_input option) \<Rightarrow> string \<Rightarrow> string dbm" where
  "resolveCityId cf getCity cityGooglePlaceId =
     catchS
       (if cf_local_only cf then
          bindS (gets (findCityByGooglePlaceId cityGooglePlaceId)) (\<lambda>existing.
          bindS (require (InternalError ''City not found in local-only places mode'') existing) (\<lambda>c. ret (ci_id c)))
        else
          bindS (require (InternalError ''google'') (getCity cityGooglePlaceId)) (\<lambda>city.
          bindS (upsertCity city) (\<lambda>c. ret (ci_id c))))
       (\<lambda>_. throw (BadRequest ''Invalid cityGooglePlaceId''))"

abbreviation username_taken :: http_error where
  "username_taken \<equiv> Conflict (''El nombre de usuario ya est'' @ [CHR 0xE1] @ '' en uso'')"

definition sanitized_outing :: "json option \<Rightarrow> http_error + json option option" where
  "sanitized_outing v = (case v of
     None \<Rightarrow> Inr None
   | Some JNull \<Rightarrow> Inr (Some None)
   | Some j \<Rightarrow> (case sanitizeOutingPreferences j of
         Inl _ \<Rightarrow> Inl (BadRequest ''Formato invalido en outingPreferences'')
       | Inr r \<Rightarrow> Inr (Some r)))"

definition updateMe ::
  "auth_config \<Rightarrow> (string \<Rightarrow> city_input option) \<Rightarrow> string \<Rightarrow> update_me_input \<Rightarrow> me_view dbm" where
  "updateMe cf getCity userId input =
     bindS (gets (user_by_id userId)) (\<lambda>user.
     bindS (require (Unauthorized ''User not found'') user) (\<lambda>_.
     bindS (gets (\<lambda>w. find_unique (\<lambda>u. Some (u_username u) = um_username input) (t_users w))) (\<lambda>existing.
     seqS (throw_if (truthy (um_username input) \<and> (case existing of None \<Rightarrow> False | Some e \<Rightarrow> u_id e \<noteq> userId)) username_taken)
     (seqS (liftE (assertLocationInputConsistency input))
     (bindS (case um_cityGooglePlaceId input of
               None \<Rightarrow> ret None
             | Some g \<Rightarrow> bindS (resolveCityId cf getCity g) (\<lambda>c. ret (Some c))) (\<lambda>cityId.
      catchS
        (bindS (liftE (sanitized_outing (um_outing input))) (\<lambda>outingForDb.
         bindS (updateUserProfile userId (profile_data input cityId outingForDb)
                  \<lparr>sp_activity = None, sp_diary = None,
                   sp_invite = map_option mapApiGroupInvitePolicyToPrisma (um_groupInvitePolicy input),
                   sp_push = um_pushEnabled input\<rparr>) (\<lambda>(socialSettings, updatedUser).
         bindS (gets (getProfileStats userId)) (\<lambda>stats.
           gets (\<lambda>w. (mergeSerializedUserStats
                  (serializeAuthenticatedUser updatedUser (city_ref updatedUser w) (isFecaAdminUser cf updatedUser)) stats,
                mapGroupInvitePolicyToApi (st_invite socialSettings), st_push socialSettings))))))
        (\<lambda>e. if e = PrismaError ''P2002'' then throw username_taken else throw e)))))))"

section \<open>Guards\<close>

text \<open>\<open>AccessTokenGuard\<close>, \<open>AdminGuard\<close> and \<open>assertInternalSecret\<close>; \<open>verifyJwt\<close> gives the payload (e-mail and
  user id) of a valid token.\<close>

datatype header = NoHeader | OneHeader string | ManyHeaders "string list"

definition accessTokenGuard :: "(string \<Rightarrow> (string \<times> string) option) \<Rightarrow> header \<Rightarrow> http_error + string \<times> string" where
  "accessTokenGuard verifyJwt header =
     (case header of
        OneHeader h \<Rightarrow>
          if h = [] then Inl (Unauthorized ''Missing Authorization header'')
          else let parts = split_on (CHR '' '') h in
            if parts ! 0 \<noteq> ''Bearer'' \<or> length parts < 2 \<or> parts ! 1 = []
            then Inl (Unauthorized ''Invalid Authorization header'')
            else (case verifyJwt (parts ! 1) of
                    None \<Rightarrow> Inl (Unauthorized ''Invalid access token'')
                  | Some payload \<Rightarrow> Inr payload)
      | _ \<Rightarrow> Inl (Unauthorized ''Missing Authorization header''))"

definition adminGuard :: "auth_config \<Rightarrow> (string \<times> string) option \<Rightarrow> http_error + bool" where
  "adminGuard cf user = (case user of
     None \<Rightarrow> Inl (Forbidden ''Solo administradores de la app.'')
   | Some (email, _) \<Rightarrow> if isFecaAdminEmail cf email then Inr True
       else Inl (Forbidden ''Solo administradores de la app.''))"

definition assertInternalSecret :: "string option \<Rightarrow> string option \<Rightarrow> http_error + unit" where
  "assertInternalSecret configuredSecret providedSecret =
     (let configured = js_trim (default_to configuredSecret []) in
      if configured = [] then Inl (ServiceUnavailable ''Internal operations secret is not configured'')
      else if \<not> truthy providedSecret \<or> the providedSecret \<noteq> configured
      then Inl (Unauthorized ''Invalid internal operations secret'')
      else Inr ())"

section \<open>Free usernames\<close>

lemma unique_username_first:
  "\<exists>j\<ge>i. unique_username taken base rnd i = username_candidate base rnd j
     \<and> username_candidate base rnd j \<notin> set taken
     \<and> (\<forall>k. i \<le> k \<and> k < j \<longrightarrow> username_candidate base rnd k \<in> set taken)"
proof (induction taken base rnd i rule: unique_username.induct)
  case (1 taken base rnd i)
  show ?case
  proof (cases "username_candidate base rnd i \<in> set taken")
    case True
    then obtain j where j: "Suc i \<le> j" "unique_username taken base rnd (Suc i) = username_candidate base rnd j"
      "username_candidate base rnd j \<notin> set taken"
      "\<forall>k. Suc i \<le> k \<and> k < j \<longrightarrow> username_candidate base rnd k \<in> set taken" using 1 by blast
    have "unique_username taken base rnd i = unique_username taken base rnd (Suc i)"
      using True by (subst unique_username.simps) simp
    moreover have "\<forall>k. i \<le> k \<and> k < j \<longrightarrow> username_candidate base rnd k \<in> set taken"
      using True j(4) by (metis Suc_leI le_neq_implies_less)
    ultimately show ?thesis using j by (metis Suc_leD)
  next
    case False
    then have "unique_username taken base rnd i = username_candidate base rnd i"
      by (subst unique_username.simps) simp
    then show ?thesis using False by (metis leD order_refl)
  qed
qed

lemma candidates_bound:
  assumes "\<forall>k<j. username_candidate base rnd k \<in> set taken"
  shows "j \<le> length taken + 1"
proof (cases "j \<le> 1")
  case False
  let ?K = "insert 0 {2..<j}"
  have "inj_on (username_candidate base rnd) ?K"
    by (auto simp: inj_on_def username_candidate_def nat_text_inj)
  moreover have "username_candidate base rnd ` ?K \<subseteq> set taken" using assms False by auto
  ultimately have "card ?K \<le> card (set taken)" by (meson List.finite_set card_inj_on_le)
  moreover have "card ?K = j - 1" using False by simp
  moreover have "card (set taken) \<le> length taken" by (rule card_length)
  ultimately show ?thesis by linarith
qed simp

text \<open>The search for a username ends with one that nobody has, after at most one attempt per account
  beyond the first, whatever random number is drawn.\<close>

theorem generated_username_free:
  "generateUniqueUsername rnd profile w \<notin> u_username ` set (t_users w)
   \<and> (\<exists>i\<le>length (t_users w) + 1. generateUniqueUsername rnd profile w
        = username_candidate (username_base profile) rnd i)"
proof -
  let ?t = "map u_username (t_users w)" and ?b = "username_base profile"
  obtain j where j: "unique_username ?t ?b rnd 0 = username_candidate ?b rnd j"
    "username_candidate ?b rnd j \<notin> set ?t" "\<forall>k. 0 \<le> k \<and> k < j \<longrightarrow> username_candidate ?b rnd k \<in> set ?t"
    using unique_username_first [of 0 ?t ?b rnd] by blast
  have "j \<le> length ?t + 1" by (rule candidates_bound) (use j(3) in simp)
  then show ?thesis using j(1,2) unfolding generateUniqueUsername_def by auto
qed

section \<open>Rotation of refresh tokens\<close>

definition session_at :: "session_input \<Rightarrow> string \<Rightarrow> session_row" where
  "session_at input i = \<lparr>ss_id = i, ss_user = si_user input, ss_hash = si_hash input, ss_agent = si_agent input,
     ss_ip = si_ip input, ss_expires = si_expires input, ss_revoked = None\<rparr>"

lemma hash_revoke [simp]: "map ss_hash (snd (revoke_active sid t rows)) = map ss_hash rows"
  by (simp add: revoke_active_def Let_def map_key_update_many)

lemma createSession_run:
  "createSession input w =
    (let w1 = w\<lparr>db_next := Suc (db_next w)\<rparr> in
     if si_hash input \<in> set (map ss_hash (t_sessions w)) then (Inl (PrismaError ''P2002''), w1)
     else if user_by_id (si_user input) w = None then (Inl (PrismaError ''P2003''), w1)
     else (Inr (), w1\<lparr>t_sessions := t_sessions w @ [session_at input (db_cuid w (db_next w))]\<rparr>))"
  by (simp add: createSession_def bindS_apply fresh_id_apply create_row_def session_at_def user_by_id_def Let_def)

lemma rotate_run:
  "rotateActiveSession sid input w =
    (let (n, rows) = revoke_active sid (db_now w) (t_sessions w) in
     if n \<noteq> 1 then (Inr False, w)
     else if si_hash input \<in> set (map ss_hash (t_sessions w)) then (Inl (PrismaError ''P2002''), w)
     else if user_by_id (si_user input) w = None then (Inl (PrismaError ''P2003''), w)
     else (Inr True, w\<lparr>db_next := Suc (db_next w),
            t_sessions := rows @ [session_at input (db_cuid w (db_next w))]\<rparr>))"
proof -
  obtain n rows where r: "revoke_active sid (db_now w) (t_sessions w) = (n, rows)" by force
  have h: "ss_hash ` set rows = ss_hash ` set (t_sessions w)"
    using hash_revoke [of sid "db_now w" "t_sessions w"] unfolding r by (metis list.set_map snd_conv)
  show ?thesis unfolding r
    by (simp add: rotateActiveSession_def catchS_apply seqS_apply tx_apply bindS_apply now_apply r createSession_run
        throw_if_def Let_def h user_by_id_def)
qed

text \<open>Competing rotations of sessions at one instant, each with its own new session, as claims on the table.\<close>

definition live_session :: "int \<Rightarrow> string \<Rightarrow> session_row list \<Rightarrow> bool" where
  "live_session t sid rows \<longleftrightarrow> list_ex (\<lambda>s. ss_id s = sid \<and> active_session t s) rows"

definition rotate_claim :: "string \<Rightarrow> session_input \<Rightarrow> int \<times> session_row list \<Rightarrow> nat \<times> int \<times> session_row list" where
  "rotate_claim sid input s = (let (n, rows) = revoke_active sid (fst s) (snd s) in (n, fst s, rows))"

lemma live_after_revoke:
  "live_session t j (snd (revoke_active k t rows)) \<longleftrightarrow> j \<noteq> k \<and> live_session t j rows"
  unfolding live_session_def revoke_active_def Let_def snd_conv
  by (induction rows) (auto simp: active_session_def)

lemma revoke_count_pos: "0 < fst (revoke_active k t rows) \<longleftrightarrow> live_session t k rows"
  unfolding live_session_def revoke_active_def Let_def fst_conv count_rows_def
  by (induction rows) auto

interpretation rotations: claim_store rotate_claim "\<lambda>sid s. live_session (fst s) sid (snd s)"
  by unfold_locales
    (simp_all add: rotate_claim_def case_prod_unfold Let_def revoke_count_pos live_after_revoke)

lemma getSocialSettingsRepo_sessions:
  assumes "getSocialSettingsRepo uid w = (Inr ss, w1)"
  shows "t_sessions w1 = t_sessions w" "t_users w1 = t_users w" "db_now w1 = db_now w"
    "db_cuid w1 = db_cuid w" "db_next w1 = db_next w"
proof -
  have "w1 = snd (ensureUserSettings uid w)"
    using assms by (auto simp: getSocialSettingsRepo_def seqS_apply split: prod.splits sum.splits)
  then have e: "settings_extended w w1" using ensureUserSettings_extends by simp
  obtain r where r: "w1 = w\<lparr>t_settings := r\<rparr>" using e unfolding settings_extended_def by (elim conjE exE)
  show "t_sessions w1 = t_sessions w" "t_users w1 = t_users w" "db_now w1 = db_now w"
    "db_cuid w1 = db_cuid w" "db_next w1 = db_next w" unfolding r by simp_all
qed

lemma find_active_Some:
  assumes "findActiveSessionByRefreshTokenHash h w = Some (s, u)"
  shows "s \<in> set (t_sessions w)" "active_session (db_now w) s" "ss_hash s = h" "user_by_id (ss_user s) w = Some u"
proof -
  obtain s' where f: "find_unique (\<lambda>s. active_session (db_now w) s \<and> ss_hash s = h) (t_sessions w) = Some s'"
    "map_option (\<lambda>u. (s', u)) (user_by_id (ss_user s') w) = Some (s, u)"
    using assms unfolding findActiveSessionByRefreshTokenHash_def by (auto split: option.splits)
  then have "s' = s" "user_by_id (ss_user s) w = Some u" by auto
  then show "s \<in> set (t_sessions w)" "active_session (db_now w) s" "ss_hash s = h" "user_by_id (ss_user s) w = Some u"
    using find_unique_Some [OF f(1)] by auto
qed

definition sessions_ok :: "db \<Rightarrow> bool" where
  "sessions_ok w \<longleftrightarrow> unique_key ss_hash (t_sessions w) \<and> unique_key ss_id (t_sessions w) \<and> [] \<notin> ss_id ` set (t_sessions w)"

lemma refreshSession_run:
  assumes "refreshSession cf sign hash fresh tok w = (Inr p, w')" "sessions_ok w"
  obtains s u where "findActiveSessionByRefreshTokenHash (hash tok) w = Some (s, u)"
    "fst (revoke_active (ss_id s) (db_now w) (t_sessions w)) = 1" "hash fresh \<notin> set (map ss_hash (t_sessions w))"
    "t_sessions w' = snd (revoke_active (ss_id s) (db_now w) (t_sessions w))
       @ [session_at \<lparr>si_expires = addDays (db_now w) (cf_refresh_days cf), si_ip = None, si_hash = hash fresh,
            si_agent = None, si_user = u_id u\<rparr> (db_cuid w (db_next w))]"
    "t_users w' = t_users w" "db_now w' = db_now w" "ap_refreshToken p = fresh"
proof -
  obtain s u where f: "findActiveSessionByRefreshTokenHash (hash tok) w = Some (s, u)"
    and i: "issueSession cf sign hash fresh u (Some (ss_id s)) w = (Inr p, w')"
    using assms(1) by (auto simp: refreshSession_def svc_run)
  have "ss_id s \<in> ss_id ` set (t_sessions w)" using find_active_Some(1) [OF f] by (rule imageI)
  then have "ss_id s \<noteq> []" using assms(2) unfolding sessions_ok_def by metis
  then have ne: "truthy (Some (ss_id s))" by (simp add: truthy_def)
  define input where "input = \<lparr>si_expires = addDays (db_now w) (cf_refresh_days cf), si_ip = None, si_hash = hash fresh,
            si_agent = None, si_user = u_id u\<rparr>"
  obtain ss w1 where g: "getSocialSettingsRepo (u_id u) w = (Inr ss, w1)"
    and r: "rotateActiveSession (ss_id s) input w1 = (Inr True, w')" and p: "ap_refreshToken p = fresh"
    using i ne unfolding input_def
    by (auto simp: issueSession_def svc_run Let_def)
  note fields = getSocialSettingsRepo_sessions [OF g]
  obtain n rows where rv: "revoke_active (ss_id s) (db_now w) (t_sessions w) = (n, rows)" by force
  have run: "n = 1" "hash fresh \<notin> set (map ss_hash (t_sessions w))"
    "w' = w1\<lparr>db_next := Suc (db_next w1), t_sessions := rows @ [session_at input (db_cuid w1 (db_next w1))]\<rparr>"
    using r unfolding rotate_run fields rv by (simp_all add: Let_def input_def split: if_splits)
  show thesis
  proof (rule that [OF f])
    show "t_sessions w' = snd (revoke_active (ss_id s) (db_now w) (t_sessions w))
       @ [session_at \<lparr>si_expires = addDays (db_now w) (cf_refresh_days cf), si_ip = None, si_hash = hash fresh,
            si_agent = None, si_user = u_id u\<rparr> (db_cuid w (db_next w))]"
      unfolding run(3) rv by (simp add: input_def fields)
    show "t_users w' = t_users w" "db_now w' = db_now w" unfolding run(3) by (simp_all add: fields)
  qed (use run rv p in simp_all)
qed

lemma active_after_revoke:
  "filter (active_session t) (snd (revoke_active sid t rows)) = filter (\<lambda>s. active_session t s \<and> ss_id s \<noteq> sid) rows"
  unfolding revoke_active_def Let_def snd_conv by (induction rows) (auto simp: active_session_def)

lemma find_active_find:
  "findActiveSessionByRefreshTokenHash h w =
   (case find_unique (\<lambda>s. ss_hash s = h) (filter (active_session (db_now w)) (t_sessions w)) of
      None \<Rightarrow> None | Some s \<Rightarrow> map_option (\<lambda>u. (s, u)) (user_by_id (ss_user s) w))"
proof -
  have "find_unique (\<lambda>s. active_session t s \<and> ss_hash s = h) rows = find_unique (\<lambda>s. ss_hash s = h) (filter (active_session t) rows)"
    for t rows by (induction rows) auto
  then show ?thesis unfolding findActiveSessionByRefreshTokenHash_def by simp
qed

lemma find_without_session:
  assumes "\<And>x. x \<in> set rows \<Longrightarrow> ss_id x = sid \<Longrightarrow> ss_hash x \<noteq> h"
  shows "find_unique (\<lambda>x. ss_hash x = h) (filter (\<lambda>x. active_session t x \<and> ss_id x \<noteq> sid) rows)
       = find_unique (\<lambda>x. ss_hash x = h) (filter (active_session t) rows)"
  using assms by (induction rows) auto

text \<open>What the lookup answers once the session \<open>s\<close> is revoked and \<open>new\<close> stored: the old hash is gone, the new one leads
  to the same user, every other hash to what it led to before.\<close>

lemma rotation_lookup:
  assumes f: "findActiveSessionByRefreshTokenHash k w = Some (s, u)" and ok: "sessions_ok w"
    and fresh: "ss_hash new \<notin> set (map ss_hash (t_sessions w))"
    and new: "active_session (db_now w) new" "ss_user new = ss_user s"
    and sess: "t_sessions w' = snd (revoke_active (ss_id s) (db_now w) (t_sessions w)) @ [new]"
    and rest: "t_users w' = t_users w" "db_now w' = db_now w"
  shows "findActiveSessionByRefreshTokenHash h w' =
    (if h = k then None else if h = ss_hash new then Some (new, u) else findActiveSessionByRefreshTokenHash h w)"
proof -
  note s = find_active_Some [OF f]
  let ?t = "db_now w"
  let ?others = "filter (\<lambda>x. active_session ?t x \<and> ss_id x \<noteq> ss_id s) (t_sessions w)"
  have act: "filter (active_session ?t) (t_sessions w') = ?others @ [new]"
    unfolding sess filter_append active_after_revoke using new(1) by simp
  have ids: "x = s" if "x \<in> set (t_sessions w)" "ss_id x = ss_id s" for x
    using that s(1) ok distinct_map_filter_unique unfolding sessions_ok_def by metis
  have hashes: "x = s" if "x \<in> set (t_sessions w)" "ss_hash x = k" for x
    using that s(1,3) ok distinct_map_filter_unique unfolding sessions_ok_def by metis
  have users: "user_by_id i w' = user_by_id i w" for i by (simp add: user_by_id_def rest)
  have "k \<in> set (map ss_hash (t_sessions w))" unfolding set_map s(3) [symmetric] by (rule imageI [OF s(1)])
  then have ne: "ss_hash new \<noteq> k" using fresh by metis
  consider (old) "h = k" | (fresh) "h \<noteq> k" "h = ss_hash new" | (other) "h \<noteq> k" "h \<noteq> ss_hash new" by blast
  then show ?thesis
  proof cases
    case old
    have "ss_hash x \<noteq> k" if "x \<in> set ?others" for x
      using that hashes [of x] by (simp only: set_filter mem_Collect_eq) blast
    then have "find_unique (\<lambda>x. ss_hash x = k) (?others @ [new]) = None"
      unfolding find_unique_None using ne by (simp only: set_append list.set ball_Un) simp
    then show ?thesis unfolding find_active_find rest(2) act by (simp add: old)
  next
    case fresh
    have "ss_hash x \<noteq> ss_hash new" if "x \<in> set ?others" for x
      using that assms(3) by (simp only: set_filter mem_Collect_eq set_map) (metis imageI)
    then have "find_unique (\<lambda>x. ss_hash x = ss_hash new) ?others = None" unfolding find_unique_None by blast
    then show ?thesis
      unfolding find_active_find rest(2) act users fresh(2) using ne by (simp add: find_unique_append s(4) new(2))
  next
    case other
    have "ss_hash x \<noteq> h" if "x \<in> set (t_sessions w)" "ss_id x = ss_id s" for x
      using ids [OF that] s(3) other by auto
    then have "find_unique (\<lambda>x. ss_hash x = h) ?others
        = find_unique (\<lambda>x. ss_hash x = h) (filter (active_session ?t) (t_sessions w))"
      by (rule find_without_session)
    then show ?thesis
      unfolding find_active_find rest(2) act users using other by (simp add: find_unique_append split: option.splits)
  qed
qed

lemma rotation_count:
  assumes "fst (revoke_active sid t rows) = 1" "active_session t new"
  shows "count_rows (active_session t) (snd (revoke_active sid t rows) @ [new]) = count_rows (active_session t) rows"
proof -
  have "length (filter (active_session t) rows) = length (filter (\<lambda>x. active_session t x \<and> ss_id x \<noteq> sid) rows)
      + fst (revoke_active sid t rows)"
    by (induction rows) (auto simp: revoke_active_def count_rows_def Let_def)
  then show ?thesis unfolding count_rows_def filter_append active_after_revoke using assms by simp
qed

text \<open>C8: a refresh token works once.  After a refresh the old token is refused, the new one belongs to an
  active session of the same user, no other user's or device's session changes its standing, and the
  number of active sessions is what it was.\<close>

theorem refresh_rotates_once:
  assumes ok: "sessions_ok w" and days: "0 < cf_refresh_days cf"
    and run: "refreshSession cf sign hash fresh tok w = (Inr p, w')"
  shows "ap_refreshToken p = fresh
   \<and> fst (refreshSession cf sign hash fresh' tok w') = Inl (Unauthorized ''Invalid refresh token'')
   \<and> map_option (u_id \<circ> snd) (findActiveSessionByRefreshTokenHash (hash fresh) w')
     = map_option (u_id \<circ> snd) (findActiveSessionByRefreshTokenHash (hash tok) w)
   \<and> findActiveSessionByRefreshTokenHash (hash fresh) w' \<noteq> None
   \<and> (\<forall>h. h \<notin> {hash tok, hash fresh} \<longrightarrow>
        findActiveSessionByRefreshTokenHash h w' = findActiveSessionByRefreshTokenHash h w)
   \<and> count_rows (active_session (db_now w)) (t_sessions w') = count_rows (active_session (db_now w)) (t_sessions w)"
proof -
  obtain s u where f: "findActiveSessionByRefreshTokenHash (hash tok) w = Some (s, u)"
    and one: "fst (revoke_active (ss_id s) (db_now w) (t_sessions w)) = 1"
    and fresh: "hash fresh \<notin> set (map ss_hash (t_sessions w))"
    and sess: "t_sessions w' = snd (revoke_active (ss_id s) (db_now w) (t_sessions w))
       @ [session_at \<lparr>si_expires = addDays (db_now w) (cf_refresh_days cf), si_ip = None, si_hash = hash fresh,
            si_agent = None, si_user = u_id u\<rparr> (db_cuid w (db_next w))]" (is "_ = _ @ [?new]")
    and rest: "t_users w' = t_users w" "db_now w' = db_now w" "ap_refreshToken p = fresh"
    by (rule refreshSession_run [OF run ok])
  note s = find_active_Some [OF f]
  have uid: "u_id u = ss_user s" using user_by_id_fields [OF s(4)] .
  have new: "active_session (db_now w) ?new" "ss_hash ?new = hash fresh" "ss_user ?new = ss_user s"
    using days uid by (simp_all add: session_at_def active_session_def addDays_def)
  have look: "findActiveSessionByRefreshTokenHash h w' = (if h = hash tok then None
      else if h = hash fresh then Some (?new, u) else findActiveSessionByRefreshTokenHash h w)" for h
    using rotation_lookup [OF f ok _ new(1,3) sess rest(1,2), of h] fresh unfolding new(2) by blast
  have "ss_hash s \<in> set (map ss_hash (t_sessions w))" unfolding set_map by (rule imageI [OF s(1)])
  then have ne: "hash fresh \<noteq> hash tok" using fresh s(3) by metis
  have "count_rows (active_session (db_now w)) (t_sessions w') = count_rows (active_session (db_now w)) (t_sessions w)"
    unfolding sess by (rule rotation_count [OF one new(1)])
  then show ?thesis using rest(3) look ne f by (simp add: refreshSession_def bindS_apply)
qed

definition sample_config :: auth_config where
  "sample_config = \<lparr>cf_audience = Some ''aud'', cf_access_minutes = 15, cf_refresh_days = 30, cf_admins = [],
     cf_local_only = True\<rparr>"

definition sample_session_db :: db where
  "sample_session_db = (empty_db 5)\<lparr>t_users := [sample_user ''a''],
     t_sessions := [\<lparr>ss_id = ''s'', ss_user = ''a'', ss_hash = ''#old'', ss_agent = None, ss_ip = None,
        ss_expires = 10, ss_revoked = None\<rparr>]\<rparr>"

theorem refresh_rotates_once_witness:
  "\<exists>p w'. refreshSession sample_config (\<lambda>_ _ _. ''jwt'') (Cons (CHR ''#'')) ''new'' ''old'' sample_session_db = (Inr p, w')
     \<and> fst (refreshSession sample_config (\<lambda>_ _ _. ''jwt'') (Cons (CHR ''#'')) ''x'' ''old'' w') =
         Inl (Unauthorized ''Invalid refresh token'')"
proof -
  have ok: "sessions_ok sample_session_db" by (simp add: sessions_ok_def sample_session_db_def)
  have d: "0 < cf_refresh_days sample_config" by (simp add: sample_config_def)
  obtain p w' where r: "refreshSession sample_config (\<lambda>_ _ _. ''jwt'') (Cons (CHR ''#'')) ''new'' ''old'' sample_session_db = (Inr p, w')"
    by (simp add: refreshSession_def bindS_apply findActiveSessionByRefreshTokenHash_def sample_session_db_def
        active_session_def user_by_id_def sample_user_def issueSession_def now_apply getSocialSettingsRepo_def seqS_apply
        ensureUserSettings_def settings_of_def empty_db_def truthy_def rotate_run revoke_active_def count_rows_def Let_def)
  from refresh_rotates_once [OF ok d r, of "''x''"] r show ?thesis by blast
qed

end
