(* ===== verification/HttpEdge.thy ===== *)
theory HttpEdge
  imports AuthSessions
begin

text \<open>
  The edge of the HTTP server, \<open>src/common/\<close> and \<open>src/health/\<close>: the path that may be logged, the request context,
  the structured log, the filter that turns every exception into a response, the metrics of finished requests, the
  timeout of outgoing requests, the health probes and the origins CORS admits.

  A JavaScript object is the list of its properties in insertion order; a property whose value is \<open>undefined\<close> is
  \<open>None\<close>, which \<open>JSON.stringify\<close> leaves out.  The clock, \<open>toISOString\<close> and \<open>randomUUID\<close> are arguments.
\<close>

section \<open>Objects\<close>

text \<open>\<open>{...a, ...b}\<close>: a property that is there already keeps its place.\<close>

definition spread :: "('k \<times> 'v) list \<Rightarrow> ('k \<times> 'v) list \<Rightarrow> ('k \<times> 'v) list" where
  "spread a b = foldl (\<lambda>m (k, v). put_entry k v m) a b"

definition stringified :: "(string \<times> json option) list \<Rightarrow> (string \<times> json) list" where
  "stringified ps = List.map_filter (\<lambda>(k, v). map_option (Pair k) v) ps"

lemma map_of_spread: "map_of (spread a b) = map_of a ++ map_of (rev b)"
proof (induction b arbitrary: a)
  case (Cons x b)
  then show ?case by (cases x) (simp add: spread_def map_of_put_entry map_add_def fun_eq_iff split: option.splits)
qed (simp add: spread_def)

lemma distinct_spread: "distinct (map fst a) \<Longrightarrow> distinct (map fst (spread a b))"
  by (induction b arbitrary: a) (auto simp: spread_def distinct_put_entry)

lemma map_of_stringified:
  "distinct (map fst fs) \<Longrightarrow> map_of (stringified fs) k = (case map_of fs k of None \<Rightarrow> None | Some v \<Rightarrow> v)"
proof (induction fs)
  case (Cons x fs)
  have "(k, v) \<notin> set (stringified fs)" if "k \<notin> fst ` set fs" for v
    using that by (force simp: stringified_def map_filter_def)
  then have "map_of (stringified fs) k = None" if "k \<notin> fst ` set fs"
    using that by (metis map_of_SomeD not_Some_eq)
  then show ?case using Cons by (cases x; cases "snd x") (auto simp: stringified_def map_filter_def)
qed (simp add: stringified_def map_filter_def)

section \<open>Requests\<close>

record request =
  rq_method :: string
  rq_path :: "string option"
  rq_url :: string
  rq_baseUrl :: "string option"
  rq_route :: "string option"

definition index_of :: "char \<Rightarrow> string \<Rightarrow> nat option" where
  "index_of c s = (let n = length (takeWhile (\<lambda>d. d \<noteq> c) s) in if n < length s then Some n else None)"

definition stripQueryAndFragment :: "string \<Rightarrow> string" where
  "stripQueryAndFragment s =
     (let indices = List.map_filter id [index_of CHR ''?'' s, index_of CHR ''#'' s];
          stop = foldl min (length s) indices
      in or_string (take stop s) ''/'')"

definition getSafeRequestPath :: "request \<Rightarrow> string" where
  "getSafeRequestPath rq = (case rq_path rq of
      Some p \<Rightarrow> if p \<noteq> [] then p else stripQueryAndFragment (rq_url rq)
    | None \<Rightarrow> stripQueryAndFragment (rq_url rq))"

lemma take_index_of: "take (case index_of c s of None \<Rightarrow> length s | Some n \<Rightarrow> n) s = takeWhile (\<lambda>d. d \<noteq> c) s"
proof -
  have "take (length (takeWhile (\<lambda>d. d \<noteq> c) s)) s = takeWhile (\<lambda>d. d \<noteq> c) s"
    by (metis append_eq_conv_conj takeWhile_dropWhile_id)
  then show ?thesis by (auto simp: index_of_def Let_def not_less)
qed

lemma stripQueryAndFragment_prefix:
  "stripQueryAndFragment s = or_string (takeWhile (\<lambda>d. d \<noteq> CHR ''?'' \<and> d \<noteq> CHR ''#'') s) ''/''"
proof -
  let ?i = "\<lambda>c. case index_of c s of None \<Rightarrow> length s | Some n \<Rightarrow> n"
  have le: "?i c \<le> length s" for c by (auto simp: index_of_def Let_def split: option.splits if_splits)
  have "foldl min (length s) (List.map_filter id [index_of CHR ''?'' s, index_of CHR ''#'' s]) = min (?i CHR ''?'') (?i CHR ''#'')"
    using le [of "CHR ''?''"] le [of "CHR ''#''"]
    by (cases "index_of CHR ''?'' s"; cases "index_of CHR ''#'' s") (simp_all add: List.map_filter_simps)
  moreover have "take (min (?i CHR ''?'') (?i CHR ''#'')) s = takeWhile (\<lambda>d. d \<noteq> CHR ''?'' \<and> d \<noteq> CHR ''#'') s"
  proof -
    have "take (min (?i CHR ''?'') (?i CHR ''#'')) s = take (?i CHR ''#'') (takeWhile (\<lambda>d. d \<noteq> CHR ''?'') s)"
      by (simp only: take_index_of [symmetric] take_take min.commute)
    also have "\<dots> = takeWhile (\<lambda>d. d \<noteq> CHR ''?'' \<and> d \<noteq> CHR ''#'') s"
    proof -
      have "take (length (takeWhile Q xs)) (takeWhile P xs) = takeWhile (\<lambda>d. P d \<and> Q d) xs" for P Q and xs :: string
        by (induction xs) auto
      moreover have "take (?i CHR ''#'') t = take (length (takeWhile (\<lambda>d. d \<noteq> CHR ''#'') s)) t" if "length t \<le> length s" for t :: string
        using that by (auto simp: index_of_def Let_def not_less split: if_splits)
      ultimately show ?thesis by (simp add: length_takeWhile_le)
    qed
    finally show ?thesis .
  qed
  ultimately show ?thesis by (simp add: stripQueryAndFragment_def Let_def)
qed

section \<open>Request context and structured log\<close>

record request_context =
  rc_requestId :: string
  rc_method :: string
  rc_path :: string
  rc_startedAt :: int

definition request_id_char :: "char \<Rightarrow> bool" where
  "request_id_char c \<longleftrightarrow> (let n = code_unit c in
     (65 \<le> n \<and> n \<le> 90) \<or> (97 \<le> n \<and> n \<le> 122) \<or> (48 \<le> n \<and> n \<le> 57) \<or> c \<in> set ''._:-'')"

text \<open>The middleware: the identifier of the response header and the context the handlers run in.\<close>

definition request_context_use :: "int \<Rightarrow> string \<Rightarrow> string option \<Rightarrow> request \<Rightarrow> string \<times> request_context" where
  "request_context_use startedAt uuid incoming rq =
     (let normalizedRequestId = js_trim (default_to incoming []);
          requestId = (if normalizedRequestId \<noteq> [] \<and> length normalizedRequestId \<le> 128
                          \<and> list_all request_id_char normalizedRequestId
                       then normalizedRequestId else uuid)
      in (requestId, \<lparr>rc_requestId = requestId, rc_method = rq_method rq, rc_path = getSafeRequestPath rq, rc_startedAt = startedAt\<rparr>))"

datatype log_level = LogDebug | LogInfo | LogWarn | LogError

record log_line =
  ln_level :: log_level
  ln_payload :: "(string \<times> json) list"

primrec level_text :: "log_level \<Rightarrow> string" where
  "level_text LogDebug = ''debug''"
| "level_text LogInfo = ''info''"
| "level_text LogWarn = ''warn''"
| "level_text LogError = ''error''"

record edge_env =
  ev_now :: int
  ev_iso :: "int \<Rightarrow> string"
  ev_uuid :: string
  ev_production :: bool

definition writeStructuredLog ::
    "edge_env \<Rightarrow> request_context option \<Rightarrow> log_level \<Rightarrow> string \<Rightarrow> (string \<times> json option) list \<Rightarrow> log_line" where
  "writeStructuredLog env ctx lvl msg details =
     (let head = [(''level'', Some (JStr (level_text lvl))), (''time'', Some (JStr (ev_iso env (ev_now env)))),
                  (''service'', Some (JStr ''feca-backend'')), (''msg'', Some (JStr msg))];
          context = (case ctx of None \<Rightarrow> [] | Some c \<Rightarrow>
                  [(''requestId'', Some (JStr (rc_requestId c))), (''method'', Some (JStr (rc_method c))),
                   (''path'', Some (JStr (rc_path c)))])
      in \<lparr>ln_level = lvl, ln_payload = stringified (spread (spread head context) details)\<rparr>)"

text \<open>\<open>StructuredLogger\<close> gives Nest's own messages the same shape; \<open>to_json\<close> is \<open>JSON.stringify\<close> with its fallback
  \<open>String\<close>.\<close>

definition formatNestMessage :: "(json \<Rightarrow> string) \<Rightarrow> json \<Rightarrow> string" where
  "formatNestMessage to_json m = (case m of JStr s \<Rightarrow> s | _ \<Rightarrow> to_json m)"

datatype nest_log = NestLog | NestError "string option" | NestWarn | NestDebug | NestVerbose

definition structured_logger ::
    "(json \<Rightarrow> string) \<Rightarrow> edge_env \<Rightarrow> request_context option \<Rightarrow> nest_log \<Rightarrow> json \<Rightarrow> string option \<Rightarrow> log_line" where
  "structured_logger to_json env ctx kind m context =
     writeStructuredLog env ctx
       (case kind of NestLog \<Rightarrow> LogInfo | NestError _ \<Rightarrow> LogError | NestWarn \<Rightarrow> LogWarn | NestDebug \<Rightarrow> LogDebug | NestVerbose \<Rightarrow> LogDebug)
       (formatNestMessage to_json m)
       ((''context'', map_option JStr context) #
        (case kind of NestError (Some trace) \<Rightarrow> if trace = [] then [] else [(''trace'', Some (JStr trace))] | _ \<Rightarrow> []))"

section \<open>Messages without the request target\<close>

text \<open>\<open>s.replaceAll(pattern, replacement)\<close> with strings: the replacement may refer to the match (\<open>$&\<close>) and to what stands
  before and after it.\<close>

fun expand_replacement :: "string \<Rightarrow> string \<Rightarrow> string \<Rightarrow> string \<Rightarrow> string" where
  "expand_replacement m before after [] = []"
| "expand_replacement m before after [c] = [c]"
| "expand_replacement m before after (c # d # r) =
     (if c \<noteq> CHR ''$'' then c # expand_replacement m before after (d # r)
      else if d = CHR ''$'' then CHR ''$'' # expand_replacement m before after r
      else if d = CHR ''&'' then m @ expand_replacement m before after r
      else if d = CHR 0x60 then before @ expand_replacement m before after r
      else if d = CHR 0x27 then after @ expand_replacement m before after r
      else c # expand_replacement m before after (d # r))"

function replace_from :: "string \<Rightarrow> string \<Rightarrow> string \<Rightarrow> string \<Rightarrow> string" where
  "replace_from pat rep before [] = []"
| "replace_from pat rep before (c # s) =
     (if pat \<noteq> [] \<and> starts_with (c # s) pat
      then expand_replacement pat before (drop (length pat) (c # s)) rep
             @ replace_from pat rep (before @ pat) (drop (length pat) (c # s))
      else c # replace_from pat rep (before @ [c]) s)"
  by pat_completeness auto
termination by (relation "measure (\<lambda>(pat, rep, before, s). length s)") auto

definition replaceAll :: "string \<Rightarrow> string \<Rightarrow> string \<Rightarrow> string" where
  "replaceAll s pat rep = replace_from pat rep [] s"

record message_target =
  mt_method :: string
  mt_path :: string
  mt_requestUrl :: string
  mt_status :: int

fun sanitizeHttpMessage :: "message_target \<Rightarrow> json \<Rightarrow> json" where
  "sanitizeHttpMessage rq (JArr ms) = JArr (map (sanitizeHttpMessage rq) ms)"
| "sanitizeHttpMessage rq (JStr s) =
     (if mt_status rq = 404 \<and> starts_with s (''Cannot '' @ mt_method rq @ '' '')
      then JStr (''Cannot '' @ mt_method rq @ '' '' @ mt_path rq)
      else if mt_requestUrl rq \<noteq> [] \<and> mt_requestUrl rq \<noteq> mt_path rq
      then JStr (replaceAll s (mt_requestUrl rq) (mt_path rq))
      else JStr s)"
| "sanitizeHttpMessage rq m = m"

section \<open>The exception filter\<close>

datatype thrown_body = BodyText string | BodyObject "(string \<times> json) list"

record error_info =
  er_name :: string
  er_message :: string
  er_stack :: string

datatype thrown =
    HttpException int thrown_body error_info
  | OtherError error_info
  | ThrownValue string

record http_reply =
  rp_status :: int
  rp_requestId :: string
  rp_body :: "(string \<times> json) list"

definition unavailable_text :: string where
  "unavailable_text = ''El servicio no est'' @ [CHR 0xE1] @ '' disponible en este momento. Int'' @ [CHR 0xE9]
     @ ''ntalo de nuevo m'' @ [CHR 0xE1] @ ''s tarde.''"

definition envelope :: "edge_env \<Rightarrow> string \<Rightarrow> string \<Rightarrow> int \<Rightarrow> json \<Rightarrow> (string \<times> json) list" where
  "envelope env requestId path status message =
     [(''message'', message), (''statusCode'', JNum (of_int status)), (''path'', JStr path),
      (''timestamp'', JStr (ev_iso env (ev_now env))), (''requestId'', JStr requestId)]"

definition log_http_error :: "edge_env \<Rightarrow> request_context option \<Rightarrow> thrown \<Rightarrow> string \<Rightarrow> string \<Rightarrow> int \<Rightarrow> log_line" where
  "log_http_error env ctx ex requestId path status =
     (let info = (case ex of HttpException _ _ i \<Rightarrow> Some i | OtherError i \<Rightarrow> Some i | ThrownValue _ \<Rightarrow> None);
          about = (case info of
              Some i \<Rightarrow> [(''errorName'', Some (JStr (er_name i))), (''errorMessage'', Some (JStr (er_message i)))]
                 @ (if ev_production env then [] else [(''stack'', Some (JStr (er_stack i)))])
            | None \<Rightarrow> [(''errorMessage'', Some (JStr (case ex of ThrownValue s \<Rightarrow> s | _ \<Rightarrow> [])))])
      in writeStructuredLog env ctx LogError ''http_request_failed''
           ([(''requestId'', Some (JStr requestId)), (''path'', Some (JStr path)), (''statusCode'', Some (JNum (of_int status))),
             (''durationMs'', map_option (\<lambda>c. JNum (of_int (ev_now env - rc_startedAt c))) ctx)] @ about))"

definition filter_catch :: "edge_env \<Rightarrow> request_context option \<Rightarrow> request \<Rightarrow> thrown \<Rightarrow> http_reply \<times> log_line list" where
  "filter_catch env ctx rq ex =
     (let path = getSafeRequestPath rq;
          requestId = (case ctx of Some c \<Rightarrow> rc_requestId c | None \<Rightarrow> ev_uuid env)
      in case ex of
        HttpException status body info \<Rightarrow>
          (let normalized = (case body of BodyObject ps \<Rightarrow> ps | BodyText s \<Rightarrow> [(''message'', JStr s)]);
               rawMessage = (case map_of normalized ''message'' of Some m \<Rightarrow> m | None \<Rightarrow> JStr ''Request failed'');
               message = sanitizeHttpMessage \<lparr>mt_method = rq_method rq, mt_path = path, mt_requestUrl = rq_url rq, mt_status = status\<rparr> rawMessage
           in if 500 \<le> status
              then (\<lparr>rp_status = status, rp_requestId = requestId,
                     rp_body = envelope env requestId path status (JStr unavailable_text)\<rparr>,
                    [log_http_error env ctx ex requestId path status])
              else (\<lparr>rp_status = status, rp_requestId = requestId,
                     rp_body = spread normalized (envelope env requestId path status message)\<rparr>, []))
      | _ \<Rightarrow>
          (\<lparr>rp_status = 500, rp_requestId = requestId,
             rp_body = envelope env requestId path 500 (JStr unavailable_text)\<rparr>,
           [log_http_error env ctx ex requestId path 500]))"

section \<open>Exceptions of the services\<close>

text \<open>Every class of \<open>http_error\<close> is an exception with its status; the message or code is the payload of the body.  A
  Prisma error and any other failure are errors that are not HTTP exceptions.\<close>

definition nest_exception :: "int \<Rightarrow> string \<Rightarrow> string \<Rightarrow> thrown" where
  "nest_exception status name m =
     HttpException status (BodyObject [(''message'', JStr m)]) \<lparr>er_name = name, er_message = m, er_stack = []\<rparr>"

fun thrown_of :: "http_error \<Rightarrow> thrown" where
  "thrown_of (BadRequest m) = nest_exception 400 ''BadRequestException'' m"
| "thrown_of (Unauthorized m) = nest_exception 401 ''UnauthorizedException'' m"
| "thrown_of (Forbidden m) = nest_exception 403 ''ForbiddenException'' m"
| "thrown_of (NotFound m) = nest_exception 404 ''NotFoundException'' m"
| "thrown_of (Conflict m) = nest_exception 409 ''ConflictException'' m"
| "thrown_of (Unprocessable m) = nest_exception 422 ''UnprocessableEntityException'' m"
| "thrown_of (ServiceUnavailable m) = nest_exception 503 ''ServiceUnavailableException'' m"
| "thrown_of (PayloadTooLarge m) = nest_exception 413 ''PayloadTooLargeException'' m"
| "thrown_of (BadGateway m) = nest_exception 502 ''BadGatewayException'' m"
| "thrown_of (PrismaError m) = OtherError \<lparr>er_name = ''PrismaClientKnownRequestError'', er_message = m, er_stack = []\<rparr>"
| "thrown_of (InternalError m) = OtherError \<lparr>er_name = ''Error'', er_message = m, er_stack = []\<rparr>"

section \<open>Metrics\<close>

record http_metrics =
  hm_requestsTotal :: nat
  hm_byRoute :: "(string \<times> nat) list"
  hm_durationCount :: nat
  hm_durationSum :: int
  hm_durationMax :: int

record metric_input =
  mi_method :: string
  mi_route :: string
  mi_statusCode :: nat
  mi_durationMs :: int

definition no_metrics :: http_metrics where
  "no_metrics = \<lparr>hm_requestsTotal = 0, hm_byRoute = [], hm_durationCount = 0, hm_durationSum = 0, hm_durationMax = 0\<rparr>"

definition metric_key :: "metric_input \<Rightarrow> string" where
  "metric_key i = mi_method i @ '' '' @ mi_route i @ '' '' @ nat_text (mi_statusCode i)"

definition record_metric :: "metric_input \<Rightarrow> http_metrics \<Rightarrow> http_metrics" where
  "record_metric i m =
     \<lparr>hm_requestsTotal = hm_requestsTotal m + 1,
      hm_byRoute = put_entry (metric_key i) (default_to (map_of (hm_byRoute m) (metric_key i)) 0 + 1) (hm_byRoute m),
      hm_durationCount = hm_durationCount m + 1,
      hm_durationSum = hm_durationSum m + mi_durationMs i,
      hm_durationMax = max (hm_durationMax m) (mi_durationMs i)\<rparr>"

record metrics_snapshot =
  ms_requestsTotal :: nat
  ms_byRoute :: "(string \<times> nat) list"
  ms_duration :: "nat \<times> int \<times> int"

definition metrics_snapshot_of :: "http_metrics \<Rightarrow> metrics_snapshot" where
  "metrics_snapshot_of m =
     \<lparr>ms_requestsTotal = hm_requestsTotal m, ms_byRoute = foldl (\<lambda>obj (k, n). put_entry k n obj) [] (hm_byRoute m),
      ms_duration = (hm_durationCount m, hm_durationSum m, hm_durationMax m)\<rparr>"

definition getHttpMetrics :: "string option \<Rightarrow> string option \<Rightarrow> string option \<Rightarrow> http_metrics \<Rightarrow> http_error + metrics_snapshot" where
  "getHttpMetrics configured headerSecret legacyHeaderSecret m =
     (case assertInternalSecret configured (case headerSecret of None \<Rightarrow> legacyHeaderSecret | Some s \<Rightarrow> Some s) of
        Inl e \<Rightarrow> Inl e
      | Inr _ \<Rightarrow> Inr (metrics_snapshot_of m))"

definition health_prefixes :: "string list" where
  "health_prefixes = [''/health'', ''/health/live'', ''/health/ready'']"

definition should_skip :: "string \<Rightarrow> bool" where
  "should_skip path = (let pathname = hd (split_on CHR ''?'' path) in
     list_ex (\<lambda>p. pathname = p \<or> starts_with pathname (p @ ''/'')) health_prefixes)"

definition normalizeRoute :: "request \<Rightarrow> string" where
  "normalizeRoute rq = (case rq_route rq of
      Some r \<Rightarrow> or_string (default_to (rq_baseUrl rq) [] @ r) r
    | None \<Rightarrow> or_string (default_to (rq_path rq) []) ''unknown'')"

text \<open>The interceptor watches the answer of the handler: a value, an error, the end, or a client that goes away.\<close>

datatype signal = Emits | Errors thrown | Completes | Unsubscribed

record edge_state =
  es_metrics :: http_metrics
  es_log :: "log_line list"

definition record_request :: "edge_env \<Rightarrow> request_context option \<Rightarrow> request \<Rightarrow> nat option \<Rightarrow> int \<Rightarrow> string \<Rightarrow> nat option \<Rightarrow> edge_state \<Rightarrow> edge_state" where
  "record_request env ctx rq responseStatus startedAt path errorStatus s =
     (if should_skip path then s
      else let durationMs = ev_now env - startedAt;
               route = normalizeRoute rq;
               statusCode = (case errorStatus of Some c \<Rightarrow> c | None \<Rightarrow> default_to responseStatus 500)
           in \<lparr>es_metrics = record_metric \<lparr>mi_method = rq_method rq, mi_route = route, mi_statusCode = statusCode, mi_durationMs = durationMs\<rparr> (es_metrics s),
               es_log = es_log s @ [writeStructuredLog env ctx LogInfo ''http_request_completed''
                 [(''requestId'', map_option (\<lambda>c. JStr (rc_requestId c)) ctx), (''method'', Some (JStr (rq_method rq))),
                  (''path'', Some (JStr path)), (''route'', Some (JStr route)), (''statusCode'', Some (JNum (of_nat statusCode))),
                  (''durationMs'', Some (JNum (of_int durationMs)))]]\<rparr>)"

definition error_status :: "thrown \<Rightarrow> nat" where
  "error_status ex = (case ex of HttpException st _ _ \<Rightarrow> nat st | _ \<Rightarrow> 500)"

text \<open>\<open>recordOnce\<close> over the flag \<open>recorded\<close> of the closure.\<close>

definition record_once :: "edge_env \<Rightarrow> request_context option \<Rightarrow> request \<Rightarrow> nat option \<Rightarrow> int \<Rightarrow> nat option \<Rightarrow> bool \<times> edge_state \<Rightarrow> bool \<times> edge_state" where
  "record_once env ctx rq responseStatus startedAt errorStatus st =
     (if fst st then st
      else (True, record_request env ctx rq responseStatus startedAt (getSafeRequestPath rq) errorStatus (snd st)))"

primrec intercept :: "edge_env \<Rightarrow> request_context option \<Rightarrow> request \<Rightarrow> nat option \<Rightarrow> int \<Rightarrow> signal list \<Rightarrow> bool \<times> edge_state \<Rightarrow> bool \<times> edge_state" where
  "intercept env ctx rq responseStatus startedAt [] st = st"
| "intercept env ctx rq responseStatus startedAt (x # xs) st = (case x of
     Emits \<Rightarrow> intercept env ctx rq responseStatus startedAt xs st
   | Errors ex \<Rightarrow> record_once env ctx rq responseStatus startedAt (Some (error_status ex)) st
   | Completes \<Rightarrow> record_once env ctx rq responseStatus startedAt None st
   | Unsubscribed \<Rightarrow> record_once env ctx rq responseStatus startedAt None st)"

section \<open>Outgoing requests with a deadline\<close>

text \<open>\<open>fetchWithTimeout\<close> as the order in which its timer, the caller's signal and the \<open>fetch\<close> happen; the first two abort
  the \<open>fetch\<close>, which then rejects, and only a settled \<open>fetch\<close> ends the call.\<close>

datatype ('r, 'e) fetch_event = TimerFires | CallerAborts | FetchResolves 'r | FetchRejects 'e
datatype 'e fetch_error = UpstreamTimeout int | FetchFailed 'e

primrec fetchWithTimeout :: "int \<Rightarrow> bool \<Rightarrow> ('r, 'e) fetch_event list \<Rightarrow> ('e fetch_error + 'r) option" where
  "fetchWithTimeout timeoutMs timedOut [] = None"
| "fetchWithTimeout timeoutMs timedOut (e # es) = (case e of
     TimerFires \<Rightarrow> fetchWithTimeout timeoutMs True es
   | CallerAborts \<Rightarrow> fetchWithTimeout timeoutMs timedOut es
   | FetchResolves r \<Rightarrow> Some (Inr r)
   | FetchRejects x \<Rightarrow> Some (Inl (if timedOut then UpstreamTimeout timeoutMs else FetchFailed x)))"

section \<open>Health and CORS\<close>

record health_config =
  hc_googleMapsApiKey :: string
  hc_redisUrl :: "string option"
  hc_redisClient :: bool

record live_response =
  lr_googlePlacesConfigured :: bool
  lr_redisConfigured :: bool
  lr_checks :: "(string \<times> string) list"

definition buildLiveResponse :: "health_config \<Rightarrow> live_response" where
  "buildLiveResponse c = \<lparr>lr_googlePlacesConfigured = (hc_googleMapsApiKey c \<noteq> []), lr_redisConfigured = truthy (hc_redisUrl c), lr_checks = []\<rparr>"

text \<open>The body of the 503 is the list of checks made so far.\<close>

definition getReady :: "health_config \<Rightarrow> bool \<Rightarrow> bool \<Rightarrow> (string \<times> string) list + live_response" where
  "getReady c postgresAnswers redisAnswers =
     (if \<not> postgresAnswers then Inl [(''postgres'', ''down'')]
      else if truthy (hc_redisUrl c) then
        (if \<not> hc_redisClient c \<or> \<not> redisAnswers then Inl [(''postgres'', ''ok''), (''redis'', ''down'')]
         else Inr ((buildLiveResponse c)\<lparr>lr_checks := [(''postgres'', ''ok''), (''redis'', ''ok'')]\<rparr>))
      else Inr ((buildLiveResponse c)\<lparr>lr_checks := [(''postgres'', ''ok'')]\<rparr>))"

definition corsAllowedOrigins :: "string option \<Rightarrow> string list" where
  "corsAllowedOrigins value = (if truthy value then filter (\<lambda>origin. origin \<noteq> []) (map js_trim (split_on CHR '','' (the value))) else [])"

definition cors_origin_matcher :: "string list \<Rightarrow> string option \<Rightarrow> http_error + bool" where
  "cors_origin_matcher allowed origin =
     (if \<not> truthy origin \<or> the origin \<in> set allowed then Inr True
      else Inl (Forbidden ''Origin is not allowed by CORS''))"

section \<open>Lemmas: messages\<close>

text \<open>The parts of a text between the occurrences of a pattern, and what joins them.\<close>

fun join_with :: "string \<Rightarrow> string list \<Rightarrow> string" where
  "join_with sep [] = []"
| "join_with sep [p] = p"
| "join_with sep (p # q # ps) = p @ sep @ join_with sep (q # ps)"

lemma expand_plain: "CHR ''$'' \<notin> set r \<Longrightarrow> expand_replacement m before after r = r"
  by (induction m before after r rule: expand_replacement.induct) auto

lemma starts_with_iff: "starts_with s p \<longleftrightarrow> (\<exists>b. s = p @ b)"
  unfolding starts_with_def by (metis append_eq_conv_conj append_take_drop_id)

lemma join_with_Cons: "ps \<noteq> [] \<Longrightarrow> join_with sep (p # ps) = p @ sep @ join_with sep ps"
  by (cases ps) simp_all

lemma join_with_char: "join_with sep ((c # p) # ps) = c # join_with sep (p # ps)"
  by (cases ps) simp_all

lemma replace_from_parts:
  assumes "CHR ''$'' \<notin> set rep" "pat \<noteq> []"
  shows "\<exists>p ps. s = join_with pat (p # ps) \<and> replace_from pat rep before s = join_with rep (p # ps)
           \<and> list_all (\<lambda>q. \<not> includes_str q pat) (p # ps)"
  using assms
proof (induction pat rep before s rule: replace_from.induct)
  case (1 pat rep before)
  then show ?case by (intro exI [of _ "[]"]) simp
next
  case (2 pat rep before c s)
  show ?case
  proof (cases "starts_with (c # s) pat")
    case True
    then obtain p ps where ih: "drop (length pat) (c # s) = join_with pat (p # ps)"
      "replace_from pat rep (before @ pat) (drop (length pat) (c # s)) = join_with rep (p # ps)"
      "list_all (\<lambda>q. \<not> includes_str q pat) (p # ps)" using 2 by blast
    have "c # s = pat @ drop (length pat) (c # s)" using True unfolding starts_with_def by (metis append_take_drop_id)
    then have "c # s = join_with pat ([] # p # ps)" using ih(1) by simp
    moreover have "replace_from pat rep before (c # s) = join_with rep ([] # p # ps)"
      using True 2(4) ih(2) expand_plain [OF 2(3)] by simp
    moreover have "\<not> includes_str [] pat" using 2(4) by simp
    ultimately show ?thesis using ih(3) by (intro exI [of _ "[]"] exI [of _ "p # ps"]) simp
  next
    case False
    then obtain p ps where ih: "s = join_with pat (p # ps)" "replace_from pat rep (before @ [c]) s = join_with rep (p # ps)"
      "list_all (\<lambda>q. \<not> includes_str q pat) (p # ps)" using 2 by blast
    have "\<exists>b. c # s = (c # p) @ b" using ih(1) by (cases ps) (auto simp: join_with_Cons)
    then have "\<not> starts_with (c # p) pat" using False unfolding starts_with_iff by (metis append.assoc)
    then have "\<not> includes_str (c # p) pat" using ih(3) by simp
    then show ?thesis using False ih
      by (intro exI [of _ "c # p"] exI [of _ ps]) (simp add: join_with_char)
  qed
qed

section \<open>Lemmas: metrics\<close>

lemma record_metrics_totals:
  "hm_requestsTotal (foldl (\<lambda>m i. record_metric i m) m xs) = hm_requestsTotal m + length xs"
  "hm_durationCount (foldl (\<lambda>m i. record_metric i m) m xs) = hm_durationCount m + length xs"
  "hm_durationSum (foldl (\<lambda>m i. record_metric i m) m xs) = hm_durationSum m + sum_list (map mi_durationMs xs)"
  "hm_durationMax (foldl (\<lambda>m i. record_metric i m) m xs) = foldl max (hm_durationMax m) (map mi_durationMs xs)"
  by (induction xs arbitrary: m) (simp_all add: record_metric_def)

lemma record_metric_upsert: "hm_byRoute (record_metric i m) = map_upsert (+) (hm_byRoute m) (metric_key i, 1)"
  by (simp add: record_metric_def default_to_def split: option.split)

lemma record_metrics_routes:
  "hm_byRoute (foldl (\<lambda>m i. record_metric i m) m xs) = foldl (map_upsert (+)) (hm_byRoute m) (map (\<lambda>i. (metric_key i, 1)) xs)"
  by (induction xs arbitrary: m) (simp_all add: record_metric_upsert del: One_nat_def)

lemma sum_ones: "sum_list (map snd (filter f (map (\<lambda>i. (k i, 1 :: nat)) xs))) = length (filter (\<lambda>i. f (k i, 1)) xs)"
  by (induction xs) auto

lemma gather_sum: "js_map.gather (+) (None :: nat option) vs = (if vs = [] then None else Some (sum_list vs))"
proof (cases vs)
  case (Cons v us)
  have "foldl (+) v us = v + sum_list us" for v :: nat by (induction us arbitrary: v) simp_all
  then show ?thesis using Cons by (simp add: js_map.gather_None)
qed (simp add: js_map.gather_None)

lemma replaced_sum:
  "distinct (map fst m) \<Longrightarrow> map_of m k = Some v \<Longrightarrow>
   sum_list (map snd (map (\<lambda>(j, y). (j, if j = k then x else y)) m)) + v = sum_list (map snd m) + (x :: nat)"
proof (induction m)
  case (Cons e m)
  have same: "k \<notin> fst ` set m \<Longrightarrow> map (\<lambda>(j, y). (j, if j = k then x else y)) m = m" by (induction m) auto
  show ?case using Cons same by (cases e) (auto split: if_splits simp del: map_map)
qed simp

lemma upsert_sum:
  assumes "distinct (map fst m)"
  shows "sum_list (map snd (map_upsert (+) m (k, 1 :: nat))) = Suc (sum_list (map snd m))"
proof (cases "map_of m k")
  case None
  then have "k \<notin> set (map fst m)" by (simp add: map_of_eq_None_iff)
  then show ?thesis using None by (simp add: put_entry_def)
next
  case (Some v)
  then have "k \<in> set (map fst m)" by (metis map_of_SomeD fst_conv image_eqI list.set_map)
  then show ?thesis using Some replaced_sum [OF assms Some, of "v + 1"] by (simp add: put_entry_def del: map_map One_nat_def)
qed

lemma upserts_sum:
  "distinct (map fst m) \<Longrightarrow>
   sum_list (map snd (foldl (map_upsert (+)) m (map (\<lambda>k. (k, 1 :: nat)) ks))) = sum_list (map snd m) + length ks"
proof (induction ks arbitrary: m)
  case (Cons k ks)
  then show ?case using upsert_sum [of m k] distinct_put_entry [of m k] by (simp del: One_nat_def)
qed simp

lemma spread_entries_fresh: "distinct (map fst (a @ b)) \<Longrightarrow> foldl (\<lambda>m (k, v). put_entry k v m) a b = a @ b"
proof (induction b arbitrary: a)
  case (Cons x b)
  then have "put_entry (fst x) (snd x) a = a @ [x]" by (auto simp: put_entry_def)
  then show ?case using Cons by (simp add: case_prod_unfold)
qed simp

lemma intercept_once:
  "fst st \<Longrightarrow> intercept env ctx rq rs t xs st = st"
  by (induction xs) (simp_all add: record_once_def split: signal.split)

section \<open>Properties\<close>

definition thrown_status :: "thrown \<Rightarrow> int" where
  "thrown_status ex = (case ex of HttpException st _ _ \<Rightarrow> st | _ \<Rightarrow> 500)"

definition context_id :: "edge_env \<Rightarrow> request_context option \<Rightarrow> string" where
  "context_id env ctx = (case ctx of Some c \<Rightarrow> rc_requestId c | None \<Rightarrow> ev_uuid env)"

lemma stringified_keys: "fst ` set (stringified ps) \<subseteq> fst ` set ps"
  by (force simp: stringified_def map_filter_def)

lemma spread_keys: "fst ` set (spread a b) = fst ` set a \<union> fst ` set b"
proof (induction b arbitrary: a)
  case (Cons x b)
  have "fst ` set (put_entry (fst x) (snd x) a) = insert (fst x) (fst ` set a)"
    using put_entry_keys [of "fst x" "snd x" a] by (metis (no_types, lifting) insert_absorb list.set_map list.set(1,2) set_append Un_insert_right sup_bot.right_neutral)
  then show ?case using Cons by (simp add: spread_def case_prod_unfold)
qed (simp add: spread_def)

lemma stringified_not_key: "k \<notin> fst ` set ps \<Longrightarrow> k \<notin> fst ` set (stringified ps)"
  using stringified_keys by blast

lemma production_log_without_stack:
  assumes "ev_production env"
  shows "''stack'' \<notin> fst ` set (ln_payload (log_http_error env ctx ex rid path st))"
  unfolding log_http_error_def writeStructuredLog_def Let_def log_line.simps
  by (rule stringified_not_key, cases ctx; cases ex) (simp_all add: spread_keys assms)

text \<open>C30: the response to a failure of the server says nothing of the failure: whatever was thrown, it is the fixed text with
  the status, the path without its query, the time and the request id; the failure is logged once, and in production
  without its stack.\<close>

theorem server_errors_closed:
  assumes "500 \<le> thrown_status ex"
  shows "fst (filter_catch env ctx rq ex) =
      \<lparr>rp_status = thrown_status ex, rp_requestId = context_id env ctx,
       rp_body = envelope env (context_id env ctx) (getSafeRequestPath rq) (thrown_status ex) (JStr unavailable_text)\<rparr>
    \<and> length (snd (filter_catch env ctx rq ex)) = 1
    \<and> \<not> (ev_production env \<and> list_ex (\<lambda>l. ''stack'' \<in> fst ` set (ln_payload l)) (snd (filter_catch env ctx rq ex)))"
  using assms production_log_without_stack [of env]
  by (cases ex) (simp_all add: filter_catch_def thrown_status_def context_id_def Let_def)

definition sample_edge_env :: edge_env where
  "sample_edge_env = \<lparr>ev_now = 0, ev_iso = (\<lambda>t. ''t''), ev_uuid = ''u'', ev_production = True\<rparr>"

definition sample_request :: request where
  "sample_request = \<lparr>rq_method = ''GET'', rq_path = None, rq_url = ''/a?token=s'', rq_baseUrl = None, rq_route = None\<rparr>"

theorem server_errors_closed_witness:
  "rp_body (fst (filter_catch sample_edge_env None sample_request (thrown_of (PrismaError ''P2002'')))) =
     [(''message'', JStr unavailable_text), (''statusCode'', JNum 500), (''path'', JStr ''/a''), (''timestamp'', JStr ''t''),
      (''requestId'', JStr ''u'')]"
  using server_errors_closed [of "thrown_of (PrismaError ''P2002'')" sample_edge_env None sample_request]
  by (simp add: thrown_status_def context_id_def envelope_def sample_edge_env_def sample_request_def getSafeRequestPath_def
      stripQueryAndFragment_prefix or_string_def)


definition sample_target :: message_target where
  "sample_target = \<lparr>mt_method = ''GET'', mt_path = ''/p'', mt_requestUrl = ''/p?t=s'', mt_status = 400\<rparr>"


text \<open>A path that holds a dollar and an ampersand refers back to the match, so the sanitized message repeats the
  query it was meant to hide.\<close>

theorem dollar_path_leaks:
  "sanitizeHttpMessage \<lparr>mt_method = ''GET'', mt_path = ''/a$&'', mt_requestUrl = ''/a$&?token=s'', mt_status = 400\<rparr>
     (JStr ''Invalid /a$&?token=s'') = JStr ''Invalid /a/a$&?token=s''"
  by (simp add: replaceAll_def starts_with_def)

text \<open>After any requests the metrics hold their number, the sum and the maximum of their durations, and for each method,
  route and status how many there were; the counts of the routes add up to the total.\<close>

theorem metrics_exact:
  defines "m xs \<equiv> foldl (\<lambda>m i. record_metric i m) no_metrics xs"
  shows "hm_requestsTotal (m xs) = length xs \<and> hm_durationCount (m xs) = length xs
    \<and> hm_durationSum (m xs) = sum_list (map mi_durationMs xs) \<and> hm_durationMax (m xs) = foldl max 0 (map mi_durationMs xs)
    \<and> map_of (hm_byRoute (m xs)) k =
        (let n = length (filter (\<lambda>i. metric_key i = k) xs) in if n = 0 then None else Some n)
    \<and> sum_list (map snd (hm_byRoute (m xs))) = length xs
    \<and> ms_byRoute (metrics_snapshot_of (m xs)) = hm_byRoute (m xs)"
proof -
  let ?m = "m xs"
  have routes: "hm_byRoute ?m = foldl (map_upsert (+)) [] (map (\<lambda>i. (metric_key i, 1)) xs)"
    unfolding m_def by (simp add: record_metrics_routes no_metrics_def)
  have "distinct (map fst (hm_byRoute ?m))" unfolding routes by (rule distinct_map_upserts) simp
  then have snap: "ms_byRoute (metrics_snapshot_of ?m) = hm_byRoute ?m"
    using spread_entries_fresh [of "[]" "hm_byRoute ?m"] by (simp add: metrics_snapshot_of_def)
  have key: "map_of (hm_byRoute ?m) k = (let n = length (filter (\<lambda>i. metric_key i = k) xs) in if n = 0 then None else Some n)"
    unfolding routes map_upserts_fetch by (simp add: gather_sum sum_ones Let_def filter_empty_conv del: One_nat_def)
  have sums: "sum_list (map snd (hm_byRoute ?m)) = length xs"
    using upserts_sum [of "[]" "map metric_key xs"] unfolding routes by (simp add: comp_def del: One_nat_def)
  show ?thesis using snap key sums unfolding m_def by (simp add: record_metrics_totals no_metrics_def)
qed

section \<open>Further facts\<close>

text \<open>The identifier a response carries is short and made of harmless characters, whatever the client sent.\<close>

lemma request_id_safe:
  assumes "list_all request_id_char uuid" "length uuid \<le> 128"
  shows "list_all request_id_char (fst (request_context_use t uuid incoming rq))
    \<and> length (fst (request_context_use t uuid incoming rq)) \<le> 128"
  using assms by (simp add: request_context_use_def Let_def)

text \<open>The path of the context holds no query when the URL is what it was cut from.\<close>

lemma safe_path_without_query:
  "rq_path rq = None \<or> rq_path rq = Some [] \<Longrightarrow> CHR ''?'' \<notin> set (getSafeRequestPath rq) \<and> CHR ''#'' \<notin> set (getSafeRequestPath rq)"
  by (auto simp: getSafeRequestPath_def stripQueryAndFragment_prefix or_string_def split: if_splits dest: set_takeWhileD)

text \<open>A request is recorded exactly once when its answer ends, at most once in any case, and health probes never.\<close>

lemma intercept_records:
  "hm_requestsTotal (es_metrics (snd (intercept env ctx rq rs t xs (False, s)))) =
     hm_requestsTotal (es_metrics s) +
     (if list_all (\<lambda>x. x = Emits) xs \<or> should_skip (getSafeRequestPath rq) then 0 else 1)"
  by (induction xs)
    (auto simp: record_once_def record_request_def record_metric_def Let_def split: signal.split)

lemma timeout_reported:
  "fetchWithTimeout ms False es = Some (Inl (UpstreamTimeout n)) \<longleftrightarrow>
     n = ms \<and> (\<exists>a b e. es = a @ FetchRejects e # b \<and> TimerFires \<in> set a \<and> list_all (\<lambda>x. x = TimerFires \<or> x = CallerAborts) a)"
proof -
  have "fetchWithTimeout ms late es = Some (Inl (UpstreamTimeout n)) \<longleftrightarrow>
     n = ms \<and> (\<exists>a b e. es = a @ FetchRejects e # b \<and> (late \<or> TimerFires \<in> set a) \<and> list_all (\<lambda>x. x = TimerFires \<or> x = CallerAborts) a)" for late
  proof (induction es arbitrary: late)
    case (Cons x es)
    have step: "(\<exists>a b e. x # es = a @ FetchRejects e # b \<and> (late \<or> TimerFires \<in> set a) \<and> list_all (\<lambda>x. x = TimerFires \<or> x = CallerAborts) a)
      \<longleftrightarrow> (\<exists>e. x = FetchRejects e) \<and> late
        \<or> (x = TimerFires \<or> x = CallerAborts) \<and> (\<exists>a b e. es = a @ FetchRejects e # b \<and> ((late \<or> x = TimerFires) \<or> TimerFires \<in> set a)
             \<and> list_all (\<lambda>x. x = TimerFires \<or> x = CallerAborts) a)"
      (is "?l = ?r")
    proof
      assume ?l
      then obtain a b e where "x # es = a @ FetchRejects e # b" "late \<or> TimerFires \<in> set a"
        "list_all (\<lambda>x. x = TimerFires \<or> x = CallerAborts) a" by blast
      then show ?r by (cases a) auto
    next
      assume ?r
      then consider e where "x = FetchRejects e" "late"
        | a b e where "x = TimerFires \<or> x = CallerAborts" "es = a @ FetchRejects e # b"
            "(late \<or> x = TimerFires) \<or> TimerFires \<in> set a" "list_all (\<lambda>x. x = TimerFires \<or> x = CallerAborts) a" by blast
      then show ?l
      proof cases
        case (1 e)
        then show ?thesis by (intro exI [of _ "[]"] exI [of _ es] exI [of _ e]) simp
      next
        case (2 a b e)
        then show ?thesis by (intro exI [of _ "x # a"] exI [of _ b] exI [of _ e]) auto
      qed
    qed
    show ?case unfolding step by (cases x) (auto simp: Cons)
  qed simp
  from this [of False] show ?thesis by simp
qed

lemma service_error_status:
  "thrown_status (thrown_of e) \<in> {400, 401, 403, 404, 409, 413, 422, 500, 502, 503}"
  by (cases e) (simp_all add: thrown_status_def nest_exception_def)

lemma cors_closed: "cors_origin_matcher (corsAllowedOrigins None) (Some (c # o')) = Inl (Forbidden ''Origin is not allowed by CORS'')"
  by (simp add: cors_origin_matcher_def corsAllowedOrigins_def truthy_def)

lemma ready_needs_all:
  "(\<exists>r. getReady c pg rd = Inr r) \<longleftrightarrow> pg \<and> (truthy (hc_redisUrl c) \<longrightarrow> hc_redisClient c \<and> rd)"
  by (auto simp: getReady_def)

end
