(* ===== verification/Config.thy ===== *)
theory Config
  imports HttpEdge
begin

text \<open>
  The configuration, \<open>src/config/\<close>: what the process environment must hold before the server starts, and what the
  rest of the code reads from it.

  The schema library and the URL parser are not part of the repository.  \<open>parse_base\<close> stands for the parsing of the
  object schema; \<open>schema_ok\<close> is what the schema says of a parsed environment and is used as the hypothesis on it.  The
  two preprocessing functions and \<open>superRefine\<close>, which the repository writes itself, are modelled.
\<close>

section \<open>The schema\<close>

datatype node_env = Development | TestEnv | Production
datatype queue_backend = InProcess | PgBoss

record app_env =
  NODE_ENV :: node_env
  PORT :: int
  DATABASE_URL :: string
  AUTH_JWT_ACCESS_SECRET :: string
  AUTH_JWT_ISSUER :: string
  AUTH_JWT_AUDIENCE :: string
  AUTH_ACCESS_TOKEN_TTL_MINUTES :: int
  AUTH_REFRESH_TOKEN_TTL_DAYS :: int
  GOOGLE_MAPS_API_KEY :: string
  GOOGLE_OAUTH_WEB_CLIENT_ID :: string
  GOOGLE_DATA_PORTABILITY_CLIENT_ID :: "string option"
  GOOGLE_DATA_PORTABILITY_CLIENT_SECRET :: "string option"
  GOOGLE_DATA_PORTABILITY_REDIRECT_URI :: "string option"
  GOOGLE_DATA_PORTABILITY_TOKEN_ENCRYPTION_KEY :: "string option"
  GOOGLE_PLACES_COUNTRY :: string
  GOOGLE_PLACES_LANGUAGE :: string
  GOOGLE_PLACES_RADIUS_METERS :: int
  GOOGLE_PLACES_LOCAL_ONLY :: bool
  GOOGLE_PLACE_PHOTOS_HOME_ENABLED :: bool
  GOOGLE_PLACE_PHOTOS_HOME_LIMIT :: int
  GOOGLE_PLACE_PHOTOS_DETAIL_ENABLED :: bool
  CACHE_TTL_MS :: int
  CACHE_MAX_ITEMS :: int
  RATE_LIMIT_TTL :: int
  RATE_LIMIT_LIMIT :: int
  CORS_ALLOWED_ORIGINS :: "string option"
  FECA_ADMIN_EMAILS :: "string option"
  INTERNAL_NOTIFICATIONS_SECRET :: "string option"
  EXPO_ACCESS_TOKEN :: "string option"
  TRUST_PROXY :: bool
  REDIS_URL :: "string option"
  QUEUE_BACKEND :: "queue_backend option"

text \<open>A trimmed string of at least \<open>n\<close> characters.\<close>

definition trimmed_min :: "nat \<Rightarrow> string \<Rightarrow> bool" where
  "trimmed_min n s \<longleftrightarrow> js_trim s = s \<and> n \<le> length s"

definition optional_string_ok :: "string option \<Rightarrow> bool" where
  "optional_string_ok v = (case v of None \<Rightarrow> True | Some s \<Rightarrow> trimmed_min 1 s)"

definition schema_ok :: "app_env \<Rightarrow> bool" where
  "schema_ok env \<longleftrightarrow>
     0 < PORT env \<and> trimmed_min 1 (DATABASE_URL env) \<and> trimmed_min 16 (AUTH_JWT_ACCESS_SECRET env)
     \<and> trimmed_min 1 (AUTH_JWT_ISSUER env) \<and> trimmed_min 1 (AUTH_JWT_AUDIENCE env)
     \<and> 0 < AUTH_ACCESS_TOKEN_TTL_MINUTES env \<and> 0 < AUTH_REFRESH_TOKEN_TTL_DAYS env
     \<and> trimmed_min 1 (GOOGLE_MAPS_API_KEY env) \<and> trimmed_min 1 (GOOGLE_OAUTH_WEB_CLIENT_ID env)
     \<and> list_all optional_string_ok [GOOGLE_DATA_PORTABILITY_CLIENT_ID env, GOOGLE_DATA_PORTABILITY_CLIENT_SECRET env,
          GOOGLE_DATA_PORTABILITY_REDIRECT_URI env, GOOGLE_DATA_PORTABILITY_TOKEN_ENCRYPTION_KEY env]
     \<and> trimmed_min 2 (GOOGLE_PLACES_COUNTRY env) \<and> length (GOOGLE_PLACES_COUNTRY env) = 2
     \<and> trimmed_min 0 (GOOGLE_PLACES_LANGUAGE env)
     \<and> 100 \<le> GOOGLE_PLACES_RADIUS_METERS env \<and> GOOGLE_PLACES_RADIUS_METERS env \<le> 50000
     \<and> 0 \<le> GOOGLE_PLACE_PHOTOS_HOME_LIMIT env \<and> GOOGLE_PLACE_PHOTOS_HOME_LIMIT env \<le> 20
     \<and> 0 < CACHE_TTL_MS env \<and> 0 < CACHE_MAX_ITEMS env \<and> 0 < RATE_LIMIT_TTL env \<and> 0 < RATE_LIMIT_LIMIT env
     \<and> list_all optional_string_ok [CORS_ALLOWED_ORIGINS env, FECA_ADMIN_EMAILS env, INTERNAL_NOTIFICATIONS_SECRET env,
          EXPO_ACCESS_TOKEN env, REDIS_URL env]"

text \<open>What stands in the environment before the schema looks at it.\<close>

datatype raw_value = RawUndefined | RawString string | RawBool bool | RawOther

definition booleanLike :: "raw_value \<Rightarrow> raw_value" where
  "booleanLike v = (case v of
     RawString s \<Rightarrow>
       (let normalized = js_lower (js_trim s) in
        if normalized \<in> set [''1'', ''true'', ''yes'', ''on''] then RawBool True
        else if normalized \<in> set [''0'', ''false'', ''no'', ''off''] then RawBool False
        else v)
   | _ \<Rightarrow> v)"

definition optionalString :: "raw_value \<Rightarrow> raw_value" where
  "optionalString v = (case v of RawString s \<Rightarrow> if js_trim s = [] then RawUndefined else v | _ \<Rightarrow> v)"

section \<open>Rules of a production environment\<close>

text \<open>The fields of a parsed URL the checks read; the parser answers \<open>None\<close> where the constructor throws.\<close>

record parsed_url =
  url_protocol :: string
  url_origin :: string
  url_username :: string
  url_password :: string
  url_pathname :: string

definition ends_with :: "string \<Rightarrow> string \<Rightarrow> bool" where
  "ends_with s p \<longleftrightarrow> starts_with (rev s) (rev p)"

definition looksLikePlaceholder :: "string \<Rightarrow> bool" where
  "looksLikePlaceholder value = (let normalized = js_lower (js_trim value) in
     includes_str normalized ''replace-with'' \<or> includes_str normalized ''change-me'' \<or> includes_str normalized ''example'')"

definition drop_final_slash :: "string \<Rightarrow> string" where
  "drop_final_slash s = (if s \<noteq> [] \<and> last s = CHR ''/'' then butlast s else s)"

definition isValidProductionOrigin :: "(string \<Rightarrow> parsed_url option) \<Rightarrow> string \<Rightarrow> bool" where
  "isValidProductionOrigin parse value =
     (if value = [] \<or> value = ''*'' then False
      else case parse value of None \<Rightarrow> False
        | Some url \<Rightarrow> url_protocol url = ''https:'' \<and> url_origin url = drop_final_slash value
                        \<and> url_username url = [] \<and> url_password url = [])"

definition isValidProductionRedirectUri :: "(string \<Rightarrow> parsed_url option) \<Rightarrow> string \<Rightarrow> bool" where
  "isValidProductionRedirectUri parse value =
     (case parse value of None \<Rightarrow> False
        | Some url \<Rightarrow> url_protocol url = ''https:'' \<and> url_username url = [] \<and> url_password url = []
                        \<and> ends_with (url_pathname url) ''/v1/google-data-imports/oauth/callback'')"

record issue =
  is_path :: string
  is_message :: string

definition issue_if :: "bool \<Rightarrow> string \<Rightarrow> string \<Rightarrow> issue list" where
  "issue_if bad path message = (if bad then [\<lparr>is_path = path, is_message = message\<rparr>] else [])"

definition placeholder_in :: "string option \<Rightarrow> bool" where
  "placeholder_in v = (truthy v \<and> looksLikePlaceholder (the v))"

definition superRefine :: "(string \<Rightarrow> parsed_url option) \<Rightarrow> app_env \<Rightarrow> issue list" where
  "superRefine parse env =
     (if NODE_ENV env \<noteq> Production then []
      else issue_if (looksLikePlaceholder (AUTH_JWT_ACCESS_SECRET env))
             ''AUTH_JWT_ACCESS_SECRET'' ''AUTH_JWT_ACCESS_SECRET must be replaced in production''
        @ issue_if (looksLikePlaceholder (GOOGLE_MAPS_API_KEY env))
             ''GOOGLE_MAPS_API_KEY'' ''GOOGLE_MAPS_API_KEY must be replaced in production''
        @ issue_if (looksLikePlaceholder (GOOGLE_OAUTH_WEB_CLIENT_ID env))
             ''GOOGLE_OAUTH_WEB_CLIENT_ID'' ''GOOGLE_OAUTH_WEB_CLIENT_ID must be replaced in production''
        @ issue_if (placeholder_in (GOOGLE_DATA_PORTABILITY_CLIENT_ID env))
             ''GOOGLE_DATA_PORTABILITY_CLIENT_ID'' ''GOOGLE_DATA_PORTABILITY_CLIENT_ID must be replaced in production''
        @ issue_if (placeholder_in (GOOGLE_DATA_PORTABILITY_CLIENT_SECRET env))
             ''GOOGLE_DATA_PORTABILITY_CLIENT_SECRET'' ''GOOGLE_DATA_PORTABILITY_CLIENT_SECRET must be replaced in production''
        @ (let portabilityValues = [GOOGLE_DATA_PORTABILITY_CLIENT_ID env, GOOGLE_DATA_PORTABILITY_CLIENT_SECRET env,
                  GOOGLE_DATA_PORTABILITY_REDIRECT_URI env, GOOGLE_DATA_PORTABILITY_TOKEN_ENCRYPTION_KEY env]
           in issue_if (list_ex truthy portabilityValues \<and> list_ex (\<lambda>v. \<not> truthy v) portabilityValues)
             ''GOOGLE_DATA_PORTABILITY_CLIENT_ID''
             ''Google Data Portability requires client id, client secret, redirect URI and token encryption key'')
        @ issue_if (truthy (GOOGLE_DATA_PORTABILITY_REDIRECT_URI env)
                \<and> \<not> isValidProductionRedirectUri parse (the (GOOGLE_DATA_PORTABILITY_REDIRECT_URI env)))
             ''GOOGLE_DATA_PORTABILITY_REDIRECT_URI'' ''GOOGLE_DATA_PORTABILITY_REDIRECT_URI must be an HTTPS callback URL''
        @ issue_if (truthy (GOOGLE_DATA_PORTABILITY_TOKEN_ENCRYPTION_KEY env)
                \<and> length (the (GOOGLE_DATA_PORTABILITY_TOKEN_ENCRYPTION_KEY env)) < 32)
             ''GOOGLE_DATA_PORTABILITY_TOKEN_ENCRYPTION_KEY''
             ''GOOGLE_DATA_PORTABILITY_TOKEN_ENCRYPTION_KEY must be at least 32 characters''
        @ issue_if (length (AUTH_JWT_ACCESS_SECRET env) < 32)
             ''AUTH_JWT_ACCESS_SECRET'' ''AUTH_JWT_ACCESS_SECRET must be at least 32 characters in production''
        @ (if \<not> truthy (INTERNAL_NOTIFICATIONS_SECRET env)
           then issue_if True ''INTERNAL_NOTIFICATIONS_SECRET'' ''INTERNAL_NOTIFICATIONS_SECRET is required in production''
           else issue_if (length (the (INTERNAL_NOTIFICATIONS_SECRET env)) < 32
                    \<or> looksLikePlaceholder (the (INTERNAL_NOTIFICATIONS_SECRET env)))
             ''INTERNAL_NOTIFICATIONS_SECRET''
             ''INTERNAL_NOTIFICATIONS_SECRET must be a non-placeholder value of at least 32 characters'')
        @ (if truthy (CORS_ALLOWED_ORIGINS env)
           then issue_if (list_ex (\<lambda>origin. \<not> isValidProductionOrigin parse (js_trim origin))
                    (split_on CHR '','' (the (CORS_ALLOWED_ORIGINS env))))
             ''CORS_ALLOWED_ORIGINS'' ''CORS_ALLOWED_ORIGINS must contain only HTTPS origins without paths or wildcards''
           else []))"

definition validateEnv ::
    "('raw \<Rightarrow> issue list + app_env) \<Rightarrow> (string \<Rightarrow> parsed_url option) \<Rightarrow> 'raw \<Rightarrow> issue list + app_env" where
  "validateEnv parse_base parse raw = (case parse_base raw of
     Inl issues \<Rightarrow> Inl issues
   | Inr env \<Rightarrow> if superRefine parse env = [] then Inr env else Inl (superRefine parse env))"

section \<open>What the code reads\<close>

definition queueBackend :: "app_env \<Rightarrow> queue_backend" where
  "queueBackend env = (case QUEUE_BACKEND env of
     Some b \<Rightarrow> b
   | None \<Rightarrow> if NODE_ENV env = Production then PgBoss else InProcess)"

definition fecaAdminEmailSet :: "string option \<Rightarrow> string list" where
  "fecaAdminEmailSet raw = (if truthy raw
     then dedupe (filter (\<lambda>e. e \<noteq> []) (map (\<lambda>e. js_lower (js_trim e)) (split_on CHR '','' (the raw))))
     else [])"

definition auth_config_of :: "app_env \<Rightarrow> auth_config" where
  "auth_config_of env =
     \<lparr>cf_audience = Some (GOOGLE_OAUTH_WEB_CLIENT_ID env), cf_access_minutes = AUTH_ACCESS_TOKEN_TTL_MINUTES env,
      cf_refresh_days = AUTH_REFRESH_TOKEN_TTL_DAYS env, cf_admins = fecaAdminEmailSet (FECA_ADMIN_EMAILS env),
      cf_local_only = GOOGLE_PLACES_LOCAL_ONLY env\<rparr>"

section \<open>Properties\<close>

lemma issue_if_Nil [simp]: "issue_if bad p m = [] \<longleftrightarrow> \<not> bad"
  by (simp add: issue_if_def)

lemma accepted:
  "validateEnv parse_base parse raw = Inr env \<longleftrightarrow> parse_base raw = Inr env \<and> superRefine parse env = []"
  by (auto simp: validateEnv_def split: sum.splits if_splits)

definition https_origin :: "(string \<Rightarrow> parsed_url option) \<Rightarrow> string \<Rightarrow> bool" where
  "https_origin parse origin = (case parse origin of None \<Rightarrow> False
     | Some url \<Rightarrow> url_protocol url = ''https:'' \<and> url_username url = [] \<and> url_password url = [])"

lemma valid_origin_https: "isValidProductionOrigin parse v \<Longrightarrow> https_origin parse v"
  by (auto simp: isValidProductionOrigin_def https_origin_def split: option.splits if_splits)

lemma refined_origins:
  assumes "superRefine parse env = []" "NODE_ENV env = Production"
  shows "list_all (https_origin parse) (corsAllowedOrigins (CORS_ALLOWED_ORIGINS env))"
  using assms valid_origin_https
  by (auto simp: superRefine_def corsAllowedOrigins_def list_all_iff list_ex_iff split: if_splits)

text \<open>C29: an environment the server starts with in production has a signing secret and an internal secret of at least
  thirty-two characters that are no placeholders, either all four values of the data import or none, with a long enough
  key and an HTTPS callback, and only HTTPS origins without credentials in the list CORS admits.\<close>

theorem production_config_safe:
  assumes "validateEnv parse_base parse raw = Inr env" "NODE_ENV env = Production"
  shows "32 \<le> length (AUTH_JWT_ACCESS_SECRET env) \<and> \<not> looksLikePlaceholder (AUTH_JWT_ACCESS_SECRET env)
    \<and> \<not> looksLikePlaceholder (GOOGLE_MAPS_API_KEY env) \<and> \<not> looksLikePlaceholder (GOOGLE_OAUTH_WEB_CLIENT_ID env)
    \<and> (\<exists>s. INTERNAL_NOTIFICATIONS_SECRET env = Some s \<and> 32 \<le> length s \<and> \<not> looksLikePlaceholder s)
    \<and> (\<exists>b. list_all (\<lambda>v. truthy v = b) [GOOGLE_DATA_PORTABILITY_CLIENT_ID env, GOOGLE_DATA_PORTABILITY_CLIENT_SECRET env,
         GOOGLE_DATA_PORTABILITY_REDIRECT_URI env, GOOGLE_DATA_PORTABILITY_TOKEN_ENCRYPTION_KEY env]
         \<and> (if b then isValidProductionRedirectUri parse (the (GOOGLE_DATA_PORTABILITY_REDIRECT_URI env))
                      \<and> 32 \<le> length (the (GOOGLE_DATA_PORTABILITY_TOKEN_ENCRYPTION_KEY env)) else True))
    \<and> list_all (https_origin parse) (corsAllowedOrigins (CORS_ALLOWED_ORIGINS env))"
proof -
  have ok: "superRefine parse env = []" using assms(1) by (simp add: accepted)
  have i: "\<exists>s. INTERNAL_NOTIFICATIONS_SECRET env = Some s \<and> 32 \<le> length s \<and> \<not> looksLikePlaceholder s"
    using ok assms(2) by (cases "INTERNAL_NOTIFICATIONS_SECRET env") (auto simp: superRefine_def truthy_def split: if_splits)
  have all_or_none: "\<not> (list_ex truthy [GOOGLE_DATA_PORTABILITY_CLIENT_ID env, GOOGLE_DATA_PORTABILITY_CLIENT_SECRET env,
         GOOGLE_DATA_PORTABILITY_REDIRECT_URI env, GOOGLE_DATA_PORTABILITY_TOKEN_ENCRYPTION_KEY env]
       \<and> list_ex (\<lambda>v. \<not> truthy v) [GOOGLE_DATA_PORTABILITY_CLIENT_ID env, GOOGLE_DATA_PORTABILITY_CLIENT_SECRET env,
         GOOGLE_DATA_PORTABILITY_REDIRECT_URI env, GOOGLE_DATA_PORTABILITY_TOKEN_ENCRYPTION_KEY env])"
    "truthy (GOOGLE_DATA_PORTABILITY_REDIRECT_URI env) \<Longrightarrow>
       isValidProductionRedirectUri parse (the (GOOGLE_DATA_PORTABILITY_REDIRECT_URI env))"
    "truthy (GOOGLE_DATA_PORTABILITY_TOKEN_ENCRYPTION_KEY env) \<Longrightarrow>
       32 \<le> length (the (GOOGLE_DATA_PORTABILITY_TOKEN_ENCRYPTION_KEY env))"
    using ok assms(2) by (simp_all add: superRefine_def Let_def)
  have p: "\<exists>b. list_all (\<lambda>v. truthy v = b) [GOOGLE_DATA_PORTABILITY_CLIENT_ID env, GOOGLE_DATA_PORTABILITY_CLIENT_SECRET env,
         GOOGLE_DATA_PORTABILITY_REDIRECT_URI env, GOOGLE_DATA_PORTABILITY_TOKEN_ENCRYPTION_KEY env]
         \<and> (if b then isValidProductionRedirectUri parse (the (GOOGLE_DATA_PORTABILITY_REDIRECT_URI env))
                      \<and> 32 \<le> length (the (GOOGLE_DATA_PORTABILITY_TOKEN_ENCRYPTION_KEY env)) else True)"
    using all_or_none by (intro exI [of _ "truthy (GOOGLE_DATA_PORTABILITY_CLIENT_ID env)"]) auto
  show ?thesis using i p refined_origins [OF ok assms(2)] ok assms(2) by (simp add: superRefine_def)
qed

definition sample_url :: "string \<Rightarrow> parsed_url option" where
  "sample_url s = Some \<lparr>url_protocol = ''https:'', url_origin = drop_final_slash s, url_username = [], url_password = [],
     url_pathname = ''/''\<rparr>"

definition sample_app_env :: app_env where
  "sample_app_env = \<lparr>NODE_ENV = Production, PORT = 3001, DATABASE_URL = ''db'', AUTH_JWT_ACCESS_SECRET = replicate 48 CHR ''a'',
     AUTH_JWT_ISSUER = ''feca-backend'', AUTH_JWT_AUDIENCE = ''feca-app'', AUTH_ACCESS_TOKEN_TTL_MINUTES = 15,
     AUTH_REFRESH_TOKEN_TTL_DAYS = 30, GOOGLE_MAPS_API_KEY = ''maps-key'', GOOGLE_OAUTH_WEB_CLIENT_ID = ''123.apps'',
     GOOGLE_DATA_PORTABILITY_CLIENT_ID = None, GOOGLE_DATA_PORTABILITY_CLIENT_SECRET = None,
     GOOGLE_DATA_PORTABILITY_REDIRECT_URI = None, GOOGLE_DATA_PORTABILITY_TOKEN_ENCRYPTION_KEY = None,
     GOOGLE_PLACES_COUNTRY = ''uy'', GOOGLE_PLACES_LANGUAGE = ''es'', GOOGLE_PLACES_RADIUS_METERS = 5000,
     GOOGLE_PLACES_LOCAL_ONLY = False, GOOGLE_PLACE_PHOTOS_HOME_ENABLED = False, GOOGLE_PLACE_PHOTOS_HOME_LIMIT = 6,
     GOOGLE_PLACE_PHOTOS_DETAIL_ENABLED = True, CACHE_TTL_MS = 300000, CACHE_MAX_ITEMS = 500, RATE_LIMIT_TTL = 60000,
     RATE_LIMIT_LIMIT = 60, CORS_ALLOWED_ORIGINS = Some ''https://feca.cc/'', FECA_ADMIN_EMAILS = None,
     INTERNAL_NOTIFICATIONS_SECRET = Some (replicate 48 CHR ''b''), EXPO_ACCESS_TOKEN = None, TRUST_PROXY = False,
     REDIS_URL = None, QUEUE_BACKEND = None\<rparr>"

lemma sample_values:
  "\<not> looksLikePlaceholder (replicate 48 CHR ''a'')" "\<not> looksLikePlaceholder (replicate 48 CHR ''b'')"
  "\<not> looksLikePlaceholder ''maps-key''" "\<not> looksLikePlaceholder ''123.apps''"
  "split_on CHR '','' ''https://feca.cc/'' = [''https://feca.cc/'']" "js_trim ''https://feca.cc/'' = ''https://feca.cc/''"
  "isValidProductionOrigin sample_url ''https://feca.cc/''"
  by code_simp+

lemma sample_config_accepted: "superRefine sample_url sample_app_env = []"
  by (simp add: superRefine_def sample_values sample_app_env_def truthy_def placeholder_in_def)

theorem production_config_safe_witness:
  "\<exists>s. INTERNAL_NOTIFICATIONS_SECRET sample_app_env = Some s \<and> 32 \<le> length s"
  using production_config_safe [of Inr sample_url sample_app_env sample_app_env] sample_config_accepted
  by (simp add: accepted) (auto simp: sample_app_env_def)

text \<open>An origin written with a final slash passes the checks of a production environment, but the browser's origin
  never equals it, so the requests it was meant to admit are refused.\<close>

theorem slash_origin_refused:
  "validateEnv Inr sample_url sample_app_env = Inr sample_app_env
   \<and> cors_origin_matcher (corsAllowedOrigins (CORS_ALLOWED_ORIGINS sample_app_env)) (Some ''https://feca.cc'')
       = Inl (Forbidden ''Origin is not allowed by CORS'')"
proof
  show "validateEnv Inr sample_url sample_app_env = Inr sample_app_env" unfolding accepted using sample_config_accepted by blast
  have "CORS_ALLOWED_ORIGINS sample_app_env = Some ''https://feca.cc/''" by (simp add: sample_app_env_def)
  then have "corsAllowedOrigins (CORS_ALLOWED_ORIGINS sample_app_env) = [''https://feca.cc/'']"
    by (simp only: corsAllowedOrigins_def) (simp only: truthy_def option.sel option.case sample_values list.map filter.simps; simp)
  then show "cors_origin_matcher (corsAllowedOrigins (CORS_ALLOWED_ORIGINS sample_app_env)) (Some ''https://feca.cc'')
      = Inl (Forbidden ''Origin is not allowed by CORS'')" by (simp add: cors_origin_matcher_def truthy_def)
qed

text \<open>The preprocessing is idempotent, and administrators are compared without case and spaces.\<close>

lemma booleanLike_idem: "booleanLike (booleanLike v) = booleanLike v"
  by (auto simp: booleanLike_def Let_def split: raw_value.splits)

lemma optionalString_idem: "optionalString (optionalString v) = optionalString v"
  by (auto simp: optionalString_def split: raw_value.splits)

lemma admin_by_email:
  "isFecaAdminEmail (auth_config_of env) e \<longleftrightarrow>
     js_lower (js_trim e) \<noteq> [] \<and> truthy (FECA_ADMIN_EMAILS env)
       \<and> (\<exists>p\<in>set (split_on CHR '','' (the (FECA_ADMIN_EMAILS env))). js_lower (js_trim p) = js_lower (js_trim e))"
  unfolding isFecaAdminEmail_def auth_config_of_def fecaAdminEmailSet_def auth_config.simps
  by (cases "truthy (FECA_ADMIN_EMAILS env)") (simp_all add: image_iff eq_commute conj_commute)

end
