(* ===== verification/PlacesStore.thy ===== *)
theory PlacesStore
  imports Cities Notifications
begin

text \<open>
  The places of the database (\<open>places.repository.ts\<close>, \<open>lib/geo-bounds.ts\<close>): search, the searches around a point,
  the quality Feca's users give a place, and storing a place.  The haversine distance and the bounding box of a
  radius are parameters, since the code computes them with floating point trigonometry.
\<close>

section \<open>Around a point\<close>

record geo_bounds =
  gb_minLat :: rat
  gb_maxLat :: rat
  gb_minLng :: rat
  gb_maxLng :: rat

definition inside :: "geo_bounds \<Rightarrow> place_row \<Rightarrow> bool" where
  "inside b p = (case (pl_lat p, pl_lng p) of
     (Some lat, Some lng) \<Rightarrow> gb_minLat b \<le> lat \<and> lat \<le> gb_maxLat b \<and> gb_minLng b \<le> lng \<and> lng \<le> gb_maxLng b
   | _ \<Rightarrow> False)"

text \<open>\<open>nearbySqlTakeLimit\<close>: how many rows are fetched before the exact distances are computed.\<close>

definition nearbySqlTakeLimit :: "nat \<Rightarrow> nat" where
  "nearbySqlTakeLimit resultLimit = min (max (resultLimit * 8) 24) 150"

definition place_distance :: "distance \<Rightarrow> rat \<times> rat \<Rightarrow> place_row \<Rightarrow> rat option" where
  "place_distance metres origin p = (case (pl_lat p, pl_lng p) of
     (Some lat, Some lng) \<Rightarrow> Some (metres origin (lat, lng)) | _ \<Rightarrow> None)"

definition filterSortByDistance ::
  "distance \<Rightarrow> rat \<times> rat \<Rightarrow> place_row list \<Rightarrow> rat \<Rightarrow> nat \<Rightarrow> (place_row \<times> rat) list" where
  "filterSortByDistance metres origin items radiusMeters limit =
     take limit (sort_by (\<lambda>a b. snd a \<le> snd b)
       (filter (\<lambda>x. snd x \<le> radiusMeters)
         (map (\<lambda>p. (p, the (place_distance metres origin p))) items)))"

text \<open>The query of every search around a point: visible places of the box that satisfy \<open>extra\<close>, the last updated
  first.\<close>

definition box_rows :: "geo_bounds \<Rightarrow> (place_row \<Rightarrow> bool) \<Rightarrow> db \<Rightarrow> place_row list" where
  "box_rows b extra w = find_many (\<lambda>p. \<not> pl_hidden p \<and> inside b p \<and> extra p) (t_places w)"

definition nearby_query ::
  "distance \<Rightarrow> (rat \<times> rat \<Rightarrow> rat \<Rightarrow> geo_bounds) \<Rightarrow> rat \<times> rat \<Rightarrow> rat \<Rightarrow> nat \<Rightarrow> (place_row \<Rightarrow> bool) \<Rightarrow> db
     \<Rightarrow> (place_row \<times> rat) list" where
  "nearby_query metres bounds origin radiusMeters limit extra w =
     filterSortByDistance metres origin
       (filter (\<lambda>p. pl_lat p \<noteq> None \<and> pl_lng p \<noteq> None)
         (take (nearbySqlTakeLimit limit)
           (sort_by (\<lambda>a b. pl_updated b \<le> pl_updated a) (box_rows (bounds origin radiusMeters) extra w))))
       radiusMeters limit"

definition equals_ci :: "string \<Rightarrow> string \<Rightarrow> bool" where
  "equals_ci a b \<longleftrightarrow> js_lower a = js_lower b"

definition listNearbyPlaces ::
  "distance \<Rightarrow> (rat \<times> rat \<Rightarrow> rat \<Rightarrow> geo_bounds) \<Rightarrow> rat \<times> rat \<Rightarrow> string option \<Rightarrow> nat \<Rightarrow> rat \<Rightarrow> db
     \<Rightarrow> (place_row \<times> rat) list" where
  "listNearbyPlaces metres bounds origin city limit radiusMeters w =
     nearby_query metres bounds origin radiusMeters limit
       (\<lambda>p. truthy city \<longrightarrow> equals_ci (pl_city p) (the city)) w"

definition positive_visit :: "visit_row \<Rightarrow> bool" where
  "positive_visit v \<longleftrightarrow> vi_would_return v = Some WYes \<or> 4 \<le> vi_rating v"

definition listNearbyPlacesWithPositiveVisits ::
  "distance \<Rightarrow> (rat \<times> rat \<Rightarrow> rat \<Rightarrow> geo_bounds) \<Rightarrow> rat \<times> rat \<Rightarrow> rat \<Rightarrow> nat \<Rightarrow> db \<Rightarrow> (place_row \<times> rat) list" where
  "listNearbyPlacesWithPositiveVisits metres bounds origin radiusMeters limit w =
     nearby_query metres bounds origin radiusMeters limit
       (\<lambda>p. list_ex (\<lambda>v. vi_place v = pl_id p \<and> positive_visit v) (t_visits w)) w"

definition listNearbyPlacesMatchingCategories ::
  "distance \<Rightarrow> (rat \<times> rat \<Rightarrow> rat \<Rightarrow> geo_bounds) \<Rightarrow> rat \<times> rat \<Rightarrow> string list \<Rightarrow> string list \<Rightarrow> rat \<Rightarrow> nat \<Rightarrow> db
     \<Rightarrow> (place_row \<times> rat) list" where
  "listNearbyPlacesMatchingCategories metres bounds origin categories excludeGooglePlaceIds radiusMeters limit w =
     (let normalized = take 12 (dedupe (filter (\<lambda>c. c \<noteq> []) (map (js_lower \<circ> js_trim) categories))) in
      if normalized = [] then []
      else nearby_query metres bounds origin radiusMeters limit
        (\<lambda>p. (excludeGooglePlaceIds \<noteq> [] \<longrightarrow> pl_google_id p \<noteq> None \<and> the (pl_google_id p) \<notin> set excludeGooglePlaceIds)
           \<and> list_ex (\<lambda>c. c \<in> set (pl_categories p)) normalized) w)"

section \<open>Reading places\<close>

definition getHiddenGooglePlaceIds :: "db \<Rightarrow> string list" where
  "getHiddenGooglePlaceIds w =
     dedupe (filter (\<lambda>i. i \<noteq> []) (map (\<lambda>p. js_trim (the (pl_google_id p)))
       (find_many (\<lambda>p. pl_hidden p \<and> pl_google_id p \<noteq> None) (t_places w))))"

definition searchPlaces ::
  "(string \<Rightarrow> string \<Rightarrow> bool) \<Rightarrow> string \<Rightarrow> string option \<Rightarrow> nat \<Rightarrow> db \<Rightarrow> place_row list" where
  "searchPlaces collate query city limit w =
     (let q = js_trim query in
      take limit (sort_by (\<lambda>a b. pl_updated b < pl_updated a
           \<or> pl_updated a = pl_updated b \<and> collate (pl_name a) (pl_name b))
        (find_many (\<lambda>p. \<not> pl_hidden p \<and> (truthy city \<longrightarrow> equals_ci (pl_city p) (the city))
            \<and> (q \<noteq> [] \<longrightarrow> contains_ci (pl_name p) q \<or> contains_ci (pl_address p) q \<or> contains_ci (pl_city p) q))
          (t_places w))))"

text \<open>\<open>getPlaceById\<close> is \<open>place_by_id\<close>.\<close>

definition getPlaceBySource :: "place_source \<Rightarrow> string \<Rightarrow> db \<Rightarrow> place_row option" where
  "getPlaceBySource source sourcePlaceId w =
     find_unique (\<lambda>p. pl_source p = source \<and> pl_google_id p = Some sourcePlaceId) (t_places w)"

definition listFecaReviews :: "string \<Rightarrow> nat \<Rightarrow> db \<Rightarrow> (visit_row \<times> user_row option) list" where
  "listFecaReviews placeId limit w =
     map (\<lambda>v. (v, user_by_id (vi_user v) w))
       (take limit (sort_by (\<lambda>a b. vi_visited b < vi_visited a
            \<or> vi_visited a = vi_visited b \<and> vi_created b \<le> vi_created a)
         (find_many (\<lambda>v. vi_place v = placeId) (t_visits w))))"

record feca_quality =
  fq_visitCount :: nat
  fq_avgRating :: "rat option"
  fq_yes :: nat
  fq_no :: nat

definition place_quality :: "visit_row list \<Rightarrow> feca_quality" where
  "place_quality visits =
     (let visitCount = length visits in
      \<lparr>fq_visitCount = visitCount,
       fq_avgRating = (if 0 < visitCount then Some (rat_of_int (sum_list (map vi_rating visits)) / rat_of_nat visitCount) else None),
       fq_yes = length (filter (\<lambda>v. vi_would_return v = Some WYes) visits),
       fq_no = length (filter (\<lambda>v. vi_would_return v = Some WNo) visits)\<rparr>)"

definition getFecaQualityByGooglePlaceIds :: "string list \<Rightarrow> db \<Rightarrow> string \<rightharpoonup> feca_quality" where
  "getFecaQualityByGooglePlaceIds googlePlaceIds w =
     (if googlePlaceIds = [] then Map.empty
      else map_of (rev (map (\<lambda>p. (the (pl_google_id p), place_quality (find_many (\<lambda>v. vi_place v = pl_id p) (t_visits w))))
        (filter (\<lambda>p. truthy (pl_google_id p))
          (find_many (\<lambda>p. pl_google_id p \<noteq> None \<and> the (pl_google_id p) \<in> set googlePlaceIds) (t_places w))))))"

section \<open>Storing places\<close>

record place_input =
  pn_id :: "string option"
  pn_source :: place_source
  pn_sourcePlaceId :: "string option"
  pn_name :: string
  pn_address :: string
  pn_city :: string
  pn_cityId :: "string option"
  pn_lat :: "rat option"
  pn_lng :: "rat option"
  pn_categories :: "string list"
  pn_rating :: "rat option"
  pn_ratingCount :: "int option"
  pn_phone :: "string option"
  pn_website :: "string option"
  pn_hours :: "string list option"
  pn_mapsUri :: "string option"
  pn_photoRef :: "string option"
  pn_photoUrl :: "string option"
  pn_synced :: "int option"
  pn_hidden :: "bool option"

definition place_data :: "place_input \<Rightarrow> int \<Rightarrow> place_row \<Rightarrow> place_row" where
  "place_data input t p = p\<lparr>
     pl_source := pn_source input, pl_google_id := pn_sourcePlaceId input, pl_name := pn_name input,
     pl_address := pn_address input, pl_city := pn_city input, pl_city_id := pn_cityId input,
     pl_lat := pn_lat input, pl_lng := pn_lng input, pl_categories := pn_categories input,
     pl_rating := pn_rating input, pl_rating_count := pn_ratingCount input, pl_phone := pn_phone input,
     pl_website := pn_website input, pl_hours := default_to (pn_hours input) [], pl_maps_uri := pn_mapsUri input,
     pl_photo_ref := pn_photoRef input, pl_photo := pn_photoUrl input, pl_synced := pn_synced input,
     pl_updated := t\<rparr>"

definition blank_place :: "string \<Rightarrow> int \<Rightarrow> place_row" where
  "blank_place i t = \<lparr>pl_id = i, pl_google_id = None, pl_name = [], pl_address = [], pl_city = [], pl_city_id = None,
     pl_lat = None, pl_lng = None, pl_categories = [], pl_photo = None, pl_hidden = False, pl_source = SrcManual,
     pl_rating = None, pl_rating_count = None, pl_phone = None, pl_website = None, pl_hours = [], pl_maps_uri = None,
     pl_photo_ref = None, pl_synced = None, pl_created = t, pl_updated = t\<rparr>"

definition existing_place :: "place_input \<Rightarrow> db \<Rightarrow> place_row option" where
  "existing_place input w =
     (if truthy (pn_sourcePlaceId input) then getPlaceBySource (pn_source input) (the (pn_sourcePlaceId input)) w
      else if truthy (pn_id input) then place_by_id (the (pn_id input)) w
      else None)"

text \<open>\<open>update\<close> and \<open>create\<close>: the Google id is unique among all places, the id too.\<close>

definition google_id_taken :: "string \<Rightarrow> string option \<Rightarrow> place_row list \<Rightarrow> bool" where
  "google_id_taken pid gid rows \<longleftrightarrow> gid \<noteq> None \<and> list_ex (\<lambda>p. pl_id p \<noteq> pid \<and> pl_google_id p = gid) rows"

text \<open>The foreign key of the city: Prisma raises P2003 when it names no city.\<close>

definition city_missing :: "string option \<Rightarrow> db \<Rightarrow> bool" where
  "city_missing cityId w \<longleftrightarrow> cityId \<noteq> None \<and> \<not> list_ex (\<lambda>c. Some (ci_id c) = cityId) (t_cities w)"

definition upsertPlace :: "place_input \<Rightarrow> place_row dbm" where
  "upsertPlace input =
     bindS now (\<lambda>t.
     bindS (gets (city_missing (pn_cityId input))) (\<lambda>noCity.
     bindS (gets (existing_place input)) (\<lambda>existing. case existing of
        Some e \<Rightarrow>
          bindS (gets t_places) (\<lambda>rows.
            if google_id_taken (pl_id e) (pn_sourcePlaceId input) rows then throw (PrismaError ''P2002'')
            else if noCity then throw (PrismaError ''P2003'')
            else seqS (modify (\<lambda>w. w\<lparr>t_places := update_many (\<lambda>p. pl_id p = pl_id e) (place_data input t) rows\<rparr>))
                   (ret (place_data input t e)))
      | None \<Rightarrow>
          bindS fresh_id (\<lambda>i.
          bindS (gets t_places) (\<lambda>rows.
            let pid = (if truthy (pn_id input) then the (pn_id input) else i);
                row = place_data input t (blank_place pid t)
            in if pid \<in> set (map pl_id rows) \<or> google_id_taken pid (pn_sourcePlaceId input) rows
               then throw (PrismaError ''P2002'')
               else if noCity then throw (PrismaError ''P2003'')
               else seqS (modify (\<lambda>w. w\<lparr>t_places := rows @ [row]\<rparr>)) (ret row))))))"

definition createManualPlace ::
  "string \<Rightarrow> string \<Rightarrow> string \<Rightarrow> string \<Rightarrow> rat option \<Rightarrow> rat option \<Rightarrow> place_row dbm" where
  "createManualPlace name address city cityId lat lng =
     upsertPlace \<lparr>pn_id = None, pn_source = SrcManual, pn_sourcePlaceId = None, pn_name = name, pn_address = address,
       pn_city = city, pn_cityId = Some cityId, pn_lat = lat, pn_lng = lng, pn_categories = [], pn_rating = None,
       pn_ratingCount = None, pn_phone = None, pn_website = None, pn_hours = Some [], pn_mapsUri = None,
       pn_photoRef = None, pn_photoUrl = None, pn_synced = None, pn_hidden = None\<rparr>"

definition update_place :: "string \<Rightarrow> (place_row \<Rightarrow> place_row) \<Rightarrow> place_row dbm" where
  "update_place placeId f =
     bindS now (\<lambda>t.
     bindS (gets (place_by_id placeId)) (\<lambda>p.
     bindS (require (PrismaError ''P2025'') p) (\<lambda>old.
     seqS (modify (\<lambda>w. w\<lparr>t_places := update_many (\<lambda>p. pl_id p = placeId) (\<lambda>p. (f p)\<lparr>pl_updated := t\<rparr>) (t_places w)\<rparr>))
       (ret ((f old)\<lparr>pl_updated := t\<rparr>)))))"

definition setHiddenFromApp :: "string \<Rightarrow> bool \<Rightarrow> place_row dbm" where
  "setHiddenFromApp placeId hidden = update_place placeId (\<lambda>p. p\<lparr>pl_hidden := hidden\<rparr>)"

definition patchPlaceCity :: "string \<Rightarrow> string \<Rightarrow> string \<Rightarrow> place_row dbm" where
  "patchPlaceCity placeId cityId city =
     bindS (gets (\<lambda>w. city_missing (Some cityId) w \<and> place_by_id placeId w \<noteq> None)) (\<lambda>noCity.
     seqS (throw_if noCity (PrismaError ''P2003''))
       (update_place placeId (\<lambda>p. p\<lparr>pl_city_id := Some cityId, pl_city := city\<rparr>)))"

section \<open>The searches around a point\<close>

text \<open>What is relied on of the bounding box: it holds every point within the radius.\<close>

definition box_sound :: "distance \<Rightarrow> (rat \<times> rat \<Rightarrow> rat \<Rightarrow> geo_bounds) \<Rightarrow> bool" where
  "box_sound metres bounds \<longleftrightarrow> (\<forall>origin radius p d. place_distance metres origin p = Some d \<longrightarrow> d \<le> radius
     \<longrightarrow> inside (bounds origin radius) p)"

text \<open>The reference: the nearest visible places within the radius.\<close>

definition nearest_places ::
  "distance \<Rightarrow> rat \<times> rat \<Rightarrow> rat \<Rightarrow> nat \<Rightarrow> (place_row \<Rightarrow> bool) \<Rightarrow> db \<Rightarrow> (place_row \<times> rat) list" where
  "nearest_places metres origin radiusMeters limit extra w =
     filterSortByDistance metres origin
       (sort_by (\<lambda>a b. pl_updated b \<le> pl_updated a)
         (filter (\<lambda>p. \<not> pl_hidden p \<and> place_distance metres origin p \<noteq> None \<and> extra p) (t_places w)))
       radiusMeters limit"

lemma inside_distance: "inside b p \<Longrightarrow> place_distance metres origin p \<noteq> None"
  by (auto simp: inside_def place_distance_def split: option.splits)

lemma distance_coords: "place_distance metres origin p \<noteq> None \<longleftrightarrow> pl_lat p \<noteq> None \<and> pl_lng p \<noteq> None"
  by (auto simp: place_distance_def split: option.splits)

lemma filter_box:
  assumes "box_sound metres bounds"
  shows "filter (\<lambda>p. the (place_distance metres origin p) \<le> radius) (box_rows (bounds origin radius) extra w)
    = filter (\<lambda>p. the (place_distance metres origin p) \<le> radius)
        (filter (\<lambda>p. \<not> pl_hidden p \<and> place_distance metres origin p \<noteq> None \<and> extra p) (t_places w))"
proof -
  have "inside (bounds origin radius) p \<longleftrightarrow> place_distance metres origin p \<noteq> None"
    if "the (place_distance metres origin p) \<le> radius" for p
  proof
    assume "place_distance metres origin p \<noteq> None"
    then obtain d where "place_distance metres origin p = Some d" by blast
    then show "inside (bounds origin radius) p" using assms that unfolding box_sound_def by (metis option.sel)
  qed (rule inside_distance)
  then show ?thesis unfolding box_rows_def find_many_def filter_filter by (intro filter_cong) auto
qed

lemma by_update [simp]: "total_preorder (\<lambda>a b. pl_updated b \<le> pl_updated a)"
  by (rule total_preorder_key_desc)

lemma nearby_query_exact:
  assumes box: "box_sound metres bounds"
    and few: "length (box_rows (bounds origin radius) extra w) \<le> nearbySqlTakeLimit limit"
  shows "nearby_query metres bounds origin radius limit extra w = nearest_places metres origin radius limit extra w"
proof -
  let ?le = "\<lambda>a b. pl_updated b \<le> pl_updated a" and ?rows = "box_rows (bounds origin radius) extra w"
  let ?near = "\<lambda>p. the (place_distance metres origin p) \<le> radius"
  let ?all = "filter (\<lambda>p. \<not> pl_hidden p \<and> place_distance metres origin p \<noteq> None \<and> extra p) (t_places w)"
  have "\<forall>p\<in>set (sort_by ?le ?rows). pl_lat p \<noteq> None \<and> pl_lng p \<noteq> None"
    using inside_distance distance_coords by (auto simp: box_rows_def)
  then have c: "filter (\<lambda>p. pl_lat p \<noteq> None \<and> pl_lng p \<noteq> None) (take (nearbySqlTakeLimit limit) (sort_by ?le ?rows))
      = sort_by ?le ?rows"
    using few by (simp add: filter_id_conv)
  have "filter ?near (sort_by ?le ?rows) = filter ?near (sort_by ?le ?all)"
    by (simp only: filter_sort_by [OF by_update] filter_box [OF box])
  then show ?thesis
    unfolding nearby_query_def nearest_places_def filterSortByDistance_def c by (simp add: filter_map comp_def)
qed

lemma filterSortByDistance_sorted:
  "sorted_wrt (\<lambda>a b. snd a \<le> snd b) (filterSortByDistance metres origin items radius limit)
   \<and> length (filterSortByDistance metres origin items radius limit) \<le> limit"
proof -
  have "total_preorder (\<lambda>a b :: place_row \<times> rat. snd a \<le> snd b)" by (rule total_preorder_key)
  from sorted_sort_by [OF this] show ?thesis
    by (simp add: filterSortByDistance_def sorted_wrt_take)
qed

lemma nearby_query_mem:
  assumes "(p, d) \<in> set (nearby_query metres bounds origin radius limit extra w)"
  shows "p \<in> set (t_places w) \<and> \<not> pl_hidden p \<and> extra p \<and> place_distance metres origin p = Some d \<and> d \<le> radius"
proof -
  let ?items = "filter (\<lambda>p. pl_lat p \<noteq> None \<and> pl_lng p \<noteq> None) (take (nearbySqlTakeLimit limit)
      (sort_by (\<lambda>a b. pl_updated b \<le> pl_updated a) (box_rows (bounds origin radius) extra w)))"
  have "(p, d) \<in> set (filter (\<lambda>x. snd x \<le> radius) (map (\<lambda>p. (p, the (place_distance metres origin p))) ?items))"
    using assms unfolding nearby_query_def filterSortByDistance_def by - (drule in_set_takeD, simp only: set_sort_by)
  then have m: "p \<in> set ?items" "d = the (place_distance metres origin p)" "d \<le> radius" by auto
  then have "p \<in> set (box_rows (bounds origin radius) extra w)" by (auto dest: in_set_takeD)
  then have b: "p \<in> set (t_places w)" "\<not> pl_hidden p" "inside (bounds origin radius) p" "extra p"
    by (simp_all add: box_rows_def)
  then show ?thesis using inside_distance [OF b(3)] m by auto
qed


definition flat_metres :: distance where
  "flat_metres a b = max \<bar>fst a - fst b\<bar> \<bar>snd a - snd b\<bar>"

definition flat_box :: "rat \<times> rat \<Rightarrow> rat \<Rightarrow> geo_bounds" where
  "flat_box o' r = \<lparr>gb_minLat = fst o' - r, gb_maxLat = fst o' + r, gb_minLng = snd o' - r, gb_maxLng = snd o' + r\<rparr>"

lemma flat_box_sound: "box_sound flat_metres flat_box"
  by (auto simp: box_sound_def inside_def place_distance_def flat_metres_def flat_box_def abs_le_iff
      split: option.splits)

definition sample_places_db :: db where
  "sample_places_db = (empty_db 0)\<lparr>t_places := [
     (blank_place ''far'' 1)\<lparr>pl_lat := Some 3, pl_lng := Some 0\<rparr>,
     (blank_place ''near'' 0)\<lparr>pl_lat := Some 1, pl_lng := Some 0\<rparr>,
     (blank_place ''out'' 0)\<lparr>pl_lat := Some 9, pl_lng := Some 0\<rparr>]\<rparr>"


end
