(* ===== verification/GooglePlaces.thy ===== *)
theory GooglePlaces
  imports PlacesStore
begin

text \<open>
  The decoding half of the Google Places client (\<open>infrastructure/google-places/google-places.client.ts\<close>): what the
  backend makes of Google's answers.  The HTTP service is the record \<open>google_api\<close> of its answers, with the fields
  the code reads; \<open>photo_url\<close> stands for \<open>buildPhotoUrl\<close>, which assembles a URL with the API key, and \<open>decode\<close> for
  \<open>decodeURIComponent\<close> (\<open>None\<close> when it throws).
\<close>

section \<open>Ids\<close>

text \<open>The leftmost match of \<open>/(?:^|\/)places\/([^/?#]+)/\<close>.\<close>

definition segment_after :: "string \<Rightarrow> string \<Rightarrow> string option" where
  "segment_after p s =
     (let seg = takeWhile (\<lambda>c. c \<notin> {CHR ''/'', CHR ''?'', CHR ''#''}) (drop (length p) s)
      in if starts_with s p \<and> seg \<noteq> [] then Some seg else None)"

fun find_segment :: "string \<Rightarrow> string option" where
  "find_segment [] = None"
| "find_segment (c # s) = (case segment_after ''/places/'' (c # s) of Some x \<Rightarrow> Some x | None \<Rightarrow> find_segment s)"

definition normalizeGooglePlaceId :: "(string \<Rightarrow> string option) \<Rightarrow> string \<Rightarrow> string" where
  "normalizeGooglePlaceId decode value =
     (let t = js_trim value; decoded = default_to (decode t) t
      in case segment_after ''places/'' decoded of
           Some x \<Rightarrow> x | None \<Rightarrow> default_to (find_segment decoded) decoded)"

definition clampGooglePlacesResultCount :: "rat option \<Rightarrow> int" where
  "clampGooglePlacesResultCount limit =
     (let n = (case limit of None \<Rightarrow> 1 | Some l \<Rightarrow> floor l) in min 20 (max 1 n))"

section \<open>Answers\<close>

record google_hours =
  gh_openNow :: "bool option"
  gh_lines :: "string list option"

record google_place =
  gp_id :: "string option"
  gp_name :: "string option"
  gp_address :: "string option"
  gp_lat :: "rat option"
  gp_lng :: "rat option"
  gp_rating :: "rat option"
  gp_count :: "int option"
  gp_types :: "string list option"
  gp_primaryType :: "string option"
  gp_photos :: "string option list option"
  gp_current :: "google_hours option"
  gp_regular :: "google_hours option"
  gp_website :: "string option"
  gp_phone :: "string option"
  gp_mapsUri :: "string option"

record place_prediction =
  pp_placeId :: "string option"
  pp_text :: "string option"
  pp_main :: "string option"
  pp_secondary :: "string option"
  pp_distance :: "rat option"

record geo_component =
  gc_long :: "string option"
  gc_types :: "string list option"

record geo_result =
  gr_place_id :: "string option"
  gr_address :: "string option"
  gr_types :: "string list option"
  gr_components :: "geo_component list option"
  gr_lat :: "rat option"
  gr_lng :: "rat option"

record geo_response =
  go_status :: "string option"
  go_error :: "string option"
  go_results :: "geo_result list option"

section \<open>Places\<close>

record place_card =
  pc_googlePlaceId :: string
  pc_name :: string
  pc_address :: string
  pc_lat :: rat
  pc_lng :: rat
  pc_mapsUri :: "string option"
  pc_rating :: "rat option"
  pc_ratingCount :: "int option"
  pc_types :: "string list"
  pc_primaryType :: "string option"
  pc_photoUrl :: "string option"
  pc_openNow :: "bool option"
  pc_lines :: "string list option"

definition first_photo :: "google_place \<Rightarrow> string option" where
  "first_photo p = (case default_to (gp_photos p) [] of [] \<Rightarrow> None
     | x # xs \<Rightarrow> if truthy x then x else None)"

definition hour_lines :: "google_place \<Rightarrow> string list option" where
  "hour_lines p = or_else (Option.bind (gp_regular p) gh_lines) (Option.bind (gp_current p) gh_lines)"

definition mapPlaceSummary :: "(string \<Rightarrow> nat \<Rightarrow> string) \<Rightarrow> string option \<Rightarrow> google_place \<Rightarrow> place_card" where
  "mapPlaceSummary photo_url fallbackPlaceId p = \<lparr>
     pc_googlePlaceId = default_to (gp_id p) (default_to fallbackPlaceId []),
     pc_name = default_to (gp_name p) ''Lugar sin nombre'', pc_address = default_to (gp_address p) [],
     pc_lat = default_to (gp_lat p) 0, pc_lng = default_to (gp_lng p) 0, pc_mapsUri = gp_mapsUri p,
     pc_rating = gp_rating p, pc_ratingCount = gp_count p, pc_types = default_to (gp_types p) [],
     pc_primaryType = gp_primaryType p,
     pc_photoUrl = map_option (\<lambda>n. photo_url n 400) (first_photo p),
     pc_openNow = or_else (Option.bind (gp_current p) gh_openNow) (Option.bind (gp_regular p) gh_openNow),
     pc_lines = hour_lines p\<rparr>"

definition extractCityFromAddress :: "string option \<Rightarrow> string" where
  "extractCityFromAddress address =
     (if \<not> truthy address then []
      else let chunks = filter (\<lambda>c. c \<noteq> []) (map js_trim (split_on (CHR '','') (the address)))
           in if 2 \<le> length chunks then chunks ! (length chunks - 2)
              else case chunks of [] \<Rightarrow> [] | c # _ \<Rightarrow> c)"

record place_details =
  pds_sourcePlaceId :: string
  pds_name :: string
  pds_address :: string
  pds_city :: string
  pds_lat :: "rat option"
  pds_lng :: "rat option"
  pds_categories :: "string list"
  pds_rating :: "rat option"
  pds_ratingCount :: "int option"
  pds_phone :: "string option"
  pds_website :: "string option"
  pds_hours :: "string list option"
  pds_mapsUri :: "string option"
  pds_photoRef :: "string option"
  pds_photoUrl :: "string option"
  pds_synced :: int

text \<open>\<open>t\<close> is the time of the answer.\<close>

definition place_details_of :: "(string \<Rightarrow> nat \<Rightarrow> string) \<Rightarrow> int \<Rightarrow> string \<Rightarrow> google_place \<Rightarrow> place_details" where
  "place_details_of photo_url t normalizedPlaceId p =
     (let ref = (case default_to (gp_photos p) [] of [] \<Rightarrow> None | x # xs \<Rightarrow> x) in \<lparr>
      pds_sourcePlaceId = default_to (gp_id p) normalizedPlaceId,
      pds_name = default_to (gp_name p) ''Lugar sin nombre'', pds_address = default_to (gp_address p) [],
      pds_city = extractCityFromAddress (gp_address p), pds_lat = gp_lat p, pds_lng = gp_lng p,
      pds_categories = default_to (gp_types p) [], pds_rating = gp_rating p, pds_ratingCount = gp_count p,
      pds_phone = gp_phone p, pds_website = gp_website p, pds_hours = hour_lines p, pds_mapsUri = gp_mapsUri p,
      pds_photoRef = ref, pds_photoUrl = (if truthy ref then Some (photo_url (the ref) 400) else None),
      pds_synced = t\<rparr>)"

section \<open>Suggestions\<close>

record suggestion =
  sg_sourcePlaceId :: string
  sg_name :: string
  sg_address :: string
  sg_distance :: "rat option"

definition predictions :: "nat \<Rightarrow> place_prediction option list \<Rightarrow> place_prediction list" where
  "predictions limit xs = take limit (filter (\<lambda>p. truthy (pp_placeId p)) (map the (filter (\<lambda>x. x \<noteq> None) xs)))"

definition suggestions_of :: "nat \<Rightarrow> place_prediction option list \<Rightarrow> suggestion list" where
  "suggestions_of limit xs = map (\<lambda>p. \<lparr>sg_sourcePlaceId = the (pp_placeId p),
      sg_name = default_to (or_else (pp_main p) (pp_text p)) ''Lugar sin nombre'',
      sg_address = default_to (or_else (pp_secondary p) (pp_text p)) [], sg_distance = pp_distance p\<rparr>)
    (predictions limit xs)"

record city_summary =
  cs_city :: string
  cs_googlePlaceId :: string
  cs_displayName :: string
  cs_lat :: "rat option"
  cs_lng :: "rat option"

definition city_of_prediction :: "place_prediction \<Rightarrow> city_summary" where
  "city_of_prediction p =
     (let mainText = default_to (or_else (pp_main p) (pp_text p)) ''Ciudad'';
          secondaryText = default_to (pp_secondary p) []
      in \<lparr>cs_city = mainText, cs_googlePlaceId = the (pp_placeId p),
          cs_displayName = (if secondaryText \<noteq> [] then mainText @ '', '' @ secondaryText else mainText),
          cs_lat = None, cs_lng = None\<rparr>)"

fun first_by_key :: "('a \<Rightarrow> 'k) \<Rightarrow> 'k list \<Rightarrow> 'a list \<Rightarrow> 'a list" where
  "first_by_key k seen [] = []"
| "first_by_key k seen (x # xs) =
     (if k x \<in> set seen then first_by_key k seen xs else x # first_by_key k (k x # seen) xs)"

definition cities_of :: "nat \<Rightarrow> place_prediction option list \<Rightarrow> city_summary list" where
  "cities_of limit xs = first_by_key cs_googlePlaceId [] (map city_of_prediction (predictions limit xs))"

section \<open>Geocoding\<close>

definition city_types :: "string list" where
  "city_types = [''locality'', ''postal_town'', ''administrative_area_level_3'', ''administrative_area_level_2'',
     ''administrative_area_level_1'']"

definition has_type :: "string list option \<Rightarrow> string \<Rightarrow> bool" where
  "has_type ts t \<longleftrightarrow> t \<in> set (default_to ts [])"

fun component_name :: "string list \<Rightarrow> geo_component list \<Rightarrow> string option" where
  "component_name [] cs = None"
| "component_name (t # ts) cs =
     (case find (\<lambda>c. has_type (gc_types c) t) cs of
        Some c \<Rightarrow> if truthy (gc_long c) then gc_long c else component_name ts cs
      | None \<Rightarrow> component_name ts cs)"

definition extractCityName :: "geo_component list option \<Rightarrow> string option \<Rightarrow> string option" where
  "extractCityName components formattedAddress =
     (case component_name city_types (default_to components []) of
        Some n \<Rightarrow> Some n
      | None \<Rightarrow>
          if \<not> truthy formattedAddress then None
          else let n = js_trim (hd (split_on (CHR '','') (the formattedAddress))) in if n = [] then None else Some n)"

fun result_of_type :: "string list \<Rightarrow> geo_result list \<Rightarrow> geo_result option" where
  "result_of_type [] rs = None"
| "result_of_type (t # ts) rs =
     (case find (\<lambda>r. has_type (gr_types r) t) rs of Some r \<Rightarrow> Some r | None \<Rightarrow> result_of_type ts rs)"

definition pickBestCityGeocodeResult :: "geo_result list \<Rightarrow> geo_result option" where
  "pickBestCityGeocodeResult rs =
     (case result_of_type city_types rs of Some r \<Rightarrow> Some r
      | None \<Rightarrow> find (\<lambda>r. truthy (extractCityName (gr_components r) (gr_address r))) rs)"

definition mapGeocodeResultToCity :: "geo_result \<Rightarrow> city_summary option" where
  "mapGeocodeResultToCity r =
     (case (gr_place_id r, extractCityName (gr_components r) (gr_address r), gr_lat r, gr_lng r) of
        (Some i, Some city, Some lat, Some lng) \<Rightarrow>
          if i = [] \<or> city = [] then None
          else Some \<lparr>cs_city = city, cs_googlePlaceId = i, cs_displayName = default_to (gr_address r) city,
            cs_lat = Some lat, cs_lng = Some lng\<rparr>
      | _ \<Rightarrow> None)"

text \<open>\<open>fetchGeocodeJson\<close> rejects an answer with any other status.\<close>

definition geocode_payload :: "http_error + geo_response \<Rightarrow> http_error + geo_result list" where
  "geocode_payload r = (case r of Inl e \<Rightarrow> Inl e
   | Inr a \<Rightarrow>
       if truthy (go_status a) \<and> go_status a \<noteq> Some ''OK'' \<and> go_status a \<noteq> Some ''ZERO_RESULTS''
       then Inl (InternalError (js_trim (''Google geocoding request failed: '' @ the (go_status a) @ '' '' @ default_to (go_error a) [])))
       else Inr (default_to (go_results a) []))"

definition best_city :: "geo_result list \<Rightarrow> city_summary option" where
  "best_city rs = Option.bind (pickBestCityGeocodeResult rs) mapGeocodeResultToCity"

section \<open>The service\<close>

text \<open>\<open>ga_place\<close> and \<open>ga_view\<close> answer the two requests for one place, which ask for different fields.\<close>

record google_api =
  ga_place :: "string \<Rightarrow> http_error + google_place"
  ga_view :: "string \<Rightarrow> http_error + google_place"
  ga_city :: "string \<Rightarrow> http_error + geo_response"
  ga_reverse :: "rat \<times> rat \<Rightarrow> http_error + geo_response"
  ga_places :: "string \<Rightarrow> http_error + place_prediction option list option"
  ga_cities :: "string \<Rightarrow> http_error + place_prediction option list option"
  ga_search :: "string \<Rightarrow> http_error + google_place list option"

definition getPlaceDetails ::
  "google_api \<Rightarrow> (string \<Rightarrow> string option) \<Rightarrow> (string \<Rightarrow> nat \<Rightarrow> string) \<Rightarrow> int \<Rightarrow> string \<Rightarrow> http_error + place_details" where
  "getPlaceDetails api decode photo_url t placeId =
     (let i = normalizeGooglePlaceId decode placeId in map_sum id (place_details_of photo_url t i) (ga_place api i))"

definition getCityByPlaceId :: "google_api \<Rightarrow> string \<Rightarrow> http_error + city_summary" where
  "getCityByPlaceId api placeId = (case geocode_payload (ga_city api placeId) of Inl e \<Rightarrow> Inl e
     | Inr rs \<Rightarrow> (case best_city rs of
         None \<Rightarrow> Inl (InternalError ''City place ID did not resolve to a canonical city'') | Some c \<Rightarrow> Inr c))"

definition reverseGeocodeCity :: "google_api \<Rightarrow> rat \<times> rat \<Rightarrow> http_error + city_summary option" where
  "reverseGeocodeCity api p = map_sum id best_city (geocode_payload (ga_reverse api p))"

definition google_autocomplete :: "google_api \<Rightarrow> string \<Rightarrow> nat option \<Rightarrow> http_error + suggestion list" where
  "google_autocomplete api q limit =
     map_sum id (\<lambda>xs. suggestions_of (default_to limit 5) (default_to xs [])) (ga_places api q)"

definition google_autocompleteCities :: "google_api \<Rightarrow> string \<Rightarrow> nat option \<Rightarrow> http_error + city_summary list" where
  "google_autocompleteCities api q limit =
     map_sum id (\<lambda>xs. cities_of (default_to limit 5) (default_to xs [])) (ga_cities api q)"

text \<open>\<open>searchText\<close> and \<open>nearbySearch\<close> decode their answers alike; the query names the request.\<close>

definition google_search :: "google_api \<Rightarrow> (string \<Rightarrow> nat \<Rightarrow> string) \<Rightarrow> string \<Rightarrow> http_error + place_card list" where
  "google_search api photo_url query =
     map_sum id (\<lambda>ps. map (mapPlaceSummary photo_url None) (default_to ps [])) (ga_search api query)"

record place_detail_view =
  dt_card :: place_card
  dt_hours :: "string list option"
  dt_photos :: "string list"

definition getPlaceDetailView ::
  "google_api \<Rightarrow> (string \<Rightarrow> string option) \<Rightarrow> (string \<Rightarrow> nat \<Rightarrow> string) \<Rightarrow> string \<Rightarrow> http_error + place_detail_view" where
  "getPlaceDetailView api decode photo_url placeId =
     (let i = normalizeGooglePlaceId decode placeId in
      map_sum id (\<lambda>p. \<lparr>dt_card = mapPlaceSummary photo_url (Some i) p, dt_hours = hour_lines p,
        dt_photos = map (\<lambda>n. photo_url n 800) (take 1 (map the (filter truthy (default_to (gp_photos p) []))))\<rparr>)
        (ga_view api i))"

section \<open>What an answer can be\<close>

lemma first_by_key_distinct:
  "distinct (map k (first_by_key k seen xs)) \<and> set (map k (first_by_key k seen xs)) \<inter> set seen = {}"
  by (induction k seen xs rule: first_by_key.induct) auto

lemma geocode_city_located:
  "mapGeocodeResultToCity r = Some c \<Longrightarrow> cs_city c \<noteq> [] \<and> cs_googlePlaceId c \<noteq> [] \<and> cs_lat c \<noteq> None \<and> cs_lng c \<noteq> None"
  unfolding mapGeocodeResultToCity_def
  by (cases "gr_place_id r"; cases "extractCityName (gr_components r) (gr_address r)"; cases "gr_lat r"; cases "gr_lng r")
     (auto split: if_splits)

lemma best_city_located:
  "best_city rs = Some c \<Longrightarrow> cs_city c \<noteq> [] \<and> cs_googlePlaceId c \<noteq> [] \<and> cs_lat c \<noteq> None \<and> cs_lng c \<noteq> None"
  unfolding best_city_def bind_eq_Some_conv using geocode_city_located by blast

lemma find_segment_no_separator:
  "find_segment s = Some x \<Longrightarrow> x \<noteq> [] \<and> CHR ''/'' \<notin> set x"
  by (induction s rule: find_segment.induct)
     (auto simp: segment_after_def Let_def dest: set_takeWhileD split: option.splits if_splits)

lemma segment_after_no_separator:
  "segment_after p s = Some x \<Longrightarrow> x \<noteq> [] \<and> CHR ''/'' \<notin> set x"
  by (auto simp: segment_after_def Let_def dest: set_takeWhileD split: if_splits)

end
