(* ===== verification/PlaceResolution.thy ===== *)
theory PlaceResolution
  imports GooglePlaces
begin

text \<open>
  Resolving a Google place or city to a stored row (\<open>places-profile.service.ts\<close>, \<open>places-cities.service.ts\<close>,
  \<open>places-google-cache.service.ts\<close>) and the autocompletion (\<open>places-autocomplete.service.ts\<close>).  The cache is the
  record \<open>places_cache\<close> of the entries it holds when the request reads them; writing an entry and the single flight
  around a load are not effects on the database.
\<close>

section \<open>Configuration and cache\<close>

record places_config =
  pcf_hasKey :: bool
  pcf_localOnly :: bool

definition shouldUseGooglePlaces :: "places_config \<Rightarrow> bool" where
  "shouldUseGooglePlaces cfg \<longleftrightarrow> pcf_hasKey cfg \<and> \<not> pcf_localOnly cfg"

record places_cache =
  ch_city :: "string \<Rightarrow> city_row option"
  ch_reverse :: "rat \<times> rat \<Rightarrow> city_summary option option"
  ch_cities :: "string \<Rightarrow> city_summary list option"
  ch_detail :: "string \<Rightarrow> place_detail_view option"

text \<open>An entry that is null counts as a hit only with \<open>allowNull\<close>.\<close>

definition getCachedGoogleValue :: "bool \<Rightarrow> ('a \<Rightarrow> bool) \<Rightarrow> 'a option \<Rightarrow> 'a dbm \<Rightarrow> 'a dbm" where
  "getCachedGoogleValue allowNull isNull entry load = (case entry of
     Some v \<Rightarrow> if allowNull \<or> \<not> isNull v then ret v else load
   | None \<Rightarrow> load)"

text \<open>What the services need of the outside world.\<close>

record places_env =
  en_api :: google_api
  en_cfg :: places_config
  en_cache :: places_cache
  en_decode :: "string \<Rightarrow> string option"
  en_photo :: "string \<Rightarrow> nat \<Rightarrow> string"

abbreviation google_on :: "places_env \<Rightarrow> bool" where
  "google_on env \<equiv> shouldUseGooglePlaces (en_cfg env)"

section \<open>Cities\<close>

definition upsertCitySummary :: "city_summary \<Rightarrow> city_row dbm" where
  "upsertCitySummary c = upsertCity \<lparr>cin_googlePlaceId = cs_googlePlaceId c, cin_name = cs_city c,
     cin_displayName = cs_displayName c, cin_lat = cs_lat c, cin_lng = cs_lng c\<rparr>"

definition ensureStoredCityByGooglePlaceId :: "places_env \<Rightarrow> string \<Rightarrow> city_row dbm" where
  "ensureStoredCityByGooglePlaceId env gid =
     catchS (getCachedGoogleValue False (\<lambda>_. False) (ch_city (en_cache env) gid)
        (bindS (gets (findCityByGooglePlaceId gid)) (\<lambda>existing. case existing of
           Some c \<Rightarrow> ret c
         | None \<Rightarrow>
             if \<not> google_on env then throw (InternalError ''City not found in local-only places mode'')
             else bindS (liftE (getCityByPlaceId (en_api env) gid)) upsertCitySummary)))
       (\<lambda>_. throw (BadRequest ''Invalid cityGooglePlaceId''))"

definition getCachedReverseGeocodeCity :: "places_env \<Rightarrow> rat \<times> rat \<Rightarrow> city_summary option dbm" where
  "getCachedReverseGeocodeCity env p =
     getCachedGoogleValue True (\<lambda>v. v = None) (ch_reverse (en_cache env) p) (liftE (reverseGeocodeCity (en_api env) p))"

definition ensureStoredCityForCoordinates :: "places_env \<Rightarrow> rat option \<Rightarrow> rat option \<Rightarrow> city_row dbm" where
  "ensureStoredCityForCoordinates env lat lng = (case (lat, lng) of
     (Some la, Some lo) \<Rightarrow>
       if \<not> google_on env then throw (BadGateway ''Local-only places mode cannot resolve city from coordinates'')
       else bindS (getCachedReverseGeocodeCity env (la, lo)) (\<lambda>cached.
            bindS (case cached of Some c \<Rightarrow> ret (Some c) | None \<Rightarrow> liftE (reverseGeocodeCity (en_api env) (la, lo))) (\<lambda>city.
            bindS (require (BadGateway ''Could not resolve city for place'') city) upsertCitySummary))
   | _ \<Rightarrow> throw (BadGateway ''Resolved place is missing coordinates''))"

definition reverseGeocodeCity_service :: "places_env \<Rightarrow> rat \<times> rat \<Rightarrow> city_summary dbm" where
  "reverseGeocodeCity_service env p =
     seqS (throw_if (\<not> google_on env) (NotFound ''City not found in local-only places mode''))
     (bindS (getCachedReverseGeocodeCity env p)
       (require (NotFound ''City not found for the provided coordinates'')))"

definition city_row_summary :: "city_row \<Rightarrow> city_summary" where
  "city_row_summary c = \<lparr>cs_city = ci_name c, cs_googlePlaceId = ci_google_id c, cs_displayName = ci_display c,
     cs_lat = ci_lat c, cs_lng = ci_lng c\<rparr>"

definition resolveCityByGooglePlaceId :: "places_env \<Rightarrow> string \<Rightarrow> city_summary dbm" where
  "resolveCityByGooglePlaceId env gid = bindS (ensureStoredCityByGooglePlaceId env gid) (\<lambda>c. ret (city_row_summary c))"

definition autocompleteCities :: "places_env \<Rightarrow> (string \<Rightarrow> string \<Rightarrow> bool) \<Rightarrow> string \<Rightarrow> nat \<Rightarrow> city_summary list dbm" where
  "autocompleteCities env collate q limit =
     (if length (js_trim q) < 2 then ret []
      else if \<not> google_on env then gets (\<lambda>w. map city_row_summary (searchCities collate q limit w))
      else catchS (getCachedGoogleValue False (\<lambda>_. False) (ch_cities (en_cache env) q)
             (liftE (google_autocompleteCities (en_api env) q (Some limit)))) (\<lambda>_. ret []))"

section \<open>Places\<close>

definition details_input :: "place_details \<Rightarrow> city_row \<Rightarrow> place_input" where
  "details_input d city = \<lparr>pn_id = None, pn_source = SrcGoogle, pn_sourcePlaceId = Some (pds_sourcePlaceId d),
     pn_name = pds_name d, pn_address = pds_address d, pn_city = ci_name city, pn_cityId = Some (ci_id city),
     pn_lat = pds_lat d, pn_lng = pds_lng d, pn_categories = pds_categories d, pn_rating = pds_rating d,
     pn_ratingCount = pds_ratingCount d, pn_phone = pds_phone d, pn_website = pds_website d, pn_hours = pds_hours d,
     pn_mapsUri = pds_mapsUri d, pn_photoRef = pds_photoRef d, pn_photoUrl = pds_photoUrl d,
     pn_synced = Some (pds_synced d), pn_hidden = None\<rparr>"

definition backfill_input :: "string \<Rightarrow> place_row \<Rightarrow> place_details \<Rightarrow> city_row \<Rightarrow> place_input" where
  "backfill_input gid e d city = \<lparr>pn_id = None, pn_source = pl_source e,
     pn_sourcePlaceId = or_else (pl_google_id e) (Some gid),
     pn_name = pds_name d, pn_address = pds_address d, pn_city = ci_name city,
     pn_cityId = or_else (pl_city_id e) (Some (ci_id city)),
     pn_lat = or_else (pds_lat d) (pl_lat e), pn_lng = or_else (pds_lng d) (pl_lng e),
     pn_categories = (if pds_categories d \<noteq> [] then pds_categories d else pl_categories e),
     pn_rating = or_else (pds_rating d) (pl_rating e), pn_ratingCount = or_else (pds_ratingCount d) (pl_rating_count e),
     pn_phone = or_else (pds_phone d) (pl_phone e), pn_website = or_else (pds_website d) (pl_website e),
     pn_hours = Some (case pds_hours d of Some (l # ls) \<Rightarrow> l # ls | _ \<Rightarrow> pl_hours e),
     pn_mapsUri = or_else (pds_mapsUri d) (pl_maps_uri e), pn_photoRef = or_else (pds_photoRef d) (pl_photo_ref e),
     pn_photoUrl = or_else (pds_photoUrl d) (pl_photo e), pn_synced = Some (pds_synced d), pn_hidden = None\<rparr>"

text \<open>\<open>None\<close> is the null that \<open>return existing!\<close> lets through.\<close>

definition resolve_place :: "places_env \<Rightarrow> place_source \<Rightarrow> string \<Rightarrow> place_row option dbm" where
  "resolve_place env source rawId =
     (let gid = normalizeGooglePlaceId (en_decode env) rawId in
      if gid = [] then throw (BadRequest ''sourcePlaceId is required'')
      else bindS (gets (getPlaceBySource source gid)) (\<lambda>existing.
        if (case existing of None \<Rightarrow> False | Some e \<Rightarrow> truthy (pl_photo e)) \<or> \<not> google_on env then ret existing
        else bindS now (\<lambda>t. case existing of
            Some e \<Rightarrow>
              catchS (bindS (liftE (getPlaceDetails (en_api env) (en_decode env) (en_photo env) t gid)) (\<lambda>d.
                 bindS (ensureStoredCityForCoordinates env (or_else (pds_lat d) (pl_lat e)) (or_else (pds_lng d) (pl_lng e)))
                   (\<lambda>city. bindS (upsertPlace (backfill_input gid e d city)) (\<lambda>p. ret (Some p)))))
                (\<lambda>_. ret (Some e))
          | None \<Rightarrow>
              catchS (bindS (liftE (getPlaceDetails (en_api env) (en_decode env) (en_photo env) t gid)) (\<lambda>d.
                 bindS (ensureStoredCityForCoordinates env (pds_lat d) (pds_lng d))
                   (\<lambda>city. bindS (upsertPlace (details_input d city)) (\<lambda>p. ret (Some p)))))
                (\<lambda>_. throw (BadGateway ''Could not resolve place from Google Places'')))))"

text \<open>The callers read \<open>place.id\<close>, which throws a \<open>TypeError\<close> on null.\<close>

definition resolver :: "places_env \<Rightarrow> string \<Rightarrow> string option \<Rightarrow> place_row dbm" where
  "resolver env googlePlaceId sessionToken =
     bindS (resolve_place env SrcGoogle googlePlaceId) (require (InternalError ''TypeError''))"

definition createManualPlace_service ::
  "places_env \<Rightarrow> string \<Rightarrow> string \<Rightarrow> string \<Rightarrow> string \<Rightarrow> rat option \<Rightarrow> rat option \<Rightarrow> place_row dbm" where
  "createManualPlace_service env cityGooglePlaceId name address city lat lng =
     bindS (ensureStoredCityByGooglePlaceId env cityGooglePlaceId) (\<lambda>c.
       createManualPlace name address city (ci_id c) lat lng)"

section \<open>Autocompletion\<close>

record autocomplete_item =
  au_id :: string
  au_source :: place_source
  au_sourcePlaceId :: "string option"
  au_placeId :: "string option"
  au_name :: string
  au_address :: string
  au_city :: string
  au_lat :: "rat option"
  au_lng :: "rat option"
  au_categories :: "string list"
  au_photoUrl :: "string option"
  au_rating :: "rat option"
  au_ratingCount :: "int option"
  au_distance :: "rat option"
  au_inFeca :: bool

record autocomplete_payload =
  al_items :: "autocomplete_item list"
  al_prefillName :: string
  al_providerAvailable :: bool

definition local_item :: "place_row \<Rightarrow> autocomplete_item" where
  "local_item p = \<lparr>au_id = pl_id p, au_source = pl_source p, au_sourcePlaceId = pl_google_id p,
     au_placeId = Some (pl_id p), au_name = pl_name p, au_address = pl_address p, au_city = pl_city p,
     au_lat = pl_lat p, au_lng = pl_lng p, au_categories = pl_categories p, au_photoUrl = pl_photo p,
     au_rating = pl_rating p, au_ratingCount = pl_rating_count p, au_distance = None, au_inFeca = True\<rparr>"

definition remote_item :: "string option \<Rightarrow> suggestion \<Rightarrow> place_row option \<Rightarrow> string \<Rightarrow> autocomplete_item" where
  "remote_item city s existing key = \<lparr>au_id = key, au_source = SrcGoogle, au_sourcePlaceId = Some (sg_sourcePlaceId s),
     au_placeId = map_option pl_id existing, au_name = sg_name s, au_address = sg_address s,
     au_city = default_to city [], au_lat = None, au_lng = None, au_categories = [], au_photoUrl = None,
     au_rating = None, au_ratingCount = None, au_distance = sg_distance s, au_inFeca = (existing \<noteq> None)\<rparr>"

fun merge_remote ::
  "string option \<Rightarrow> db \<Rightarrow> (string \<times> autocomplete_item) list \<Rightarrow> suggestion list \<Rightarrow> (string \<times> autocomplete_item) list" where
  "merge_remote city w m [] = m"
| "merge_remote city w m (s # ss) =
     (let existing = getPlaceBySource SrcGoogle (sg_sourcePlaceId s) w;
          key = (case existing of Some e \<Rightarrow> pl_id e | None \<Rightarrow> ''google:'' @ sg_sourcePlaceId s)
      in merge_remote city w (if key \<in> set (map fst m) then m else put_entry key (remote_item city s existing key) m) ss)"

definition not_hidden :: "string list \<Rightarrow> autocomplete_item \<Rightarrow> bool" where
  "not_hidden hidden i = (let g = js_trim (default_to (au_sourcePlaceId i) []) in g = [] \<or> g \<notin> set hidden)"

definition autocomplete ::
  "places_env \<Rightarrow> (string \<Rightarrow> string \<Rightarrow> bool) \<Rightarrow> (string \<Rightarrow> autocomplete_payload option) \<Rightarrow> string \<Rightarrow> string option \<Rightarrow> nat
     \<Rightarrow> db \<Rightarrow> autocomplete_payload" where
  "autocomplete env collate cached q city limit w =
     (let localItems = map local_item (searchPlaces collate q city limit w);
          payload = (\<lambda>items available. \<lparr>al_items = items, al_prefillName = js_trim q, al_providerAvailable = available\<rparr>)
      in if \<not> google_on env \<or> length (js_trim q) < 2 then payload localItems (google_on env)
         else case cached q of Some p \<Rightarrow> p
         | None \<Rightarrow> (case google_autocomplete (en_api env) q (Some limit) of
             Inl _ \<Rightarrow> payload localItems False
           | Inr remoteItems \<Rightarrow>
               let merged = merge_remote city w (foldl (\<lambda>m i. put_entry (default_to (au_placeId i) (au_id i)) i m) [] localItems) remoteItems;
                   visibleMerged = filter (not_hidden (getHiddenGooglePlaceIds w)) (map snd merged)
               in payload (take limit visibleMerged) True))"

section \<open>Resolving a stored place\<close>

text \<open>A city is looked up without touching the places, whatever Google answers.\<close>

lemma keeps_liftE_bind: "(\<And>a. keeps P (f a)) \<Longrightarrow> keeps P (bindS (liftE r) f)"
  by (rule keeps_bind [OF keeps_liftE])

lemma keeps_upsertCitySummary: "keeps (\<lambda>w. t_places w = ps \<and> Q w) (upsertCitySummary c)"
  if "\<And>w cs n. Q w \<Longrightarrow> Q (w\<lparr>t_cities := cs\<rparr>)" "\<And>w n. Q w \<Longrightarrow> Q (w\<lparr>db_next := n\<rparr>)"
  unfolding upsertCitySummary_def upsertCity_def
  by (rule keepsI) (auto simp: bindS_apply seqS_apply now_apply Let_def fresh_id_apply that split: option.splits)

lemma keeps_ensureCityForCoordinates:
  "keeps (\<lambda>w. t_places w = ps) (ensureStoredCityForCoordinates env lat lng)"
proof -
  have u: "keeps (\<lambda>w. t_places w = ps) (upsertCitySummary c)" for c
    using keeps_upsertCitySummary [of "\<lambda>_. True" ps c] by simp
  show ?thesis
    unfolding ensureStoredCityForCoordinates_def getCachedReverseGeocodeCity_def getCachedGoogleValue_def
    by (auto intro!: keeps_intro u split: option.splits)
qed

lemma upsertPlace_ids:
  assumes "existing_place input w = Some e"
  shows "map pl_id (t_places (snd (upsertPlace input w))) = map pl_id (t_places w)
     \<and> (\<forall>p. fst (upsertPlace input w) = Inr p \<longrightarrow> pl_id p = pl_id e)"
proof -
  have "pl_id (place_data input t r) = pl_id r" for t r by (simp add: place_data_def)
  then have "map pl_id (update_many q (place_data input t) rows) = map pl_id rows" for q t rows
    by (rule map_key_update_many)
  then show ?thesis using assms by (simp add: upsertPlace_def seqS_apply place_data_def)
qed

lemma backfill_finds:
  assumes "getPlaceBySource src gid w = Some e" "gid \<noteq> []" "t_places w1 = t_places w"
  shows "existing_place (backfill_input gid e d city) w1 = Some e"
proof -
  have "pl_source e = src" "pl_google_id e = Some gid"
    using find_unique_Some [OF assms(1) [unfolded getPlaceBySource_def]] by simp_all
  then show ?thesis using assms by (simp add: existing_place_def backfill_input_def truthy_def getPlaceBySource_def)
qed

text \<open>A place that is stored always resolves to its own row, whatever Google and the cache answer and whether or not
  Google is reachable, and no row is added or dropped on the way.\<close>

theorem stored_place_resolves:
  assumes "normalizeGooglePlaceId (en_decode env) rawId = gid" "gid \<noteq> []" "getPlaceBySource src gid w = Some e"
  shows "\<exists>p w'. resolve_place env src rawId w = (Inr (Some p), w') \<and> pl_id p = pl_id e
     \<and> map pl_id (t_places w') = map pl_id (t_places w)"
proof (cases "truthy (pl_photo e) \<or> \<not> google_on env")
  case True
  then show ?thesis using assms by (simp add: resolve_place_def Let_def)
next
  case False
  let ?m = "bindS (liftE (getPlaceDetails (en_api env) (en_decode env) (en_photo env) (db_now w) gid)) (\<lambda>d.
     bindS (ensureStoredCityForCoordinates env (or_else (pds_lat d) (pl_lat e)) (or_else (pds_lng d) (pl_lng e)))
       (\<lambda>city. bindS (upsertPlace (backfill_input gid e d city)) (\<lambda>p. ret (Some p))))"
  have run: "resolve_place env src rawId w = catchS ?m (\<lambda>_. ret (Some e)) w"
    using False assms by (simp add: resolve_place_def Let_def)
  have m: "map pl_id (t_places (snd (?m w))) = map pl_id (t_places w)
     \<and> (\<forall>x. fst (?m w) = Inr x \<longrightarrow> (\<exists>p. x = Some p \<and> pl_id p = pl_id e))"
  proof (cases "getPlaceDetails (en_api env) (en_decode env) (en_photo env) (db_now w) gid")
    case (Inr d)
    let ?c = "ensureStoredCityForCoordinates env (or_else (pds_lat d) (pl_lat e)) (or_else (pds_lng d) (pl_lng e))"
    obtain r w1 where c: "?c w = (r, w1)" by force
    have t: "t_places w1 = t_places w"
      using keepsD [OF keeps_ensureCityForCoordinates, of w] c by (metis snd_conv)
    show ?thesis
    proof (cases r)
      case (Inl x)
      then show ?thesis using c t Inr by (simp add: bindS_apply)
    next
      case (Inr city)
      obtain q w2 where u: "upsertPlace (backfill_input gid e d city) w1 = (q, w2)" by force
      have "map pl_id (t_places w2) = map pl_id (t_places w1)" "\<And>p. q = Inr p \<Longrightarrow> pl_id p = pl_id e"
        using upsertPlace_ids [OF backfill_finds [OF assms(3,2) t], of d city] u by simp_all
      then show ?thesis using c t u Inr \<open>getPlaceDetails _ _ _ _ _ = Inr d\<close>
        by (cases q) (simp_all add: bindS_apply)
    qed
  qed (simp add: bindS_apply)
  obtain r w' where r: "?m w = (r, w')" by force
  show ?thesis
  proof (cases r)
    case (Inl x)
    then show ?thesis using m run r by (simp add: catchS_apply)
  next
    case (Inr x)
    then show ?thesis using m run r by (auto simp: catchS_apply)
  qed
qed

definition silent_google :: google_api where
  "silent_google = \<lparr>ga_place = \<lambda>_. Inl (InternalError []), ga_view = \<lambda>_. Inl (InternalError []), ga_city = \<lambda>_. Inl (InternalError []),
     ga_reverse = \<lambda>_. Inl (InternalError []), ga_places = \<lambda>_. Inl (InternalError []),
     ga_cities = \<lambda>_. Inl (InternalError []), ga_search = \<lambda>_. Inl (InternalError [])\<rparr>"

definition sample_env :: "bool \<Rightarrow> places_env" where
  "sample_env localOnly = \<lparr>en_api = silent_google, en_cfg = \<lparr>pcf_hasKey = True, pcf_localOnly = localOnly\<rparr>,
     en_cache = \<lparr>ch_city = \<lambda>_. None, ch_reverse = \<lambda>_. None, ch_cities = \<lambda>_. None, ch_detail = \<lambda>_. None\<rparr>,
     en_decode = Some, en_photo = \<lambda>n k. n\<rparr>"

definition google_place_row :: "string \<Rightarrow> string \<Rightarrow> place_row" where
  "google_place_row i g = (blank_place i 0)\<lparr>pl_source := SrcGoogle, pl_google_id := Some g\<rparr>"

theorem stored_place_resolves_witness:
  "\<exists>p w'. resolve_place (sample_env False) SrcGoogle ''places/g1'' (empty_db 0\<lparr>t_places := [google_place_row ''p'' ''g1'']\<rparr>)
     = (Inr (Some p), w') \<and> pl_id p = ''p''"
proof -
  have n: "normalizeGooglePlaceId (en_decode (sample_env False)) ''places/g1'' = ''g1''" by code_simp
  have g: "getPlaceBySource SrcGoogle ''g1'' (empty_db 0\<lparr>t_places := [google_place_row ''p'' ''g1'']\<rparr>)
     = Some (google_place_row ''p'' ''g1'')"
    by (simp add: getPlaceBySource_def google_place_row_def blank_place_def)
  have "pl_id (google_place_row ''p'' ''g1'') = ''p''" by (simp add: google_place_row_def blank_place_def)
  with stored_place_resolves [OF n _ g] show ?thesis by auto
qed

section \<open>Hidden places are not suggested\<close>

lemma foldl_put_mem:
  "(j, y) \<in> set (foldl (\<lambda>m i. put_entry (f i) i m) m xs) \<Longrightarrow> (j, y) \<in> set m \<or> y \<in> set xs"
  by (induction xs arbitrary: m) (auto dest: put_entry_mem)

definition remote_of :: "string option \<Rightarrow> db \<Rightarrow> autocomplete_item \<Rightarrow> bool" where
  "remote_of city w y \<longleftrightarrow> (\<exists>s key. y = remote_item city s (getPlaceBySource SrcGoogle (sg_sourcePlaceId s) w) key)"

lemma merge_remote_mem:
  "(j, y) \<in> set (merge_remote city w m ss) \<Longrightarrow> (j, y) \<in> set m \<or> remote_of city w y"
proof (induction ss arbitrary: m)
  case (Cons s ss)
  then show ?case unfolding merge_remote.simps Let_def
    by (auto simp: remote_of_def split: if_splits dest!: Cons.IH put_entry_mem)
qed simp

lemma hidden_ids_mem:
  assumes "p \<in> set (t_places w)" "pl_hidden p" "pl_google_id p = Some g" "js_trim g \<noteq> []"
  shows "js_trim g \<in> set (getHiddenGooglePlaceIds w)"
proof -
  have "p \<in> set (find_many (\<lambda>p. pl_hidden p \<and> pl_google_id p \<noteq> None) (t_places w))" using assms by simp
  then have "js_trim (the (pl_google_id p)) \<in> set (map (\<lambda>p. js_trim (the (pl_google_id p)))
      (find_many (\<lambda>p. pl_hidden p \<and> pl_google_id p \<noteq> None) (t_places w)))"
    unfolding set_map by (rule imageI)
  then show ?thesis using assms(3,4) by (simp add: getHiddenGooglePlaceIds_def)
qed

lemma search_visible: "p \<in> set (searchPlaces collate q city limit w) \<Longrightarrow> p \<in> set (t_places w) \<and> \<not> pl_hidden p"
  unfolding searchPlaces_def Let_def by (drule in_set_takeD) simp

text \<open>A place hidden from the app is never suggested, neither from the database nor when Google names it again.\<close>

theorem autocomplete_hides:
  assumes "unique_key pl_id (t_places w)" "cached q = None"
    "list_all (\<lambda>p. pl_google_id p = None \<or> js_trim (the (pl_google_id p)) \<noteq> []) (t_places w)"
    "h \<in> set (t_places w)" "pl_hidden h"
  shows "list_all (\<lambda>i. au_placeId i \<noteq> Some (pl_id h)) (al_items (autocomplete env collate cached q city limit w))"
proof -
  let ?local = "map local_item (searchPlaces collate q city limit w)"
  have same: "p = h" if "p \<in> set (t_places w)" "pl_id p = pl_id h" for p
    using distinct_map_filter_unique [OF assms(1) that(1) assms(4)] that(2) by simp
  have l: "au_placeId i \<noteq> Some (pl_id h)" if i: "i \<in> set ?local" for i
  proof -
    obtain p where p: "i = local_item p" "p \<in> set (searchPlaces collate q city limit w)"
      using i by auto
    show ?thesis using p(1) search_visible [OF p(2)] same [of p] assms(5) by (auto simp: local_item_def)
  qed
  have r: "au_placeId y \<noteq> Some (pl_id h)"
    if y: "remote_of city w y" "not_hidden (getHiddenGooglePlaceIds w) y" for y
  proof
    assume a: "au_placeId y = Some (pl_id h)"
    obtain s key where s: "y = remote_item city s (getPlaceBySource SrcGoogle (sg_sourcePlaceId s) w) key"
      using y(1) unfolding remote_of_def by blast
    then obtain p where p: "getPlaceBySource SrcGoogle (sg_sourcePlaceId s) w = Some p" "pl_id p = pl_id h"
      using a by (auto simp: remote_item_def)
    have m: "p \<in> set (t_places w)" "pl_google_id p = Some (sg_sourcePlaceId s)"
      using find_unique_Some [OF p(1) [unfolded getPlaceBySource_def]] by simp_all
    have "p = h" using same m(1) p(2) by blast
    then have g: "pl_google_id h = Some (sg_sourcePlaceId s)" using m(2) by simp
    have t: "js_trim (sg_sourcePlaceId s) \<noteq> []" using assms(3,4) g by (auto simp: list_all_iff)
    show False using hidden_ids_mem [OF assms(4,5) g t] y(2) t
      by (simp add: not_hidden_def s remote_item_def Let_def)
  qed
  show ?thesis
  proof (cases "\<not> google_on env \<or> length (js_trim q) < 2")
    case True
    then show ?thesis using l by (simp add: autocomplete_def Let_def list_all_iff)
  next
    case False
    show ?thesis
    proof (cases "google_autocomplete (en_api env) q (Some limit)")
      case (Inl e)
      then show ?thesis using False l assms(2) by (simp add: autocomplete_def Let_def list_all_iff)
    next
      case (Inr remote)
      let ?m = "merge_remote city w
             (foldl (\<lambda>m i. put_entry (default_to (au_placeId i) (au_id i)) i m) [] ?local) remote"
      have items: "al_items (autocomplete env collate cached q city limit w)
          = take limit (filter (not_hidden (getHiddenGooglePlaceIds w)) (map snd ?m))"
        using False assms(2) Inr by (simp add: autocomplete_def Let_def)
      have "au_placeId y \<noteq> Some (pl_id h)"
        if "y \<in> set (al_items (autocomplete env collate cached q city limit w))" for y
      proof -
        have "y \<in> set (filter (not_hidden (getHiddenGooglePlaceIds w)) (map snd ?m))"
          using that unfolding items by (rule in_set_takeD)
        then have n: "not_hidden (getHiddenGooglePlaceIds w) y" and "y \<in> snd ` set ?m" by simp_all
        then obtain j where "(j, y) \<in> set ?m" by force
        then show ?thesis
          using merge_remote_mem [of j y city w _ remote] foldl_put_mem [of j y _ "[]" ?local] l r [OF _ n] by fastforce
      qed
      then show ?thesis by (simp add: list_all_iff)
    qed
  qed
qed

theorem autocomplete_hides_witness:
  "list_all (\<lambda>i. au_placeId i \<noteq> Some ''p'') (al_items (autocomplete (sample_env True) (\<lambda>a b. True) (\<lambda>_. None) ''cafe'' None 5
     (empty_db 0\<lparr>t_places := [(google_place_row ''p'' ''g1'')\<lparr>pl_hidden := True, pl_name := ''cafe''\<rparr>]\<rparr>)))"
proof -
  have g: "js_trim ''g1'' \<noteq> []" by code_simp
  show ?thesis
    using autocomplete_hides [of "empty_db 0\<lparr>t_places := [(google_place_row ''p'' ''g1'')\<lparr>pl_hidden := True, pl_name := ''cafe''\<rparr>]\<rparr>"
        "\<lambda>_. None" "''cafe''" "(google_place_row ''p'' ''g1'')\<lparr>pl_hidden := True, pl_name := ''cafe''\<rparr>"
        "sample_env True" "\<lambda>a b. True" None 5] g
    by (simp add: google_place_row_def blank_place_def)
qed

end
