(* ===== verification/Backfill.thy ===== *)
theory Backfill
  imports PlaceResolution AuthSessions
begin

text \<open>
  The maintenance script \<open>src/scripts/backfill-city-ids.ts\<close>: it looks up the city of every place and every user without
  one and, unless it runs dry, stores it.

  Google is the record \<open>google_api\<close> of its answers, as for the services; the canonical decomposition of Unicode is the
  argument \<open>unmark\<close> (it drops the combining marks), and the text of an error is \<open>message_of\<close>.  The users' last update,
  which the data model leaves out, only orders the loop: \<open>by_updated\<close> sorts the rows.  Writing the report to its file is
  outside.
\<close>

section \<open>The script\<close>

record backfill_env =
  bf_api :: google_api
  bf_decode :: "string \<Rightarrow> string option"
  bf_photo :: "string \<Rightarrow> nat \<Rightarrow> string"
  bf_unmark :: "string \<Rightarrow> string"
  bf_message_of :: "http_error \<Rightarrow> string"
  bf_by_updated :: "user_row list \<Rightarrow> user_row list"
  bf_dryRun :: bool

record backfill_counts =
  bc_failed :: nat
  bc_processed :: nat
  bc_unresolved :: nat
  bc_updated :: nat

record unresolved_row =
  un_id :: string
  un_reason :: string
  un_detail :: "string option"

record backfill_report =
  br_dryRun :: bool
  br_startedAt :: int
  br_completedAt :: "int option"
  br_places :: backfill_counts
  br_unresolvedPlaces :: "unresolved_row list"
  br_users :: backfill_counts
  br_unresolvedUsers :: "unresolved_row list"

definition normalizeCityName :: "(string \<Rightarrow> string) \<Rightarrow> string \<Rightarrow> string" where
  "normalizeCityName unmark v = js_lower (js_trim (unmark v))"

definition resolveCityForCoordinates :: "google_api \<Rightarrow> rat option \<Rightarrow> rat option \<Rightarrow> city_row option dbm" where
  "resolveCityForCoordinates api lat lng = (case (lat, lng) of
     (Some la, Some lo) \<Rightarrow>
       bindS (liftE (reverseGeocodeCity api (la, lo))) (\<lambda>city. case city of
         None \<Rightarrow> ret None
       | Some c \<Rightarrow> bindS (upsertCitySummary c) (\<lambda>row. ret (Some row)))
   | _ \<Rightarrow> ret None)"

definition exact_city :: "(string \<Rightarrow> string) \<Rightarrow> string \<Rightarrow> city_summary list \<Rightarrow> city_summary option" where
  "exact_city unmark query candidates =
     (let normalizedQuery = normalizeCityName unmark query in
      case find (\<lambda>c. normalizeCityName unmark (cs_city c) = normalizedQuery) candidates of
        Some c \<Rightarrow> Some c
      | None \<Rightarrow> find (\<lambda>c. hd (split_on CHR '','' (normalizeCityName unmark (cs_displayName c))) = normalizedQuery) candidates)"

definition resolveCityForName :: "google_api \<Rightarrow> (string \<Rightarrow> string) \<Rightarrow> string \<Rightarrow> city_row option dbm" where
  "resolveCityForName api unmark rawCity =
     (let query = js_trim rawCity in
      if query = [] then ret None
      else bindS (liftE (google_autocompleteCities api query (Some 5))) (\<lambda>candidates.
        case exact_city unmark query candidates of
          Some c \<Rightarrow> bindS (upsertCitySummary c) (\<lambda>row. ret (Some row))
        | None \<Rightarrow> if length candidates \<noteq> 1 then ret None
            else bindS (upsertCitySummary (hd candidates)) (\<lambda>row. ret (Some row))))"

definition set_place_city :: "string \<Rightarrow> string \<Rightarrow> unit dbm" where
  "set_place_city pid cid =
     bindS now (\<lambda>t.
     bindS (gets (\<lambda>w. find_unique (\<lambda>p. pl_id p = pid) (t_places w))) (\<lambda>p.
     bindS (require (PrismaError ''P2025'') p) (\<lambda>_.
       modify (\<lambda>w. w\<lparr>t_places := update_many (\<lambda>p. pl_id p = pid) (\<lambda>p. p\<lparr>pl_city_id := Some cid, pl_updated := t\<rparr>) (t_places w)\<rparr>))))"

definition city_of_place :: "backfill_env \<Rightarrow> place_row \<Rightarrow> city_row option dbm" where
  "city_of_place env p =
     bindS (resolveCityForCoordinates (bf_api env) (pl_lat p) (pl_lng p)) (\<lambda>city.
       if city = None \<and> truthy (pl_google_id p)
       then bindS now (\<lambda>t. bindS (liftE (getPlaceDetails (bf_api env) (bf_decode env) (bf_photo env) t (the (pl_google_id p))))
              (\<lambda>d. resolveCityForCoordinates (bf_api env) (pds_lat d) (pds_lng d)))
       else ret city)"

definition city_of_user :: "backfill_env \<Rightarrow> user_row \<Rightarrow> city_row option dbm" where
  "city_of_user env u =
     bindS (resolveCityForCoordinates (bf_api env) (u_lat u) (u_lng u)) (\<lambda>city.
       if city = None \<and> truthy (u_city u) then resolveCityForName (bf_api env) (bf_unmark env) (the (u_city u))
       else ret city)"

text \<open>The body of both loops: find the city, store it, count what happened; an error is counted and reported.\<close>

definition backfill_row ::
    "backfill_env \<Rightarrow> ('row \<Rightarrow> string) \<Rightarrow> ('row \<Rightarrow> string option) \<Rightarrow> ('row \<Rightarrow> city_row option dbm) \<Rightarrow> (string \<Rightarrow> string \<Rightarrow> unit dbm)
     \<Rightarrow> backfill_counts \<times> unresolved_row list \<Rightarrow> 'row \<Rightarrow> (backfill_counts \<times> unresolved_row list) dbm" where
  "backfill_row env row_id detail city_of store r x =
     (let c = (fst r)\<lparr>bc_processed := bc_processed (fst r) + 1\<rparr>;
          missed = (\<lambda>why. snd r @ [\<lparr>un_id = row_id x, un_reason = why, un_detail = detail x\<rparr>])
      in catchS
        (bindS (city_of x) (\<lambda>city. case city of
           None \<Rightarrow> ret (c\<lparr>bc_unresolved := bc_unresolved c + 1\<rparr>, missed ''no_city_candidate'')
         | Some row \<Rightarrow> seqS (if bf_dryRun env then ret () else store (row_id x) (ci_id row))
             (ret (c\<lparr>bc_updated := bc_updated c + 1\<rparr>, snd r))))
        (\<lambda>e. ret (c\<lparr>bc_failed := bc_failed c + 1\<rparr>, missed (bf_message_of env e))))"

primrec for_each :: "('r \<Rightarrow> 'a \<Rightarrow> 'r dbm) \<Rightarrow> 'r \<Rightarrow> 'a list \<Rightarrow> 'r dbm" where
  "for_each f r [] = ret r"
| "for_each f r (x # xs) = bindS (f r x) (\<lambda>r'. for_each f r' xs)"

definition places_without_city :: "db \<Rightarrow> place_row list" where
  "places_without_city w = sort_by (\<lambda>a b. pl_updated b \<le> pl_updated a) (find_many (\<lambda>p. pl_city_id p = None) (t_places w))"

definition users_without_city :: "backfill_env \<Rightarrow> db \<Rightarrow> user_row list" where
  "users_without_city env w = bf_by_updated env
     (find_many (\<lambda>u. u_city_id u = None \<and> (u_city u \<noteq> None \<or> u_lat u \<noteq> None \<and> u_lng u \<noteq> None)) (t_users w))"

definition no_counts :: backfill_counts where
  "no_counts = \<lparr>bc_failed = 0, bc_processed = 0, bc_unresolved = 0, bc_updated = 0\<rparr>"

definition set_user_city :: "string \<Rightarrow> string \<Rightarrow> unit dbm" where
  "set_user_city uid cid = bindS (update_user uid (\<lambda>u. u\<lparr>u_city_id := Some cid\<rparr>)) (\<lambda>_. ret ())"

definition backfill_place :: "backfill_env \<Rightarrow> backfill_counts \<times> unresolved_row list \<Rightarrow> place_row \<Rightarrow> (backfill_counts \<times> unresolved_row list) dbm" where
  "backfill_place env = backfill_row env pl_id pl_google_id (city_of_place env) set_place_city"

definition backfill_user :: "backfill_env \<Rightarrow> backfill_counts \<times> unresolved_row list \<Rightarrow> user_row \<Rightarrow> (backfill_counts \<times> unresolved_row list) dbm" where
  "backfill_user env = backfill_row env u_id u_city (city_of_user env) set_user_city"

definition isGooglePlacesLocalOnly :: "string option \<Rightarrow> bool" where
  "isGooglePlacesLocalOnly v = (case v of None \<Rightarrow> False
     | Some s \<Rightarrow> js_lower (js_trim s) \<in> set [''1'', ''true'', ''yes'', ''on''])"

definition backfill_main :: "backfill_env \<Rightarrow> string option \<Rightarrow> backfill_report dbm" where
  "backfill_main env localOnly =
     (if isGooglePlacesLocalOnly localOnly
      then throw (InternalError ''GOOGLE_PLACES_LOCAL_ONLY is enabled; city backfill would call Google Places/Geocoding.'')
      else bindS now (\<lambda>startedAt.
        bindS (gets places_without_city) (\<lambda>places.
        bindS (for_each (backfill_place env) (no_counts, []) places) (\<lambda>p.
        bindS (gets (users_without_city env)) (\<lambda>users.
        bindS (for_each (backfill_user env) (no_counts, []) users) (\<lambda>u.
        bindS now (\<lambda>completedAt.
        ret \<lparr>br_dryRun = bf_dryRun env, br_startedAt = startedAt, br_completedAt = Some completedAt,
             br_places = fst p, br_unresolvedPlaces = snd p, br_users = fst u, br_unresolvedUsers = snd u\<rparr>)))))))"

section \<open>Lemmas\<close>

text \<open>Every row is counted once, under one of the three outcomes, and a row without a city is listed once.\<close>

definition counts_ok :: "backfill_counts \<times> unresolved_row list \<Rightarrow> bool" where
  "counts_ok r \<longleftrightarrow> bc_processed (fst r) = bc_updated (fst r) + bc_unresolved (fst r) + bc_failed (fst r)
     \<and> length (snd r) = bc_unresolved (fst r) + bc_failed (fst r)"

lemma backfill_row_counts:
  "\<exists>r' w'. backfill_row env rid dt cof st r x w = (Inr r', w')
     \<and> bc_processed (fst r') = Suc (bc_processed (fst r)) \<and> (counts_ok r \<longrightarrow> counts_ok r')"
  by (cases "fst (backfill_row env rid dt cof st r x w)"; cases "backfill_row env rid dt cof st r x w")
    (fastforce simp: backfill_row_def Let_def catchS_apply bindS_apply seqS_apply counts_ok_def
      split: sum.splits prod.splits option.splits)+

lemma for_each_counts:
  "\<exists>r' w'. for_each (backfill_row env rid dt cof st) r xs w = (Inr r', w')
     \<and> bc_processed (fst r') = bc_processed (fst r) + length xs \<and> (counts_ok r \<longrightarrow> counts_ok r')"
proof (induction xs arbitrary: r w)
  case (Cons x xs)
  obtain r1 w1 where "backfill_row env rid dt cof st r x w = (Inr r1, w1)"
    "bc_processed (fst r1) = Suc (bc_processed (fst r))" "counts_ok r \<longrightarrow> counts_ok r1"
    using backfill_row_counts [of env rid dt cof st r x w] by blast
  then show ?case using Cons.IH [of r1 w1] by (auto simp: bindS_apply)
qed simp

lemma keeps_for_each: "(\<And>r x. x \<in> set xs \<Longrightarrow> keeps P (f r x)) \<Longrightarrow> keeps P (for_each f r xs)"
  by (induction xs arbitrary: r) (auto intro!: keeps_intro)

lemma keeps_backfill_row:
  assumes "keeps P (city_of x)" "\<And>cid. \<not> bf_dryRun env \<Longrightarrow> keeps P (store (row_id x) cid)"
  shows "keeps P (backfill_row env row_id dt city_of store r x)"
  using assms by (auto simp: backfill_row_def Let_def intro!: keeps_intro split: option.splits)

text \<open>Looking up a city changes no table but the cities.\<close>

definition cities_only :: "(db \<Rightarrow> bool) \<Rightarrow> bool" where
  "cities_only Q \<longleftrightarrow> (\<forall>w cs n. Q w \<longrightarrow> Q (w\<lparr>t_cities := cs\<rparr>) \<and> Q (w\<lparr>db_next := n\<rparr>))"

lemma keeps_city_lookup:
  assumes "cities_only Q"
  shows "keeps Q (city_of_place env p)" "keeps Q (city_of_user env u)"
proof -
  have c: "keeps Q (upsertCitySummary c)" for c
    unfolding upsertCitySummary_def upsertCity_def
    using assms [unfolded cities_only_def]
    by (intro keepsI) (simp add: bindS_apply seqS_apply now_apply Let_def fresh_id_apply split: option.splits)
  have r: "keeps Q (resolveCityForCoordinates api lat lng)" for api lat lng
    unfolding resolveCityForCoordinates_def by (auto intro!: keeps_intro c split: option.splits)
  have n: "keeps Q (resolveCityForName api unmark s)" for api unmark s
    unfolding resolveCityForName_def Let_def by (auto intro!: keeps_intro c split: option.splits)
  have t: "keeps Q now" by (simp add: keeps_def now_apply)
  show "keeps Q (city_of_place env p)" "keeps Q (city_of_user env u)"
    unfolding city_of_place_def city_of_user_def by (auto intro!: keeps_intro r n t)
qed

lemma keeps_stores:
  assumes "\<And>w ps. P w \<Longrightarrow> P (w\<lparr>t_places := ps\<rparr>)" shows "keeps P (set_place_city pid cid)"
  using assms unfolding set_place_city_def
  by (intro keepsI) (simp add: bindS_apply now_apply require_def split: option.splits)

lemma keeps_user_store:
  assumes "\<And>w us. P w \<Longrightarrow> P (w\<lparr>t_users := us\<rparr>)" shows "keeps P (set_user_city uid cid)"
  using assms unfolding set_user_city_def update_user_def
  by (intro keepsI) (simp add: bindS_apply seqS_apply require_def split: option.splits)

lemma backfill_places_keep:
  assumes "cities_only P" "\<And>p cid. p \<in> set ps \<Longrightarrow> \<not> bf_dryRun env \<Longrightarrow> keeps P (set_place_city (pl_id p) cid)"
  shows "keeps P (for_each (backfill_place env) r ps)"
  unfolding backfill_place_def by (intro keeps_for_each keeps_backfill_row keeps_city_lookup assms)

lemma backfill_users_keep:
  assumes "cities_only P" "\<And>u cid. u \<in> set us \<Longrightarrow> \<not> bf_dryRun env \<Longrightarrow> keeps P (set_user_city (u_id u) cid)"
  shows "keeps P (for_each (backfill_user env) r us)"
  unfolding backfill_user_def by (intro keeps_for_each keeps_backfill_row keeps_city_lookup assms)

lemma backfill_main_run:
  assumes "\<not> isGooglePlacesLocalOnly lo"
  obtains rp wp ru wu where
    "for_each (backfill_place env) (no_counts, []) (places_without_city w) w = (Inr rp, wp)"
    "for_each (backfill_user env) (no_counts, []) (users_without_city env wp) wp = (Inr ru, wu)"
    "counts_ok rp" "bc_processed (fst rp) = length (places_without_city w)"
    "counts_ok ru" "bc_processed (fst ru) = length (users_without_city env wp)"
    "backfill_main env lo w = (Inr \<lparr>br_dryRun = bf_dryRun env, br_startedAt = db_now w, br_completedAt = Some (db_now wu),
        br_places = fst rp, br_unresolvedPlaces = snd rp, br_users = fst ru, br_unresolvedUsers = snd ru\<rparr>, wu)"
proof -
  have ok: "counts_ok (no_counts, [])" by (simp add: counts_ok_def no_counts_def)
  obtain rp wp where p: "for_each (backfill_place env) (no_counts, []) (places_without_city w) w = (Inr rp, wp)"
    "bc_processed (fst rp) = length (places_without_city w)" "counts_ok rp"
    using for_each_counts [of env pl_id pl_google_id "city_of_place env" set_place_city "(no_counts, [])" "places_without_city w" w] ok
    unfolding backfill_place_def [symmetric] by (auto simp: no_counts_def)
  obtain ru wu where u: "for_each (backfill_user env) (no_counts, []) (users_without_city env wp) wp = (Inr ru, wu)"
    "bc_processed (fst ru) = length (users_without_city env wp)" "counts_ok ru"
    using for_each_counts [of env u_id u_city "city_of_user env" set_user_city "(no_counts, [])" "users_without_city env wp" wp] ok
    unfolding backfill_user_def [symmetric] by (auto simp: no_counts_def)
  show thesis
    by (rule that [OF p(1) u(1) p(3,2) u(3,2)])
      (simp add: backfill_main_def assms bindS_apply now_apply p(1) u(1))
qed

section \<open>Properties\<close>


text \<open>Google answers any coordinates with the city of Salto.\<close>

definition sample_google :: google_api where
  "sample_google = \<lparr>ga_place = (\<lambda>_. Inl (InternalError ''off'')), ga_view = (\<lambda>_. Inl (InternalError ''off'')), ga_city = (\<lambda>_. Inl (InternalError ''off'')),
     ga_reverse = (\<lambda>_. Inr \<lparr>go_status = Some ''OK'', go_error = None, go_results = Some [\<lparr>gr_place_id = Some ''g'', gr_address = Some ''Salto'',
        gr_types = Some [''locality''], gr_components = Some [\<lparr>gc_long = Some ''Salto'', gc_types = Some [''locality'']\<rparr>],
        gr_lat = Some 1, gr_lng = Some 2\<rparr>]\<rparr>),
     ga_places = (\<lambda>_. Inr None), ga_cities = (\<lambda>_. Inr None), ga_search = (\<lambda>_. Inr None)\<rparr>"

lemma sample_google_city:
  "reverseGeocodeCity sample_google p = Inr (Some \<lparr>cs_city = ''Salto'', cs_googlePlaceId = ''g'', cs_displayName = ''Salto'',
     cs_lat = Some 1, cs_lng = Some 2\<rparr>)"
  by (simp add: reverseGeocodeCity_def sample_google_def geocode_payload_def best_city_def pickBestCityGeocodeResult_def
      city_types_def has_type_def mapGeocodeResultToCity_def extractCityName_def truthy_def)

definition sample_backfill :: backfill_env where
  "sample_backfill = \<lparr>bf_api = sample_google, bf_decode = Some, bf_photo = (\<lambda>_ _. []), bf_unmark = id,
     bf_message_of = (\<lambda>_. ''error''), bf_by_updated = id, bf_dryRun = True\<rparr>"

definition located_user :: user_row where
  "located_user = (sample_user ''a'')\<lparr>u_city_id := None, u_lat := Some 1, u_lng := Some 2\<rparr>"

definition cityless_db :: db where
  "cityless_db = (empty_db 0)\<lparr>t_users := [located_user]\<rparr>"


text \<open>The dry run writes all the same: every city it resolves is stored.\<close>

theorem dry_run_stores_cities:
  "t_cities cityless_db = [] \<and> bf_dryRun sample_backfill
   \<and> map ci_google_id (t_cities (snd (backfill_main sample_backfill None cityless_db))) = [''g'']"
proof -
  have "places_without_city cityless_db = []" "users_without_city sample_backfill cityless_db = [located_user]"
    by (simp_all add: places_without_city_def users_without_city_def sample_backfill_def cityless_db_def located_user_def
        find_many_def empty_db_def)
  moreover have "bf_api sample_backfill = sample_google" "bf_dryRun sample_backfill" by (simp_all add: sample_backfill_def)
  moreover have "t_cities cityless_db = []" "u_lat located_user = Some 1" "u_lng located_user = Some 2"
    by (simp_all add: cityless_db_def empty_db_def located_user_def)
  ultimately show ?thesis
    by (simp add: backfill_main_def isGooglePlacesLocalOnly_def bindS_apply seqS_apply now_apply backfill_user_def backfill_row_def
        Let_def catchS_apply city_of_user_def resolveCityForCoordinates_def sample_google_city upsertCitySummary_def upsertCity_def
        findCityByGooglePlaceId_def find_unique_def fresh_id_apply)
qed

end
