(* ===== verification/GoogleRequests.thy ===== *)
theory GoogleRequests
  imports PlaceResolution
begin

text \<open>
  The requesting half of the Google Places client (\<open>infrastructure/google-places/google-places.client.ts\<close>): the URL, the
  field mask and the body of every call, the two fetch helpers with their trace lines, and the client as a whole over a
  transport.  The transport (the network with Google behind it, \<open>fetchWithTimeout\<close> included) is the record
  \<open>transport\<close>; \<open>encode\<close> stands for \<open>encodeURIComponent\<close>, \<open>text\<close> for \<open>String\<close> of a coordinate and
  \<open>url_text\<close> for \<open>URL.toString\<close> of a base and its search parameters.  \<open>client_api\<close> is the \<open>google_api\<close> the other
  theories take: the answers there are the ones this client gets.
\<close>

section \<open>Requests\<close>

record client_cfg =
  cc_apiKey :: "string option"
  cc_language :: string
  cc_country :: string
  cc_radius :: rat

record google_request =
  gq_base :: string
  gq_params :: "(string \<times> string) list"
  gq_post :: bool
  gq_key :: "string option"
  gq_mask :: "string list"
  gq_body :: "json option"

definition GOOGLE_BASE_URL :: string where "GOOGLE_BASE_URL = ''https://places.googleapis.com/v1''"
definition GOOGLE_GEOCODING_URL :: string where "GOOGLE_GEOCODING_URL = ''https://maps.googleapis.com/maps/api/geocode/json''"
definition DEFAULT_NEARBY_TYPES :: "string list" where "DEFAULT_NEARBY_TYPES = [''cafe'', ''restaurant'']"

definition isEnabled :: "client_cfg \<Rightarrow> bool" where "isEnabled cfg \<longleftrightarrow> truthy (cc_apiKey cfg)"

definition assertEnabled :: "client_cfg \<Rightarrow> http_error + unit" where
  "assertEnabled cfg = (if \<not> isEnabled cfg then Inl (InternalError ''GOOGLE_MAPS_API_KEY is not configured'') else Inr ())"

text \<open>\<open>createHeaders\<close> with the field mask as the list it joins; the content type is constant.\<close>

definition createHeaders :: "client_cfg \<Rightarrow> string list \<Rightarrow> google_request \<Rightarrow> google_request" where
  "createHeaders cfg fieldMask r = r\<lparr>gq_key := cc_apiKey cfg, gq_mask := fieldMask\<rparr>"

definition get_request :: "string \<Rightarrow> (string \<times> string) list \<Rightarrow> google_request" where
  "get_request base params = \<lparr>gq_base = base, gq_params = params, gq_post = False, gq_key = None, gq_mask = [], gq_body = None\<rparr>"

definition post_request :: "string \<Rightarrow> json \<Rightarrow> google_request" where
  "post_request base body = \<lparr>gq_base = base, gq_params = [], gq_post = True, gq_key = None, gq_mask = [], gq_body = Some body\<rparr>"

definition point_json :: "rat \<times> rat \<Rightarrow> json" where
  "point_json p = JObj [(''latitude'', JNum (fst p)), (''longitude'', JNum (snd p))]"

definition circle_json :: "rat \<times> rat \<Rightarrow> rat \<Rightarrow> json" where
  "circle_json p radius = JObj [(''circle'', JObj [(''center'', point_json p), (''radius'', JNum radius)])]"

record autocomplete_params =
  ap_query :: string
  ap_lat :: "rat option"
  ap_lng :: "rat option"
  ap_sessionToken :: "string option"
  ap_limit :: "nat option"

text \<open>What both autocompletions append to their bodies.\<close>

definition session_and_bias :: "client_cfg \<Rightarrow> autocomplete_params \<Rightarrow> (string \<times> json) list" where
  "session_and_bias cfg params =
     (if truthy (ap_sessionToken params) then [(''sessionToken'', JStr (the (ap_sessionToken params)))] else []) @
     (case (ap_lat params, ap_lng params) of
        (Some la, Some lo) \<Rightarrow> [(''locationBias'', circle_json (la, lo) (cc_radius cfg)), (''origin'', point_json (la, lo))]
      | _ \<Rightarrow> [])"

definition autocomplete_request :: "client_cfg \<Rightarrow> autocomplete_params \<Rightarrow> google_request" where
  "autocomplete_request cfg params =
     createHeaders cfg [''suggestions.placePrediction.placeId'', ''suggestions.placePrediction.text.text'',
         ''suggestions.placePrediction.structuredFormat.mainText.text'',
         ''suggestions.placePrediction.structuredFormat.secondaryText.text'', ''suggestions.placePrediction.distanceMeters'']
       (post_request (GOOGLE_BASE_URL @ ''/places:autocomplete'')
         (JObj ([(''input'', JStr (ap_query params)), (''includedPrimaryTypes'', JArr [JStr ''cafe'', JStr ''restaurant'']),
            (''includeQueryPredictions'', JBool False), (''languageCode'', JStr (cc_language cfg)),
            (''regionCode'', JStr (cc_country cfg)), (''includedRegionCodes'', JArr [JStr (cc_country cfg)])]
           @ session_and_bias cfg params)))"

definition autocompleteCities_request :: "client_cfg \<Rightarrow> autocomplete_params \<Rightarrow> google_request" where
  "autocompleteCities_request cfg params =
     createHeaders cfg [''suggestions.placePrediction.placeId'', ''suggestions.placePrediction.text.text'',
         ''suggestions.placePrediction.structuredFormat.mainText.text'',
         ''suggestions.placePrediction.structuredFormat.secondaryText.text'']
       (post_request (GOOGLE_BASE_URL @ ''/places:autocomplete'')
         (JObj ([(''input'', JStr (ap_query params)), (''includedPrimaryTypes'', JArr [JStr ''(cities)'']),
            (''includeQueryPredictions'', JBool False), (''languageCode'', JStr (cc_language cfg))]
           @ session_and_bias cfg params)))"

record search_params =
  sp_point :: "rat \<times> rat"
  sp_enterprise :: "bool option"
  sp_photos :: "bool option"
  sp_limit :: "rat option"
  sp_query :: string
  sp_radius :: rat
  sp_type :: "string option"
  sp_rank :: "string option"

definition createSearchFieldMask :: "search_params \<Rightarrow> string list" where
  "createSearchFieldMask params =
     [''places.id'', ''places.displayName'', ''places.formattedAddress'', ''places.location'', ''places.types'', ''places.primaryType'']
     @ (if sp_enterprise params = Some True then [''places.currentOpeningHours'', ''places.regularOpeningHours''] else [])
     @ (if sp_photos params = Some True then [''places.photos''] else [])"

definition searchText_request :: "client_cfg \<Rightarrow> search_params \<Rightarrow> google_request" where
  "searchText_request cfg params =
     createHeaders cfg (createSearchFieldMask params) (post_request (GOOGLE_BASE_URL @ ''/places:searchText'')
       (JObj ([(''textQuery'', JStr (sp_query params)),
          (''pageSize'', JNum (of_int (clampGooglePlacesResultCount (sp_limit params)))),
          (''languageCode'', JStr (cc_language cfg)), (''regionCode'', JStr (cc_country cfg)),
          (''locationBias'', circle_json (sp_point params) (cc_radius cfg))]
         @ (if truthy (sp_type params)
            then [(''includedType'', JStr (the (sp_type params))), (''strictTypeFiltering'', JBool True)] else []))))"

definition nearbySearch_request :: "client_cfg \<Rightarrow> search_params \<Rightarrow> google_request" where
  "nearbySearch_request cfg params =
     (let includedTypes = (if truthy (sp_type params) then [the (sp_type params)] else DEFAULT_NEARBY_TYPES) in
      createHeaders cfg (createSearchFieldMask params) (post_request (GOOGLE_BASE_URL @ ''/places:searchNearby'')
       (JObj [(''includedTypes'', JArr (map JStr includedTypes)), (''languageCode'', JStr (cc_language cfg)),
          (''maxResultCount'', JNum (of_int (clampGooglePlacesResultCount (sp_limit params)))),
          (''rankPreference'', JStr (default_to (sp_rank params) ''DISTANCE'')),
          (''locationRestriction'', circle_json (sp_point params) (sp_radius params))])))"

definition details_mask :: "string list" where
  "details_mask = [''id'', ''displayName'', ''formattedAddress'', ''location'', ''types'', ''primaryType'', ''googleMapsUri'']"

definition details_request :: "client_cfg \<Rightarrow> (string \<Rightarrow> string) \<Rightarrow> string option \<Rightarrow> string \<Rightarrow> google_request" where
  "details_request cfg encode sessionToken i =
     createHeaders cfg details_mask (get_request (GOOGLE_BASE_URL @ ''/places/'' @ encode i)
       (if truthy sessionToken then [(''sessionToken'', the sessionToken)] else []))"

definition view_mask :: "bool \<Rightarrow> string list" where
  "view_mask includePhotos = [''id'', ''displayName'', ''formattedAddress'', ''location'', ''googleMapsUri'', ''types'', ''primaryType'',
     ''currentOpeningHours'', ''regularOpeningHours''] @ (if includePhotos then [''photos''] else [])"

definition view_request :: "client_cfg \<Rightarrow> (string \<Rightarrow> string) \<Rightarrow> bool \<Rightarrow> string \<Rightarrow> google_request" where
  "view_request cfg encode includePhotos i =
     createHeaders cfg (view_mask includePhotos) (get_request (GOOGLE_BASE_URL @ ''/places/'' @ encode i) [])"

definition city_request :: "client_cfg \<Rightarrow> string \<Rightarrow> google_request" where
  "city_request cfg placeId = get_request GOOGLE_GEOCODING_URL
     [(''place_id'', placeId), (''language'', cc_language cfg), (''key'', the (cc_apiKey cfg))]"

definition reverse_request :: "client_cfg \<Rightarrow> (rat \<Rightarrow> string) \<Rightarrow> rat \<times> rat \<Rightarrow> google_request" where
  "reverse_request cfg text p = get_request GOOGLE_GEOCODING_URL
     [(''latlng'', text (fst p) @ '','' @ text (snd p)), (''language'', cc_language cfg), (''key'', the (cc_apiKey cfg))]"

definition buildPhotoUrl :: "(string \<Rightarrow> (string \<times> string) list \<Rightarrow> string) \<Rightarrow> client_cfg \<Rightarrow> string \<Rightarrow> nat \<Rightarrow> string" where
  "buildPhotoUrl url_text cfg photoName maxWidthPx = url_text (GOOGLE_BASE_URL @ ''/'' @ photoName @ ''/media'')
     [(''maxWidthPx'', nat_text maxWidthPx), (''key'', the (cc_apiKey cfg))]"

section \<open>Fetching and tracing\<close>

datatype google_method = AutocompleteM | AutocompleteCitiesM | SearchTextM | NearbySearchM | GetPlaceDetailsM
  | GetPlaceDetailViewM | GetCityByPlaceIdM | ReverseGeocodeCityM

datatype billing_tier = ProTier | EnterpriseTier

record trace_context =
  tc_origin :: "string option"
  tc_key :: "string option"
  tc_cache :: "string option"
  tc_singleFlight :: "string option"

record call_meta =
  cm_method :: google_method
  cm_tier :: "billing_tier option"
  cm_trace :: "trace_context option"

record trace_line =
  tl_method :: google_method
  tl_origin :: "string option"
  tl_cache :: "string option"
  tl_key :: "string option"
  tl_singleFlight :: "string option"
  tl_tier :: "billing_tier option"
  tl_durationMs :: int
  tl_ok :: bool
  tl_message :: "string option"

definition normalizeTraceText :: "string option \<Rightarrow> string option" where
  "normalizeTraceText value = (let t = js_trim (default_to value []) in if t = [] then None else Some t)"

definition traceCacheEvent :: "call_meta \<Rightarrow> int \<Rightarrow> bool \<Rightarrow> string option \<Rightarrow> trace_line" where
  "traceCacheEvent m durationMs ok message =
     (let part = (\<lambda>f. normalizeTraceText (Option.bind (cm_trace m) f)) in
      \<lparr>tl_method = cm_method m, tl_origin = part tc_origin, tl_cache = part tc_cache, tl_key = part tc_key,
       tl_singleFlight = part tc_singleFlight, tl_tier = cm_tier m, tl_durationMs = durationMs, tl_ok = ok,
       tl_message = (if truthy message then message else None)\<rparr>)"

text \<open>What a \<open>fetch\<close> comes to: it throws, or it is answered after some time with a status, a text and (when the text is
  JSON) a value.\<close>

datatype 'a fetched = FetchThrows string | Answered int nat string "'a option"

type_synonym 'a call = "(http_error + 'a) \<times> trace_line list"

definition ok_status :: "nat \<Rightarrow> bool" where "ok_status st \<longleftrightarrow> 200 \<le> st \<and> st \<le> 299"

definition not_json :: http_error where "not_json = InternalError ''SyntaxError''"

definition fetchJson :: "call_meta \<Rightarrow> 'a fetched \<Rightarrow> 'a call" where
  "fetchJson m r = (case r of
     FetchThrows e \<Rightarrow> (Inl (InternalError e), [])
   | Answered ms st text body \<Rightarrow>
       if \<not> ok_status st
       then (Inl (InternalError (''Google Places request failed: '' @ nat_text st @ '' '' @ text)),
             [traceCacheEvent m ms False (Some (''HTTP '' @ nat_text st))])
       else (case body of None \<Rightarrow> Inl not_json | Some v \<Rightarrow> Inr v, [traceCacheEvent m ms True None]))"

definition fetchGeocodeJson :: "call_meta \<Rightarrow> geo_response fetched \<Rightarrow> geo_result list call" where
  "fetchGeocodeJson m r = (case r of
     FetchThrows e \<Rightarrow> (Inl (InternalError e), [])
   | Answered ms st text body \<Rightarrow>
       if \<not> ok_status st
       then (Inl (InternalError (''Google geocoding request failed: '' @ nat_text st @ '' '' @ text)),
             [traceCacheEvent m ms False (Some (''HTTP '' @ nat_text st))])
       else (case body of
           None \<Rightarrow> (Inl not_json, [])
         | Some v \<Rightarrow> (case geocode_payload (Inr v) of
               Inl e \<Rightarrow> (Inl e, [traceCacheEvent m ms False (go_status v)])
             | Inr rs \<Rightarrow> (Inr rs, [traceCacheEvent m ms True None]))))"

section \<open>The client\<close>

record transport =
  tr_suggest :: "google_request \<Rightarrow> place_prediction option list option fetched"
  tr_search :: "google_request \<Rightarrow> google_place list option fetched"
  tr_place :: "google_request \<Rightarrow> google_place fetched"
  tr_geo :: "google_request \<Rightarrow> geo_response fetched"

definition map_call :: "('a \<Rightarrow> 'b) \<Rightarrow> 'a call \<Rightarrow> 'b call" where
  "map_call f c = (map_sum id f (fst c), snd c)"

definition when_enabled :: "client_cfg \<Rightarrow> 'a call \<Rightarrow> 'a call" where
  "when_enabled cfg c = (case assertEnabled cfg of Inl e \<Rightarrow> (Inl e, []) | Inr _ \<Rightarrow> c)"

definition meta_of :: "google_method \<Rightarrow> billing_tier option \<Rightarrow> trace_context option \<Rightarrow> call_meta" where
  "meta_of m tier trace = \<lparr>cm_method = m, cm_tier = tier, cm_trace = trace\<rparr>"

definition search_tier :: "search_params \<Rightarrow> billing_tier" where
  "search_tier params = (if sp_enterprise params = Some True then EnterpriseTier else ProTier)"

definition client_autocomplete ::
  "client_cfg \<Rightarrow> transport \<Rightarrow> trace_context option \<Rightarrow> autocomplete_params \<Rightarrow> suggestion list call" where
  "client_autocomplete cfg tr trace params = when_enabled cfg
     (map_call (\<lambda>xs. suggestions_of (default_to (ap_limit params) 5) (default_to xs []))
        (fetchJson (meta_of AutocompleteM None trace) (tr_suggest tr (autocomplete_request cfg params))))"

definition client_autocompleteCities ::
  "client_cfg \<Rightarrow> transport \<Rightarrow> trace_context option \<Rightarrow> autocomplete_params \<Rightarrow> city_summary list call" where
  "client_autocompleteCities cfg tr trace params = when_enabled cfg
     (map_call (\<lambda>xs. cities_of (default_to (ap_limit params) 5) (default_to xs []))
        (fetchJson (meta_of AutocompleteCitiesM None trace) (tr_suggest tr (autocompleteCities_request cfg params))))"

definition client_searchText ::
  "(string \<Rightarrow> nat \<Rightarrow> string) \<Rightarrow> client_cfg \<Rightarrow> transport \<Rightarrow> trace_context option \<Rightarrow> search_params \<Rightarrow> place_card list call" where
  "client_searchText photo cfg tr trace params = when_enabled cfg
     (map_call (\<lambda>ps. map (mapPlaceSummary photo None) (default_to ps []))
        (fetchJson (meta_of SearchTextM (Some (search_tier params)) trace) (tr_search tr (searchText_request cfg params))))"

definition client_nearbySearch ::
  "(string \<Rightarrow> nat \<Rightarrow> string) \<Rightarrow> client_cfg \<Rightarrow> transport \<Rightarrow> trace_context option \<Rightarrow> search_params \<Rightarrow> place_card list call" where
  "client_nearbySearch photo cfg tr trace params = when_enabled cfg
     (map_call (\<lambda>ps. map (mapPlaceSummary photo None) (default_to ps []))
        (fetchJson (meta_of NearbySearchM (Some (search_tier params)) trace) (tr_search tr (nearbySearch_request cfg params))))"

text \<open>The two calls for one place, as the transport answers their requests.\<close>

definition fetch_details :: "client_cfg \<Rightarrow> (string \<Rightarrow> string) \<Rightarrow> transport \<Rightarrow> string option \<Rightarrow> trace_context option \<Rightarrow> string \<Rightarrow> google_place call" where
  "fetch_details cfg encode tr sessionToken trace i = when_enabled cfg
     (fetchJson (meta_of GetPlaceDetailsM (Some ProTier) trace) (tr_place tr (details_request cfg encode sessionToken i)))"

definition fetch_view :: "client_cfg \<Rightarrow> (string \<Rightarrow> string) \<Rightarrow> transport \<Rightarrow> bool \<Rightarrow> trace_context option \<Rightarrow> string \<Rightarrow> google_place call" where
  "fetch_view cfg encode tr includePhotos trace i = when_enabled cfg
     (fetchJson (meta_of GetPlaceDetailViewM (Some ProTier) trace) (tr_place tr (view_request cfg encode includePhotos i)))"

definition client_getCityByPlaceId :: "client_cfg \<Rightarrow> transport \<Rightarrow> trace_context option \<Rightarrow> string \<Rightarrow> city_summary call" where
  "client_getCityByPlaceId cfg tr trace placeId = when_enabled cfg
     (let c = fetchGeocodeJson (meta_of GetCityByPlaceIdM None trace) (tr_geo tr (city_request cfg placeId))
      in (case fst c of Inl e \<Rightarrow> Inl e
            | Inr rs \<Rightarrow> (case best_city rs of
                None \<Rightarrow> Inl (InternalError ''City place ID did not resolve to a canonical city'') | Some x \<Rightarrow> Inr x), snd c))"

definition client_reverseGeocodeCity ::
  "client_cfg \<Rightarrow> (rat \<Rightarrow> string) \<Rightarrow> transport \<Rightarrow> trace_context option \<Rightarrow> rat \<times> rat \<Rightarrow> city_summary option call" where
  "client_reverseGeocodeCity cfg text tr trace p = when_enabled cfg
     (map_call best_city (fetchGeocodeJson (meta_of ReverseGeocodeCityM None trace) (tr_geo tr (reverse_request cfg text p))))"

text \<open>The client as the services see it, in one request: its options do not change while it runs.\<close>

record request_options =
  ro_encode :: "string \<Rightarrow> string"
  ro_text :: "rat \<Rightarrow> string"
  ro_sessionToken :: "string option"
  ro_photos :: bool
  ro_trace :: "trace_context option"
  ro_suggest :: "string \<Rightarrow> autocomplete_params"
  ro_cities :: "string \<Rightarrow> autocomplete_params"
  ro_search :: "string \<Rightarrow> bool \<times> search_params"

definition geo_answer :: "client_cfg \<Rightarrow> geo_response fetched \<Rightarrow> http_error + geo_response" where
  "geo_answer cfg r = (case assertEnabled cfg of Inl e \<Rightarrow> Inl e | Inr _ \<Rightarrow> (case r of
     FetchThrows e \<Rightarrow> Inl (InternalError e)
   | Answered ms st text body \<Rightarrow>
       if \<not> ok_status st then Inl (InternalError (''Google geocoding request failed: '' @ nat_text st @ '' '' @ text))
       else (case body of None \<Rightarrow> Inl not_json | Some v \<Rightarrow> Inr v)))"

definition client_api :: "client_cfg \<Rightarrow> transport \<Rightarrow> request_options \<Rightarrow> google_api" where
  "client_api cfg tr ro = \<lparr>
     ga_place = (\<lambda>i. fst (fetch_details cfg (ro_encode ro) tr (ro_sessionToken ro) (ro_trace ro) i)),
     ga_view = (\<lambda>i. fst (fetch_view cfg (ro_encode ro) tr (ro_photos ro) (ro_trace ro) i)),
     ga_city = (\<lambda>i. geo_answer cfg (tr_geo tr (city_request cfg i))),
     ga_reverse = (\<lambda>p. geo_answer cfg (tr_geo tr (reverse_request cfg (ro_text ro) p))),
     ga_places = (\<lambda>q. fst (when_enabled cfg (fetchJson (meta_of AutocompleteM None (ro_trace ro))
        (tr_suggest tr (autocomplete_request cfg (ro_suggest ro q)))))),
     ga_cities = (\<lambda>q. fst (when_enabled cfg (fetchJson (meta_of AutocompleteCitiesM None (ro_trace ro))
        (tr_suggest tr (autocompleteCities_request cfg (ro_cities ro q)))))),
     ga_search = (\<lambda>q. let (nearby, ps) = ro_search ro q in fst (when_enabled cfg
        (fetchJson (meta_of (if nearby then NearbySearchM else SearchTextM) (Some (search_tier ps)) (ro_trace ro))
          (tr_search tr (if nearby then nearbySearch_request cfg ps else searchText_request cfg ps)))))\<rparr>"

lemma fst_map_call [simp]: "fst (map_call f c) = map_sum id f (fst c)" and snd_map_call [simp]: "snd (map_call f c) = snd c"
  by (simp_all add: map_call_def)

lemma when_enabled_map: "when_enabled cfg (map_call f c) = map_call f (when_enabled cfg c)"
  by (simp add: when_enabled_def map_call_def split: sum.splits)

lemma geocode_answer:
  "fst (when_enabled cfg (fetchGeocodeJson m r)) = geocode_payload (geo_answer cfg r)"
  by (simp add: when_enabled_def fetchGeocodeJson_def geo_answer_def geocode_payload_def assertEnabled_def split: fetched.splits option.splits)

text \<open>The functions the other theories use are this client's, called through \<open>client_api\<close>.\<close>

lemma client_places:
  "fst (client_autocomplete cfg tr (ro_trace ro) (ro_suggest ro q)) =
     google_autocomplete (client_api cfg tr ro) q (ap_limit (ro_suggest ro q))"
  "fst (client_autocompleteCities cfg tr (ro_trace ro) (ro_cities ro q)) =
     google_autocompleteCities (client_api cfg tr ro) q (ap_limit (ro_cities ro q))"
  "ro_search ro q = (False, ps) \<Longrightarrow> fst (client_searchText photo cfg tr (ro_trace ro) ps) = google_search (client_api cfg tr ro) photo q"
  "ro_search ro q = (True, ps) \<Longrightarrow> fst (client_nearbySearch photo cfg tr (ro_trace ro) ps) = google_search (client_api cfg tr ro) photo q"
  by (simp_all add: client_autocomplete_def client_autocompleteCities_def client_searchText_def client_nearbySearch_def
      google_autocomplete_def google_autocompleteCities_def google_search_def client_api_def when_enabled_map)

lemma client_cities:
  "fst (client_getCityByPlaceId cfg tr (ro_trace ro) i) = getCityByPlaceId (client_api cfg tr ro) i"
  "fst (client_reverseGeocodeCity cfg (ro_text ro) tr (ro_trace ro) p) = reverseGeocodeCity (client_api cfg tr ro) p"
proof -
  let ?m = "meta_of GetCityByPlaceIdM None (ro_trace ro)" and ?r = "tr_geo tr (city_request cfg i)"
  have "fst (client_getCityByPlaceId cfg tr (ro_trace ro) i) = (case fst (when_enabled cfg (fetchGeocodeJson ?m ?r)) of
      Inl e \<Rightarrow> Inl e | Inr rs \<Rightarrow> (case best_city rs of
         None \<Rightarrow> Inl (InternalError ''City place ID did not resolve to a canonical city'') | Some x \<Rightarrow> Inr x))"
    by (simp add: client_getCityByPlaceId_def when_enabled_def Let_def split: sum.splits)
  then show "fst (client_getCityByPlaceId cfg tr (ro_trace ro) i) = getCityByPlaceId (client_api cfg tr ro) i"
    unfolding geocode_answer by (simp add: getCityByPlaceId_def client_api_def)
qed (simp add: client_reverseGeocodeCity_def reverseGeocodeCity_def client_api_def when_enabled_map geocode_answer)

section \<open>What the client asks for and what it logs\<close>

definition asks_hours :: "google_request \<Rightarrow> bool" where
  "asks_hours q \<longleftrightarrow> list_ex (\<lambda>f. f \<in> set [''currentOpeningHours'', ''regularOpeningHours'',
     ''places.currentOpeningHours'', ''places.regularOpeningHours'']) (gq_mask q)"

definition body_field :: "string \<Rightarrow> google_request \<Rightarrow> json option" where
  "body_field k q = (case gq_body q of Some (JObj kvs) \<Rightarrow> map_of kvs k | _ \<Rightarrow> None)"


text \<open>The place detail view asks for opening hours in every request, and is logged as a pro call: its trace line names
  the lower tier although the client's own rule for searches makes these fields enterprise ones.\<close>

theorem detail_view_logged_as_pro:
  "asks_hours (view_request cfg encode photos i)
   \<and> list_all (\<lambda>line. tl_tier line = Some ProTier) (snd (fetch_view cfg encode tr photos trace i))
   \<and> (asks_hours (searchText_request cfg ps) \<longrightarrow> search_tier ps = EnterpriseTier)"
proof -
  have "list_all (\<lambda>line. tl_tier line = Some ProTier) (snd (fetchJson (meta_of GetPlaceDetailViewM (Some ProTier) trace) r))" for r :: "google_place fetched"
    by (simp add: fetchJson_def traceCacheEvent_def meta_of_def Let_def split: fetched.splits)
  moreover have "asks_hours (searchText_request cfg ps) \<longrightarrow> search_tier ps = EnterpriseTier"
    by (simp add: asks_hours_def searchText_request_def createHeaders_def createSearchFieldMask_def search_tier_def)
  ultimately show ?thesis
    by (simp add: asks_hours_def view_request_def createHeaders_def view_mask_def fetch_view_def when_enabled_def split: sum.splits)
qed

section \<open>What a field mask leaves out\<close>

text \<open>The documented contract of the Places API: an answer holds the fields of the mask and no others.\<close>

definition masked :: "string list \<Rightarrow> google_place \<Rightarrow> google_place" where
  "masked m p = \<lparr>
     gp_id = (if ''id'' \<in> set m then gp_id p else None), gp_name = (if ''displayName'' \<in> set m then gp_name p else None),
     gp_address = (if ''formattedAddress'' \<in> set m then gp_address p else None),
     gp_lat = (if ''location'' \<in> set m then gp_lat p else None), gp_lng = (if ''location'' \<in> set m then gp_lng p else None),
     gp_rating = (if ''rating'' \<in> set m then gp_rating p else None),
     gp_count = (if ''userRatingCount'' \<in> set m then gp_count p else None),
     gp_types = (if ''types'' \<in> set m then gp_types p else None),
     gp_primaryType = (if ''primaryType'' \<in> set m then gp_primaryType p else None),
     gp_photos = (if ''photos'' \<in> set m then gp_photos p else None),
     gp_current = (if ''currentOpeningHours'' \<in> set m then gp_current p else None),
     gp_regular = (if ''regularOpeningHours'' \<in> set m then gp_regular p else None),
     gp_website = (if ''websiteUri'' \<in> set m then gp_website p else None),
     gp_phone = (if ''nationalPhoneNumber'' \<in> set m then gp_phone p else None),
     gp_mapsUri = (if ''googleMapsUri'' \<in> set m then gp_mapsUri p else None)\<rparr>"

definition honours_mask :: "transport \<Rightarrow> bool" where
  "honours_mask tr \<longleftrightarrow> (\<forall>q ms st text p. tr_place tr q = Answered ms st text (Some p) \<longrightarrow> masked (gq_mask q) p = p)"

definition bare_place :: "place_row \<Rightarrow> bool" where
  "bare_place p \<longleftrightarrow> pl_photo p = None \<and> pl_photo_ref p = None \<and> pl_phone p = None \<and> pl_website p = None
     \<and> pl_rating p = None \<and> pl_rating_count p = None \<and> pl_hours p = []"

definition bare_places :: "db \<Rightarrow> bool" where
  "bare_places w \<longleftrightarrow> list_all bare_place (t_places w)"

definition bare_input :: "place_input \<Rightarrow> bool" where
  "bare_input i \<longleftrightarrow> pn_photoUrl i = None \<and> pn_photoRef i = None \<and> pn_phone i = None \<and> pn_website i = None
     \<and> pn_rating i = None \<and> pn_ratingCount i = None \<and> default_to (pn_hours i) [] = []"

definition bare_details :: "place_details \<Rightarrow> bool" where
  "bare_details d \<longleftrightarrow> pds_photoUrl d = None \<and> pds_photoRef d = None \<and> pds_phone d = None \<and> pds_website d = None
     \<and> pds_rating d = None \<and> pds_ratingCount d = None \<and> pds_hours d = None"

lemma masked_details:
  assumes "honours_mask tr" "fst (fetch_details cfg encode tr tok trace i) = Inr p"
  shows "gp_photos p = None \<and> gp_phone p = None \<and> gp_website p = None \<and> gp_rating p = None \<and> gp_count p = None
    \<and> gp_current p = None \<and> gp_regular p = None"
proof -
  let ?q = "details_request cfg encode tok i"
  obtain ms st raw where "tr_place tr ?q = Answered ms st raw (Some p)"
    using assms(2) by (auto simp: fetch_details_def when_enabled_def fetchJson_def split: sum.splits fetched.splits if_splits option.splits)
  then have "masked (gq_mask ?q) p = p" using assms(1) by (simp add: honours_mask_def)
  moreover have "gq_mask ?q = details_mask" by (simp add: details_request_def createHeaders_def)
  ultimately have "masked details_mask p = p" by simp
  then show ?thesis by (cases p) (simp add: masked_def details_mask_def)
qed

definition client_env :: "client_cfg \<Rightarrow> transport \<Rightarrow> request_options \<Rightarrow> places_env \<Rightarrow> places_env" where
  "client_env cfg tr ro env = env\<lparr>en_api := client_api cfg tr ro\<rparr>"

lemma details_are_bare:
  assumes "honours_mask tr" "getPlaceDetails (client_api cfg tr ro) decode photo t i = Inr d" shows "bare_details d"
proof -
  obtain p where p: "fst (fetch_details cfg (ro_encode ro) tr (ro_sessionToken ro) (ro_trace ro) (normalizeGooglePlaceId decode i)) = Inr p"
    and d: "d = place_details_of photo t (normalizeGooglePlaceId decode i) p"
    using assms(2)
    by (cases "fst (fetch_details cfg (ro_encode ro) tr (ro_sessionToken ro) (ro_trace ro) (normalizeGooglePlaceId decode i))")
      (auto simp: getPlaceDetails_def client_api_def Let_def)
  then show ?thesis using masked_details [OF assms(1) p]
    by (simp add: bare_details_def d place_details_of_def Let_def hour_lines_def truthy_def)
qed

lemma keeps_bare_upsert: "bare_input input \<Longrightarrow> keeps bare_places (upsertPlace input)"
proof -
  assume i: "bare_input input"
  have d: "bare_place (place_data input t p)" for t p
    using i by (simp add: bare_place_def bare_input_def place_data_def)
  have u: "list_all bare_place (update_many q (place_data input t) rows)" if "list_all bare_place rows" for q t rows
    using that d by (auto simp: update_many_def list_all_iff)
  show ?thesis unfolding upsertPlace_def bare_places_def
    by (intro keepsI) (auto simp: bindS_apply seqS_apply now_apply fresh_id_apply Let_def throw_def d u split: option.splits)
qed

lemma bare_found: "bare_places w \<Longrightarrow> getPlaceBySource src i w = Some e \<Longrightarrow> bare_place e"
  using find_unique_Some by (fastforce simp: bare_places_def getPlaceBySource_def list_all_iff)

lemma keeps_bare_city: "keeps bare_places (ensureStoredCityForCoordinates env la lo)" "keeps bare_places (ensureStoredCityByGooglePlaceId env g)"
proof -
  have u: "keeps bare_places (upsertCitySummary c)" for c
    unfolding upsertCitySummary_def upsertCity_def bare_places_def
    by (rule keepsI) (auto simp: bindS_apply seqS_apply now_apply Let_def fresh_id_apply split: option.splits)
  show "keeps bare_places (ensureStoredCityForCoordinates env la lo)" "keeps bare_places (ensureStoredCityByGooglePlaceId env g)"
    unfolding ensureStoredCityForCoordinates_def ensureStoredCityByGooglePlaceId_def getCachedReverseGeocodeCity_def getCachedGoogleValue_def
    by (auto intro!: keeps_intro u split: option.splits)
qed

lemma keeps_bare_details:
  assumes "honours_mask tr" "\<And>d city. bare_details d \<Longrightarrow> bare_input (f d city)"
  shows "keeps bare_places (bindS (liftE (getPlaceDetails (client_api cfg tr ro) decode photo t i)) (\<lambda>d.
     bindS (ensureStoredCityForCoordinates env (la d) (lo d)) (\<lambda>city. bindS (upsertPlace (f d city)) (\<lambda>p. ret (Some p)))))"
proof (cases "getPlaceDetails (client_api cfg tr ro) decode photo t i")
  case (Inl e)
  then show ?thesis by (simp add: keeps_def bindS_apply)
next
  case (Inr d)
  have "bare_input (f d city)" for city using assms details_are_bare Inr by blast
  then have k: "keeps bare_places (bindS (ensureStoredCityForCoordinates env (la d) (lo d)) (\<lambda>city. bindS (upsertPlace (f d city)) (\<lambda>p. ret (Some p))))"
    by (intro keeps_intro keeps_bare_city keeps_bare_upsert)
  then show ?thesis using Inr by (simp add: keeps_def bindS_apply)
qed

lemma client_env_simps [simp]:
  "en_api (client_env cfg tr ro env) = client_api cfg tr ro" "en_cfg (client_env cfg tr ro env) = en_cfg env"
  "en_decode (client_env cfg tr ro env) = en_decode env" "en_photo (client_env cfg tr ro env) = en_photo env"
  "en_cache (client_env cfg tr ro env) = en_cache env"
  by (simp_all add: client_env_def)

lemma keeps_bare_resolve:
  assumes "honours_mask tr" shows "keeps bare_places (resolve_place (client_env cfg tr ro env) src i)"
proof (rule keepsI)
  fix w assume b: "bare_places w"
  let ?env = "client_env cfg tr ro env" and ?g = "normalizeGooglePlaceId (en_decode env) i"
  have "bare_input (details_input d city)" if "bare_details d" for d city
    using that by (simp add: bare_input_def bare_details_def details_input_def)
  note new = keeps_catch [OF keeps_bare_details [OF assms this] keeps_throw]
  have "bare_input (backfill_input g e d city)" if "bare_place e" "bare_details d" for g e d city
    using that by (simp add: bare_input_def bare_details_def bare_place_def backfill_input_def)
  note old = keeps_catch [OF keeps_bare_details [OF assms this] keeps_ret]
  show "bare_places (snd (resolve_place ?env src i w))"
  proof (cases "getPlaceBySource src ?g w")
    case None
    then show ?thesis using b keepsD [OF new b] by (simp add: resolve_place_def Let_def throw_def now_apply)
  next
    case (Some e)
    then show ?thesis using b keepsD [OF old b] bare_found [OF b Some]
      by (simp add: resolve_place_def Let_def throw_def now_apply)
  qed
qed

lemma keeps_bare_updates:
  assumes "\<And>p. bare_place p \<Longrightarrow> bare_place (f p)" shows "keeps bare_places (update_place i f)"
proof -
  have "list_all bare_place (update_many q (\<lambda>p. (f p)\<lparr>pl_updated := t\<rparr>) rows)" if "list_all bare_place rows" for q t rows
    using that assms by (auto simp: update_many_def list_all_iff bare_place_def)
  then show ?thesis unfolding update_place_def bare_places_def
    by (intro keepsI) (auto simp: bindS_apply seqS_apply now_apply require_def throw_def split: option.splits)
qed

text \<open>Everything that writes places, with the client in the place of the Google service.\<close>

inductive place_step :: "transport \<Rightarrow> db \<Rightarrow> db \<Rightarrow> bool" for tr where
  resolved: "place_step tr w (snd (resolve_place (client_env cfg tr ro env) src i w))"
| by_hand: "place_step tr w (snd (createManualPlace_service (client_env cfg tr ro env) c n a ci la lo w))"
| hidden: "place_step tr w (snd (setHiddenFromApp i b w))"
| city_patched: "place_step tr w (snd (patchPlaceCity i c n w))"
| time_passes: "db_now w \<le> t \<Longrightarrow> place_step tr w (w\<lparr>db_now := t\<rparr>)"

inductive_cases place_stepE: "place_step tr w w'"

lemma place_step_bare:
  assumes "honours_mask tr" "bare_places w" "place_step tr w w'" shows "bare_places w'"
proof -
  have "keeps bare_places (createManualPlace_service (client_env cfg tr ro env) c n a ci la lo)" for cfg ro env c n a ci la lo
    unfolding createManualPlace_service_def createManualPlace_def
    by (intro keeps_intro keeps_bare_city keeps_bare_upsert) (simp add: bare_input_def)
  note m = keepsD [OF this assms(2)]
  have "keeps bare_places (setHiddenFromApp i b)" for i b
    unfolding setHiddenFromApp_def by (rule keeps_bare_updates) (simp add: bare_place_def)
  note h = keepsD [OF this assms(2)]
  have "keeps bare_places (patchPlaceCity i c n)" for i c n
    unfolding patchPlaceCity_def by (intro keeps_intro keeps_bare_updates) (simp add: bare_place_def)
  note c = keepsD [OF this assms(2)]
  have t: "bare_places (w\<lparr>db_now := t\<rparr>)" for t using assms(2) by (simp add: bare_places_def)
  show ?thesis using assms(3)
    by (rule place_stepE) (simp_all add: keepsD [OF keeps_bare_resolve [OF assms(1)] assms(2)] m h c t)
qed

interpretation places: transition_system "\<lambda>w. honours_mask tr \<and> t_places w = []" "place_step tr" "\<lambda>w. honours_mask tr \<longrightarrow> bare_places w" for tr
  by unfold_locales (auto simp: bare_places_def intro: place_step_bare [unfolded bare_places_def])


definition rich_place :: google_place where
  "rich_place = \<lparr>gp_id = Some ''g'', gp_name = Some ''Bar'', gp_address = Some ''Calle 1, Salto'', gp_lat = Some 1, gp_lng = Some 2,
     gp_rating = Some 4, gp_count = Some 9, gp_types = Some [''bar''], gp_primaryType = Some ''bar'', gp_photos = Some [Some ''photo''],
     gp_current = None, gp_regular = None, gp_website = Some ''w'', gp_phone = Some ''1'', gp_mapsUri = None\<rparr>"

definition mask_transport :: transport where
  "mask_transport = \<lparr>tr_suggest = (\<lambda>_. FetchThrows []), tr_search = (\<lambda>_. FetchThrows []),
     tr_place = (\<lambda>q. Answered 5 200 [] (Some (masked (gq_mask q) rich_place))), tr_geo = (\<lambda>_. FetchThrows [])\<rparr>"

definition plain_options :: request_options where
  "plain_options = \<lparr>ro_encode = id, ro_text = (\<lambda>_. []), ro_sessionToken = None, ro_photos = False, ro_trace = None,
     ro_suggest = (\<lambda>q. \<lparr>ap_query = q, ap_lat = None, ap_lng = None, ap_sessionToken = None, ap_limit = None\<rparr>),
     ro_cities = (\<lambda>q. \<lparr>ap_query = q, ap_lat = None, ap_lng = None, ap_sessionToken = None, ap_limit = None\<rparr>),
     ro_search = (\<lambda>q. (False, \<lparr>sp_point = (0, 0), sp_enterprise = None, sp_photos = None, sp_limit = None, sp_query = q,
        sp_radius = 1, sp_type = None, sp_rank = None\<rparr>))\<rparr>"

definition salto_env :: places_env where
  "salto_env = (sample_env False)\<lparr>en_cache := (en_cache (sample_env False))\<lparr>ch_reverse :=
     (\<lambda>_. Some (Some \<lparr>cs_city = ''Salto'', cs_googlePlaceId = ''c'', cs_displayName = ''Salto'', cs_lat = Some 1, cs_lng = Some 2\<rparr>))\<rparr>\<rparr>"

definition sample_cfg :: client_cfg where
  "sample_cfg = \<lparr>cc_apiKey = Some ''k'', cc_language = [], cc_country = [], cc_radius = 1\<rparr>"

definition salto_client :: places_env where
  "salto_client = client_env sample_cfg mask_transport plain_options salto_env"

definition resolved_db :: db where
  "resolved_db = snd (resolve_place salto_client SrcGoogle ''g'' (empty_db 0))"

lemma masked_idem: "masked m (masked m p) = masked m p"
  by (rule google_place.equality) (simp_all add: masked_def)

lemma mask_transport_honest: "honours_mask mask_transport"
  by (auto simp: honours_mask_def mask_transport_def masked_idem)


section \<open>A cache that answers null\<close>

text \<open>\<open>cache-manager\<close> 6, the version the lock file pins, answers null for a key it does not hold, and not undefined.\<close>

definition null_misses :: "places_env \<Rightarrow> places_env" where
  "null_misses env = env\<lparr>en_cache := (en_cache env)\<lparr>
     ch_reverse := (\<lambda>p. Some (default_to (ch_reverse (en_cache env) p) None))\<rparr>\<rparr>"

text \<open>C31: over a cache that answers null for a missing key, the reverse geocoding of a point that is not in the cache is a 404
  whatever Google would say, since \<open>allowNull\<close> takes the null for a stored answer and Google is not asked; only the storing
  of a place's city, which asks again when it gets null, still works, and does so past the cache.\<close>

theorem null_miss_hides_cities:
  "reverseGeocodeCity_service (null_misses env) p w =
     ((if \<not> google_on env then Inl (NotFound ''City not found in local-only places mode'')
       else case ch_reverse (en_cache env) p of
          Some (Some c) \<Rightarrow> Inr c
        | _ \<Rightarrow> Inl (NotFound ''City not found for the provided coordinates'')), w)
   \<and> ensureStoredCityForCoordinates (null_misses env) la lo w = ensureStoredCityForCoordinates env la lo w"
proof -
  let ?g = "en_api env"
  have "ensureStoredCityForCoordinates (null_misses env) (Some x) (Some y) w = ensureStoredCityForCoordinates env (Some x) (Some y) w" for x y
    by (cases "ch_reverse (en_cache env) (x, y)"; cases "reverseGeocodeCity ?g (x, y)")
      (auto simp: ensureStoredCityForCoordinates_def null_misses_def getCachedReverseGeocodeCity_def getCachedGoogleValue_def
        bindS_apply liftE_def split: option.splits)
  then have "ensureStoredCityForCoordinates (null_misses env) la lo w = ensureStoredCityForCoordinates env la lo w"
    by (cases la; cases lo) (simp_all add: ensureStoredCityForCoordinates_def)
  moreover have "reverseGeocodeCity_service (null_misses env) p w =
     ((if \<not> google_on env then Inl (NotFound ''City not found in local-only places mode'')
       else case ch_reverse (en_cache env) p of
          Some (Some c) \<Rightarrow> Inr c
        | _ \<Rightarrow> Inl (NotFound ''City not found for the provided coordinates'')), w)"
    by (auto simp: reverseGeocodeCity_service_def null_misses_def getCachedReverseGeocodeCity_def getCachedGoogleValue_def
      seqS_apply bindS_apply throw_if_def require_def throw_def split: option.splits)
  ultimately show ?thesis by simp
qed

end
