(* ===== verification/WebAuth.thy ===== *)
theory WebAuth
  imports HttpEdge
begin

text \<open>
  \<open>src/auth/auth.controller.ts\<close>: signing in, refreshing and signing out, for the application with the refresh token in
  the body and for the browser with the token in a cookie, and the routes of the own account behind the guard.

  A handler answers with its result, the cookies it sets (also when it throws) and the database.  Express encodes the
  value of a cookie with \<open>encodeURIComponent\<close>; \<open>decode\<close> is \<open>decodeURIComponent\<close>, which may throw (\<open>None\<close>).
\<close>

section \<open>Cookies\<close>

record set_cookie =
  sc_name :: string
  sc_value :: "string option"
  sc_domain :: "string option"
  sc_expires :: "int option"
  sc_httpOnly :: bool
  sc_path :: string
  sc_sameSite :: string
  sc_secure :: bool

definition web_refresh_cookie :: string where "web_refresh_cookie = ''feca_refresh''"

definition setWebRefreshCookie :: "bool \<Rightarrow> string \<Rightarrow> int \<Rightarrow> set_cookie" where
  "setWebRefreshCookie production refreshToken expiresAt =
     \<lparr>sc_name = web_refresh_cookie, sc_value = Some refreshToken,
      sc_domain = (if production then Some ''.feca.cc'' else None), sc_expires = Some expiresAt, sc_httpOnly = True,
      sc_path = ''/v1/auth'', sc_sameSite = ''lax'', sc_secure = production\<rparr>"

definition clearWebRefreshCookie :: "bool \<Rightarrow> set_cookie" where
  "clearWebRefreshCookie production =
     \<lparr>sc_name = web_refresh_cookie, sc_value = None, sc_domain = (if production then Some ''.feca.cc'' else None),
      sc_expires = None, sc_httpOnly = True, sc_path = ''/v1/auth'', sc_sameSite = ''lax'', sc_secure = production\<rparr>"

primrec find_cookie :: "(string \<Rightarrow> string option) \<Rightarrow> string \<Rightarrow> string list \<Rightarrow> string option" where
  "find_cookie decode name [] = None"
| "find_cookie decode name (chunk # chunks) = (case index_of CHR ''='' chunk of
     None \<Rightarrow> find_cookie decode name chunks
   | Some separator \<Rightarrow>
       if js_trim (take separator chunk) \<noteq> name then find_cookie decode name chunks
       else decode (js_trim (drop (separator + 1) chunk)))"

definition readCookie :: "(string \<Rightarrow> string option) \<Rightarrow> string option \<Rightarrow> string \<Rightarrow> string option" where
  "readCookie decode cookieHeader name =
     (if truthy cookieHeader then find_cookie decode name (split_on CHR '';'' (the cookieHeader)) else None)"

section \<open>Handlers\<close>

type_synonym 'a web = "db \<Rightarrow> ((http_error + 'a) \<times> set_cookie list) \<times> db"

record safe_session =
  fs_accessToken :: string
  fs_accessExpires :: int
  fs_refreshExpires :: int
  fs_user :: authenticated_user
  fs_policy :: api_group_invite_policy
  fs_push :: bool

definition withoutRefreshToken :: "session_payload \<Rightarrow> safe_session" where
  "withoutRefreshToken s =
     \<lparr>fs_accessToken = ap_accessToken s, fs_accessExpires = ap_accessExpires s, fs_refreshExpires = ap_refreshExpires s,
      fs_user = ap_user s, fs_policy = ap_policy s, fs_push = ap_push s\<rparr>"

record auth_env =
  ae_cfg :: auth_config
  ae_production :: bool
  ae_verify :: "string \<Rightarrow> string \<Rightarrow> google_payload option option"
  ae_sign :: "string \<Rightarrow> string \<Rightarrow> int \<Rightarrow> string"
  ae_hash :: "string \<Rightarrow> string"
  ae_decode :: "string \<Rightarrow> string option"
  ae_verifyJwt :: "string \<Rightarrow> (string \<times> string) option"
  ae_getCity :: "string \<Rightarrow> city_input option"

definition auth_google_mobile :: "auth_env \<Rightarrow> string \<Rightarrow> nat \<Rightarrow> string \<Rightarrow> (bool \<times> session_payload) web" where
  "auth_google_mobile env fresh rnd idToken w =
     (case authenticateWithGoogle (ae_cfg env) (ae_verify env) (ae_sign env) (ae_hash env) fresh rnd idToken w of
        (r, w') \<Rightarrow> ((r, []), w'))"

definition auth_google_web :: "auth_env \<Rightarrow> string \<Rightarrow> nat \<Rightarrow> string \<Rightarrow> (bool \<times> safe_session) web" where
  "auth_google_web env fresh rnd idToken w =
     (case authenticateWithGoogle (ae_cfg env) (ae_verify env) (ae_sign env) (ae_hash env) fresh rnd idToken w of
        (Inl e, w') \<Rightarrow> ((Inl e, []), w')
      | (Inr (isNewUser, session), w') \<Rightarrow>
          ((Inr (isNewUser, withoutRefreshToken session),
            [setWebRefreshCookie (ae_production env) (ap_refreshToken session) (ap_refreshExpires session)]), w'))"

definition auth_refresh :: "auth_env \<Rightarrow> string \<Rightarrow> string \<Rightarrow> session_payload web" where
  "auth_refresh env fresh refreshToken w =
     (case refreshSession (ae_cfg env) (ae_sign env) (ae_hash env) fresh refreshToken w of (r, w') \<Rightarrow> ((r, []), w'))"

definition auth_refresh_web :: "auth_env \<Rightarrow> string \<Rightarrow> string option \<Rightarrow> safe_session web" where
  "auth_refresh_web env fresh cookieHeader w =
     (let refreshToken = readCookie (ae_decode env) cookieHeader web_refresh_cookie in
      if \<not> truthy refreshToken then ((Inl (Unauthorized ''No active web session''), []), w)
      else case refreshSession (ae_cfg env) (ae_sign env) (ae_hash env) fresh (the refreshToken) w of
        (Inl e, w') \<Rightarrow> ((Inl e, []), w')
      | (Inr session, w') \<Rightarrow>
          ((Inr (withoutRefreshToken session),
            [setWebRefreshCookie (ae_production env) (ap_refreshToken session) (ap_refreshExpires session)]), w'))"

definition auth_logout :: "auth_env \<Rightarrow> string \<Rightarrow> unit web" where
  "auth_logout env refreshToken w = (case logout (ae_hash env) refreshToken w of (r, w') \<Rightarrow> ((r, []), w'))"

definition auth_logout_web :: "auth_env \<Rightarrow> string option \<Rightarrow> unit web" where
  "auth_logout_web env cookieHeader w =
     (let refreshToken = readCookie (ae_decode env) cookieHeader web_refresh_cookie;
          (r, w') = (if truthy refreshToken then logout (ae_hash env) (the refreshToken) w else (Inr (), w))
      in ((r, [clearWebRefreshCookie (ae_production env)]), w'))"

text \<open>A route behind \<open>AccessTokenGuard\<close>: the handler runs with the subject of the token.\<close>

definition guarded :: "(string \<Rightarrow> (string \<times> string) option) \<Rightarrow> header \<Rightarrow> (string \<times> string \<Rightarrow> 'a dbm) \<Rightarrow> 'a dbm" where
  "guarded verifyJwt header handler = (case accessTokenGuard verifyJwt header of
     Inl e \<Rightarrow> throw e
   | Inr payload \<Rightarrow> handler payload)"

definition me_get :: "auth_env \<Rightarrow> header \<Rightarrow> me_view dbm" where
  "me_get env header = guarded (ae_verifyJwt env) header (\<lambda>user. getMe (ae_cfg env) (snd user))"

definition me_patch :: "auth_env \<Rightarrow> header \<Rightarrow> update_me_input \<Rightarrow> me_view dbm" where
  "me_patch env header body =
     guarded (ae_verifyJwt env) header (\<lambda>user. updateMe (ae_cfg env) (ae_getCity env) (snd user) body)"

definition me_delete :: "auth_env \<Rightarrow> header \<Rightarrow> unit dbm" where
  "me_delete env header = guarded (ae_verifyJwt env) header (\<lambda>user. deleteMyAccount (snd user))"

section \<open>Reading back a cookie\<close>

text \<open>The header a browser sends for its cookies.\<close>

fun cookie_header :: "(string \<times> string) list \<Rightarrow> string" where
  "cookie_header [] = []"
| "cookie_header [(n, v)] = n @ ''='' @ v"
| "cookie_header ((n, v) # c # cs) = n @ ''='' @ v @ ''; '' @ cookie_header (c # cs)"

definition cookie_text :: "string \<Rightarrow> bool" where
  "cookie_text s \<longleftrightarrow> list_all (\<lambda>c. c \<noteq> CHR '';'' \<and> \<not> is_ws c) s"

definition cookie_pair :: "string \<times> string \<Rightarrow> bool" where
  "cookie_pair nv \<longleftrightarrow> cookie_text (fst nv) \<and> CHR ''='' \<notin> set (fst nv) \<and> cookie_text (snd nv)"

lemma split_on_free: "c \<notin> set s \<Longrightarrow> split_on c s = [s]"
  by (induction s) auto

lemma split_on_append: "c \<notin> set s \<Longrightarrow> split_on c (s @ c # t) = s # split_on c t"
  by (induction s) auto

lemma trim_clean: "cookie_text s \<Longrightarrow> js_trim s = s"
proof -
  assume s: "cookie_text s"
  have "dropWhile is_ws t = t" if "list_all (\<lambda>c. \<not> is_ws c) t" for t using that by (cases t) auto
  moreover have "list_all (\<lambda>c. \<not> is_ws c) s" "list_all (\<lambda>c. \<not> is_ws c) (rev s)"
    using s by (auto simp: cookie_text_def list_all_iff)
  ultimately show ?thesis by (simp add: js_trim_def)
qed

lemma trim_blank: "cookie_text s \<Longrightarrow> js_trim (CHR '' '' # s) = s"
  using trim_clean [of s] by (simp add: js_trim_def is_ws_def code_unit_def)

lemma index_of_split: "c \<notin> set s \<Longrightarrow> index_of c (s @ c # t) = Some (length s)"
  by (simp add: index_of_def takeWhile_append2 Let_def) (metis (mono_tags, lifting) length_append list.size(4) takeWhile_append2 takeWhile.simps(2) append_Nil2 less_add_Suc1)

lemma read_pair:
  assumes "cookie_pair (n, v)" "sp = [] \<or> sp = '' ''"
  shows "find_cookie decode name ((sp @ n @ ''='' @ v) # chunks) = (if n \<noteq> name then find_cookie decode name chunks else decode v)"
proof -
  have "CHR ''='' \<notin> set (sp @ n)" using assms by (auto simp: cookie_pair_def)
  then have i: "index_of CHR ''='' (sp @ n @ ''='' @ v) = Some (length (sp @ n))"
    using index_of_split [of "CHR ''=''" "sp @ n" v] by simp
  have "js_trim (sp @ n) = n" "js_trim v = v" using assms trim_clean trim_blank by (auto simp: cookie_pair_def)
  moreover have "take (length (sp @ n)) (sp @ n @ ''='' @ v) = sp @ n" "drop (length (sp @ n) + 1) (sp @ n @ ''='' @ v) = v"
    by simp_all
  ultimately show ?thesis by (simp only: find_cookie.simps i option.case if_not_P split: if_splits)
qed

lemma cookie_text_chars: "cookie_text s \<Longrightarrow> CHR '';'' \<notin> set s"
  by (auto simp: cookie_text_def list_all_iff)

lemma pair_chars: "cookie_pair (n, v) \<Longrightarrow> sp = [] \<or> sp = '' '' \<Longrightarrow> CHR '';'' \<notin> set (sp @ n @ ''='' @ v)"
  using cookie_text_chars [of n] cookie_text_chars [of v] by (elim disjE) (simp_all add: cookie_pair_def)

lemma read_jar:
  assumes "list_all cookie_pair jar" "jar \<noteq> []" "sp = [] \<or> sp = '' ''"
  shows "find_cookie decode name (split_on CHR '';'' (sp @ cookie_header jar)) =
    (case map_of jar name of None \<Rightarrow> None | Some v \<Rightarrow> decode v)"
  using assms
proof (induction jar arbitrary: sp rule: cookie_header.induct)
  case (2 n v)
  then have "CHR '';'' \<notin> set (sp @ n @ ''='' @ v)" using pair_chars [of n v sp] by simp
  then have "split_on CHR '';'' (sp @ cookie_header [(n, v)]) = [sp @ n @ ''='' @ v]" by (simp add: split_on_free)
  then show ?case using read_pair [of n v sp decode name "[]"] 2 by simp
next
  case (3 n v c cs)
  then have pair: "cookie_pair (n, v)" by simp
  have "sp @ cookie_header ((n, v) # c # cs) = (sp @ n @ ''='' @ v) @ CHR '';'' # ('' '' @ cookie_header (c # cs))" by simp
  then have chunks: "split_on CHR '';'' (sp @ cookie_header ((n, v) # c # cs))
      = (sp @ n @ ''='' @ v) # split_on CHR '';'' ('' '' @ cookie_header (c # cs))"
    using split_on_append [OF pair_chars [OF pair 3(4)]] by (simp only:)
  have rest: "find_cookie decode name (split_on CHR '';'' ('' '' @ cookie_header (c # cs))) =
      (case map_of (c # cs) name of None \<Rightarrow> None | Some v \<Rightarrow> decode v)"
    using 3 by (intro "3.IH") simp_all
  show ?case unfolding chunks read_pair [OF pair 3(4)] rest by simp
qed simp

lemma cookie_header_Nil: "cookie_header jar = [] \<longleftrightarrow> jar = []"
  by (cases jar rule: cookie_header.cases) auto

lemma readCookie_jar:
  "list_all cookie_pair jar \<Longrightarrow>
   readCookie decode (Some (cookie_header jar)) name = (case map_of jar name of None \<Rightarrow> None | Some v \<Rightarrow> decode v)"
  using read_jar [of jar "[]" decode name] by (auto simp: readCookie_def truthy_def cookie_header_Nil)

section \<open>Properties\<close>

lemma refresh_web_Inr:
  assumes "auth_refresh_web env fresh h w = ((Inr p, cs), w')"
  obtains tok s where "readCookie (ae_decode env) h web_refresh_cookie = Some tok"
    "refreshSession (ae_cfg env) (ae_sign env) (ae_hash env) fresh tok w = (Inr s, w')" "p = withoutRefreshToken s"
    "cs = [setWebRefreshCookie (ae_production env) (ap_refreshToken s) (ap_refreshExpires s)]"
proof -
  define r where "r = readCookie (ae_decode env) h web_refresh_cookie"
  then have "truthy r" using assms by (auto simp: auth_refresh_web_def Let_def split: if_splits)
  then obtain tok where tok: "r = Some tok" by (cases r) (auto simp: truthy_def)
  obtain x v where x: "refreshSession (ae_cfg env) (ae_sign env) (ae_hash env) fresh tok w = (x, v)" by fastforce
  show thesis
    using assms tok x \<open>truthy r\<close> that unfolding r_def by (cases x) (auto simp: auth_refresh_web_def Let_def)
qed

text \<open>C9: a browser session goes on from cookie to cookie: a refresh answers one cookie that scripts cannot read, the
  header with it among other cookies reads back the new token, which belongs to the same user, and the cookie of the
  request no longer refreshes anything.\<close>

theorem web_session_rotates:
  assumes run: "auth_refresh_web env fresh (Some h) w = ((Inr p, cs), w')"
    and ok: "sessions_ok w" "0 < cf_refresh_days (ae_cfg env)"
    and enc: "ae_decode env encoded = Some fresh"
    and jar: "list_all cookie_pair ((web_refresh_cookie, encoded) # jar)"
  shows "(\<exists>c. cs = [c] \<and> sc_name c = web_refresh_cookie \<and> sc_value c = Some fresh \<and> sc_httpOnly c \<and> sc_path c = ''/v1/auth'')
    \<and> readCookie (ae_decode env) (Some (cookie_header ((web_refresh_cookie, encoded) # jar))) web_refresh_cookie = Some fresh
    \<and> (\<exists>tok s u s'. readCookie (ae_decode env) (Some h) web_refresh_cookie = Some tok
          \<and> findActiveSessionByRefreshTokenHash (ae_hash env tok) w = Some (s, u)
          \<and> findActiveSessionByRefreshTokenHash (ae_hash env fresh) w' = Some (s', u))
    \<and> auth_refresh_web env fresh' (Some h) w' = ((Inl (Unauthorized ''Invalid refresh token''), []), w')"
proof -
  obtain tok p' where t: "readCookie (ae_decode env) (Some h) web_refresh_cookie = Some tok"
    "refreshSession (ae_cfg env) (ae_sign env) (ae_hash env) fresh tok w = (Inr p', w')"
    "cs = [setWebRefreshCookie (ae_production env) (ap_refreshToken p') (ap_refreshExpires p')]"
    using run by (rule refresh_web_Inr)
  obtain s u where f: "findActiveSessionByRefreshTokenHash (ae_hash env tok) w = Some (s, u)"
    and fresh: "ae_hash env fresh \<notin> set (map ss_hash (t_sessions w))"
    and sess: "t_sessions w' = snd (revoke_active (ss_id s) (db_now w) (t_sessions w))
       @ [session_at \<lparr>si_expires = addDays (db_now w) (cf_refresh_days (ae_cfg env)), si_ip = None, si_hash = ae_hash env fresh,
            si_agent = None, si_user = u_id u\<rparr> (db_cuid w (db_next w))]" (is "_ = _ @ [?new]")
    and rest: "t_users w' = t_users w" "db_now w' = db_now w" "ap_refreshToken p' = fresh"
    by (rule refreshSession_run [OF t(2) ok(1)])
  have uid: "u_id u = ss_user s" using user_by_id_fields [OF find_active_Some(4) [OF f]] .
  have new: "active_session (db_now w) ?new" "ss_hash ?new = ae_hash env fresh" "ss_user ?new = ss_user s"
    using ok(2) uid by (simp_all add: session_at_def active_session_def addDays_def)
  have look: "findActiveSessionByRefreshTokenHash k w' = (if k = ae_hash env tok then None
      else if k = ae_hash env fresh then Some (?new, u) else findActiveSessionByRefreshTokenHash k w)" for k
    using rotation_lookup [OF f ok(1) _ new(1,3) sess rest(1,2), of k] fresh unfolding new(2) by blast
  have s: "s \<in> set (t_sessions w)" "ss_hash s = ae_hash env tok" using find_active_Some [OF f] by blast+
  then have ne: "ae_hash env fresh \<noteq> ae_hash env tok" using fresh by (metis imageI set_map)
  have "truthy (Some tok)" using run t(1) by (auto simp: auth_refresh_web_def Let_def split: if_splits)
  then have "auth_refresh_web env fresh' (Some h) w' = ((Inl (Unauthorized ''Invalid refresh token''), []), w')"
    using look t(1) by (simp add: auth_refresh_web_def Let_def refreshSession_def bindS_apply)
  then show ?thesis using t f look ne rest(3) readCookie_jar [OF jar] enc by (simp add: setWebRefreshCookie_def)
qed

definition sample_auth_env :: auth_env where
  "sample_auth_env = \<lparr>ae_cfg = sample_config, ae_production = True, ae_verify = (\<lambda>_ _. None), ae_sign = (\<lambda>_ _ _. ''jwt''),
     ae_hash = Cons CHR ''#'', ae_decode = Some, ae_verifyJwt = (\<lambda>_. None), ae_getCity = (\<lambda>_. None)\<rparr>"

lemma sample_cookie: "readCookie Some (Some ''feca_refresh=old'') web_refresh_cookie = Some ''old''"
proof -
  have "list_all cookie_pair [(''feca_refresh'', ''old'')]" by code_simp
  from readCookie_jar [OF this, of Some web_refresh_cookie] show ?thesis by (simp add: web_refresh_cookie_def)
qed

theorem web_session_rotates_witness:
  "\<exists>p cs w'. auth_refresh_web sample_auth_env ''new'' (Some ''feca_refresh=old'') sample_session_db = ((Inr p, cs), w')
     \<and> map sc_value cs = [Some ''new'']
     \<and> fst (auth_refresh_web sample_auth_env ''x'' (Some ''feca_refresh=old'') w') = (Inl (Unauthorized ''Invalid refresh token''), [])"
proof -
  have ok: "sessions_ok sample_session_db" by (simp add: sessions_ok_def sample_session_db_def)
  have d: "0 < cf_refresh_days (ae_cfg sample_auth_env)" by (simp add: sample_auth_env_def sample_config_def)
  obtain p w' where "refreshSession sample_config (\<lambda>_ _ _. ''jwt'') (Cons (CHR ''#'')) ''new'' ''old'' sample_session_db = (Inr p, w')"
    by (simp add: refreshSession_def bindS_apply findActiveSessionByRefreshTokenHash_def sample_session_db_def
        active_session_def user_by_id_def sample_user_def issueSession_def now_apply getSocialSettingsRepo_def seqS_apply
        ensureUserSettings_def settings_of_def empty_db_def truthy_def rotate_run revoke_active_def count_rows_def Let_def)
  then obtain cs where r: "auth_refresh_web sample_auth_env ''new'' (Some ''feca_refresh=old'') sample_session_db
      = ((Inr (withoutRefreshToken p), cs), w')"
    by (simp add: auth_refresh_web_def sample_auth_env_def sample_cookie truthy_def)
  have jar: "list_all cookie_pair [(web_refresh_cookie, ''new'')]" by code_simp
  have enc: "ae_decode sample_auth_env ''new'' = Some ''new''" by (simp add: sample_auth_env_def)
  from web_session_rotates [OF r ok d enc jar, of "''x''"] r show ?thesis by auto
qed

text \<open>Signing out of the browser always clears the cookie, also when the header holds none or the session is unknown,
  and never fails.\<close>

theorem web_logout_clears:
  "\<exists>w'. auth_logout_web env h w = ((Inr (), [clearWebRefreshCookie (ae_production env)]), w')
     \<and> (case readCookie (ae_decode env) h web_refresh_cookie of None \<Rightarrow> w' = w
        | Some tok \<Rightarrow> tok = [] \<or> findActiveSessionByRefreshTokenHash (ae_hash env tok) w' = None)"
proof -
  define r where "r = readCookie (ae_decode env) h web_refresh_cookie"
  have gone: "findActiveSessionByRefreshTokenHash k (snd (logout (ae_hash env) tok w)) = None" if "k = ae_hash env tok" for k tok
  proof -
    have "find_unique (\<lambda>s. active_session (db_now w) s \<and> ss_hash s = k)
        (update_many (\<lambda>s. ss_hash s = k \<and> ss_revoked s = None) (\<lambda>s. s\<lparr>ss_revoked := Some (db_now w)\<rparr>) rows) = None" for rows
      by (induction rows) (auto simp: find_unique_def active_session_def)
    then show ?thesis
      by (simp add: findActiveSessionByRefreshTokenHash_def logout_def revokeSessionByRefreshTokenHash_def that)
  qed
  have ok: "fst (logout (ae_hash env) tok w) = Inr ()" for tok
    by (simp add: logout_def revokeSessionByRefreshTokenHash_def)
  show ?thesis
  proof (cases "truthy r")
    case True
    then obtain tok where "r = Some tok" by (cases r) (auto simp: truthy_def)
    then show ?thesis using True ok [of tok] gone [of _ tok] unfolding r_def
      by (cases "logout (ae_hash env) tok w") (auto simp: auth_logout_web_def Let_def)
  next
    case False
    then show ?thesis unfolding r_def by (auto simp: auth_logout_web_def Let_def truthy_def split: option.splits)
  qed
qed

text \<open>Without a valid token no guarded route runs.\<close>

lemma guarded_refuses: "accessTokenGuard verifyJwt header = Inl e \<Longrightarrow> guarded verifyJwt header handler = throw e"
  by (simp add: guarded_def)

lemma guarded_runs: "accessTokenGuard verifyJwt header = Inr p \<Longrightarrow> guarded verifyJwt header handler = handler p"
  by (simp add: guarded_def)

end
