(* ===== verification/GroupViews.thy ===== *)
theory GroupViews
  imports Notifications
begin

text \<open>
  Groups as the API shows them: the rows joined with their relations (\<open>groupInclude\<close> and
  \<open>groupEventInclude\<close> in \<open>social.repository.types.ts\<close>) and the presenters
  \<open>lib/presenters/group.presenter.ts\<close> and \<open>place.presenter.ts\<close>.  A required relation is an option that
  is \<open>None\<close> only when a foreign key is broken.  Dates at day precision are day numbers (UTC), the
  information of the \<open>YYYY-MM-DD\<close> strings.
\<close>

section \<open>Joined rows\<close>

record event_full =
  ef_event :: event_row
  ef_place :: "place_row option"
  ef_proposedBy :: "user_row option"
  ef_rsvps :: "rsvp_row list"

record member_full =
  mf_member :: member_row
  mf_user :: "user_row option"
  mf_invitedBy :: "user_row option"

record group_full =
  gf_group :: group_row
  gf_createdBy :: "user_row option"
  gf_events :: "event_full list"
  gf_members :: "member_full list"

definition event_with_relations :: "db \<Rightarrow> event_row \<Rightarrow> event_full" where
  "event_with_relations w e = \<lparr>ef_event = e, ef_place = place_by_id (ev_place e) w,
     ef_proposedBy = user_by_id (ev_proposer e) w,
     ef_rsvps = find_many (\<lambda>r. rs_event r = ev_id e) (t_rsvps w)\<rparr>"

definition member_with_relations :: "db \<Rightarrow> member_row \<Rightarrow> member_full" where
  "member_with_relations w m = \<lparr>mf_member = m, mf_user = user_by_id (gm_user m) w,
     mf_invitedBy = (case gm_inviter m of None \<Rightarrow> None | Some u \<Rightarrow> user_by_id u w)\<rparr>"

text \<open>Events by date, then newest first; members by creation time.\<close>

definition group_include :: "db \<Rightarrow> group_row \<Rightarrow> group_full" where
  "group_include w g = \<lparr>gf_group = g, gf_createdBy = user_by_id (g_created_by g) w,
     gf_events = map (event_with_relations w)
       (sort_by (\<lambda>a b. ev_date a < ev_date b \<or> ev_date a = ev_date b \<and> ev_created b \<le> ev_created a)
         (find_many (\<lambda>e. ev_group e = g_id g) (t_events w))),
     gf_members = map (member_with_relations w)
       (sort_by (\<lambda>a b. gm_created a \<le> gm_created b)
         (find_many (\<lambda>m. gm_group m = g_id g) (t_members w)))\<rparr>"

definition group_full_by_id :: "string \<Rightarrow> db \<Rightarrow> group_full option" where
  "group_full_by_id gid w = map_option (group_include w) (group_by_id gid w)"

section \<open>Place presenters\<close>

record place_summary =
  ps_address :: string
  ps_googlePlaceId :: "string option"
  ps_id :: string
  ps_name :: string
  ps_photoUrl :: "string option"

definition serializePlaceSummary :: "place_row \<Rightarrow> place_summary" where
  "serializePlaceSummary place = \<lparr>ps_address = pl_address place, ps_googlePlaceId = pl_google_id place,
     ps_id = pl_id place, ps_name = pl_name place, ps_photoUrl = pl_photo place\<rparr>"

definition serializePlaceSummaryForPublicGroupViewer :: "place_row \<Rightarrow> place_summary" where
  "serializePlaceSummaryForPublicGroupViewer place =
     (let area = js_trim (pl_city place)
      in \<lparr>ps_address = (if length area > 0 then area else pl_name place), ps_googlePlaceId = None,
          ps_id = pl_id place, ps_name = pl_name place, ps_photoUrl = pl_photo place\<rparr>)"

section \<open>Event capabilities\<close>

record capability_context =
  cc_createdById :: string
  cc_interaction :: member_proposal_interaction
  cc_placeProposalPolicy :: place_proposal_policy

record event_flags =
  allowsConfirm :: bool
  allowsCounterProposals :: bool
  allowsRsvp :: bool

definition computeGroupEventCapabilityFlags :: "capability_context \<Rightarrow> event_row \<Rightarrow> event_flags" where
  "computeGroupEventCapabilityFlags grp event =
     (if ev_status event = ECompleted \<or> ev_status event = ECancelled
      then \<lparr>allowsConfirm = False, allowsCounterProposals = False, allowsRsvp = False\<rparr>
      else if ev_status event = EAnnouncement
      then \<lparr>allowsConfirm = False, allowsCounterProposals = False, allowsRsvp = False\<rparr>
      else if ev_status event = EConfirmed
      then \<lparr>allowsConfirm = False, allowsCounterProposals = False, allowsRsvp = True\<rparr>
      else
        let isOwnerProposal = ev_proposer event = cc_createdById grp;
            lockedMemberProposal = cc_interaction grp = AnnouncementLocked \<and> \<not> isOwnerProposal
        in if lockedMemberProposal
           then \<lparr>allowsConfirm = False, allowsCounterProposals = False, allowsRsvp = False\<rparr>
           else \<lparr>allowsConfirm = True,
                 allowsCounterProposals = (cc_placeProposalPolicy grp = AllMembers),
                 allowsRsvp = True\<rparr>)"

definition formatDateOnly :: "int \<Rightarrow> int" where
  "formatDateOnly t = t div 86400000"

text \<open>\<open>myRsvp\<close> is \<open>None\<close> when no viewer is given and \<open>Some None\<close> for the string \<open>none\<close>.\<close>

record event_view =
  evw_flags :: event_flags
  evw_date :: int
  evw_id :: string
  evw_myRsvp :: "rsvp_status option option"
  evw_place :: "place_summary option"
  evw_proposedBy :: "user_public option"
  evw_status :: group_event_status

definition serializeGroupEvent ::
  "event_full \<Rightarrow> capability_context option \<Rightarrow> bool \<Rightarrow> string option \<Rightarrow> event_view" where
  "serializeGroupEvent event grp redactPlaceForPublic viewerUserId =
     \<lparr>evw_flags = (case grp of
          Some g \<Rightarrow> computeGroupEventCapabilityFlags g (ef_event event)
        | None \<Rightarrow> \<lparr>allowsConfirm = False, allowsCounterProposals = False, allowsRsvp = True\<rparr>),
      evw_date = formatDateOnly (ev_date (ef_event event)),
      evw_id = ev_id (ef_event event),
      evw_myRsvp = (if truthy viewerUserId
         then Some (map_option rs_rsvp
                (find_unique (\<lambda>r. Some (rs_user r) = viewerUserId) (ef_rsvps event)))
         else None),
      evw_place = map_option
         (if redactPlaceForPublic then serializePlaceSummaryForPublicGroupViewer
          else serializePlaceSummary) (ef_place event),
      evw_proposedBy = map_option (serializeUserPublic False) (ef_proposedBy event),
      evw_status = ev_status (ef_event event)\<rparr>"

section \<open>Groups\<close>

datatype member_status_view = VActive | VInvited | VRequested | VDeclined | VLeft | VNone

definition mapGroupMemberStatus :: "member_status \<Rightarrow> member_status_view" where
  "mapGroupMemberStatus status = (case status of
     MAccepted \<Rightarrow> VActive | MPending \<Rightarrow> VInvited | MRequested \<Rightarrow> VRequested
   | MDeclined \<Rightarrow> VDeclined | MLeft \<Rightarrow> VLeft)"

record member_view =
  mv_accepted :: bool
  mv_invitedBy :: "user_public option"
  mv_role :: member_role
  mv_status :: member_status_view
  mv_user :: "user_public option"

record group_view =
  gv_createdBy :: "user_public option"
  gv_events :: "event_view list"
  gv_id :: string
  gv_inviteCode :: "string option"
  gv_memberCount :: nat
  gv_interaction :: member_proposal_interaction
  gv_members :: "member_view list"
  gv_name :: string
  gv_placeProposalPolicy :: place_proposal_policy
  gv_visibility :: group_visibility
  gv_viewerMembership :: "member_status_view option"

definition accepted_member :: "member_full \<Rightarrow> bool" where
  "accepted_member m \<longleftrightarrow> gm_status (mf_member m) = MAccepted"

definition serializeGroup :: "group_full \<Rightarrow> bool \<Rightarrow> string option \<Rightarrow> group_view" where
  "serializeGroup grp publicPreview viewerUserId =
     (let g = gf_group grp;
          acceptedCount = length (filter accepted_member (gf_members grp));
          myMembership =
            (if truthy viewerUserId
             then find_unique (\<lambda>m. Some (gm_user (mf_member m)) = viewerUserId) (gf_members grp)
             else None);
          viewerMembership =
            (if publicPreview then Some VNone
             else case myMembership of
               None \<Rightarrow> None
             | Some m \<Rightarrow>
                 Some (case gm_status (mf_member m) of
                   MAccepted \<Rightarrow> VActive | MPending \<Rightarrow> VInvited | MRequested \<Rightarrow> VRequested
                 | _ \<Rightarrow> VNone));
          groupContext = \<lparr>cc_createdById = g_created_by g, cc_interaction = g_interaction g,
                          cc_placeProposalPolicy = g_proposal_policy g\<rparr>
      in \<lparr>gv_createdBy = map_option (serializeUserPublic False) (gf_createdBy grp),
          gv_events = map (\<lambda>e. serializeGroupEvent e (Some groupContext) publicPreview viewerUserId)
            (gf_events grp),
          gv_id = g_id g,
          gv_inviteCode = (if publicPreview then None else Some (g_invite_code g)),
          gv_memberCount = acceptedCount,
          gv_interaction = g_interaction g,
          gv_members = (if publicPreview then []
            else map (\<lambda>m. \<lparr>mv_accepted = accepted_member m,
                            mv_invitedBy = map_option (serializeUserPublic False) (mf_invitedBy m),
                            mv_role = gm_role (mf_member m),
                            mv_status = mapGroupMemberStatus (gm_status (mf_member m)),
                            mv_user = map_option (serializeUserPublic False) (mf_user m)\<rparr>)
                   (gf_members grp)),
          gv_name = g_name g,
          gv_placeProposalPolicy = g_proposal_policy g,
          gv_visibility = g_visibility g,
          gv_viewerMembership = viewerMembership\<rparr>)"

section \<open>Recipients and listings\<close>

definition buildAcceptedGroupMemberRecipientIds :: "group_full \<Rightarrow> string list \<Rightarrow> string list" where
  "buildAcceptedGroupMemberRecipientIds grp excludedUserIds =
     filter (\<lambda>u. u \<notin> set excludedUserIds)
       (map (\<lambda>m. gm_user (mf_member m)) (filter accepted_member (gf_members grp)))"

definition buildGroupAdminRecipientIds :: "group_full \<Rightarrow> string list \<Rightarrow> string list" where
  "buildGroupAdminRecipientIds grp excludedUserIds =
     filter (\<lambda>u. u \<notin> set excludedUserIds)
       (map (\<lambda>m. gm_user (mf_member m))
         (filter (\<lambda>m. accepted_member m
                    \<and> (gm_role (mf_member m) = Owner \<or> gm_role (mf_member m) = Admin)) (gf_members grp)))"

definition buildGroupEventRsvpRecipientIds :: "group_full \<Rightarrow> event_row \<Rightarrow> string \<Rightarrow> string list" where
  "buildGroupEventRsvpRecipientIds grp event actorUserId =
     filter (\<lambda>u. u \<noteq> actorUserId)
       (dedupe (ev_proposer event # buildGroupAdminRecipientIds grp []))"

text \<open>The next event of the "friends' plans" list: from today on (UTC), confirmed first, then proposed or
  announced, earliest first.\<close>

definition pickNextEventForPublicFriendList :: "int \<Rightarrow> event_row list \<Rightarrow> event_row option" where
  "pickNextEventForPublicFriendList t events =
     (if events = [] then None
      else
        let startOfToday = (t div 86400000) * 86400000;
            futureNonCompleted = filter (\<lambda>e. startOfToday \<le> ev_date e \<and> ev_status e \<noteq> ECompleted) events;
            confirmed = sort_by (\<lambda>a b. ev_date a \<le> ev_date b)
              (filter (\<lambda>e. ev_status e = EConfirmed) futureNonCompleted)
        in if length confirmed > 0 then head_opt confirmed
           else
             let proposedLike = sort_by (\<lambda>a b. ev_date a \<le> ev_date b)
                   (filter (\<lambda>e. ev_status e = EProposed \<or> ev_status e = EAnnouncement) futureNonCompleted)
             in if length proposedLike > 0 then head_opt proposedLike else None)"

text \<open>\<open>collate\<close> stands for \<open>localeCompare(x, y) <= 0\<close>.\<close>

definition pickFriendParticipant ::
  "(string \<Rightarrow> string \<Rightarrow> bool) \<Rightarrow> member_full list \<Rightarrow> string set \<Rightarrow> string \<Rightarrow> member_full option" where
  "pickFriendParticipant collate members followedMemberIds viewerId =
     (let candidates = filter (\<lambda>m. accepted_member m \<and> gm_user (mf_member m) \<noteq> viewerId
                                  \<and> gm_user (mf_member m) \<in> followedMemberIds) members
      in if length candidates = 0 then None
         else head_opt (sort_by (\<lambda>a b. collate (gm_user (mf_member a)) (gm_user (mf_member b))) candidates))"

record friend_plan_event =
  fe_areaLabel :: "string option"
  fe_date :: int
  fe_placeName :: string
  fe_status :: group_event_status

record friend_plan_view =
  fp_createdBy :: "user_public option"
  fp_friendParticipant :: "user_public option"
  fp_id :: string
  fp_memberCount :: nat
  fp_name :: string
  fp_nextEvent :: "friend_plan_event option"

definition serializePublicFriendGroupPlan ::
  "(string \<Rightarrow> string \<Rightarrow> bool) \<Rightarrow> group_full \<Rightarrow> string set \<Rightarrow> event_full option \<Rightarrow> string \<Rightarrow> friend_plan_view" where
  "serializePublicFriendGroupPlan collate grp followedMemberIds next viewerId =
     (let friend = pickFriendParticipant collate (gf_members grp) followedMemberIds viewerId
      in \<lparr>fp_createdBy = map_option (serializeUserPublic False) (gf_createdBy grp),
          fp_friendParticipant = (case friend of None \<Rightarrow> None
             | Some m \<Rightarrow> map_option (serializeUserPublic False) (mf_user m)),
          fp_id = g_id (gf_group grp),
          fp_memberCount = length (filter accepted_member (gf_members grp)),
          fp_name = g_name (gf_group grp),
          fp_nextEvent = (case next of
              None \<Rightarrow> None
            | Some e \<Rightarrow>
                let st = ev_status (ef_event e);
                    nextStatusForApi = (if st = EAnnouncement then EProposed
                      else if st = EProposed \<or> st = EConfirmed \<or> st = ECompleted then st
                      else EProposed);
                    areaRaw = js_trim (case ef_place e of None \<Rightarrow> [] | Some p \<Rightarrow> pl_city p);
                    placeTitle = js_trim (case ef_place e of None \<Rightarrow> [] | Some p \<Rightarrow> pl_name p)
                in Some \<lparr>fe_areaLabel = (if length areaRaw > 0 then Some areaRaw else None),
                         fe_date = formatDateOnly (ev_date (ef_event e)),
                         fe_placeName = placeTitle, fe_status = nextStatusForApi\<rparr>)\<rparr>)"

section \<open>Lemmas\<close>

lemma set_gf_members:
  "mf \<in> set (gf_members (group_include w g)) \<longleftrightarrow>
   (\<exists>m\<in>set (t_members w). gm_group m = g_id g \<and> mf = member_with_relations w m)"
  by (auto simp: group_include_def)

lemma mf_member_with_relations [simp]: "mf_member (member_with_relations w m) = m"
  by (simp add: member_with_relations_def)

lemma ef_event_with_relations [simp]: "ef_event (event_with_relations w e) = e"
  by (simp add: event_with_relations_def)

lemma admin_recipients_iff:
  "u \<in> set (buildGroupAdminRecipientIds (group_include w g) ex) \<longleftrightarrow>
   u \<notin> set ex \<and> (\<exists>m\<in>set (t_members w). gm_group m = g_id g \<and> gm_user m = u
      \<and> gm_status m = MAccepted \<and> gm_role m \<in> {Owner, Admin})"
  by (simp add: buildGroupAdminRecipientIds_def set_gf_members accepted_member_def image_iff)
     (metis mf_member_with_relations)

lemma accepted_recipients_iff:
  "u \<in> set (buildAcceptedGroupMemberRecipientIds (group_include w g) ex) \<longleftrightarrow>
   u \<notin> set ex \<and> (\<exists>m\<in>set (t_members w). gm_group m = g_id g \<and> gm_user m = u
      \<and> gm_status m = MAccepted)"
  by (simp add: buildAcceptedGroupMemberRecipientIds_def set_gf_members accepted_member_def image_iff)
     (metis mf_member_with_relations)

text \<open>Reordering the rows does not change the accepted count.\<close>

lemma memberCount_group_include:
  "gv_memberCount (serializeGroup (group_include w g) b v) =
   count_rows (\<lambda>m. gm_group m = g_id g \<and> gm_status m = MAccepted) (t_members w)"
proof -
  let ?s = "sort_by (\<lambda>a b. gm_created a \<le> gm_created b) (find_many (\<lambda>m. gm_group m = g_id g) (t_members w))"
  have "length (filter accepted_member (map (member_with_relations w) ?s)) =
        length (filter (\<lambda>m. gm_status m = MAccepted) ?s)"
    by (simp add: filter_map comp_def accepted_member_def)
  also have "\<dots> = size (mset (filter (\<lambda>m. gm_status m = MAccepted) ?s))" by (rule size_mset [symmetric])
  also have "\<dots> = size (mset (filter (\<lambda>m. gm_status m = MAccepted) (find_many (\<lambda>m. gm_group m = g_id g) (t_members w))))"
    by (simp only: mset_filter mset_sort_by)
  also have "\<dots> = length (filter (\<lambda>m. gm_status m = MAccepted) (find_many (\<lambda>m. gm_group m = g_id g) (t_members w)))"
    by (rule size_mset)
  also have "\<dots> = count_rows (\<lambda>m. gm_group m = g_id g \<and> gm_status m = MAccepted) (t_members w)"
    by (simp add: find_many_def count_rows_def conj_commute)
  finally show ?thesis by (simp add: serializeGroup_def Let_def group_include_def)
qed

section \<open>Properties\<close>

text \<open>The public preview of a group, whoever looks and whatever the group holds, carries no invite code,
  no member list and no standing of the viewer, and its events carry no Google place id and no
  address other than the trimmed city or, without one, the name of the place.\<close>

theorem public_preview_redacts:
  "gv_inviteCode (serializeGroup g True v) = None \<and> gv_members (serializeGroup g True v) = []
   \<and> gv_viewerMembership (serializeGroup g True v) = Some VNone
   \<and> list_all (\<lambda>e. case evw_place e of None \<Rightarrow> True
        | Some p \<Rightarrow> ps_googlePlaceId p = None
            \<and> list_ex (\<lambda>f. case ef_place f of None \<Rightarrow> False
                 | Some q \<Rightarrow> ps_address p = (if js_trim (pl_city q) = [] then pl_name q else js_trim (pl_city q)))
                (gf_events g))
      (gv_events (serializeGroup g True v))"
  by (auto simp: serializeGroup_def Let_def list_all_iff list_ex_iff serializeGroupEvent_def
      serializePlaceSummaryForPublicGroupViewer_def split: option.splits)

text \<open>The capability flags of an event, for every combination of its status and the group's policies:
  confirming needs an open proposal that is not a locked member proposal, counter proposals need in
  addition that all members may propose, and attendance stays open on confirmed events too; so
  confirming implies attendance and counter proposals imply confirming.\<close>

theorem capability_flags_matrix:
  "computeGroupEventCapabilityFlags g e =
   (let open_proposal = ev_status e = EProposed
          \<and> (cc_interaction g = Collaborative \<or> ev_proposer e = cc_createdById g)
    in \<lparr>allowsConfirm = open_proposal,
        allowsCounterProposals = (open_proposal \<and> cc_placeProposalPolicy g = AllMembers),
        allowsRsvp = (open_proposal \<or> ev_status e = EConfirmed)\<rparr>)"
  by (cases "ev_status e"; cases "cc_interaction g")
     (simp_all add: computeGroupEventCapabilityFlags_def Let_def)

text \<open>The event shown for a friend's plan is an upcoming one that is not completed or cancelled; it is
  confirmed whenever a confirmed one is upcoming, no event of the chosen class is earlier, and none is
  shown only when no confirmed, proposed or announced event lies ahead.\<close>

theorem pick_next_event_spec:
  "case pickNextEventForPublicFriendList t es of
     None \<Rightarrow> \<not> list_ex (\<lambda>e. t div 86400000 * 86400000 \<le> ev_date e
               \<and> ev_status e \<in> {EConfirmed, EProposed, EAnnouncement}) es
   | Some e \<Rightarrow> e \<in> set es \<and> t div 86400000 * 86400000 \<le> ev_date e
       \<and> ev_status e \<in> {EConfirmed, EProposed, EAnnouncement}
       \<and> list_all (\<lambda>f. \<not> (t div 86400000 * 86400000 \<le> ev_date f
            \<and> (ev_status f = EConfirmed \<and> ev_status e \<noteq> EConfirmed
               \<or> (ev_status f = EConfirmed) = (ev_status e = EConfirmed)
                 \<and> ev_status f \<in> {EConfirmed, EProposed, EAnnouncement} \<and> ev_date f < ev_date e))) es"
proof -
  define start where "start = t div 86400000 * 86400000"
  let ?le = "\<lambda>a b :: event_row. ev_date a \<le> ev_date b"
  let ?f = "filter (\<lambda>e. start \<le> ev_date e \<and> ev_status e \<noteq> ECompleted) es"
  let ?cf = "filter (\<lambda>e. ev_status e = EConfirmed) ?f"
  let ?pf = "filter (\<lambda>e. ev_status e = EProposed \<or> ev_status e = EAnnouncement) ?f"
  have tp: "total_preorder ?le" by simp
  show ?thesis
  proof (cases "sort_by ?le ?cf")
    case (Cons c cs)
    have le: "\<not> ev_date f < ev_date c"
      if "f \<in> set es" "start \<le> ev_date f" "ev_status f = EConfirmed" for f
      using that hd_sort_by_le [OF tp Cons, of f] by simp
    have c: "c \<in> set ?cf" by (rule sort_by_hd_mem [OF Cons])
    have "pickNextEventForPublicFriendList t es = Some c"
    proof -
      have "es \<noteq> []" using c by auto
      moreover have "0 < length (sort_by ?le ?cf)" by (simp only: Cons) simp
      ultimately show ?thesis
        by (simp only: pickNextEventForPublicFriendList_def start_def [symmetric] Let_def if_False if_True Cons head_opt_simps)
    qed
    then show ?thesis using c le by (auto simp: list_all_iff start_def)
  next
    case Nil
    then have "?cf = []" by (simp only: sort_by_eq_Nil)
    then have nc: "\<forall>e\<in>set es. start \<le> ev_date e \<longrightarrow> ev_status e \<noteq> EConfirmed"
      by (auto simp: filter_empty_conv)
    show ?thesis
    proof (cases "sort_by ?le ?pf")
      case (Cons c cs)
      have le: "\<not> ev_date f < ev_date c"
        if "f \<in> set es" "start \<le> ev_date f" "ev_status f = EProposed \<or> ev_status f = EAnnouncement" for f
        using that hd_sort_by_le [OF tp Cons, of f] by auto
      have c: "c \<in> set ?pf" by (rule sort_by_hd_mem [OF Cons])
      have "pickNextEventForPublicFriendList t es = Some c"
      proof -
        have "es \<noteq> []" using c by auto
        moreover have "0 < length (sort_by ?le ?pf)" by (simp only: Cons) simp
        ultimately show ?thesis
          by (simp only: pickNextEventForPublicFriendList_def start_def [symmetric] Let_def if_False if_True Nil Cons
              head_opt_simps list.size less_nat_zero_code)
      qed
      then show ?thesis using nc c le by (auto simp: list_all_iff start_def)
    next
      case Nil': Nil
      then have "pickNextEventForPublicFriendList t es = None"
        by (simp only: pickNextEventForPublicFriendList_def start_def [symmetric] Let_def if_False Nil Nil'
            list.size less_nat_zero_code if_cancel)
      moreover have "?pf = []" using Nil' by (simp only: sort_by_eq_Nil)
      ultimately show ?thesis using nc by (auto simp: list_ex_iff filter_empty_conv start_def)
    qed
  qed
qed

end
