(* ===== verification/SocialGroups.thy ===== *)
theory SocialGroups
  imports GroupViews
begin

text \<open>
  Groups and their members: creating a group with invitations, inviting, joining by code and leaving
  (\<open>social-groups.repository.ts\<close>, \<open>social-group-membership.repository.ts\<close>), the service above them
  (\<open>social/social-groups.service.ts\<close>) and the events of a group with their attendance
  (\<open>social-group-events.repository.ts\<close>, \<open>social-group-events.service.ts\<close>).  Resolving a Google place
  and \<open>localeCompare\<close> are parameters; invite codes are an argument (they are random).
\<close>

section \<open>Inviting\<close>

datatype reject_reason = RejNotFound | RejInvitePolicy

type_synonym rejected_invite = "reject_reason \<times> string"

definition assertNoInvitePolicyRejections :: "rejected_invite list \<Rightarrow> unit dbm" where
  "assertNoInvitePolicyRejections rejectedInvites =
     (if list_ex (\<lambda>entry. fst entry = RejInvitePolicy) rejectedInvites
      then throw (Unprocessable ''INVITE_NOT_ALLOWED_BY_TARGET_POLICY'') else ret ())"

definition dedupedMemberIds :: "string \<Rightarrow> string list \<Rightarrow> string list" where
  "dedupedMemberIds inviter memberIds = dedupe (filter (\<lambda>m. m \<noteq> inviter) memberIds)"

text \<open>The ids that belong to users, in the order of the users table, as \<open>findMany\<close> returns them.\<close>

definition invitees_of :: "string list \<Rightarrow> db \<Rightarrow> user_row list" where
  "invitees_of ids w = find_many (\<lambda>u. u_id u \<in> set ids) (t_users w)"

definition can_invite :: "string \<Rightarrow> string list \<Rightarrow> string \<Rightarrow> db \<Rightarrow> bool" where
  "can_invite inviter ids memberId w =
     (let relationships = getRelationshipMaps inviter (map u_id (invitees_of ids w)) w;
          settings = normalizeSettings (settings_of memberId w);
          social = buildSocialState memberId relationships
      in canInviteToGroupP (buildPermissions inviter memberId settings social))"

text \<open>The loop of \<open>createGroup\<close>: allowed ids and rejections, in order.\<close>

fun sort_invites :: "string \<Rightarrow> string list \<Rightarrow> db \<Rightarrow> string list \<Rightarrow> string list \<times> rejected_invite list" where
  "sort_invites inviter ids w [] = ([], [])"
| "sort_invites inviter ids w (m # ms) =
     (let (allowed, rejected) = sort_invites inviter ids w ms in
      if user_by_id m w = None then (allowed, (RejNotFound, m) # rejected)
      else if can_invite inviter ids m w then (m # allowed, rejected)
      else (allowed, (RejInvitePolicy, m) # rejected))"

record create_group_input =
  cg_createdById :: string
  cg_inviteCode :: string
  cg_memberIds :: "string list"
  cg_interaction :: "member_proposal_interaction option"
  cg_name :: string
  cg_policy :: "place_proposal_policy option"
  cg_visibility :: "group_visibility option"

record group_invite_result =
  gi_group :: group_full
  gi_invitedUserIds :: "string list"
  gi_rejectedInvites :: "rejected_invite list"

definition new_member :: "string \<Rightarrow> string \<Rightarrow> string option \<Rightarrow> member_role \<Rightarrow> member_status \<Rightarrow> member_row dbm" where
  "new_member groupId userId invitedBy role status =
     bindS fresh_id (\<lambda>i. bindS now (\<lambda>t.
       ret \<lparr>gm_id = i, gm_group = groupId, gm_user = userId, gm_inviter = invitedBy,
            gm_role = role, gm_status = status, gm_created = t\<rparr>))"

definition new_group_row :: "create_group_input \<Rightarrow> string \<Rightarrow> int \<Rightarrow> group_row" where
  "new_group_row input gid t = \<lparr>g_id = gid, g_name = cg_name input, g_description = None,
     g_created_by = cg_createdById input, g_invite_code = cg_inviteCode input,
     g_visibility = default_to (cg_visibility input) GPrivate,
     g_join_policy = JInviteOnly,
     g_proposal_policy = default_to (cg_policy input) AllMembers,
     g_interaction = default_to (cg_interaction input) Collaborative, g_created = t\<rparr>"

definition createGroupRepo :: "create_group_input \<Rightarrow> group_invite_result dbm" where
  "createGroupRepo input =
     (let ids = dedupedMemberIds (cg_createdById input) (cg_memberIds input) in
      seqS (ensureUserSettingsForUsers (cg_createdById input # ids))
      (bindS (gets (\<lambda>w. sort_invites (cg_createdById input) ids w ids)) (\<lambda>(allowed, rejected).
       bindS fresh_id (\<lambda>gid. bindS now (\<lambda>t.
       bindS (new_member gid (cg_createdById input) None Owner MAccepted) (\<lambda>owner.
       bindS (mapS (\<lambda>m. new_member gid m (Some (cg_createdById input)) Member MPending) allowed) (\<lambda>ms.
       bindS (gets t_groups) (\<lambda>rows.
         let g = new_group_row input gid t
         in case create_row g_invite_code g rows of
              None \<Rightarrow> throw (PrismaError ''P2002'')
            | Some rows' \<Rightarrow>
                seqS (modify (\<lambda>w. w\<lparr>t_groups := rows', t_members := t_members w @ owner # ms\<rparr>))
                (bindS (gets (\<lambda>w. group_include w g)) (\<lambda>full.
                 ret \<lparr>gi_group = full, gi_invitedUserIds = allowed, gi_rejectedInvites = rejected\<rparr>))))))))))"

text \<open>The loop of \<open>addGroupMembers\<close> over the existing memberships of the group: the ids to create, the
  memberships to revive, the rejections.\<close>

fun plan_invites :: "string \<Rightarrow> string \<Rightarrow> string list \<Rightarrow> db \<Rightarrow> string list
    \<Rightarrow> string list \<times> member_row list \<times> rejected_invite list" where
  "plan_invites gid inviter ids w [] = ([], [], [])"
| "plan_invites gid inviter ids w (m # ms) =
     (let (create, revive, rejected) = plan_invites gid inviter ids w ms in
      if user_by_id m w = None then (create, revive, (RejNotFound, m) # rejected)
      else if \<not> can_invite inviter ids m w then (create, revive, (RejInvitePolicy, m) # rejected)
      else case membership gid m w of
             None \<Rightarrow> (m # create, revive, rejected)
           | Some e \<Rightarrow>
               if gm_status e = MAccepted \<or> gm_status e = MPending then (create, revive, rejected)
               else (create, e # revive, rejected))"

definition set_members :: "(member_row \<Rightarrow> bool) \<Rightarrow> (member_row \<Rightarrow> member_row) \<Rightarrow> unit dbm" where
  "set_members p f = modify (\<lambda>w. w\<lparr>t_members := update_many p f (t_members w)\<rparr>)"

definition revive_member :: "string \<Rightarrow> member_row \<Rightarrow> unit dbm" where
  "revive_member inviter e =
     set_members (\<lambda>r. gm_id r = gm_id e)
       (\<lambda>r. r\<lparr>gm_inviter := Some inviter, gm_role := Member, gm_status := MPending\<rparr>)"

definition addGroupMembersRepo :: "string \<Rightarrow> string \<Rightarrow> string list \<Rightarrow> group_invite_result option dbm" where
  "addGroupMembersRepo groupId invitedById memberIds =
     bindS (gets (group_by_id groupId)) (\<lambda>grp.
       if grp = None then ret None
       else
         let ids = dedupedMemberIds invitedById memberIds in
         seqS (ensureUserSettingsForUsers (invitedById # ids))
         (bindS (gets (\<lambda>w. plan_invites groupId invitedById ids w ids)) (\<lambda>(create, revive, rejected).
          seqS (tx
            (bindS (mapS (\<lambda>m. new_member groupId m (Some invitedById) Member MPending) create) (\<lambda>rows.
             seqS (modify (\<lambda>w. w\<lparr>t_members := create_many_skip member_key rows (t_members w)\<rparr>))
               (bindS (mapS (revive_member invitedById) revive) (\<lambda>_. ret ())))))
          (bindS (gets (group_full_by_id groupId)) (\<lambda>updated.
             ret (map_option (\<lambda>full. \<lparr>gi_group = full,
                    gi_invitedUserIds = create @ map gm_user revive,
                    gi_rejectedInvites = rejected\<rparr>) updated))))))"

section \<open>Joining and leaving\<close>

definition joinGroupByCodeRepo :: "string \<Rightarrow> string \<Rightarrow> (group_full \<times> bool) option dbm" where
  "joinGroupByCodeRepo userId inviteCode =
     (let normalizedCode = js_upper (js_trim inviteCode) in
      tx (bindS (gets (\<lambda>w. find_unique (\<lambda>g. g_invite_code g = normalizedCode) (t_groups w))) (\<lambda>grp.
        case grp of
          None \<Rightarrow> ret None
        | Some g \<Rightarrow>
            bindS (gets (membership (g_id g) userId)) (\<lambda>existing.
            bindS (case existing of
                Some e \<Rightarrow>
                  (let joinedNow = gm_status e \<noteq> MAccepted in
                   if joinedNow
                   then seqS (set_members (\<lambda>r. gm_id r = gm_id e) (\<lambda>r. r\<lparr>gm_status := MAccepted\<rparr>)) (ret True)
                   else ret False)
              | None \<Rightarrow>
                  bindS (new_member (g_id g) userId None Member MAccepted) (\<lambda>row.
                  bindS (gets (\<lambda>w. create_row member_key row (t_members w))) (\<lambda>rows.
                  bindS (require (PrismaError ''P2002'') rows) (\<lambda>rows.
                  seqS (modify (\<lambda>w. w\<lparr>t_members := rows\<rparr>)) (ret True)))))
              (\<lambda>joinedNow.
               bindS (gets (group_full_by_id (g_id g))) (\<lambda>hydrated.
               ret (map_option (\<lambda>full. (full, joinedNow)) hydrated)))))))"

datatype leave_result = OwnerCannotLeave | LeftGroup group_full

definition leaveGroupRepo :: "string \<Rightarrow> string \<Rightarrow> leave_result option dbm" where
  "leaveGroupRepo groupId userId =
     bindS (gets (membership groupId userId)) (\<lambda>m.
       case m of
         None \<Rightarrow> ret None
       | Some m \<Rightarrow>
           if gm_role m = Owner then ret (Some OwnerCannotLeave)
           else if gm_status m \<noteq> MAccepted \<and> gm_status m \<noteq> MPending then ret None
           else seqS (set_members (\<lambda>r. gm_id r = gm_id m) (\<lambda>r. r\<lparr>gm_status := MLeft\<rparr>))
                (bindS (gets (group_full_by_id groupId)) (\<lambda>g.
                 ret (map_option LeftGroup g))))"

definition listGroupsByUser :: "string \<Rightarrow> db \<Rightarrow> group_full list" where
  "listGroupsByUser userId w =
     map (group_include w)
       (sort_by (\<lambda>a b. g_created b \<le> g_created a)
         (find_many (\<lambda>g. g_created_by g = userId
              \<or> list_ex (\<lambda>m. gm_group m = g_id g \<and> gm_user m = userId
                            \<and> gm_status m \<in> {MAccepted, MPending}) (t_members w)) (t_groups w)))"

section \<open>The groups service\<close>

definition notify_group :: "notification_type \<Rightarrow> string \<Rightarrow> group_row \<Rightarrow> (string \<times> json option) list \<Rightarrow> string list \<Rightarrow> publish_input" where
  "notify_group ty actor g extra recipients = \<lparr>pb_actorId = Some actor, pb_dedupeKey = None,
     pb_entity = Some (g_id g, EntGroup),
     pb_payload = Some ([(''groupId'', Some (JStr (g_id g))), (''groupName'', Some (JStr (g_name g)))] @ extra),
     pb_recipientIds = recipients, pb_scheduledFor = None, pb_type = ty\<rparr>"

definition invite_notification :: "string \<Rightarrow> group_invite_result \<Rightarrow> publish_input" where
  "invite_notification userId result =
     (let g = gf_group (gi_group result) in
      notify_group NGroupInvite userId g [(''inviteCode'', Some (JStr (g_invite_code g)))]
        (gi_invitedUserIds result))"

definition publish_invites :: "string \<Rightarrow> group_invite_result \<Rightarrow> (group_view \<times> rejected_invite list) dbm" where
  "publish_invites userId result =
     seqS (assertNoInvitePolicyRejections (gi_rejectedInvites result))
     (seqS (if length (gi_invitedUserIds result) > 0
            then bindS (publish (invite_notification userId result)) (\<lambda>_. ret ()) else ret ())
        (ret (serializeGroup (gi_group result) False (Some userId), gi_rejectedInvites result)))"

definition listMyGroups :: "string \<Rightarrow> db \<Rightarrow> group_view list \<times> nat" where
  "listMyGroups userId w =
     (let groups = listGroupsByUser userId w
      in (map (\<lambda>g. serializeGroup g False (Some userId)) groups, length groups))"

record create_group_dto =
  dto_memberIds :: "string list"
  dto_interaction :: "member_proposal_interaction option"
  dto_name :: string
  dto_policy :: "place_proposal_policy option"
  dto_visibility :: "group_visibility option"

text \<open>\<open>code\<close> is the result of \<open>generateInviteCode()\<close>.\<close>

definition createGroup :: "string \<Rightarrow> string \<Rightarrow> create_group_dto \<Rightarrow> (group_view \<times> rejected_invite list) dbm" where
  "createGroup code userId body =
     catchS
       (bindS (createGroupRepo \<lparr>cg_createdById = userId, cg_inviteCode = code,
            cg_memberIds = dto_memberIds body, cg_interaction = dto_interaction body,
            cg_name = js_trim (dto_name body), cg_policy = dto_policy body,
            cg_visibility = dto_visibility body\<rparr>) (\<lambda>result. publish_invites userId result))
       (\<lambda>e. if e = PrismaError ''P2002''
            then throw (Conflict (''No se pudo generar un c'' @ [CHR 0xF3] @ ''digo de invitaci'' @ [CHR 0xF3] @ ''n'')) else throw e)"

definition joinGroupByCode :: "string \<Rightarrow> string \<Rightarrow> group_view dbm" where
  "joinGroupByCode userId code =
     bindS (joinGroupByCodeRepo userId code) (\<lambda>result.
     bindS (require (NotFound ''Group not found'') result) (\<lambda>(full, joinedNow).
     seqS (if joinedNow
           then bindS (publish (notify_group NGroupJoined userId (gf_group full) []
                  (buildGroupAdminRecipientIds full [userId]))) (\<lambda>_. ret ())
           else ret ())
       (ret (serializeGroup full False (Some userId)))))"

definition getGroupInvitePreview :: "string \<Rightarrow> group_view dbm" where
  "getGroupInvitePreview code =
     (let normalizedCode = js_upper (js_trim code) in
      bindS (gets (\<lambda>w. map_option (group_include w)
               (find_unique (\<lambda>g. g_invite_code g = normalizedCode) (t_groups w)))) (\<lambda>g.
      bindS (require (NotFound ''Invitation not found'') g) (\<lambda>full.
      ret (serializeGroup full True None))))"

definition getGroup :: "string \<Rightarrow> string \<Rightarrow> group_view dbm" where
  "getGroup userId groupId =
     bindS (gets (group_full_by_id groupId)) (\<lambda>g.
     bindS (require (NotFound ''Group not found'') g) (\<lambda>full.
     bindS (gets (membership groupId userId)) (\<lambda>m.
       if (case m of Some m \<Rightarrow> gm_status m = MAccepted \<or> gm_status m = MPending | None \<Rightarrow> False)
       then ret (serializeGroup full False (Some userId))
       else if g_visibility (gf_group full) = GPrivate then throw (NotFound ''Group not found'')
       else
         bindS (gets (listFollowingIds userId)) (\<lambda>followedIds.
           let followsCreator = g_created_by (gf_group full) \<in> set followedIds;
               followsActiveMember = list_ex (\<lambda>m. accepted_member m
                  \<and> gm_user (mf_member m) \<in> set followedIds) (gf_members full)
           in if \<not> followsCreator \<and> \<not> followsActiveMember then throw (NotFound ''Group not found'')
              else ret (serializeGroup full True (Some userId))))))"

definition assertGroupAdminAccess :: "string \<Rightarrow> string \<Rightarrow> unit dbm" where
  "assertGroupAdminAccess userId groupId =
     bindS (gets (membership groupId userId)) (\<lambda>m.
       case m of
         None \<Rightarrow> throw (Forbidden ''GROUP_ACTION_REQUIRES_MEMBERSHIP'')
       | Some m \<Rightarrow>
           if gm_status m \<noteq> MAccepted then throw (Forbidden ''GROUP_ADMIN_REQUIRED'')
           else if gm_role m \<noteq> Owner \<and> gm_role m \<noteq> Admin then throw (Forbidden ''GROUP_ADMIN_REQUIRED'')
           else ret ())"

definition addGroupMembers :: "string \<Rightarrow> string \<Rightarrow> string list \<Rightarrow> (group_view \<times> rejected_invite list) dbm" where
  "addGroupMembers userId groupId memberIds =
     bindS (gets (group_full_by_id groupId)) (\<lambda>g.
     bindS (require (NotFound ''Group not found'') g) (\<lambda>_.
     seqS (assertGroupAdminAccess userId groupId)
     (bindS (addGroupMembersRepo groupId userId memberIds) (\<lambda>result.
      bindS (require (NotFound ''Group not found'') result) (\<lambda>result.
      publish_invites userId result)))))"

record update_group_dto =
  ug_name :: "string option"
  ug_visibility :: "group_visibility option"
  ug_policy :: "place_proposal_policy option"
  ug_interaction :: "member_proposal_interaction option"

definition updateGroup :: "string \<Rightarrow> string \<Rightarrow> update_group_dto \<Rightarrow> group_view dbm" where
  "updateGroup userId groupId body =
     bindS (gets (group_full_by_id groupId)) (\<lambda>g.
     bindS (require (NotFound ''Group not found'') g) (\<lambda>_.
     seqS (throw_if (ug_name body = None \<and> ug_visibility body = None \<and> ug_policy body = None
             \<and> ug_interaction body = None) (BadRequest ''No hay campos para actualizar''))
     (seqS (assertGroupAdminAccess userId groupId)
     (seqS (modify (\<lambda>w. w\<lparr>t_groups := update_many (\<lambda>r. g_id r = groupId)
        (\<lambda>r. r\<lparr>g_name := (case ug_name body of None \<Rightarrow> g_name r | Some n \<Rightarrow> js_trim n),
               g_visibility := default_to (ug_visibility body) (g_visibility r),
               g_proposal_policy := default_to (ug_policy body) (g_proposal_policy r),
               g_interaction := default_to (ug_interaction body) (g_interaction r)\<rparr>)
        (t_groups w)\<rparr>))
      (bindS (gets (group_full_by_id groupId)) (\<lambda>u.
       bindS (require (PrismaError ''P2025'') u) (\<lambda>full.
       ret (serializeGroup full False (Some userId)))))))))"

definition leaveGroup :: "string \<Rightarrow> string \<Rightarrow> group_view dbm" where
  "leaveGroup userId groupId =
     bindS (gets (group_full_by_id groupId)) (\<lambda>g.
     bindS (require (NotFound ''Group not found'') g) (\<lambda>_.
     bindS (leaveGroupRepo groupId userId) (\<lambda>result.
     bindS (require (NotFound ''No formas parte de este plan'') result) (\<lambda>r.
       case r of
         OwnerCannotLeave \<Rightarrow> throw (Forbidden ''El creador no puede abandonar el plan sin transferir la administracion.'')
       | LeftGroup full \<Rightarrow> ret (serializeGroup full False (Some userId))))))"

text \<open>The friends' public plans: groups open to followers with an accepted member the viewer follows, and
  without the viewer; ordered by the time of their next event, then name, then id, groups without an
  event last.\<close>

definition listPublicFriendGroupPlanCandidates :: "bool \<Rightarrow> string \<Rightarrow> db \<Rightarrow> group_full list \<times> nat" where
  "listPublicFriendGroupPlanCandidates excludeMember viewerId w =
     (let followingIds = listFollowingIds viewerId w in
      if followingIds = [] then ([], 0)
      else
        let whereFixed = (\<lambda>g. g_visibility g = GPublicFollowers
              \<and> list_ex (\<lambda>m. gm_group m = g_id g \<and> gm_status m = MAccepted
                            \<and> gm_user m \<in> set followingIds) (t_members w)
              \<and> (excludeMember \<longrightarrow> \<not> list_ex (\<lambda>m. gm_group m = g_id g \<and> gm_user m = viewerId
                            \<and> gm_status m \<in> {MAccepted, MPending}) (t_members w)))
        in (map (\<lambda>g. (group_include w g)\<lparr>gf_members :=
                        filter accepted_member (gf_members (group_include w g))\<rparr>)
              (find_many whereFixed (t_groups w)),
            count_rows whereFixed (t_groups w)))"

definition plan_order :: "(string \<Rightarrow> string \<Rightarrow> bool) \<Rightarrow> (group_full \<times> event_full option)
    \<Rightarrow> (group_full \<times> event_full option) \<Rightarrow> bool" where
  "plan_order collate l r =
     (let name = (\<lambda>x. g_name (gf_group (fst x))); gid = (\<lambda>x. g_id (gf_group (fst x)));
          key = (\<lambda>x. map_option (\<lambda>e. ev_date (ef_event e)) (snd x));
          byName = (\<lambda>a b. if \<not> (collate (name a) (name b) \<and> collate (name b) (name a))
                          then collate (name a) (name b) else collate (gid a) (gid b))
      in case (key l, key r) of
           (None, None) \<Rightarrow> byName l r
         | (None, Some _) \<Rightarrow> False
         | (Some _, None) \<Rightarrow> True
         | (Some a, Some b) \<Rightarrow> if a \<noteq> b then a < b else byName l r)"

definition listPublicFriendGroupPlans ::
  "(string \<Rightarrow> string \<Rightarrow> bool) \<Rightarrow> string \<Rightarrow> nat \<Rightarrow> nat \<Rightarrow> db \<Rightarrow> friend_plan_view list \<times> nat" where
  "listPublicFriendGroupPlans collate userId offset limit w =
     (let (groups, total) = listPublicFriendGroupPlanCandidates True userId w;
          followedIds = set (listFollowingIds userId w);
          decorated = map (\<lambda>g. (g,
            (case pickNextEventForPublicFriendList (db_now w) (map ef_event (gf_events g)) of
               None \<Rightarrow> None
             | Some e \<Rightarrow> find_unique (\<lambda>x. ef_event x = e) (gf_events g)))) groups;
          page = page_rows offset limit (sort_by (plan_order collate) decorated)
      in (map (\<lambda>(g, next). serializePublicFriendGroupPlan collate g followedIds next userId) page, total))"

section \<open>Events\<close>

record group_event_input =
  ge_date :: int
  ge_placeId :: "string option"
  ge_googlePlaceId :: "string option"
  ge_sessionToken :: "string option"

definition assertGroupAccess :: "string \<Rightarrow> string \<Rightarrow> unit dbm" where
  "assertGroupAccess userId groupId =
     bindS (gets (membership groupId userId)) (\<lambda>m.
       case m of
         None \<Rightarrow> throw (Forbidden ''GROUP_ACTION_REQUIRES_MEMBERSHIP'')
       | Some m \<Rightarrow>
           if gm_status m = MPending \<or> gm_status m = MRequested then throw (Forbidden ''GROUP_INVITE_PENDING'')
           else if gm_status m \<noteq> MAccepted then throw (Forbidden ''GROUP_ACTION_REQUIRES_MEMBERSHIP'')
           else ret ())"

text \<open>\<open>resolve\<close> stands for \<open>PlacesService.resolve\<close>, which finds or creates the place of a Google id.\<close>

definition resolveWritablePlace ::
  "(string \<Rightarrow> string option \<Rightarrow> place_row dbm) \<Rightarrow> group_event_input \<Rightarrow> place_row dbm" where
  "resolveWritablePlace resolve input =
     bindS (gets (\<lambda>w. if truthy (ge_placeId input)
                      then place_by_id (the (ge_placeId input)) w else None)) (\<lambda>place.
       case place of
         Some p \<Rightarrow> ret p
       | None \<Rightarrow>
           if truthy (ge_googlePlaceId input)
           then resolve (the (ge_googlePlaceId input)) (ge_sessionToken input)
           else throw (BadRequest ''placeId or googlePlaceId is required''))"

definition createGroupEvent :: "int \<Rightarrow> string \<Rightarrow> string \<Rightarrow> string \<Rightarrow> group_event_status option \<Rightarrow> event_row dbm" where
  "createGroupEvent date groupId placeId proposedById status =
     bindS fresh_id (\<lambda>i. bindS now (\<lambda>t.
       let e = \<lparr>ev_id = i, ev_group = groupId, ev_place = placeId, ev_proposer = proposedById,
                ev_date = date, ev_status = default_to status EProposed, ev_created = t\<rparr>
       in seqS (modify (\<lambda>w. w\<lparr>t_events := t_events w @ [e]\<rparr>)) (ret e)))"

definition event_payload :: "int \<Rightarrow> string \<Rightarrow> group_row \<Rightarrow> place_row option \<Rightarrow> (string \<times> json option) list" where
  "event_payload date eventId g place =
     [(''eventDate'', Some (JNum (of_int date))), (''eventId'', Some (JStr eventId)),
      (''groupId'', Some (JStr (g_id g))), (''groupName'', Some (JStr (g_name g))),
      (''placeName'', map_option (\<lambda>p. JStr (pl_name p)) place)]"

definition group_capability_context :: "group_row \<Rightarrow> capability_context" where
  "group_capability_context g = \<lparr>cc_createdById = g_created_by g, cc_interaction = g_interaction g,
     cc_placeProposalPolicy = g_proposal_policy g\<rparr>"

definition addGroupEvent :: "(string \<Rightarrow> string option \<Rightarrow> place_row dbm) \<Rightarrow> string \<Rightarrow> string
    \<Rightarrow> group_event_input \<Rightarrow> event_view dbm" where
  "addGroupEvent resolve userId groupId body =
     bindS (gets (group_full_by_id groupId)) (\<lambda>g.
     bindS (require (NotFound ''Group not found'') g) (\<lambda>full.
     let grp = gf_group full in
     seqS (assertGroupAccess userId groupId)
     (seqS (throw_if (g_proposal_policy grp = OwnerOnly \<and> userId \<noteq> g_created_by grp)
              (Unprocessable ''PROPOSAL_NOT_ALLOWED''))
     (bindS (resolveWritablePlace resolve body) (\<lambda>place.
      let useAnnouncementStatus = g_interaction grp = AnnouncementLocked \<and> userId \<noteq> g_created_by grp in
      bindS (createGroupEvent (ge_date body) groupId (pl_id place) userId
        (Some (if useAnnouncementStatus then EAnnouncement else EProposed))) (\<lambda>e.
      bindS (gets (\<lambda>w. event_with_relations w e)) (\<lambda>ev.
      bindS (publish \<lparr>pb_actorId = Some userId, pb_dedupeKey = None,
          pb_entity = Some (ev_id e, EntGroupEvent),
          pb_payload = Some (event_payload (ge_date body) (ev_id e) grp (ef_place ev)),
          pb_recipientIds = buildAcceptedGroupMemberRecipientIds full [userId],
          pb_scheduledFor = None, pb_type = NGroupEventProposed\<rparr>) (\<lambda>_.
      ret (serializeGroupEvent ev (Some (group_capability_context grp)) False (Some userId)))))))))) "

record rsvp_change =
  rc_changed :: bool
  rc_group :: group_full
  rc_previous :: "rsvp_status option"

text \<open>\<open>None\<close> as an answer is the string \<open>none\<close>: no row.\<close>

definition put_rsvp :: "string \<Rightarrow> string \<Rightarrow> rsvp_status option \<Rightarrow> rsvp_row list \<Rightarrow> rsvp_row list" where
  "put_rsvp eventId userId rsvp rows =
     (let this = (\<lambda>r. rs_event r = eventId \<and> rs_user r = userId);
          existing = find_unique this rows
      in if map_option rs_rsvp existing \<noteq> rsvp
         then (case rsvp of
                 None \<Rightarrow> delete_many this rows
               | Some a \<Rightarrow>
                   if existing \<noteq> None then update_many this (\<lambda>r. r\<lparr>rs_rsvp := a\<rparr>) rows
                   else rows @ [\<lparr>rs_event = eventId, rs_user = userId, rs_rsvp = a\<rparr>])
         else rows)"

definition setGroupEventRsvpRepo :: "string \<Rightarrow> rsvp_status option \<Rightarrow> string \<Rightarrow> rsvp_change option dbm" where
  "setGroupEventRsvpRepo eventId rsvp userId =
     tx (bindS (gets (\<lambda>w. find_unique (\<lambda>r. rs_event r = eventId \<and> rs_user r = userId) (t_rsvps w))) (\<lambda>existing.
       let previousRsvp = map_option rs_rsvp existing; changed = previousRsvp \<noteq> rsvp in
       seqS
         (modify (\<lambda>w. w\<lparr>t_rsvps := put_rsvp eventId userId rsvp (t_rsvps w)\<rparr>))
         (bindS (gets (\<lambda>w. find_unique (\<lambda>e. ev_id e = eventId) (t_events w))) (\<lambda>event.
          case event of
            None \<Rightarrow> ret None
          | Some e \<Rightarrow>
              bindS (gets (group_full_by_id (ev_group e))) (\<lambda>g.
              ret (map_option (\<lambda>full. \<lparr>rc_changed = changed, rc_group = full, rc_previous = previousRsvp\<rparr>) g))))))"

definition rsvp_json :: "rsvp_status option \<Rightarrow> json" where
  "rsvp_json r = JStr (case r of None \<Rightarrow> ''none'' | Some RGoing \<Rightarrow> ''going''
     | Some RMaybe \<Rightarrow> ''maybe'' | Some RDeclined \<Rightarrow> ''declined'')"

definition setGroupEventRsvp :: "string \<Rightarrow> string \<Rightarrow> string \<Rightarrow> rsvp_status option \<Rightarrow> group_view dbm" where
  "setGroupEventRsvp userId groupId eventId rsvp =
     bindS (gets (group_full_by_id groupId)) (\<lambda>g.
     bindS (require (NotFound ''Group not found'') g) (\<lambda>full.
     seqS (assertGroupAccess userId groupId)
     (bindS (gets (\<lambda>w. find_unique (\<lambda>e. ev_group e = groupId \<and> ev_id e = eventId) (t_events w))) (\<lambda>event.
      bindS (require (NotFound ''Event not found'') event) (\<lambda>event.
      let flags = computeGroupEventCapabilityFlags (group_capability_context (gf_group full)) event in
      seqS (throw_if (\<not> allowsRsvp flags \<and> rsvp \<noteq> None) (Unprocessable ''RSVP_NOT_ALLOWED''))
      (bindS (setGroupEventRsvpRepo eventId rsvp userId) (\<lambda>updated.
       bindS (require (NotFound ''Group not found'') updated) (\<lambda>upd.
       seqS
         (if rc_changed upd \<and> rsvp \<noteq> None
          then bindS (gets (place_by_id (ev_place event))) (\<lambda>place.
               bindS (publish \<lparr>pb_actorId = Some userId, pb_dedupeKey = None,
                 pb_entity = Some (ev_id event, EntGroupEvent),
                 pb_payload = Some (event_payload (formatDateOnly (ev_date event)) (ev_id event)
                     (gf_group (rc_group upd)) place @ [(''rsvp'', Some (rsvp_json rsvp))]),
                 pb_recipientIds = buildGroupEventRsvpRecipientIds (rc_group upd) event userId,
                 pb_scheduledFor = None, pb_type = NGroupEventRsvp\<rparr>) (\<lambda>_. ret ()))
          else ret ())
         (ret (serializeGroup (rc_group upd) False (Some userId)))))))))))"

section \<open>The membership invariant\<close>

text \<open>Ids come from the supply, a user has one row and one membership per group, memberships belong to
  existing groups, and every group has its creator as accepted owner and no other owner.\<close>

definition members_ok :: "(nat \<Rightarrow> string) \<Rightarrow> nat \<Rightarrow> group_row list \<Rightarrow> member_row list \<Rightarrow> bool" where
  "members_ok c n gs ms \<longleftrightarrow>
     inj c \<and> ids_below c n (map gm_id ms) \<and> ids_below c n (map g_id gs) \<and> unique_key member_key ms
   \<and> (\<forall>m\<in>set ms. gm_group m \<in> g_id ` set gs)
   \<and> (\<forall>m\<in>set ms. gm_role m = Owner \<longrightarrow> gm_status m = MAccepted
        \<and> (\<forall>g\<in>set gs. g_id g = gm_group m \<longrightarrow> gm_user m = g_created_by g))
   \<and> (\<forall>g\<in>set gs. \<exists>m\<in>set ms. gm_group m = g_id g \<and> gm_user m = g_created_by g \<and> gm_role m = Owner)"

definition group_inv :: "db \<Rightarrow> bool" where
  "group_inv w \<longleftrightarrow> members_ok (db_cuid w) (db_next w) (t_groups w) (t_members w)
     \<and> unique_key u_id (t_users w)"

lemma ids_below_range:
  assumes "inj c" "ids_below c n ids"
  shows "ids_below c (n + k) (ids @ map c [n..<n + k])"
proof -
  have "distinct (map c [n..<n + k])" unfolding distinct_map
    using assms(1) by (meson distinct_upt inj_on_subset subset_UNIV)
  moreover have "c j \<notin> set ids" if "n \<le> j" for j
    using assms that unfolding ids_below_def by (metis image_iff injD lessThan_iff not_less subsetD)
  moreover have "set ids \<subseteq> c ` {..<n + k}" using assms(2) ids_below_def by fastforce
  ultimately show ?thesis using assms(2) by (auto simp: ids_below_def)
qed

lemma ids_below_mono: "ids_below c n ids \<Longrightarrow> n \<le> n' \<Longrightarrow> ids_below c n' ids"
  unfolding ids_below_def by (meson image_mono lessThan_subset_iff subset_trans)

lemma members_ok_mono: "members_ok c n gs ms \<Longrightarrow> n \<le> k \<Longrightarrow> members_ok c k gs ms"
  unfolding members_ok_def using ids_below_mono by blast

lemma group_inv_cong:
  "db_cuid w' = db_cuid w \<Longrightarrow> db_next w \<le> db_next w' \<Longrightarrow> t_groups w' = t_groups w \<Longrightarrow>
   t_members w' = t_members w \<Longrightarrow> t_users w' = t_users w \<Longrightarrow> group_inv w \<Longrightarrow> group_inv w'"
  by (auto simp: group_inv_def members_ok_def elim!: ids_below_mono)

lemma members_ok_owner_accepted:
  "members_ok c n gs ms \<Longrightarrow> m \<in> set ms \<Longrightarrow> gm_status m \<noteq> MAccepted \<Longrightarrow> gm_role m \<noteq> Owner"
  by (auto simp: members_ok_def)

lemma members_ok_same_id:
  "members_ok c n gs ms \<Longrightarrow> m \<in> set ms \<Longrightarrow> r \<in> set ms \<Longrightarrow> gm_id r = gm_id m \<Longrightarrow> r = m"
  unfolding members_ok_def ids_below_def by (metis distinct_map_filter_unique)

lemma members_ok_update:
  assumes "members_ok c n gs ms"
    and "\<And>r. r \<in> set ms \<Longrightarrow> p r \<Longrightarrow> gm_role r \<noteq> Owner \<and> gm_role (f r) \<noteq> Owner"
    and "\<And>r. gm_id (f r) = gm_id r \<and> gm_group (f r) = gm_group r \<and> gm_user (f r) = gm_user r"
  shows "members_ok c n gs (update_many p f ms)"
proof -
  have ids: "map gm_id (update_many p f ms) = map gm_id ms"
    and keys: "map member_key (update_many p f ms) = map member_key ms"
    using assms(3) by (simp_all add: map_key_update_many)
  have mem: "r \<in> set (update_many p f ms) \<Longrightarrow> \<exists>q\<in>set ms. gm_group r = gm_group q
      \<and> (r = q \<and> \<not> p q \<or> gm_role r \<noteq> Owner)" for r
    using assms(2,3) by (auto simp: set_update_many)
  have own: "m \<in> set (update_many p f ms)" if "m \<in> set ms" "gm_role m = Owner" for m
    using that assms(2) by (force simp: set_update_many)
  note ok = assms(1) [unfolded members_ok_def]
  show ?thesis
    unfolding members_ok_def ids keys
  proof (intro conjI ballI impI)
    fix m assume "m \<in> set (update_many p f ms)"
    then show "gm_group m \<in> g_id ` set gs" using mem ok by metis
  next
    fix m assume "m \<in> set (update_many p f ms)" "gm_role m = Owner"
    then show "gm_status m = MAccepted" using mem ok by metis
  next
    fix m g assume "m \<in> set (update_many p f ms)" "gm_role m = Owner" "g \<in> set gs" "g_id g = gm_group m"
    then show "gm_user m = g_created_by g" using mem ok by metis
  next
    fix g assume "g \<in> set gs"
    then show "\<exists>m\<in>set (update_many p f ms). gm_group m = g_id g \<and> gm_user m = g_created_by g \<and> gm_role m = Owner"
      using own ok by metis
  qed (use ok in simp_all)
qed

lemma members_ok_add:
  assumes "members_ok c n gs ms" "ids_below c n' (map gm_id ms @ [gm_id r])" "n \<le> n'"
    and "member_key r \<notin> set (map member_key ms)" "gm_group r \<in> g_id ` set gs" "gm_role r \<noteq> Owner"
  shows "members_ok c n' gs (ms @ [r])"
proof -
  have "ids_below c n' (map g_id gs)"
    using assms(1,3) ids_below_mono unfolding members_ok_def by blast
  then show ?thesis using assms unfolding members_ok_def by auto
qed

lemma members_ok_create_many:
  assumes "members_ok c n gs ms" "ids_below c n' (map gm_id ms @ map gm_id rows)" "n \<le> n'"
    and "\<forall>r\<in>set rows. gm_group r \<in> g_id ` set gs \<and> gm_role r \<noteq> Owner"
  shows "members_ok c n' gs (create_many_skip member_key rows ms)"
  using assms
proof (induction rows arbitrary: ms n)
  case Nil
  then show ?case by (auto simp: members_ok_def elim!: ids_below_mono)
next
  case (Cons r rows)
  show ?case
  proof (cases "member_key r \<in> set (map member_key ms)")
    case True
    then have "create_row member_key r ms = None" by (simp add: create_row_def)
    moreover have "members_ok c n' gs (create_many_skip member_key rows ms)"
      using Cons.prems by (intro Cons.IH [of n ms]) (auto simp: ids_below_def)
    ultimately show ?thesis by simp
  next
    case False
    then have c: "create_row member_key r ms = Some (ms @ [r])" by (simp add: create_row_def)
    have "members_ok c n' gs (ms @ [r])"
      using Cons.prems False by (intro members_ok_add [of c n]) (auto simp: ids_below_def)
    then have "members_ok c n' gs (create_many_skip member_key rows (ms @ [r]))"
      using Cons.prems by (intro Cons.IH [of n']) auto
    then show ?thesis by (simp add: c)
  qed
qed

definition member_at :: "string \<Rightarrow> string option \<Rightarrow> member_role \<Rightarrow> member_status \<Rightarrow> int \<Rightarrow> string \<Rightarrow> string \<Rightarrow> member_row" where
  "member_at gid by role status t i u = \<lparr>gm_id = i, gm_group = gid, gm_user = u, gm_inviter = by,
     gm_role = role, gm_status = status, gm_created = t\<rparr>"

lemma new_member_run [svc_exec]:
  "new_member gid u by role status w =
   (Inr (member_at gid by role status (db_now w) (db_cuid w (db_next w)) u), w\<lparr>db_next := Suc (db_next w)\<rparr>)"
  by (simp add: new_member_def member_at_def)

lemma mapS_new_member:
  "mapS (\<lambda>m. new_member gid m by role status) us w =
   (Inr (map (\<lambda>(i, u). member_at gid by role status (db_now w) (db_cuid w i) u) (enumerate (db_next w) us)),
    w\<lparr>db_next := db_next w + length us\<rparr>)"
proof (induction us arbitrary: w)
  case (Cons u us)
  let ?w = "w\<lparr>db_next := Suc (db_next w)\<rparr>"
  have "mapS (\<lambda>m. new_member gid m by role status) (u # us) w =
     bindS (mapS (\<lambda>m. new_member gid m by role status) us)
       (\<lambda>ys. ret (member_at gid by role status (db_now w) (db_cuid w (db_next w)) u # ys)) ?w"
    by (simp, rule bindS_Inr, rule new_member_run)
  then show ?case by (simp add: bindS_apply Cons.IH)
qed simp

lemma membership_Some:
  "membership gid u w = Some e \<Longrightarrow> e \<in> set (t_members w) \<and> gm_group e = gid \<and> gm_user e = u"
  unfolding membership_def by (auto dest: find_unique_Some)

lemma membership_None:
  "membership gid u w = None \<longleftrightarrow> (gid, u) \<notin> set (map member_key (t_members w))"
  by (auto simp: membership_def find_unique_None image_iff)

lemma group_inv_update:
  assumes "group_inv w" "e \<in> set (t_members w)" "gm_role e \<noteq> Owner" "gm_role (f e) \<noteq> Owner"
    and "\<And>r. gm_id (f r) = gm_id r \<and> gm_group (f r) = gm_group r \<and> gm_user (f r) = gm_user r"
  shows "group_inv (w\<lparr>t_members := update_many (\<lambda>r. gm_id r = gm_id e) f (t_members w)\<rparr>)"
proof -
  have "members_ok (db_cuid w) (db_next w) (t_groups w)
          (update_many (\<lambda>r. gm_id r = gm_id e) f (t_members w))"
  proof (rule members_ok_update)
    show "members_ok (db_cuid w) (db_next w) (t_groups w) (t_members w)"
      using assms(1) by (simp add: group_inv_def)
    then show "gm_role r \<noteq> Owner \<and> gm_role (f r) \<noteq> Owner" if "r \<in> set (t_members w)" "gm_id r = gm_id e" for r
      using that assms(2-4) members_ok_same_id by metis
  qed (use assms(5) in blast)
  then show ?thesis using assms(1) by (simp add: group_inv_def)
qed

lemma group_inv_add_member:
  assumes "group_inv w" "membership gid u w = None" "gid \<in> g_id ` set (t_groups w)" "role \<noteq> Owner"
  shows "group_inv (w\<lparr>db_next := Suc (db_next w),
      t_members := t_members w @ [member_at gid by role st t (db_cuid w (db_next w)) u]\<rparr>)"
proof -
  have "members_ok (db_cuid w) (Suc (db_next w)) (t_groups w)
          (t_members w @ [member_at gid by role st t (db_cuid w (db_next w)) u])"
    using assms by (intro members_ok_add [of _ "db_next w"])
      (auto simp: group_inv_def members_ok_def member_at_def membership_None intro!: ids_below_fresh)
  then show ?thesis using assms(1) by (simp add: group_inv_def)
qed

lemma leaveGroupRepo_keeps: "keeps group_inv (leaveGroupRepo gid u)"
proof (rule keepsI)
  fix w assume inv: "group_inv w"
  show "group_inv (snd (leaveGroupRepo gid u w))"
  proof (cases "membership gid u w")
    case (Some m)
    have "group_inv (w\<lparr>t_members := update_many (\<lambda>r. gm_id r = gm_id m) (\<lambda>r. r\<lparr>gm_status := MLeft\<rparr>) (t_members w)\<rparr>)"
      if "gm_role m \<noteq> Owner"
      using group_inv_update [OF inv, of m] membership_Some [OF Some] that by simp
    then show ?thesis using inv Some by (simp add: leaveGroupRepo_def set_members_def svc_exec)
  qed (use inv in \<open>simp add: leaveGroupRepo_def\<close>)
qed

lemma joinGroupByCodeRepo_keeps: "keeps group_inv (joinGroupByCodeRepo u code)"
proof (rule keepsI)
  fix w assume inv: "group_inv w"
  let ?c = "js_upper (js_trim code)"
  show "group_inv (snd (joinGroupByCodeRepo u code w))"
  proof (cases "find_unique (\<lambda>g. g_invite_code g = ?c) (t_groups w)")
    case (Some g)
    then have g: "g \<in> set (t_groups w)" using find_unique_Some by fastforce
    show ?thesis
    proof (cases "membership (g_id g) u w")
      case None
      have k: "create_row member_key (member_at (g_id g) None Member MAccepted (db_now w) (db_cuid w (db_next w)) u)
          (t_members w) = Some (t_members w @ [member_at (g_id g) None Member MAccepted (db_now w) (db_cuid w (db_next w)) u])"
        using None unfolding membership_None by (simp add: create_row_def member_at_def)
      show ?thesis using group_inv_add_member [OF inv None, of Member None MAccepted "db_now w"] g
        by (simp add: joinGroupByCodeRepo_def svc_exec Some None k split: option.splits)
    next
      case e: (Some e)
      have "group_inv (w\<lparr>t_members := update_many (\<lambda>r. gm_id r = gm_id e) (\<lambda>r. r\<lparr>gm_status := MAccepted\<rparr>) (t_members w)\<rparr>)"
        if "gm_status e \<noteq> MAccepted"
      proof -
        have "gm_role e \<noteq> Owner"
          using members_ok_owner_accepted inv membership_Some [OF e] that unfolding group_inv_def by blast
        then show ?thesis using group_inv_update [OF inv, of e] membership_Some [OF e] by simp
      qed
      then show ?thesis using inv
        by (simp add: joinGroupByCodeRepo_def svc_exec Some e set_members_def Let_def split: option.splits)
    qed
  qed (use inv in \<open>simp add: joinGroupByCodeRepo_def svc_exec\<close>)
qed

lemma ensure_settings_keeps:
  "keeps group_inv (ensureUserSettingsForUsers us)"
proof (rule keepsI)
  fix w assume "group_inv w"
  moreover obtain t where "snd (ensureUserSettingsForUsers us w) = w\<lparr>t_settings := t\<rparr>"
    using ensureUserSettingsForUsers_extends [of w us] by (auto simp: settings_extended_def)
  ultimately show "group_inv (snd (ensureUserSettingsForUsers us w))" by (simp add: group_inv_def)
qed

lemma publish_keeps_group_inv: "keeps group_inv (publish i)"
proof (rule keepsI)
  fix w assume "group_inv w"
  moreover have "db_next w \<le> db_next (snd (publish i w))" by (rule publish_next_mono)
  ultimately show "group_inv (snd (publish i w))"
    using pub.notify_fields [where w = w and i = i] by (intro group_inv_cong [of "snd (publish i w)" w]) simp_all
qed

lemma sort_invites_allowed:
  "sort_invites inviter ids w ms = (allowed, rejected) \<Longrightarrow>
   allowed = filter (\<lambda>m. user_by_id m w \<noteq> None \<and> can_invite inviter ids m w) ms
   \<and> (\<forall>m. (RejInvitePolicy, m) \<in> set rejected \<longleftrightarrow> m \<in> set ms \<and> user_by_id m w \<noteq> None \<and> \<not> can_invite inviter ids m w)
   \<and> (\<forall>m. (RejNotFound, m) \<in> set rejected \<longleftrightarrow> m \<in> set ms \<and> user_by_id m w = None)"
proof (induction ms arbitrary: allowed rejected)
  case (Cons m ms)
  obtain a r where ar: "sort_invites inviter ids w ms = (a, r)" by force
  from Cons.IH [OF ar] Cons.prems ar show ?case
    by (auto simp: Let_def split: if_splits)
qed simp

lemma members_ok_new_group:
  assumes ok: "members_ok c n gs ms" and g: "g_id g = c n"
    and rows: "map gm_id (owner # rows) = map c [Suc n..<Suc (Suc n) + length rows]"
    and owner: "gm_group owner = g_id g" "gm_user owner = g_created_by g" "gm_role owner = Owner" "gm_status owner = MAccepted"
    and rest: "\<forall>r\<in>set rows. gm_group r = g_id g \<and> gm_role r \<noteq> Owner"
    and users: "distinct (g_created_by g # map gm_user rows)"
  shows "members_ok c (Suc (Suc n) + length rows) (gs @ [g]) (ms @ owner # rows)"
proof -
  let ?n = "Suc (Suc n) + length rows"
  note K = ok [unfolded members_ok_def]
  have inj: "inj c" using K by blast
  have gsb: "ids_below c n (map g_id gs)" using K by blast
  have msb: "ids_below c n (map gm_id ms)" using K by blast
  have newids: "c k \<notin> c ` {..<n}" if "n \<le> k" for k
    using that injD [OF inj] by (metis image_iff lessThan_iff not_less)
  have gfresh: "c n \<notin> g_id ` set gs" using gsb newids [of n] unfolding ids_below_def by auto
  have mfresh: "gm_group m \<noteq> c n" if "m \<in> set ms" for m using K gfresh that by metis
  have ids: "ids_below c ?n (map gm_id (ms @ owner # rows))"
  proof -
    have "distinct (map c [Suc n..<?n])" unfolding distinct_map
      using inj by (meson distinct_upt inj_on_subset subset_UNIV)
    moreover have "set (map gm_id ms) \<inter> set (map c [Suc n..<?n]) = {}"
    proof -
      have sub: "set (map gm_id ms) \<subseteq> c ` {..<n}" using msb by (simp only: ids_below_def)
      have "c k \<notin> set (map gm_id ms)" if "k \<in> set [Suc n..<?n]" for k
      proof -
        have "n \<le> k" using that by (simp del: upt_Suc)
        then show ?thesis using newids sub by blast
      qed
      then show ?thesis unfolding set_map [of c] by blast
    qed
    moreover have "set (map gm_id ms) \<subseteq> c ` {..<?n}"
      using msb ids_below_mono [of c n "map gm_id ms" ?n] unfolding ids_below_def by simp
    moreover have "set (map c [Suc n..<?n]) \<subseteq> c ` {..<?n}" by auto
    ultimately show ?thesis
      unfolding ids_below_def map_append rows using msb by (auto simp: ids_below_def)
  qed
  have gids: "ids_below c ?n (map g_id (gs @ [g]))"
  proof -
    have "ids_below c (Suc n) (map g_id gs @ [c n])" using inj gsb by (rule ids_below_fresh)
    then show ?thesis using g ids_below_mono [of c "Suc n" _ ?n] by simp
  qed
  have keys: "unique_key member_key (ms @ owner # rows)"
  proof -
    have "distinct (map member_key (owner # rows))"
    proof -
      have "map member_key (owner # rows) = map (Pair (g_id g)) (g_created_by g # map gm_user rows)"
        using owner rest by simp
      moreover have "distinct (map (Pair (g_id g)) us)" if "distinct us" for us :: "string list"
        using that by (simp add: distinct_map inj_on_def)
      ultimately show ?thesis using users by (simp only:)
    qed
    moreover have notin: "member_key r \<notin> set (map member_key ms)" if "r \<in> set (owner # rows)" for r
    proof -
      have "gm_group r = c n" using that owner(1) rest g by auto
      then have ne: "gm_group m \<noteq> gm_group r" if "m \<in> set ms" for m
        using mfresh [OF that] by simp
      show ?thesis
      proof
        assume "member_key r \<in> set (map member_key ms)"
        then obtain m where "m \<in> set ms" "member_key r = member_key m" unfolding set_map by (elim imageE)
        then show False using ne [of m] by simp
      qed
    qed
    moreover have "set (map member_key ms) \<inter> set (map member_key (owner # rows)) = {}"
    proof -
      have "x \<notin> set (map member_key ms)" if x: "x \<in> set (map member_key (owner # rows))" for x
      proof -
        from x obtain r where r: "r \<in> set (owner # rows)" and eq: "x = member_key r"
          unfolding set_map by (elim imageE)
        show ?thesis unfolding eq by (rule notin [OF r])
      qed
      then show ?thesis unfolding disjoint_iff by meson
    qed
    moreover have "distinct (map member_key ms)" using K by blast
    ultimately show ?thesis unfolding map_append distinct_append by blast
  qed
  show ?thesis
    unfolding members_ok_def
  proof (intro conjI ballI impI)
    fix m assume m: "m \<in> set (ms @ owner # rows)"
    then show "gm_group m \<in> g_id ` set (gs @ [g])" using K owner(1) rest by auto
  next
    fix m assume "m \<in> set (ms @ owner # rows)" "gm_role m = Owner"
    then show "gm_status m = MAccepted" using K owner rest by auto
  next
    fix m h assume m: "m \<in> set (ms @ owner # rows)" "gm_role m = Owner"
      and h: "h \<in> set (gs @ [g])" "g_id h = gm_group m"
    show "gm_user m = g_created_by h"
    proof (cases "m \<in> set ms")
      case True
      then have "h \<in> set gs" using h mfresh [OF True] g by auto
      then show ?thesis using K True m h by blast
    next
      case False
      then have "m = owner" using m rest by auto
      then have "h = g" using h owner(1) gfresh g by (auto simp: image_iff)
      then show ?thesis using \<open>m = owner\<close> owner(2) by simp
    qed
  next
    fix h assume "h \<in> set (gs @ [g])"
    then show "\<exists>m\<in>set (ms @ owner # rows). gm_group m = g_id h \<and> gm_user m = g_created_by h \<and> gm_role m = Owner"
    proof (cases "h = g")
      case True
      then show ?thesis using owner by simp
    next
      case False
      then have "h \<in> set gs" using \<open>h \<in> set (gs @ [g])\<close> by simp
      then show ?thesis using K by (metis Un_iff set_append)
    qed
  qed (fact inj ids gids keys)+
qed

text \<open>What \<open>createGroupRepo\<close> writes, when the settings exist and the invite code is free.\<close>

lemma createGroupRepo_run:
  fixes input w
  defines "ids \<equiv> dedupedMemberIds (cg_createdById input) (cg_memberIds input)"
  assumes settings: "ensureUserSettingsForUsers (cg_createdById input # ids) w = (Inr (), w1)"
    and sorted: "sort_invites (cg_createdById input) ids w1 ids = (allowed, rejected)"
    and free: "cg_inviteCode input \<notin> set (map g_invite_code (t_groups w1))"
  shows "createGroupRepo input w =
     (let t = db_now w1; n = db_next w1; gid = db_cuid w1 n; g = new_group_row input gid t;
          v = w1\<lparr>db_next := Suc (Suc n) + length allowed, t_groups := t_groups w1 @ [g],
                t_members := t_members w1 @
                  member_at gid None Owner MAccepted t (db_cuid w1 (Suc n)) (cg_createdById input) #
                  map (\<lambda>(i, u). member_at gid (Some (cg_createdById input)) Member MPending t (db_cuid w1 i) u)
                    (enumerate (Suc (Suc n)) allowed)\<rparr>
      in (Inr \<lparr>gi_group = group_include v g, gi_invitedUserIds = allowed,
               gi_rejectedInvites = rejected\<rparr>, v))"
proof -
  have c: "create_row g_invite_code (new_group_row input i t) (t_groups w1)
      = Some (t_groups w1 @ [new_group_row input i t])" for i t
    using free by (simp add: create_row_def new_group_row_def)
  show ?thesis
    unfolding createGroupRepo_def ids_def [symmetric] Let_def
    by (simp add: seqS_apply bindS_apply settings sorted now_apply fresh_id_apply new_member_run
        mapS_new_member c)
qed

lemma map_gm_id_enumerate:
  "map gm_id (map (\<lambda>(i, u). member_at gid by role st t (c i) u) (enumerate n us)) = map c [n..<n + length us]"
  by (induction us arbitrary: n) (simp_all add: member_at_def upt_conv_Cons del: upt_Suc)

lemma map_gm_user_enumerate:
  "map gm_user (map (\<lambda>(i, u). member_at gid by role st t (c i) u) (enumerate n us)) = us"
  by (induction us arbitrary: n) (simp_all add: member_at_def)

lemma dedupedMemberIds_props [simp]:
  "distinct (dedupedMemberIds i ms)" "i \<notin> set (dedupedMemberIds i ms)"
  by (auto simp: dedupedMemberIds_def)

lemma group_inv_new_group:
  fixes w :: db and us :: "string list"
  defines "gid \<equiv> db_cuid w (db_next w)"
  assumes inv: "group_inv w" and us: "distinct us" "g_created_by g \<notin> set us" "g_id g = gid"
    and k: "Suc (Suc (db_next w)) + length us \<le> k"
  shows "group_inv (w\<lparr>db_next := k, t_groups := t_groups w @ [g],
      t_members := t_members w @
        member_at gid None Owner MAccepted (db_now w) (db_cuid w (Suc (db_next w))) (g_created_by g) #
        map (\<lambda>(i, u). member_at gid (Some (g_created_by g)) Member MPending (db_now w) (db_cuid w i) u)
          (enumerate (Suc (Suc (db_next w))) us)\<rparr>)"
proof -
  let ?n = "db_next w" and ?t = "db_now w"
  let ?rows = "map (\<lambda>(i, u). member_at gid (Some (g_created_by g)) Member MPending ?t (db_cuid w i) u)
                (enumerate (Suc (Suc ?n)) us)"
  let ?owner = "member_at gid None Owner MAccepted ?t (db_cuid w (Suc ?n)) (g_created_by g)"
  have "members_ok (db_cuid w) (Suc (Suc ?n) + length ?rows) (t_groups w @ [g]) (t_members w @ ?owner # ?rows)"
  proof (rule members_ok_new_group)
    show "members_ok (db_cuid w) ?n (t_groups w) (t_members w)" using inv by (simp add: group_inv_def)
    show "map gm_id (?owner # ?rows) = map (db_cuid w) [Suc ?n..<Suc (Suc ?n) + length ?rows]"
      unfolding list.map(2) map_gm_id_enumerate length_map length_enumerate
      by (subst (2) upt_conv_Cons) (simp_all add: member_at_def del: upt_Suc)
    show "distinct (g_created_by g # map gm_user ?rows)"
      unfolding map_gm_user_enumerate using us by simp
    show "\<forall>r\<in>set ?rows. gm_group r = g_id g \<and> gm_role r \<noteq> Owner"
      using us(3) by (auto simp: member_at_def)
  qed (use us(3) in \<open>simp_all add: member_at_def gid_def\<close>)
  then have "members_ok (db_cuid w) k (t_groups w @ [g]) (t_members w @ ?owner # ?rows)"
    using k by (elim members_ok_mono) simp
  then show ?thesis using inv by (simp add: group_inv_def)
qed

lemma new_group_row_fields:
  "g_id (new_group_row input gid t) = gid" "g_created_by (new_group_row input gid t) = cg_createdById input"
  by (simp_all add: new_group_row_def)

lemma createGroupRepo_keeps: "keeps group_inv (createGroupRepo input)"
proof (rule keepsI)
  fix w assume inv: "group_inv w"
  let ?ids = "dedupedMemberIds (cg_createdById input) (cg_memberIds input)"
  obtain r w1 where e: "ensureUserSettingsForUsers (cg_createdById input # ?ids) w = (r, w1)" by force
  have inv1: "group_inv w1" using keepsD [OF ensure_settings_keeps inv] e by (metis snd_conv)
  show "group_inv (snd (createGroupRepo input w))"
  proof (cases r)
    case (Inl x)
    then show ?thesis using inv1 by (simp add: createGroupRepo_def Let_def seqS_apply e)
  next
    case (Inr u)
    then have e1: "ensureUserSettingsForUsers (cg_createdById input # ?ids) w = (Inr (), w1)" using e by simp
    obtain allowed rejected where so: "sort_invites (cg_createdById input) ?ids w1 ?ids = (allowed, rejected)" by force
    have al: "distinct allowed" "cg_createdById input \<notin> set allowed"
      using sort_invites_allowed [OF so] by auto
    show ?thesis
    proof (cases "cg_inviteCode input \<in> set (map g_invite_code (t_groups w1))")
      case True
      then have "create_row g_invite_code (new_group_row input i t) (t_groups w1) = None" for i t
        by (simp add: create_row_def new_group_row_def)
      moreover have "group_inv (w1\<lparr>db_next := k\<rparr>)" if "db_next w1 \<le> k" for k
        using inv1 that by (intro group_inv_cong [of "w1\<lparr>db_next := k\<rparr>" w1]) simp_all
      ultimately show ?thesis
        by (simp add: createGroupRepo_def Let_def seqS_apply bindS_apply e1 so now_apply fresh_id_apply
            new_member_run mapS_new_member)
    next
      case False
      show ?thesis
        unfolding createGroupRepo_run [OF e1 so False]
        using group_inv_new_group [OF inv1 al(1), where k = "Suc (Suc (db_next w1)) + length allowed"
            and g = "new_group_row input (db_cuid w1 (db_next w1)) (db_now w1)"] al(2)
        by (simp add: Let_def new_group_row_fields)
    qed
  qed
qed

lemma plan_invites_revive:
  "plan_invites gid inviter ids w ms = (create, revive, rejected) \<Longrightarrow>
   (\<forall>e\<in>set revive. e \<in> set (t_members w) \<and> gm_status e \<noteq> MAccepted)
   \<and> set create \<subseteq> set ms
   \<and> (\<forall>m. (RejInvitePolicy, m) \<in> set rejected \<longleftrightarrow> m \<in> set ms \<and> user_by_id m w \<noteq> None \<and> \<not> can_invite inviter ids m w)
   \<and> (\<forall>m. (RejNotFound, m) \<in> set rejected \<longleftrightarrow> m \<in> set ms \<and> user_by_id m w = None)"
proof (induction ms arbitrary: create revive rejected)
  case (Cons m ms)
  obtain c v r where ar: "plan_invites gid inviter ids w ms = (c, v, r)" by (metis prod_cases3)
  from Cons.IH [OF ar] Cons.prems ar show ?case
    by (auto simp: Let_def split: if_splits option.splits dest: membership_Some)
qed simp

definition non_owner_ids :: "member_row list \<Rightarrow> db \<Rightarrow> bool" where
  "non_owner_ids es w \<longleftrightarrow> (\<forall>e\<in>set es. \<forall>r\<in>set (t_members w). gm_id r = gm_id e \<longrightarrow> gm_role r \<noteq> Owner)"

lemma revive_member_keeps:
  assumes "e \<in> set es"
  shows "keeps (\<lambda>w. group_inv w \<and> non_owner_ids es w) (revive_member by e)"
proof (rule keepsI)
  fix w assume w: "group_inv w \<and> non_owner_ids es w"
  let ?f = "\<lambda>r. r\<lparr>gm_inviter := Some by, gm_role := Member, gm_status := MPending\<rparr>"
  have "members_ok (db_cuid w) (db_next w) (t_groups w) (update_many (\<lambda>r. gm_id r = gm_id e) ?f (t_members w))"
    using w assms by (intro members_ok_update) (auto simp: group_inv_def non_owner_ids_def)
  moreover have "non_owner_ids es (w\<lparr>t_members := update_many (\<lambda>r. gm_id r = gm_id e) ?f (t_members w)\<rparr>)"
    using w by (auto simp: non_owner_ids_def set_update_many)
  ultimately show "group_inv (snd (revive_member by e w)) \<and> non_owner_ids es (snd (revive_member by e w))"
    using w by (simp add: revive_member_def set_members_def group_inv_def)
qed

lemma addGroupMembersRepo_keeps: "keeps group_inv (addGroupMembersRepo gid by ms)"
proof (rule keepsI)
  fix w assume inv: "group_inv w"
  let ?ids = "dedupedMemberIds by ms"
  show "group_inv (snd (addGroupMembersRepo gid by ms w))"
  proof (cases "group_by_id gid w")
    case None
    then show ?thesis using inv by (simp add: addGroupMembersRepo_def)
  next
    case (Some g)
    then have g: "g \<in> set (t_groups w)" "g_id g = gid"
      unfolding group_by_id_def using find_unique_Some by fastforce+
    obtain r w1 where e: "ensureUserSettingsForUsers (by # ?ids) w = (r, w1)" by force
    have inv1: "group_inv w1" using keepsD [OF ensure_settings_keeps inv] e by (metis snd_conv)
    obtain t where "w1 = w\<lparr>t_settings := t\<rparr>"
      using ensureUserSettingsForUsers_extends [of w "by # ?ids"] e by (auto simp: settings_extended_def)
    then have g1: "gid \<in> g_id ` set (t_groups w1)" using g by auto
    show ?thesis
    proof (cases r)
      case (Inl x)
      then show ?thesis using inv1 by (simp add: addGroupMembersRepo_def Let_def Some seqS_apply e)
    next
      case (Inr u)
      obtain create revive rejected where pl: "plan_invites gid by ?ids w1 ?ids = (create, revive, rejected)"
        by (metis prod_cases3)
      let ?rows = "map (\<lambda>(i, u). member_at gid (Some by) Member MPending (db_now w1) (db_cuid w1 i) u)
                     (enumerate (db_next w1) create)"
      let ?w2 = "w1\<lparr>db_next := db_next w1 + length create,
                     t_members := create_many_skip member_key ?rows (t_members w1)\<rparr>"
      have ids: "ids_below (db_cuid w1) (db_next w1 + length create) (map gm_id (t_members w1) @ map gm_id ?rows)"
        unfolding map_gm_id_enumerate
        using inv1 by (intro ids_below_range) (auto simp: group_inv_def members_ok_def)
      have ok1: "members_ok (db_cuid w1) (db_next w1) (t_groups w1) (t_members w1)"
        using inv1 by (simp add: group_inv_def)
      have "members_ok (db_cuid w1) (db_next w1 + length create) (t_groups w1)
              (create_many_skip member_key ?rows (t_members w1))"
        using g1 by (intro members_ok_create_many [OF ok1 ids]) (auto simp: member_at_def)
      then have inv2: "group_inv ?w2" using inv1 by (simp add: group_inv_def)
      have "non_owner_ids revive ?w2"
      proof -
        have "gm_role q \<noteq> Owner"
          if q: "q \<in> set (create_many_skip member_key ?rows (t_members w1))"
            and e: "e \<in> set revive" "gm_id q = gm_id e" for q e
        proof -
          have e1: "e \<in> set (t_members w1)" "gm_status e \<noteq> MAccepted"
            using plan_invites_revive [OF pl] e(1) by auto
          consider "q \<in> set ?rows" | "q \<in> set (t_members w1)" using create_many_skip_set [OF q] by blast
          then show ?thesis
          proof cases
            case 1
            then show ?thesis by (auto simp: member_at_def)
          next
            case 2
            then have "q = e" using members_ok_same_id [OF ok1 e1(1)] e(2) by simp
            then show ?thesis using members_ok_owner_accepted [OF ok1 e1] by simp
          qed
        qed
        then show ?thesis by (simp add: non_owner_ids_def)
      qed
      then have P: "group_inv ?w2 \<and> non_owner_ids revive ?w2" using inv2 by blast
      have "keeps (\<lambda>w. group_inv w \<and> non_owner_ids revive w) (mapS (revive_member by) revive)"
        by (rule keeps_mapS) (rule revive_member_keeps)
      then have inv3: "group_inv (snd (mapS (revive_member by) revive ?w2))" using P by (auto dest: keepsD)
      obtain q w3 where m: "mapS (revive_member by) revive ?w2 = (q, w3)" by force
      then show ?thesis
        using inv1 inv3 by (cases q) (simp_all add: addGroupMembersRepo_def Let_def Some seqS_apply bindS_apply e Inr pl
          tx_apply mapS_new_member)
    qed
  qed
qed

section \<open>The services keep the invariant\<close>

lemma publish_invites_keeps: "keeps group_inv (publish_invites u r)"
  unfolding publish_invites_def assertNoInvitePolicyRejections_def
  by (intro keeps_intro publish_keeps_group_inv)

lemma assertGroupAdminAccess_keeps: "keeps P (assertGroupAdminAccess u g)"
  unfolding assertGroupAdminAccess_def by (intro keeps_intro)

lemma assertGroupAccess_keeps: "keeps P (assertGroupAccess u g)"
  unfolding assertGroupAccess_def by (intro keeps_intro)

lemma group_inv_update_groups:
  assumes "group_inv w" "\<And>r. g_id (f r) = g_id r \<and> g_created_by (f r) = g_created_by r"
  shows "group_inv (w\<lparr>t_groups := update_many p f (t_groups w)\<rparr>)"
proof -
  have ids: "map g_id (update_many p f (t_groups w)) = map g_id (t_groups w)"
    using assms(2) by (simp add: map_key_update_many)
  then have idset: "g_id ` set (update_many p f (t_groups w)) = g_id ` set (t_groups w)"
    by (metis list.set_map)
  have orig: "\<exists>q\<in>set (t_groups w). g_id q = g_id g \<and> g_created_by q = g_created_by g"
    if "g \<in> set (update_many p f (t_groups w))" for g
    using that assms(2) by (auto simp: set_update_many)
  note K = assms(1) [unfolded group_inv_def members_ok_def]
  have "members_ok (db_cuid w) (db_next w) (update_many p f (t_groups w)) (t_members w)"
    unfolding members_ok_def ids idset
  proof (intro conjI ballI impI)
    fix m g assume "m \<in> set (t_members w)" "gm_role m = Owner"
      "g \<in> set (update_many p f (t_groups w))" "g_id g = gm_group m"
    then show "gm_user m = g_created_by g" using orig K by metis
  next
    fix g assume "g \<in> set (update_many p f (t_groups w))"
    then show "\<exists>m\<in>set (t_members w). gm_group m = g_id g \<and> gm_user m = g_created_by g \<and> gm_role m = Owner"
      using orig K by metis
  qed (use K in blast)+
  then show ?thesis using assms(1) by (simp add: group_inv_def)
qed

lemma createGroup_keeps: "keeps group_inv (createGroup code u body)"
  unfolding createGroup_def
  by (intro keeps_intro createGroupRepo_keeps publish_invites_keeps)

lemma joinGroupByCode_keeps: "keeps group_inv (joinGroupByCode u code)"
  unfolding joinGroupByCode_def
  by (intro keeps_intro joinGroupByCodeRepo_keeps publish_keeps_group_inv)

lemma addGroupMembers_keeps: "keeps group_inv (addGroupMembers u gid ms)"
  unfolding addGroupMembers_def
  by (intro keeps_intro addGroupMembersRepo_keeps publish_invites_keeps assertGroupAdminAccess_keeps)

lemma leaveGroup_keeps: "keeps group_inv (leaveGroup u gid)"
  unfolding leaveGroup_def
  by (intro keeps_intro leaveGroupRepo_keeps) (auto split: leave_result.splits intro: keeps_intro)

lemma updateGroup_keeps: "keeps group_inv (updateGroup u gid body)"
  unfolding updateGroup_def
  by (intro keeps_intro assertGroupAdminAccess_keeps keeps_modify group_inv_update_groups) simp_all

lemma setGroupEventRsvpRepo_keeps: "keeps group_inv (setGroupEventRsvpRepo eid r u)"
proof -
  have "group_inv w \<Longrightarrow> group_inv (w\<lparr>t_rsvps := t\<rparr>)" for w t by (simp add: group_inv_def)
  then show ?thesis unfolding setGroupEventRsvpRepo_def
    by (intro keeps_intro keeps_modify)
qed

lemma setGroupEventRsvp_keeps: "keeps group_inv (setGroupEventRsvp u gid eid r)"
  unfolding setGroupEventRsvp_def
  by (intro keeps_intro setGroupEventRsvpRepo_keeps publish_keeps_group_inv assertGroupAccess_keeps)

lemma createGroupEvent_keeps: "keeps group_inv (createGroupEvent d gid pid u st)"
proof -
  have "group_inv w \<Longrightarrow> group_inv (w\<lparr>t_events := t\<rparr>)" for w t by (simp add: group_inv_def)
  moreover have "keeps group_inv fresh_id"
    by (rule keepsI) (auto simp: fresh_id_def intro: group_inv_cong)
  ultimately show ?thesis unfolding createGroupEvent_def
    by (intro keeps_intro keeps_modify)
qed

lemma addGroupEvent_keeps:
  assumes "\<And>i s. keeps group_inv (resolve i s)"
  shows "keeps group_inv (addGroupEvent resolve u gid body)"
  unfolding addGroupEvent_def resolveWritablePlace_def
  by (intro keeps_intro assms createGroupEvent_keeps publish_keeps_group_inv assertGroupAccess_keeps)

lemmas group_services_keep = createGroup_keeps joinGroupByCode_keeps addGroupMembers_keeps
  leaveGroup_keeps updateGroup_keeps setGroupEventRsvp_keeps

section \<open>Properties\<close>

text \<open>Only an accepted owner or admin can invite into a group or change it: for anyone else both calls
  fail and leave the database as it is.\<close>

theorem group_admin_only:
  assumes "\<not> (\<exists>m. membership gid u w = Some m \<and> gm_status m = MAccepted \<and> gm_role m \<in> {Owner, Admin})"
  shows "(\<exists>e. addGroupMembers u gid ms w = (Inl e, w)) \<and> (\<exists>e. updateGroup u gid body w = (Inl e, w))"
proof -
  have deny: "\<exists>e. assertGroupAdminAccess u gid w = (Inl e, w)"
    using assms by (auto simp: assertGroupAdminAccess_def split: option.splits)
  then obtain e where d: "assertGroupAdminAccess u gid w = (Inl e, w)" by blast
  show ?thesis
    by (cases "group_full_by_id gid w") (auto simp: addGroupMembers_def updateGroup_def seqS_apply bindS_apply d
        throw_if_def)
qed

theorem group_admin_only_witness:
  "\<exists>e. addGroupMembers ''x'' ''g'' [''y''] (empty_db 0) = (Inl e, empty_db 0)"
  using group_admin_only [of "''g''" "''x''" "empty_db 0" "[''y'']"]
  by (simp add: membership_def empty_db_def)


definition sample_group :: group_row where
  "sample_group = \<lparr>g_id = ''ccc'', g_name = ''n'', g_description = None, g_created_by = ''a'',
     g_invite_code = ''AB'', g_visibility = GPublic, g_join_policy = JRequestApproval,
     g_proposal_policy = AllMembers, g_interaction = Collaborative, g_created = 0\<rparr>"

definition sample_member :: "string \<Rightarrow> string \<Rightarrow> member_role \<Rightarrow> member_status \<Rightarrow> member_row" where
  "sample_member i u r st = \<lparr>gm_id = i, gm_group = ''ccc'', gm_user = u, gm_inviter = None, gm_role = r,
     gm_status = st, gm_created = 0\<rparr>"

definition sample_groups_db :: db where
  "sample_groups_db = empty_db 0\<lparr>db_next := 9, t_users := [sample_user ''a'', sample_user ''b'', sample_user ''d''],
     t_groups := [sample_group],
     t_members := [sample_member ''c'' ''a'' Owner MAccepted, sample_member ''cc'' ''b'' Admin MLeft],
     t_follows := [\<lparr>fo_follower = ''d'', fo_followed = ''a'', fo_created = 0\<rparr>]\<rparr>"

lemma sample_groups_inv: "group_inv sample_groups_db"
  by (auto simp: group_inv_def members_ok_def sample_groups_db_def empty_db_def sample_group_def
      sample_member_def sample_user_def ids_below_def mem_unary_cuid numeral_eq_Suc)

lemma sample_getGroup:
  "fst (getGroup ''d'' ''ccc'' sample_groups_db) =
   Inr (serializeGroup (group_include sample_groups_db sample_group) True (Some ''d''))"
  by (simp add: getGroup_def group_full_by_id_def group_by_id_def sample_groups_db_def empty_db_def
      sample_group_def sample_member_def membership_def listFollowingIds_def find_many_def group_include_def Let_def)


text \<open>Joining by code, for a known code: the caller ends up an accepted member whatever the join policy
  and whatever their earlier standing (requested, declined or left); an earlier role, admin included,
  is kept, a new member is a plain one; and no other membership changes.\<close>

theorem join_by_code_spec:
  assumes "group_inv w" "g \<in> set (t_groups w)" "unique_key g_invite_code (t_groups w)"
    and "js_upper (js_trim code) = g_invite_code g"
  shows "\<exists>v w'. joinGroupByCodeRepo u code w = (Inr (Some (v, (case membership (g_id g) u w of
            None \<Rightarrow> True | Some m \<Rightarrow> gm_status m \<noteq> MAccepted))), w')
     \<and> (\<exists>m. membership (g_id g) u w' = Some m \<and> gm_status m = MAccepted
          \<and> gm_role m = (case membership (g_id g) u w of None \<Rightarrow> Member | Some m0 \<Rightarrow> gm_role m0))
     \<and> filter (\<lambda>m. member_key m \<noteq> (g_id g, u)) (t_members w') =
       filter (\<lambda>m. member_key m \<noteq> (g_id g, u)) (t_members w)"
proof -
  have ok: "members_ok (db_cuid w) (db_next w) (t_groups w) (t_members w)"
    using assms(1) by (simp add: group_inv_def)
  have f: "find_unique (\<lambda>h. g_invite_code h = js_upper (js_trim code)) (t_groups w) = Some g"
    using find_unique_key [OF assms(3,2)] assms(4) by simp
  have "unique_key g_id (t_groups w)" using ok by (simp add: members_ok_def ids_below_def)
  then have full: "group_by_id (g_id g) w' = Some g" if "t_groups w' = t_groups w" for w'
    using find_unique_key [of g_id "t_groups w" g] assms(2) that by (simp add: group_by_id_def)
  show ?thesis
  proof (cases "membership (g_id g) u w")
    case None
    let ?row = "member_at (g_id g) None Member MAccepted (db_now w) (db_cuid w (db_next w)) u"
    let ?w = "w\<lparr>db_next := Suc (db_next w), t_members := t_members w @ [?row]\<rparr>"
    have k: "create_row member_key ?row (t_members w) = Some (t_members w @ [?row])"
      using None unfolding membership_None by (simp add: create_row_def member_at_def)
    have "joinGroupByCodeRepo u code w = (Inr (Some (group_include ?w g, True)), ?w)"
      by (simp add: joinGroupByCodeRepo_def svc_exec f None k group_full_by_id_def full)
    moreover have "membership (g_id g) u ?w = Some ?row"
      using None by (simp add: membership_def find_unique_append member_at_def)
    ultimately show ?thesis using None by (simp add: member_at_def)
  next
    case (Some e)
    note e = membership_Some [OF Some]
    let ?upd = "update_many (\<lambda>r. gm_id r = gm_id e) (\<lambda>r. r\<lparr>gm_status := MAccepted\<rparr>) (t_members w)"
    let ?w = "if gm_status e \<noteq> MAccepted then w\<lparr>t_members := ?upd\<rparr> else w"
    have same: "r = e" if "r \<in> set (t_members w)" "gm_id r = gm_id e" for r
      using members_ok_same_id [OF ok _ that(1) that(2)] e by blast
    have run: "joinGroupByCodeRepo u code w = (Inr (Some (group_include ?w g, gm_status e \<noteq> MAccepted)), ?w)"
      by (simp add: joinGroupByCodeRepo_def svc_exec f Some Let_def set_members_def group_full_by_id_def full)
    have rest: "filter (\<lambda>m. member_key m \<noteq> (g_id g, u)) (t_members ?w) = filter (\<lambda>m. member_key m \<noteq> (g_id g, u)) (t_members w)"
    proof -
      have "filter (\<lambda>m. member_key m \<noteq> (g_id g, u)) ?upd = filter (\<lambda>m. member_key m \<noteq> (g_id g, u)) (t_members w)"
        using same e unfolding update_many_def filter_map
        by (intro trans [OF map_cong [OF filter_cong [OF refl]] list.map_ident]) auto
      then show ?thesis by simp
    qed
    have "membership (g_id g) u (w\<lparr>t_members := ?upd\<rparr>) = Some (e\<lparr>gm_status := MAccepted\<rparr>)"
      using find_unique_update_many_same [of "\<lambda>m. gm_group m = g_id g \<and> gm_user m = u"
          "\<lambda>r. r\<lparr>gm_status := MAccepted\<rparr>" "\<lambda>r. gm_id r = gm_id e" "t_members w"] Some
      by (simp add: membership_def)
    then have "\<exists>m. membership (g_id g) u ?w = Some m \<and> gm_status m = MAccepted \<and> gm_role m = gm_role e"
      using Some by simp
    then show ?thesis using run rest Some by auto
  qed
qed

theorem join_by_code_spec_witness:
  "\<exists>v w' m. joinGroupByCodeRepo ''b'' '' AB '' sample_groups_db = (Inr (Some (v, True)), w')
     \<and> membership ''ccc'' ''b'' w' = Some m \<and> gm_status m = MAccepted \<and> gm_role m = Admin"
proof -
  have m: "membership ''ccc'' ''b'' sample_groups_db = Some (sample_member ''cc'' ''b'' Admin MLeft)"
    by (simp add: membership_def sample_groups_db_def sample_member_def)
  have g: "sample_group \<in> set (t_groups sample_groups_db)" "unique_key g_invite_code (t_groups sample_groups_db)"
    "g_id sample_group = ''ccc''" by (simp_all add: sample_groups_db_def sample_group_def)
  have c: "js_upper (js_trim '' AB '') = g_invite_code sample_group"
    by (simp add: sample_group_def js_trim_def is_ws_def js_upper_def upper_char_def code_unit_def Let_def)
  from join_by_code_spec [OF sample_groups_inv g(1,2) c, of "''b''"]
  show ?thesis unfolding g(3) m by (auto simp: sample_member_def)
qed

text \<open>Leaving: the owner is refused, a caller who is neither accepted nor invited is told so, both
  without a change; otherwise exactly the caller's membership becomes \<open>left\<close>, with its role.\<close>

theorem leave_group_spec:
  assumes "group_inv w" "group_by_id gid w = Some g"
  shows "case membership gid u w of
      None \<Rightarrow> leaveGroup u gid w = (Inl (NotFound ''No formas parte de este plan''), w)
    | Some m \<Rightarrow>
        if gm_role m = Owner
        then leaveGroup u gid w = (Inl (Forbidden ''El creador no puede abandonar el plan sin transferir la administracion.''), w)
        else if gm_status m \<notin> {MAccepted, MPending}
        then leaveGroup u gid w = (Inl (NotFound ''No formas parte de este plan''), w)
        else (\<exists>v. fst (leaveGroup u gid w) = Inr v)
          \<and> snd (leaveGroup u gid w) = w\<lparr>t_members :=
                map (\<lambda>r. if r = m then r\<lparr>gm_status := MLeft\<rparr> else r) (t_members w)\<rparr>"
proof (cases "membership gid u w")
  case None
  then show ?thesis using assms(2) by (simp add: leaveGroup_def leaveGroupRepo_def group_full_by_id_def svc_exec)
next
  case (Some m)
  have ok: "members_ok (db_cuid w) (db_next w) (t_groups w) (t_members w)"
    using assms(1) by (simp add: group_inv_def)
  have "update_many (\<lambda>r. gm_id r = gm_id m) (\<lambda>r. r\<lparr>gm_status := MLeft\<rparr>) (t_members w)
      = map (\<lambda>r. if r = m then r\<lparr>gm_status := MLeft\<rparr> else r) (t_members w)"
    unfolding update_many_def
    using members_ok_same_id [OF ok] membership_Some [OF Some] by (intro map_cong) auto
  then show ?thesis using assms(2) Some
    by (simp add: leaveGroup_def leaveGroupRepo_def group_full_by_id_def group_by_id_def svc_exec set_members_def)
qed

theorem leave_group_spec_witness:
  "leaveGroup ''a'' ''ccc'' sample_groups_db
   = (Inl (Forbidden ''El creador no puede abandonar el plan sin transferir la administracion.''), sample_groups_db)"
proof -
  have "group_by_id ''ccc'' sample_groups_db = Some sample_group"
    by (simp add: group_by_id_def sample_groups_db_def sample_group_def)
  from leave_group_spec [OF sample_groups_inv this, of "''a''"] show ?thesis
    by (simp add: sample_groups_db_def membership_def sample_member_def)
qed

lemma put_rsvp_unique:
  assumes "unique_key rsvp_key rows" shows "unique_key rsvp_key (put_rsvp eid u r rows)"
proof (cases "find_unique (\<lambda>x. rs_event x = eid \<and> rs_user x = u) rows")
  case None
  then show ?thesis using assms
    by (auto simp: put_rsvp_def Let_def find_unique_None intro: unique_key_delete split: option.splits)
next
  case (Some x)
  have "map rsvp_key (update_many (\<lambda>x. rs_event x = eid \<and> rs_user x = u) (\<lambda>x. x\<lparr>rs_rsvp := a\<rparr>) rows)
      = map rsvp_key rows" for a
    by (rule map_key_update_many) simp
  then show ?thesis using assms Some
    by (auto simp: put_rsvp_def Let_def intro: unique_key_delete split: option.splits)
qed

lemma put_rsvp_lookup:
  assumes "unique_key rsvp_key rows"
  shows "map_option rs_rsvp (find_unique (\<lambda>x. rs_event x = e \<and> rs_user x = q) (put_rsvp eid u r rows))
       = (if e = eid \<and> q = u then r
          else map_option rs_rsvp (find_unique (\<lambda>x. rs_event x = e \<and> rs_user x = q) rows))"
proof -
  let ?p = "\<lambda>x. rs_event x = eid \<and> rs_user x = u"
  have del: "find_unique (\<lambda>x. rs_event x = e \<and> rs_user x = q) (delete_many ?p rows)
      = (if e = eid \<and> q = u then None else find_unique (\<lambda>x. rs_event x = e \<and> rs_user x = q) rows)"
    for e q by (induction rows) (auto simp: delete_many_def)
  have upd: "map_option rs_rsvp (find_unique (\<lambda>x. rs_event x = e \<and> rs_user x = q)
        (update_many ?p (\<lambda>x. x\<lparr>rs_rsvp := a\<rparr>) rows))
      = (if e = eid \<and> q = u \<and> find_unique ?p rows \<noteq> None then Some a
         else map_option rs_rsvp (find_unique (\<lambda>x. rs_event x = e \<and> rs_user x = q) rows))" for a
    by (induction rows) auto
  show ?thesis
  proof (cases r)
    case None
    then show ?thesis by (auto simp: put_rsvp_def Let_def del)
  next
    case (Some a)
    show ?thesis
    proof (cases "find_unique ?p rows")
      case None
      then show ?thesis using Some by (auto simp: put_rsvp_def Let_def find_unique_append split: option.splits)
    next
      case (Some x)
      then show ?thesis using \<open>r = Some a\<close> upd [of a] by (auto simp: put_rsvp_def Let_def)
    qed
  qed
qed

lemma setGroupEventRsvpRepo_rows:
  "t_rsvps (snd (setGroupEventRsvpRepo eid r u w)) = put_rsvp eid u r (t_rsvps w)"
  by (auto simp: setGroupEventRsvpRepo_def svc_exec Let_def split: option.splits)

lemma assertGroupAccess_Inr:
  "assertGroupAccess u gid w = (Inr x, t) \<Longrightarrow>
   t = w \<and> (\<exists>m. membership gid u w = Some m \<and> gm_status m = MAccepted)"
  by (auto simp: assertGroupAccess_def split: option.splits if_splits)

lemma rsvp_success:
  assumes "fst (setGroupEventRsvp u gid eid r w) = Inr v"
  shows "\<exists>upd w1. setGroupEventRsvpRepo eid r u w = (Inr (Some upd), w1)
    \<and> t_rsvps (snd (setGroupEventRsvp u gid eid r w)) = t_rsvps w1
    \<and> (\<exists>m. membership gid u w = Some m \<and> gm_status m = MAccepted)"
proof -
  obtain t where t: "setGroupEventRsvp u gid eid r w = (Inr v, t)"
    using assms by (metis prod.collapse)
  then obtain x s where a: "assertGroupAccess u gid w = (Inr x, s)"
    by (auto simp: setGroupEventRsvp_def svc_run Let_def)
  note acc = assertGroupAccess_Inr [OF a]
  then have a: "assertGroupAccess u gid w = (Inr x, w)" using a by simp
  obtain upd w1 where 1: "setGroupEventRsvpRepo eid r u w = (Inr (Some upd), w1)"
      "t = w1 \<or> (\<exists>i z. publish i w1 = (z, t))"
    using t a by (auto simp: setGroupEventRsvp_def svc_run Let_def split: if_splits)
  have "t_rsvps t = t_rsvps w1" using 1(2) pub.notify_fields(4) by (metis snd_conv)
  then show ?thesis using 1(1) t acc by auto
qed

definition sample_event_db :: db where
  "sample_event_db = sample_groups_db\<lparr>t_events := [\<lparr>ev_id = ''e'', ev_group = ''ccc'', ev_place = ''p'',
     ev_proposer = ''a'', ev_date = 0, ev_status = EConfirmed, ev_created = 0\<rparr>],
     t_rsvps := [\<lparr>rs_event = ''e'', rs_user = ''a'', rs_rsvp = RGoing\<rparr>]\<rparr>"

lemma sample_rsvp_ok:
  "\<exists>v. fst (setGroupEventRsvp ''a'' ''ccc'' ''e'' None sample_event_db) = Inr v"
proof -
  have g: "group_full_by_id ''ccc'' w = Some (group_include w sample_group)"
    if "t_groups w = [sample_group]" for w
    using that by (simp add: group_full_by_id_def group_by_id_def sample_group_def)
  have gs: "t_groups sample_event_db = [sample_group]"
    by (simp add: sample_event_db_def sample_groups_db_def)
  have a: "assertGroupAccess ''a'' ''ccc'' sample_event_db = (Inr (), sample_event_db)"
    by (simp add: assertGroupAccess_def membership_def sample_event_db_def sample_groups_db_def sample_member_def)
  have r: "setGroupEventRsvpRepo ''e'' None ''a'' sample_event_db
     = (Inr (Some \<lparr>rc_changed = True, rc_group = group_include (sample_event_db\<lparr>t_rsvps := []\<rparr>) sample_group,
          rc_previous = Some RGoing\<rparr>), sample_event_db\<lparr>t_rsvps := []\<rparr>)"
    by (simp add: setGroupEventRsvpRepo_def svc_exec Let_def put_rsvp_def g gs delete_many_def)
       (simp add: sample_event_db_def g sample_groups_db_def)
  have e: "\<exists>x. find_unique (\<lambda>e. ev_group e = ''ccc'' \<and> ev_id e = ''e'') (t_events sample_event_db) = Some x"
    by (simp add: sample_event_db_def)
  then obtain x where x: "find_unique (\<lambda>e. ev_group e = ''ccc'' \<and> ev_id e = ''e'') (t_events sample_event_db) = Some x"
    by blast
  show ?thesis
    by (simp add: setGroupEventRsvp_def svc_exec Let_def g gs a r x throw_if_def)
qed

text \<open>Attendance: on success the stored answer of the caller for the event is the requested one, no
  other answer changes, the event accepts answers unless the request withdraws one, and the caller is an
  accepted member.\<close>

theorem rsvp_spec:
  assumes "unique_key rsvp_key (t_rsvps w)" "fst (setGroupEventRsvp u gid eid r w) = Inr v"
  shows "(\<forall>e q. map_option rs_rsvp (find_unique (\<lambda>x. rs_event x = e \<and> rs_user x = q)
              (t_rsvps (snd (setGroupEventRsvp u gid eid r w))))
            = (if e = eid \<and> q = u then r
               else map_option rs_rsvp (find_unique (\<lambda>x. rs_event x = e \<and> rs_user x = q) (t_rsvps w))))
       \<and> unique_key rsvp_key (t_rsvps (snd (setGroupEventRsvp u gid eid r w)))
       \<and> (\<exists>m. membership gid u w = Some m \<and> gm_status m = MAccepted)"
proof -
  obtain upd w1 where repo: "setGroupEventRsvpRepo eid r u w = (Inr (Some upd), w1)"
    and rows: "t_rsvps (snd (setGroupEventRsvp u gid eid r w)) = t_rsvps w1"
    and m: "\<exists>m. membership gid u w = Some m \<and> gm_status m = MAccepted"
    using rsvp_success [OF assms(2)] by blast
  have t: "t_rsvps w1 = put_rsvp eid u r (t_rsvps w)"
    using setGroupEventRsvpRepo_rows [of eid r u w] repo by simp
  show ?thesis unfolding rows t
    using m put_rsvp_lookup [OF assms(1)] put_rsvp_unique [OF assms(1)] by auto
qed

theorem rsvp_spec_witness:
  "\<exists>v. fst (setGroupEventRsvp ''a'' ''ccc'' ''e'' None sample_event_db) = Inr v
     \<and> map_option rs_rsvp (find_unique (\<lambda>x. rs_event x = ''e'' \<and> rs_user x = ''a'')
         (t_rsvps (snd (setGroupEventRsvp ''a'' ''ccc'' ''e'' None sample_event_db)))) = None"
proof -
  have k: "unique_key rsvp_key (t_rsvps sample_event_db)"
    by (simp add: sample_event_db_def)
  obtain v where v: "fst (setGroupEventRsvp ''a'' ''ccc'' ''e'' None sample_event_db) = Inr v"
    using sample_rsvp_ok by blast
  from rsvp_spec [OF k v] show ?thesis using v by simp
qed



text \<open>An invitee id that belongs to no user never comes back as a \<open>not_found\<close> rejection: creating the
  missing settings row first violates the foreign key, so creating a group and inviting into one both
  fail with P2003 as a whole.\<close>

theorem unknown_invitee_fails:
  assumes "m \<in> set ms" "m \<noteq> []" "m \<noteq> u" "user_by_id m w = None" "settings_of m w = None"
  shows "fst (createGroupRepo \<lparr>cg_createdById = u, cg_inviteCode = code, cg_memberIds = ms,
            cg_interaction = i, cg_name = n, cg_policy = p, cg_visibility = v\<rparr> w) = Inl (PrismaError ''P2003'')
       \<and> (group_by_id gid w \<noteq> None \<longrightarrow>
            fst (addGroupMembersRepo gid u ms w) = Inl (PrismaError ''P2003''))"
proof -
  have "m \<in> set (dedupedMemberIds u ms)" using assms by (simp add: dedupedMemberIds_def)
  then have "\<exists>x\<in>set (u # dedupedMemberIds u ms). x \<noteq> [] \<and> settings_of x w = None \<and> user_by_id x w = None"
    using assms by auto
  then have "fst (ensureUserSettingsForUsers (u # dedupedMemberIds u ms) w) = Inl (PrismaError ''P2003'')"
    by (simp only: ensure_settings_fails_iff if_True)
  then obtain w1 where "ensureUserSettingsForUsers (u # dedupedMemberIds u ms) w = (Inl (PrismaError ''P2003''), w1)"
    by (metis prod.collapse)
  then show ?thesis
    by (auto simp: createGroupRepo_def addGroupMembersRepo_def Let_def seqS_apply)
qed

theorem unknown_invitee_fails_witness:
  "fst (addGroupMembersRepo ''ccc'' ''a'' [''zz''] sample_groups_db) = Inl (PrismaError ''P2003'')"
  using unknown_invitee_fails [of "''zz''" "[''zz'']" "''a''" sample_groups_db "''K''" None "''n''" None None "''ccc''"]
  by (simp add: sample_groups_db_def empty_db_def user_by_id_def settings_of_def sample_user_def
      group_by_id_def sample_group_def)

end
