(* ===== verification/Plans.thy ===== *)
theory Plans
  imports SocialGroups
begin

text \<open>
  Plans: groups with a confirmed first event that people discover, join (openly, by request or by
  invitation), administer and chat in.  The repository (\<open>plans.repository.ts\<close>) and the service
  (\<open>social/plans.service.ts\<close>).  Request dates are milliseconds or, for the upper bound of a search, a
  whole day; the base64url and JSON codecs of the cursors and the ISO date format are the parameter
  \<open>cursor_codec\<close>; ids compare as ASCII strings, which is what the database and \<open>localeCompare\<close> do on cuids.
\<close>

section \<open>Plans with their relations\<close>

definition plan_include :: "db \<Rightarrow> group_row \<Rightarrow> group_full" where
  "plan_include w g = \<lparr>gf_group = g, gf_createdBy = user_by_id (g_created_by g) w,
     gf_events = map (event_with_relations w)
       (sort_by (\<lambda>a b. ev_date a < ev_date b \<or> ev_date a = ev_date b \<and> ev_id a \<le> ev_id b)
         (find_many (\<lambda>e. ev_group e = g_id g) (t_events w))),
     gf_members = map (member_with_relations w)
       (sort_by (\<lambda>a b. gm_created a < gm_created b \<or> gm_created a = gm_created b \<and> gm_id a \<le> gm_id b)
         (find_many (\<lambda>m. gm_group m = g_id g) (t_members w)))\<rparr>"

definition findPlanById :: "string \<Rightarrow> db \<Rightarrow> group_full option" where
  "findPlanById gid w = map_option (plan_include w) (group_by_id gid w)"

record create_plan_input =
  cp_createdById :: string
  cp_description :: "string option"
  cp_date :: int
  cp_inviteCode :: string
  cp_inviteUserIds :: "string list"
  cp_joinPolicy :: "group_join_policy option"
  cp_name :: string
  cp_placeId :: string
  cp_visibility :: "group_visibility option"

definition new_plan_row :: "create_plan_input \<Rightarrow> string \<Rightarrow> int \<Rightarrow> group_row" where
  "new_plan_row input gid t = \<lparr>g_id = gid, g_name = cp_name input, g_description = cp_description input,
     g_created_by = cp_createdById input, g_invite_code = cp_inviteCode input,
     g_visibility = default_to (cp_visibility input) GPublic,
     g_join_policy = default_to (cp_joinPolicy input) JOpen,
     g_proposal_policy = AllMembers, g_interaction = Collaborative, g_created = t\<rparr>"

text \<open>Only existing users are invited, in table order; the group, its memberships and its confirmed event
  are one nested create.\<close>

definition createPlanRepo :: "create_plan_input \<Rightarrow> (string list \<times> group_full) dbm" where
  "createPlanRepo input =
     bindS (gets (\<lambda>w. map u_id (find_many (\<lambda>u. u_id u \<in>
              set (dedupedMemberIds (cp_createdById input) (cp_inviteUserIds input))) (t_users w)))) (\<lambda>invitees.
     bindS fresh_id (\<lambda>gid. bindS now (\<lambda>t.
     bindS (new_member gid (cp_createdById input) None Owner MAccepted) (\<lambda>owner.
     bindS (mapS (\<lambda>m. new_member gid m (Some (cp_createdById input)) Member MPending) invitees) (\<lambda>ms.
     bindS fresh_id (\<lambda>eid.
     bindS (gets t_groups) (\<lambda>rows.
       let g = new_plan_row input gid t;
           e = \<lparr>ev_id = eid, ev_group = gid, ev_place = cp_placeId input,
                ev_proposer = cp_createdById input, ev_date = cp_date input,
                ev_status = EConfirmed, ev_created = t\<rparr>
       in case create_row g_invite_code g rows of
            None \<Rightarrow> throw (PrismaError ''P2002'')
          | Some rows' \<Rightarrow>
              seqS (modify (\<lambda>w. w\<lparr>t_groups := rows', t_members := t_members w @ owner # ms,
                                  t_events := t_events w @ [e]\<rparr>))
              (bindS (gets (\<lambda>w. plan_include w g)) (\<lambda>plan. ret (invitees, plan))))))))))"

section \<open>Discovery\<close>

record discover_filter =
  df_now :: int
  df_city :: "string option"
  df_cityId :: "string option"
  df_cityGooglePlaceId :: "string option"
  df_minLat :: "rat option"
  df_maxLat :: "rat option"
  df_minLng :: "rat option"
  df_maxLng :: "rat option"
  df_fromDate :: "int option"
  df_toDate :: "int option"

text \<open>A range filter on a nullable column: with a bound present, null does not match.\<close>

definition in_range :: "rat option \<Rightarrow> rat option \<Rightarrow> rat option \<Rightarrow> bool" where
  "in_range lo hi v =
     (if lo = None \<and> hi = None then True
      else case v of
        None \<Rightarrow> False
      | Some x \<Rightarrow> (case lo of None \<Rightarrow> True | Some l \<Rightarrow> l \<le> x) \<and> (case hi of None \<Rightarrow> True | Some h \<Rightarrow> x \<le> h))"

definition event_where :: "discover_filter \<Rightarrow> db \<Rightarrow> event_row \<Rightarrow> bool" where
  "event_where f w e \<longleftrightarrow>
     default_to (df_fromDate f) (df_now f) \<le> ev_date e
   \<and> (case df_toDate f of None \<Rightarrow> True | Some t \<Rightarrow> ev_date e \<le> t)
   \<and> ev_status e \<notin> {ECancelled, ECompleted}
   \<and> (case place_by_id (ev_place e) w of
        None \<Rightarrow> False
      | Some p \<Rightarrow>
          (truthy (df_cityId f) \<longrightarrow> pl_city_id p = df_cityId f)
        \<and> (truthy (df_city f) \<longrightarrow>
             includes_str (js_lower (pl_city p)) (js_lower (js_trim (the (df_city f)))))
        \<and> (truthy (df_cityGooglePlaceId f) \<longrightarrow>
             list_ex (\<lambda>c. Some (ci_id c) = pl_city_id p \<and> Some (ci_google_id c) = df_cityGooglePlaceId f)
               (t_cities w))
        \<and> in_range (df_minLat f) (df_maxLat f) (pl_lat p)
        \<and> in_range (df_minLng f) (df_maxLng f) (pl_lng p))"

definition listDiscoverablePlans :: "discover_filter \<Rightarrow> db \<Rightarrow> group_full list" where
  "listDiscoverablePlans f w =
     map (\<lambda>g. (plan_include w g)\<lparr>gf_events :=
            filter (\<lambda>e. event_where f w (ef_event e)) (gf_events (plan_include w g))\<rparr>)
       (find_many (\<lambda>g. g_visibility g = GPublic \<and> g_join_policy g \<noteq> JInviteOnly
            \<and> list_ex (\<lambda>e. ev_group e = g_id g \<and> event_where f w e) (t_events w)) (t_groups w))"

section \<open>Changing a plan\<close>

record update_plan_input =
  upl_description :: "string option option"
  upl_joinPolicy :: "group_join_policy option"
  upl_name :: "string option"
  upl_eventId :: "string option"
  upl_date :: "int option"
  upl_placeId :: "string option"

definition updatePlanRepo :: "string \<Rightarrow> update_plan_input \<Rightarrow> group_full dbm" where
  "updatePlanRepo groupId input = tx (
     bindS (gets (group_by_id groupId)) (\<lambda>g.
     bindS (require (PrismaError ''P2025'') g) (\<lambda>_.
     seqS (modify (\<lambda>w. w\<lparr>t_groups := update_many (\<lambda>r. g_id r = groupId)
        (\<lambda>r. r\<lparr>g_description := (case upl_description input of
                  None \<Rightarrow> g_description r
                | Some None \<Rightarrow> None
                | Some (Some d) \<Rightarrow> if js_trim d = [] then None else Some (js_trim d)),
               g_join_policy := default_to (upl_joinPolicy input) (g_join_policy r),
               g_name := (case upl_name input of None \<Rightarrow> g_name r | Some n \<Rightarrow> js_trim n)\<rparr>) (t_groups w)\<rparr>))
     (seqS (if truthy (upl_eventId input) \<and> (upl_date input \<noteq> None \<or> upl_placeId input \<noteq> None)
            then modify (\<lambda>w. w\<lparr>t_events := update_many (\<lambda>e. Some (ev_id e) = upl_eventId input)
              (\<lambda>e. e\<lparr>ev_date := default_to (upl_date input) (ev_date e),
                     ev_place := default_to (upl_placeId input) (ev_place e)\<rparr>) (t_events w)\<rparr>)
            else ret ())
      (bindS (gets (findPlanById groupId)) (\<lambda>p. require (PrismaError ''P2025'') p))))))"

datatype join_kind = JoinAccepted | JoinRequested | JoinDenied

record join_result =
  jr_changed :: bool
  jr_kind :: join_kind

definition set_member_status :: "member_row \<Rightarrow> (member_row \<Rightarrow> member_row) \<Rightarrow> unit dbm" where
  "set_member_status e f = set_members (\<lambda>r. gm_id r = gm_id e) f"

definition joinPlanRepo :: "string \<Rightarrow> string \<Rightarrow> join_result option dbm" where
  "joinPlanRepo groupId userId = tx (
     bindS (gets (group_by_id groupId)) (\<lambda>grp.
     case grp of
       None \<Rightarrow> ret None
     | Some g \<Rightarrow>
         bindS (gets (membership groupId userId)) (\<lambda>existing.
         let status = map_option gm_status existing in
         if status = Some MAccepted then ret (Some \<lparr>jr_changed = False, jr_kind = JoinAccepted\<rparr>)
         else if status = Some MPending \<and> g_join_policy g = JInviteOnly then
           seqS (set_member_status (the existing) (\<lambda>r. r\<lparr>gm_status := MAccepted\<rparr>))
             (ret (Some \<lparr>jr_changed = True, jr_kind = JoinAccepted\<rparr>))
         else if status = Some MRequested \<and> g_join_policy g = JRequestApproval then
           ret (Some \<lparr>jr_changed = False, jr_kind = JoinRequested\<rparr>)
         else if g_join_policy g = JInviteOnly then
           ret (Some \<lparr>jr_changed = False, jr_kind = JoinDenied\<rparr>)
         else
           let accepted = (g_join_policy g = JOpen);
               st = (if accepted then MAccepted else MRequested);
               result = Some \<lparr>jr_changed = True, jr_kind = (if accepted then JoinAccepted else JoinRequested)\<rparr>
           in case existing of
                Some e \<Rightarrow>
                  seqS (set_member_status e (\<lambda>r. r\<lparr>gm_role := Member, gm_status := st\<rparr>)) (ret result)
              | None \<Rightarrow>
                  bindS (new_member groupId userId None Member st) (\<lambda>row.
                  bindS (gets (\<lambda>w. create_row member_key row (t_members w))) (\<lambda>rows.
                  bindS (require (PrismaError ''P2002'') rows) (\<lambda>rows.
                  seqS (modify (\<lambda>w. w\<lparr>t_members := rows\<rparr>)) (ret result)))))))"

datatype leave_plan_result = PlanOwner | PlanLeft

definition leavePlanRepo :: "string \<Rightarrow> string \<Rightarrow> leave_plan_result option dbm" where
  "leavePlanRepo groupId userId =
     bindS (gets (membership groupId userId)) (\<lambda>m.
       case m of
         None \<Rightarrow> ret None
       | Some m \<Rightarrow>
           if gm_role m = Owner then ret (Some PlanOwner)
           else if gm_status m \<notin> {MAccepted, MRequested, MPending} then ret None
           else seqS (set_member_status m (\<lambda>r. r\<lparr>gm_status := MLeft\<rparr>)) (ret (Some PlanLeft)))"

definition listJoinRequestsRepo :: "string \<Rightarrow> db \<Rightarrow> member_full list" where
  "listJoinRequestsRepo groupId w =
     map (member_with_relations w)
       (sort_by (\<lambda>a b. gm_created a < gm_created b \<or> gm_created a = gm_created b \<and> gm_id a \<le> gm_id b)
         (find_many (\<lambda>m. gm_group m = groupId \<and> gm_status m = MRequested) (t_members w)))"

text \<open>The guarded \<open>updateMany\<close> that decides a request, on the membership table: the number of rows
  changed and the table.\<close>

definition decide_rows :: "string \<Rightarrow> string \<Rightarrow> bool \<Rightarrow> member_row list \<Rightarrow> nat \<times> member_row list" where
  "decide_rows groupId membershipId approve ms =
     (let this = (\<lambda>m. gm_id m = membershipId \<and> gm_group m = groupId \<and> gm_status m = MRequested)
      in (count_rows this ms,
          update_many this (\<lambda>m. m\<lparr>gm_status := (if approve then MAccepted else MDeclined)\<rparr>) ms))"

definition decideJoinRequestRepo :: "string \<Rightarrow> string \<Rightarrow> bool \<Rightarrow> nat dbm" where
  "decideJoinRequestRepo groupId membershipId approve =
     (\<lambda>w. let (n, ms) = decide_rows groupId membershipId approve (t_members w)
          in (Inr n, w\<lparr>t_members := ms\<rparr>))"

definition cancelJoinRequestRepo :: "string \<Rightarrow> string \<Rightarrow> nat dbm" where
  "cancelJoinRequestRepo groupId userId =
     (let this = (\<lambda>m. gm_group m = groupId \<and> gm_user m = userId \<and> gm_status m = MRequested) in
      bindS (gets (\<lambda>w. count_rows this (t_members w))) (\<lambda>n.
      seqS (set_members this (\<lambda>m. m\<lparr>gm_status := MLeft\<rparr>)) (ret n)))"

section \<open>Messages\<close>

type_synonym message_key = "int \<times> string"

definition message_key_of :: "message_row \<Rightarrow> message_key" where
  "message_key_of m = (ms_created m, ms_id m)"

text \<open>\<open>before_message a b\<close>: newest first, then by descending id.\<close>

definition before_message :: "message_key \<Rightarrow> message_key \<Rightarrow> bool" where
  "before_message a b \<longleftrightarrow> fst b < fst a \<or> fst b = fst a \<and> snd b < snd a"

definition visible_messages :: "string \<Rightarrow> int option \<Rightarrow> db \<Rightarrow> message_row list" where
  "visible_messages groupId since w =
     sort_by (\<lambda>a b. \<not> before_message (message_key_of b) (message_key_of a))
       (find_many (\<lambda>m. ms_group m = groupId \<and> ms_deleted m = None
            \<and> (case since of None \<Rightarrow> True | Some t \<Rightarrow> t < ms_created m)) (t_messages w))"

definition listMessagesRepo ::
  "string \<Rightarrow> nat \<Rightarrow> message_key option \<Rightarrow> int option \<Rightarrow> db \<Rightarrow> message_row list \<times> bool" where
  "listMessagesRepo groupId limit cursor since w =
     (let rows = take (limit + 1)
            (filter (\<lambda>m. case cursor of
                 None \<Rightarrow> True
               | Some c \<Rightarrow> ms_created m < fst c \<or> ms_created m = fst c \<and> ms_id m < snd c)
              (visible_messages groupId since w))
      in (take limit rows, limit < length rows))"

definition createMessageRepo :: "string \<Rightarrow> string \<Rightarrow> string \<Rightarrow> message_row dbm" where
  "createMessageRepo groupId authorId body =
     bindS fresh_id (\<lambda>i. bindS now (\<lambda>t.
       let m = \<lparr>ms_id = i, ms_group = groupId, ms_author = authorId, ms_body = body,
                ms_created = t, ms_deleted = None\<rparr>
       in seqS (modify (\<lambda>w. w\<lparr>t_messages := t_messages w @ [m]\<rparr>)) (ret m)))"

definition deleteMessageRepo :: "string \<Rightarrow> string \<Rightarrow> nat dbm" where
  "deleteMessageRepo groupId messageId =
     (let this = (\<lambda>m. ms_id m = messageId \<and> ms_group m = groupId \<and> ms_deleted m = None) in
      bindS now (\<lambda>t.
      bindS (gets (\<lambda>w. count_rows this (t_messages w))) (\<lambda>n.
      seqS (modify (\<lambda>w. w\<lparr>t_messages := update_many this (\<lambda>m. m\<lparr>ms_deleted := Some t\<rparr>) (t_messages w)\<rparr>))
        (ret n))))"

definition listAcceptedMemberIds :: "string \<Rightarrow> string option \<Rightarrow> db \<Rightarrow> string list" where
  "listAcceptedMemberIds groupId excludeUserId w =
     map gm_user (find_many (\<lambda>m. gm_group m = groupId \<and> gm_status m = MAccepted
        \<and> (truthy excludeUserId \<longrightarrow> Some (gm_user m) \<noteq> excludeUserId)) (t_members w))"

definition listAdminIds :: "string \<Rightarrow> db \<Rightarrow> string list" where
  "listAdminIds groupId w =
     map gm_user (find_many (\<lambda>m. gm_group m = groupId \<and> gm_role m \<in> {Owner, Admin}
        \<and> gm_status m = MAccepted) (t_members w))"

section \<open>Presenting a plan\<close>

datatype participation_state = PsApproved | PsRequested | PsRejected | PsLeft | PsNone

definition mapParticipationState :: "member_status option \<Rightarrow> participation_state" where
  "mapParticipationState status = (case status of
     Some MAccepted \<Rightarrow> PsApproved | Some MRequested \<Rightarrow> PsRequested | Some MDeclined \<Rightarrow> PsRejected
   | Some MLeft \<Rightarrow> PsLeft | _ \<Rightarrow> PsNone)"

text \<open>\<open>Math.round(value * 100) / 100\<close>.\<close>

definition roundApproximateCoordinate :: "rat option \<Rightarrow> rat option" where
  "roundApproximateCoordinate value =
     map_option (\<lambda>x. of_int \<lfloor>x * 100 + 1 / 2\<rfloor> / 100) value"

definition nextEvent :: "int \<Rightarrow> group_full \<Rightarrow> event_full option" where
  "nextEvent t plan =
     find_unique (\<lambda>e. t \<le> ev_date (ef_event e) \<and> ev_status (ef_event e) \<notin> {ECancelled, ECompleted})
       (gf_events plan)"

record plan_event_view =
  pe_allowsRsvp :: bool
  pe_date :: int
  pe_id :: string
  pe_myRsvp :: "rsvp_status option option"
  pe_address :: "string option"
  pe_areaLabel :: "string option"
  pe_placeId :: string
  pe_mapLat :: "rat option"
  pe_mapLng :: "rat option"
  pe_placeName :: string
  pe_photoUrl :: "string option"
  pe_status :: group_event_status

definition serializeNextEvent :: "event_full \<Rightarrow> place_row \<Rightarrow> bool \<Rightarrow> string \<Rightarrow> plan_event_view" where
  "serializeNextEvent event place approved viewerId =
     (let e = ef_event event;
          mapLat = (if approved then pl_lat place else roundApproximateCoordinate (pl_lat place));
          mapLng = (if approved then pl_lng place else roundApproximateCoordinate (pl_lng place));
          areaLabel = (if js_trim (pl_city place) = [] then None else Some (js_trim (pl_city place)))
      in \<lparr>pe_allowsRsvp = (approved \<and> (ev_status e = EProposed \<or> ev_status e = EConfirmed)),
          pe_date = ev_date e, pe_id = ev_id e,
          pe_myRsvp = (if approved
            then Some (map_option rs_rsvp (find_unique (\<lambda>r. rs_user r = viewerId) (ef_rsvps event)))
            else None),
          pe_address = (if approved then Some (pl_address place) else areaLabel),
          pe_areaLabel = areaLabel, pe_placeId = pl_id place, pe_mapLat = mapLat, pe_mapLng = mapLng,
          pe_placeName = pl_name place, pe_photoUrl = pl_photo place, pe_status = ev_status e\<rparr>)"

record plan_view =
  pv_createdBy :: "user_public option"
  pv_description :: "string option"
  pv_friendParticipant :: "user_public option"
  pv_id :: string
  pv_isAdmin :: bool
  pv_isOwner :: bool
  pv_joinPolicy :: group_join_policy
  pv_memberCount :: nat
  pv_memberPreview :: "user_public option list"
  pv_name :: string
  pv_nextEvent :: "plan_event_view option"
  pv_participationState :: participation_state
  pv_visibility :: group_visibility

definition serializePlan ::
  "group_full \<Rightarrow> string \<Rightarrow> string set \<Rightarrow> bool \<Rightarrow> event_full option \<Rightarrow> plan_view" where
  "serializePlan plan viewerId followedIds approved selectedEvent =
     (let acceptedMembers = filter accepted_member (gf_members plan);
          friend = find_unique (\<lambda>m. gm_user (mf_member m) \<noteq> viewerId
                     \<and> gm_user (mf_member m) \<in> followedIds) acceptedMembers;
          mine = map_option mf_member
                   (find_unique (\<lambda>m. gm_user (mf_member m) = viewerId) (gf_members plan));
          public = (\<lambda>m. map_option (serializeUserPublic False) (mf_user m))
      in \<lparr>pv_createdBy = map_option (serializeUserPublic False) (gf_createdBy plan),
          pv_description = g_description (gf_group plan),
          pv_friendParticipant = (case friend of None \<Rightarrow> None | Some m \<Rightarrow> public m),
          pv_id = g_id (gf_group plan),
          pv_isAdmin = (map_option gm_role mine \<in> {Some Owner, Some Admin}),
          pv_isOwner = (g_created_by (gf_group plan) = viewerId \<or> map_option gm_role mine = Some Owner),
          pv_joinPolicy = g_join_policy (gf_group plan),
          pv_memberCount = length acceptedMembers,
          pv_memberPreview = map public (if approved then acceptedMembers else take 3 acceptedMembers),
          pv_name = g_name (gf_group plan),
          pv_nextEvent = (case selectedEvent of
              None \<Rightarrow> None
            | Some e \<Rightarrow> map_option (\<lambda>p. serializeNextEvent e p approved viewerId) (ef_place e)),
          pv_participationState = mapParticipationState (map_option gm_status mine),
          pv_visibility = g_visibility (gf_group plan)\<rparr>)"

section \<open>Keeping the membership invariant\<close>

lemma group_inv_set_members:
  assumes "\<And>r. p r \<Longrightarrow> gm_status r \<noteq> MAccepted" "\<And>r. p r \<Longrightarrow> gm_role (f r) = gm_role r"
    and "\<And>r. gm_id (f r) = gm_id r \<and> gm_group (f r) = gm_group r \<and> gm_user (f r) = gm_user r"
    and inv: "group_inv w"
  shows "group_inv (w\<lparr>t_members := update_many p f (t_members w)\<rparr>)"
proof -
  have ok: "members_ok (db_cuid w) (db_next w) (t_groups w) (t_members w)"
    using inv by (simp add: group_inv_def)
  have "members_ok (db_cuid w) (db_next w) (t_groups w) (update_many p f (t_members w))"
  proof (rule members_ok_update [OF ok])
    fix r assume r: "r \<in> set (t_members w)" "p r"
    then have "gm_role r \<noteq> Owner" using members_ok_owner_accepted [OF ok r(1) assms(1)] by blast
    then show "gm_role r \<noteq> Owner \<and> gm_role (f r) \<noteq> Owner" using assms(2) r(2) by simp
  qed (use assms(3) in blast)
  then show ?thesis using inv by (simp add: group_inv_def)
qed

lemma member_not_owner:
  "group_inv w \<Longrightarrow> membership gid u w = Some e \<Longrightarrow> gm_status e \<noteq> MAccepted \<Longrightarrow> gm_role e \<noteq> Owner"
  using members_ok_owner_accepted membership_Some unfolding group_inv_def by blast

lemma joinPlanRepo_keeps: "keeps group_inv (joinPlanRepo gid u)"
proof (rule keepsI)
  fix w assume inv: "group_inv w"
  show "group_inv (snd (joinPlanRepo gid u w))"
  proof (cases "group_by_id gid w")
    case g: (Some g)
    then have gid: "gid \<in> g_id ` set (t_groups w)" unfolding group_by_id_def by (auto dest!: find_unique_Some)
    show ?thesis
    proof (cases "membership gid u w")
      case None
      have k: "create_row member_key (member_at gid None Member st t (db_cuid w (db_next w)) u) (t_members w)
          = Some (t_members w @ [member_at gid None Member st t (db_cuid w (db_next w)) u])" for st t
        using None unfolding membership_None by (simp add: create_row_def member_at_def)
      note add = group_inv_add_member [OF inv None gid]
      show ?thesis using inv add [of Member None MAccepted "db_now w"] add [of Member None MRequested "db_now w"]
        by (simp add: joinPlanRepo_def svc_exec g None k Let_def)
    next
      case e: (Some e)
      note upd = group_inv_update [OF inv conjunct1 [OF membership_Some [OF e]]]
      show ?thesis
      proof (cases "gm_status e = MAccepted")
        case True
        then show ?thesis using inv by (simp add: joinPlanRepo_def svc_exec g e Let_def)
      next
        case False
        note no = member_not_owner [OF inv e False]
        show ?thesis using inv False upd [OF no, of "\<lambda>r. r\<lparr>gm_status := MAccepted\<rparr>"] no
            upd [OF no, of "\<lambda>r. r\<lparr>gm_role := Member, gm_status := MAccepted\<rparr>"]
            upd [OF no, of "\<lambda>r. r\<lparr>gm_role := Member, gm_status := MRequested\<rparr>"]
          by (simp add: joinPlanRepo_def svc_exec g e Let_def set_member_status_def set_members_def)
      qed
    qed
  qed (use inv in \<open>simp add: joinPlanRepo_def svc_exec\<close>)
qed

lemma leavePlanRepo_keeps: "keeps group_inv (leavePlanRepo gid u)"
proof (rule keepsI)
  fix w assume inv: "group_inv w"
  show "group_inv (snd (leavePlanRepo gid u w))"
  proof (cases "membership gid u w")
    case (Some m)
    have "group_inv (w\<lparr>t_members := update_many (\<lambda>r. gm_id r = gm_id m) (\<lambda>r. r\<lparr>gm_status := MLeft\<rparr>) (t_members w)\<rparr>)"
      if "gm_role m \<noteq> Owner"
      using group_inv_update [OF inv, of m] membership_Some [OF Some] that by simp
    then show ?thesis using inv Some by (simp add: leavePlanRepo_def set_member_status_def set_members_def svc_exec)
  qed (use inv in \<open>simp add: leavePlanRepo_def\<close>)
qed

lemma decideJoinRequestRepo_keeps: "keeps group_inv (decideJoinRequestRepo gid i b)"
  by (rule keepsI) (auto simp: decideJoinRequestRepo_def decide_rows_def Let_def intro!: group_inv_set_members)

lemma cancelJoinRequestRepo_keeps: "keeps group_inv (cancelJoinRequestRepo gid u)"
  unfolding cancelJoinRequestRepo_def Let_def set_members_def
  by (intro keeps_intro keeps_modify group_inv_set_members) auto

lemma other_tables_keep:
  "group_inv w \<Longrightarrow> group_inv (w\<lparr>t_events := es\<rparr>)"
  "group_inv w \<Longrightarrow> group_inv (w\<lparr>t_messages := ms\<rparr>)"
  by (simp_all add: group_inv_def)

lemma fresh_id_keeps: "keeps group_inv fresh_id"
  by (rule keepsI) (auto simp: fresh_id_def intro: group_inv_cong)

lemma createMessageRepo_keeps: "keeps group_inv (createMessageRepo gid u b)"
  unfolding createMessageRepo_def Let_def by (intro keeps_intro keeps_modify fresh_id_keeps other_tables_keep)

lemma deleteMessageRepo_keeps: "keeps group_inv (deleteMessageRepo gid i)"
  unfolding deleteMessageRepo_def Let_def by (intro keeps_intro keeps_modify other_tables_keep)

lemma updatePlanRepo_keeps: "keeps group_inv (updatePlanRepo gid input)"
  unfolding updatePlanRepo_def
  by (intro keeps_intro keeps_modify group_inv_update_groups other_tables_keep) simp_all

lemma createPlanRepo_run:
  fixes input w
  defines "us \<equiv> map u_id (find_many (\<lambda>u. u_id u \<in>
              set (dedupedMemberIds (cp_createdById input) (cp_inviteUserIds input))) (t_users w))"
  assumes free: "cp_inviteCode input \<notin> set (map g_invite_code (t_groups w))"
  shows "createPlanRepo input w =
     (let t = db_now w; n = db_next w; gid = db_cuid w n; g = new_plan_row input gid t;
          v = w\<lparr>db_next := Suc (Suc (Suc n)) + length us, t_groups := t_groups w @ [g],
                t_members := t_members w @
                  member_at gid None Owner MAccepted t (db_cuid w (Suc n)) (cp_createdById input) #
                  map (\<lambda>(i, u). member_at gid (Some (cp_createdById input)) Member MPending t (db_cuid w i) u)
                    (enumerate (Suc (Suc n)) us),
                t_events := t_events w @ [\<lparr>ev_id = db_cuid w (Suc (Suc n) + length us), ev_group = gid,
                  ev_place = cp_placeId input, ev_proposer = cp_createdById input,
                  ev_date = cp_date input, ev_status = EConfirmed, ev_created = t\<rparr>]\<rparr>
      in (Inr (us, plan_include v g), v))"
proof -
  have c: "create_row g_invite_code (new_plan_row input i t) (t_groups w)
      = Some (t_groups w @ [new_plan_row input i t])" for i t
    using free by (simp add: create_row_def new_plan_row_def)
  show ?thesis
    unfolding createPlanRepo_def us_def [symmetric] Let_def
    by (simp add: seqS_apply bindS_apply us_def [symmetric] now_apply fresh_id_apply new_member_run mapS_new_member c)
qed

lemma new_plan_row_fields:
  "g_id (new_plan_row input gid t) = gid" "g_created_by (new_plan_row input gid t) = cp_createdById input"
  by (simp_all add: new_plan_row_def)

lemma createPlanRepo_keeps: "keeps group_inv (createPlanRepo input)"
proof (rule keepsI)
  fix w assume inv: "group_inv w"
  let ?us = "map u_id (find_many (\<lambda>u. u_id u \<in>
              set (dedupedMemberIds (cp_createdById input) (cp_inviteUserIds input))) (t_users w))"
  have us: "distinct ?us" "cp_createdById input \<notin> set ?us"
    using inv by (auto simp: group_inv_def find_many_def distinct_map_filter dedupedMemberIds_def)
  show "group_inv (snd (createPlanRepo input w))"
  proof (cases "cp_inviteCode input \<in> set (map g_invite_code (t_groups w))")
    case True
    then have "create_row g_invite_code (new_plan_row input i t) (t_groups w) = None" for i t
      by (simp add: create_row_def new_plan_row_def)
    moreover have "group_inv (w\<lparr>db_next := k\<rparr>)" if "db_next w \<le> k" for k
      using inv that by (intro group_inv_cong [of "w\<lparr>db_next := k\<rparr>" w]) simp_all
    ultimately show ?thesis
      by (simp add: createPlanRepo_def Let_def seqS_apply bindS_apply now_apply fresh_id_apply
          new_member_run mapS_new_member)
  next
    case False
    show ?thesis
      unfolding createPlanRepo_run [OF False]
      using group_inv_new_group [OF inv us(1), where k = "Suc (Suc (Suc (db_next w))) + length ?us"
          and g = "new_plan_row input (db_cuid w (db_next w)) (db_now w)"] us(2)
      by (simp only: Let_def new_plan_row_fields) (simp add: other_tables_keep)
  qed
qed

lemmas plan_repo_keeps = createPlanRepo_keeps updatePlanRepo_keeps joinPlanRepo_keeps leavePlanRepo_keeps
  decideJoinRequestRepo_keeps cancelJoinRequestRepo_keeps createMessageRepo_keeps deleteMessageRepo_keeps

end
