(* ===== verification/PlansService.thy ===== *)
theory PlansService
  imports Plans
begin

text \<open>
  The plans service (\<open>social/plans.service.ts\<close>): discovery with its cursor, the life of a plan and of a
  membership in it, and the chat.  Resolving a Google place is a parameter.
\<close>

section \<open>Cursors\<close>

type_synonym plan_cursor = "int \<times> string"

text \<open>The base64url and JSON codec with the ISO date format, as the platform provides them.\<close>

record cursor_codec =
  cx_encode :: "json \<Rightarrow> string"
  cx_decode :: "string \<Rightarrow> json option"
  cx_iso :: "int \<Rightarrow> string"
  cx_date :: "string \<Rightarrow> int option"

definition encodePlanCursor :: "cursor_codec \<Rightarrow> plan_cursor \<Rightarrow> string" where
  "encodePlanCursor cx cursor = cx_encode cx (JArr [JStr (cx_iso cx (fst cursor)), JStr (snd cursor)])"

text \<open>Any failure, of the decoding, the shape or the date, is a bad request; further elements of the array
  are ignored.\<close>

definition decodePlanCursor :: "cursor_codec \<Rightarrow> string \<Rightarrow> http_error + plan_cursor" where
  "decodePlanCursor cx cursor =
     (case cx_decode cx cursor of
        Some (JArr (JStr d # JStr i # _)) \<Rightarrow>
          (case cx_date cx d of
             Some t \<Rightarrow> Inr (t, i)
           | None \<Rightarrow> Inl (BadRequest ''Invalid cursor''))
      | _ \<Rightarrow> Inl (BadRequest ''Invalid cursor''))"

definition encodeMessageCursor :: "cursor_codec \<Rightarrow> message_key \<Rightarrow> string" where
  "encodeMessageCursor cx k = cx_encode cx (JArr [JStr (cx_iso cx (fst k)), JStr (snd k)])"

definition decodeMessageCursor :: "cursor_codec \<Rightarrow> string \<Rightarrow> http_error + message_key" where
  "decodeMessageCursor cx cursor =
     (case cx_decode cx cursor of
        Some (JArr (JStr d # JStr i # _)) \<Rightarrow>
          (case cx_date cx d of
             Some t \<Rightarrow> Inr (t, i)
           | None \<Rightarrow> Inl (BadRequest ''Invalid cursor''))
      | _ \<Rightarrow> Inl (BadRequest ''Invalid cursor''))"

text \<open>\<open>before_plan a b\<close> is \<open>comparePlanCursor(a, b) < 0\<close>.\<close>

definition before_plan :: "plan_cursor \<Rightarrow> plan_cursor \<Rightarrow> bool" where
  "before_plan a b \<longleftrightarrow> fst a < fst b \<or> fst a = fst b \<and> snd a < snd b"

section \<open>Discovery\<close>

text \<open>A date argument of the search is an instant or, written without a time, a whole day.\<close>

datatype date_arg = DayArg int | InstantArg int

definition parse_date :: "date_arg \<Rightarrow> int" where
  "parse_date d = (case d of DayArg t \<Rightarrow> t | InstantArg t \<Rightarrow> t)"

definition parsePlanToDate :: "date_arg \<Rightarrow> int" where
  "parsePlanToDate d = (case d of DayArg t \<Rightarrow> t + 86399999 | InstantArg t \<Rightarrow> t)"

record discover_query =
  dq_city :: "string option"
  dq_cityGooglePlaceId :: "string option"
  dq_minLat :: "rat option"
  dq_maxLat :: "rat option"
  dq_minLng :: "rat option"
  dq_maxLng :: "rat option"
  dq_from :: "date_arg option"
  dq_to :: "date_arg option"
  dq_limit :: "nat option"
  dq_cursor :: "string option"

definition assertBounds :: "discover_query \<Rightarrow> unit dbm" where
  "assertBounds query =
     (if (case (dq_minLat query, dq_maxLat query) of (Some a, Some b) \<Rightarrow> b < a | _ \<Rightarrow> False)
      then throw (BadRequest ''minLat must be less than maxLat'')
      else if (case (dq_minLng query, dq_maxLng query) of (Some a, Some b) \<Rightarrow> b < a | _ \<Rightarrow> False)
      then throw (BadRequest ''minLng must be less than maxLng'')
      else if (case (dq_from query, dq_to query) of
                 (Some f, Some t) \<Rightarrow> parse_date t < parse_date f | _ \<Rightarrow> False)
      then throw (BadRequest ''fromDate must be before toDate'')
      else ret ())"

definition MAX_DISCOVERY_LIMIT :: nat where "MAX_DISCOVERY_LIMIT = 50"

definition discovery_filter :: "string \<Rightarrow> discover_query \<Rightarrow> db \<Rightarrow> discover_filter" where
  "discovery_filter userId query w =
     (let viewerCityId = (if \<not> truthy (dq_city query) \<and> \<not> truthy (dq_cityGooglePlaceId query)
                          then (case user_by_id userId w of None \<Rightarrow> None | Some u \<Rightarrow> u_city_id u)
                          else None);
          requestedFrom = (case dq_from query of None \<Rightarrow> db_now w | Some d \<Rightarrow> parse_date d);
          fromDate = (if db_now w < requestedFrom then requestedFrom else db_now w)
      in \<lparr>df_now = db_now w, df_city = dq_city query, df_cityId = viewerCityId,
          df_cityGooglePlaceId = dq_cityGooglePlaceId query, df_minLat = dq_minLat query,
          df_maxLat = dq_maxLat query, df_minLng = dq_minLng query, df_maxLng = dq_maxLng query,
          df_fromDate = Some fromDate, df_toDate = map_option parsePlanToDate (dq_to query)\<rparr>)"

text \<open>The rows of the search with their first matching event, in cursor order.\<close>

type_synonym plan_hit = "group_full \<times> event_full"

definition hit_key :: "plan_hit \<Rightarrow> plan_cursor" where
  "hit_key h = (ev_date (ef_event (snd h)), g_id (gf_group (fst h)))"

definition plan_hits :: "discover_filter \<Rightarrow> db \<Rightarrow> plan_hit list" where
  "plan_hits f w =
     sort_by (\<lambda>a b. \<not> before_plan (hit_key b) (hit_key a))
       (concat (map (\<lambda>g. case head_opt (gf_events g) of None \<Rightarrow> [] | Some e \<Rightarrow> [(g, e)])
         (listDiscoverablePlans f w)))"

definition discover_page :: "discover_filter \<Rightarrow> db \<Rightarrow> nat \<Rightarrow> plan_cursor option \<Rightarrow> plan_hit list \<times> bool" where
  "discover_page f w limit cursor =
     (let decorated = filter (\<lambda>h. case cursor of None \<Rightarrow> True | Some c \<Rightarrow> before_plan c (hit_key h)) (plan_hits f w)
      in (take limit decorated, limit < length decorated))"

definition isAcceptedIn :: "string \<Rightarrow> group_full \<Rightarrow> bool" where
  "isAcceptedIn userId g =
     list_ex (\<lambda>m. gm_user (mf_member m) = userId \<and> gm_status (mf_member m) = MAccepted) (gf_members g)"

definition discover :: "cursor_codec \<Rightarrow> string \<Rightarrow> discover_query \<Rightarrow> (string option \<times> plan_view list) dbm" where
  "discover cx userId query =
     seqS (assertBounds query)
     (bindS (gets (discovery_filter userId query)) (\<lambda>f.
      bindS (gets (listFollowingIds userId)) (\<lambda>followedIds.
      bindS (if truthy (dq_cursor query)
             then bindS (liftE (decodePlanCursor cx (the (dq_cursor query)))) (\<lambda>c. ret (Some c))
             else ret None) (\<lambda>cursor.
      let limit = min (default_to (dq_limit query) 20) MAX_DISCOVERY_LIMIT in
      bindS (gets (\<lambda>w. discover_page f w limit cursor)) (\<lambda>(page, hasMore).
      ret ((if hasMore then Some (encodePlanCursor cx (hit_key (last page))) else None),
           map (\<lambda>(g, e). serializePlan g userId (set followedIds) (isAcceptedIn userId g) (Some e)) page))))))"

section \<open>The life of a plan\<close>

definition requirePlan :: "string \<Rightarrow> group_full dbm" where
  "requirePlan groupId =
     bindS (gets (findPlanById groupId)) (\<lambda>p. require (NotFound ''Plan not found'') p)"

definition assertAccepted :: "string \<Rightarrow> string \<Rightarrow> unit dbm" where
  "assertAccepted userId groupId =
     bindS (gets (membership groupId userId)) (\<lambda>m.
       if map_option gm_status m \<noteq> Some MAccepted
       then throw (Forbidden ''PLAN_ACCEPTED_MEMBERS_ONLY'') else ret ())"

definition assertAdmin :: "string \<Rightarrow> group_full \<Rightarrow> unit dbm" where
  "assertAdmin userId plan =
     (case find_unique (\<lambda>m. gm_user (mf_member m) = userId) (gf_members plan) of
        None \<Rightarrow> throw (Forbidden ''PLAN_ADMIN_REQUIRED'')
      | Some m \<Rightarrow>
          if gm_status (mf_member m) \<noteq> MAccepted
             \<or> (gm_role (mf_member m) \<noteq> Owner \<and> gm_role (mf_member m) \<noteq> Admin)
          then throw (Forbidden ''PLAN_ADMIN_REQUIRED'') else ret ())"

definition adminIds :: "string \<Rightarrow> string \<Rightarrow> db \<Rightarrow> string list" where
  "adminIds groupId excludedUserId w = filter (\<lambda>u. u \<noteq> excludedUserId) (listAdminIds groupId w)"

definition plan_notification ::
  "notification_type \<Rightarrow> string \<Rightarrow> string \<Rightarrow> group_full \<Rightarrow> (string \<times> json option) list \<Rightarrow> string list \<Rightarrow> publish_input" where
  "plan_notification ty actor groupId plan extra recipients = \<lparr>pb_actorId = Some actor, pb_dedupeKey = None,
     pb_entity = Some (groupId, EntGroup),
     pb_payload = Some ([(''groupId'', Some (JStr groupId)),
                         (''groupName'', Some (JStr (g_name (gf_group plan))))] @ extra),
     pb_recipientIds = recipients, pb_scheduledFor = None, pb_type = ty\<rparr>"

record create_plan_dto =
  cpd_place :: group_event_input
  cpd_description :: "string option"
  cpd_inviteUserIds :: "string list option"
  cpd_joinPolicy :: "group_join_policy option"
  cpd_name :: string
  cpd_visibility :: "group_visibility option"

text \<open>\<open>code\<close> is the result of \<open>generateInviteCode()\<close>; the place is resolved as for group events.\<close>

definition create_plan ::
  "(string \<Rightarrow> string option \<Rightarrow> place_row dbm) \<Rightarrow> string \<Rightarrow> string \<Rightarrow> create_plan_dto \<Rightarrow> plan_view dbm" where
  "create_plan resolve code userId body =
     bindS (resolveWritablePlace resolve (cpd_place body)) (\<lambda>place.
     bindS (createPlanRepo \<lparr>cp_createdById = userId, cp_description = cpd_description body,
         cp_date = ge_date (cpd_place body), cp_inviteCode = code,
         cp_inviteUserIds = default_to (cpd_inviteUserIds body) [],
         cp_joinPolicy = cpd_joinPolicy body, cp_name = js_trim (cpd_name body),
         cp_placeId = pl_id place, cp_visibility = cpd_visibility body\<rparr>) (\<lambda>(invited, plan).
     seqS (if length invited > 0
           then bindS (publish (plan_notification NGroupInvite userId (g_id (gf_group plan)) plan
                  [(''inviteCode'', Some (JStr (g_invite_code (gf_group plan))))] invited)) (\<lambda>_. ret ())
           else ret ())
     (bindS now (\<lambda>t.
      ret (serializePlan plan userId {} True
             (case head_opt (gf_events plan) of None \<Rightarrow> nextEvent t plan | Some e \<Rightarrow> Some e))))))"

definition get_plan :: "string \<Rightarrow> string \<Rightarrow> plan_view dbm" where
  "get_plan userId groupId =
     bindS (requirePlan groupId) (\<lambda>plan.
     bindS (gets (membership groupId userId)) (\<lambda>m.
     let isPublic = (g_visibility (gf_group plan) = GPublic) in
     if \<not> isPublic \<and> m = None then throw (NotFound ''Plan not found'')
     else if \<not> isPublic \<and> map_option gm_status m \<noteq> Some MAccepted
     then throw (Forbidden ''PLAN_MEMBERSHIP_REQUIRED'')
     else bindS (gets (listFollowingIds userId)) (\<lambda>followedIds.
          bindS now (\<lambda>t.
          ret (serializePlan plan userId (set followedIds) (map_option gm_status m = Some MAccepted)
                 (nextEvent t plan))))))"

record update_plan_dto =
  ud_name :: "string option"
  ud_description :: "string option option"
  ud_joinPolicy :: "group_join_policy option"
  ud_date :: "int option"
  ud_placeId :: "string option"
  ud_googlePlaceId :: "string option"

definition update_plan ::
  "(string \<Rightarrow> string option \<Rightarrow> place_row dbm) \<Rightarrow> string \<Rightarrow> string \<Rightarrow> update_plan_dto \<Rightarrow> plan_view dbm" where
  "update_plan resolve userId groupId body =
     bindS (requirePlan groupId) (\<lambda>plan.
     seqS (assertAdmin userId plan)
     (seqS (throw_if (ud_name body = None \<and> ud_description body = None \<and> ud_joinPolicy body = None
             \<and> ud_date body = None \<and> ud_placeId body = None \<and> ud_googlePlaceId body = None)
             (BadRequest ''No hay campos para actualizar''))
     (bindS (if ud_placeId body \<noteq> None \<or> ud_googlePlaceId body \<noteq> None
             then bindS (resolveWritablePlace resolve \<lparr>ge_date = 0, ge_placeId = ud_placeId body,
                     ge_googlePlaceId = ud_googlePlaceId body, ge_sessionToken = None\<rparr>)
                    (\<lambda>p. ret (Some (pl_id p)))
             else ret None) (\<lambda>placeId.
      bindS now (\<lambda>t.
      let event = (case nextEvent t plan of Some e \<Rightarrow> Some e | None \<Rightarrow> head_opt (gf_events plan)) in
      bindS (updatePlanRepo groupId \<lparr>upl_description = ud_description body,
          upl_joinPolicy = ud_joinPolicy body, upl_name = ud_name body,
          upl_eventId = map_option (\<lambda>e. ev_id (ef_event e)) event, upl_date = ud_date body,
          upl_placeId = placeId\<rparr>) (\<lambda>updated.
      ret (serializePlan updated userId {} True (nextEvent t updated))))))))"

definition join_plan :: "string \<Rightarrow> string \<Rightarrow> plan_view dbm" where
  "join_plan userId groupId =
     bindS (requirePlan groupId) (\<lambda>plan.
     bindS (joinPlanRepo groupId userId) (\<lambda>result.
     bindS (require (NotFound ''Plan not found'') result) (\<lambda>result.
     if jr_kind result = JoinDenied then throw (Forbidden ''PLAN_INVITE_ONLY'')
     else seqS
       (if jr_changed result
        then bindS (gets (adminIds groupId userId)) (\<lambda>admins.
             bindS (publish (plan_notification
                (if jr_kind result = JoinRequested then NGroupJoinRequest else NGroupJoined)
                userId groupId plan [] admins)) (\<lambda>_. ret ()))
        else ret ())
       (get_plan userId groupId))))"

definition leave_plan :: "string \<Rightarrow> string \<Rightarrow> unit dbm" where
  "leave_plan userId groupId =
     bindS (requirePlan groupId) (\<lambda>_.
     bindS (leavePlanRepo groupId userId) (\<lambda>result.
     bindS (require (NotFound ''No formas parte de este plan'') result) (\<lambda>r.
     throw_if (r = PlanOwner) (Forbidden (''El creador no puede abandonar el plan sin transferir la administraci'' @ [CHR 0xF3] @ ''n.'')))))"

definition report_plan :: "string \<Rightarrow> string \<Rightarrow> string \<Rightarrow> unit dbm" where
  "report_plan userId groupId reason =
     bindS (requirePlan groupId) (\<lambda>plan.
     bindS (gets (adminIds groupId userId)) (\<lambda>recipients.
     if length recipients > 0
     then bindS (publish (plan_notification NGroupReport userId groupId plan
            [(''reason'', Some (JStr (js_trim reason)))] recipients)) (\<lambda>_. ret ())
     else ret ()))"

record join_request_view =
  jv_createdAt :: int
  jv_id :: string
  jv_planId :: string
  jv_user :: "user_public option"

definition list_join_requests :: "string \<Rightarrow> string \<Rightarrow> join_request_view list dbm" where
  "list_join_requests userId groupId =
     bindS (requirePlan groupId) (\<lambda>plan.
     seqS (assertAdmin userId plan)
     (bindS (gets (listJoinRequestsRepo groupId)) (\<lambda>requests.
      ret (map (\<lambda>r. \<lparr>jv_createdAt = gm_created (mf_member r), jv_id = gm_id (mf_member r),
                     jv_planId = groupId,
                     jv_user = map_option (serializeUserPublic False) (mf_user r)\<rparr>) requests))))"

definition decide_join_request :: "string \<Rightarrow> string \<Rightarrow> string \<Rightarrow> bool \<Rightarrow> participation_state dbm" where
  "decide_join_request userId groupId membershipId approve =
     bindS (requirePlan groupId) (\<lambda>plan.
     seqS (assertAdmin userId plan)
     (bindS (gets (listJoinRequestsRepo groupId)) (\<lambda>requests.
      bindS (require (NotFound ''Join request not found'')
               (find_unique (\<lambda>r. gm_id (mf_member r) = membershipId) requests)) (\<lambda>target.
      bindS (decideJoinRequestRepo groupId membershipId approve) (\<lambda>count.
      seqS (throw_if (count = 0) (NotFound ''Join request not found''))
      (bindS (publish (plan_notification (if approve then NGroupJoinApproved else NGroupJoinRejected)
                userId groupId plan [] [gm_user (mf_member target)])) (\<lambda>_.
       ret (if approve then PsApproved else PsRejected))))))))"

definition cancel_join_request :: "string \<Rightarrow> string \<Rightarrow> participation_state dbm" where
  "cancel_join_request userId groupId =
     bindS (requirePlan groupId) (\<lambda>_.
     bindS (cancelJoinRequestRepo groupId userId) (\<lambda>count.
     seqS (throw_if (count = 0) (NotFound ''Join request not found'')) (ret PsLeft)))"

definition set_plan_rsvp :: "string \<Rightarrow> string \<Rightarrow> string \<Rightarrow> rsvp_status option \<Rightarrow> (plan_view \<times> rsvp_status option) dbm" where
  "set_plan_rsvp userId groupId eventId rsvp =
     seqS (assertAccepted userId groupId)
     (bindS (setGroupEventRsvp userId groupId eventId rsvp) (\<lambda>_.
      bindS (get_plan userId groupId) (\<lambda>plan. ret (plan, rsvp))))"

section \<open>Messages\<close>

record message_view =
  msv_author :: "user_public option"
  msv_body :: string
  msv_createdAt :: int
  msv_id :: string
  msv_planId :: string

definition serializeMessage :: "db \<Rightarrow> message_row \<Rightarrow> message_view" where
  "serializeMessage w m = \<lparr>msv_author = map_option (serializeUserPublic False) (user_by_id (ms_author m) w),
     msv_body = ms_body m, msv_createdAt = ms_created m, msv_id = ms_id m, msv_planId = ms_group m\<rparr>"

definition list_messages ::
  "cursor_codec \<Rightarrow> string \<Rightarrow> string \<Rightarrow> nat option \<Rightarrow> string option \<Rightarrow> int option \<Rightarrow> (message_view list \<times> string option) dbm" where
  "list_messages cx userId groupId limit cursor since =
     seqS (assertAccepted userId groupId)
     (bindS (if truthy cursor
             then bindS (liftE (decodeMessageCursor cx (the cursor))) (\<lambda>c. ret (Some c)) else ret None) (\<lambda>c.
      bindS (gets (\<lambda>w. (listMessagesRepo groupId (default_to limit 20) c since w, w))) (\<lambda>((messages, hasMore), w).
      ret (map (serializeMessage w) messages,
           if hasMore \<and> messages \<noteq> []
           then Some (encodeMessageCursor cx (message_key_of (last messages))) else None))))"

definition send_message :: "string \<Rightarrow> string \<Rightarrow> string \<Rightarrow> message_view dbm" where
  "send_message userId groupId body =
     seqS (assertAccepted userId groupId)
     (bindS (createMessageRepo groupId userId (js_trim body)) (\<lambda>message.
      bindS (gets (listAcceptedMemberIds groupId (Some userId))) (\<lambda>recipients.
      bindS (requirePlan groupId) (\<lambda>plan.
      bindS (publish (plan_notification NGroupMessage userId groupId plan
               [(''messageId'', Some (JStr (ms_id message)))] recipients)) (\<lambda>_.
      bindS (gets (\<lambda>w. serializeMessage w message)) ret)))))"

definition delete_message :: "string \<Rightarrow> string \<Rightarrow> string \<Rightarrow> unit dbm" where
  "delete_message userId groupId messageId =
     bindS (requirePlan groupId) (\<lambda>plan.
     seqS (assertAdmin userId plan)
     (bindS (deleteMessageRepo groupId messageId) (\<lambda>count.
      throw_if (count = 0) (NotFound ''Message not found''))))"

section \<open>Keeping the membership invariant\<close>

lemma plan_guards_keep:
  "keeps P (requirePlan gid)" "keeps P (assertAccepted u gid)" "keeps P (assertAdmin u plan)"
  "keeps P (get_plan u gid)"
  by (unfold requirePlan_def assertAccepted_def assertAdmin_def get_plan_def Let_def) (intro keeps_intro)+

lemma plan_services_keep:
  "keeps group_inv (join_plan u gid)" "keeps group_inv (leave_plan u gid)"
  "keeps group_inv (report_plan u gid r)" "keeps group_inv (decide_join_request u gid i b)"
  "keeps group_inv (cancel_join_request u gid)" "keeps group_inv (set_plan_rsvp u gid e rs)"
  "keeps group_inv (send_message u gid t)" "keeps group_inv (delete_message u gid i)"
  unfolding join_plan_def leave_plan_def report_plan_def decide_join_request_def cancel_join_request_def
    set_plan_rsvp_def send_message_def delete_message_def Let_def
  by (intro keeps_intro plan_repo_keeps plan_guards_keep publish_keeps_group_inv setGroupEventRsvp_keeps)+

lemma plan_writers_keep:
  assumes "\<And>i s. keeps group_inv (resolve i s)"
  shows "keeps group_inv (create_plan resolve code u body)" "keeps group_inv (update_plan resolve u gid udto)"
  unfolding create_plan_def update_plan_def resolveWritablePlace_def Let_def
  by (intro keeps_intro assms plan_repo_keeps plan_guards_keep publish_keeps_group_inv)+

end
