(* ===== verification/PlanProperties.thy ===== *)
theory PlanProperties
  imports PlansService
begin

text \<open>
  What the plans keep to: the pages of the chat and of the search as interpretations of \<open>keyset_pages\<close>, the
  table of joining, competing decisions as an interpretation of \<open>claim_store\<close>, and who sees and does what.
\<close>

section \<open>Pages of messages and of plans\<close>

definition messages_ok :: "string \<times> int option \<times> db \<Rightarrow> bool" where
  "messages_ok s \<longleftrightarrow> unique_key ms_id (t_messages (snd (snd s)))"

lemma sorted_strict:
  assumes "sorted_wrt (\<lambda>a b. \<not> before (key b) (key a)) xs" "distinct (map key xs)"
    and "\<And>i j. i \<noteq> j \<Longrightarrow> before i j \<or> before j i"
  shows "sorted_wrt (\<lambda>a b. before (key a) (key b)) xs"
  using assms(1,2)
proof (induction xs)
  case (Cons x xs)
  have "before (key x) (key y)" if "y \<in> set xs" for y
    using Cons.prems that assms(3) [of "key x" "key y"] by (auto simp: image_iff)
  then show ?case using Cons by simp
qed simp

lemma visible_messages_sorted:
  assumes "unique_key ms_id (t_messages w)"
  shows "sorted_wrt (\<lambda>a b. before_message (message_key_of a) (message_key_of b)) (visible_messages gid since w)"
proof (rule sorted_strict)
  show "sorted_wrt (\<lambda>a b. \<not> before_message (message_key_of b) (message_key_of a)) (visible_messages gid since w)"
    unfolding visible_messages_def
    by (rule sorted_sort_by) (auto simp: total_preorder_def before_message_def)
  show "distinct (map message_key_of (visible_messages gid since w))"
  proof -
    have "distinct (map ms_id (visible_messages gid since w))"
      using assms by (simp add: visible_messages_def distinct_map find_many_def) (auto intro: inj_on_subset)
    then show ?thesis unfolding distinct_map message_key_of_def by (auto simp: inj_on_def)
  qed
qed (auto simp: before_message_def)

interpretation msgs: keyset_pages before_message message_key_of
  "\<lambda>(gid, since, w). visible_messages gid since w" messages_ok
  "\<lambda>(gid, since, w) l c. listMessagesRepo gid l c since w"
proof (unfold_locales, goal_cases)
  case (4 s l c)
  obtain gid since w where s: "s = (gid, since, w)" by (cases s)
  have f: "(\<lambda>m. case c of None \<Rightarrow> True | Some c \<Rightarrow> ms_created m < fst c \<or> ms_created m = fst c \<and> ms_id m < snd c)
      = (\<lambda>r. case c of None \<Rightarrow> True | Some k \<Rightarrow> before_message k (message_key_of r))"
    by (rule ext) (simp add: before_message_def message_key_of_def split: option.splits)
  show ?case by (simp add: s listMessagesRepo_def f Let_def)
next
  case (3 s)
  then show ?case by (cases s) (simp add: messages_ok_def visible_messages_sorted)
qed (auto simp: before_message_def)

lemma plan_hits_distinct:
  assumes "unique_key g_id (t_groups w)"
  shows "distinct (map (\<lambda>h. g_id (gf_group (fst h))) (plan_hits f w))"
proof -
  let ?hit = "\<lambda>g. case head_opt (gf_events g) of None \<Rightarrow> [] | Some e \<Rightarrow> [(g, e)]"
  have c: "distinct (map (\<lambda>h. g_id (gf_group (fst h))) (concat (map ?hit gs)))"
    if "distinct (map (\<lambda>g. g_id (gf_group g)) gs)" for gs
    using that
  proof (induction gs)
    case (Cons g gs)
    then show ?case by (cases "head_opt (gf_events g)") (auto split: option.splits)
  qed simp
  have "map (\<lambda>g. g_id (gf_group g)) (listDiscoverablePlans f w) = map g_id (find_many (\<lambda>g. g_visibility g = GPublic \<and> g_join_policy g \<noteq> JInviteOnly
            \<and> list_ex (\<lambda>e. ev_group e = g_id g \<and> event_where f w e) (t_events w)) (t_groups w))"
    by (simp add: listDiscoverablePlans_def plan_include_def)
  then have "distinct (map (\<lambda>g. g_id (gf_group g)) (listDiscoverablePlans f w))"
    using assms by (simp add: find_many_def distinct_map_filter)
  from c [OF this] show ?thesis
    unfolding plan_hits_def
    by (simp add: distinct_map)
qed

definition plans_ok :: "discover_filter \<times> db \<Rightarrow> bool" where
  "plans_ok s \<longleftrightarrow> unique_key g_id (t_groups (snd s))"

lemma plan_hits_sorted:
  assumes "unique_key g_id (t_groups w)"
  shows "sorted_wrt (\<lambda>a b. before_plan (hit_key a) (hit_key b)) (plan_hits f w)"
proof (rule sorted_strict)
  show "sorted_wrt (\<lambda>a b. \<not> before_plan (hit_key b) (hit_key a)) (plan_hits f w)"
    unfolding plan_hits_def
    by (rule sorted_sort_by) (auto simp: total_preorder_def before_plan_def)
  show "distinct (map hit_key (plan_hits f w))"
    using plan_hits_distinct [OF assms, of f] unfolding distinct_map hit_key_def by (auto simp: inj_on_def)
qed (auto simp: before_plan_def)

interpretation discovery: keyset_pages before_plan hit_key
  "\<lambda>(f, w). plan_hits f w" plans_ok "\<lambda>(f, w). discover_page f w"
proof (unfold_locales, goal_cases)
  case (4 s l c)
  then show ?case by (cases s) (simp add: discover_page_def Let_def)
next
  case (3 s)
  then show ?case by (cases s) (simp add: plans_ok_def plan_hits_sorted)
qed (auto simp: before_plan_def)

text \<open>What the platform documents of the codec: decoding undoes encoding, an encoded cursor is not empty, and
  a date that JavaScript can represent survives its ISO form.\<close>

definition codec_ok :: "cursor_codec \<Rightarrow> bool" where
  "codec_ok cx \<longleftrightarrow> (\<forall>d i. cx_decode cx (cx_encode cx (JArr [JStr d, JStr i])) = Some (JArr [JStr d, JStr i])
       \<and> cx_encode cx (JArr [JStr d, JStr i]) \<noteq> [])
   \<and> (\<forall>t. \<bar>t\<bar> \<le> 8640000000000000 \<longrightarrow> cx_date cx (cx_iso cx t) = Some t)"

lemma plan_cursor_roundtrip:
  "codec_ok cx \<Longrightarrow> \<bar>fst c\<bar> \<le> 8640000000000000 \<Longrightarrow> decodePlanCursor cx (encodePlanCursor cx c) = Inr c
     \<and> encodePlanCursor cx c \<noteq> []"
  by (cases c) (simp add: codec_ok_def decodePlanCursor_def encodePlanCursor_def)

lemma message_cursor_roundtrip:
  "codec_ok cx \<Longrightarrow> \<bar>fst c\<bar> \<le> 8640000000000000 \<Longrightarrow> decodeMessageCursor cx (encodeMessageCursor cx c) = Inr c
     \<and> encodeMessageCursor cx c \<noteq> []"
  by (cases c) (simp add: codec_ok_def decodeMessageCursor_def encodeMessageCursor_def)

definition sample_codec :: cursor_codec where
  "sample_codec = \<lparr>
     cx_encode = (\<lambda>j. case j of JArr [JStr d, JStr i] \<Rightarrow> replicate (length d) CHR ''x'' @ CHR ''y'' # d @ i | _ \<Rightarrow> []),
     cx_decode = (\<lambda>s. let n = length (takeWhile (\<lambda>c. c = CHR ''x'') s); r = drop (Suc n) s
        in Some (JArr [JStr (take n r), JStr (drop n r)])),
     cx_iso = (\<lambda>t. (if t < 0 then ''-'' else ''+'') @ replicate (nat \<bar>t\<bar>) CHR ''x''),
     cx_date = (\<lambda>s. case s of [] \<Rightarrow> None
        | c # r \<Rightarrow> Some (if c = CHR ''-'' then - int (length r) else int (length r)))\<rparr>"

lemma sample_codec_ok: "codec_ok sample_codec"
proof -
  have "takeWhile (\<lambda>c. c = CHR ''x'') (replicate n CHR ''x'' @ CHR ''y'' # s) = replicate n CHR ''x''" for n and s :: string
    by (induction n) auto
  then show ?thesis by (simp add: codec_ok_def sample_codec_def Let_def)
qed

text \<open>A client of the chat: it calls \<open>list_messages\<close> with the cursor of the last answer.\<close>

definition chat_call :: "cursor_codec \<Rightarrow> string \<Rightarrow> string \<Rightarrow> nat option \<Rightarrow> db \<Rightarrow> string option
    \<Rightarrow> http_error + (string option \<times> message_view list)" where
  "chat_call cx u gid limit w c = (case fst (list_messages cx u gid limit c None w) of
     Inl e \<Rightarrow> Inl e | Inr (vs, nxt) \<Rightarrow> Inr (nxt, vs))"

lemma assertAccepted_run:
  "assertAccepted u gid w = (if \<exists>m. membership gid u w = Some m \<and> gm_status m = MAccepted then (Inr (), w)
     else (Inl (Forbidden ''PLAN_ACCEPTED_MEMBERS_ONLY''), w))"
  by (cases "membership gid u w") (auto simp: assertAccepted_def)

lemma chat_call_page:
  assumes "membership gid u w = Some m" "gm_status m = MAccepted" "codec_ok cx"
    and "\<forall>m\<in>set (t_messages w). \<bar>ms_created m\<bar> \<le> 8640000000000000"
    and "unique_key ms_id (t_messages w)" "limit \<noteq> Some 0"
    and c: "case c of None \<Rightarrow> True | Some k \<Rightarrow> k \<in> message_key_of ` set (visible_messages gid None w)"
  shows "chat_call cx u gid limit w (map_option (encodeMessageCursor cx) c) =
     Inr (let (rs, more) = listMessagesRepo gid (default_to limit 20) c None w
       in (if more then Some (encodeMessageCursor cx (message_key_of (last rs))) else None,
           map (serializeMessage w) rs))"
proof -
  let ?limit = "default_to limit 20"
  have acc: "assertAccepted u gid w = (Inr (), w)" using assms(1,2) by (simp add: assertAccepted_run)
  obtain rs more where pg: "listMessagesRepo gid ?limit c None w = (rs, more)" by force
  have "0 < ?limit" using assms(6) by (cases limit) auto
  then have ne: "rs \<noteq> []" if more
    using msgs.page_more [of "(gid, None, w)" ?limit c rs] that pg assms(5) by (simp add: messages_ok_def)
  show ?thesis
  proof (cases c)
    case None
    then show ?thesis using pg ne
      by (simp add: chat_call_def list_messages_def seqS_apply bindS_apply acc truthy_def)
  next
    case (Some k)
    then have "\<bar>fst k\<bar> \<le> 8640000000000000"
      using c assms(4) by (auto simp: message_key_of_def visible_messages_def find_many_def)
    note rt = message_cursor_roundtrip [OF assms(3) this]
    show ?thesis using pg ne rt Some
      by (simp add: chat_call_def list_messages_def seqS_apply bindS_apply acc truthy_def)
  qed
qed

text \<open>C3: reading the chat: an accepted member who follows the cursors of the answers, whatever the page
  size, reads every message of the plan that is not deleted exactly once, newest first, and then gets no
  further cursor.\<close>

theorem chat_pages_complete:
  assumes "membership gid u w = Some m" "gm_status m = MAccepted" "codec_ok cx"
    and "\<forall>m\<in>set (t_messages w). \<bar>ms_created m\<bar> \<le> 8640000000000000"
    and "unique_key ms_id (t_messages w)" "limit \<noteq> Some 0"
    and "length (t_messages w) \<le> n"
  shows "follow_cursor (chat_call cx u gid limit w) (Suc n) None
           = map (serializeMessage w) (visible_messages gid None w)
    \<and> set (visible_messages gid None w) = {m \<in> set (t_messages w). ms_group m = gid \<and> ms_deleted m = None}
    \<and> distinct (visible_messages gid None w)
    \<and> sorted_wrt (\<lambda>a b. ms_created b \<le> ms_created a) (visible_messages gid None w)"
proof (intro conjI)
  have "follow_cursor (chat_call cx u gid limit w) (Suc n) None
      = map (serializeMessage w) ((\<lambda>(gid, since, w). visible_messages gid since w) (gid, None, w))"
  proof (rule msgs.follow_all [where s = "(gid, None, w)" and enc = "encodeMessageCursor cx" and l = "default_to limit 20"])
    show "0 < default_to limit 20" using assms(6) by (cases limit) auto
    show "length ((\<lambda>(gid, since, w). visible_messages gid since w) (gid, None, w)) \<le> n"
      using assms(7) by (simp add: visible_messages_def find_many_def) (rule le_trans [OF length_filter_le])
    show "messages_ok (gid, None, w)" using assms(5) by (simp add: messages_ok_def)
  qed (use chat_call_page [OF assms(1-6)] in \<open>simp only: prod.case\<close>)
  then show "follow_cursor (chat_call cx u gid limit w) (Suc n) None
      = map (serializeMessage w) (visible_messages gid None w)" by simp
  show "set (visible_messages gid None w) = {m \<in> set (t_messages w). ms_group m = gid \<and> ms_deleted m = None}"
    by (auto simp: visible_messages_def find_many_def)
  show "distinct (visible_messages gid None w)"
    using assms(5) by (simp add: visible_messages_def find_many_def distinct_map)
  show "sorted_wrt (\<lambda>a b. ms_created b \<le> ms_created a) (visible_messages gid None w)"
    using visible_messages_sorted [OF assms(5), of gid None]
    by (rule sorted_wrt_mono_rel [rotated]) (auto simp: before_message_def message_key_of_def)
qed

definition sample_message :: "string \<Rightarrow> int \<Rightarrow> int option \<Rightarrow> message_row" where
  "sample_message i t d = \<lparr>ms_id = i, ms_group = ''ccc'', ms_author = ''a'', ms_body = i, ms_created = t, ms_deleted = d\<rparr>"

definition sample_chat_db :: db where
  "sample_chat_db = sample_groups_db\<lparr>t_messages :=
     [sample_message ''p'' 1 None, sample_message ''q'' 2 (Some 3), sample_message ''r'' 1 None]\<rparr>"

theorem chat_pages_complete_witness:
  "follow_cursor (chat_call sample_codec ''a'' ''ccc'' (Some 1) sample_chat_db) 4 None =
     map (serializeMessage sample_chat_db) [sample_message ''r'' 1 None, sample_message ''p'' 1 None]"
proof -
  have m: "membership ''ccc'' ''a'' sample_chat_db = Some (sample_member ''c'' ''a'' Owner MAccepted)"
    by (simp add: membership_def sample_chat_db_def sample_groups_db_def sample_member_def)
  have "visible_messages ''ccc'' None sample_chat_db = [sample_message ''r'' 1 None, sample_message ''p'' 1 None]"
    by (simp add: visible_messages_def find_many_def sample_chat_db_def sample_message_def before_message_def
        message_key_of_def)
  with chat_pages_complete [OF m _ sample_codec_ok, of "Some 1" 3]
  show ?thesis by (simp add: sample_member_def sample_chat_db_def sample_message_def numeral_eq_Suc)
qed

text \<open>A client of the search.\<close>

definition plan_call :: "cursor_codec \<Rightarrow> string \<Rightarrow> discover_query \<Rightarrow> db \<Rightarrow> string option
    \<Rightarrow> http_error + (string option \<times> plan_view list)" where
  "plan_call cx u q w c = fst (discover cx u (q\<lparr>dq_cursor := c\<rparr>) w)"

definition hit_view :: "string \<Rightarrow> db \<Rightarrow> plan_hit \<Rightarrow> plan_view" where
  "hit_view u w h = serializePlan (fst h) u (set (listFollowingIds u w)) (isAcceptedIn u (fst h)) (Some (snd h))"

lemma plan_hits_mem:
  "h \<in> set (plan_hits f w) \<Longrightarrow> fst h \<in> set (listDiscoverablePlans f w) \<and> snd h \<in> set (gf_events (fst h))"
proof -
  let ?hit = "\<lambda>g. case head_opt (gf_events g) of None \<Rightarrow> [] | Some e \<Rightarrow> [(g, e)]"
  assume "h \<in> set (plan_hits f w)"
  then have "\<exists>g\<in>set (listDiscoverablePlans f w). h \<in> set (?hit g)"
    unfolding plan_hits_def by (simp only: set_sort_by set_concat set_map UN_iff bex_simps image_iff)
  then obtain g where g: "g \<in> set (listDiscoverablePlans f w)" "h \<in> set (?hit g)" ..
  show ?thesis
  proof (cases "head_opt (gf_events g)")
    case (Some e)
    then have "h = (g, e)" using g(2) by simp
    then show ?thesis using g(1) head_opt_Some [OF Some] by simp
  qed (use g(2) in simp)
qed

lemma discoverable_mem:
  assumes "g \<in> set (listDiscoverablePlans f w)"
  shows "g_visibility (gf_group g) = GPublic \<and> g_join_policy (gf_group g) \<noteq> JInviteOnly
     \<and> (e \<in> set (gf_events g) \<longrightarrow> event_where f w (ef_event e) \<and> ef_event e \<in> set (t_events w))"
  using assms unfolding listDiscoverablePlans_def
  by (auto simp: plan_include_def find_many_def event_with_relations_def)

lemma assertBounds_cursor: "assertBounds (q\<lparr>dq_cursor := k\<rparr>) = assertBounds q"
  by (simp add: assertBounds_def)

lemma discovery_filter_cursor: "discovery_filter u (q\<lparr>dq_cursor := k\<rparr>) w = discovery_filter u q w"
  by (simp add: discovery_filter_def)

lemma discover_run:
  assumes "assertBounds q = ret ()"
    and "(if truthy (dq_cursor q)
          then bindS (liftE (decodePlanCursor cx (the (dq_cursor q)))) (\<lambda>c. ret (Some c)) else ret None)
         = (ret c :: plan_cursor option dbm)"
  shows "fst (discover cx u q w) = Inr (let (rs, more) =
      discover_page (discovery_filter u q w) w (min (default_to (dq_limit q) 20) 50) c
      in (if more then Some (encodePlanCursor cx (hit_key (last rs))) else None, map (hit_view u w) rs))"
proof -
  have v: "(\<lambda>(g, e). serializePlan g u (set (listFollowingIds u w)) (isAcceptedIn u g) (Some e)) = hit_view u w"
    by (rule ext) (simp add: hit_view_def split: prod.splits)
  show ?thesis
    unfolding discover_def assms MAX_DISCOVERY_LIMIT_def Let_def
    by (simp add: seqS_apply bindS_apply v split: prod.splits)
qed

lemma plan_call_page:
  assumes "assertBounds q = ret ()" "codec_ok cx" "unique_key g_id (t_groups w)"
    and "\<forall>e\<in>set (t_events w). \<bar>ev_date e\<bar> \<le> 8640000000000000" "dq_limit q \<noteq> Some 0"
    and c: "case c of None \<Rightarrow> True | Some k \<Rightarrow> k \<in> hit_key ` set (plan_hits (discovery_filter u q w) w)"
  shows "plan_call cx u q w (map_option (encodePlanCursor cx) c) =
     Inr (let (rs, more) = discover_page (discovery_filter u q w) w (min (default_to (dq_limit q) 20) 50) c
       in (if more then Some (encodePlanCursor cx (hit_key (last rs))) else None, map (hit_view u w) rs))"
proof -
  let ?f = "discovery_filter u q w" and ?l = "min (default_to (dq_limit q) 20) 50"
  have run: "plan_call cx u q w k = Inr (let (rs, more) = discover_page ?f w ?l c
       in (if more then Some (encodePlanCursor cx (hit_key (last rs))) else None, map (hit_view u w) rs))"
    if "(if truthy k then bindS (liftE (decodePlanCursor cx (the k))) (\<lambda>c. ret (Some c)) else ret None)
      = (ret c :: plan_cursor option dbm)" for k
  proof -
    have "(if truthy (dq_cursor (q\<lparr>dq_cursor := k\<rparr>))
          then bindS (liftE (decodePlanCursor cx (the (dq_cursor (q\<lparr>dq_cursor := k\<rparr>))))) (\<lambda>c. ret (Some c)) else ret None)
         = (ret c :: plan_cursor option dbm)" using that by (simp cong: if_cong)
    from discover_run [OF _ this, of u w] show ?thesis
      using assms(1) by (simp add: plan_call_def assertBounds_cursor discovery_filter_cursor)
  qed
  show ?thesis
  proof (cases c)
    case None
    then show ?thesis using run [of None] by (simp add: truthy_def)
  next
    case (Some k)
    then obtain h where h: "h \<in> set (plan_hits ?f w)" "k = hit_key h" using c by auto
    have "ef_event (snd h) \<in> set (t_events w)"
      using plan_hits_mem [OF h(1)] discoverable_mem by blast
    then have "\<bar>fst k\<bar> \<le> 8640000000000000" using assms(4) h(2) by (simp add: hit_key_def)
    note rt = plan_cursor_roundtrip [OF assms(2) this]
    have "bindS (liftE (Inr k)) (\<lambda>c. ret (Some c)) = (ret c :: plan_cursor option dbm)"
      by (rule ext) (simp add: Some bindS_apply)
    then show ?thesis using run [of "Some (encodePlanCursor cx k)"] rt Some
      by (simp add: truthy_def)
  qed
qed


definition sample_query :: discover_query where
  "sample_query = \<lparr>dq_city = None, dq_cityGooglePlaceId = None, dq_minLat = None, dq_maxLat = None,
     dq_minLng = None, dq_maxLng = None, dq_from = None, dq_to = None, dq_limit = Some 1, dq_cursor = None\<rparr>"

definition sample_place :: place_row where
  "sample_place = \<lparr>pl_id = ''p'', pl_google_id = None, pl_name = ''n'', pl_address = ''s'', pl_city = ''c'',
     pl_city_id = None, pl_lat = Some (1 / 8), pl_lng = Some 2, pl_categories = [], pl_photo = None,
     pl_hidden = False, pl_source = SrcManual, pl_rating = None, pl_rating_count = None, pl_phone = None,
     pl_website = None, pl_hours = [], pl_maps_uri = None, pl_photo_ref = None, pl_synced = None, pl_created = 0,
     pl_updated = 0\<rparr>"

definition sample_event :: event_row where
  "sample_event = \<lparr>ev_id = ''e'', ev_group = ''ccc'', ev_place = ''p'', ev_proposer = ''a'', ev_date = 10,
     ev_status = EConfirmed, ev_created = 0\<rparr>"

definition sample_plan_db :: db where
  "sample_plan_db = sample_groups_db\<lparr>t_places := [sample_place], t_events := [sample_event]\<rparr>"

lemmas sample_plan_simps = sample_plan_db_def sample_groups_db_def empty_db_def sample_group_def sample_event_def
  sample_place_def

lemma sample_plan_hits:
  "map hit_key (plan_hits (discovery_filter ''d'' sample_query sample_plan_db) sample_plan_db) = [(10, ''ccc'')]"
  by (simp add: plan_hits_def listDiscoverablePlans_def plan_include_def find_many_def event_where_def
      discovery_filter_def sample_query_def sample_plan_simps user_by_id_def sample_user_def truthy_def
      place_by_id_def in_range_def event_with_relations_def hit_key_def Let_def)


section \<open>Joining and deciding\<close>

text \<open>The table of \<open>joinPlan\<close>: the answer, whether anything changed, and the new status, by the status of the
  caller and the policy of the plan.\<close>

fun join_table :: "member_status option \<Rightarrow> group_join_policy \<Rightarrow> join_kind \<times> bool \<times> member_status option" where
  "join_table (Some MAccepted) _ = (JoinAccepted, False, Some MAccepted)"
| "join_table (Some MPending) JInviteOnly = (JoinAccepted, True, Some MAccepted)"
| "join_table (Some MRequested) JRequestApproval = (JoinRequested, False, Some MRequested)"
| "join_table st JInviteOnly = (JoinDenied, False, st)"
| "join_table _ JOpen = (JoinAccepted, True, Some MAccepted)"
| "join_table _ JRequestApproval = (JoinRequested, True, Some MRequested)"

lemma member_at_fields:
  "gm_group (member_at gid by r st t i u) = gid" "gm_user (member_at gid by r st t i u) = u"
  "gm_status (member_at gid by r st t i u) = st" "gm_role (member_at gid by r st t i u) = r"
  by (simp_all add: member_at_def)

lemma membership_update_same:
  assumes "membership gid u w = Some e"
    and "\<And>r. gm_id (f r) = gm_id r \<and> gm_group (f r) = gm_group r \<and> gm_user (f r) = gm_user r"
  shows "membership gid u (w\<lparr>t_members := update_many (\<lambda>r. gm_id r = gm_id e) f (t_members w)\<rparr>) = Some (f e)"
  using find_unique_update_many_same [of "\<lambda>m. gm_group m = gid \<and> gm_user m = u" f "\<lambda>r. gm_id r = gm_id e" "t_members w"]
    assms by (simp add: membership_def)

lemma update_member_only:
  assumes "group_inv w" "membership gid u w = Some e"
    and f: "\<And>r. gm_group (f r) = gm_group r \<and> gm_user (f r) = gm_user r"
  shows "filter (\<lambda>m. member_key m \<noteq> (gid, u)) (update_many (\<lambda>r. gm_id r = gm_id e) f (t_members w))
       = filter (\<lambda>m. member_key m \<noteq> (gid, u)) (t_members w)"
proof -
  have same: "r = e" if "r \<in> set (t_members w)" "gm_id r = gm_id e" for r
    using members_ok_same_id assms(1) membership_Some [OF assms(2)] that unfolding group_inv_def by blast
  have k: "member_key e = (gid, u)" using membership_Some [OF assms(2)] by simp
  have fe: "member_key (f e) = (gid, u)" using k f by simp
  have "update_many (\<lambda>r. gm_id r = gm_id e) f (t_members w) = map (\<lambda>r. if r = e then f e else r) (t_members w)"
    unfolding update_many_def using same by (intro map_cong) auto
  moreover have "filter (\<lambda>m. member_key m \<noteq> (gid, u)) (map (\<lambda>r. if r = e then f e else r) ms)
      = filter (\<lambda>m. member_key m \<noteq> (gid, u)) ms" for ms
    using k fe by (induction ms) auto
  ultimately show ?thesis by simp
qed

text \<open>C2: joining a plan answers and changes what the table of status and policy says: the caller ends with
  the table's status, no other membership changes, and when the table says unchanged the database is
  exactly as before.\<close>

theorem join_plan_table:
  assumes "group_inv w" "group_by_id gid w = Some g"
  shows "case join_table (map_option gm_status (membership gid u w)) (g_join_policy g) of (kind, changed, st) \<Rightarrow>
     \<exists>w'. joinPlanRepo gid u w = (Inr (Some \<lparr>jr_changed = changed, jr_kind = kind\<rparr>), w')
      \<and> map_option gm_status (membership gid u w') = st
      \<and> filter (\<lambda>m. member_key m \<noteq> (gid, u)) (t_members w') = filter (\<lambda>m. member_key m \<noteq> (gid, u)) (t_members w)
      \<and> (\<not> changed \<longrightarrow> w' = w)"
proof (cases "membership gid u w")
  case None
  have k: "create_row member_key (member_at gid None Member st t (db_cuid w (db_next w)) u) (t_members w)
      = Some (t_members w @ [member_at gid None Member st t (db_cuid w (db_next w)) u])" for st t
    using None unfolding membership_None by (simp add: create_row_def member_at_def)
  have m: "membership gid u (w\<lparr>db_next := n, t_members := t_members w @ [member_at gid None Member st t i u]\<rparr>)
      = Some (member_at gid None Member st t i u)" for n st t i
    using None by (simp add: membership_def find_unique_append member_at_def)
  show ?thesis
    by (cases "g_join_policy g") (simp_all add: joinPlanRepo_def svc_exec assms(2) None k m Let_def member_at_fields)
next
  case (Some e)
  note same = membership_update_same [OF Some]
  note only = update_member_only [OF assms(1) Some, simplified]
  show ?thesis
    by (cases "gm_status e"; cases "g_join_policy g")
      (simp_all add: joinPlanRepo_def svc_exec assms(2) Some Let_def set_member_status_def set_members_def same only)
qed

theorem join_plan_table_witness:
  "\<exists>w'. joinPlanRepo ''ccc'' ''b'' sample_groups_db = (Inr (Some \<lparr>jr_changed = True, jr_kind = JoinRequested\<rparr>), w')
     \<and> map_option gm_status (membership ''ccc'' ''b'' w') = Some MRequested"
proof -
  have g: "group_by_id ''ccc'' sample_groups_db = Some sample_group"
    by (simp add: group_by_id_def sample_groups_db_def sample_group_def)
  have m: "membership ''ccc'' ''b'' sample_groups_db = Some (sample_member ''cc'' ''b'' Admin MLeft)"
    by (simp add: membership_def sample_groups_db_def sample_member_def)
  from join_plan_table [OF sample_groups_inv g, of "''b''"] show ?thesis
    unfolding m by (auto simp: sample_member_def sample_group_def)
qed

text \<open>Deciding a request is a guarded update of the memberships table.\<close>

definition decide_claim :: "string \<times> string \<Rightarrow> bool \<Rightarrow> member_row list \<Rightarrow> nat \<times> member_row list" where
  "decide_claim k approve ms = decide_rows (fst k) (snd k) approve ms"

definition open_request :: "string \<times> string \<Rightarrow> member_row list \<Rightarrow> bool" where
  "open_request k ms \<longleftrightarrow> list_ex (\<lambda>m. gm_id m = snd k \<and> gm_group m = fst k \<and> gm_status m = MRequested) ms"

interpretation decisions: claim_store decide_claim open_request
proof (unfold_locales, goal_cases)
  case (1 k a s)
  then show ?case by (auto simp: decide_claim_def decide_rows_def open_request_def count_rows_def Let_def list_ex_iff
        filter_empty_conv simp flip: length_greater_0_conv)
next
  case (2 k a s)
  then show ?case by (auto simp: decide_claim_def decide_rows_def open_request_def list_ex_iff set_update_many Let_def)
next
  case (3 j k a s)
  have "(\<exists>m\<in>set s. gm_id m = snd j \<and> gm_group m = fst j \<and> gm_status m = MRequested)
    \<longleftrightarrow> (\<exists>m\<in>set s. \<not> (gm_id m = snd k \<and> gm_group m = fst k \<and> gm_status m = MRequested)
          \<and> gm_id m = snd j \<and> gm_group m = fst j \<and> gm_status m = MRequested)"
    using 3 by (metis prod_eqI)
  then show ?case by (auto simp: decide_claim_def decide_rows_def open_request_def list_ex_iff set_update_many Let_def)
qed

text \<open>C4: of any number of competing decisions on an open join request, approvals and rejections, in
  whatever order the database serialises them and between decisions on other requests, exactly one counts
  a changed row; the others find the request gone.\<close>

theorem request_decided_once:
  assumes "open_request k ms" "k \<in> fst ` set cs"
  shows "count_wins decide_claim k cs ms = 1"
  by (rule decisions.one_winner [OF assms])

theorem request_decided_once_witness:
  "count_wins decide_claim (''ccc'', ''r'') [((''ccc'', ''r''), True), ((''ccc'', ''r''), False)]
     [sample_member ''r'' ''d'' Member MRequested] = 1"
  by (rule request_decided_once) (simp_all add: open_request_def sample_member_def)

section \<open>Who sees and does what\<close>

lemma round_approximate:
  assumes "roundApproximateCoordinate v = Some y"
  shows "\<exists>x k. v = Some x \<and> y = of_int k / 100 \<and> \<bar>x - y\<bar> \<le> 1 / 200"
proof -
  obtain x where x: "v = Some x" "y = of_int \<lfloor>x * 100 + 1 / 2\<rfloor> / 100"
    using assms by (auto simp: roundApproximateCoordinate_def)
  have "of_int \<lfloor>x * 100 + 1 / 2\<rfloor> \<le> x * 100 + 1 / 2" by (rule of_int_floor_le)
  moreover have "x * 100 + 1 / 2 < of_int \<lfloor>x * 100 + 1 / 2\<rfloor> + 1" by (rule floor_correct [THEN conjunct2, simplified])
  ultimately have "\<bar>x - y\<bar> \<le> 1 / 200" unfolding x(2) by linarith
  then show ?thesis using x by blast
qed

lemma get_plan_outcomes:
  assumes "findPlanById gid w = Some plan"
  shows "get_plan u gid w = (
     if g_visibility (gf_group plan) \<noteq> GPublic \<and> membership gid u w = None then (Inl (NotFound ''Plan not found''), w)
     else if g_visibility (gf_group plan) \<noteq> GPublic \<and> map_option gm_status (membership gid u w) \<noteq> Some MAccepted
     then (Inl (Forbidden ''PLAN_MEMBERSHIP_REQUIRED''), w)
     else (Inr (serializePlan plan u (set (listFollowingIds u w))
             (map_option gm_status (membership gid u w) = Some MAccepted) (nextEvent (db_now w) plan)), w))"
  by (simp add: get_plan_def requirePlan_def bindS_apply assms now_apply Let_def)


lemma sample_findPlan:
  "\<exists>plan. findPlanById ''ccc'' sample_plan_db = Some plan \<and> gf_group plan = sample_group"
  by (simp add: findPlanById_def group_by_id_def sample_plan_simps plan_include_def)


lemma plan_include_members:
  "m \<in> set (gf_members (plan_include w g)) \<Longrightarrow> mf_member m \<in> set (t_members w) \<and> gm_group (mf_member m) = g_id g"
  by (auto simp: plan_include_def member_with_relations_def find_many_def)

text \<open>The administration of a plan is for its accepted owner and admins: for anyone else changing it,
  listing or deciding requests and deleting a message fail and leave the database as it is, whatever the
  place resolver does.\<close>

theorem plan_admin_only:
  assumes "\<not> (\<exists>m\<in>set (t_members w). gm_group m = gid \<and> gm_user m = u \<and> gm_status m = MAccepted
             \<and> gm_role m \<in> {Owner, Admin})"
  shows "(\<exists>e. update_plan resolve u gid body w = (Inl e, w)) \<and> (\<exists>e. list_join_requests u gid w = (Inl e, w))
    \<and> (\<exists>e. decide_join_request u gid i b w = (Inl e, w)) \<and> (\<exists>e. delete_message u gid j w = (Inl e, w))"
proof (cases "findPlanById gid w")
  case None
  then show ?thesis
    by (simp add: update_plan_def list_join_requests_def decide_join_request_def delete_message_def requirePlan_def
        bindS_apply)
next
  case (Some plan)
  have "\<exists>e. assertAdmin u plan w = (Inl e, w)"
  proof (cases "find_unique (\<lambda>m. gm_user (mf_member m) = u) (gf_members plan)")
    case m: (Some m)
    then have um: "m \<in> set (gf_members plan)" "gm_user (mf_member m) = u"
      using find_unique_Some [OF m] by simp_all
    obtain g where g: "group_by_id gid w = Some g" "plan = plan_include w g"
      using Some by (auto simp: findPlanById_def)
    have "g_id g = gid" using find_unique_Some [OF g(1) [unfolded group_by_id_def]] by simp
    then have "mf_member m \<in> set (t_members w)" "gm_group (mf_member m) = gid"
      using plan_include_members [of m w g] um(1) unfolding g(2) by simp_all
    then have "gm_status (mf_member m) \<noteq> MAccepted \<or> (gm_role (mf_member m) \<noteq> Owner \<and> gm_role (mf_member m) \<noteq> Admin)"
      using assms um(2) by auto
    then show ?thesis by (simp add: assertAdmin_def m)
  qed (simp add: assertAdmin_def)
  then obtain e where "assertAdmin u plan w = (Inl e, w)" by blast
  then show ?thesis
    by (simp add: update_plan_def list_join_requests_def decide_join_request_def delete_message_def requirePlan_def
        bindS_apply seqS_apply Some)
qed

theorem plan_admin_only_witness:
  "\<exists>e. decide_join_request ''d'' ''ccc'' ''r'' True sample_plan_db = (Inl e, sample_plan_db)"
  using plan_admin_only [of sample_plan_db "''ccc''" "''d''" _ _ "''r''" True]
  by (simp add: sample_plan_simps sample_member_def)

text \<open>The chat and the attendance of a plan are for accepted members: for anyone else, an invited user
  included, reading, writing and answering fail and leave the database as it is.\<close>

theorem chat_members_only:
  assumes "map_option gm_status (membership gid u w) \<noteq> Some MAccepted"
  shows "list_messages cx u gid limit c since w = (Inl (Forbidden ''PLAN_ACCEPTED_MEMBERS_ONLY''), w)
    \<and> send_message u gid text w = (Inl (Forbidden ''PLAN_ACCEPTED_MEMBERS_ONLY''), w)
    \<and> set_plan_rsvp u gid e r w = (Inl (Forbidden ''PLAN_ACCEPTED_MEMBERS_ONLY''), w)"
proof -
  have "assertAccepted u gid w = (Inl (Forbidden ''PLAN_ACCEPTED_MEMBERS_ONLY''), w)"
    using assms by (auto simp: assertAccepted_run)
  then show ?thesis by (simp add: list_messages_def send_message_def set_plan_rsvp_def seqS_apply)
qed

theorem chat_members_only_witness:
  "send_message ''b'' ''ccc'' ''x'' sample_groups_db
   = (Inl (Forbidden ''PLAN_ACCEPTED_MEMBERS_ONLY''), sample_groups_db)"
  using chat_members_only [of "''ccc''" "''b''" sample_groups_db]
  by (simp add: membership_def sample_groups_db_def sample_member_def)

lemma publish_keeps_members: "t_members (snd (publish i w)) = t_members w"
  using pub.notify_fields [where w = w and i = i] by simp

text \<open>Joining does not look at the visibility of the plan: for a plan that is not public and whose policy
  is not invite-only, someone without a membership is told by \<open>get\<close> that the plan does not exist, and yet
  \<open>join\<close> makes them an accepted member (open policy), or files their request and then answers with an
  error (by request).\<close>

theorem join_ignores_visibility:
  assumes "group_inv w" "group_by_id gid w = Some g" "membership gid u w = None"
    and "g_visibility g \<noteq> GPublic" "g_join_policy g \<noteq> JInviteOnly"
  shows "fst (get_plan u gid w) = Inl (NotFound ''Plan not found'')
    \<and> (g_join_policy g = JOpen \<longrightarrow>
         map_option gm_status (membership gid u (snd (join_plan u gid w))) = Some MAccepted)
    \<and> (g_join_policy g = JRequestApproval \<longrightarrow>
         map_option gm_status (membership gid u (snd (join_plan u gid w))) = Some MRequested
         \<and> (\<exists>e. fst (join_plan u gid w) = Inl e))"
proof -
  have p: "findPlanById gid w = Some (plan_include w g)" by (simp add: findPlanById_def assms(2))
  let ?st = "if g_join_policy g = JOpen then MAccepted else MRequested"
  let ?row = "member_at gid None Member ?st (db_now w) (db_cuid w (db_next w)) u"
  let ?w = "w\<lparr>db_next := Suc (db_next w), t_members := t_members w @ [?row]\<rparr>"
  have k: "create_row member_key ?row (t_members w) = Some (t_members w @ [?row])"
    using assms(3) unfolding membership_None by (simp add: create_row_def member_at_def)
  have j: "joinPlanRepo gid u w = (Inr (Some \<lparr>jr_changed = True,
      jr_kind = if g_join_policy g = JOpen then JoinAccepted else JoinRequested\<rparr>), ?w)"
    using assms(5) k by (cases "g_join_policy g") (simp_all add: joinPlanRepo_def svc_exec assms(2,3) Let_def)
  have m: "membership gid u ?w = Some ?row"
    using assms(3) by (simp add: membership_def find_unique_append member_at_def)
  define inp where "inp = plan_notification (if g_join_policy g = JOpen then NGroupJoined else NGroupJoinRequest)
      u gid (plan_include w g) [] (adminIds gid u ?w)"
  have join: "join_plan u gid w = bindS (publish inp) (\<lambda>_. get_plan u gid) ?w"
    unfolding inp_def
    by (cases "g_join_policy g = JOpen") (simp_all add: join_plan_def requirePlan_def bindS_apply seqS_apply p j
        split: sum.splits prod.splits)
  obtain r w2 where pu: "publish inp ?w = (r, w2)" by force
  have m2: "membership gid u w2 = Some ?row"
    using publish_keeps_members [of inp ?w] m pu by (simp add: membership_def)
  have "keeps (\<lambda>v. v = w2) (get_plan u gid)" by (rule plan_guards_keep)
  then have g2: "snd (get_plan u gid w2) = w2" by (simp add: keeps_def)
  have "snd (join_plan u gid w) = w2" using g2 by (simp add: join bindS_apply pu split: sum.splits)
  moreover have "\<exists>e. fst (join_plan u gid w) = Inl e" if "g_join_policy g = JRequestApproval"
  proof -
    have gr: "group_by_id gid w2 = Some g"
      using pub.notify_fields [where w = ?w and i = inp] pu assms(2) by (simp add: group_by_id_def)
    then have "get_plan u gid w2 = (Inl (Forbidden ''PLAN_MEMBERSHIP_REQUIRED''), w2)"
      using get_plan_outcomes [of gid w2 "plan_include w2 g" u] m2 that assms(4)
      by (simp add: findPlanById_def plan_include_def member_at_fields)
    then show ?thesis by (cases r) (simp_all add: join bindS_apply pu)
  qed
  moreover have "fst (get_plan u gid w) = Inl (NotFound ''Plan not found'')"
    using get_plan_outcomes [OF p, of u] assms(3,4) by (simp add: plan_include_def)
  ultimately show ?thesis using m2 by (simp add: member_at_fields)
qed

definition sample_private_db :: db where
  "sample_private_db = sample_groups_db\<lparr>t_groups := [sample_group\<lparr>g_visibility := GPrivate, g_join_policy := JOpen\<rparr>]\<rparr>"

theorem join_ignores_visibility_witness:
  "map_option gm_status (membership ''ccc'' ''d'' (snd (join_plan ''d'' ''ccc'' sample_private_db))) = Some MAccepted"
proof -
  have i: "group_inv sample_private_db"
    by (auto simp: group_inv_def members_ok_def sample_private_db_def sample_groups_db_def empty_db_def
        sample_group_def sample_member_def sample_user_def ids_below_def mem_unary_cuid numeral_eq_Suc)
  have g: "group_by_id ''ccc'' sample_private_db = Some (sample_group\<lparr>g_visibility := GPrivate, g_join_policy := JOpen\<rparr>)"
    by (simp add: group_by_id_def sample_private_db_def sample_group_def)
  have m: "membership ''ccc'' ''d'' sample_private_db = None"
    by (simp add: membership_def sample_private_db_def sample_groups_db_def sample_member_def)
  from join_ignores_visibility [OF i g m] show ?thesis by simp
qed

end
