(* ===== verification/AccountDeletion.thy ===== *)
theory AccountDeletion
  imports AuthSessions SocialGroups
begin

text \<open>
  What deleting an account leaves behind: the referential integrity of the database and the invariant of the
  memberships survive it, and no row mentions the deleted user any more.
\<close>

section \<open>References\<close>

definition refers :: "('r \<Rightarrow> 'k) \<Rightarrow> 'r list \<Rightarrow> ('t \<Rightarrow> 'k) \<Rightarrow> 't list \<Rightarrow> bool" where
  "refers f rows key t \<longleftrightarrow> list_all (\<lambda>r. f r \<in> set (map key t)) rows"

definition refers_opt :: "('r \<Rightarrow> 'k option) \<Rightarrow> 'r list \<Rightarrow> ('t \<Rightarrow> 'k) \<Rightarrow> 't list \<Rightarrow> bool" where
  "refers_opt f rows key t \<longleftrightarrow> list_all (\<lambda>r. case f r of None \<Rightarrow> True | Some k \<Rightarrow> k \<in> set (map key t)) rows"

text \<open>The foreign keys to users, and those between the tables whose rows a user owns.\<close>

definition user_refs_ok :: "db \<Rightarrow> bool" where
  "user_refs_ok w \<longleftrightarrow>
     refers ai_user (t_identities w) u_id (t_users w)
   \<and> refers ss_user (t_sessions w) u_id (t_users w)
   \<and> refers st_user (t_settings w) u_id (t_users w)
   \<and> refers fo_follower (t_follows w) u_id (t_users w)
   \<and> refers fo_followed (t_follows w) u_id (t_users w)
   \<and> refers vi_user (t_visits w) u_id (t_users w)
   \<and> refers sv_user (t_saves w) u_id (t_users w)
   \<and> refers g_created_by (t_groups w) u_id (t_users w)
   \<and> refers gm_user (t_members w) u_id (t_users w)
   \<and> refers_opt gm_inviter (t_members w) u_id (t_users w)
   \<and> refers ev_proposer (t_events w) u_id (t_users w)
   \<and> refers ms_author (t_messages w) u_id (t_users w)
   \<and> refers rs_user (t_rsvps w) u_id (t_users w)
   \<and> refers di_created_by (t_diaries w) u_id (t_users w)
   \<and> refers n_user (t_notifications w) u_id (t_users w)
   \<and> refers_opt n_actor (t_notifications w) u_id (t_users w)
   \<and> refers pi_user (t_installations w) u_id (t_users w)
   \<and> refers im_user (t_imports w) u_id (t_users w)
   \<and> refers ut_user (t_user_tags w) u_id (t_users w)
   \<and> refers pt_user (t_place_tags w) u_id (t_users w)
   \<and> refers cu_created_by (t_curations w) u_id (t_users w)"

definition owned_refs_ok :: "db \<Rightarrow> bool" where
  "owned_refs_ok w \<longleftrightarrow>
     refers gm_group (t_members w) g_id (t_groups w)
   \<and> refers ev_group (t_events w) g_id (t_groups w)
   \<and> refers ms_group (t_messages w) g_id (t_groups w)
   \<and> refers rs_event (t_rsvps w) ev_id (t_events w)
   \<and> refers dp_diary (t_diary_places w) di_id (t_diaries w)
   \<and> refers pd_notification (t_deliveries w) n_id (t_notifications w)
   \<and> refers pd_installation (t_deliveries w) pi_id (t_installations w)
   \<and> refers ii_import (t_import_items w) im_id (t_imports w)"

text \<open>A row that survives must not refer to a row that goes.\<close>

lemma refers_delete:
  assumes "refers f rows key t" "\<And>r. \<not> p r \<Longrightarrow> f r \<notin> set (map key (filter q t))"
  shows "refers f (delete_many p rows) key (delete_many q t)"
proof -
  have "f r \<in> set (map key (delete_many q t))" if r: "r \<in> set rows" "\<not> p r" for r
  proof -
    obtain x where x: "x \<in> set t" "f r = key x" using assms(1) r(1) by (auto simp: refers_def list_all_iff)
    then have "\<not> q x" using assms(2) [OF r(2)] by auto
    then show ?thesis using x by (auto simp: delete_many_def)
  qed
  then show ?thesis by (simp add: refers_def list_all_iff delete_many_def)
qed

lemma refers_delete_user:
  assumes "refers f rows u_id t" "\<And>r. \<not> p r \<Longrightarrow> f r \<noteq> uid"
  shows "refers f (delete_many p rows) u_id (delete_many (\<lambda>u. u_id u = uid) t)"
  by (rule refers_delete [OF assms(1)]) (use assms(2) in auto)

lemma refers_update:
  assumes "\<And>r. f (g r) = f r"
  shows "refers f (update_many p g rows) key t = refers f rows key t"
proof -
  have "refers f rs key t \<longleftrightarrow> set (map f rs) \<subseteq> set (map key t)" for rs
    by (auto simp: refers_def list_all_iff)
  then show ?thesis by (simp only: map_key_update_many [where key = f and f = g, OF assms])
qed

lemma refers_key_update:
  assumes "\<And>r. key (g r) = key r"
  shows "refers f rows key (update_many p g t) = refers f rows key t"
  using assms by (simp add: refers_def map_key_update_many)

lemma refers_opt_clear:
  assumes "refers_opt f rows u_id t" "\<And>r. f (g r) = None"
  shows "refers_opt f (update_many (\<lambda>r. f r = Some uid) g (delete_many p rows)) u_id (delete_many (\<lambda>u. u_id u = uid) t)"
  using assms by (fastforce simp: refers_opt_def list_all_iff set_update_many delete_many_def split: option.splits)

lemma erase_user_refs:
  assumes "user_refs_ok w" shows "user_refs_ok (erase_user uid w)"
  using assms unfolding user_refs_ok_def
  by (elim conjE) (simp add: erase_user_def refers_update refers_opt_clear, intro conjI refers_delete_user;
      assumption?; simp add: dead_event_def)

lemma erase_user_owned_refs:
  assumes "owned_refs_ok w" shows "owned_refs_ok (erase_user uid w)"
  using assms unfolding owned_refs_ok_def
  by (elim conjE) (simp add: erase_user_def refers_update refers_key_update, intro conjI refers_delete;
      assumption?; simp add: own_groups_def dead_event_def dead_events_def dead_diaries_def dead_notifications_def
        dead_installations_def dead_imports_def)

text \<open>No column refers to the user.\<close>

definition mentions :: "string \<Rightarrow> db \<Rightarrow> bool" where
  "mentions uid w \<longleftrightarrow> uid \<in> set (
     map u_id (t_users w) @ map ai_user (t_identities w) @ map ss_user (t_sessions w) @ map st_user (t_settings w)
     @ map fo_follower (t_follows w) @ map fo_followed (t_follows w) @ map vi_user (t_visits w) @ map sv_user (t_saves w)
     @ map g_created_by (t_groups w) @ map gm_user (t_members w) @ map ev_proposer (t_events w)
     @ map ms_author (t_messages w) @ map rs_user (t_rsvps w) @ map di_created_by (t_diaries w)
     @ map n_user (t_notifications w) @ map pi_user (t_installations w) @ map im_user (t_imports w)
     @ map ut_user (t_user_tags w) @ map pt_user (t_place_tags w) @ map cu_created_by (t_curations w))
   \<or> Some uid \<in> set (map gm_inviter (t_members w) @ map n_actor (t_notifications w))"

lemma key_deleted: "(\<And>r. \<not> p r \<Longrightarrow> f r \<noteq> k) \<Longrightarrow> k \<notin> f ` set (delete_many p t)"
  by (auto simp: delete_many_def)

lemma erase_user_not_mentioned: "\<not> mentions uid (erase_user uid w)"
  unfolding mentions_def erase_user_def
  by (auto simp: delete_many_def set_update_many dead_event_def split: if_splits)

section \<open>The memberships\<close>

lemma members_ok_erase:
  assumes ok: "members_ok c n gs ms"
  shows "members_ok c n (delete_many (\<lambda>g. g_created_by g = uid) gs)
    (delete_many (\<lambda>m. gm_user m = uid \<or> gm_group m \<in> set (map g_id (filter (\<lambda>g. g_created_by g = uid) gs))) ms)"
    (is "members_ok c n ?gs ?ms")
proof -
  note o = ok [unfolded members_ok_def]
  have sub: "set ?gs \<subseteq> set gs" "set ?ms \<subseteq> set ms" by (auto simp: delete_many_def)
  have ids: "ids_below c n (map gm_id ?ms)" "ids_below c n (map g_id ?gs)"
    using o sub by (auto simp: ids_below_def delete_many_def distinct_map_filter)
  have keys: "unique_key member_key ?ms" using o by (intro unique_key_delete) blast
  have uniq: "g = h" if "g \<in> set gs" "h \<in> set gs" "g_id g = g_id h" for g h
    using o that unfolding ids_below_def by (metis distinct_map_filter_unique)
  have grp: "gm_group m \<in> g_id ` set ?gs" if "m \<in> set ?ms" for m
  proof -
    have m: "m \<in> set ms" "gm_group m \<notin> set (map g_id (filter (\<lambda>g. g_created_by g = uid) gs))"
      using that by (auto simp: delete_many_def)
    obtain g where g: "g \<in> set gs" "gm_group m = g_id g" using o m(1) by blast
    then have "g_created_by g \<noteq> uid" using m(2) by auto
    then show ?thesis using g by (auto simp: delete_many_def)
  qed
  have own: "\<exists>m\<in>set ?ms. gm_group m = g_id g \<and> gm_user m = g_created_by g \<and> gm_role m = Owner" if "g \<in> set ?gs" for g
  proof -
    have g: "g \<in> set gs" "g_created_by g \<noteq> uid" using that by (auto simp: delete_many_def)
    obtain m where m: "m \<in> set ms" "gm_group m = g_id g" "gm_user m = g_created_by g" "gm_role m = Owner"
      using o g(1) by blast
    have "gm_group m \<notin> set (map g_id (filter (\<lambda>g. g_created_by g = uid) gs))"
      using m(2) g uniq by auto
    then have "m \<in> set ?ms" using m(1,3) g(2) by (auto simp: delete_many_def)
    then show ?thesis using m by blast
  qed
  show ?thesis unfolding members_ok_def
    using o ids keys grp own sub by (intro conjI ballI impI) (blast | metis subsetD)+
qed

lemma members_ok_clear_inviter:
  assumes "members_ok c n gs ms"
  shows "members_ok c n gs (update_many p (\<lambda>m. m\<lparr>gm_inviter := None\<rparr>) ms)"
proof -
  let ?f = "\<lambda>m :: member_row. m\<lparr>gm_inviter := None\<rparr>"
  have m: "map gm_id (update_many p ?f ms) = map gm_id ms" "map member_key (update_many p ?f ms) = map member_key ms"
    by (simp_all add: map_key_update_many)
  have mem: "(\<exists>r\<in>set (update_many p ?f ms). Q (gm_group r) (gm_user r) (gm_role r) (gm_status r)) \<longleftrightarrow>
      (\<exists>r\<in>set ms. Q (gm_group r) (gm_user r) (gm_role r) (gm_status r))" for Q
    by (induction ms) auto
  note o = assms [unfolded members_ok_def]
  show ?thesis unfolding members_ok_def m
  proof (intro conjI)
    show "\<forall>m\<in>set (update_many p ?f ms). gm_group m \<in> g_id ` set gs"
      using mem [of "\<lambda>a _ _ _. a \<notin> g_id ` set gs"] o by blast
    show "\<forall>m\<in>set (update_many p ?f ms). gm_role m = Owner \<longrightarrow> gm_status m = MAccepted
        \<and> (\<forall>g\<in>set gs. g_id g = gm_group m \<longrightarrow> gm_user m = g_created_by g)"
      using mem [of "\<lambda>a b c d. \<not> (c = Owner \<longrightarrow> d = MAccepted \<and> (\<forall>g\<in>set gs. g_id g = a \<longrightarrow> b = g_created_by g))"] o
      by blast
    show "\<forall>g\<in>set gs. \<exists>m\<in>set (update_many p ?f ms). gm_group m = g_id g \<and> gm_user m = g_created_by g \<and> gm_role m = Owner"
      using mem [of "\<lambda>a b c d. a = g_id g \<and> b = g_created_by g \<and> c = Owner" for g] o by blast
  qed (use o in blast)+
qed

lemma erase_user_fields:
  "t_groups (erase_user uid w) = delete_many (\<lambda>g. g_created_by g = uid) (t_groups w)"
  "t_members (erase_user uid w) = update_many (\<lambda>m. gm_inviter m = Some uid) (\<lambda>m. m\<lparr>gm_inviter := None\<rparr>)
     (delete_many (\<lambda>m. gm_user m = uid \<or> gm_group m \<in> own_groups uid w) (t_members w))"
  "t_users (erase_user uid w) = delete_many (\<lambda>u. u_id u = uid) (t_users w)"
  "db_cuid (erase_user uid w) = db_cuid w" "db_next (erase_user uid w) = db_next w"
  by (simp_all add: erase_user_def)

lemma erase_user_group_inv:
  assumes "group_inv w" shows "group_inv (erase_user uid w)"
proof -
  have "members_ok (db_cuid w) (db_next w) (t_groups w) (t_members w)" "unique_key u_id (t_users w)"
    using assms unfolding group_inv_def by simp_all
  then show ?thesis unfolding group_inv_def erase_user_fields own_groups_def
    using members_ok_clear_inviter [OF members_ok_erase] unique_key_delete by blast
qed

lemma deleteMyAccount_run:
  "deleteMyAccount uid w = (if user_by_id uid w = None then (Inl (Unauthorized ''User not found''), w)
     else (Inr (), erase_user uid w))"
  by (auto simp: deleteMyAccount_def deleteUserById_def bindS_apply require_def split: option.splits)

lemma deleteMyAccount_keeps: "keeps group_inv (deleteMyAccount uid)"
  by (rule keepsI) (simp add: deleteMyAccount_run erase_user_group_inv)



end
