(* ===== verification/GroupSystem.thy ===== *)
theory GroupSystem
  imports PlanProperties AccountDeletion
begin

text \<open>
  Groups, plans and accounts as one system: every operation is a step, in any order and by any caller, and an
  operation that fails is a step too, since some fail after a commit.  The membership invariant holds in
  every reachable database (an interpretation of \<open>transition_system\<close>).
\<close>

text \<open>What is relied on of the place resolver: it writes places and takes ids, nothing else here.\<close>

definition places_only :: "(string \<Rightarrow> string option \<Rightarrow> place_row dbm) \<Rightarrow> bool" where
  "places_only resolve \<longleftrightarrow> (\<forall>i s w. let w' = snd (resolve i s w) in
     db_cuid w' = db_cuid w \<and> db_next w \<le> db_next w' \<and> t_groups w' = t_groups w
     \<and> t_members w' = t_members w \<and> t_users w' = t_users w)"

lemma places_only_keeps: "places_only resolve \<Longrightarrow> keeps group_inv (resolve i s)"
  by (rule keepsI) (auto simp: places_only_def Let_def intro: group_inv_cong)

inductive group_step :: "db \<Rightarrow> db \<Rightarrow> bool" where
  create_group: "group_step w (snd (createGroup code u body w))"
| join_code: "group_step w (snd (joinGroupByCode u code w))"
| invite: "group_step w (snd (addGroupMembers u gid ms w))"
| leave_group: "group_step w (snd (leaveGroup u gid w))"
| update_group: "group_step w (snd (updateGroup u gid upd w))"
| group_event: "places_only resolve \<Longrightarrow> group_step w (snd (addGroupEvent resolve u gid ev w))"
| group_rsvp: "group_step w (snd (setGroupEventRsvp u gid eid r w))"
| plan_created: "places_only resolve \<Longrightarrow> group_step w (snd (create_plan resolve code u cp w))"
| plan_updated: "places_only resolve \<Longrightarrow> group_step w (snd (update_plan resolve u gid up w))"
| plan_joined: "group_step w (snd (join_plan u gid w))"
| plan_left: "group_step w (snd (leave_plan u gid w))"
| plan_reported: "group_step w (snd (report_plan u gid why w))"
| plan_decided: "group_step w (snd (decide_join_request u gid i b w))"
| plan_cancelled: "group_step w (snd (cancel_join_request u gid w))"
| plan_rsvp: "group_step w (snd (set_plan_rsvp u gid eid r w))"
| plan_message: "group_step w (snd (send_message u gid text w))"
| plan_unmessage: "group_step w (snd (delete_message u gid i w))"
| clock: "db_now w \<le> t \<Longrightarrow> group_step w (w\<lparr>db_now := t\<rparr>)"
| register: "u_id r \<notin> set (map u_id (t_users w)) \<Longrightarrow> group_step w (w\<lparr>t_users := t_users w @ [r]\<rparr>)"
| account_deleted: "group_step w (snd (deleteMyAccount u w))"

inductive_cases group_stepE: "group_step w w'"

text \<open>A database before its first group.\<close>

definition no_groups :: "db \<Rightarrow> bool" where
  "no_groups w \<longleftrightarrow> t_groups w = [] \<and> t_members w = [] \<and> inj (db_cuid w) \<and> unique_key u_id (t_users w)"

lemma group_step_inv: "group_inv w \<Longrightarrow> group_step w w' \<Longrightarrow> group_inv w'"
proof (erule group_stepE, goal_cases)
  case (18 t)
  then show ?case by (simp add: group_inv_def)
next
  case (19 r)
  then show ?case by (auto simp: group_inv_def)
qed (simp_all add: group_services_keep plan_services_keep plan_writers_keep addGroupEvent_keeps places_only_keeps
  deleteMyAccount_keeps keepsD)

interpretation groups: transition_system no_groups group_step group_inv
proof
  show "group_inv w" if "no_groups w" for w
    using that by (simp add: no_groups_def group_inv_def members_ok_def ids_below_def)
qed (rule group_step_inv)

text \<open>C5: in every database the operations on groups, plans and accounts can reach, in any order and however they fail,
  every group has exactly one owner, its creator, whose membership is accepted, and nobody is in a group
  twice.\<close>

theorem every_group_has_one_owner:
  assumes "no_groups w0" "group_step\<^sup>*\<^sup>* w0 w" "g \<in> set (t_groups w)"
  shows "(\<exists>!m. m \<in> set (t_members w) \<and> gm_group m = g_id g \<and> gm_role m = Owner)
    \<and> (\<forall>m\<in>set (t_members w). gm_group m = g_id g \<and> gm_role m = Owner \<longrightarrow>
          gm_user m = g_created_by g \<and> gm_status m = MAccepted)
    \<and> (\<forall>m\<in>set (t_members w). \<forall>m'\<in>set (t_members w). gm_group m = gm_group m' \<and> gm_user m = gm_user m' \<longrightarrow> m = m')"
proof -
  have "group_inv w" using groups.inv_reachable assms(1,2) by blast
  note ok = this [unfolded group_inv_def members_ok_def]
  have once: "m = m'" if "m \<in> set (t_members w)" "m' \<in> set (t_members w)" "gm_group m = gm_group m'"
    "gm_user m = gm_user m'" for m m'
  proof -
    have "inj_on member_key (set (t_members w))" using ok by (simp add: distinct_map)
    then show ?thesis using that by (simp add: inj_on_def)
  qed
  have own: "gm_user m = g_created_by g \<and> gm_status m = MAccepted"
    if "m \<in> set (t_members w)" "gm_group m = g_id g" "gm_role m = Owner" for m
    using that ok assms(3) by metis
  obtain m where m: "m \<in> set (t_members w)" "gm_group m = g_id g" "gm_role m = Owner" using ok assms(3) by blast
  have "m' = m" if "m' \<in> set (t_members w)" "gm_group m' = g_id g" "gm_role m' = Owner" for m'
    using once [OF that(1) m(1)] own [OF that] own [OF m] that(2) m(2) by simp
  then have "\<exists>!m. m \<in> set (t_members w) \<and> gm_group m = g_id g \<and> gm_role m = Owner" using m by blast
  moreover have "\<forall>m\<in>set (t_members w). gm_group m = g_id g \<and> gm_role m = Owner \<longrightarrow>
          gm_user m = g_created_by g \<and> gm_status m = MAccepted" using own by blast
  ultimately show ?thesis using once by blast
qed

definition first_plan :: db where
  "first_plan = snd (create_plan (\<lambda>_ _. ret sample_place) ''AB'' ''a''
     \<lparr>cpd_place = \<lparr>ge_date = 5, ge_placeId = Some ''p'', ge_googlePlaceId = None, ge_sessionToken = None\<rparr>,
      cpd_description = None, cpd_inviteUserIds = None, cpd_joinPolicy = None, cpd_name = ''x'',
      cpd_visibility = None\<rparr> ((empty_db 0)\<lparr>t_users := [sample_user ''a''], t_places := [sample_place]\<rparr>))"

theorem every_group_has_one_owner_witness:
  "\<exists>g\<in>set (t_groups first_plan). \<exists>!m. m \<in> set (t_members first_plan) \<and> gm_group m = g_id g \<and> gm_role m = Owner"
proof -
  let ?w = "(empty_db 0)\<lparr>t_users := [sample_user ''a''], t_places := [sample_place]\<rparr>"
  have n: "no_groups ?w" by (simp add: no_groups_def empty_db_def)
  have "places_only (\<lambda>_ _. ret sample_place)" by (simp add: places_only_def)
  then have s: "group_step\<^sup>*\<^sup>* ?w first_plan"
    unfolding first_plan_def by (intro r_into_rtranclp group_step.plan_created)
  have "t_groups first_plan \<noteq> []"
    by (simp add: first_plan_def create_plan_def bindS_apply resolveWritablePlace_def place_by_id_def sample_place_def
        empty_db_def createPlanRepo_run Let_def seqS_apply now_apply dedupedMemberIds_def find_many_def truthy_def
        split: prod.splits)
  then obtain g where g: "g \<in> set (t_groups first_plan)" by (cases "t_groups first_plan") auto
  from every_group_has_one_owner [OF n s g] g show ?thesis by blast
qed

end
