(* ===== verification/Visits.thy ===== *)
theory Visits
  imports SocialGraph SocialGroups PlaceResolution
begin

text \<open>
  Visits and saved places: the labels users give a place (\<open>lib/normalize-visit-place-tag.ts\<close>,
  \<open>visit-place-tags.repository.ts\<close>), writing and listing visits (\<open>visits.service.ts\<close>, \<open>social-visits.repository.ts\<close>,
  \<open>social-users.service.ts\<close>) and saving places (\<open>social-saves.service.ts\<close>).
\<close>

section \<open>Labels\<close>

definition MAX_TAG_LENGTH :: nat where "MAX_TAG_LENGTH = 32"

definition capitalise :: "string \<Rightarrow> string" where
  "capitalise s = js_upper (take 1 s) @ drop 1 s"

definition normalizeVisitPlaceTag :: "string \<Rightarrow> string option" where
  "normalizeVisitPlaceTag raw =
     (let t = collapse_ws (js_trim raw) in if t = [] then None else Some (capitalise (take MAX_TAG_LENGTH t)))"

fun add_tags :: "string list \<Rightarrow> string list \<Rightarrow> string list \<Rightarrow> string list" where
  "add_tags seen next [] = next"
| "add_tags seen next (item # items) =
     (case normalizeVisitPlaceTag item of
        None \<Rightarrow> add_tags seen next items
      | Some t \<Rightarrow>
          if js_lower t \<in> set seen then add_tags seen next items
          else if 20 \<le> length (next @ [t]) then next @ [t]
          else add_tags (js_lower t # seen) (next @ [t]) items)"

definition normalizeVisitPlaceTags :: "string list option \<Rightarrow> string list" where
  "normalizeVisitPlaceTags raw = (case raw of None \<Rightarrow> [] | Some items \<Rightarrow> add_tags [] [] items)"

fun merge_tags :: "string list \<Rightarrow> string list \<Rightarrow> string list" where
  "merge_tags seen [] = []"
| "merge_tags seen (t # ts) =
     (if js_lower t \<in> set seen then merge_tags seen ts else t # merge_tags (js_lower t # seen) ts)"

definition mergeVisitPlaceTags :: "string list \<Rightarrow> string list \<Rightarrow> string list" where
  "mergeVisitPlaceTags userTags placeTags = take 40 (merge_tags [] (placeTags @ userTags))"

definition listUserTags :: "string \<Rightarrow> db \<Rightarrow> string list" where
  "listUserTags userId w = map ut_label (take 40 (sort_by (\<lambda>a b. ut_updated b \<le> ut_updated a)
     (find_many (\<lambda>r. ut_user r = userId) (t_user_tags w))))"

definition listPlaceTags :: "string \<Rightarrow> string \<Rightarrow> db \<Rightarrow> string list" where
  "listPlaceTags userId placeId w = map pt_label (take 40 (sort_by (\<lambda>a b. pt_updated b \<le> pt_updated a)
     (find_many (\<lambda>r. pt_user r = userId \<and> pt_place r = placeId) (t_place_tags w))))"

record merged_tags =
  mt_userTags :: "string list"
  mt_placeTags :: "string list"
  mt_tags :: "string list"

definition listMergedTags :: "string \<Rightarrow> string option \<Rightarrow> db \<Rightarrow> merged_tags" where
  "listMergedTags userId placeId w =
     (let userTags = listUserTags userId w;
          placeTags = (if truthy placeId then listPlaceTags userId (the placeId) w else [])
      in \<lparr>mt_userTags = userTags, mt_placeTags = placeTags, mt_tags = mergeVisitPlaceTags userTags placeTags\<rparr>)"

definition upsertUserTag :: "string \<Rightarrow> string \<Rightarrow> string option dbm" where
  "upsertUserTag userId rawLabel = (case normalizeVisitPlaceTag rawLabel of
     None \<Rightarrow> ret None
   | Some label \<Rightarrow>
       bindS now (\<lambda>t.
       bindS (gets (\<lambda>w. (find_unique (\<lambda>r. ut_user r = userId \<and> ut_label r = label) (t_user_tags w),
                         user_by_id userId w))) (\<lambda>(existing, user).
       case existing of
         Some _ \<Rightarrow> seqS (modify (\<lambda>w. w\<lparr>t_user_tags := update_many (\<lambda>r. ut_user r = userId \<and> ut_label r = label)
             (\<lambda>r. r\<lparr>ut_updated := t\<rparr>) (t_user_tags w)\<rparr>)) (ret (Some label))
       | None \<Rightarrow>
           if user = None then throw (PrismaError ''P2003'')
           else seqS (modify (\<lambda>w. w\<lparr>t_user_tags := t_user_tags w
                    @ [\<lparr>ut_user = userId, ut_label = label, ut_updated = t\<rparr>]\<rparr>)) (ret (Some label)))))"

definition upsertPlaceTag :: "string \<Rightarrow> string \<Rightarrow> string \<Rightarrow> string option dbm" where
  "upsertPlaceTag userId placeId rawLabel = (case normalizeVisitPlaceTag rawLabel of
     None \<Rightarrow> ret None
   | Some label \<Rightarrow>
       bindS now (\<lambda>t.
       bindS (gets (\<lambda>w. (find_unique (\<lambda>r. pt_user r = userId \<and> pt_place r = placeId \<and> pt_label r = label) (t_place_tags w),
                         user_by_id userId w = None \<or> place_by_id placeId w = None))) (\<lambda>(existing, dangling).
       case existing of
         Some _ \<Rightarrow> seqS (modify (\<lambda>w. w\<lparr>t_place_tags := update_many
             (\<lambda>r. pt_user r = userId \<and> pt_place r = placeId \<and> pt_label r = label)
             (\<lambda>r. r\<lparr>pt_updated := t\<rparr>) (t_place_tags w)\<rparr>)) (ret (Some label))
       | None \<Rightarrow>
           if dangling then throw (PrismaError ''P2003'')
           else seqS (modify (\<lambda>w. w\<lparr>t_place_tags := t_place_tags w
                    @ [\<lparr>pt_user = userId, pt_place = placeId, pt_label = label, pt_updated = t\<rparr>]\<rparr>))
                  (ret (Some label)))))"

fun upsertTagsForVisit :: "string \<Rightarrow> string \<Rightarrow> string list \<Rightarrow> unit dbm" where
  "upsertTagsForVisit userId placeId [] = ret ()"
| "upsertTagsForVisit userId placeId (rawLabel # labels) =
     bindS (upsertUserTag userId rawLabel) (\<lambda>label.
     seqS (case label of None \<Rightarrow> ret () | Some l \<Rightarrow> bindS (upsertPlaceTag userId placeId l) (\<lambda>_. ret ()))
       (upsertTagsForVisit userId placeId labels))"

section \<open>Visits in the database\<close>

record visit_full =
  vf_visit :: visit_row
  vf_place :: "place_row option"
  vf_user :: "user_row option"

definition visit_include :: "db \<Rightarrow> visit_row \<Rightarrow> visit_full" where
  "visit_include w v = \<lparr>vf_visit = v, vf_place = place_by_id (vi_place v) w, vf_user = user_by_id (vi_user v) w\<rparr>"

definition later_visit :: "visit_row \<Rightarrow> visit_row \<Rightarrow> bool" where
  "later_visit a b \<longleftrightarrow> vi_visited b < vi_visited a \<or> vi_visited a = vi_visited b \<and> vi_created b \<le> vi_created a"

record create_visit_input =
  cv_note :: string
  cv_noiseLevel :: "int option"
  cv_orderedItems :: "string option"
  cv_placeId :: string
  cv_photoUrls :: "string list"
  cv_priceTier :: "int option"
  cv_rating :: int
  cv_tags :: "string list"
  cv_userId :: string
  cv_visitedAt :: int
  cv_waitLevel :: "int option"
  cv_wifiQuality :: "int option"
  cv_wouldReturn :: "would_return option"
  cv_placeDetailTags :: "string list"
  cv_hasParking :: "bool option"
  cv_petFriendly :: "bool option"

definition visit_of_input :: "string \<Rightarrow> int \<Rightarrow> create_visit_input \<Rightarrow> visit_row" where
  "visit_of_input i t input = \<lparr>vi_id = i, vi_place = cv_placeId input, vi_user = cv_userId input,
     vi_rating = cv_rating input, vi_note = cv_note input, vi_tags = cv_tags input,
     vi_would_return = cv_wouldReturn input, vi_noise = cv_noiseLevel input, vi_wifi = cv_wifiQuality input,
     vi_wait = cv_waitLevel input, vi_visited = cv_visitedAt input, vi_created = t,
     vi_ordered = cv_orderedItems input, vi_price = cv_priceTier input, vi_photos = cv_photoUrls input,
     vi_detail_tags = cv_placeDetailTags input, vi_parking = cv_hasParking input, vi_pets = cv_petFriendly input\<rparr>"

definition createVisitRepo :: "create_visit_input \<Rightarrow> visit_full dbm" where
  "createVisitRepo input =
     bindS fresh_id (\<lambda>i. bindS now (\<lambda>t.
     bindS (gets (\<lambda>w. user_by_id (cv_userId input) w = None \<or> place_by_id (cv_placeId input) w = None)) (\<lambda>dangling.
     seqS (throw_if dangling (PrismaError ''P2003''))
       (seqS (modify (\<lambda>w. w\<lparr>t_visits := t_visits w @ [visit_of_input i t input]\<rparr>))
         (gets (\<lambda>w. visit_include w (visit_of_input i t input)))))))"

definition listVisitsByUser :: "string \<Rightarrow> nat \<Rightarrow> nat \<Rightarrow> db \<Rightarrow> nat \<times> visit_full list" where
  "listVisitsByUser userId limit offset w =
     (count_rows (\<lambda>v. vi_user v = userId) (t_visits w),
      map (visit_include w) (page_rows offset limit (sort_by later_visit
        (find_many (\<lambda>v. vi_user v = userId) (t_visits w)))))"

text \<open>The ids under which the clients know the places a user visited or saved since \<open>since\<close>.\<close>

definition route_ids :: "place_row \<Rightarrow> string list" where
  "route_ids p = (if truthy (pl_google_id p) then [the (pl_google_id p)] else []) @ [pl_id p]"

definition listRecentlyInteractedPlaceRouteIds :: "string \<Rightarrow> int \<Rightarrow> db \<Rightarrow> string list" where
  "listRecentlyInteractedPlaceRouteIds userId since w =
     (let visits = map vi_place (find_many (\<lambda>v. since \<le> vi_created v \<and> vi_user v = userId) (t_visits w));
          saves = map sv_place (find_many (\<lambda>s. since \<le> sv_created s \<and> sv_user s = userId) (t_saves w))
      in dedupe (concat (map (\<lambda>p. case place_by_id p w of None \<Rightarrow> [] | Some r \<Rightarrow> route_ids r) (visits @ saves))))"

section \<open>Saved places in the database\<close>

abbreviation save_key :: "save_row \<Rightarrow> string \<times> string" where
  "save_key s \<equiv> (sv_user s, sv_place s)"

definition listSavedPlacesRepo :: "string \<Rightarrow> nat \<Rightarrow> nat \<Rightarrow> db \<Rightarrow> (save_row \<times> place_row option) list \<times> nat" where
  "listSavedPlacesRepo userId limit offset w =
     (map (\<lambda>s. (s, place_by_id (sv_place s) w))
        (page_rows offset limit (sort_by (\<lambda>a b. sv_created b \<le> sv_created a)
          (find_many (\<lambda>s. sv_user s = userId) (t_saves w)))),
      count_rows (\<lambda>s. sv_user s = userId) (t_saves w))"

definition isPlaceSaved :: "string \<Rightarrow> string \<Rightarrow> db \<Rightarrow> bool" where
  "isPlaceSaved userId placeId w = (find_unique (\<lambda>s. sv_user s = userId \<and> sv_place s = placeId) (t_saves w) \<noteq> None)"

definition savePlaceRepo :: "string \<Rightarrow> string \<Rightarrow> string option \<Rightarrow> unit dbm" where
  "savePlaceRepo userId placeId reason =
     bindS now (\<lambda>t.
     bindS (gets (isPlaceSaved userId placeId)) (\<lambda>saved.
       if saved then modify (\<lambda>w. w\<lparr>t_saves := update_many (\<lambda>s. sv_user s = userId \<and> sv_place s = placeId)
           (\<lambda>s. if truthy reason then s\<lparr>sv_reason := reason\<rparr> else s) (t_saves w)\<rparr>)
       else bindS (gets (\<lambda>w. user_by_id userId w = None \<or> place_by_id placeId w = None)) (\<lambda>dangling.
         if dangling then throw (PrismaError ''P2003'')
         else modify (\<lambda>w. w\<lparr>t_saves := t_saves w
           @ [\<lparr>sv_user = userId, sv_place = placeId, sv_reason = reason, sv_created = t\<rparr>]\<rparr>))))"

definition unsavePlaceRepo :: "string \<Rightarrow> string \<Rightarrow> unit dbm" where
  "unsavePlaceRepo userId placeId =
     modify (\<lambda>w. w\<lparr>t_saves := delete_many (\<lambda>s. sv_place s = placeId \<and> sv_user s = userId) (t_saves w)\<rparr>)"

section \<open>Presenters\<close>

record visit_view =
  vv_createdAt :: int
  vv_hasParking :: "bool option"
  vv_id :: string
  vv_note :: string
  vv_orderedItems :: "string option"
  vv_petFriendly :: "bool option"
  vv_place :: "place_summary option"
  vv_placeDetailTags :: "string list option"
  vv_photoUrls :: "string list"
  vv_priceTier :: "int option"
  vv_rating :: int
  vv_tags :: "string list"
  vv_user :: "user_public option"
  vv_visitedAt :: string
  vv_waitLevel :: "int option"
  vv_wifiQuality :: "int option"
  vv_noiseLevel :: "int option"
  vv_wouldReturn :: "would_return option"

definition serializeVisit :: "visit_full \<Rightarrow> visit_view" where
  "serializeVisit x = (let v = vf_visit x in \<lparr>vv_createdAt = vi_created v, vv_hasParking = vi_parking v, vv_id = vi_id v,
     vv_note = vi_note v, vv_orderedItems = vi_ordered v, vv_petFriendly = vi_pets v,
     vv_place = map_option serializePlaceSummary (vf_place x),
     vv_placeDetailTags = (if vi_detail_tags v = [] then None else Some (vi_detail_tags v)),
     vv_photoUrls = vi_photos v, vv_priceTier = vi_price v, vv_rating = vi_rating v, vv_tags = vi_tags v,
     vv_user = map_option (serializeUserPublic False) (vf_user x), vv_visitedAt = iso_date (vi_visited v),
     vv_waitLevel = vi_wait v, vv_wifiQuality = vi_wifi v, vv_noiseLevel = vi_noise v,
     vv_wouldReturn = vi_would_return v\<rparr>)"

record saved_view =
  sw_place :: "place_summary option"
  sw_reason :: string
  sw_savedAt :: int

definition serializeSavedPlaceRow :: "save_row \<times> place_row option \<Rightarrow> saved_view" where
  "serializeSavedPlaceRow r = \<lparr>sw_place = map_option serializePlaceSummary (snd r),
     sw_reason = default_to (sv_reason (fst r)) [], sw_savedAt = sv_created (fst r)\<rparr>"

section \<open>The visits service\<close>

text \<open>The body of a new visit; \<open>vb_visitedText\<close> is the date as the client wrote it.\<close>

record visit_body =
  vb_placeId :: "string option"
  vb_googlePlaceId :: "string option"
  vb_placeName :: "string option"
  vb_placeAddress :: "string option"
  vb_visitedText :: string
  vb_visit :: create_visit_input

definition resolvePlaceForVisit ::
  "(string \<Rightarrow> string option \<Rightarrow> place_row dbm) \<Rightarrow> string \<Rightarrow> visit_body \<Rightarrow> place_row dbm" where
  "resolvePlaceForVisit resolve userId input =
     (if truthy (vb_placeId input)
      then bindS (gets (place_by_id (the (vb_placeId input)))) (require (NotFound ''Place not found''))
      else if truthy (vb_googlePlaceId input) then resolve (js_trim (the (vb_googlePlaceId input))) None
      else
        let placeName = js_trim (default_to (vb_placeName input) []);
            placeAddress = js_trim (default_to (vb_placeAddress input) [])
        in if placeName = [] \<or> placeAddress = []
           then throw (Unprocessable ''placeName and placeAddress are required when creating a manual visit'')
           else bindS (gets (user_by_id userId)) (\<lambda>u. case u of
              None \<Rightarrow> throw (Unprocessable ''Cannot create a manual place without a canonical city in the user profile'')
            | Some x \<Rightarrow>
                if \<not> truthy (u_city x) \<or> \<not> truthy (u_city_id x)
                then throw (Unprocessable ''Cannot create a manual place without a canonical city in the user profile'')
                else createManualPlace placeName placeAddress (the (u_city x)) (the (u_city_id x)) (u_lat x) (u_lng x)))"

definition visit_notification :: "string \<Rightarrow> string \<Rightarrow> visit_full \<Rightarrow> string list \<Rightarrow> publish_input" where
  "visit_notification userId visitedText visit recipients =
     (let v = vf_visit visit in \<lparr>pb_actorId = Some userId, pb_dedupeKey = None, pb_entity = Some (vi_id v, EntVisit),
        pb_payload = Some [
          (''placeGooglePlaceId'', Some (case vf_place visit of None \<Rightarrow> JNull
             | Some p \<Rightarrow> (case pl_google_id p of None \<Rightarrow> JNull | Some g \<Rightarrow> JStr g))),
          (''placeId'', Some (JStr (vi_place v))),
          (''placeName'', map_option (\<lambda>p. JStr (pl_name p)) (vf_place visit)),
          (''rating'', Some (JNum (of_int (vi_rating v)))),
          (''visitId'', Some (JStr (vi_id v))),
          (''visitedAt'', Some (JStr visitedText))],
        pb_recipientIds = recipients, pb_scheduledFor = None, pb_type = NVisitCreated\<rparr>)"

definition create_visit ::
  "(string \<Rightarrow> string option \<Rightarrow> place_row dbm) \<Rightarrow> string \<Rightarrow> string list option \<Rightarrow> visit_body \<Rightarrow> visit_view dbm" where
  "create_visit resolve userId placeDetailTags input =
     bindS (resolvePlaceForVisit resolve userId input) (\<lambda>place.
     let tags = normalizeVisitPlaceTags placeDetailTags in
     bindS (createVisitRepo ((vb_visit input)\<lparr>cv_placeId := pl_id place, cv_userId := userId, cv_placeDetailTags := tags\<rparr>))
       (\<lambda>visit.
     seqS (if tags \<noteq> [] then upsertTagsForVisit userId (pl_id place) tags else ret ())
     (bindS (getSocialSettingsRepo userId) (\<lambda>settings.
     seqS (if activityVisibility settings \<noteq> CPrivate
           then bindS (gets (listFollowerIds userId)) (\<lambda>ids.
                bindS (publish (visit_notification userId (vb_visitedText input) visit ids)) (\<lambda>_. ret ()))
           else ret ())
       (ret (serializeVisit visit))))))"

definition resolveOptionalPlaceId :: "string option \<Rightarrow> string option \<Rightarrow> string option dbm" where
  "resolveOptionalPlaceId placeId googlePlaceId =
     (let p = js_trim (default_to placeId []); g = js_trim (default_to googlePlaceId []) in
      if p \<noteq> [] then bindS (gets (place_by_id p)) (\<lambda>place.
           bindS (require (NotFound ''Place not found'') place) (\<lambda>x. ret (Some (pl_id x))))
      else if g \<noteq> [] then gets (\<lambda>w. map_option pl_id (getPlaceBySource SrcGoogle g w))
      else ret None)"

definition listMyVisitPlaceTags :: "string \<Rightarrow> string option \<Rightarrow> string option \<Rightarrow> merged_tags dbm" where
  "listMyVisitPlaceTags userId placeId googlePlaceId =
     bindS (resolveOptionalPlaceId placeId googlePlaceId) (\<lambda>p. gets (listMergedTags userId p))"

definition upsertMyVisitPlaceTag :: "string \<Rightarrow> string \<Rightarrow> string option \<Rightarrow> string option \<Rightarrow> merged_tags dbm" where
  "upsertMyVisitPlaceTag userId rawLabel placeId googlePlaceId =
     bindS (upsertUserTag userId rawLabel) (\<lambda>label.
     bindS (require (Unprocessable ''Invalid tag label'') label) (\<lambda>l.
     bindS (resolveOptionalPlaceId placeId googlePlaceId) (\<lambda>p.
     seqS (if truthy p then bindS (upsertPlaceTag userId (the p) l) (\<lambda>_. ret ()) else ret ())
       (gets (listMergedTags userId p)))))"

definition getMyVisits :: "string \<Rightarrow> nat \<Rightarrow> nat \<Rightarrow> db \<Rightarrow> nat \<times> visit_view list" where
  "getMyVisits userId limit offset w =
     (let (total, visits) = listVisitsByUser userId limit offset w in (total, map serializeVisit visits))"

definition getUserVisits :: "string \<Rightarrow> string \<Rightarrow> nat \<Rightarrow> nat \<Rightarrow> (nat \<times> visit_view list) dbm" where
  "getUserVisits viewerId userId limit offset =
     bindS (findUserByIdWithContext viewerId userId) (\<lambda>profile.
     bindS (require (NotFound ''User not found'') profile) (\<lambda>p.
     seqS (throw_if (\<not> canViewActivityP (uc_permissions p)) (Forbidden ''Activity is private''))
       (gets (getMyVisits userId limit offset))))"

section \<open>The saves service\<close>

text \<open>\<open>normalizeGooglePlaceRouteId\<close> is the same code as \<open>normalizeGooglePlaceId\<close>.\<close>

definition listSavedPlaces :: "string \<Rightarrow> nat \<Rightarrow> nat \<Rightarrow> db \<Rightarrow> saved_view list \<times> nat" where
  "listSavedPlaces userId limit offset w =
     (let (rows, total) = listSavedPlacesRepo userId limit offset w in (map serializeSavedPlaceRow rows, total))"

definition findStoredGooglePlace :: "(string \<Rightarrow> string option) \<Rightarrow> string \<Rightarrow> db \<Rightarrow> place_row option" where
  "findStoredGooglePlace decode googlePlaceId w = getPlaceBySource SrcGoogle (normalizeGooglePlaceId decode googlePlaceId) w"

definition getPlaceSaved :: "(string \<Rightarrow> string option) \<Rightarrow> string \<Rightarrow> string \<Rightarrow> db \<Rightarrow> bool" where
  "getPlaceSaved decode userId googlePlaceId w = (case findStoredGooglePlace decode googlePlaceId w of
     None \<Rightarrow> False | Some p \<Rightarrow> isPlaceSaved userId (pl_id p) w)"

definition savePlace :: "(string \<Rightarrow> string option \<Rightarrow> place_row dbm) \<Rightarrow> string \<Rightarrow> string \<Rightarrow> bool dbm" where
  "savePlace resolve userId googlePlaceId =
     bindS (if googlePlaceId \<noteq> [] then resolve googlePlaceId None
            else throw (BadRequest ''placeId or googlePlaceId is required'')) (\<lambda>place.
     seqS (savePlaceRepo userId (pl_id place) None) (ret True))"

definition unsavePlace :: "(string \<Rightarrow> string option) \<Rightarrow> string \<Rightarrow> string \<Rightarrow> bool dbm" where
  "unsavePlace decode userId googlePlaceId =
     bindS (gets (findStoredGooglePlace decode googlePlaceId)) (\<lambda>place.
     seqS (case place of None \<Rightarrow> ret () | Some p \<Rightarrow> unsavePlaceRepo userId (pl_id p)) (ret False))"

section \<open>Labels are bounded and distinct\<close>

lemma length_capitalise [simp]: "length (capitalise s) = length s"
  by (cases s) (simp_all add: capitalise_def js_upper_def)

lemma capitalise_Nil [simp]: "capitalise s = [] \<longleftrightarrow> s = []"
  by (metis length_0_conv length_capitalise)

lemma normalize_tag_bounds:
  "normalizeVisitPlaceTag raw = Some t \<Longrightarrow> t \<noteq> [] \<and> length t \<le> 32"
  by (auto simp: normalizeVisitPlaceTag_def Let_def MAX_TAG_LENGTH_def split: if_splits)

lemma add_tags_shape:
  assumes "set seen = set (map js_lower next)" "distinct (map js_lower next)" "length next < 20"
    "list_all (\<lambda>t. t \<noteq> [] \<and> length t \<le> 32) next"
  shows "distinct (map js_lower (add_tags seen next items)) \<and> length (add_tags seen next items) \<le> 20
     \<and> list_all (\<lambda>t. t \<noteq> [] \<and> length t \<le> 32) (add_tags seen next items)"
  using assms
proof (induction seen "next" items rule: add_tags.induct)
  case (2 seen nxt item items)
  show ?case
  proof (cases "normalizeVisitPlaceTag item")
    case (Some t)
    show ?thesis
    proof (cases "js_lower t \<in> set seen \<or> 20 \<le> length (nxt @ [t])")
      case True
      then show ?thesis using 2 Some normalize_tag_bounds [OF Some] by auto
    next
      case False
      then show ?thesis using 2(3) [OF Some] 2(4-) Some normalize_tag_bounds [OF Some] by auto
    qed
  qed (use 2 in simp)
qed auto

lemma add_tags_extends: "\<exists>zs. add_tags seen next items = next @ zs"
  by (induction seen "next" items rule: add_tags.induct) (auto split: option.splits)

text \<open>No label of the request is lost before the limit is reached, up to its case.\<close>

lemma add_tags_complete:
  assumes "set seen = set (map js_lower next)" "item \<in> set items" "normalizeVisitPlaceTag item = Some t"
    "length (add_tags seen next items) \<noteq> 20" "length next < 20"
  shows "js_lower t \<in> set (map js_lower (add_tags seen next items))"
  using assms
proof (induction seen "next" items rule: add_tags.induct)
  case (2 seen nxt i items)
  show ?case
  proof (cases "normalizeVisitPlaceTag i")
    case None
    then show ?thesis using 2 by auto
  next
    case (Some s)
    consider "js_lower s \<in> set seen" | "js_lower s \<notin> set seen" "20 \<le> length (nxt @ [s])"
      | "js_lower s \<notin> set seen" "length (nxt @ [s]) < 20" by linarith
    then show ?thesis
    proof cases
      case 1
      show ?thesis
      proof (cases "item = i")
        case True
        obtain zs where "add_tags seen nxt items = nxt @ zs" using add_tags_extends by blast
        then show ?thesis using 1 True Some 2(4,6) by auto
      qed (use 1 2 Some in auto)
    next
      case 2
      then show ?thesis using 2 "2.prems"(4,5) Some by simp
    next
      case 3
      obtain zs where z: "add_tags (js_lower s # seen) (nxt @ [s]) items = (nxt @ [s]) @ zs" using add_tags_extends by blast
      show ?thesis
      proof (cases "item = i")
        case True
        then show ?thesis using 3 Some z "2.prems"(3) by simp
      qed (use 3 2 Some in auto)
    qed
  qed
qed simp


section \<open>Writing a visit\<close>

lemma upsertUserTag_run:
  assumes "user_by_id u w \<noteq> None"
  shows "\<exists>a. upsertUserTag u l w = (Inr (normalizeVisitPlaceTag l), w\<lparr>t_user_tags := a\<rparr>)"
proof (cases "normalizeVisitPlaceTag l")
  case None
  have "w = w\<lparr>t_user_tags := t_user_tags w\<rparr>" by simp
  then show ?thesis using None unfolding upsertUserTag_def by (metis option.simps(4) ret_run)
qed (use assms in \<open>auto simp: upsertUserTag_def bindS_apply seqS_apply now_apply split: option.splits\<close>)

lemma upsertPlaceTag_run:
  assumes "user_by_id u w \<noteq> None" "place_by_id p w \<noteq> None"
  shows "\<exists>b. upsertPlaceTag u p l w = (Inr (normalizeVisitPlaceTag l), w\<lparr>t_place_tags := b\<rparr>)"
proof (cases "normalizeVisitPlaceTag l")
  case None
  have "w = w\<lparr>t_place_tags := t_place_tags w\<rparr>" by simp
  then show ?thesis using None unfolding upsertPlaceTag_def by (metis option.simps(4) ret_run)
qed (use assms in \<open>auto simp: upsertPlaceTag_def bindS_apply seqS_apply now_apply split: option.splits\<close>)

lemma upsertTagsForVisit_run:
  assumes "user_by_id u w \<noteq> None" "place_by_id p w \<noteq> None"
  shows "\<exists>a b. upsertTagsForVisit u p ls w = (Inr (), w\<lparr>t_user_tags := a, t_place_tags := b\<rparr>)"
  using assms
proof (induction ls arbitrary: w)
  case Nil
  have "w = w\<lparr>t_user_tags := t_user_tags w, t_place_tags := t_place_tags w\<rparr>" by simp
  then show ?case by (metis ret_run upsertTagsForVisit.simps(1))
next
  case (Cons l ls)
  obtain a where 1: "upsertUserTag u l w = (Inr (normalizeVisitPlaceTag l), w\<lparr>t_user_tags := a\<rparr>)"
    using upsertUserTag_run [OF Cons.prems(1)] by blast
  let ?w1 = "w\<lparr>t_user_tags := a\<rparr>"
  have p1: "user_by_id u ?w1 \<noteq> None" "place_by_id p ?w1 \<noteq> None"
    using Cons.prems by (simp_all add: user_by_id_def place_by_id_def)
  obtain b where 2: "(case normalizeVisitPlaceTag l of None \<Rightarrow> ret ()
      | Some x \<Rightarrow> bindS (upsertPlaceTag u p x) (\<lambda>_. ret ())) ?w1 = (Inr (), ?w1\<lparr>t_place_tags := b\<rparr>)"
  proof (cases "normalizeVisitPlaceTag l")
    case None
    have "?w1 = ?w1\<lparr>t_place_tags := t_place_tags w\<rparr>" by simp
    then show thesis using that None by (metis option.simps(4) ret_run)
  next
    case (Some x)
    obtain b where "upsertPlaceTag u p x ?w1 = (Inr (normalizeVisitPlaceTag x), ?w1\<lparr>t_place_tags := b\<rparr>)"
      using upsertPlaceTag_run [OF p1] by blast
    then show thesis using that Some by (simp add: bindS_apply)
  qed
  let ?w2 = "?w1\<lparr>t_place_tags := b\<rparr>"
  have p2: "user_by_id u ?w2 \<noteq> None" "place_by_id p ?w2 \<noteq> None"
    using Cons.prems by (simp_all add: user_by_id_def place_by_id_def)
  obtain a' b' where "upsertTagsForVisit u p ls ?w2 = (Inr (), ?w2\<lparr>t_user_tags := a', t_place_tags := b'\<rparr>)"
    using Cons.IH [OF p2] by blast
  then show ?case using 1 2 by (auto simp: bindS_apply seqS_apply)
qed

lemma getSocialSettings_run:
  assumes "user_by_id u w \<noteq> None"
  shows "\<exists>s. getSocialSettingsRepo u w = (Inr (normalizeSettings (settings_of u w)), w\<lparr>t_settings := s\<rparr>)"
proof -
  define w' where "w' = snd (ensureUserSettings u w)"
  have "ensureUserSettings u w = (Inr (), w')"
    using ensureUserSettings_result [of u w] assms unfolding w'_def by (metis prod.collapse)
  moreover have e: "settings_extended w w'" unfolding w'_def by (rule ensureUserSettings_extends)
  moreover obtain s where "w' = w\<lparr>t_settings := s\<rparr>" using e unfolding settings_extended_def by (elim conjE exE)
  ultimately show ?thesis using settings_extended_normalize [OF e, of u]
    by (auto simp: getSocialSettingsRepo_def seqS_apply)
qed

text \<open>The database just before the followers are told, and the recipients.\<close>

definition written_visit :: "string \<Rightarrow> string list option \<Rightarrow> visit_body \<Rightarrow> db \<Rightarrow> visit_row" where
  "written_visit userId tags body w =
     visit_of_input (db_cuid w (db_next w)) (db_now w) ((vb_visit body)\<lparr>cv_placeId := the (vb_placeId body),
       cv_userId := userId, cv_placeDetailTags := normalizeVisitPlaceTags tags\<rparr>)"

definition visit_audience :: "string \<Rightarrow> db \<Rightarrow> string list" where
  "visit_audience userId w =
     (if activityVisibility (normalizeSettings (settings_of userId w)) = CPrivate then []
      else filter (\<lambda>r. user_by_id r w \<noteq> None)
        (dedupe (filter (\<lambda>r. r \<noteq> [] \<and> r \<noteq> userId) (listFollowerIds userId w))))"

lemma create_visit_stored:
  assumes "truthy (vb_placeId body)" "place_by_id (the (vb_placeId body)) w = Some p" "user_by_id userId w \<noteq> None"
  shows "\<exists>a b s visit. vf_visit visit = written_visit userId tags body w \<and>
     create_visit resolve userId tags body w =
       bindS (if activityVisibility (normalizeSettings (settings_of userId w)) \<noteq> CPrivate
           then bindS (gets (listFollowerIds userId)) (\<lambda>ids.
                bindS (publish (visit_notification userId (vb_visitedText body) visit ids)) (\<lambda>_. ret ()))
           else ret ()) (\<lambda>_. ret (serializeVisit visit))
         (w\<lparr>db_next := Suc (db_next w), t_visits := t_visits w @ [written_visit userId tags body w],
            t_user_tags := a, t_place_tags := b, t_settings := s\<rparr>)"
proof -
  have pid: "pl_id p = the (vb_placeId body)"
    using find_unique_Some [of "\<lambda>p. pl_id p = the (vb_placeId body)" "t_places w" p] assms(2) by (simp add: place_by_id_def)
  let ?t = "normalizeVisitPlaceTags tags"
  let ?v = "written_visit userId tags body w"
  let ?w1 = "w\<lparr>db_next := Suc (db_next w), t_visits := t_visits w @ [?v]\<rparr>"
  define visit where "visit = visit_include ?w1 ?v"
  have 0: "resolvePlaceForVisit resolve userId body w = (Inr p, w)"
    using assms(1,2) by (simp add: resolvePlaceForVisit_def)
  let ?in = "(vb_visit body)\<lparr>cv_placeId := pl_id p, cv_userId := userId, cv_placeDetailTags := ?t\<rparr>"
  let ?w0 = "w\<lparr>db_next := Suc (db_next w)\<rparr>"
  have d: "(user_by_id (cv_userId ?in) ?w0 = None \<or> place_by_id (cv_placeId ?in) ?w0 = None) = False"
    using assms(2,3) by (simp add: pid user_by_id_def place_by_id_def)
  have v: "?v = visit_of_input (db_cuid w (db_next w)) (db_now ?w0) ?in" by (simp add: written_visit_def pid)
  have 1: "createVisitRepo ?in w = (Inr visit, ?w1)"
    unfolding createVisitRepo_def fresh_id_run now_run bindS_gets d throw_if_simps seqS_ret seqS_modify gets_run
      v [symmetric] visit_def by simp
  have u1: "user_by_id userId ?w1 \<noteq> None" "place_by_id (pl_id p) ?w1 \<noteq> None"
    using assms(2,3) by (simp_all add: pid user_by_id_def place_by_id_def)
  obtain a b where 2: "(if ?t \<noteq> [] then upsertTagsForVisit userId (pl_id p) ?t else ret ()) ?w1
      = (Inr (), ?w1\<lparr>t_user_tags := a, t_place_tags := b\<rparr>)"
  proof (cases "?t = []")
    case True
    then show thesis using that [of "t_place_tags w" "t_user_tags w"] by simp
  next
    case False
    obtain a b where "upsertTagsForVisit userId (pl_id p) ?t ?w1 = (Inr (), ?w1\<lparr>t_user_tags := a, t_place_tags := b\<rparr>)"
      using upsertTagsForVisit_run [OF u1] by blast
    with False show thesis using that [of b a] by simp
  qed
  let ?w2 = "?w1\<lparr>t_user_tags := a, t_place_tags := b\<rparr>"
  have u2: "user_by_id userId ?w2 \<noteq> None" using assms(3) by (simp add: user_by_id_def)
  obtain s where 3: "getSocialSettingsRepo userId ?w2
      = (Inr (normalizeSettings (settings_of userId ?w2)), ?w2\<lparr>t_settings := s\<rparr>)"
    using getSocialSettings_run [OF u2] by blast
  have "settings_of userId ?w2 = settings_of userId w" by (simp add: settings_of_def)
  moreover have "vf_visit visit = ?v" by (simp add: visit_def visit_include_def)
  moreover have "create_visit resolve userId tags body w =
       bindS (if activityVisibility (normalizeSettings (settings_of userId ?w2)) \<noteq> CPrivate
           then bindS (gets (listFollowerIds userId)) (\<lambda>ids.
                bindS (publish (visit_notification userId (vb_visitedText body) visit ids)) (\<lambda>_. ret ()))
           else ret ()) (\<lambda>_. ret (serializeVisit visit)) (?w2\<lparr>t_settings := s\<rparr>)"
    unfolding create_visit_def seqS_def Let_def
      bindS_Inr [where m = "resolvePlaceForVisit resolve userId body" and s = w, OF 0]
      bindS_Inr [where m = "createVisitRepo ?in" and s = w, OF 1]
      bindS_Inr [where m = "if ?t \<noteq> [] then upsertTagsForVisit userId (pl_id p) ?t else ret ()" and s = ?w1, OF 2]
      bindS_Inr [where m = "getSocialSettingsRepo userId" and s = ?w2, OF 3] ..
  ultimately show ?thesis by (intro exI [of _ a] exI [of _ b] exI [of _ s] exI [of _ visit]) simp
qed

text \<open>Writing a visit to a known place stores exactly that visit, with the normalised labels, and tells exactly the
  followers that have an account, once each; nobody at all when the author's activity is private.\<close>

theorem visit_announced:
  assumes "wf_notif w" "truthy (vb_placeId body)" "place_by_id (the (vb_placeId body)) w = Some p"
    "user_by_id userId w \<noteq> None" "userId \<noteq> []"
  shows "\<exists>v w' ns. create_visit resolve userId tags body w = (Inr v, w')
     \<and> t_visits w' = t_visits w @ [written_visit userId tags body w]
     \<and> t_notifications w' = t_notifications w @ ns \<and> map n_user ns = visit_audience userId w"
proof -
  obtain a b s visit where r: "create_visit resolve userId tags body w =
       bindS (if activityVisibility (normalizeSettings (settings_of userId w)) \<noteq> CPrivate
           then bindS (gets (listFollowerIds userId)) (\<lambda>ids.
                bindS (publish (visit_notification userId (vb_visitedText body) visit ids)) (\<lambda>_. ret ()))
           else ret ()) (\<lambda>_. ret (serializeVisit visit))
         (w\<lparr>db_next := Suc (db_next w), t_visits := t_visits w @ [written_visit userId tags body w],
            t_user_tags := a, t_place_tags := b, t_settings := s\<rparr>)"
    using create_visit_stored [OF assms(2,3,4)] by blast
  let ?w = "w\<lparr>db_next := Suc (db_next w), t_visits := t_visits w @ [written_visit userId tags body w],
            t_user_tags := a, t_place_tags := b, t_settings := s\<rparr>"
  show ?thesis
  proof (cases "activityVisibility (normalizeSettings (settings_of userId w)) = CPrivate")
    case True
    then show ?thesis by (simp add: r visit_audience_def)
  next
    case False
    let ?n = "visit_notification userId (vb_visitedText body) visit (listFollowerIds userId w)"
    have wf: "wf_notif ?w" using assms(1) by (auto simp: wf_notif_def ids_below_Suc)
    have "pb_dedupeKey ?n \<noteq> Some []" by (simp add: visit_notification_def Let_def)
    then obtain k w' where k: "publish ?n ?w = (Inr \<lparr>pr_count = fst k, pr_deliveryCount = snd k\<rparr>, w')"
      "published ?n (default_to (pb_scheduledFor ?n) (db_now ?w)) (notified_users ?n ?w) ?w w' k"
      using publish_run [OF wf] by blast
    have ids: "listFollowerIds userId ?w = listFollowerIds userId w" by (simp add: listFollowerIds_def)
    have nu: "notified_users ?n ?w = visit_audience userId w"
      using False assms(5) by (simp add: visit_audience_def notified_users_def publish_recipients_def
          dedupe_clash_def visit_notification_def Let_def truthy_def user_by_id_def)
    have "create_visit resolve userId tags body w = (Inr (serializeVisit visit), w')"
      using False k(1) ids by (simp add: r bindS_apply)
    moreover have "\<exists>ns. t_notifications w' = t_notifications w @ ns \<and> map n_user ns = visit_audience userId w"
      using k(2) unfolding nu published_def by auto
    moreover have "t_visits w' = t_visits w @ [written_visit userId tags body w]"
      using k(2) unfolding published_def by (auto dest: notif_frame_fields)
    ultimately show ?thesis by blast
  qed
qed

definition sample_visit_db :: db where
  "sample_visit_db = empty_db 5\<lparr>t_users := [sample_user ''a'', sample_user ''b''], t_places := [blank_place ''p'' 0],
     t_follows := [\<lparr>fo_follower = ''b'', fo_followed = ''a'', fo_created = 0\<rparr>]\<rparr>"

definition sample_visit_body :: visit_body where
  "sample_visit_body = \<lparr>vb_placeId = Some ''p'', vb_googlePlaceId = None, vb_placeName = None, vb_placeAddress = None,
     vb_visitedText = ''1970'', vb_visit = \<lparr>cv_note = [], cv_noiseLevel = None, cv_orderedItems = None, cv_placeId = [],
       cv_photoUrls = [], cv_priceTier = None, cv_rating = 4, cv_tags = [], cv_userId = [], cv_visitedAt = 0,
       cv_waitLevel = None, cv_wifiQuality = None, cv_wouldReturn = Some WYes, cv_placeDetailTags = [],
       cv_hasParking = None, cv_petFriendly = None\<rparr>\<rparr>"

theorem visit_announced_witness:
  "\<exists>v w' (ns :: notification_row list). create_visit (\<lambda>_ _. throw (NotFound [])) ''a'' None sample_visit_body sample_visit_db = (Inr v, w')
     \<and> length (t_visits w') = 1 \<and> t_notifications w' = ns \<and> map n_user ns = [''b'']"
proof -
  have *: "wf_notif sample_visit_db" "truthy (vb_placeId sample_visit_body)"
    "place_by_id (the (vb_placeId sample_visit_body)) sample_visit_db = Some (blank_place ''p'' 0)"
    "user_by_id ''a'' sample_visit_db \<noteq> None" "''a'' \<noteq> []"
    by (simp_all add: wf_notif_def sample_visit_db_def empty_db_def ids_below_def sample_visit_body_def truthy_def
        place_by_id_def blank_place_def user_by_id_def sample_user_def)
  have a: "visit_audience ''a'' sample_visit_db = [''b'']" by code_simp
  have e: "t_visits sample_visit_db = []" "t_notifications sample_visit_db = []"
    by (simp_all add: sample_visit_db_def empty_db_def)
  show ?thesis
    using visit_announced [OF *, of "\<lambda>_ _. throw (NotFound [])" None] unfolding a e by auto
qed

section \<open>Saving a place\<close>

lemma unsave_not_saved: "\<not> isPlaceSaved u p (snd (unsavePlaceRepo u p w))"
  by (simp add: isPlaceSaved_def unsavePlaceRepo_def find_unique_None)

text \<open>Saving a known place marks it saved once, saving it again changes nothing, and taking it off the list
  restores the table as it was without it.\<close>

theorem save_roundtrip:
  assumes "user_by_id u w \<noteq> None" "place_by_id p w \<noteq> None"
  shows "isPlaceSaved u p (snd (savePlaceRepo u p None w))
     \<and> savePlaceRepo u p None (snd (savePlaceRepo u p None w)) = (Inr (), snd (savePlaceRepo u p None w))
     \<and> t_saves (snd (unsavePlaceRepo u p (snd (savePlaceRepo u p None w))))
         = filter (\<lambda>s. save_key s \<noteq> (u, p)) (t_saves w)"
proof -
  have id: "update_many q (\<lambda>s. s) t = t" for q and t :: "save_row list" by (simp add: update_many_def)
  define w1 where "w1 = snd (savePlaceRepo u p None w)"
  have w1: "w1 = (if isPlaceSaved u p w then w else w\<lparr>t_saves := t_saves w
      @ [\<lparr>sv_user = u, sv_place = p, sv_reason = None, sv_created = db_now w\<rparr>]\<rparr>)"
    using assms by (simp add: w1_def savePlaceRepo_def truthy_def id)
  then have s: "isPlaceSaved u p w1" by (simp add: isPlaceSaved_def find_unique_append split: option.splits)
  then have "savePlaceRepo u p None w1 = (Inr (), w1)" by (simp add: savePlaceRepo_def truthy_def id)
  moreover have "t_saves (snd (unsavePlaceRepo u p w1)) = filter (\<lambda>s. save_key s \<noteq> (u, p)) (t_saves w)"
    by (auto simp: w1 unsavePlaceRepo_def delete_many_def intro!: filter_cong)
  ultimately show ?thesis using s unfolding w1_def by blast
qed

theorem save_roundtrip_witness:
  "isPlaceSaved ''a'' ''p'' (snd (savePlaceRepo ''a'' ''p'' None sample_visit_db))"
  using save_roundtrip [of "''a''" sample_visit_db "''p''"]
  by (simp add: user_by_id_def place_by_id_def sample_visit_db_def sample_user_def blank_place_def)

section \<open>Saving a place that is not stored\<close>

text \<open>Without Google (no key, or local-only mode) a place that is not stored resolves to null instead of being
  refused, and saving it or reviewing it fails with a TypeError (500) without a change.\<close>

theorem local_only_resolves_to_null:
  assumes "\<not> google_on env" "normalizeGooglePlaceId (en_decode env) rawId \<noteq> []" "rawId \<noteq> []" "js_trim rawId = rawId"
    "getPlaceBySource SrcGoogle (normalizeGooglePlaceId (en_decode env) rawId) w = None"
    "vb_placeId body = None" "vb_googlePlaceId body = Some rawId"
  shows "resolve_place env SrcGoogle rawId w = (Inr None, w)
     \<and> savePlace (resolver env) userId rawId w = (Inl (InternalError ''TypeError''), w)
     \<and> create_visit (resolver env) userId tags body w = (Inl (InternalError ''TypeError''), w)"
proof -
  have r: "resolve_place env SrcGoogle rawId w = (Inr None, w)"
    using assms(1,2,5) by (simp add: resolve_place_def Let_def)
  then have "resolver env rawId None w = (Inl (InternalError ''TypeError''), w)"
    by (simp add: resolver_def bindS_apply)
  then show ?thesis using r assms(3,4,6,7)
    by (simp add: savePlace_def create_visit_def resolvePlaceForVisit_def bindS_apply truthy_def)
qed

theorem local_only_resolves_to_null_witness:
  "savePlace (resolver (sample_env True)) ''a'' ''g1'' sample_visit_db = (Inl (InternalError ''TypeError''), sample_visit_db)"
proof -
  have n: "normalizeGooglePlaceId (en_decode (sample_env True)) ''g1'' = ''g1''" "js_trim ''g1'' = ''g1''" by code_simp+
  have o: "\<not> google_on (sample_env True)" by (simp add: sample_env_def shouldUseGooglePlaces_def)
  have g: "getPlaceBySource SrcGoogle ''g1'' sample_visit_db = None"
    by (simp add: getPlaceBySource_def sample_visit_db_def blank_place_def)
  show ?thesis
    using local_only_resolves_to_null [OF o, of "''g1''" sample_visit_db
        "sample_visit_body\<lparr>vb_placeId := None, vb_googlePlaceId := Some ''g1''\<rparr>" "''a''" None] n g
    by simp
qed

end
