(* ===== verification/NearbyScore.thy ===== *)
theory NearbyScore
  imports GooglePlaces Ranking OutingPreferences
begin

text \<open>
  The scores of the nearby ranking (\<open>lib/nearby-place-score.ts\<close>, \<open>lib/taste-place-score.ts\<close>,
  \<open>lib/explore-intent-score.ts\<close>, \<open>lib/score-feca-place-quality.ts\<close>), the intent and the Google types inferred for a
  user (\<open>lib/infer-nearby-intent.ts\<close>, \<open>lib/infer-google-place-types.ts\<close>) and the chips shown with a place
  (\<open>lib/nearby-network-chips.ts\<close>, \<open>lib/nearby-opening-chip.ts\<close>, \<open>lib/viewer-nearby-visit-reminder.ts\<close>).  Scores are
  rationals where the code has doubles; the hour and the weekday of the server's time zone are arguments.  Accented
  letters of the texts are written without the accent.
\<close>

section \<open>Priorities\<close>

text \<open>\<open>Math.round\<close>.\<close>

definition js_round :: "rat \<Rightarrow> int" where "js_round r = floor (r + 1 / 2)"

definition parsePlacePriorities :: "json option \<Rightarrow> json list option" where
  "parsePlacePriorities prefs = (case prefs of
     Some (JObj p) \<Rightarrow> (case map_of p ''placePriorities'' of
         Some (JArr (v # vs)) \<Rightarrow> Some (v # vs) | _ \<Rightarrow> None)
   | _ \<Rightarrow> None)"

definition top_priority :: "json list option \<Rightarrow> string \<Rightarrow> bool" where
  "top_priority priorities x \<longleftrightarrow> JStr x \<in> set (take 3 (default_to priorities []))"

definition tasteScoreMultiplier :: "json list option \<Rightarrow> rat" where
  "tasteScoreMultiplier priorities =
     (if top_priority priorities ''atmosphere'' \<or> top_priority priorities ''quiet'' then 135 / 100 else 1)"

definition distanceScoreMultiplier :: "json list option \<Rightarrow> rat" where
  "distanceScoreMultiplier priorities = (if top_priority priorities ''distance'' then 14 / 10 else 1)"

definition card_distance :: "distance \<Rightarrow> rat \<times> rat \<Rightarrow> place_card \<Rightarrow> rat" where
  "card_distance metres origin p = metres origin (pc_lat p, pc_lng p)"

definition buildNearbyPlaceScore :: "distance \<Rightarrow> rat \<times> rat \<Rightarrow> place_card \<Rightarrow> nat \<Rightarrow> json list option \<Rightarrow> rat" where
  "buildNearbyPlaceScore metres origin p index priorities =
     180 - card_distance metres origin p / 45 * distanceScoreMultiplier priorities
     + default_to (pc_rating p) 0 * 8 + (if pc_openNow p = Some True then 34 else 0) - of_nat index * (35 / 100)"

definition lower_types :: "place_card \<Rightarrow> string list" where
  "lower_types p = map js_lower (pc_types p)"

text \<open>Some type contains some of the needles.\<close>

definition has_type_like :: "string list \<Rightarrow> string list \<Rightarrow> bool" where
  "has_type_like types needles = list_ex (\<lambda>n. list_ex (\<lambda>t. includes_str t n) types) needles"

definition scorePlacePrioritiesAgainstPlace :: "json list option \<Rightarrow> place_card \<Rightarrow> rat \<Rightarrow> int" where
  "scorePlacePrioritiesAgainstPlace priorities p distanceMeters =
     (if default_to priorities [] = [] then 0
      else let top = top_priority priorities; has = has_type_like (lower_types p) in
        (if top ''food_drink'' \<and> has [''restaurant'', ''cafe'', ''bakery'', ''bar''] then 18 else 0)
      + (if top ''atmosphere'' \<and> 43 / 10 \<le> default_to (pc_rating p) 0 then 16 else 0)
      + (if top ''quiet'' \<and> has [''cafe'', ''library'', ''book''] then 14 else 0)
      + (if top ''service'' \<and> 50 \<le> default_to (pc_ratingCount p) 0 then 10 else 0)
      + (if top ''distance'' \<and> distanceMeters < 800 then 16
         else if top ''distance'' \<and> distanceMeters < 1500 then 8 else 0))"

section \<open>Quality\<close>

definition shouldExcludeLowQualityGooglePlace :: "place_card \<Rightarrow> bool" where
  "shouldExcludeLowQualityGooglePlace p = (case pc_rating p of None \<Rightarrow> False
   | Some rating \<Rightarrow> rating < 35 / 10 \<or> rating < 38 / 10 \<and> 10 \<le> default_to (pc_ratingCount p) 0)"

definition scoreGoogleQualityPenalty :: "place_card \<Rightarrow> int" where
  "scoreGoogleQualityPenalty p =
     (let count = default_to (pc_ratingCount p) 0 in
      if (case pc_rating p of None \<Rightarrow> False | Some rating \<Rightarrow> rating < 38 / 10) \<and> 5 \<le> count then - 25
      else if 0 < count \<and> count < 15 then - 10 else 0)"

definition ADMIN_BOOST_CAP :: int where "ADMIN_BOOST_CAP = 45"
definition MAX_FORCED_CITY_PICKS :: nat where "MAX_FORCED_CITY_PICKS = 4"
definition MAX_CURATED_SLOTS_IN_TOP :: nat where "MAX_CURATED_SLOTS_IN_TOP = 5"
definition LIKED_VISIT_AFFINITY_BOOST :: int where "LIKED_VISIT_AFFINITY_BOOST = 30"
definition SIMILAR_TO_LIKED_BOOST :: int where "SIMILAR_TO_LIKED_BOOST = 20"

definition scaleAdminBoostScore :: "int \<Rightarrow> int" where
  "scaleAdminBoostScore boostScore =
     (if boostScore \<le> 0 then 0
      else min ADMIN_BOOST_CAP (js_round (of_int boostScore * (of_int ADMIN_BOOST_CAP / 100))))"

definition scoreFecaPlaceQuality :: "feca_quality option \<Rightarrow> int" where
  "scoreFecaPlaceQuality stats = (case stats of None \<Rightarrow> 0
   | Some s \<Rightarrow>
       let avg = fq_avgRating s; n = fq_visitCount s; at_least = (\<lambda>x. case avg of None \<Rightarrow> False | Some a \<Rightarrow> x \<le> a) in
       if n = 0 then 0
       else if at_least (45 / 10) \<and> 3 \<le> n then 15 + min 10 (int n - 3)
       else if (case avg of None \<Rightarrow> False | Some a \<Rightarrow> a < 3) then - 20
       else if 2 \<le> fq_no s \<and> fq_yes s < fq_no s then - 20
       else if at_least 4 \<and> 2 \<le> n then 8 else 0)"

definition shouldExcludeByFecaQuality :: "feca_quality option \<Rightarrow> bool" where
  "shouldExcludeByFecaQuality stats = (case stats of None \<Rightarrow> False
   | Some s \<Rightarrow> 2 \<le> fq_visitCount s
       \<and> ((case fq_avgRating s of None \<Rightarrow> False | Some a \<Rightarrow> a < 25 / 10)
          \<or> 3 \<le> fq_no s \<and> fq_yes s * 2 < fq_no s))"

section \<open>Tastes\<close>

text \<open>The points of one chip and its condition, by the \<open>switch\<close> of \<open>scoreTasteAgainstPlace\<close>.\<close>

definition taste_points :: "explore_intent \<Rightarrow> (string list \<Rightarrow> bool) \<Rightarrow> string \<Rightarrow> int" where
  "taste_points intent has i =
     (if i = ''reading_spots'' then
        if intent = IReading \<or> has [''cafe'', ''coffee'', ''library'', ''book_store'', ''bookshop''] then 10 else 0
      else if i = ''wifi_outlets'' then if intent = IWork2h \<or> has [''cafe'', ''coffee'', ''coworking''] then 8 else 0
      else if i = ''quiet'' then
        if intent = IReading \<or> intent = IFirstDate \<or> has [''cafe'', ''coffee'', ''library'', ''tea''] then 6 else 0
      else if i = ''specialty_over_brunch'' then
        if intent = IBrunchLong \<or> has [''cafe'', ''coffee'', ''bakery'', ''breakfast'', ''brunch''] then 9 else 0
      else if i = ''terrace'' then
        if intent = IGroup4 \<or> has [''restaurant'', ''bar'', ''pub'', ''beer''] then 4 else 0
      else if i = ''indoor_table'' then if intent = IFirstDate \<or> has [''restaurant'', ''wine'', ''bistro''] then 4 else 0
      else if i = ''small_bar'' then if has [''bar'', ''pub'', ''wine_bar'', ''cocktail''] then 8 else 0
      else if i = ''bright_light'' then
        if intent = IBrunchLong \<or> intent = IReading \<or> has [''cafe'', ''coffee'', ''bakery''] then 3 else 0
      else 0)"

definition scoreTasteAgainstPlace :: "string list \<Rightarrow> string list \<Rightarrow> explore_intent \<Rightarrow> int" where
  "scoreTasteAgainstPlace tasteIds categories intent =
     sum_list (map (taste_points intent (has_type_like (map js_lower categories))) tasteIds)"

text \<open>\<open>replace(/[_-]+/g, " ")\<close>.\<close>

fun dashes_to_space :: "string \<Rightarrow> string" where
  "dashes_to_space [] = []"
| "dashes_to_space (c # s) =
     (if c = CHR ''_'' \<or> c = CHR ''-''
      then (case s of [] \<Rightarrow> '' '' | d # _ \<Rightarrow> if d = CHR ''_'' \<or> d = CHR ''-'' then dashes_to_space s
            else CHR '' '' # dashes_to_space s)
      else c # dashes_to_space s)"

definition normalizeCategory :: "string \<Rightarrow> string" where
  "normalizeCategory value = dashes_to_space (js_lower (js_trim value))"

definition alike :: "string \<Rightarrow> string \<Rightarrow> bool" where
  "alike a b \<longleftrightarrow> a = b \<or> includes_str a b \<or> includes_str b a"

definition scoreCategoryAffinityAgainstPlace :: "string list \<Rightarrow> string list \<Rightarrow> int" where
  "scoreCategoryAffinityAgainstPlace preferredCategories categories =
     (if preferredCategories = [] \<or> categories = [] then 0
      else let candidate = filter (\<lambda>c. c \<noteq> []) (map normalizeCategory categories);
               preferred = take 16 (filter (\<lambda>c. c \<noteq> []) (dedupe (map normalizeCategory preferredCategories)))
           in min (7 * int (length (filter (\<lambda>p. list_ex (\<lambda>c. alike c p) candidate) preferred))) 34)"

definition scoreTasteAgainstVisitTags :: "string list \<Rightarrow> string list \<Rightarrow> int" where
  "scoreTasteAgainstVisitTags tasteIds visitTags =
     (let tags = map js_lower visitTags in
      if visitTags = [] then 0
      else sum_list (map (\<lambda>i.
        (if i = ''reading_spots'' \<and> (''reading'' \<in> set tags \<or> ''cafe'' \<in> set tags) then 10 else 0)
      + (if i = ''wifi_outlets'' \<and> ''work'' \<in> set tags then 8 else 0)
      + (if i = ''specialty_over_brunch'' \<and> (''brunch'' \<in> set tags \<or> ''cafe'' \<in> set tags) then 9 else 0)
      + (if i = ''quiet'' \<and> ''quiet'' \<in> set tags then 8 else 0)) tasteIds))"

section \<open>Intents\<close>

definition scoreExploreIntent :: "explore_intent \<Rightarrow> place_card \<Rightarrow> rat \<Rightarrow> rat" where
  "scoreExploreIntent intent p distanceMeters =
     (let rating = default_to (pc_rating p) 0;
          isCafe = (''cafe'' \<in> set (pc_types p) \<or> pc_primaryType p = Some ''cafe'');
          isRestaurant = (''restaurant'' \<in> set (pc_types p) \<or> pc_primaryType p = Some ''restaurant'')
      in 100 - distanceMeters / 60 + rating * 8
       + (case intent of
            IOpenNow \<Rightarrow> if pc_openNow p = Some True then 18 else 0
          | IWork2h \<Rightarrow> if isCafe then 18 else 4
          | IBrunchLong \<Rightarrow> if isRestaurant then 18 else 8
          | ISolo \<Rightarrow> if isCafe then 14 else 6
          | IFirstDate \<Rightarrow> if 43 / 10 \<le> rating then 16 else 6
          | ISnackFast \<Rightarrow> if distanceMeters < 1200 then 18 else 4
          | IReading \<Rightarrow> if isCafe then 16 else 4
          | IGroup4 \<Rightarrow> if isRestaurant then 14 else 8))"

definition exploreReasonLine :: "explore_intent \<Rightarrow> place_card \<Rightarrow> string" where
  "exploreReasonLine intent p = (case intent of
     IOpenNow \<Rightarrow> if pc_openNow p = Some True then ''Abierto ahora'' else ''Cerca para salir ya''
   | IWork2h \<Rightarrow> ''Cafe y foco para trabajar un rato''
   | IBrunchLong \<Rightarrow> ''Para brunch sin apuro''
   | ISolo \<Rightarrow> ''Comodo para ir solo''
   | IFirstDate \<Rightarrow> ''Buen tono para una primera cita''
   | ISnackFast \<Rightarrow> ''Sirve para una pausa rapida''
   | IReading \<Rightarrow> ''Tranqui para leer''
   | IGroup4 \<Rightarrow> ''Mejor para ir en grupo'')"

text \<open>The hour and the weekday alone.\<close>

definition default_intent :: "int \<Rightarrow> explore_intent" where
  "default_intent hour = (if 7 \<le> hour \<and> hour < 11 then IWork2h else if 11 \<le> hour \<and> hour < 15 then ISolo
     else if 18 \<le> hour \<and> hour < 23 then IGroup4 else ISolo)"

definition inferNearbyExploreIntent :: "json option \<Rightarrow> int \<Rightarrow> int \<Rightarrow> explore_intent" where
  "inferNearbyExploreIntent prefs hour day = (case prefs of
     Some (JObj p) \<Rightarrow>
       (let isWeekend = (day = 0 \<or> day = 6);
            slots = stored_strings (map_of p ''typicalOutingSlots'');
            companies = stored_companies p
        in if 7 \<le> hour \<and> hour < 11 \<and> ''weekday_morning'' \<in> slots then IWork2h
           else if 7 \<le> hour \<and> hour < 11 \<and> ''solo'' \<in> companies then IReading
           else if isWeekend \<and> 10 \<le> hour \<and> hour < 16 \<and> ''weekend_day'' \<in> slots then IBrunchLong
           else if \<not> isWeekend \<and> 12 \<le> hour \<and> hour < 15 \<and> ''weekday_afternoon'' \<in> slots then ISnackFast
           else if 18 \<le> hour \<and> hour < 23 \<and> (''weekend_night'' \<in> slots \<or> ''weekday_evening'' \<in> slots)
             then (if ''couple'' \<in> companies then IFirstDate else IGroup4)
           else if ''solo'' \<in> companies then ISolo
           else if ''couple'' \<in> companies then IFirstDate
           else if ''small_group'' \<in> companies \<or> ''large_group'' \<in> companies then IGroup4
           else default_intent hour)
   | _ \<Rightarrow> default_intent hour)"

datatype pool_profile = PoolDefault | CafeFocus | DiningFocus | BarFocus
datatype google_type = GCafe | GRestaurant | GBar | GBakery

definition PROFILE_TYPES :: "pool_profile \<Rightarrow> google_type list" where
  "PROFILE_TYPES p = (case p of PoolDefault \<Rightarrow> [GCafe, GRestaurant] | CafeFocus \<Rightarrow> [GCafe, GBakery]
     | DiningFocus \<Rightarrow> [GRestaurant, GCafe] | BarFocus \<Rightarrow> [GBar, GRestaurant])"

definition resolveNearbyGooglePoolProfile ::
  "string list \<Rightarrow> json option \<Rightarrow> explore_intent \<Rightarrow> explore_intent option \<Rightarrow> pool_profile" where
  "resolveNearbyGooglePoolProfile tastes outing inferredIntent explicitIntent =
     (let intent = default_to explicitIntent inferredIntent; likes = (\<lambda>i. i \<in> set tastes) in
      if likes ''small_bar'' then BarFocus
      else if likes ''wifi_outlets'' \<or> likes ''reading_spots'' \<or> likes ''specialty_over_brunch'' \<or> likes ''quiet''
           \<or> likes ''bright_light'' \<or> intent = IWork2h \<or> intent = IReading \<or> intent = ISnackFast then CafeFocus
      else if top_priority (parsePlacePriorities outing) ''food_drink'' \<or> intent = IGroup4 \<or> intent = IFirstDate
           \<or> intent = IBrunchLong then DiningFocus
      else PoolDefault)"

definition resolveGoogleTypesForNearbyPool :: "google_type option \<Rightarrow> pool_profile \<Rightarrow> google_type list" where
  "resolveGoogleTypesForNearbyPool explicitType profile =
     (case explicitType of Some t \<Rightarrow> [t] | None \<Rightarrow> PROFILE_TYPES profile)"

section \<open>Chips\<close>

definition buildNearbyOpeningChip :: "bool option \<Rightarrow> string option" where
  "buildNearbyOpeningChip openNow = map_option (\<lambda>b. if b then ''Abierto ahora'' else ''Cerrado ahora'') openNow"

text \<open>\<open>t\<close> is the current time.\<close>

definition isWithinDays :: "int \<Rightarrow> int option \<Rightarrow> int \<Rightarrow> bool" where
  "isWithinDays t visitedAt days = (case visitedAt of None \<Rightarrow> False | Some v \<Rightarrow> t - v \<le> days * ms_per_day)"

definition formatFriendSnippetFromVisit :: "int \<Rightarrow> int \<Rightarrow> would_return option \<Rightarrow> int option \<Rightarrow> string" where
  "formatFriendSnippetFromVisit t rating wouldReturn visitedAt =
     (if wouldReturn = Some WYes then ''volveria a ir''
      else if wouldReturn = Some WMaybe then (if 4 \<le> rating then ''le gusto'' else ''podria volver'')
      else if wouldReturn = Some WNo then ''paso por aca''
      else if isWithinDays t visitedAt 21 then ''visito recientemente''
      else if 4 \<le> rating then ''le gusto'' else ''visito el lugar'')"

definition formatFriendSnippetFromSave :: "int \<Rightarrow> int option \<Rightarrow> string" where
  "formatFriendSnippetFromSave t createdAt = (if isWithinDays t createdAt 5 then ''lo guardo hace poco'' else ''quiere ir'')"

definition formatNearbySocialChipLine :: "string \<Rightarrow> string \<Rightarrow> string" where
  "formatNearbySocialChipLine username snippet =
     (let u0 = js_trim (case username of c # s \<Rightarrow> if c = CHR ''@'' then s else username | [] \<Rightarrow> []);
          u = (if u0 = [] then ''user'' else u0); s = js_trim snippet
      in CHR ''@'' # u @ (if s \<noteq> [] then CHR '' '' # s else []))"

definition formatNearbyVisitChip :: "int \<Rightarrow> string \<Rightarrow> int \<Rightarrow> would_return option \<Rightarrow> int option \<Rightarrow> string" where
  "formatNearbyVisitChip t username rating wouldReturn visitedAt =
     formatNearbySocialChipLine username (formatFriendSnippetFromVisit t rating wouldReturn visitedAt)"

definition scoreNearbyVisitSignal :: "int \<Rightarrow> int \<Rightarrow> would_return option \<Rightarrow> int option \<Rightarrow> int" where
  "scoreNearbyVisitSignal t rating wouldReturn visitedAt = rating * 5
     + (case wouldReturn of Some WYes \<Rightarrow> 120 | Some WMaybe \<Rightarrow> 55 | Some WNo \<Rightarrow> - 10 | None \<Rightarrow> 0)
     + 40 + (if isWithinDays t visitedAt 14 then 12 else 0)"

section \<open>The viewer's own visits\<close>

definition VIEWER_RETURN_REMINDER_COOLDOWN_DAYS :: int where "VIEWER_RETURN_REMINDER_COOLDOWN_DAYS = 7"

definition wholeDaysBetween :: "int \<Rightarrow> int \<Rightarrow> int" where
  "wholeDaysBetween a b = (if b - a < 0 then 0 else (b - a) div ms_per_day)"

definition formatViewerReturnReminderChip :: "int \<Rightarrow> int \<Rightarrow> string" where
  "formatViewerReturnReminderChip visitedAt t =
     (let d = wholeDaysBetween visitedAt t; months = d div 30 in
      if d < 10 then ''Lo visitaste hace una semana''
      else if d < 17 then ''Lo visitaste hace 2 semanas''
      else if d < 24 then ''Lo visitaste hace 3 semanas''
      else if d < 45 then ''Lo visitaste hace un mes''
      else if d < 75 then ''Lo visitaste hace 2 meses''
      else if 3 \<le> months \<and> months \<le> 12 then ''Lo visitaste hace '' @ int_text months @ '' meses''
      else if 12 < months then ''Lo visitaste hace mas de un ano''
      else ''Lo visitaste hace un tiempo'')"

datatype radar_state = Neutral | ExcludeFromRadar | Remind string

definition viewerRadarStateFromVisit :: "int \<Rightarrow> would_return option \<Rightarrow> bool \<Rightarrow> int \<Rightarrow> radar_state" where
  "viewerRadarStateFromVisit visitedAt wouldReturn hasWrittenReview t =
     (if \<not> hasWrittenReview then Neutral
      else if wouldReturn \<noteq> Some WYes then ExcludeFromRadar
      else if wholeDaysBetween visitedAt t < VIEWER_RETURN_REMINDER_COOLDOWN_DAYS then ExcludeFromRadar
      else Remind (formatViewerReturnReminderChip visitedAt t))"

section \<open>Bounds of the scores\<close>

lemma scaleAdminBoost_bounds: "0 \<le> scaleAdminBoostScore b \<and> scaleAdminBoostScore b \<le> 45"
proof (cases "b \<le> 0")
  case False
  then have "0 \<le> of_int b * (45 / 100 :: rat) + 1 / 2" by simp
  then have "0 \<le> floor (of_int b * (45 / 100 :: rat) + 1 / 2)" by simp
  then show ?thesis using False by (simp add: scaleAdminBoostScore_def js_round_def ADMIN_BOOST_CAP_def)
qed (simp add: scaleAdminBoostScore_def)

lemma scaleAdminBoost_mono: "a \<le> b \<Longrightarrow> scaleAdminBoostScore a \<le> scaleAdminBoostScore b"
proof -
  assume "a \<le> b"
  then have "of_int a * (45 / 100 :: rat) + 1 / 2 \<le> of_int b * (45 / 100) + 1 / 2" by simp
  then have "floor (of_int a * (45 / 100 :: rat) + 1 / 2) \<le> floor (of_int b * (45 / 100 :: rat) + 1 / 2)"
    by (rule floor_mono)
  then show ?thesis using \<open>a \<le> b\<close> scaleAdminBoost_bounds [of b]
    by (auto simp: scaleAdminBoostScore_def js_round_def ADMIN_BOOST_CAP_def)
qed

lemma category_affinity_bounds:
  "0 \<le> scoreCategoryAffinityAgainstPlace a b \<and> scoreCategoryAffinityAgainstPlace a b \<le> 34"
  by (simp add: scoreCategoryAffinityAgainstPlace_def Let_def)

lemma feca_quality_bounds: "- 20 \<le> scoreFecaPlaceQuality s \<and> scoreFecaPlaceQuality s \<le> 25"
  by (auto simp: scoreFecaPlaceQuality_def Let_def split: option.splits)

lemma priorities_bounds:
  "0 \<le> scorePlacePrioritiesAgainstPlace ps p d \<and> scorePlacePrioritiesAgainstPlace ps p d \<le> 74"
  by (auto simp: scorePlacePrioritiesAgainstPlace_def Let_def)

lemma google_penalty_bounds: "- 25 \<le> scoreGoogleQualityPenalty p \<and> scoreGoogleQualityPenalty p \<le> 0"
  by (simp add: scoreGoogleQualityPenalty_def Let_def)

end
