(* ===== verification/NearbyRanking.thy ===== *)
theory NearbyRanking
  imports NearbyScore
begin

text \<open>
  The ranking of the places around a user (\<open>lib/nearby-ranking.ts\<close>): the score of each candidate, the rotation, the
  variety of categories, and the slots of the editors' picks.  The maps by Google id are association lists or
  functions; the haversine distance, SHA-256 and the collation are parameters.
\<close>

section \<open>Input\<close>

datatype nearby_variant = HomeCity | HomeNetwork | HomeNearby | HomeOpenNow | HomeFriendsLiked | OnboardingPast

definition variant_text :: "nearby_variant option \<Rightarrow> string" where
  "variant_text v = (case v of None \<Rightarrow> [] | Some HomeCity \<Rightarrow> ''home_city'' | Some HomeNetwork \<Rightarrow> ''home_network''
     | Some HomeNearby \<Rightarrow> ''home_nearby'' | Some HomeOpenNow \<Rightarrow> ''home_open_now''
     | Some HomeFriendsLiked \<Rightarrow> ''home_friends_liked'' | Some OnboardingPast \<Rightarrow> ''onboarding_past'')"

record nearby_input =
  ni_origin :: "rat \<times> rat"
  ni_limit :: nat
  ni_type :: "google_type option"
  ni_variant :: "nearby_variant option"
  ni_rotate :: "int option"

record nearby_context =
  nc_tastes :: "string list"
  nc_imported :: "string list"
  nc_liked :: "string list"
  nc_disliked :: "string list"
  nc_outing :: "json option"
  nc_inferred :: explore_intent
  nc_explicit :: "explore_intent option"
  nc_likedIds :: "string list"
  nc_feca :: "string \<Rightarrow> feca_quality option"
  nc_boosts :: "(string \<times> int) list"
  nc_curated :: "string list"
  nc_cityPicks :: "place_card list"
  nc_network :: "string \<Rightarrow> rat option"

definition type_text :: "google_type option \<Rightarrow> string" where
  "type_text t = (case t of None \<Rightarrow> ''all'' | Some GCafe \<Rightarrow> ''cafe'' | Some GRestaurant \<Rightarrow> ''restaurant''
     | Some GBar \<Rightarrow> ''bar'' | Some GBakery \<Rightarrow> ''bakery'')"

text \<open>\<open>toFixed(k)\<close>.\<close>

definition fixed_text :: "nat \<Rightarrow> rat \<Rightarrow> string" where
  "fixed_text k r =
     (let n = nat (floor (\<bar>r\<bar> * 10 ^ k + 1 / 2));
          body = nat_text (n div 10 ^ k) @ (if k = 0 then [] else ''.'' @ pad_zeros k (nat_text (n mod 10 ^ k)))
      in if r < 0 then CHR ''-'' # body else body)"

definition buildPlacesRankingSeed ::
  "int \<Rightarrow> string \<Rightarrow> string \<Rightarrow> rat \<times> rat \<Rightarrow> string \<Rightarrow> nearby_variant option \<Rightarrow> int option \<Rightarrow> string" where
  "buildPlacesRankingSeed t userId scope origin typ variant rot =
     (let r = (case rot of Some x \<Rightarrow> if 0 < x then utcHourBucketId x else [] | None \<Rightarrow> [])
      in userId @ '':'' @ scope @ '':'' @ typ @ '':'' @ variant_text variant @ '':'' @ utcWeekBucketId t @ '':''
         @ utcHourBucketId t @ '':'' @ fixed_text 2 (fst origin) @ '':'' @ fixed_text 2 (snd origin) @ '':'' @ r)"

section \<open>Scores\<close>

definition networkBoostScoreForVariant :: "nearby_variant option \<Rightarrow> rat \<Rightarrow> rat" where
  "networkBoostScoreForVariant variant rawBoost =
     (if variant = Some HomeNetwork then min 56 rawBoost
      else if variant = Some HomeFriendsLiked then min 72 (rawBoost * (245 / 100) + 6)
      else 0)"

definition isSimilarToLikedCategories :: "place_card \<Rightarrow> string list \<Rightarrow> bool" where
  "isSimilarToLikedCategories p likedCategories =
     list_ex (\<lambda>liked. list_ex (\<lambda>t. alike t liked) (lower_types p)) likedCategories"

record breakdown =
  bd_distance :: rat
  bd_taste :: int
  bd_importedAffinity :: int
  bd_visitedAffinity :: int
  bd_visitedPenalty :: int
  bd_outing :: int
  bd_priorities :: int
  bd_googleQuality :: int
  bd_fecaQuality :: int
  bd_network :: rat
  bd_adminBoost :: int
  bd_likedVisit :: int
  bd_similarToLiked :: int

definition network_variant :: "nearby_variant option \<Rightarrow> bool" where
  "network_variant v \<longleftrightarrow> v = Some HomeNetwork \<or> v = Some HomeFriendsLiked"

definition home_mix :: "nearby_variant option \<Rightarrow> bool" where
  "home_mix v \<longleftrightarrow> \<not> network_variant v"

definition admin_boost :: "nearby_context \<Rightarrow> string \<Rightarrow> int" where
  "admin_boost ctx i = default_to (map_of (nc_boosts ctx) i) 0"

definition score_place :: "distance \<Rightarrow> nearby_input \<Rightarrow> nearby_context \<Rightarrow> place_card \<Rightarrow> breakdown" where
  "score_place metres input ctx p =
     (let past = (ni_variant input = Some OnboardingPast);
          mix = home_mix (ni_variant input);
          priorities = parsePlacePriorities (nc_outing ctx);
          intent = default_to (nc_explicit ctx) (nc_inferred ctx);
          i = pc_googlePlaceId p;
          d = card_distance metres (ni_origin input) p;
          rawBoost = default_to (nc_network ctx i) 0;
          likedVisit = (if i \<in> set (nc_likedIds ctx) then LIKED_VISIT_AFFINITY_BOOST else 0)
      in \<lparr>bd_distance = d,
          bd_taste = js_round (of_int (scoreTasteAgainstPlace (nc_tastes ctx) (pc_types p) intent)
             * tasteScoreMultiplier priorities * (if past then 24 / 10 else 1)),
          bd_importedAffinity = scoreCategoryAffinityAgainstPlace (nc_imported ctx) (pc_types p),
          bd_visitedAffinity = js_round (of_int (scoreCategoryAffinityAgainstPlace (nc_liked ctx) (pc_types p)) * (15 / 10)),
          bd_visitedPenalty = js_round (of_int (scoreCategoryAffinityAgainstPlace (nc_disliked ctx) (pc_types p)) * (16 / 10)),
          bd_outing = js_round (of_int (scoreOutingAgainstIntent intent (nc_outing ctx)) * (if past then 16 / 10 else 1)),
          bd_priorities = js_round (of_int (scorePlacePrioritiesAgainstPlace priorities p d) * (if past then 19 / 10 else 1)),
          bd_googleQuality = (if mix then scoreGoogleQualityPenalty p else 0),
          bd_fecaQuality = scoreFecaPlaceQuality (nc_feca ctx i),
          bd_network = (if network_variant (ni_variant input) then networkBoostScoreForVariant (ni_variant input) rawBoost
             else if ni_variant input = Some HomeNearby \<or> ni_variant input = Some HomeOpenNow
             then of_int (min 18 (js_round (rawBoost * (35 / 100)))) else 0),
          bd_adminBoost = scaleAdminBoostScore (admin_boost ctx i),
          bd_likedVisit = likedVisit,
          bd_similarToLiked = (if likedVisit = 0 \<and> isSimilarToLikedCategories p (nc_liked ctx)
             then SIMILAR_TO_LIKED_BOOST else 0)\<rparr>)"

definition base_score :: "distance \<Rightarrow> nearby_input \<Rightarrow> nearby_context \<Rightarrow> place_card \<Rightarrow> rat" where
  "base_score metres input ctx p =
     (let b = score_place metres input ctx p;
          distanceBase = (case nc_explicit ctx of
             Some intent \<Rightarrow> scoreExploreIntent intent p (bd_distance b)
           | None \<Rightarrow> buildNearbyPlaceScore metres (ni_origin input) p 0 (parsePlacePriorities (nc_outing ctx)))
      in distanceBase + of_int (bd_taste b + bd_importedAffinity b + bd_visitedAffinity b - bd_visitedPenalty b
           + bd_outing b + bd_priorities b + bd_googleQuality b + bd_fecaQuality b + bd_adminBoost b
           + bd_likedVisit b + bd_similarToLiked b) + bd_network b)"

section \<open>Variety\<close>

definition placeVarietyKey :: "place_card \<Rightarrow> string" where
  "placeVarietyKey p =
     (let t = js_lower (default_to (or_else (pc_primaryType p) (head_opt (pc_types p))) ''place'')
      in if includes_str t ''restaurant'' then ''restaurant'' else if includes_str t ''cafe'' then ''cafe'' else t)"

fun diversify_loop :: "nat \<Rightarrow> string option \<Rightarrow> place_card list \<Rightarrow> place_card list" where
  "diversify_loop 0 prevKey pool = []"
| "diversify_loop (Suc n) prevKey [] = []"
| "diversify_loop (Suc n) prevKey (p # pool) =
     (let same = (\<lambda>q. prevKey = Some (placeVarietyKey q)) in
      case dropWhile same (p # pool) of
        [] \<Rightarrow> p # diversify_loop n (Some (placeVarietyKey p)) pool
      | q # rest \<Rightarrow> q # diversify_loop n (Some (placeVarietyKey q)) (takeWhile same (p # pool) @ rest))"

definition diversifyTopPlacesByCategory :: "place_card list \<Rightarrow> nat \<Rightarrow> place_card list" where
  "diversifyTopPlacesByCategory ranked limit =
     (if length ranked \<le> limit then ranked else diversify_loop limit None ranked)"

section \<open>Editors' picks\<close>

fun pin_places :: "place_card list \<Rightarrow> place_card list \<Rightarrow> place_card list" where
  "pin_places pinned [] = pinned"
| "pin_places pinned (p # ps) =
     (if MAX_FORCED_CITY_PICKS \<le> length pinned then pinned
      else if pc_googlePlaceId p \<in> set (map pc_googlePlaceId pinned) then pin_places pinned ps
      else pin_places (pinned @ [p]) ps)"

definition buildPinnedCurationPlaces ::
  "(string \<Rightarrow> string \<Rightarrow> bool) \<Rightarrow> place_card list \<Rightarrow> place_card list \<Rightarrow> nearby_context \<Rightarrow> place_card list" where
  "buildPinnedCurationPlaces collate cityPicks candidates ctx =
     (let boost = (\<lambda>p. admin_boost ctx (pc_googlePlaceId p));
          boosted = sort_by (\<lambda>a b. boost b < boost a
               \<or> boost a = boost b \<and> collate (pc_googlePlaceId a) (pc_googlePlaceId b))
             (filter (\<lambda>p. 0 < boost p) candidates)
      in pin_places (pin_places [] cityPicks) boosted)"

definition applyCityPickSlots :: "place_card list \<Rightarrow> place_card list \<Rightarrow> nat \<Rightarrow> place_card list" where
  "applyCityPickSlots ranked cityPicks limit =
     (if cityPicks = [] then take limit ranked
      else let forced = take MAX_FORCED_CITY_PICKS cityPicks;
               forcedIds = map pc_googlePlaceId forced
           in take limit (forced @ filter (\<lambda>p. pc_googlePlaceId p \<notin> set forcedIds) ranked))"

fun cap_curated ::
  "string list \<Rightarrow> string list \<Rightarrow> nat \<Rightarrow> nat \<Rightarrow> place_card list \<Rightarrow> place_card list \<Rightarrow> place_card list" where
  "cap_curated curated boosted limit taken result [] = result"
| "cap_curated curated boosted limit taken result (p # ps) =
     (let i = pc_googlePlaceId p in
      if limit \<le> length result then result
      else if i \<in> set (map pc_googlePlaceId result) then cap_curated curated boosted limit taken result ps
      else if i \<in> set curated \<and> i \<notin> set boosted \<and> MAX_CURATED_SLOTS_IN_TOP \<le> taken
        then cap_curated curated boosted limit taken result ps
      else cap_curated curated boosted limit (if i \<in> set curated then Suc taken else taken) (result @ [p]) ps)"

fun fill_uncurated :: "string list \<Rightarrow> nat \<Rightarrow> place_card list \<Rightarrow> place_card list \<Rightarrow> place_card list" where
  "fill_uncurated curated limit result [] = result"
| "fill_uncurated curated limit result (p # ps) =
     (let i = pc_googlePlaceId p in
      if limit \<le> length result then result
      else if i \<in> set (map pc_googlePlaceId result) \<or> i \<in> set curated then fill_uncurated curated limit result ps
      else fill_uncurated curated limit (result @ [p]) ps)"

definition applyCuratedSlotCap :: "place_card list \<Rightarrow> string list \<Rightarrow> nat \<Rightarrow> string list \<Rightarrow> place_card list" where
  "applyCuratedSlotCap ordered curated limit boosted =
     (if curated = [] then take limit ordered
      else fill_uncurated curated limit (cap_curated curated boosted limit 0 [] ordered) ordered)"

section \<open>The ranking\<close>

definition protected_ids :: "nearby_context \<Rightarrow> string list" where
  "protected_ids ctx = nc_curated ctx @ map fst (nc_boosts ctx)"

definition admitted :: "nearby_input \<Rightarrow> nearby_context \<Rightarrow> place_card \<Rightarrow> bool" where
  "admitted input ctx p \<longleftrightarrow> \<not> home_mix (ni_variant input)
     \<or> pc_googlePlaceId p \<in> set (protected_ids ctx)
     \<or> \<not> shouldExcludeByFecaQuality (nc_feca ctx (pc_googlePlaceId p)) \<and> \<not> shouldExcludeLowQualityGooglePlace p"

definition has_personalization :: "nearby_context \<Rightarrow> bool" where
  "has_personalization ctx \<longleftrightarrow> nc_tastes ctx \<noteq> [] \<or> default_to (parsePlacePriorities (nc_outing ctx)) [] \<noteq> []
     \<or> nc_liked ctx \<noteq> [] \<or> nc_likedIds ctx \<noteq> [] \<or> nc_imported ctx \<noteq> []"

definition nearby_rotation :: "int \<Rightarrow> string \<Rightarrow> nearby_input \<Rightarrow> nearby_context \<Rightarrow> nat \<Rightarrow> ranking_options" where
  "nearby_rotation t userId input ctx n =
     (let mix = home_mix (ni_variant input); personal = has_personalization ctx; limit = int (ni_limit input) in
      \<lparr>ro_bucketHours = Some 1,
       ro_jitterRatio = Some (if mix then (if personal then 2 / 100 else 5 / 100) else 12 / 100),
       ro_maxJitter = Some (if mix then (if personal then 3 else 6) else 14),
       ro_seed = buildPlacesRankingSeed t userId ''nearby'' (ni_origin input) (type_text (ni_type input))
         (ni_variant input) (ni_rotate input),
       ro_topWindow = Some (min (int n) (if mix then max (limit * 3) 21 else max (limit * 4) 20))\<rparr>)"

definition ranked_nearby ::
  "distance \<Rightarrow> (string \<Rightarrow> 32 word) \<Rightarrow> (string \<Rightarrow> string \<Rightarrow> bool) \<Rightarrow> int \<Rightarrow> string \<Rightarrow> nearby_input \<Rightarrow> nearby_context
     \<Rightarrow> place_card list \<Rightarrow> (place_card candidate \<times> rat) list" where
  "ranked_nearby metres sha collate t userId input ctx work =
     rankCandidatesWithRotation sha collate t
       (map (\<lambda>p. \<lparr>cd_baseScore = base_score metres input ctx p, cd_id = pc_googlePlaceId p, cd_item = p\<rparr>) work)
       (nearby_rotation t userId input ctx (length work))"

definition rankNearbyPlaceResults ::
  "distance \<Rightarrow> (string \<Rightarrow> 32 word) \<Rightarrow> (string \<Rightarrow> string \<Rightarrow> bool) \<Rightarrow> int \<Rightarrow> string \<Rightarrow> nearby_input \<Rightarrow> nearby_context
     \<Rightarrow> place_card list \<Rightarrow> place_card list" where
  "rankNearbyPlaceResults metres sha collate t userId input ctx places =
     (let mix = home_mix (ni_variant input); past = (ni_variant input = Some OnboardingPast);
          limit = ni_limit input;
          work = filter (admitted input ctx) places
      in if work = [] then []
         else
           let ordered = map (\<lambda>x. cd_item (fst x)) (ranked_nearby metres sha collate t userId input ctx work);
               diversified = (if mix then diversifyTopPlacesByCategory ordered limit else take limit ordered);
               boosted = map fst (filter (\<lambda>b. 0 < snd b) (nc_boosts ctx));
               pinned = (if mix \<and> \<not> past then buildPinnedCurationPlaces collate (nc_cityPicks ctx) work ctx else []);
               withCityPicks = (if mix \<and> \<not> past then applyCityPickSlots diversified pinned limit else diversified)
           in if mix then applyCuratedSlotCap withCityPicks (nc_curated ctx) limit boosted else withCityPicks)"

text \<open>The rows of \<open>debugScores\<close>: the breakdown is kept by id, the last one written wins.\<close>

record debug_row =
  dr_googlePlaceId :: string
  dr_name :: string
  dr_baseScore :: rat
  dr_breakdown :: breakdown
  dr_jitter :: rat
  dr_finalScore :: rat

definition no_breakdown :: breakdown where
  "no_breakdown = \<lparr>bd_distance = 0, bd_taste = 0, bd_importedAffinity = 0, bd_visitedAffinity = 0, bd_visitedPenalty = 0,
     bd_outing = 0, bd_priorities = 0, bd_googleQuality = 0, bd_fecaQuality = 0, bd_network = 0, bd_adminBoost = 0,
     bd_likedVisit = 0, bd_similarToLiked = 0\<rparr>"

definition debug_scores ::
  "distance \<Rightarrow> (string \<Rightarrow> 32 word) \<Rightarrow> (string \<Rightarrow> string \<Rightarrow> bool) \<Rightarrow> int \<Rightarrow> string \<Rightarrow> nearby_input \<Rightarrow> nearby_context
     \<Rightarrow> place_card list \<Rightarrow> debug_row list" where
  "debug_scores metres sha collate t userId input ctx places =
     (let work = filter (admitted input ctx) places;
          finalIds = map pc_googlePlaceId (rankNearbyPlaceResults metres sha collate t userId input ctx places);
          breakdowns = map_of (rev (map (\<lambda>p. (pc_googlePlaceId p, score_place metres input ctx p)) work))
      in if work = [] then []
         else map (\<lambda>x. \<lparr>dr_googlePlaceId = cd_id (fst x), dr_name = pc_name (cd_item (fst x)),
                       dr_baseScore = cd_baseScore (fst x),
                       dr_breakdown = default_to (breakdowns (cd_id (fst x))) no_breakdown,
                       dr_jitter = snd x - cd_baseScore (fst x), dr_finalScore = snd x\<rparr>)
                (filter (\<lambda>x. cd_id (fst x) \<in> set finalIds)
                  (ranked_nearby metres sha collate t userId input ctx work)))"

section \<open>Lemmas of the ranking\<close>

lemma pin_places_bound: "length pinned \<le> MAX_FORCED_CITY_PICKS \<Longrightarrow> length (pin_places pinned ps) \<le> MAX_FORCED_CITY_PICKS"
  by (induction pinned ps rule: pin_places.induct) auto

lemma pin_places_set: "set (pin_places pinned ps) \<subseteq> set pinned \<union> set ps"
  by (induction pinned ps rule: pin_places.induct) auto

lemma pin_places_distinct:
  "distinct (map pc_googlePlaceId pinned) \<Longrightarrow> distinct (map pc_googlePlaceId (pin_places pinned ps))"
  by (induction pinned ps rule: pin_places.induct) auto

lemma cap_curated_set: "set (cap_curated curated boosted limit n result ps) \<subseteq> set result \<union> set ps"
  by (induction curated boosted limit n result ps rule: cap_curated.induct) (auto simp: Let_def)

lemma cap_curated_length:
  "length result \<le> limit \<Longrightarrow> length (cap_curated curated boosted limit n result ps) \<le> limit"
  by (induction curated boosted limit n result ps rule: cap_curated.induct) (auto simp: Let_def)

lemma cap_curated_distinct:
  "distinct (map pc_googlePlaceId result)
     \<Longrightarrow> distinct (map pc_googlePlaceId (cap_curated curated boosted limit n result ps))"
  by (induction curated boosted limit n result ps rule: cap_curated.induct) (auto simp: Let_def)

definition capped_slots :: "string list \<Rightarrow> string list \<Rightarrow> place_card list \<Rightarrow> place_card list" where
  "capped_slots curated boosted =
     filter (\<lambda>p. pc_googlePlaceId p \<in> set curated \<and> pc_googlePlaceId p \<notin> set boosted)"

text \<open>The counter counts the boosted picks too, so it bounds the ones that are not.\<close>

lemma cap_curated_slots:
  assumes "length (capped_slots curated boosted result) \<le> min n MAX_CURATED_SLOTS_IN_TOP"
  shows "length (capped_slots curated boosted (cap_curated curated boosted limit n result ps))
     \<le> MAX_CURATED_SLOTS_IN_TOP"
  using assms
  by (induction curated boosted limit n result ps rule: cap_curated.induct) (auto simp: Let_def capped_slots_def)

text \<open>After the first loop either the page is full or every candidate that is not curated is on it.\<close>

lemma cap_curated_exhausts:
  "limit \<le> length (cap_curated curated boosted limit n result ps)
     \<or> (\<forall>p. (p \<in> set result \<or> p \<in> set ps) \<and> pc_googlePlaceId p \<notin> set curated
          \<longrightarrow> pc_googlePlaceId p \<in> pc_googlePlaceId ` set (cap_curated curated boosted limit n result ps))"
  by (induction curated boosted limit n result ps rule: cap_curated.induct) (auto simp: Let_def)

lemma fill_uncurated_full: "limit \<le> length result \<Longrightarrow> fill_uncurated curated limit result ps = result"
  by (cases ps) (simp_all add: Let_def)

lemma fill_uncurated_nothing:
  "(\<And>p. p \<in> set ps \<Longrightarrow> pc_googlePlaceId p \<notin> set curated \<Longrightarrow> pc_googlePlaceId p \<in> pc_googlePlaceId ` set result)
     \<Longrightarrow> fill_uncurated curated limit result ps = result"
  by (induction curated limit result ps rule: fill_uncurated.induct) (auto simp: Let_def)

lemma applyCuratedSlotCap_eq:
  "applyCuratedSlotCap ordered curated limit boosted =
     (if curated = [] then take limit ordered else cap_curated curated boosted limit 0 [] ordered)"
proof -
  have "fill_uncurated curated limit (cap_curated curated boosted limit 0 [] ordered) ordered
      = cap_curated curated boosted limit 0 [] ordered"
    using cap_curated_exhausts [of limit curated boosted 0 "[]" ordered]
    by (elim disjE; intro fill_uncurated_full fill_uncurated_nothing) auto
  then show ?thesis by (simp add: applyCuratedSlotCap_def)
qed

lemma diversify_pick:
  assumes "dropWhile same pool = q # rest"
  shows "mset pool = add_mset q (mset (takeWhile same pool @ rest))" "\<not> same q"
proof -
  have "mset pool = mset (takeWhile same pool @ dropWhile same pool)" by (simp only: takeWhile_dropWhile_id)
  then show "mset pool = add_mset q (mset (takeWhile same pool @ rest))" using assms by simp
  show "\<not> same q" using hd_dropWhile [of same pool] assms by simp
qed

lemma diversify_step:
  assumes "pool \<noteq> []"
  obtains q pool' where "diversify_loop (Suc n) prevKey pool = q # diversify_loop n (Some (placeVarietyKey q)) pool'"
    "mset pool = add_mset q (mset pool')"
    "prevKey = Some (placeVarietyKey q) \<longrightarrow> list_all (\<lambda>p. placeVarietyKey p = placeVarietyKey q) pool"
proof -
  let ?same = "\<lambda>q. prevKey = Some (placeVarietyKey q)"
  obtain p ps where pool: "pool = p # ps" using assms by (cases pool) auto
  show thesis
  proof (cases "dropWhile ?same pool")
    case Nil
    then have "list_all ?same pool" by (simp add: dropWhile_eq_Nil_conv list_all_iff)
    moreover have "diversify_loop (Suc n) prevKey pool = p # diversify_loop n (Some (placeVarietyKey p)) ps"
      unfolding pool diversify_loop.simps Let_def Nil [unfolded pool] list.case ..
    ultimately show thesis by (intro that [of p ps]) (auto simp: pool list_all_iff)
  next
    case (Cons q rest)
    note m = diversify_pick [OF Cons]
    show thesis
      by (rule that [of q "takeWhile ?same pool @ rest"]) (use m Cons in \<open>simp_all add: pool\<close>)
  qed
qed

lemma diversify_mset: "mset (diversify_loop n prevKey pool) \<subseteq># mset pool"
proof (induction n arbitrary: prevKey pool)
  case (Suc n)
  show ?case
  proof (cases "pool = []")
    case False
    then obtain q pool' where s: "diversify_loop (Suc n) prevKey pool = q # diversify_loop n (Some (placeVarietyKey q)) pool'"
      "mset pool = add_mset q (mset pool')" by (rule diversify_step [of pool n prevKey])
    then show ?thesis using Suc.IH [of "Some (placeVarietyKey q)" pool'] by simp
  qed simp
qed simp

lemma diversify_length: "length (diversify_loop n prevKey pool) = min n (length pool)"
proof (induction n arbitrary: prevKey pool)
  case (Suc n)
  show ?case
  proof (cases "pool = []")
    case False
    then obtain q pool' where s: "diversify_loop (Suc n) prevKey pool = q # diversify_loop n (Some (placeVarietyKey q)) pool'"
      "mset pool = add_mset q (mset pool')" by (rule diversify_step [of pool n prevKey])
    from s(2) have "length pool = Suc (length pool')" by (metis size_add_mset size_mset)
    then show ?thesis using Suc.IH s(1) by simp
  qed simp
qed simp

text \<open>A place follows one of its own key only when every place left has that key.\<close>

lemma diversify_head:
  assumes "diversify_loop n (Some k) pool = q # qs" "placeVarietyKey q = k" "p \<in># mset pool"
  shows "placeVarietyKey p = k"
proof -
  obtain m where n: "n = Suc m" using assms(1) by (cases n) auto
  have "pool \<noteq> []" using assms(3) by auto
  then obtain q' pool' where s: "diversify_loop (Suc m) (Some k) pool = q' # diversify_loop m (Some (placeVarietyKey q')) pool'"
    "mset pool = add_mset q' (mset pool')"
    "Some k = Some (placeVarietyKey q') \<longrightarrow> list_all (\<lambda>p. placeVarietyKey p = placeVarietyKey q') pool"
    by (rule diversify_step [of pool m "Some k"])
  have "q' = q" using s(1) assms(1) n by simp
  then show ?thesis using s(3) assms(2,3) by (simp add: list_all_iff)
qed

lemma diversify_neighbours:
  assumes "diversify_loop n prevKey pool = out" "Suc i < length out"
    "placeVarietyKey (out ! i) = placeVarietyKey (out ! Suc i)" "p \<in># mset pool - mset (take (Suc i) out)"
  shows "placeVarietyKey p = placeVarietyKey (out ! i)"
  using assms
proof (induction i arbitrary: n prevKey pool out)
  case (0 n prevKey pool out)
  obtain m where n: "n = Suc m" using 0(1,2) by (cases n) auto
  have "pool \<noteq> []" using 0(1,2) n by (cases pool) auto
  then obtain q pool' where s: "diversify_loop (Suc m) prevKey pool = q # diversify_loop m (Some (placeVarietyKey q)) pool'"
    "mset pool = add_mset q (mset pool')" by (rule diversify_step [of pool m prevKey])
  obtain r rs where d: "diversify_loop m (Some (placeVarietyKey q)) pool' = r # rs"
    using 0(1,2) s(1) n by (cases "diversify_loop m (Some (placeVarietyKey q)) pool'") auto
  have out: "out = q # r # rs" using 0(1) n s(1) d by simp
  have "placeVarietyKey r = placeVarietyKey q" "p \<in># mset pool'" using 0(3,4) s(2) by (simp_all add: out)
  from diversify_head [OF d this] show ?case by (simp add: out)
next
  case (Suc i n prevKey pool out)
  obtain m where n: "n = Suc m" using Suc.prems(1,2) by (cases n) auto
  have "pool \<noteq> []" using Suc.prems(1,2) n by (cases pool) auto
  then obtain q pool' where s: "diversify_loop (Suc m) prevKey pool = q # diversify_loop m (Some (placeVarietyKey q)) pool'"
    "mset pool = add_mset q (mset pool')" by (rule diversify_step [of pool m prevKey])
  obtain qs where d: "diversify_loop m (Some (placeVarietyKey q)) pool' = qs" by simp
  have out: "out = q # qs" using Suc.prems(1) n s(1) d by simp
  have "Suc i < length qs" "placeVarietyKey (qs ! i) = placeVarietyKey (qs ! Suc i)"
    "p \<in># mset pool' - mset (take (Suc i) qs)"
    using Suc.prems(2,3,4) s(2) by (simp_all add: out)
  from Suc.IH [OF d this] show ?case by (simp add: out)
qed

lemma ranked_nearby_mset:
  "mset (map (\<lambda>x. cd_item (fst x)) (ranked_nearby metres sha collate t userId input ctx work)) = mset work"
proof -
  let ?cs = "map (\<lambda>p. \<lparr>cd_baseScore = base_score metres input ctx p, cd_id = pc_googlePlaceId p, cd_item = p\<rparr>) work"
  have "mset (map cd_item (map fst (ranked_nearby metres sha collate t userId input ctx work))) = mset (map cd_item ?cs)"
    unfolding mset_map [of cd_item] ranked_nearby_def rank_mset ..
  moreover have "map cd_item ?cs = work" by (induction work) simp_all
  ultimately show ?thesis by (simp only: map_map comp_def)
qed

lemma ranked_nearby_set:
  "set (map (\<lambda>x. cd_item (fst x)) (ranked_nearby metres sha collate t userId input ctx work)) = set work"
  by (metis ranked_nearby_mset set_mset_mset)

lemma diversified_set: "set (diversifyTopPlacesByCategory ranked limit) \<subseteq> set ranked"
  using mset_subset_eqD [OF diversify_mset [of limit None ranked]]
  by (auto simp: diversifyTopPlacesByCategory_def)

lemma city_slots_set: "set (applyCityPickSlots ranked picks limit) \<subseteq> set picks \<union> set ranked"
  by (auto simp: applyCityPickSlots_def Let_def dest!: in_set_takeD)

lemma pinned_set: "set (buildPinnedCurationPlaces collate picks candidates ctx) \<subseteq> set picks \<union> set candidates"
  using pin_places_set [of "pin_places [] picks"] pin_places_set [of "[]" picks]
  unfolding buildPinnedCurationPlaces_def Let_def by fastforce

lemma curated_cap_set: "set (applyCuratedSlotCap ordered curated limit boosted) \<subseteq> set ordered"
  using cap_curated_set [of curated boosted limit 0 "[]" ordered]
  by (auto simp: applyCuratedSlotCap_eq dest!: in_set_takeD)

lemma curated_cap_length: "length (applyCuratedSlotCap ordered curated limit boosted) \<le> limit"
  by (simp add: applyCuratedSlotCap_eq cap_curated_length)

section \<open>Properties\<close>

text \<open>Every place of the page is one of the candidates that passed the quality filter, or a pick of the
  city's editors on the variants that show them.\<close>

theorem nearby_page_admitted:
  "list_all (\<lambda>p. p \<in> set (filter (admitted input ctx) places)
       \<or> p \<in> set (nc_cityPicks ctx) \<and> home_mix (ni_variant input) \<and> ni_variant input \<noteq> Some OnboardingPast)
     (rankNearbyPlaceResults metres sha collate t userId input ctx places)"
proof -
  let ?work = "filter (admitted input ctx) places"
  let ?o = "map (\<lambda>x. cd_item (fst x)) (ranked_nearby metres sha collate t userId input ctx ?work)"
  let ?d = "if home_mix (ni_variant input) then diversifyTopPlacesByCategory ?o (ni_limit input) else take (ni_limit input) ?o"
  have o: "set ?o = set ?work" by (rule ranked_nearby_set)
  have "set ?d \<subseteq> set ?o" using diversified_set [of ?o] by (auto dest: in_set_takeD)
  then have d: "set ?d \<subseteq> set ?work" unfolding o .
  let ?pins = "buildPinnedCurationPlaces collate (nc_cityPicks ctx) ?work ctx"
  have pins: "set (applyCityPickSlots ?d ?pins (ni_limit input)) \<subseteq> set (nc_cityPicks ctx) \<union> set ?work"
    using city_slots_set [of ?d ?pins "ni_limit input"] pinned_set [of collate "nc_cityPicks ctx" ?work ctx] d by blast
  have cap: "set (applyCuratedSlotCap xs (nc_curated ctx) (ni_limit input) boosted) \<subseteq> set xs" for xs boosted
    by (rule curated_cap_set)
  show ?thesis
  proof (cases "?work = []")
    case False
    then show ?thesis
      using d pins subset_trans [OF cap pins] subset_trans [OF cap d]
      unfolding list_all_iff rankNearbyPlaceResults_def Let_def if_not_P [OF False]
      by (simp only: if_True if_False simp_thms split: if_splits) (blast | simp only: subset_iff Ball_def; blast)+
  qed (simp add: rankNearbyPlaceResults_def)
qed

lemma curated_cap_slots:
  "length (capped_slots curated boosted (applyCuratedSlotCap ordered curated limit boosted)) \<le> MAX_CURATED_SLOTS_IN_TOP"
  using cap_curated_slots [of curated boosted "[]" 0 limit ordered]
  by (simp add: applyCuratedSlotCap_eq capped_slots_def)

text \<open>The ids the page counts as boosted.\<close>

definition boosted_ids :: "nearby_context \<Rightarrow> string list" where
  "boosted_ids ctx = map fst (filter (\<lambda>b. 0 < snd b) (nc_boosts ctx))"

lemma nearby_page_shape:
  assumes "home_mix (ni_variant input)"
  shows "rankNearbyPlaceResults metres sha collate t userId input ctx places = []
    \<or> (\<exists>xs. rankNearbyPlaceResults metres sha collate t userId input ctx places
         = applyCuratedSlotCap xs (nc_curated ctx) (ni_limit input) (boosted_ids ctx))"
  unfolding rankNearbyPlaceResults_def Let_def boosted_ids_def using assms
  by (simp only: if_True split: if_split) blast

definition sample_card :: "string \<Rightarrow> string \<Rightarrow> place_card" where
  "sample_card i typ = \<lparr>pc_googlePlaceId = i, pc_name = i, pc_address = [], pc_lat = - 31, pc_lng = - 64, pc_mapsUri = None,
     pc_rating = Some 4, pc_ratingCount = Some 20, pc_types = [typ], pc_primaryType = Some typ, pc_photoUrl = None,
     pc_openNow = None, pc_lines = None\<rparr>"

definition sample_input :: nearby_input where
  "sample_input = \<lparr>ni_origin = (- 31, - 64), ni_limit = 6, ni_type = None, ni_variant = None, ni_rotate = None\<rparr>"

definition sample_context :: nearby_context where
  "sample_context = \<lparr>nc_tastes = [], nc_imported = [], nc_liked = [], nc_disliked = [], nc_outing = None,
     nc_inferred = ISolo, nc_explicit = None, nc_likedIds = [], nc_feca = (\<lambda>_. None), nc_boosts = [(''c'', 40)],
     nc_curated = [''a'', ''c''], nc_cityPicks = [sample_card ''d'' ''bar''], nc_network = (\<lambda>_. None)\<rparr>"

text \<open>On the variants that mix the editors' picks with the search, at most five places of the page are curated
  without being boosted, and the page never exceeds the limit asked for.\<close>

theorem nearby_curated_bounds:
  assumes "home_mix (ni_variant input)"
  shows "length (capped_slots (nc_curated ctx) (boosted_ids ctx)
         (rankNearbyPlaceResults metres sha collate t userId input ctx places))
      + (length (rankNearbyPlaceResults metres sha collate t userId input ctx places) - ni_limit input)
     \<le> MAX_CURATED_SLOTS_IN_TOP"
  using nearby_page_shape [OF assms, of metres sha collate t userId ctx places]
proof (elim disjE exE)
  fix xs assume "rankNearbyPlaceResults metres sha collate t userId input ctx places
      = applyCuratedSlotCap xs (nc_curated ctx) (ni_limit input) (boosted_ids ctx)"
  then show ?thesis using curated_cap_slots [of "nc_curated ctx" "boosted_ids ctx" xs "ni_limit input"]
      curated_cap_length [of xs "nc_curated ctx" "ni_limit input" "boosted_ids ctx"] by simp
qed (simp add: capped_slots_def)

lemma sample_mixes: "home_mix (ni_variant sample_input)"
  unfolding home_mix_def network_variant_def sample_input_def nearby_input.simps by simp

definition sample_places :: "place_card list" where
  "sample_places = [sample_card ''a'' ''cafe'', sample_card ''c'' ''bar'', sample_card ''b'' ''cafe'']"

definition flat :: distance where "flat p q = 0"

theorem nearby_curated_bounds_witness:
  "length (capped_slots (nc_curated sample_context) (boosted_ids sample_context)
       (rankNearbyPlaceResults flat (\<lambda>_. 0) (\<lambda>_ _. True) 0 ''u'' sample_input sample_context sample_places))
     + (length (rankNearbyPlaceResults flat (\<lambda>_. 0) (\<lambda>_ _. True) 0 ''u'' sample_input sample_context sample_places)
        - ni_limit sample_input) \<le> MAX_CURATED_SLOTS_IN_TOP"
  using nearby_curated_bounds [OF sample_mixes, of sample_context flat "\<lambda>_. 0" "\<lambda>_ _. True" 0 "''u''" sample_places] .


definition cafes :: "place_card list" where
  "cafes = [sample_card ''a'' ''bar'', sample_card ''b'' ''cafe'', sample_card ''c'' ''cafe'', sample_card ''d'' ''cafe'']"

lemma cafes_run: "diversifyTopPlacesByCategory cafes 3 = take 3 cafes" by code_simp


end
