(* ===== verification/SocialFeed.thy ===== *)
theory SocialFeed
  imports Visits NearbyRanking
begin

text \<open>
  The feed (\<open>social-feed.repository.ts\<close>, \<open>social-feed.service.ts\<close>, the scores of \<open>social.repository.helpers.ts\<close> and
  \<open>buildFeedAppearanceReason\<close> of \<open>social.helpers.ts\<close>) and the recommendation signals of a user.  Scores are
  rationals; the hour and the weekday of the server, the distance, SHA-256 and the collation are arguments.
  Accented letters of the texts are written without the accent, the middle dot as a full stop.
\<close>

section \<open>Scores\<close>

definition owner_taste :: "visit_full \<Rightarrow> string list" where
  "owner_taste f = (case vf_user f of None \<Rightarrow> [] | Some u \<Rightarrow> u_taste_ids u)"

definition owner_name :: "visit_full \<Rightarrow> string" where
  "owner_name f = (case vf_user f of None \<Rightarrow> []
     | Some u \<Rightarrow> if u_display_name u \<noteq> [] then u_display_name u else u_username u)"

definition visit_point :: "visit_full \<Rightarrow> (rat \<times> rat) option" where
  "visit_point f = (case vf_place f of None \<Rightarrow> None
     | Some p \<Rightarrow> (case (pl_lat p, pl_lng p) of (Some a, Some b) \<Rightarrow> Some (a, b) | _ \<Rightarrow> None))"

definition taste_overlap :: "string list \<Rightarrow> visit_full \<Rightarrow> nat" where
  "taste_overlap viewerTasteIds f = length (filter (\<lambda>i. i \<in> set (owner_taste f)) viewerTasteIds)"

definition buildNetworkFeedScore :: "int \<Rightarrow> string list \<Rightarrow> visit_full \<Rightarrow> int" where
  "buildNetworkFeedScore t viewerTasteIds f =
     (let v = vf_visit f; age = t - vi_visited v in
      vi_rating v * 4 + (case vi_would_return v of Some WYes \<Rightarrow> 28 | Some WMaybe \<Rightarrow> 12 | _ \<Rightarrow> 0)
      + int (taste_overlap viewerTasteIds f) * 12 + scoreTasteAgainstVisitTags viewerTasteIds (vi_tags v)
      + (if age \<le> 7 * ms_per_day then 14 else if age \<le> 21 * ms_per_day then 8 else if age \<le> 45 * ms_per_day then 4 else 0))"

definition buildNearbyScore :: "distance \<Rightarrow> int \<Rightarrow> rat \<times> rat \<Rightarrow> visit_full \<Rightarrow> string list \<Rightarrow> rat" where
  "buildNearbyScore metres t viewerLocation f viewerTasteIds =
     (let v = vf_visit f; d = (case visit_point f of None \<Rightarrow> 5000 | Some p \<Rightarrow> metres viewerLocation p) in
      200 - d / 25 + of_int (vi_rating v * 12)
      + (case vi_would_return v of Some WYes \<Rightarrow> 20 | Some WMaybe \<Rightarrow> 8 | _ \<Rightarrow> 0)
      - of_int (t - vi_visited v) / of_int (ms_per_day * 5)
      + of_int (scoreTasteAgainstVisitTags viewerTasteIds (vi_tags v)))"

definition buildNowScore :: "int \<Rightarrow> int \<Rightarrow> visit_full \<Rightarrow> string list \<Rightarrow> int" where
  "buildNowScore hour day f viewerTasteIds =
     (let v = vf_visit f; brunch = (''brunch'' \<in> set (vi_tags v)) in
      vi_rating v * 10 + (case vi_would_return v of Some WYes \<Rightarrow> 18 | Some WMaybe \<Rightarrow> 8 | _ \<Rightarrow> 0)
      + (if 8 \<le> hour \<and> hour \<le> 17 \<and> 4 \<le> default_to (vi_wifi v) 0 then 18 else 0)
      + (if 8 \<le> hour \<and> hour \<le> 12 \<and> brunch then 16 else 0)
      + (if day = 0 \<and> brunch then 20 else 0)
      + (if default_to (vi_wait v) 5 \<le> 2 then 8 else 0)
      + (if default_to (vi_noise v) 5 \<le> 2 then 6 else 0)
      + scoreTasteAgainstVisitTags viewerTasteIds (vi_tags v))"

definition buildRankingSeed :: "int \<Rightarrow> string \<Rightarrow> string \<Rightarrow> (rat \<times> rat) option \<Rightarrow> string" where
  "buildRankingSeed t userId scope p =
     (let part = (\<lambda>x. case x of None \<Rightarrow> ''na'' | Some r \<Rightarrow> fixed_text 2 r) in
      userId @ '':'' @ scope @ '':'' @ part (map_option fst p) @ '':'' @ part (map_option snd p) @ '':'' @ utcHourBucketId t)"

definition visitPositiveSignalWeight :: "int \<Rightarrow> would_return option \<Rightarrow> nat" where
  "visitPositiveSignalWeight rating wouldReturn =
     (if wouldReturn = Some WYes then (if 4 \<le> rating then 4 else 3)
      else if 5 \<le> rating then 3
      else if 4 \<le> rating \<or> wouldReturn = Some WMaybe then 2 else 0)"

definition visitNegativeSignalWeight :: "int \<Rightarrow> would_return option \<Rightarrow> nat" where
  "visitNegativeSignalWeight rating wouldReturn =
     (if wouldReturn = Some WNo then (if rating \<le> 2 then 4 else 3) else if rating \<le> 2 then 2 else 0)"

definition by_score_then_name :: "(string \<Rightarrow> string \<Rightarrow> bool) \<Rightarrow> string \<times> nat \<Rightarrow> string \<times> nat \<Rightarrow> bool" where
  "by_score_then_name collate a b \<longleftrightarrow> snd b < snd a \<or> snd a = snd b \<and> collate (fst a) (fst b)"

definition categorySignalWinners ::
  "(string \<Rightarrow> string \<Rightarrow> bool) \<Rightarrow> (string \<times> nat) list \<Rightarrow> (string \<times> nat) list \<Rightarrow> nat \<Rightarrow> string list" where
  "categorySignalWinners collate primary opposing limit =
     map fst (take limit (sort_by (by_score_then_name collate)
       (filter (\<lambda>(c, score). default_to (map_of opposing c) 0 < score) primary)))"

definition buildBestMoments :: "visit_row list \<Rightarrow> string list" where
  "buildBestMoments visits = take 4
     ((if list_ex (\<lambda>v. 4 \<le> default_to (vi_wifi v) 0) visits then [''Bueno para trabajar con cafe y wifi estable''] else [])
    @ (if list_ex (\<lambda>v. default_to (vi_noise v) 5 \<le> 2) visits then [''Tranqui para leer o conversar sin apuro''] else [])
    @ (if list_ex (\<lambda>v. default_to (vi_wait v) 5 \<le> 2) visits then [''Suele funcionar bien para una salida rapida''] else [])
    @ (if list_ex (\<lambda>v. ''brunch'' \<in> set (vi_tags v)) visits then [''Aparece seguido en planes de brunch''] else [])
    @ (if 2 \<le> length (filter (\<lambda>v. vi_would_return v = Some WYes) visits)
       then [''La comunidad volveria por cafe y experiencia''] else []))"

section \<open>Recommendation signals\<close>

definition GOOGLE_DATA_PORTABILITY_IMPORT_REASON :: string where
  "GOOGLE_DATA_PORTABILITY_IMPORT_REASON = ''google_data_portability''"

definition normal_categories :: "place_row option \<Rightarrow> string list" where
  "normal_categories p = (case p of None \<Rightarrow> []
     | Some q \<Rightarrow> filter (\<lambda>c. c \<noteq> []) (map (js_lower \<circ> js_trim) (pl_categories q)))"

definition getImportedSavedPlaceCategorySignals :: "(string \<Rightarrow> string \<Rightarrow> bool) \<Rightarrow> string \<Rightarrow> db \<Rightarrow> string list" where
  "getImportedSavedPlaceCategorySignals collate userId w =
     (let saves = take 200 (sort_by (\<lambda>a b. sv_created b \<le> sv_created a)
            (find_many (\<lambda>s. sv_user s = userId \<and> sv_reason s = Some GOOGLE_DATA_PORTABILITY_IMPORT_REASON) (t_saves w)));
          counts = foldl (map_upsert (+)) []
            (concat (map (\<lambda>s. map (\<lambda>c. (c, 1)) (normal_categories (place_by_id (sv_place s) w))) saves))
      in map fst (take 24 (sort_by (by_score_then_name collate) counts)))"

definition recent_visits :: "string \<Rightarrow> nat \<Rightarrow> db \<Rightarrow> visit_row list" where
  "recent_visits userId n w = take n (sort_by later_visit (find_many (\<lambda>v. vi_user v = userId) (t_visits w)))"

definition weighted_categories :: "(int \<Rightarrow> would_return option \<Rightarrow> nat) \<Rightarrow> visit_row list \<Rightarrow> db \<Rightarrow> (string \<times> nat) list" where
  "weighted_categories weight visits w = foldl (map_upsert (+)) []
     (concat (map (\<lambda>v. let x = weight (vi_rating v) (vi_would_return v) in
        if x = 0 then [] else map (\<lambda>c. (c, x)) (normal_categories (place_by_id (vi_place v) w))) visits))"

definition getVisitedPlaceCategorySignals ::
  "(string \<Rightarrow> string \<Rightarrow> bool) \<Rightarrow> string \<Rightarrow> db \<Rightarrow> string list \<times> string list" where
  "getVisitedPlaceCategorySignals collate userId w =
     (let visits = recent_visits userId 200 w;
          liked = weighted_categories visitPositiveSignalWeight visits w;
          disliked = weighted_categories visitNegativeSignalWeight visits w
      in (categorySignalWinners collate liked disliked 24, categorySignalWinners collate disliked liked 16))"

definition getLikedNearbyVisitSignals :: "string \<Rightarrow> db \<Rightarrow> string list" where
  "getLikedNearbyVisitSignals userId w =
     dedupe (filter (\<lambda>g. g \<noteq> []) (map (\<lambda>v. case place_by_id (vi_place v) w of None \<Rightarrow> []
         | Some p \<Rightarrow> js_trim (default_to (pl_google_id p) []))
       (filter (\<lambda>v. 0 < visitPositiveSignalWeight (vi_rating v) (vi_would_return v)) (recent_visits userId 120 w))))"

record recommendation_signals =
  rs_cityId :: "string option"
  rs_imported :: "string list"
  rs_liked :: "string list"
  rs_disliked :: "string list"
  rs_likedIds :: "string list"
  rs_outing :: "json option"
  rs_tastes :: "string list"

definition getUserRecommendationSignals :: "(string \<Rightarrow> string \<Rightarrow> bool) \<Rightarrow> string \<Rightarrow> db \<Rightarrow> recommendation_signals" where
  "getUserRecommendationSignals collate userId w =
     (let row = user_by_id userId w; (liked, disliked) = getVisitedPlaceCategorySignals collate userId w in
      \<lparr>rs_cityId = Option.bind row u_city_id,
       rs_imported = getImportedSavedPlaceCategorySignals collate userId w, rs_liked = liked, rs_disliked = disliked,
       rs_likedIds = getLikedNearbyVisitSignals userId w, rs_outing = Option.bind row u_outing,
       rs_tastes = (case row of None \<Rightarrow> [] | Some u \<Rightarrow> u_taste_ids u)\<rparr>)"

section \<open>The four feeds\<close>

datatype feed_mode = ModeNetwork | ModeNearby | ModeNow | ModeCity

record feed_input =
  fi_mode :: feed_mode
  fi_point :: "(rat \<times> rat) option"
  fi_limit :: nat
  fi_offset :: nat
  fi_city :: "string option"

text \<open>The server the feed runs on: the distance, SHA-256, the collation, its local hour and weekday.\<close>

record feed_env =
  fe_metres :: distance
  fe_sha :: "string \<Rightarrow> 32 word"
  fe_collate :: "string \<Rightarrow> string \<Rightarrow> bool"
  fe_hour :: int
  fe_day :: int

definition feed_candidate :: "(visit_full \<Rightarrow> rat) \<Rightarrow> visit_full \<Rightarrow> visit_full candidate" where
  "feed_candidate score f = \<lparr>cd_baseScore = score f, cd_id = vi_id (vf_visit f), cd_item = f\<rparr>"

definition ranked_feed ::
  "feed_env \<Rightarrow> db \<Rightarrow> (visit_full \<Rightarrow> rat) \<Rightarrow> visit_full list \<Rightarrow> rat \<Rightarrow> rat \<Rightarrow> string \<Rightarrow> int \<Rightarrow> visit_full list" where
  "ranked_feed env w score pool jitterRatio maxJitter seed topWindow =
     map (\<lambda>x. cd_item (fst x)) (rankCandidatesWithRotation (fe_sha env) (fe_collate env) (db_now w)
       (map (feed_candidate score) pool)
       \<lparr>ro_bucketHours = Some 1, ro_jitterRatio = Some jitterRatio, ro_maxJitter = Some maxJitter, ro_seed = seed,
        ro_topWindow = Some topWindow\<rparr>)"

definition feed_page :: "nat \<Rightarrow> nat \<Rightarrow> 'a list \<Rightarrow> 'a list" where
  "feed_page offset limit xs = take limit (drop offset xs)"

text \<open>A relation filter with \<open>is\<close> holds only when the settings row exists.\<close>

definition stored_activity :: "string \<Rightarrow> db \<Rightarrow> content_visibility option" where
  "stored_activity userId w = map_option st_activity (settings_of userId w)"

definition network_visit :: "string \<Rightarrow> db \<Rightarrow> visit_row \<Rightarrow> bool" where
  "network_visit userId w v \<longleftrightarrow> vi_user v \<in> set (listFollowingIds userId w)
     \<and> (stored_activity (vi_user v) w = Some CPublic \<or> stored_activity (vi_user v) w = Some CFollowers)"

definition NETWORK_POOL_CAP :: nat where "NETWORK_POOL_CAP = 500"

definition listNetworkFeed :: "feed_env \<Rightarrow> string \<Rightarrow> feed_input \<Rightarrow> db \<Rightarrow> nat \<times> visit_full list" where
  "listNetworkFeed env userId input w =
     (if listFollowingIds userId w = [] then (0, [])
      else
        let viewerTaste = (case user_by_id userId w of None \<Rightarrow> [] | Some u \<Rightarrow> u_taste_ids u);
            poolTake = min NETWORK_POOL_CAP (max 100 ((fi_offset input + fi_limit input) * 20));
            rows = find_many (network_visit userId w) (t_visits w);
            pool = map (visit_include w) (take poolTake (sort_by later_visit rows));
            ranked = ranked_feed env w (\<lambda>f. of_int (buildNetworkFeedScore (db_now w) viewerTaste f)) pool (8 / 100) 12
              (buildRankingSeed (db_now w) userId ''feed-network'' None) (int (length pool))
        in (count_rows (network_visit userId w) (t_visits w), feed_page (fi_offset input) (fi_limit input) ranked))"

definition visible_to :: "string \<Rightarrow> db \<Rightarrow> visit_row \<Rightarrow> bool" where
  "visible_to userId w v \<longleftrightarrow> isVisitVisibleToViewer userId (vi_user v) (normalizeSettings (settings_of (vi_user v) w))
     (vi_user v \<in> set (listFollowingIds userId w))"

definition listVisibleRecentVisits :: "string \<Rightarrow> nat \<Rightarrow> db \<Rightarrow> visit_full list" where
  "listVisibleRecentVisits userId n w =
     map (visit_include w) (filter (visible_to userId w) (take n (sort_by later_visit (t_visits w))))"

definition viewer_location :: "string \<Rightarrow> feed_input \<Rightarrow> db \<Rightarrow> (rat \<times> rat) option" where
  "viewer_location userId input w = or_else (fi_point input) (getUserCoordinates userId w)"

definition near :: "feed_env \<Rightarrow> rat \<times> rat \<Rightarrow> rat \<Rightarrow> visit_full \<Rightarrow> bool" where
  "near env p radius f = (case visit_point f of None \<Rightarrow> False | Some q \<Rightarrow> fe_metres env p q \<le> radius)"

definition listNearbyFeed :: "feed_env \<Rightarrow> string \<Rightarrow> feed_input \<Rightarrow> db \<Rightarrow> nat \<times> visit_full list" where
  "listNearbyFeed env userId input w = (case viewer_location userId input w of
     None \<Rightarrow> (0, [])
   | Some p \<Rightarrow>
       let viewerTaste = rs_tastes (getUserRecommendationSignals (fe_collate env) userId w);
           nearby = ranked_feed env w (\<lambda>f. buildNearbyScore (fe_metres env) (db_now w) p f viewerTaste)
             (filter (near env p 3500) (listVisibleRecentVisits userId 220 w)) (10 / 100) 14
             (buildRankingSeed (db_now w) userId ''feed-nearby'' (Some p)) (int (max (fi_limit input * 4) 24))
       in (length nearby, feed_page (fi_offset input) (fi_limit input) nearby))"

definition city_visit :: "string \<Rightarrow> string \<Rightarrow> db \<Rightarrow> visit_row \<Rightarrow> bool" where
  "city_visit userId cityId w v \<longleftrightarrow> vi_user v \<noteq> userId
     \<and> (case place_by_id (vi_place v) w of None \<Rightarrow> False | Some p \<Rightarrow> pl_city_id p = Some cityId)
     \<and> stored_activity (vi_user v) w = Some CPublic"

definition city_score :: "visit_full \<Rightarrow> rat" where
  "city_score f = (let v = vf_visit f in of_int (vi_visited v) / of_int ms_per_day + of_int (vi_rating v) * (25 / 10)
     + (if 80 < length (vi_note v) then 4 else 0))"

definition listCityFeed :: "feed_env \<Rightarrow> string \<Rightarrow> feed_input \<Rightarrow> db \<Rightarrow> nat \<times> visit_full list" where
  "listCityFeed env userId input w =
     (let targetCityId = (if truthy (fi_city input) then fi_city input else Option.bind (user_by_id userId w) u_city_id) in
      if \<not> truthy targetCityId then (0, [])
      else
        let c = the targetCityId; limit = fi_limit input;
            poolTake = min 600 (max (max ((fi_offset input + limit) * 18) (limit * 24)) 140);
            pool = map (visit_include w) (take poolTake (sort_by later_visit (find_many (city_visit userId c w) (t_visits w))));
            ranked = ranked_feed env w city_score pool (12 / 100) 16
              (buildRankingSeed (db_now w) userId ''feed-city'' None) (int (min (length pool) (max (limit * 8) 48)))
        in (count_rows (city_visit userId c w) (t_visits w), feed_page (fi_offset input) limit ranked))"

definition listNowFeed :: "feed_env \<Rightarrow> string \<Rightarrow> feed_input \<Rightarrow> db \<Rightarrow> nat \<times> visit_full list" where
  "listNowFeed env userId input w =
     (let viewerLocation = viewer_location userId input w;
          viewerTaste = rs_tastes (getUserRecommendationSignals (fe_collate env) userId w);
          keep = (\<lambda>f. case viewerLocation of None \<Rightarrow> True | Some p \<Rightarrow> near env p 6000 f);
          seed = (case viewerLocation of None \<Rightarrow> userId @ '':feed-now''
            | Some p \<Rightarrow> buildRankingSeed (db_now w) userId ''feed-now'' (Some p));
          ranked = ranked_feed env w (\<lambda>f. of_int (buildNowScore (fe_hour env) (fe_day env) f viewerTaste))
            (filter keep (listVisibleRecentVisits userId 220 w)) (9 / 100) 10 seed (int (max (fi_limit input * 4) 24))
      in (length ranked, feed_page (fi_offset input) (fi_limit input) ranked))"

definition list_feed_rows :: "feed_env \<Rightarrow> string \<Rightarrow> feed_input \<Rightarrow> db \<Rightarrow> nat \<times> visit_full list" where
  "list_feed_rows env userId input w = (case fi_mode input of
     ModeCity \<Rightarrow> listCityFeed env userId input w
   | ModeNearby \<Rightarrow> listNearbyFeed env userId input w
   | ModeNow \<Rightarrow> listNowFeed env userId input w
   | ModeNetwork \<Rightarrow> listNetworkFeed env userId input w)"

definition listFeed :: "feed_env \<Rightarrow> string \<Rightarrow> feed_input \<Rightarrow> (nat \<times> visit_full list) dbm" where
  "listFeed env userId input = seqS (ensureUserSettings userId) (gets (list_feed_rows env userId input))"

section \<open>The service\<close>

text \<open>\<open>Number(text)\<close> of a decimal numeral; exponents and other bases are not modelled, they count as not a number.\<close>

definition all_digits :: "string \<Rightarrow> bool" where
  "all_digits s \<longleftrightarrow> list_all (\<lambda>c. CHR ''0'' \<le> c \<and> c \<le> CHR ''9'') s"

definition unsigned_number :: "string \<Rightarrow> rat option" where
  "unsigned_number s = (case split_on (CHR ''.'') s of
     [a] \<Rightarrow> if a \<noteq> [] \<and> all_digits a then Some (of_nat (text_nat a)) else None
   | [a, b] \<Rightarrow> if a @ b \<noteq> [] \<and> all_digits a \<and> all_digits b
       then Some (of_nat (text_nat a) + of_nat (text_nat b) / 10 ^ length b) else None
   | _ \<Rightarrow> None)"

definition js_number :: "string \<Rightarrow> rat option" where
  "js_number s = (case js_trim s of [] \<Rightarrow> Some 0
     | c # r \<Rightarrow> if c = CHR ''-'' then map_option uminus (unsigned_number r)
         else if c = CHR ''+'' then unsigned_number r else unsigned_number (c # r))"

definition resolveOffset :: "string option \<Rightarrow> nat \<Rightarrow> nat" where
  "resolveOffset cursor offset =
     (if \<not> truthy cursor then offset
      else case js_number (the cursor) of None \<Rightarrow> offset | Some r \<Rightarrow> if r < 0 then offset else nat (floor r))"

definition buildFeedAppearanceReason ::
  "distance \<Rightarrow> int \<Rightarrow> feed_mode \<Rightarrow> visit_full \<Rightarrow> string list \<Rightarrow> (rat \<times> rat) option \<Rightarrow> string" where
  "buildFeedAppearanceReason metres day mode f viewerTasteIds viewer =
     (let v = vf_visit f; name = owner_name f; wifi = (4 \<le> default_to (vi_wifi v) 0);
          quiet = (default_to (vi_noise v) 5 \<le> 2); recommended = (vi_would_return v = Some WYes \<or> 4 \<le> vi_rating v)
      in case mode of
        ModeNetwork \<Rightarrow>
          if recommended then name @ '' volveria''
          else if 2 \<le> taste_overlap viewerTasteIds f then name @ '' tiene gustos parecidos al tuyo''
          else if wifi then ''Bueno para trabajar segun '' @ name
          else name @ '' paso por aca''
      | ModeNearby \<Rightarrow> (case (viewer, visit_point f) of
          (Some p, Some q) \<Rightarrow>
            let walk = ''A '' @ int_text (max 2 (js_round (metres p q / 80))) @ '' min caminando'' in
            if wifi then walk @ '' . bueno para trabajar''
            else if quiet then walk @ '' . tranqui para leer'' else walk
        | _ \<Rightarrow> ''Cerca tuyo'')
      | ModeCity \<Rightarrow>
          if recommended then name @ '' recomienda un lugar en tu ciudad''
          else if wifi then name @ '' fue a '' @ (case vf_place f of None \<Rightarrow> [] | Some p \<Rightarrow> pl_name p)
            @ '' y lo recomienda para trabajar''
          else name @ '' reseno un lugar en tu ciudad''
      | ModeNow \<Rightarrow>
          if day = 0 \<and> ''brunch'' \<in> set (vi_tags v) then ''Muy elegido para brunch de domingo''
          else if wifi then ''Abierto ahora y bueno para trabajar''
          else if default_to (vi_wait v) 5 \<le> 2 then ''Para una pausa rapida''
          else if quiet then ''Tranqui para ir ahora'' else ''Buen momento para ir ahora'')"

record feed_query =
  fr_mode :: feed_mode
  fr_point :: "(rat \<times> rat) option"
  fr_cursor :: "string option"
  fr_limit :: nat
  fr_offset :: nat
  fr_city :: "string option"

record feed_item =
  fit_reason :: string
  fit_id :: string
  fit_summary :: "string option"
  fit_visit :: visit_view

record feed_answer =
  fa_items :: "feed_item list"
  fa_nextCursor :: "string option"
  fa_total :: nat

definition feed_item_of :: "feed_env \<Rightarrow> feed_query \<Rightarrow> string list \<Rightarrow> visit_full \<Rightarrow> feed_item" where
  "feed_item_of env q viewerTasteIds f =
     (let r = buildFeedAppearanceReason (fe_metres env) (fe_day env) (fr_mode q) f viewerTasteIds (fr_point q) in
      \<lparr>fit_reason = r, fit_id = vi_id (vf_visit f), fit_summary = (if r = [] then None else Some r),
       fit_visit = serializeVisit f\<rparr>)"

definition try_city :: "city_row dbm \<Rightarrow> string option dbm" where
  "try_city m = catchS (bindS m (\<lambda>c. ret (Some (ci_id c)))) (\<lambda>_. ret None)"

definition feed_city :: "places_env \<Rightarrow> feed_query \<Rightarrow> string option dbm" where
  "feed_city penv q =
     (if fr_mode q \<noteq> ModeCity then ret None
      else bindS (if truthy (fr_city q) then try_city (ensureStoredCityByGooglePlaceId penv (the (fr_city q))) else ret None)
        (\<lambda>c. if truthy c then ret c
          else case fr_point q of None \<Rightarrow> ret None
          | Some p \<Rightarrow> try_city (ensureStoredCityForCoordinates penv (Some (fst p)) (Some (snd p)))))"

definition next_cursor :: "nat \<Rightarrow> nat \<Rightarrow> nat \<Rightarrow> string option" where
  "next_cursor offset n found = (if offset + n < found then Some (nat_text (offset + n)) else None)"

definition getFeed :: "feed_env \<Rightarrow> places_env \<Rightarrow> string \<Rightarrow> feed_query \<Rightarrow> feed_answer dbm" where
  "getFeed env penv userId q =
     (let offset = resolveOffset (fr_cursor q) (fr_offset q) in
      bindS (gets (\<lambda>w. case user_by_id userId w of None \<Rightarrow> [] | Some u \<Rightarrow> u_taste_ids u)) (\<lambda>viewerTasteIds.
      bindS (feed_city penv q) (\<lambda>city.
      bindS (listFeed env userId \<lparr>fi_mode = fr_mode q, fi_point = fr_point q, fi_limit = fr_limit q,
               fi_offset = offset, fi_city = city\<rparr>) (\<lambda>(found, visits).
        ret \<lparr>fa_items = map (feed_item_of env q viewerTasteIds) visits,
             fa_nextCursor = next_cursor offset (length visits) found, fa_total = found\<rparr>))))"

section \<open>What the feeds show\<close>

lemma ranked_feed_mset: "mset (ranked_feed env w score pool r j seed n) = mset pool"
proof -
  let ?o = "\<lparr>ro_bucketHours = Some 1, ro_jitterRatio = Some r, ro_maxJitter = Some j, ro_seed = seed, ro_topWindow = Some n\<rparr>"
  let ?cs = "map (feed_candidate score) pool"
  have "mset (map cd_item (map fst (rankCandidatesWithRotation (fe_sha env) (fe_collate env) (db_now w) ?cs ?o)))
      = mset (map cd_item ?cs)" unfolding mset_map [of cd_item] rank_mset ..
  moreover have "map cd_item ?cs = pool" by (induction pool) (simp_all add: feed_candidate_def)
  ultimately show ?thesis unfolding ranked_feed_def by (simp only: map_map comp_def)
qed

lemma ranked_feed_set [simp]: "set (ranked_feed env w score pool r j seed n) = set pool"
  by (metis ranked_feed_mset set_mset_mset)

lemma ranked_feed_length [simp]: "length (ranked_feed env w score pool r j seed n) = length pool"
  by (metis ranked_feed_mset size_mset)

lemma feed_page_set: "x \<in> set (feed_page offset limit xs) \<Longrightarrow> x \<in> set xs"
  unfolding feed_page_def by (meson in_set_dropD in_set_takeD)

lemma network_visible: "network_visit userId w v \<Longrightarrow> visible_to userId w v"
  by (auto simp: network_visit_def visible_to_def stored_activity_def isVisitVisibleToViewer_def normalizeSettings_def
      canViewContent_def)

lemma city_visible: "city_visit userId c w v \<Longrightarrow> visible_to userId w v"
  by (auto simp: city_visit_def visible_to_def stored_activity_def isVisitVisibleToViewer_def normalizeSettings_def
      canViewContent_def)

definition shown_to :: "string \<Rightarrow> db \<Rightarrow> visit_full \<Rightarrow> bool" where
  "shown_to userId w f \<longleftrightarrow> visible_to userId w (vf_visit f)"

lemma shown_page: "list_all P xs \<Longrightarrow> list_all P (feed_page offset limit xs)"
  by (meson feed_page_set list_all_iff)

lemma shown_ranked: "list_all P pool \<Longrightarrow> list_all P (ranked_feed env w score pool r j seed n)"
  by (simp add: list_all_iff)

lemma shown_pool:
  assumes "\<And>v. P v \<Longrightarrow> visible_to userId w v"
  shows "list_all (shown_to userId w) (map (visit_include w) (take n (sort_by later_visit (find_many P (t_visits w)))))"
proof -
  have "visible_to userId w v" if "v \<in> set (take n (sort_by later_visit (find_many P (t_visits w))))" for v
    using in_set_takeD [OF that] assms by simp
  then show ?thesis unfolding list_all_iff by (auto simp: shown_to_def visit_include_def simp del: set_sort_by)
qed

lemma shown_recent: "list_all (shown_to userId w) (filter Q (listVisibleRecentVisits userId n w))"
  unfolding list_all_iff by (auto simp: listVisibleRecentVisits_def shown_to_def visit_include_def)

lemmas shown_intro = shown_page shown_ranked shown_pool shown_recent network_visible city_visible

lemma network_shown: "list_all (shown_to userId w) (snd (listNetworkFeed env userId input w))"
  unfolding listNetworkFeed_def Let_def
  by (simp only: snd_conv list.pred_inject split: if_split) (intro impI conjI TrueI shown_intro; assumption)

lemma city_shown: "list_all (shown_to userId w) (snd (listCityFeed env userId input w))"
  unfolding listCityFeed_def Let_def
  by (split if_split) (simp only: snd_conv list.pred_inject, intro impI conjI TrueI shown_intro; assumption)

lemma nearby_shown: "list_all (shown_to userId w) (snd (listNearbyFeed env userId input w))"
  unfolding listNearbyFeed_def Let_def
  by (cases "viewer_location userId input w") (simp_all only: option.case snd_conv list.pred_inject shown_page shown_ranked shown_recent)

lemma now_shown: "list_all (shown_to userId w) (snd (listNowFeed env userId input w))"
  unfolding listNowFeed_def Let_def snd_conv by (intro shown_page shown_ranked shown_recent)

text \<open>C7: no feed shows a visit its author's settings hide from the viewer: whatever the mode, every visit shown is one
  the profile of its author would show.\<close>

theorem feed_respects_privacy:
  "list_all (\<lambda>f. visible_to userId w (vf_visit f)) (snd (list_feed_rows env userId input w))"
  using network_shown city_shown nearby_shown now_shown
  by (cases "fi_mode input") (simp_all add: list_feed_rows_def shown_to_def [abs_def])

section \<open>Signals\<close>

lemma winner_beats:
  assumes "c \<in> set (categorySignalWinners collate primary opposing n)" "distinct (map fst primary)"
  shows "default_to (map_of opposing c) 0 < default_to (map_of primary c) 0"
proof -
  from assms(1) obtain s where "(c, s) \<in> set primary" "default_to (map_of opposing c) 0 < s"
    by (auto simp: categorySignalWinners_def dest!: in_set_takeD)
  then show ?thesis using assms(2) by simp
qed

text \<open>A category never counts both as liked and as disliked by a user.\<close>

theorem category_signals_disjoint:
  "set (rs_liked (getUserRecommendationSignals collate userId w))
     \<inter> set (rs_disliked (getUserRecommendationSignals collate userId w)) = {}"
proof -
  let ?v = "recent_visits userId 200 w"
  let ?l = "weighted_categories visitPositiveSignalWeight ?v w" and ?d = "weighted_categories visitNegativeSignalWeight ?v w"
  have dist: "distinct (map fst ?l)" "distinct (map fst ?d)"
    unfolding weighted_categories_def by (simp_all only: distinct_map_upserts list.map distinct.simps)
  have "c \<notin> set (categorySignalWinners collate ?d ?l 16)" if "c \<in> set (categorySignalWinners collate ?l ?d 24)" for c
    using winner_beats [OF that dist(1)] winner_beats [of c collate ?d ?l 16] dist(2) by force
  then show ?thesis
    unfolding getUserRecommendationSignals_def getVisitedPlaceCategorySignals_def Let_def by auto
qed

section \<open>Cursors\<close>

lemma digit_chars: "all_digits (nat_text n) \<and> nat_text n \<noteq> []"
proof (induction n rule: nat_text.induct)
  case (1 n)
  have d: "all_digits [char_of (48 + k)]" if "k < 10" for k :: nat
  proof -
    have "k \<in> {0, 1, 2, 3, 4, 5, 6, 7, 8, 9}" using that by auto
    then show ?thesis by (elim insertE) (auto simp: all_digits_def less_eq_char_def)
  qed
  show ?case
  proof (cases "n < 10")
    case True
    then show ?thesis using d [of n] by (subst (1 2) nat_text.simps) simp
  next
    case False
    then show ?thesis using 1 [OF False] d [of "n mod 10"] by (subst (1 2) nat_text.simps) (simp add: all_digits_def)
  qed
qed

lemma digit_facts:
  assumes "all_digits s" "c \<in> set s"
  shows "\<not> is_ws c \<and> c \<noteq> CHR ''.'' \<and> c \<noteq> CHR ''-'' \<and> c \<noteq> CHR ''+''"
proof -
  have c: "CHR ''0'' \<le> c" "c \<le> CHR ''9''" using assms by (auto simp: all_digits_def list_all_iff)
  then have "48 \<le> (of_char c :: nat)" "(of_char c :: nat) \<le> 57" by (simp_all add: less_eq_char_def)
  then show ?thesis by (auto simp: is_ws_def code_unit_def)
qed

lemma split_on_none: "c \<notin> set s \<Longrightarrow> split_on c s = [s]"
  by (induction s) auto

lemma trim_none:
  assumes "\<And>c. c \<in> set s \<Longrightarrow> \<not> is_ws c" shows "js_trim s = s"
proof -
  have "dropWhile is_ws xs = xs" if "set xs \<subseteq> set s" for xs using that assms by (cases xs) auto
  then show ?thesis unfolding js_trim_def by simp
qed

lemma js_number_nat: "js_number (nat_text n) = Some (of_nat n)"
proof -
  note d = digit_chars [of n]
  have t: "js_trim (nat_text n) = nat_text n" using digit_facts [of "nat_text n"] d by (intro trim_none) blast
  have u: "unsigned_number (nat_text n) = Some (of_nat n)"
    using d split_on_none [of "CHR ''.''" "nat_text n"] digit_facts [of "nat_text n" "CHR ''.''"]
    by (cases "CHR ''.'' \<in> set (nat_text n)") (simp_all add: unsigned_number_def)
  obtain c r where c: "nat_text n = c # r" using d by (cases "nat_text n") auto
  then have "c \<noteq> CHR ''-''" "c \<noteq> CHR ''+''" using digit_facts [of "nat_text n" c] d by auto
  then show ?thesis using t u unfolding c js_number_def by simp
qed

lemma resolve_cursor: "resolveOffset (Some (nat_text n)) k = n"
  by (simp add: resolveOffset_def js_number_nat truthy_def)

lemma network_page_empty:
  assumes "NETWORK_POOL_CAP \<le> fi_offset input"
  shows "snd (listNetworkFeed env userId input w) = []"
  using assms unfolding listNetworkFeed_def Let_def
  by (simp add: feed_page_def NETWORK_POOL_CAP_def)

text \<open>The cursor of the network feed does not end: past the five hundred visits that are ranked a page is empty, and
  while more visits than that are counted its cursor is the one it was asked with, for ever.\<close>

theorem feed_cursor_stuck:
  assumes "fst (getFeed env penv userId q w) = Inr a" "fr_mode q = ModeNetwork" "fr_cursor q = Some (nat_text n)"
    "NETWORK_POOL_CAP \<le> n" "n < fa_total a"
  shows "fa_items a = [] \<and> fa_nextCursor a = fr_cursor q"
proof -
  have c: "feed_city penv q = ret None" using assms(2) by (simp add: feed_city_def)
  have o: "resolveOffset (fr_cursor q) (fr_offset q) = n" unfolding assms(3) by (rule resolve_cursor)
  let ?in = "\<lparr>fi_mode = ModeNetwork, fi_point = fr_point q, fi_limit = fr_limit q, fi_offset = n, fi_city = None\<rparr>"
  obtain found vs w' where l: "listFeed env userId ?in w = (Inr (found, vs), w')"
    using assms(1) unfolding getFeed_def Let_def c bindS_ret o assms(2)
    by (cases "listFeed env userId ?in w") (auto simp: bindS_def split: sum.splits)
  have "vs = []"
    using l network_page_empty [of ?in env userId] assms(4)
    by (auto simp: listFeed_def seqS_eq_Inr list_feed_rows_def) (metis snd_conv)
  moreover have "a = \<lparr>fa_items = map (feed_item_of env q (case user_by_id userId w of None \<Rightarrow> [] | Some u \<Rightarrow> u_taste_ids u)) vs,
      fa_nextCursor = next_cursor n (length vs) found, fa_total = found\<rparr>"
    using assms(1) unfolding getFeed_def Let_def c bindS_ret o assms(2) by (simp add: bindS_def l)
  ultimately show ?thesis using assms(3,5) by (simp add: next_cursor_def)
qed

definition sample_visit_row :: "string \<Rightarrow> string \<Rightarrow> string \<Rightarrow> visit_row" where
  "sample_visit_row i u p = \<lparr>vi_id = i, vi_place = p, vi_user = u, vi_rating = 5, vi_note = ''n'', vi_tags = [],
     vi_would_return = Some WYes, vi_noise = None, vi_wifi = None, vi_wait = None, vi_visited = 0, vi_created = 0,
     vi_ordered = None, vi_price = None, vi_photos = [], vi_detail_tags = [], vi_parking = None, vi_pets = None\<rparr>"

definition crowded_db :: db where
  "crowded_db = (empty_db 0)\<lparr>t_users := [sample_user ''u'', sample_user ''f''],
     t_settings := [default_settings_row ''u'', default_settings_row ''f''],
     t_follows := [\<lparr>fo_follower = ''u'', fo_followed = ''f'', fo_created = 0\<rparr>],
     t_visits := replicate 501 (sample_visit_row ''v'' ''f'' ''p'')\<rparr>"

definition sample_feed_env :: feed_env where
  "sample_feed_env = \<lparr>fe_metres = flat, fe_sha = (\<lambda>_. 0), fe_collate = (\<lambda>_ _. True), fe_hour = 10, fe_day = 1\<rparr>"

definition deep_query :: feed_query where
  "deep_query = \<lparr>fr_mode = ModeNetwork, fr_point = None, fr_cursor = Some (nat_text 500), fr_limit = 20, fr_offset = 0,
     fr_city = None\<rparr>"

lemma crowded_total: "fst (listNetworkFeed env ''u'' input crowded_db) = 501"
proof -
  have f: "listFollowingIds ''u'' crowded_db = [''f'']" by (simp add: listFollowingIds_def crowded_db_def find_many_def)
  have "network_visit ''u'' crowded_db (sample_visit_row ''v'' ''f'' ''p'')"
    unfolding network_visit_def f by (simp add: sample_visit_row_def stored_activity_def settings_of_def crowded_db_def default_settings_row_def)
  then have "count_rows (network_visit ''u'' crowded_db) (t_visits crowded_db) = 501"
    by (simp add: count_rows_def crowded_db_def filter_replicate)
  then show ?thesis unfolding listNetworkFeed_def f Let_def by simp
qed

lemma crowded_run:
  "map_sum id fa_total (fst (getFeed sample_feed_env (sample_env True) ''u'' deep_query crowded_db)) = Inr 501"
proof -
  have e: "ensureUserSettings ''u'' crowded_db = (Inr (), crowded_db)"
    by (simp add: ensureUserSettings_def settings_of_def crowded_db_def default_settings_row_def)
  show ?thesis
    using crowded_total
    by (simp add: getFeed_def Let_def deep_query_def feed_city_def listFeed_def seqS_apply bindS_apply e list_feed_rows_def
        case_prod_unfold)
qed

theorem feed_cursor_stuck_witness:
  "map_sum id (\<lambda>a. (fa_items a, fa_nextCursor a))
     (fst (getFeed sample_feed_env (sample_env True) ''u'' deep_query crowded_db)) = Inr ([], Some ''500'')"
proof -
  obtain a where a: "fst (getFeed sample_feed_env (sample_env True) ''u'' deep_query crowded_db) = Inr a" "fa_total a = 501"
    using crowded_run by (cases "fst (getFeed sample_feed_env (sample_env True) ''u'' deep_query crowded_db)") auto
  have "nat_text 500 = ''500''" by code_simp
  then show ?thesis using feed_cursor_stuck [OF a(1), of 500] a by (simp add: deep_query_def NETWORK_POOL_CAP_def)
qed

end
