(* ===== verification/Diaries.thy ===== *)
theory Diaries
  imports SocialGraph SocialGroups PlacesStore
begin

text \<open>
  Guides of places that users write (\<open>social-diaries.repository.ts\<close>, \<open>social-diaries.service.ts\<close>,
  \<open>lib/presenters/diary.presenter.ts\<close>): who sees them, the search, and writing them with the notification of the
  followers.  Dates of requests are milliseconds.
\<close>

section \<open>Diaries with their relations\<close>

record diary_place_full =
  dpf_entry :: diary_place_row
  dpf_place :: "place_row option"

record diary_full =
  df_diary :: diary_row
  df_createdBy :: "user_row option"
  df_places :: "diary_place_full list"

definition by_position :: "diary_place_row \<Rightarrow> diary_place_row \<Rightarrow> bool" where
  "by_position a b \<longleftrightarrow> dp_position a < dp_position b \<or> dp_position a = dp_position b \<and> dp_created a \<le> dp_created b"

definition diary_include :: "db \<Rightarrow> diary_row \<Rightarrow> diary_full" where
  "diary_include w d = \<lparr>df_diary = d, df_createdBy = user_by_id (di_created_by d) w,
     df_places = map (\<lambda>e. \<lparr>dpf_entry = e, dpf_place = place_by_id (dp_place e) w\<rparr>)
       (sort_by by_position (find_many (\<lambda>e. dp_diary e = di_id d) (t_diary_places w)))\<rparr>"

record diary_place_view =
  dv_note :: "string option"
  dv_place :: "place_summary option"
  dv_position :: int

record diary_view =
  dy_createdAt :: int
  dy_createdBy :: "user_public option"
  dy_coverImageUrl :: "string option"
  dy_description :: "string option"
  dy_editorialReason :: "string option"
  dy_id :: string
  dy_intro :: "string option"
  dy_name :: string
  dy_orderedPlaces :: "diary_place_view list"
  dy_places :: "place_summary option list"
  dy_publishedAt :: "int option"
  dy_visibility :: guide_visibility

definition serializeDiary :: "diary_full \<Rightarrow> diary_view" where
  "serializeDiary diary =
     (let orderedPlaces = sort_by (\<lambda>a b. by_position (dpf_entry a) (dpf_entry b)) (df_places diary);
          d = df_diary diary
      in \<lparr>dy_createdAt = di_created d, dy_createdBy = map_option (serializeUserPublic False) (df_createdBy diary),
          dy_coverImageUrl = di_cover d, dy_description = di_description d, dy_editorialReason = di_editorial d,
          dy_id = di_id d, dy_intro = di_intro d, dy_name = di_name d,
          dy_orderedPlaces = map (\<lambda>e. \<lparr>dv_note = dp_note (dpf_entry e),
             dv_place = map_option serializePlaceSummary (dpf_place e), dv_position = dp_position (dpf_entry e)\<rparr>) orderedPlaces,
          dy_places = map (\<lambda>e. map_option serializePlaceSummary (dpf_place e)) orderedPlaces,
          dy_publishedAt = di_published d, dy_visibility = di_visibility d\<rparr>)"

section \<open>Visibility\<close>

definition canViewDiary :: "string \<Rightarrow> diary_row \<Rightarrow> bool \<Rightarrow> bool" where
  "canViewDiary viewerId diary allowUnlisted =
     (if viewerId = di_created_by diary then True
      else if di_visibility diary = DPublic then True
      else allowUnlisted \<and> di_visibility diary = DUnlisted)"

definition filterVisibleDiaries :: "diary_full list \<Rightarrow> string \<Rightarrow> bool \<Rightarrow> diary_full list" where
  "filterVisibleDiaries diaries viewerId allowUnlisted =
     filter (\<lambda>d. canViewDiary viewerId (df_diary d) allowUnlisted) diaries"

text \<open>\<open>buildDiaryOwnerVisibilityWhere\<close>: the filter of the database queries.\<close>

definition owner_visible :: "string \<Rightarrow> db \<Rightarrow> diary_row \<Rightarrow> bool" where
  "owner_visible viewerId w d \<longleftrightarrow>
     di_created_by d = viewerId
   \<or> settings_of (di_created_by d) w = None
   \<or> map_option st_diary (settings_of (di_created_by d) w) = Some CPublic
   \<or> list_ex (\<lambda>f. fo_followed f = di_created_by d \<and> fo_follower f = viewerId) (t_follows w)
     \<and> map_option st_diary (settings_of (di_created_by d) w) = Some CFollowers"

section \<open>The repository\<close>

text \<open>\<open>orderBy: [{ publishedAt: "desc" }, { createdAt: "desc" }]\<close>: PostgreSQL puts null first in a descending order.\<close>

definition latest_first :: "diary_row \<Rightarrow> diary_row \<Rightarrow> bool" where
  "latest_first a b = (case (di_published a, di_published b) of
     (None, None) \<Rightarrow> di_created b \<le> di_created a
   | (None, Some _) \<Rightarrow> True
   | (Some _, None) \<Rightarrow> False
   | (Some x, Some y) \<Rightarrow> if x \<noteq> y then y < x else di_created b \<le> di_created a)"

definition list_diaries :: "(diary_row \<Rightarrow> bool) \<Rightarrow> db \<Rightarrow> diary_full list" where
  "list_diaries p w = map (diary_include w) (sort_by latest_first (find_many p (t_diaries w)))"

definition listDiariesByUser :: "string \<Rightarrow> db \<Rightarrow> diary_full list" where
  "listDiariesByUser userId = list_diaries (\<lambda>d. di_created_by d = userId)"

definition listHomeEditorGuidesRepo :: "string \<Rightarrow> nat \<Rightarrow> db \<Rightarrow> diary_full list" where
  "listHomeEditorGuidesRepo viewerId limit w =
     take limit (list_diaries (\<lambda>d. (case user_by_id (di_created_by d) w of None \<Rightarrow> False | Some u \<Rightarrow> u_is_editor u)
        \<and> di_published d \<noteq> None \<and> di_visibility d = DPublic \<and> owner_visible viewerId w d) w)"

definition searchPublicDiariesRepo :: "string \<Rightarrow> string \<Rightarrow> db \<Rightarrow> diary_full list" where
  "searchPublicDiariesRepo q viewerId w =
     (let nq = js_trim q;
          field = (\<lambda>v. case v of None \<Rightarrow> False | Some s \<Rightarrow> contains_ci s nq)
      in list_diaries (\<lambda>d. di_visibility d = DPublic \<and> owner_visible viewerId w d
           \<and> (contains_ci (di_name d) nq \<or> field (di_description d) \<or> field (di_intro d))) w)"

definition diary_by_id :: "string \<Rightarrow> db \<Rightarrow> diary_row option" where
  "diary_by_id diaryId w = find_unique (\<lambda>d. di_id d = diaryId) (t_diaries w)"

definition findDiaryById :: "string \<Rightarrow> db \<Rightarrow> diary_full option" where
  "findDiaryById diaryId w = map_option (diary_include w) (diary_by_id diaryId w)"

record create_diary_input =
  cd_coverImageUrl :: "string option"
  cd_createdById :: string
  cd_description :: "string option"
  cd_editorialReason :: "string option"
  cd_intro :: "string option"
  cd_name :: string
  cd_publishedAt :: "int option"
  cd_visibility :: "guide_visibility option"

definition createDiaryRepo :: "create_diary_input \<Rightarrow> diary_full dbm" where
  "createDiaryRepo input =
     bindS fresh_id (\<lambda>i. bindS now (\<lambda>t. bindS (gets (user_by_id (cd_createdById input))) (\<lambda>u.
     bindS (require (PrismaError ''P2003'') u) (\<lambda>_.
       let d = \<lparr>di_id = i, di_name = cd_name input, di_description = cd_description input,
             di_created_by = cd_createdById input, di_intro = cd_intro input, di_editorial = cd_editorialReason input,
             di_cover = cd_coverImageUrl input, di_visibility = default_to (cd_visibility input) DPrivate,
             di_published = cd_publishedAt input, di_city = None, di_created = t\<rparr>
       in seqS (modify (\<lambda>w. w\<lparr>t_diaries := t_diaries w @ [d]\<rparr>)) (gets (\<lambda>w. diary_include w d))))))"

definition patchDiary :: "string \<Rightarrow> (diary_row \<Rightarrow> diary_row) \<Rightarrow> diary_full dbm" where
  "patchDiary diaryId f =
     bindS (gets (diary_by_id diaryId)) (\<lambda>d.
     bindS (require (PrismaError ''P2025'') d) (\<lambda>old.
     seqS (modify (\<lambda>w. w\<lparr>t_diaries := update_many (\<lambda>r. di_id r = diaryId) f (t_diaries w)\<rparr>))
       (gets (\<lambda>w. diary_include w (f old)))))"

abbreviation diary_place_key :: "diary_place_row \<Rightarrow> string \<times> string" where
  "diary_place_key e \<equiv> (dp_diary e, dp_place e)"

text \<open>The position of a place: the given one, else its old one, else after the last.\<close>

definition next_position :: "int option \<Rightarrow> diary_place_row option \<Rightarrow> diary_place_row list \<Rightarrow> int" where
  "next_position position existing entries =
     (case position of Some p \<Rightarrow> p
      | None \<Rightarrow> (case existing of Some e \<Rightarrow> dp_position e
          | None \<Rightarrow> (if entries = [] then - 1 else Max (set (map dp_position entries))) + 1))"

definition addPlaceToDiaryRepo :: "string \<Rightarrow> string \<Rightarrow> string option \<Rightarrow> int option \<Rightarrow> diary_full option dbm" where
  "addPlaceToDiaryRepo diaryId placeId note position =
     seqS (tx (
       bindS now (\<lambda>t.
       bindS (gets t_diary_places) (\<lambda>rows.
       let existing = find_unique (\<lambda>e. dp_diary e = diaryId \<and> dp_place e = placeId) rows;
           nextPosition = next_position position existing (find_many (\<lambda>e. dp_diary e = diaryId) rows)
       in case existing of
            Some x \<Rightarrow> modify (\<lambda>w. w\<lparr>t_diary_places := update_many (\<lambda>e. dp_diary e = diaryId \<and> dp_place e = placeId)
               (\<lambda>e. e\<lparr>dp_note := (if note = None then dp_note x else note), dp_position := nextPosition\<rparr>) rows\<rparr>)
          | None \<Rightarrow>
              bindS (gets (\<lambda>w. (diary_by_id diaryId w, place_by_id placeId w))) (\<lambda>(d, p).
              if d = None \<or> p = None then throw (PrismaError ''P2003'')
              else modify (\<lambda>w. w\<lparr>t_diary_places := rows @ [\<lparr>dp_diary = diaryId, dp_place = placeId,
                 dp_position = nextPosition, dp_note = note, dp_created = t\<rparr>]\<rparr>))))))
     (gets (findDiaryById diaryId))"

section \<open>The service\<close>

text \<open>\<open>value?.trim() || undefined\<close>.\<close>

definition trimmed :: "string option \<Rightarrow> string option" where
  "trimmed v = (case v of None \<Rightarrow> None | Some s \<Rightarrow> if js_trim s = [] then None else Some (js_trim s))"

definition field_score :: "string \<Rightarrow> string \<Rightarrow> int \<Rightarrow> int \<Rightarrow> int" where
  "field_score q value containsScore startsWithScore =
     (let v = js_lower value in
      if v = [] then 0 else if starts_with v q then startsWithScore else if includes_str v q then containsScore else 0)"

definition scoreDiarySearchMatch :: "string \<Rightarrow> diary_row \<Rightarrow> int" where
  "scoreDiarySearchMatch query d =
     (let q = js_lower query
      in field_score q (di_name d) 24 36 + field_score q (default_to (di_intro d) []) 14 20
         + field_score q (default_to (di_description d) []) 10 16)"

definition search_order :: "string \<Rightarrow> diary_full \<Rightarrow> diary_full \<Rightarrow> bool" where
  "search_order q l r =
     (let sl = scoreDiarySearchMatch q (df_diary l); sr = scoreDiarySearchMatch q (df_diary r);
          pl = default_to (di_published (df_diary l)) 0; pr = default_to (di_published (df_diary r)) 0
      in if sl \<noteq> sr then sr < sl else if pr \<noteq> pl then pr < pl
         else di_created (df_diary r) \<le> di_created (df_diary l))"

definition listMyDiaries :: "string \<Rightarrow> db \<Rightarrow> diary_view list \<times> nat" where
  "listMyDiaries userId w = (map serializeDiary (listDiariesByUser userId w), length (listDiariesByUser userId w))"

definition searchPublicDiaries :: "string \<Rightarrow> nat \<Rightarrow> nat \<Rightarrow> string option \<Rightarrow> (diary_view list \<times> nat) dbm" where
  "searchPublicDiaries userId limit offset q =
     bindS (liftE (normalizeRequiredSearchQuery q ''q must have at least 2 characters'' False)) (\<lambda>nq.
     bindS (gets (searchPublicDiariesRepo nq userId)) (\<lambda>diaries.
       ret (map serializeDiary (page_rows offset limit (sort_by (search_order nq) diaries)), length diaries)))"

definition listUserDiaries :: "string \<Rightarrow> string \<Rightarrow> (diary_view list \<times> nat) dbm" where
  "listUserDiaries viewerId userId =
     bindS (findUserByIdWithContext viewerId userId) (\<lambda>profile.
     bindS (require (NotFound ''User not found'') profile) (\<lambda>p.
       if \<not> canViewDiariesP (uc_permissions p) then ret ([], 0)
       else bindS (gets (\<lambda>w. filterVisibleDiaries (listDiariesByUser userId w) viewerId False)) (\<lambda>diaries.
              ret (map serializeDiary diaries, length diaries))))"

record create_diary_dto =
  dd_name :: string
  dd_description :: "string option"
  dd_intro :: "string option"
  dd_editorialReason :: "string option"
  dd_coverImageUrl :: "string option"
  dd_visibility :: "guide_visibility option"
  dd_publishedAt :: "int option"

definition resolveDiaryPublishedAt :: "int \<Rightarrow> create_diary_dto \<Rightarrow> int option" where
  "resolveDiaryPublishedAt t body =
     (if dd_publishedAt body \<noteq> None then dd_publishedAt body
      else if dd_visibility body \<noteq> None \<and> dd_visibility body \<noteq> Some DPrivate then Some t
      else None)"

definition diary_notification :: "string \<Rightarrow> diary_row \<Rightarrow> string list \<Rightarrow> publish_input" where
  "diary_notification userId d recipients = \<lparr>pb_actorId = Some userId, pb_dedupeKey = None,
     pb_entity = Some (di_id d, EntDiary),
     pb_payload = Some [(''diaryId'', Some (JStr (di_id d))), (''diaryName'', Some (JStr (di_name d)))],
     pb_recipientIds = recipients, pb_scheduledFor = None, pb_type = NDiaryPublished\<rparr>"

definition notify_followers :: "string \<Rightarrow> diary_row \<Rightarrow> unit dbm" where
  "notify_followers userId d =
     bindS (gets (listFollowerIds userId)) (\<lambda>ids. bindS (publish (diary_notification userId d ids)) (\<lambda>_. ret ()))"

definition createDiary :: "string \<Rightarrow> create_diary_dto \<Rightarrow> diary_view dbm" where
  "createDiary userId body =
     bindS now (\<lambda>t.
     bindS (createDiaryRepo \<lparr>cd_coverImageUrl = trimmed (dd_coverImageUrl body), cd_createdById = userId,
         cd_description = trimmed (dd_description body), cd_editorialReason = trimmed (dd_editorialReason body),
         cd_intro = trimmed (dd_intro body), cd_name = js_trim (dd_name body),
         cd_publishedAt = resolveDiaryPublishedAt t body, cd_visibility = dd_visibility body\<rparr>) (\<lambda>diary.
     seqS (if di_visibility (df_diary diary) = DPublic \<and> di_published (df_diary diary) \<noteq> None
           then notify_followers userId (df_diary diary) else ret ())
       (ret (serializeDiary diary))))"

definition listHomeEditorGuides :: "string \<Rightarrow> nat \<Rightarrow> db \<Rightarrow> diary_view list \<times> nat" where
  "listHomeEditorGuides viewerId limit w =
     (let diaries = listHomeEditorGuidesRepo viewerId limit w in (map serializeDiary diaries, length diaries))"

definition getDiary :: "string \<Rightarrow> string \<Rightarrow> diary_view dbm" where
  "getDiary viewerId diaryId =
     bindS (gets (findDiaryById diaryId)) (\<lambda>diary.
     bindS (require (NotFound ''Diary not found'') diary) (\<lambda>d.
     seqS (throw_if (\<not> canViewDiary viewerId (df_diary d) True) (Forbidden ''Diary is private''))
     (seqS (if viewerId \<noteq> di_created_by (df_diary d)
            then bindS (findUserByIdWithContext viewerId (di_created_by (df_diary d))) (\<lambda>owner.
                   throw_if (case owner of None \<Rightarrow> True | Some o' \<Rightarrow> \<not> canViewDiariesP (uc_permissions o'))
                     (NotFound ''Diary not found''))
            else ret ())
       (ret (serializeDiary d)))))"

definition require_own_diary :: "string \<Rightarrow> string \<Rightarrow> diary_full dbm" where
  "require_own_diary userId diaryId =
     bindS (gets (findDiaryById diaryId)) (\<lambda>diary.
     bindS (require (NotFound ''Diary not found'') diary) (\<lambda>d.
     seqS (throw_if (di_created_by (df_diary d) \<noteq> userId) (Forbidden ''You cannot edit this diary'')) (ret d)))"

text \<open>The place of the body is resolved as for group events (\<open>resolveWritablePlace\<close>).\<close>

definition addPlaceToDiary ::
  "(string \<Rightarrow> string option \<Rightarrow> place_row dbm) \<Rightarrow> string \<Rightarrow> string \<Rightarrow> group_event_input \<Rightarrow> string option \<Rightarrow> int option
     \<Rightarrow> diary_view dbm" where
  "addPlaceToDiary resolve userId diaryId place note position =
     bindS (require_own_diary userId diaryId) (\<lambda>_.
     bindS (resolveWritablePlace resolve place) (\<lambda>p.
     bindS (addPlaceToDiaryRepo diaryId (pl_id p) (trimmed note) position) (\<lambda>updated.
     bindS (require (NotFound ''Diary not found'') updated) (\<lambda>d. ret (serializeDiary d)))))"

record update_diary_dto =
  ud_name :: "string option"
  ud_description :: "string option"
  ud_intro :: "string option"
  ud_editorialReason :: "string option"
  ud_coverImageUrl :: "string option"
  ud_visibility :: "guide_visibility option"
  ud_publishedAt :: "int option"

definition resolveDiaryPublishedAtOnUpdate :: "int \<Rightarrow> diary_row \<Rightarrow> update_diary_dto \<Rightarrow> int option" where
  "resolveDiaryPublishedAtOnUpdate t diary body =
     (let nextVisibility = default_to (ud_visibility body) (di_visibility diary)
      in if nextVisibility = DPrivate then None
         else if ud_publishedAt body \<noteq> None then ud_publishedAt body
         else if di_published diary \<noteq> None then di_published diary
         else Some t)"

definition patched_text :: "string option \<Rightarrow> string option \<Rightarrow> string option" where
  "patched_text v old = (case v of None \<Rightarrow> old | Some s \<Rightarrow> if js_trim s = [] then None else Some (js_trim s))"

definition diary_data :: "update_diary_dto \<Rightarrow> int option \<Rightarrow> diary_row \<Rightarrow> diary_row" where
  "diary_data body publishedAt d = d\<lparr>
     di_name := (case ud_name body of None \<Rightarrow> di_name d | Some n \<Rightarrow> js_trim n),
     di_description := patched_text (ud_description body) (di_description d),
     di_intro := patched_text (ud_intro body) (di_intro d),
     di_editorial := patched_text (ud_editorialReason body) (di_editorial d),
     di_cover := patched_text (ud_coverImageUrl body) (di_cover d),
     di_visibility := default_to (ud_visibility body) (di_visibility d),
     di_published := publishedAt\<rparr>"

definition public_live :: "diary_row \<Rightarrow> bool" where
  "public_live d \<longleftrightarrow> di_visibility d = DPublic \<and> di_published d \<noteq> None"

definition updateDiary :: "string \<Rightarrow> string \<Rightarrow> update_diary_dto \<Rightarrow> diary_view dbm" where
  "updateDiary userId diaryId body =
     bindS (require_own_diary userId diaryId) (\<lambda>diary.
     bindS now (\<lambda>t.
     let d = df_diary diary;
         mergedVisibility = default_to (ud_visibility body) (di_visibility d);
         nextPublishedAt = resolveDiaryPublishedAtOnUpdate t d body;
         isPublicLive = (mergedVisibility = DPublic \<and> nextPublishedAt \<noteq> None)
     in bindS (patchDiary diaryId (diary_data body nextPublishedAt)) (\<lambda>updated.
        seqS (if \<not> public_live d \<and> isPublicLive then notify_followers userId (df_diary updated) else ret ())
          (ret (serializeDiary updated)))))"

section \<open>Who finds and who opens a diary\<close>

lemma search_mem:
  "x \<in> set (list_diaries p w) \<longleftrightarrow> (\<exists>d\<in>set (t_diaries w). p d \<and> x = diary_include w d)"
  by (auto simp: list_diaries_def)

text \<open>The filter of the queries is the permission the profile reports.\<close>

lemma owner_visible_permission:
  assumes "u_id u = di_created_by d" "u_id u \<noteq> []"
  shows "owner_visible viewer w d = canViewDiariesP (fst (getUserRelationshipContext viewer u w))"
proof -
  have s: "buildSocialState (u_id u) (getRelationshipMaps viewer [u_id u] w) =
    \<lparr>followsYou = follows w (u_id u) viewer, following = follows w viewer (u_id u),
     mutual = (follows w viewer (u_id u) \<and> follows w (u_id u) viewer)\<rparr>"
    by (rule social_state_of_maps) (simp_all add: assms(2))
  have f: "list_ex (\<lambda>f. fo_followed f = u_id u \<and> fo_follower f = viewer) (t_follows w) = follows w viewer (u_id u)"
    by (auto simp: follows_def list_ex_iff)
  show ?thesis unfolding owner_visible_def assms(1) [symmetric] f
    by (cases "settings_of (u_id u) w")
       (auto simp: getUserRelationshipContext_def Let_def s buildPermissions_def canViewContent_def
          normalizeSettings_def DEFAULT_SOCIAL_SETTINGS_def)
qed

lemma find_context_run:
  assumes "user_by_id v w \<noteq> None" "user_by_id t w = Some u"
  shows "\<exists>c w'. findUserByIdWithContext v t w = (Inr (Some c), w') \<and> uc_user c = u
    \<and> uc_permissions c = fst (getUserRelationshipContext v u w) \<and> settings_extended w w'"
proof -
  have ok: "fst (ensureUserSettingsForUsers [v, t] w) = Inr ()"
    unfolding ensure_settings_fails_iff using assms by auto
  define w' where "w' = snd (ensureUserSettingsForUsers [v, t] w)"
  have run: "ensureUserSettingsForUsers [v, t] w = (Inr (), w')"
    using ok by (metis w'_def prod.collapse)
  have e: "settings_extended w w'" unfolding w'_def by (rule ensureUserSettingsForUsers_extends)
  then obtain s where "w' = w\<lparr>t_settings := s\<rparr>" by (auto simp: settings_extended_def)
  then have "user_by_id t w' = Some u" using assms(2) by (simp add: user_by_id_def)
  then show ?thesis
    using e settings_extended_context [OF e, of v u] run
    by (simp add: findUserByIdWithContext_def seqS_apply case_prod_unfold Let_def)
qed

text \<open>Opening a diary by its id answers as the table of its visibility and of the owner's settings says.\<close>

lemma getDiary_table:
  assumes "diary_by_id diaryId w = Some d" "user_by_id viewer w \<noteq> None"
    "user_by_id (di_created_by d) w = Some owner" "di_created_by d \<noteq> []"
  shows "fst (getDiary viewer diaryId w) =
     (if viewer = di_created_by d then Inr (serializeDiary (diary_include w d))
      else if di_visibility d = DPrivate then Inl (Forbidden ''Diary is private'')
      else if owner_visible viewer w d then Inr (serializeDiary (diary_include w d))
      else Inl (NotFound ''Diary not found''))"
proof -
  have "u_id owner = di_created_by d" using assms(3) by (rule user_by_id_fields)
  then have v: "owner_visible viewer w d = canViewDiariesP (fst (getUserRelationshipContext viewer owner w))"
    by (rule owner_visible_permission) (use \<open>u_id owner = _\<close> assms(4) in simp)
  obtain c w' where "findUserByIdWithContext viewer (di_created_by d) w = (Inr (Some c), w')"
    and "uc_permissions c = fst (getUserRelationshipContext viewer owner w)"
    using find_context_run [OF assms(2,3)] by blast
  then show ?thesis
    by (cases "di_visibility d")
       (simp_all add: getDiary_def findDiaryById_def assms(1) canViewDiary_def v seqS_apply bindS_apply
          diary_include_def)
qed
definition diary_matches :: "string \<Rightarrow> diary_row \<Rightarrow> bool" where
  "diary_matches q d = list_ex (\<lambda>t. case t of None \<Rightarrow> False | Some s \<Rightarrow> contains_ci s (js_trim q))
     [Some (di_name d), di_description d, di_intro d]"

lemma search_repo_mem:
  "x \<in> set (searchPublicDiariesRepo q viewer w) \<longleftrightarrow>
   (\<exists>d\<in>set (t_diaries w). di_visibility d = DPublic \<and> owner_visible viewer w d \<and> diary_matches q d
      \<and> x = diary_include w d)"
  unfolding searchPublicDiariesRepo_def Let_def search_mem diary_matches_def by simp

text \<open>C33: the filter of the database queries and the permission check of the service are two implementations of
  one rule: a public diary with the searched words is found by the search of a viewer exactly when it opens for
  that viewer by its id; a diary that is not public is never found.\<close>

theorem diary_search_agrees:
  assumes "diary_by_id diaryId w = Some d" "user_by_id viewer w \<noteq> None"
    "user_by_id (di_created_by d) w = Some owner" "di_created_by d \<noteq> []"
  shows "diary_include w d \<in> set (searchPublicDiariesRepo q viewer w) \<longleftrightarrow>
     di_visibility d = DPublic \<and> diary_matches q d
     \<and> fst (getDiary viewer diaryId w) = Inr (serializeDiary (diary_include w d))"
proof -
  have d: "d \<in> set (t_diaries w)" using assms(1)
    unfolding diary_by_id_def by (blast dest: find_unique_Some)
  have inj: "diary_include w a = diary_include w d \<Longrightarrow> a = d" for a
    by (drule arg_cong [where f = df_diary]) (simp add: diary_include_def)
  have own: "owner_visible (di_created_by d) w d" by (simp add: owner_visible_def)
  have "diary_include w d \<in> set (searchPublicDiariesRepo q viewer w) \<longleftrightarrow>
     di_visibility d = DPublic \<and> owner_visible viewer w d \<and> diary_matches q d"
    unfolding search_repo_mem using d inj by metis
  then show ?thesis using own unfolding getDiary_table [OF assms] by auto
qed

definition sample_diary :: "string \<Rightarrow> string \<Rightarrow> guide_visibility \<Rightarrow> diary_row" where
  "sample_diary i u v = \<lparr>di_id = i, di_name = ''Tapas'', di_description = None, di_created_by = u, di_intro = None,
     di_editorial = None, di_cover = None, di_visibility = v, di_published = Some 1, di_city = None, di_created = 1\<rparr>"

definition sample_diary_db :: db where
  "sample_diary_db = empty_db 0\<lparr>t_users := [sample_user ''a'', sample_user ''b''],
     t_settings := [\<lparr>st_user = ''a'', st_activity = CPublic, st_diary = CFollowers, st_invite = Anyone, st_push = True\<rparr>],
     t_diaries := [sample_diary ''d'' ''a'' DPublic]\<rparr>"

theorem diary_search_agrees_witness:
  "diary_include sample_diary_db (sample_diary ''d'' ''a'' DPublic)
     \<notin> set (searchPublicDiariesRepo ''tap'' ''b'' sample_diary_db)"
  using diary_search_agrees [of "''d''" sample_diary_db "sample_diary ''d'' ''a'' DPublic" "''b''" "sample_user ''a''" "''tap''"]
  by (simp add: getDiary_table diary_by_id_def user_by_id_def sample_diary_db_def sample_diary_def sample_user_def
      owner_visible_def settings_of_def empty_db_def)

end
