(* ===== verification/Curation.thy ===== *)
theory Curation
  imports PlaceResolution
begin

text \<open>
  The editors' curation of places (\<open>place-curation.repository.ts\<close>, \<open>lib/place-curation.ts\<close>) and its administration
  (\<open>admin.service.ts\<close>): picks, boosts and badges of a city, with an expiry, and the visibility of a place in the
  app.  \<open>decode\<close> is \<open>decodeURIComponent\<close> and \<open>parse\<close> the \<open>Date\<close> constructor, both outside the model.
\<close>

section \<open>Queries\<close>

definition FECA_RECOMMENDED_BADGE_LABEL :: string where "FECA_RECOMMENDED_BADGE_LABEL = ''Recomendado por FECA''"
definition MAX_VISIBLE_RECOMMENDED_BADGES :: nat where "MAX_VISIBLE_RECOMMENDED_BADGES = 3"

definition isExpired :: "int \<Rightarrow> int option \<Rightarrow> bool" where
  "isExpired t expiresAt = (case expiresAt of None \<Rightarrow> False | Some e \<Rightarrow> e \<le> t)"

definition notExpiredWhere :: "int \<Rightarrow> curation_row \<Rightarrow> bool" where
  "notExpiredWhere t c = (case cu_expires c of None \<Rightarrow> True | Some e \<Rightarrow> t < e)"

text \<open>\<open>activeCurationWhere\<close> is a record with a \<open>place\<close> condition: \<open>live_where\<close> is the rest of it, and
  \<open>curated_place_where\<close> that condition, which a caller that spreads the record and gives a \<open>place\<close> of its own
  replaces.\<close>

definition live_where :: "int \<Rightarrow> string option \<Rightarrow> curation_row \<Rightarrow> bool" where
  "live_where t cityId c \<longleftrightarrow> cu_active c \<and> notExpiredWhere t c \<and> (truthy cityId \<longrightarrow> cu_city c = cityId)"

definition curated_place_where :: "string option \<Rightarrow> place_row \<Rightarrow> bool" where
  "curated_place_where cityId p \<longleftrightarrow>
     (truthy cityId \<longrightarrow> \<not> pl_hidden p \<and> (pl_city_id p = cityId \<or> pl_city_id p = None))"

text \<open>\<open>include: { place: true }\<close>: a curation with its place, which the foreign key guarantees.\<close>

type_synonym curated = "curation_row \<times> place_row"

definition with_place :: "db \<Rightarrow> curation_row \<Rightarrow> curated list" where
  "with_place w c = (case place_by_id (cu_place c) w of None \<Rightarrow> [] | Some p \<Rightarrow> [(c, p)])"

definition curated_rows :: "db \<Rightarrow> curated list" where
  "curated_rows w = concat (map (with_place w) (t_curations w))"

definition active_curation :: "string option \<Rightarrow> db \<Rightarrow> curated \<Rightarrow> bool" where
  "active_curation cityId w x \<longleftrightarrow> live_where (db_now w) cityId (fst x) \<and> curated_place_where cityId (snd x)"

definition pick_boost_order :: "curated \<Rightarrow> curated \<Rightarrow> bool" where
  "pick_boost_order a b \<longleftrightarrow> cu_pick (fst a) \<and> \<not> cu_pick (fst b)
     \<or> cu_pick (fst a) = cu_pick (fst b) \<and> cu_boost (fst b) \<le> cu_boost (fst a)"

definition curation_order :: "curated \<Rightarrow> curated \<Rightarrow> bool" where
  "curation_order a b \<longleftrightarrow> cu_pick (fst a) \<and> \<not> cu_pick (fst b)
     \<or> cu_pick (fst a) = cu_pick (fst b) \<and> (cu_boost (fst b) < cu_boost (fst a)
        \<or> cu_boost (fst a) = cu_boost (fst b) \<and> cu_updated (fst b) \<le> cu_updated (fst a))"

definition normalizeGoogleIds :: "(string \<Rightarrow> string option) \<Rightarrow> string list \<Rightarrow> string list" where
  "normalizeGoogleIds decode ids = dedupe (filter (\<lambda>i. i \<noteq> []) (map (normalizeGooglePlaceId decode) ids))"

text \<open>\<open>row.place.sourcePlaceId?.trim()\<close>, normalized; \<open>None\<close> when the row is skipped.\<close>

definition curated_google_id :: "(string \<Rightarrow> string option) \<Rightarrow> place_row \<Rightarrow> string option" where
  "curated_google_id decode p = (let g = js_trim (default_to (pl_google_id p) []) in
     if g = [] then None else Some (normalizeGooglePlaceId decode g))"

record curation_view =
  cv_row :: curation_row
  cv_place :: place_row
  cv_cityName :: "string option"
  cv_expired :: bool

definition view_of :: "db \<Rightarrow> curated \<Rightarrow> curation_view" where
  "view_of w x = \<lparr>cv_row = fst x, cv_place = snd x,
     cv_cityName = map_option ci_display (case cu_city (fst x) of None \<Rightarrow> None
       | Some i \<Rightarrow> find_unique (\<lambda>c. ci_id c = i) (t_cities w)),
     cv_expired = isExpired (db_now w) (cu_expires (fst x))\<rparr>"

definition listByCity :: "string option \<Rightarrow> db \<Rightarrow> curation_view list" where
  "listByCity cityId w = map (view_of w) (sort_by curation_order
     (filter (\<lambda>x. truthy cityId \<longrightarrow> cu_city (fst x) = cityId) (curated_rows w)))"

definition listCuratedGoogleIdsForCity :: "(string \<Rightarrow> string option) \<Rightarrow> string \<Rightarrow> db \<Rightarrow> string list" where
  "listCuratedGoogleIdsForCity decode cityId w =
     dedupe (List.map_filter (\<lambda>x. curated_google_id decode (snd x)) (filter (active_curation (Some cityId) w) (curated_rows w)))"

definition listActiveForCity :: "string \<Rightarrow> db \<Rightarrow> curated list" where
  "listActiveForCity cityId w = sort_by pick_boost_order (filter (active_curation (Some cityId) w) (curated_rows w))"

text \<open>The rows of the queries that give a \<open>place\<close> condition of their own.\<close>

definition rows_by_google_id :: "string option \<Rightarrow> string list \<Rightarrow> db \<Rightarrow> curated list" where
  "rows_by_google_id cityId ids w = filter (\<lambda>x. live_where (db_now w) cityId (fst x)
     \<and> pl_google_id (snd x) \<noteq> None \<and> the (pl_google_id (snd x)) \<in> set ids) (curated_rows w)"

definition getRecommendedBadgesByGooglePlaceIds ::
  "(string \<Rightarrow> string option) \<Rightarrow> string option \<Rightarrow> string list \<Rightarrow> db \<Rightarrow> (string \<times> string) list" where
  "getRecommendedBadgesByGooglePlaceIds decode cityId googlePlaceIds w =
     (if googlePlaceIds = [] \<or> \<not> truthy cityId then []
      else map (\<lambda>g. (g, FECA_RECOMMENDED_BADGE_LABEL))
        (dedupe (List.map_filter (\<lambda>x. curated_google_id decode (snd x))
          (sort_by curation_order (filter (\<lambda>x. cu_badge (fst x))
            (rows_by_google_id cityId (normalizeGoogleIds decode googlePlaceIds) w))))))"

section \<open>Signals\<close>

record curation_signals =
  sg_boosts :: "(string \<times> int) list"
  sg_picks :: "string list"
  sg_curated :: "string list"

definition keyed_rows :: "(string \<Rightarrow> string option) \<Rightarrow> curated list \<Rightarrow> (string \<times> curation_row) list" where
  "keyed_rows decode rows =
     List.map_filter (\<lambda>x. map_option (\<lambda>g. (g, fst x)) (curated_google_id decode (snd x))) rows"

definition signals_of :: "(string \<Rightarrow> string option) \<Rightarrow> curated list \<Rightarrow> curation_signals" where
  "signals_of decode rows =
     (let keyed = keyed_rows decode rows in
      \<lparr>sg_boosts = foldl (map_upsert max) []
         (map (\<lambda>x. (fst x, max 0 (cu_boost (snd x)))) (filter (\<lambda>x. 0 < cu_boost (snd x)) keyed)),
       sg_picks = dedupe (map fst (filter (\<lambda>x. cu_pick (snd x)) keyed)),
       sg_curated = dedupe (map fst keyed)\<rparr>)"

definition getCurationSignalsForCity ::
  "(string \<Rightarrow> string option) \<Rightarrow> string \<Rightarrow> db \<Rightarrow> curation_signals \<times> curated list" where
  "getCurationSignalsForCity decode cityId w =
     (let rows = listActiveForCity cityId w in (signals_of decode rows, rows))"

definition getActiveBoostsForGooglePlaceIds ::
  "(string \<Rightarrow> string option) \<Rightarrow> string list \<Rightarrow> string option \<Rightarrow> db \<Rightarrow> curation_signals" where
  "getActiveBoostsForGooglePlaceIds decode googlePlaceIds cityId w =
     (if googlePlaceIds = [] \<or> \<not> truthy cityId then \<lparr>sg_boosts = [], sg_picks = [], sg_curated = []\<rparr>
      else signals_of decode (rows_by_google_id cityId (normalizeGoogleIds decode googlePlaceIds) w))"

definition boost_order :: "curated \<Rightarrow> curated \<Rightarrow> bool" where
  "boost_order a b \<longleftrightarrow> cu_boost (fst b) < cu_boost (fst a)
     \<or> cu_boost (fst a) = cu_boost (fst b) \<and> cu_updated (fst b) \<le> cu_updated (fst a)"

definition listCityPickPlacesForCity :: "string \<Rightarrow> nat \<Rightarrow> db \<Rightarrow> curated list" where
  "listCityPickPlacesForCity cityId limit w = take limit (sort_by boost_order
     (filter (\<lambda>x. active_curation (Some cityId) w x \<and> cu_pick (fst x)) (curated_rows w)))"

text \<open>Here the box replaces the \<open>place\<close> condition; at most eighty rows are fetched, in no given order.\<close>

definition pick_take_limit :: "nat \<Rightarrow> nat" where "pick_take_limit limit = min (max (limit * 8) 24) 80"

definition listCityPickPlacesInRadius ::
  "distance \<Rightarrow> (rat \<times> rat \<Rightarrow> rat \<Rightarrow> geo_bounds) \<Rightarrow> string \<Rightarrow> rat \<times> rat \<Rightarrow> rat \<Rightarrow> nat \<Rightarrow> db \<Rightarrow> (curated \<times> rat) list" where
  "listCityPickPlacesInRadius metres bounds cityId origin radiusMeters limit w =
     take limit (sort_by (\<lambda>a b. snd a \<le> snd b) (filter (\<lambda>x. snd x \<le> radiusMeters)
       (map (\<lambda>x. (x, the (place_distance metres origin (snd x))))
         (take (pick_take_limit limit)
           (filter (\<lambda>x. live_where (db_now w) (Some cityId) (fst x) \<and> cu_pick (fst x)
              \<and> inside (bounds origin radiusMeters) (snd x)) (curated_rows w))))))"

section \<open>Writing\<close>

record curation_input =
  cin_place :: string
  cin_city :: "string option"
  cin_boost :: "int option"
  cin_pick :: "bool option"
  cin_badge :: "bool option"
  cin_label :: "string option"
  cin_expires :: "int option"
  cin_createdBy :: string

definition clamp_boost :: "int \<Rightarrow> int" where "clamp_boost b = min 100 (max 0 b)"

text \<open>The unique key of a curation, where a null city is never equal to another, and its foreign keys.\<close>

definition curation_taken :: "string \<Rightarrow> string option \<Rightarrow> db \<Rightarrow> bool" where
  "curation_taken placeId cityId w \<longleftrightarrow>
     cityId \<noteq> None \<and> list_ex (\<lambda>c. cu_place c = placeId \<and> cu_city c = cityId) (t_curations w)"

definition create_curation :: "curation_input \<Rightarrow> curation_view dbm" where
  "create_curation input =
     bindS now (\<lambda>t.
     bindS fresh_id (\<lambda>i.
     let row = \<lparr>cu_id = i, cu_place = cin_place input, cu_city = cin_city input,
           cu_boost = clamp_boost (default_to (cin_boost input) 0), cu_pick = default_to (cin_pick input) False,
           cu_label = cin_label input, cu_active = True, cu_badge = default_to (cin_badge input) False,
           cu_expires = cin_expires input, cu_created_by = cin_createdBy input, cu_created = t, cu_updated = t\<rparr>
     in seqS (bindS (gets (curation_taken (cin_place input) (cin_city input))) (\<lambda>b. throw_if b (PrismaError ''P2002'')))
       (bindS (gets (\<lambda>w. place_by_id (cin_place input) w)) (\<lambda>p.
        bindS (require (PrismaError ''P2003'') p) (\<lambda>pl.
        bindS (gets (\<lambda>w. city_missing (cin_city input) w \<or> user_by_id (cin_createdBy input) w = None)) (\<lambda>bad.
        seqS (throw_if bad (PrismaError ''P2003''))
        (seqS (modify (\<lambda>w. w\<lparr>t_curations := t_curations w @ [row]\<rparr>))
          (gets (\<lambda>w. (view_of w (row, pl))\<lparr>cv_expired := False\<rparr>)))))))))"

text \<open>An outer \<open>None\<close> is a field the call leaves out.\<close>

record curation_patch =
  cpa_boost :: "int option"
  cpa_pick :: "bool option"
  cpa_badge :: "bool option"
  cpa_label :: "string option option"
  cpa_active :: "bool option"
  cpa_city :: "string option option"
  cpa_expires :: "int option option"

definition patch_curation :: "curation_patch \<Rightarrow> int \<Rightarrow> curation_row \<Rightarrow> curation_row" where
  "patch_curation d t c = c\<lparr>
     cu_boost := (case cpa_boost d of None \<Rightarrow> cu_boost c | Some b \<Rightarrow> clamp_boost b),
     cu_pick := default_to (cpa_pick d) (cu_pick c), cu_badge := default_to (cpa_badge d) (cu_badge c),
     cu_label := default_to (cpa_label d) (cu_label c), cu_active := default_to (cpa_active d) (cu_active c),
     cu_city := default_to (cpa_city d) (cu_city c), cu_expires := default_to (cpa_expires d) (cu_expires c),
     cu_updated := t\<rparr>"

definition curation_by_id :: "string \<Rightarrow> db \<Rightarrow> curated option" where
  "curation_by_id i w = find_unique (\<lambda>x. cu_id (fst x) = i) (curated_rows w)"

definition update_curation :: "string \<Rightarrow> curation_patch \<Rightarrow> curation_view dbm" where
  "update_curation i d =
     bindS now (\<lambda>t.
     bindS (gets (curation_by_id i)) (\<lambda>x.
     bindS (require (PrismaError ''P2025'') x) (\<lambda>old.
     let row = patch_curation d t (fst old) in
     seqS (bindS (gets (\<lambda>w. cu_city row \<noteq> cu_city (fst old) \<and> curation_taken (cu_place row) (cu_city row) w))
       (\<lambda>b. throw_if b (PrismaError ''P2002'')))
     (seqS (bindS (gets (city_missing (cu_city row))) (\<lambda>b. throw_if b (PrismaError ''P2003'')))
     (seqS (modify (\<lambda>w. w\<lparr>t_curations := update_many (\<lambda>c. cu_id c = i) (patch_curation d t) (t_curations w)\<rparr>))
       (gets (\<lambda>w. view_of w (row, snd old))))))))"

definition delete_curation :: "string \<Rightarrow> unit dbm" where
  "delete_curation i =
     bindS (gets (\<lambda>w. find_unique (\<lambda>c. cu_id c = i) (t_curations w))) (\<lambda>c.
     seqS (throw_if (c = None) (PrismaError ''P2025''))
       (modify (\<lambda>w. w\<lparr>t_curations := delete_many (\<lambda>c. cu_id c = i) (t_curations w)\<rparr>)))"

definition findCurationById :: "string \<Rightarrow> db \<Rightarrow> curation_view option" where
  "findCurationById i w = map_option (view_of w) (curation_by_id i w)"

section \<open>Administration\<close>

definition listCities_admin :: "(string \<Rightarrow> string \<Rightarrow> bool) \<Rightarrow> db \<Rightarrow> city_row list" where
  "listCities_admin collate = listAllCities collate 80"

definition parseOptionalExpiresAt :: "(string \<Rightarrow> int option) \<Rightarrow> string option \<Rightarrow> http_error + int option" where
  "parseOptionalExpiresAt parse value = (case value of
     None \<Rightarrow> Inr None
   | Some s \<Rightarrow> if s = [] then Inr None else (case parse s of
       None \<Rightarrow> Inl (BadRequest ''expiresAt debe ser una fecha ISO valida.'') | Some d \<Rightarrow> Inr (Some d)))"

definition resolvePlaceId :: "places_env \<Rightarrow> string option \<Rightarrow> string option \<Rightarrow> string dbm" where
  "resolvePlaceId env placeId googlePlaceId =
     (let p = js_trim (default_to placeId []); g = js_trim (default_to googlePlaceId []) in
      if p \<noteq> [] then ret p
      else if g = [] then throw (BadRequest ''Indica placeId o googlePlaceId para curar un lugar.'')
      else bindS (resolver env g None) (\<lambda>r. ret (pl_id r)))"

definition resolveCityFilter :: "string option \<Rightarrow> string option \<Rightarrow> db \<Rightarrow> string option" where
  "resolveCityFilter cityId cityGooglePlaceId w =
     (let i = js_trim (default_to cityId []); g = js_trim (default_to cityGooglePlaceId []) in
      if i \<noteq> [] then Some i else if g = [] then None else map_option ci_id (findCityByGooglePlaceId g w))"

definition listCurations :: "string option \<Rightarrow> string option \<Rightarrow> db \<Rightarrow> curation_view list" where
  "listCurations cityId cityGooglePlaceId w = listByCity (resolveCityFilter cityId cityGooglePlaceId w) w"

definition resolvePlaceCityId :: "places_env \<Rightarrow> place_row \<Rightarrow> string dbm" where
  "resolvePlaceCityId env p =
     (if js_trim (default_to (pl_city_id p) []) \<noteq> [] then ret (js_trim (default_to (pl_city_id p) []))
      else if pl_lat p \<noteq> None \<and> pl_lng p \<noteq> None then
        bindS (ensureStoredCityForCoordinates env (pl_lat p) (pl_lng p)) (\<lambda>c.
        bindS (patchPlaceCity (pl_id p) (ci_id c) (ci_name c)) (\<lambda>_. ret (ci_id c)))
      else throw (BadRequest ''No pudimos determinar la ciudad del lugar. Abri su ficha en la app y reintenta.''))"

record curation_body =
  cb_placeId :: "string option"
  cb_googlePlaceId :: "string option"
  cb_boost :: "int option"
  cb_pick :: "bool option"
  cb_badge :: "bool option"
  cb_label :: "string option"
  cb_expiresAt :: "string option"
  cb_hidden :: "bool option"

definition hide_if_asked :: "string \<Rightarrow> bool option \<Rightarrow> unit dbm" where
  "hide_if_asked placeId hidden = (case hidden of None \<Rightarrow> ret ()
     | Some b \<Rightarrow> bindS (setHiddenFromApp placeId b) (\<lambda>_. ret ()))"

definition createCuration :: "places_env \<Rightarrow> (string \<Rightarrow> int option) \<Rightarrow> string \<Rightarrow> curation_body \<Rightarrow> curation_view dbm" where
  "createCuration env parse adminUserId body =
     bindS (resolvePlaceId env (cb_placeId body) (cb_googlePlaceId body)) (\<lambda>placeId.
     bindS (gets (place_by_id placeId)) (\<lambda>found.
     bindS (require (NotFound ''Lugar no encontrado.'') found) (\<lambda>p.
     bindS (resolvePlaceCityId env p) (\<lambda>cityId.
     seqS (hide_if_asked placeId (cb_hidden body))
     (bindS (liftE (parseOptionalExpiresAt parse (cb_expiresAt body))) (\<lambda>expires.
       let hide = (cb_hidden body = Some True) in
       create_curation \<lparr>cin_place = placeId, cin_city = Some cityId,
         cin_boost = Some (if hide then 0 else default_to (cb_boost body) 0),
         cin_pick = Some (if hide then False else default_to (cb_pick body) False),
         cin_badge = Some (if hide then False else default_to (cb_badge body) False),
         cin_label = cb_label body, cin_expires = expires, cin_createdBy = adminUserId\<rparr>))))))"

record curation_update =
  ub_boost :: "int option"
  ub_pick :: "bool option"
  ub_badge :: "bool option"
  ub_label :: "string option option"
  ub_active :: "bool option"
  ub_expiresAt :: "string option option"
  ub_hidden :: "bool option"

definition updateCuration :: "(string \<Rightarrow> int option) \<Rightarrow> string \<Rightarrow> curation_update \<Rightarrow> curation_view dbm" where
  "updateCuration parse i body =
     bindS (gets (findCurationById i)) (\<lambda>x.
     bindS (require (NotFound ''Curacion no encontrada.'') x) (\<lambda>existing.
     seqS (hide_if_asked (cu_place (cv_row existing)) (ub_hidden body))
     (let hide = (ub_hidden body = Some True) in
      bindS (case ub_expiresAt body of None \<Rightarrow> ret None
               | Some v \<Rightarrow> bindS (liftE (parseOptionalExpiresAt parse v)) (\<lambda>e. ret (Some e))) (\<lambda>expires.
      update_curation i \<lparr>cpa_boost = (if hide then Some 0 else ub_boost body),
        cpa_pick = (if hide then Some False else ub_pick body), cpa_badge = (if hide then Some False else ub_badge body),
        cpa_label = ub_label body, cpa_active = (if hide then Some False else ub_active body),
        cpa_city = None, cpa_expires = expires\<rparr>))))"

definition setPlaceVisibility :: "places_env \<Rightarrow> string option \<Rightarrow> string option \<Rightarrow> bool \<Rightarrow> (string \<times> string option \<times> bool) dbm" where
  "setPlaceVisibility env placeId googlePlaceId hidden =
     bindS (resolvePlaceId env placeId googlePlaceId) (\<lambda>i.
     bindS (setHiddenFromApp i hidden) (\<lambda>p. ret (pl_id p, pl_google_id p, pl_hidden p)))"

definition deleteCuration :: "string \<Rightarrow> unit dbm" where
  "deleteCuration i =
     bindS (gets (findCurationById i)) (\<lambda>x.
     bindS (require (NotFound ''Curacion no encontrada.'') x) (\<lambda>_. delete_curation i))"

section \<open>The boosts of a city\<close>

text \<open>What a city's boosts are for, whatever the order of the rows: the greatest live boost of the place.\<close>

definition boost_spec :: "(string \<Rightarrow> string option) \<Rightarrow> string \<Rightarrow> db \<Rightarrow> string \<Rightarrow> int option" where
  "boost_spec decode cityId w g =
     (let bs = map (\<lambda>x. cu_boost (fst x)) (filter (\<lambda>x. active_curation (Some cityId) w x \<and> 0 < cu_boost (fst x)
            \<and> curated_google_id decode (snd x) = Some g) (curated_rows w))
      in if bs = [] then None else Some (Max (set bs)))"

lemma gather_max: "js_map.gather max None (v # vs) = Some (Max (set (v # vs)))" for v :: int
proof -
  have "foldl max v vs = Max (set (v # vs))" for v :: int and vs
  proof (induction vs arbitrary: v)
    case (Cons u us)
    have "foldl max v (u # us) = Max (set (max v u # us))" using Cons by simp
    also have "\<dots> = Max (set (v # u # us))" by (cases "us = []") (simp_all add: max.assoc)
    finally show ?case .
  qed simp
  then show ?thesis by (simp add: js_map.gather_None)
qed

lemma gather_max_set: "js_map.gather max None vs = (if vs = [] then None else Some (Max (set vs)))" for vs :: "int list"
  using gather_max by (cases vs) (simp_all add: js_map.gather_def)

lemma list_max_cong:
  "set as = set bs \<Longrightarrow> (if as = [] then None else Some (Max (set as))) = (if bs = [] then None else Some (Max (set bs)))"
  by (cases as; cases bs) simp_all

lemma keyed_rows_set:
  "(g, c) \<in> set (keyed_rows decode rows) \<longleftrightarrow> (\<exists>p. (c, p) \<in> set rows \<and> curated_google_id decode p = Some g)"
  by (auto simp: keyed_rows_def map_filter_def image_iff split: option.splits) fastforce+

lemma boosts_of:
  "map_of (sg_boosts (signals_of decode rows)) g =
     (let bs = map (\<lambda>x. cu_boost (snd x)) (filter (\<lambda>x. 0 < cu_boost (snd x) \<and> fst x = g) (keyed_rows decode rows))
      in if bs = [] then None else Some (Max (set bs)))"
proof -
  let ?k = "filter (\<lambda>x. 0 < cu_boost (snd x)) (keyed_rows decode rows)"
  have "map snd (filter (\<lambda>x. fst x = g) (map (\<lambda>x. (fst x, max 0 (cu_boost (snd x)))) ?k))
      = map (\<lambda>x. cu_boost (snd x)) (filter (\<lambda>x. 0 < cu_boost (snd x) \<and> fst x = g) (keyed_rows decode rows))"
    by (induction "keyed_rows decode rows") (auto simp: filter_map comp_def conj_commute)
  then show ?thesis
    unfolding signals_of_def Let_def curation_signals.simps map_upserts_fetch map_of.simps gather_max_set by simp
qed

text \<open>C21: the boosts computed for a city give every Google id the greatest boost among the live curations of the
  city's visible places with that id, and nothing to any other id: the loop over the sorted rows refines that
  specification.\<close>

theorem boosts_refine_maximum:
  "map_of (sg_boosts (fst (getCurationSignalsForCity decode cityId w))) g = boost_spec decode cityId w g"
proof -
  let ?rows = "listActiveForCity cityId w"
  let ?bs = "map (\<lambda>x. cu_boost (snd x)) (filter (\<lambda>x. 0 < cu_boost (snd x) \<and> fst x = g) (keyed_rows decode ?rows))"
  let ?cs = "map (\<lambda>x. cu_boost (fst x)) (filter (\<lambda>x. active_curation (Some cityId) w x \<and> 0 < cu_boost (fst x)
            \<and> curated_google_id decode (snd x) = Some g) (curated_rows w))"
  have rows: "(c, p) \<in> set ?rows \<longleftrightarrow> (c, p) \<in> set (curated_rows w) \<and> active_curation (Some cityId) w (c, p)" for c p
    by (simp add: listActiveForCity_def conj_commute)
  have "b \<in> set ?bs \<longleftrightarrow> b \<in> set ?cs" for b
  proof
    assume "b \<in> set ?bs"
    then obtain c where "(g, c) \<in> set (keyed_rows decode ?rows)" "0 < cu_boost c" "b = cu_boost c"
      by (auto simp del: set_sort_by)
    then obtain p where "(c, p) \<in> set ?rows" "curated_google_id decode p = Some g" "0 < cu_boost c" "b = cu_boost c"
      unfolding keyed_rows_set by blast
    then show "b \<in> set ?cs" unfolding rows by (auto intro!: image_eqI [of _ _ "(c, p)"])
  next
    assume "b \<in> set ?cs"
    then obtain c p where "(c, p) \<in> set ?rows" "curated_google_id decode p = Some g" "0 < cu_boost c" "b = cu_boost c"
      unfolding rows by auto
    then have "(g, c) \<in> set (keyed_rows decode ?rows)" "0 < cu_boost c" "b = cu_boost c" unfolding keyed_rows_set by blast+
    then have "(g, c) \<in> set (filter (\<lambda>x. 0 < cu_boost (snd x) \<and> fst x = g) (keyed_rows decode ?rows))" by simp
    from imageI [OF this, of "\<lambda>x. cu_boost (snd x)"] show "b \<in> set ?bs" using \<open>b = cu_boost c\<close> by (simp only: set_map snd_conv)
  qed
  then have "set ?bs = set ?cs" by blast
  from list_max_cong [OF this] show ?thesis
    unfolding getCurationSignalsForCity_def Let_def fst_conv boosts_of boost_spec_def .
qed

section \<open>Properties\<close>

lemma curated_rows_mem: "(c, p) \<in> set (curated_rows w) \<longleftrightarrow> c \<in> set (t_curations w) \<and> place_by_id (cu_place c) w = Some p"
  by (auto simp: curated_rows_def with_place_def split: option.splits)

lemma signals_curated: "g \<in> set (sg_curated (signals_of decode rows))
    \<longleftrightarrow> (\<exists>c p. (c, p) \<in> set rows \<and> curated_google_id decode p = Some g)"
proof -
  have "g \<in> set (sg_curated (signals_of decode rows)) \<longleftrightarrow> (\<exists>c. (g, c) \<in> set (keyed_rows decode rows))"
    by (force simp: signals_of_def Let_def)
  then show ?thesis unfolding keyed_rows_set .
qed

definition sample_curation :: curation_row where
  "sample_curation = \<lparr>cu_id = ''k'', cu_place = ''p'', cu_city = Some ''m'', cu_boost = 30, cu_pick = True, cu_label = None,
     cu_active = True, cu_badge = True, cu_expires = None, cu_created_by = ''a'', cu_created = 0, cu_updated = 0\<rparr>"

definition curated_db :: "bool \<Rightarrow> db" where
  "curated_db hidden = (empty_db 9)\<lparr>t_curations := [sample_curation],
     t_places := [(google_place_row ''p'' ''g'')\<lparr>pl_hidden := hidden, pl_city_id := Some ''m''\<rparr>]\<rparr>"

text \<open>A place hidden from the app counts as a curated place of its city for the badges, although it never does
  for the signals of the ranking: the query of the badges replaces the condition on the place.\<close>

theorem badge_ignores_visibility:
  assumes "c \<in> set (t_curations w)" "cu_active c" "notExpiredWhere (db_now w) c" "cu_badge c" "cu_city c = Some city"
    "city \<noteq> []" "place_by_id (cu_place c) w = Some p" "pl_google_id p = Some g" "js_trim g = g" "g \<noteq> []"
    "normalizeGooglePlaceId decode g = g"
  shows "map_of (getRecommendedBadgesByGooglePlaceIds decode (Some city) [g] w) g = Some FECA_RECOMMENDED_BADGE_LABEL"
proof -
  have ids: "normalizeGoogleIds decode [g] = [g]" using assms(10,11) by (simp add: normalizeGoogleIds_def)
  have "(c, p) \<in> set (rows_by_google_id (Some city) [g] w)"
    using assms by (simp add: rows_by_google_id_def curated_rows_mem live_where_def)
  moreover have id: "curated_google_id decode p = Some g"
    using assms by (simp add: curated_google_id_def)
  ultimately have "g \<in> set (List.map_filter (\<lambda>x. curated_google_id decode (snd x))
      (sort_by curation_order (filter (\<lambda>x. cu_badge (fst x)) (rows_by_google_id (Some city) [g] w))))"
    using assms(4) by (force simp: map_filter_def)
  then show ?thesis
    unfolding getRecommendedBadgesByGooglePlaceIds_def ids using assms(6)
    by (simp add: truthy_def map_of_map_restrict map_of_map_keys)
qed

theorem badge_ignores_visibility_witness:
  "pl_hidden ((google_place_row ''p'' ''g'')\<lparr>pl_hidden := True, pl_city_id := Some ''m''\<rparr>)
   \<and> map_of (getRecommendedBadgesByGooglePlaceIds Some (Some ''m'') [''g''] (curated_db True)) ''g''
     = Some FECA_RECOMMENDED_BADGE_LABEL"
  by (rule conjI [OF _ badge_ignores_visibility [of sample_curation _ _
        "(google_place_row ''p'' ''g'')\<lparr>pl_hidden := True, pl_city_id := Some ''m''\<rparr>"]]) code_simp+

text \<open>The signals of a city never name a Google id of hidden places only: an id is curated only through a visible
  place of the city, or of none, with a live curation of the city.\<close>

theorem signals_of_visible_places:
  assumes "g \<in> set (sg_curated (fst (getCurationSignalsForCity decode city w)))" "city \<noteq> []"
  shows "list_ex (\<lambda>c. cu_active c \<and> notExpiredWhere (db_now w) c \<and> cu_city c = Some city
       \<and> (case place_by_id (cu_place c) w of None \<Rightarrow> False
          | Some p \<Rightarrow> \<not> pl_hidden p \<and> curated_google_id decode p = Some g
              \<and> (pl_city_id p = Some city \<or> pl_city_id p = None))) (t_curations w)"
proof -
  from assms(1) obtain c p where "(c, p) \<in> set (listActiveForCity city w)" "curated_google_id decode p = Some g"
    by (auto simp: getCurationSignalsForCity_def Let_def signals_curated)
  then have "c \<in> set (t_curations w)" "place_by_id (cu_place c) w = Some p" "active_curation (Some city) w (c, p)"
    "curated_google_id decode p = Some g"
    by (auto simp: listActiveForCity_def curated_rows_mem)
  then show ?thesis using assms(2)
    unfolding list_ex_iff by (intro bexI [of _ c]) (auto simp: active_curation_def live_where_def curated_place_where_def truthy_def)
qed

theorem signals_of_visible_places_witness:
  "list_ex (\<lambda>c. cu_active c \<and> notExpiredWhere (db_now (curated_db False)) c \<and> cu_city c = Some ''m''
       \<and> (case place_by_id (cu_place c) (curated_db False) of None \<Rightarrow> False
          | Some p \<Rightarrow> \<not> pl_hidden p \<and> curated_google_id Some p = Some ''g''
              \<and> (pl_city_id p = Some ''m'' \<or> pl_city_id p = None))) (t_curations (curated_db False))"
  by (rule signals_of_visible_places) code_simp+

text \<open>Hiding a place while curating it is not undone when the curation fails: curating an already curated place
  with \<open>hiddenFromApp\<close> answers with Prisma's P2002 and leaves the place hidden.\<close>

theorem failed_curation_hides:
  assumes "place_by_id placeId w = Some p" "js_trim placeId = placeId" "placeId \<noteq> []" "pl_city_id p = Some city"
    "js_trim city = city" "city \<noteq> []" "curation_taken placeId (Some city) w" "cb_placeId body = Some placeId"
    "cb_hidden body = Some True" "cb_expiresAt body = None"
  shows "fst (createCuration env parse admin body w) = Inl (PrismaError ''P2002'')
    \<and> map_option pl_hidden (place_by_id placeId (snd (createCuration env parse admin body w))) = Some True"
proof -
  let ?w = "w\<lparr>t_places := update_many (\<lambda>p. pl_id p = placeId) (\<lambda>p. p\<lparr>pl_hidden := True, pl_updated := db_now w\<rparr>) (t_places w)\<rparr>"
  have h: "hide_if_asked placeId (Some True) w = (Inr (), ?w)"
    using assms(1) by (simp add: hide_if_asked_def setHiddenFromApp_def update_place_def bindS_apply seqS_def now_apply)
  have taken: "curation_taken placeId (Some city) (?w\<lparr>db_next := Suc (db_next ?w)\<rparr>)"
    using assms(7) by (simp add: curation_taken_def)
  have "createCuration env parse admin body w = (Inl (PrismaError ''P2002''), ?w\<lparr>db_next := Suc (db_next ?w)\<rparr>)"
    using assms(1-6,8,9,10) taken
    by (simp add: createCuration_def resolvePlaceId_def Let_def resolvePlaceCityId_def seqS_def bindS_apply h
        parseOptionalExpiresAt_def create_curation_def now_apply fresh_id_apply)
  moreover have "place_by_id placeId (?w\<lparr>db_next := Suc (db_next ?w)\<rparr>) = Some (p\<lparr>pl_hidden := True, pl_updated := db_now w\<rparr>)"
    using assms(1) find_unique_Some [of "\<lambda>p. pl_id p = placeId" "t_places w" p]
    by (simp add: place_by_id_def find_unique_update_many_same)
  ultimately show ?thesis by simp
qed

definition hide_body :: curation_body where
  "hide_body = \<lparr>cb_placeId = Some ''p'', cb_googlePlaceId = None, cb_boost = None, cb_pick = None, cb_badge = None,
     cb_label = None, cb_expiresAt = None, cb_hidden = Some True\<rparr>"

theorem failed_curation_hides_witness:
  "fst (createCuration (sample_env True) (\<lambda>_. None) ''a'' hide_body (curated_db False)) = Inl (PrismaError ''P2002'')
   \<and> map_option pl_hidden (place_by_id ''p'' (snd (createCuration (sample_env True) (\<lambda>_. None) ''a'' hide_body (curated_db False))))
     = Some True"
  by (rule failed_curation_hides [where city = "''m''"
        and p = "(google_place_row ''p'' ''g'')\<lparr>pl_hidden := False, pl_city_id := Some ''m''\<rparr>"]) code_simp+

end
