(* ===== verification/HttpApi.thy ===== *)
theory HttpApi
  imports WebAuth GroupSystem SocialFeed Diaries Curation PushDispatch
begin

text \<open>
  The routes of the application behind their guards: the facade \<open>SocialService\<close> with the controllers that call it, the
  controllers of plans, visits and administration.

  A request that passed validation is a value of the controller's route type: the method, the parameters of the path and
  the query or body with the defaults of its DTO.  \<open>guarded\<close> is \<open>AccessTokenGuard\<close>; the handlers get the subject of the
  token.  The record \<open>api_env\<close> collects what the services take from outside.
\<close>

section \<open>The facade of the social services\<close>

record api_env =
  ax_auth :: auth_env
  ax_places :: places_env
  ax_feed :: feed_env
  ax_codec :: cursor_codec
  ax_collate :: "string \<Rightarrow> string \<Rightarrow> bool"
  ax_shuffle :: "string \<Rightarrow> 32 word \<times> 32 word \<times> 32 word"
  ax_inviteCode :: string
  ax_parseDate :: "string \<Rightarrow> int option"

datatype social_call =
    CallFeed feed_query
  | CallMyVisits nat nat
  | CallUserVisits string nat nat
  | CallProfile string
  | CallSearchUsers nat nat "string option"
  | CallSuggested "int option" "string option"
  | CallFollow string
  | CallUnfollow string
  | CallFollowing nat nat
  | CallFollowers nat nat
  | CallSettings
  | CallUpdateSettings update_social_settings_dto
  | CallTasteOptions
  | CallMyTaste
  | CallUpdateTaste update_taste_dto
  | CallUserTaste string
  | CallSavedPlaces nat nat
  | CallPlaceSaved string
  | CallSavePlace string
  | CallUnsavePlace string
  | CallMyGroups
  | CallCreateGroup create_group_dto
  | CallJoinByCode string
  | CallGroup string
  | CallAddMembers string "string list"
  | CallUpdateGroup string update_group_dto
  | CallLeaveGroup string
  | CallFriendPlans nat nat
  | CallAddEvent string group_event_input
  | CallEventRsvp string string "rsvp_status option"
  | CallMyDiaries
  | CallSearchDiaries nat nat "string option"
  | CallUserDiaries string
  | CallCreateDiary create_diary_dto
  | CallEditorGuides nat
  | CallDiary string
  | CallAddDiaryPlace string group_event_input "string option" "int option"
  | CallUpdateDiary string update_diary_dto

datatype social_reply =
    AnswerFeed feed_answer
  | AnswerVisits "nat \<times> visit_view list"
  | AnswerProfile "social_state \<times> user_public \<times> user_stats"
  | AnswerUsers "nat \<times> user_summary list"
  | AnswerFlag bool
  | AnswerSettings api_social_settings
  | AnswerTasteOptions "(string \<times> string) list"
  | AnswerTaste "(string \<times> string) list \<times> string list"
  | AnswerSaved "saved_view list \<times> nat"
  | AnswerGroups "group_view list \<times> nat"
  | AnswerInvites "group_view \<times> rejected_invite list"
  | AnswerGroup group_view
  | AnswerFriendPlans "friend_plan_view list \<times> nat"
  | AnswerEvent event_view
  | AnswerDiaries "diary_view list \<times> nat"
  | AnswerDiary diary_view

definition map_result :: "('a \<Rightarrow> 'b) \<Rightarrow> 'a dbm \<Rightarrow> 'b dbm" where
  "map_result f m = bindS m (\<lambda>x. ret (f x))"

definition social_service :: "api_env \<Rightarrow> string \<Rightarrow> social_call \<Rightarrow> social_reply dbm" where
  "social_service ax u call = (case call of
     CallFeed q \<Rightarrow> map_result AnswerFeed (getFeed (ax_feed ax) (ax_places ax) u q)
   | CallMyVisits limit offset \<Rightarrow> map_result AnswerVisits (gets (getMyVisits u limit offset))
   | CallUserVisits t limit offset \<Rightarrow> map_result AnswerVisits (getUserVisits u t limit offset)
   | CallProfile t \<Rightarrow> map_result AnswerProfile (getUserProfile u t)
   | CallSearchUsers limit offset q \<Rightarrow> map_result AnswerUsers (searchUsers (ax_collate ax) u limit offset q)
   | CallSuggested limit city \<Rightarrow> map_result AnswerUsers (gets (listSuggestedOnboardingUsers (ax_shuffle ax) u limit city))
   | CallFollow t \<Rightarrow> map_result AnswerFlag (followUser u t)
   | CallUnfollow t \<Rightarrow> map_result AnswerFlag (unfollowUser u t)
   | CallFollowing limit offset \<Rightarrow> map_result AnswerUsers (gets (listFollowing u limit offset))
   | CallFollowers limit offset \<Rightarrow> map_result AnswerUsers (gets (listFollowers u limit offset))
   | CallSettings \<Rightarrow> map_result AnswerSettings (getSocialSettings u)
   | CallUpdateSettings body \<Rightarrow> map_result AnswerSettings (updateSocialSettings u body)
   | CallTasteOptions \<Rightarrow> ret (AnswerTasteOptions TASTE_OPTIONS)
   | CallMyTaste \<Rightarrow> map_result AnswerTaste (getMyTaste u)
   | CallUpdateTaste body \<Rightarrow> map_result AnswerTaste (updateMyTaste u body)
   | CallUserTaste t \<Rightarrow> map_result AnswerTaste (getUserTaste u t)
   | CallSavedPlaces limit offset \<Rightarrow> map_result AnswerSaved (gets (listSavedPlaces u limit offset))
   | CallPlaceSaved g \<Rightarrow> map_result AnswerFlag (gets (getPlaceSaved (en_decode (ax_places ax)) u g))
   | CallSavePlace g \<Rightarrow> map_result AnswerFlag (savePlace (resolver (ax_places ax)) u g)
   | CallUnsavePlace g \<Rightarrow> map_result AnswerFlag (unsavePlace (en_decode (ax_places ax)) u g)
   | CallMyGroups \<Rightarrow> map_result AnswerGroups (gets (listMyGroups u))
   | CallCreateGroup body \<Rightarrow> map_result AnswerInvites (createGroup (ax_inviteCode ax) u body)
   | CallJoinByCode code \<Rightarrow> map_result AnswerGroup (joinGroupByCode u code)
   | CallGroup g \<Rightarrow> map_result AnswerGroup (getGroup u g)
   | CallAddMembers g ids \<Rightarrow> map_result AnswerInvites (addGroupMembers u g ids)
   | CallUpdateGroup g body \<Rightarrow> map_result AnswerGroup (updateGroup u g body)
   | CallLeaveGroup g \<Rightarrow> map_result AnswerGroup (leaveGroup u g)
   | CallFriendPlans limit offset \<Rightarrow> map_result AnswerFriendPlans (gets (listPublicFriendGroupPlans (ax_collate ax) u offset limit))
   | CallAddEvent g body \<Rightarrow> map_result AnswerEvent (addGroupEvent (resolver (ax_places ax)) u g body)
   | CallEventRsvp g e r \<Rightarrow> map_result AnswerGroup (setGroupEventRsvp u g e r)
   | CallMyDiaries \<Rightarrow> map_result AnswerDiaries (gets (listMyDiaries u))
   | CallSearchDiaries limit offset q \<Rightarrow> map_result AnswerDiaries (searchPublicDiaries u limit offset q)
   | CallUserDiaries t \<Rightarrow> map_result AnswerDiaries (listUserDiaries u t)
   | CallCreateDiary body \<Rightarrow> map_result AnswerDiary (createDiary u body)
   | CallEditorGuides limit \<Rightarrow> map_result AnswerDiaries (gets (listHomeEditorGuides u limit))
   | CallDiary d \<Rightarrow> map_result AnswerDiary (getDiary u d)
   | CallAddDiaryPlace d place text position \<Rightarrow>
       map_result AnswerDiary (addPlaceToDiary (resolver (ax_places ax)) u d place text position)
   | CallUpdateDiary d body \<Rightarrow> map_result AnswerDiary (updateDiary u d body))"

section \<open>Controllers over the facade\<close>

datatype group_route =
    PostGroup create_group_dto
  | PostGroupJoin string
  | GetGroup string
  | PatchGroup string update_group_dto
  | PostGroupLeave string
  | PostGroupMembers string "string list"
  | PostGroupEvent string group_event_input
  | PostGroupEventRsvp string string "rsvp_status option"

definition on_social :: "api_env \<Rightarrow> header \<Rightarrow> social_call \<Rightarrow> social_reply dbm" where
  "on_social ax header call = guarded (ae_verifyJwt (ax_auth ax)) header (\<lambda>user. social_service ax (snd user) call)"

definition group_call :: "group_route \<Rightarrow> social_call" where
  "group_call route = (case route of
     PostGroup body \<Rightarrow> CallCreateGroup body
   | PostGroupJoin code \<Rightarrow> CallJoinByCode code
   | GetGroup g \<Rightarrow> CallGroup g
   | PatchGroup g body \<Rightarrow> CallUpdateGroup g body
   | PostGroupLeave g \<Rightarrow> CallLeaveGroup g
   | PostGroupMembers g ids \<Rightarrow> CallAddMembers g ids
   | PostGroupEvent g body \<Rightarrow> CallAddEvent g body
   | PostGroupEventRsvp g e r \<Rightarrow> CallEventRsvp g e r)"

definition groups_controller :: "api_env \<Rightarrow> header \<Rightarrow> group_route \<Rightarrow> social_reply dbm" where
  "groups_controller ax header route = on_social ax header (group_call route)"

datatype user_route =
    GetUserSearch nat nat "string option"
  | PostFollow string
  | DeleteFollow string
  | GetUser string
  | GetUserVisits string nat nat
  | GetUserDiaries string
  | GetUserTaste string

definition users_controller :: "api_env \<Rightarrow> header \<Rightarrow> user_route \<Rightarrow> social_reply dbm" where
  "users_controller ax header route = on_social ax header (case route of
     GetUserSearch limit offset q \<Rightarrow> CallSearchUsers limit offset q
   | PostFollow t \<Rightarrow> CallFollow t
   | DeleteFollow t \<Rightarrow> CallUnfollow t
   | GetUser t \<Rightarrow> CallProfile t
   | GetUserVisits t limit offset \<Rightarrow> CallUserVisits t limit offset
   | GetUserDiaries t \<Rightarrow> CallUserDiaries t
   | GetUserTaste t \<Rightarrow> CallUserTaste t)"

datatype diary_route =
    PostDiary create_diary_dto
  | GetDiarySearch nat nat "string option"
  | GetDiary string
  | PatchDiary string update_diary_dto
  | PostDiaryPlace string group_event_input "string option" "int option"

definition diaries_controller :: "api_env \<Rightarrow> header \<Rightarrow> diary_route \<Rightarrow> social_reply dbm" where
  "diaries_controller ax header route = on_social ax header (case route of
     PostDiary body \<Rightarrow> CallCreateDiary body
   | GetDiarySearch limit offset q \<Rightarrow> CallSearchDiaries limit offset q
   | GetDiary d \<Rightarrow> CallDiary d
   | PatchDiary d body \<Rightarrow> CallUpdateDiary d body
   | PostDiaryPlace d place text position \<Rightarrow> CallAddDiaryPlace d place text position)"

datatype place_save_route = GetPlaceSaved string | PostPlaceSave string | DeletePlaceSave string

definition place_saves_controller :: "api_env \<Rightarrow> header \<Rightarrow> place_save_route \<Rightarrow> social_reply dbm" where
  "place_saves_controller ax header route = on_social ax header (case route of
     GetPlaceSaved g \<Rightarrow> CallPlaceSaved g
   | PostPlaceSave g \<Rightarrow> CallSavePlace g
   | DeletePlaceSave g \<Rightarrow> CallUnsavePlace g)"

definition feed_controller :: "api_env \<Rightarrow> header \<Rightarrow> feed_query \<Rightarrow> social_reply dbm" where
  "feed_controller ax header q = on_social ax header (CallFeed q)"

definition onboarding_controller :: "api_env \<Rightarrow> header \<Rightarrow> int option \<Rightarrow> string option \<Rightarrow> social_reply dbm" where
  "onboarding_controller ax header limit city = on_social ax header (CallSuggested limit city)"

definition home_controller :: "api_env \<Rightarrow> header \<Rightarrow> nat option \<Rightarrow> social_reply dbm" where
  "home_controller ax header limit = on_social ax header (CallEditorGuides (default_to limit 20))"

text \<open>Two routes take no session.\<close>

definition taste_controller :: "api_env \<Rightarrow> social_reply dbm" where
  "taste_controller ax = social_service ax [] CallTasteOptions"

definition group_invites_controller :: "string \<Rightarrow> group_view dbm" where
  "group_invites_controller code = getGroupInvitePreview code"

text \<open>The routes of the own account that are not in the account's controller.\<close>

datatype me_route =
    GetMyVisits nat nat
  | GetMySaved nat nat
  | GetMyNotifications nat nat bool
  | PostReadAll
  | PostRead string
  | PostPushToken upsert_push_token
  | DeletePushToken string
  | GetMyGroups
  | GetFriendPlans nat nat
  | GetMyDiaries
  | GetMyFollowing nat nat
  | GetMyFollowers nat nat
  | GetMySettings
  | GetMyTaste
  | PatchMyTaste update_taste_dto
  | PatchMySettings update_social_settings_dto

datatype me_reply =
    SocialAnswer social_reply
  | NotificationPage "notification_view list \<times> nat \<times> nat"
  | MarkedRead nat
  | Done

definition listMyNotifications :: "string \<Rightarrow> nat \<Rightarrow> nat \<Rightarrow> bool \<Rightarrow> db \<Rightarrow> notification_view list \<times> nat \<times> nat" where
  "listMyNotifications userId limit offset unreadOnly w =
     (let page = listForUser userId limit offset unreadOnly w
      in (map (serializeNotification w) (np_notifications page), np_total page, np_unreadTotal page))"

definition me_social :: "api_env \<Rightarrow> string \<Rightarrow> social_call \<Rightarrow> me_reply dbm" where
  "me_social ax u call = map_result SocialAnswer (social_service ax u call)"

definition me_handler :: "api_env \<Rightarrow> me_route \<Rightarrow> string \<Rightarrow> me_reply dbm" where
  "me_handler ax route u = (case route of
     GetMyVisits limit offset \<Rightarrow> me_social ax u (CallMyVisits limit offset)
   | GetMySaved limit offset \<Rightarrow> me_social ax u (CallSavedPlaces limit offset)
   | GetMyNotifications limit offset unread \<Rightarrow>
       map_result NotificationPage (gets (listMyNotifications u limit offset unread))
   | PostReadAll \<Rightarrow> map_result MarkedRead (markAllRead u)
   | PostRead i \<Rightarrow> map_result (\<lambda>_. Done) (markMyNotificationRead u i)
   | PostPushToken body \<Rightarrow> map_result (\<lambda>_. Done) (registerMyPushInstallation u body)
   | DeletePushToken i \<Rightarrow> map_result (\<lambda>_. Done) (revokeMyPushInstallation u i)
   | GetMyGroups \<Rightarrow> me_social ax u CallMyGroups
   | GetFriendPlans limit offset \<Rightarrow> me_social ax u (CallFriendPlans limit offset)
   | GetMyDiaries \<Rightarrow> me_social ax u CallMyDiaries
   | GetMyFollowing limit offset \<Rightarrow> me_social ax u (CallFollowing limit offset)
   | GetMyFollowers limit offset \<Rightarrow> me_social ax u (CallFollowers limit offset)
   | GetMySettings \<Rightarrow> me_social ax u CallSettings
   | GetMyTaste \<Rightarrow> me_social ax u CallMyTaste
   | PatchMyTaste body \<Rightarrow> me_social ax u (CallUpdateTaste body)
   | PatchMySettings body \<Rightarrow> me_social ax u (CallUpdateSettings body))"

definition me_controller :: "api_env \<Rightarrow> header \<Rightarrow> me_route \<Rightarrow> me_reply dbm" where
  "me_controller ax header route = guarded (ae_verifyJwt (ax_auth ax)) header (\<lambda>user. me_handler ax route (snd user))"

section \<open>Plans, visits and administration\<close>

datatype plan_route =
    GetDiscover discover_query
  | PostPlan create_plan_dto
  | GetPlan string
  | PatchPlan string update_plan_dto
  | PostPlanJoin string
  | PostPlanLeave string
  | PostPlanReport string string
  | GetJoinRequests string
  | PostApprove string string
  | PostReject string string
  | PostCancelRequest string
  | PostPlanRsvp string string "rsvp_status option"
  | GetMessages string "nat option" "string option" "int option"
  | PostMessage string string
  | DeleteMessage string string

datatype plan_reply =
    PlanPage "string option \<times> plan_view list"
  | PlanShown plan_view
  | PlanDone
  | JoinRequests "join_request_view list"
  | Participation participation_state
  | PlanRsvp "plan_view \<times> rsvp_status option"
  | MessagePage "message_view list \<times> string option"
  | MessageShown message_view

definition plan_handler :: "api_env \<Rightarrow> plan_route \<Rightarrow> string \<Rightarrow> plan_reply dbm" where
  "plan_handler ax route u = (case route of
     GetDiscover q \<Rightarrow> map_result PlanPage (discover (ax_codec ax) u q)
   | PostPlan body \<Rightarrow> map_result PlanShown (create_plan (resolver (ax_places ax)) (ax_inviteCode ax) u body)
   | GetPlan g \<Rightarrow> map_result PlanShown (get_plan u g)
   | PatchPlan g body \<Rightarrow> map_result PlanShown (update_plan (resolver (ax_places ax)) u g body)
   | PostPlanJoin g \<Rightarrow> map_result PlanShown (join_plan u g)
   | PostPlanLeave g \<Rightarrow> map_result (\<lambda>_. PlanDone) (leave_plan u g)
   | PostPlanReport g why \<Rightarrow> map_result (\<lambda>_. PlanDone) (report_plan u g why)
   | GetJoinRequests g \<Rightarrow> map_result JoinRequests (list_join_requests u g)
   | PostApprove g m \<Rightarrow> map_result Participation (decide_join_request u g m True)
   | PostReject g m \<Rightarrow> map_result Participation (decide_join_request u g m False)
   | PostCancelRequest g \<Rightarrow> map_result Participation (cancel_join_request u g)
   | PostPlanRsvp g e r \<Rightarrow> map_result PlanRsvp (set_plan_rsvp u g e r)
   | GetMessages g limit cursor since \<Rightarrow> map_result MessagePage (list_messages (ax_codec ax) u g limit cursor since)
   | PostMessage g body \<Rightarrow> map_result MessageShown (send_message u g body)
   | DeleteMessage g m \<Rightarrow> map_result (\<lambda>_. PlanDone) (delete_message u g m))"

definition plans_controller :: "api_env \<Rightarrow> header \<Rightarrow> plan_route \<Rightarrow> plan_reply dbm" where
  "plans_controller ax header route = guarded (ae_verifyJwt (ax_auth ax)) header (\<lambda>user. plan_handler ax route (snd user))"

definition visits_controller :: "api_env \<Rightarrow> header \<Rightarrow> string list option \<Rightarrow> visit_body \<Rightarrow> visit_view dbm" where
  "visits_controller ax header tags body = guarded (ae_verifyJwt (ax_auth ax)) header (\<lambda>user.
     create_visit (resolver (ax_places ax)) (snd user) tags body)"

datatype tag_route = GetTags "string option" "string option" | PostTag string "string option" "string option"

definition visit_tags_controller :: "api_env \<Rightarrow> header \<Rightarrow> tag_route \<Rightarrow> merged_tags dbm" where
  "visit_tags_controller ax header route = guarded (ae_verifyJwt (ax_auth ax)) header (\<lambda>user. case route of
     GetTags p g \<Rightarrow> listMyVisitPlaceTags (snd user) p g
   | PostTag label p g \<Rightarrow> upsertMyVisitPlaceTag (snd user) label p g)"

datatype admin_route =
    GetAdminCities
  | GetCurations "string option" "string option"
  | PostCuration curation_body
  | PatchCuration string curation_update
  | DeleteCuration string
  | PatchVisibility "string option" "string option" bool

datatype admin_reply =
    AdminCities "city_row list"
  | AdminCurations "curation_view list"
  | AdminCuration curation_view
  | AdminDeleted
  | AdminVisibility "string \<times> string option \<times> bool"

definition admin_handler :: "api_env \<Rightarrow> admin_route \<Rightarrow> string \<Rightarrow> admin_reply dbm" where
  "admin_handler ax route u = (case route of
     GetAdminCities \<Rightarrow> map_result AdminCities (gets (listCities_admin (ax_collate ax)))
   | GetCurations c g \<Rightarrow> map_result AdminCurations (gets (listCurations c g))
   | PostCuration body \<Rightarrow> map_result AdminCuration (createCuration (ax_places ax) (ax_parseDate ax) u body)
   | PatchCuration i body \<Rightarrow> map_result AdminCuration (updateCuration (ax_parseDate ax) i body)
   | DeleteCuration i \<Rightarrow> map_result (\<lambda>_. AdminDeleted) (deleteCuration i)
   | PatchVisibility p g hidden \<Rightarrow> map_result AdminVisibility (setPlaceVisibility (ax_places ax) p g hidden))"

text \<open>\<open>AdminGuard\<close> runs after \<open>AccessTokenGuard\<close> and reads the mail address of the token.\<close>

definition admin_controller :: "api_env \<Rightarrow> header \<Rightarrow> admin_route \<Rightarrow> admin_reply dbm" where
  "admin_controller ax header route = guarded (ae_verifyJwt (ax_auth ax)) header (\<lambda>user.
     bindS (liftE (adminGuard (ae_cfg (ax_auth ax)) (Some user))) (\<lambda>_. admin_handler ax route (snd user)))"

section \<open>What the routes of plans and groups can do\<close>

text \<open>Resolving a place writes places and cities and takes ids.\<close>

definition place_frame :: "(db \<Rightarrow> bool) \<Rightarrow> bool" where
  "place_frame P \<longleftrightarrow> (\<forall>w n cs ps. P w \<longrightarrow> P (w\<lparr>t_cities := cs\<rparr>) \<and> P (w\<lparr>t_places := ps\<rparr>)
     \<and> (db_next w \<le> n \<longrightarrow> P (w\<lparr>db_next := n\<rparr>)))"

lemma place_frameD:
  assumes "place_frame P" "P w"
  shows "P (w\<lparr>t_cities := cs\<rparr>)" "P (w\<lparr>t_places := ps\<rparr>)" "P (w\<lparr>db_next := Suc (db_next w)\<rparr>)"
  using assms unfolding place_frame_def by (blast, blast, metis le_SucI order_refl)

lemma keeps_place_writes:
  assumes "place_frame P"
  shows "keeps P now" "keeps P (modify (\<lambda>w. w\<lparr>t_cities := f w\<rparr>))" "keeps P (modify (\<lambda>w. w\<lparr>t_places := g w\<rparr>))" "keeps P fresh_id"
  using place_frameD [OF assms] by (simp_all add: keeps_def now_apply fresh_id_apply)

lemma keeps_resolver_frame:
  assumes "place_frame P" shows "keeps P (resolver env gid token)"
  unfolding resolver_def resolve_place_def ensureStoredCityForCoordinates_def getCachedReverseGeocodeCity_def
    getCachedGoogleValue_def upsertCitySummary_def upsertCity_def upsertPlace_def Let_def
  by (auto intro!: keeps_intro keeps_place_writes [OF assms] split: option.splits)

lemma resolver_places_only: "places_only (resolver env)"
proof -
  have "place_frame (\<lambda>v. db_cuid v = db_cuid w \<and> db_next w \<le> db_next v \<and> t_groups v = t_groups w
      \<and> t_members v = t_members w \<and> t_users v = t_users w)" for w
    by (simp add: place_frame_def)
  from keepsD [OF keeps_resolver_frame [OF this]] show ?thesis
    unfolding places_only_def Let_def by blast
qed

lemma map_result_state: "snd (map_result f m w) = snd (m w)"
  by (simp add: map_result_def bindS_apply split: prod.splits sum.splits)

lemma keeps_same_now: "keeps ((=) w) now" by (simp add: keeps_def now_apply)

lemma reads_only:
  "keeps ((=) w) (discover cx u q)" "keeps ((=) w) (get_plan u g)" "keeps ((=) w) (list_join_requests u g)"
  "keeps ((=) w) (list_messages cx u g limit cursor since)" "keeps ((=) w) (getGroup u g)"
  unfolding discover_def get_plan_def list_join_requests_def list_messages_def getGroup_def requirePlan_def assertAdmin_def
    assertAccepted_def assertBounds_def Let_def
  by (intro keeps_intro keeps_same_now | simp only: split: option.splits prod.splits if_splits | intro allI conjI impI)+

datatype http_request = ToGroups header group_route | ToPlans header plan_route | DeleteAccount header

datatype http_answer = FromGroups social_reply | FromPlans plan_reply | AccountGone

fun serve :: "api_env \<Rightarrow> http_request \<Rightarrow> http_answer dbm" where
  "serve ax (ToGroups header route) = map_result FromGroups (groups_controller ax header route)"
| "serve ax (ToPlans header route) = map_result FromPlans (plans_controller ax header route)"
| "serve ax (DeleteAccount header) = map_result (\<lambda>_. AccountGone) (me_delete (ax_auth ax) header)"

fun header_of :: "http_request \<Rightarrow> header" where
  "header_of (ToGroups header route) = header"
| "header_of (ToPlans header route) = header"
| "header_of (DeleteAccount header) = header"

lemma guarded_cases:
  "snd (guarded verifyJwt header handler w) = w
   \<or> (\<exists>p. accessTokenGuard verifyJwt header = Inr p \<and> guarded verifyJwt header handler w = handler p w)"
  by (cases "accessTokenGuard verifyJwt header") (simp_all add: guarded_refuses guarded_runs throw_def)

lemma plan_handler_step: "snd (plan_handler ax route u w) = w \<or> group_step w (snd (plan_handler ax route u w))"
proof (cases route)
  case (GetDiscover q)
  then show ?thesis using keepsD [OF reads_only(1) refl] by (simp add: plan_handler_def map_result_state)
next
  case (GetPlan g)
  then show ?thesis using keepsD [OF reads_only(2) refl] by (simp add: plan_handler_def map_result_state)
next
  case (GetJoinRequests g)
  then show ?thesis using keepsD [OF reads_only(3) refl] by (simp add: plan_handler_def map_result_state)
next
  case (GetMessages g limit cursor since)
  then show ?thesis using keepsD [OF reads_only(4) refl] by (simp add: plan_handler_def map_result_state)
qed (simp_all add: plan_handler_def map_result_state group_step.intros resolver_places_only)

lemma group_call_step:
  "snd (social_service ax u (group_call route) w) = w \<or> group_step w (snd (social_service ax u (group_call route) w))"
proof (cases route)
  case (GetGroup g)
  then show ?thesis using keepsD [OF reads_only(5) refl] by (simp add: group_call_def social_service_def map_result_state)
qed (simp_all add: group_call_def social_service_def map_result_state group_step.intros resolver_places_only)

lemma serve_guarded:
  "case accessTokenGuard (ae_verifyJwt (ax_auth ax)) (header_of r) of Inl e \<Rightarrow> serve ax r w = (Inl e, w) | Inr p \<Rightarrow> True"
  by (cases r) (simp_all add: groups_controller_def on_social_def plans_controller_def me_delete_def map_result_def
    bindS_apply guarded_refuses throw_def split: sum.splits)

lemma serve_step: "snd (serve ax r w) = w \<or> group_step w (snd (serve ax r w))"
proof (cases r)
  case (ToGroups header route)
  then show ?thesis using guarded_cases [of "ae_verifyJwt (ax_auth ax)" header "\<lambda>user. social_service ax (snd user) (group_call route)" w]
      group_call_step [of ax _ route w]
    by (simp add: map_result_state groups_controller_def on_social_def) metis
next
  case (ToPlans header route)
  then show ?thesis using guarded_cases [of "ae_verifyJwt (ax_auth ax)" header "\<lambda>user. plan_handler ax route (snd user)" w]
      plan_handler_step [of ax route _ w]
    by (simp add: map_result_state plans_controller_def) metis
next
  case (DeleteAccount header)
  then show ?thesis using guarded_cases [of "ae_verifyJwt (ax_auth ax)" header "\<lambda>user. deleteMyAccount (snd user)" w]
    by (auto simp: map_result_state me_delete_def group_step.account_deleted)
qed

text \<open>The server answers one request after another; each comes with its own outside world.\<close>

definition serve_all :: "(api_env \<times> http_request) list \<Rightarrow> db \<Rightarrow> db" where
  "serve_all reqs w = fold (\<lambda>(ax, r) v. snd (serve ax r v)) reqs w"

lemma serve_all_steps: "group_step\<^sup>*\<^sup>* w (serve_all reqs w)"
proof (induction reqs arbitrary: w)
  case (Cons x reqs)
  obtain ax r where x: "x = (ax, r)" by (cases x)
  have s: "serve_all (x # reqs) w = serve_all reqs (snd (serve ax r w))" by (simp add: serve_all_def x)
  show ?case unfolding s using serve_step [of ax r w] Cons.IH [of "snd (serve ax r w)"]
    by (metis converse_rtranclp_into_rtranclp)
qed (simp add: serve_all_def)


text \<open>The routes of administration are closed to everyone whose mail address is not an administrator's: without a valid
  token the answer is the session guard's 401, with one that is not an administrator's the 403 of \<open>AdminGuard\<close>, both
  with the database unchanged; an administrator gets the handler's own answer, in the name of the token's subject.\<close>

theorem admin_routes_closed:
  "admin_controller ax header route w = (case accessTokenGuard (ae_verifyJwt (ax_auth ax)) header of
     Inl e \<Rightarrow> (Inl e, w)
   | Inr user \<Rightarrow> if isFecaAdminEmail (ae_cfg (ax_auth ax)) (fst user) then admin_handler ax route (snd user) w
       else (Inl (Forbidden ''Solo administradores de la app.''), w))"
  by (simp add: admin_controller_def guarded_def throw_def adminGuard_def bindS_apply liftE_def split: sum.splits prod.splits)

end
