(* ===== verification/ImportArchive.thy ===== *)
theory ImportArchive
  imports FecaDb "HOL-Library.Word"
begin

text \<open>
  The archive of a Google data export (\<open>google-data-portability-archive-parser.service.ts\<close>): downloading the files
  of an export within limits of size and of place, and reading the JSON files of a zip.  Files are lists of bytes.
  Outside code is a field of \<open>archive_env\<close>: the \<open>URL\<close> parser, \<open>isIP\<close>, \<open>fetch\<close>, zlib's \<open>inflateRawSync\<close> (\<open>None\<close> when it
  throws), the UTF-8 decoder and \<open>JSON.parse\<close>, whose objects list their keys in the order of \<open>Object.entries\<close>.
\<close>

section \<open>Reading a buffer\<close>

type_synonym bytes = "8 word list"

definition bindE :: "http_error + 'a \<Rightarrow> ('a \<Rightarrow> http_error + 'b) \<Rightarrow> http_error + 'b" where
  "bindE r f = (case r of Inl e \<Rightarrow> Inl e | Inr a \<Rightarrow> f a)"

lemma bindE_simps [simp]: "bindE (Inl e) f = Inl e" "bindE (Inr a) f = f a" by (simp_all add: bindE_def)

text \<open>Node's \<open>RangeError\<close>, which \<open>readUInt16LE\<close> and \<open>readUInt32LE\<close> throw for an offset out of range.\<close>

definition range_error :: http_error where "range_error = InternalError ''ERR_OUT_OF_RANGE''"

primrec le_value :: "bytes \<Rightarrow> nat" where
  "le_value [] = 0"
| "le_value (b # bs) = unat b + 256 * le_value bs"

definition readUIntLE :: "nat \<Rightarrow> bytes \<Rightarrow> nat \<Rightarrow> http_error + nat" where
  "readUIntLE width buffer offset =
     (if offset + width \<le> length buffer then Inr (le_value (take width (drop offset buffer))) else Inl range_error)"

abbreviation readUInt16LE :: "bytes \<Rightarrow> nat \<Rightarrow> http_error + nat" where "readUInt16LE \<equiv> readUIntLE 2"
abbreviation readUInt32LE :: "bytes \<Rightarrow> nat \<Rightarrow> http_error + nat" where "readUInt32LE \<equiv> readUIntLE 4"

definition subarray :: "bytes \<Rightarrow> nat \<Rightarrow> nat \<Rightarrow> bytes" where
  "subarray buffer start stop = take (stop - start) (drop start buffer)"

section \<open>The entries of a zip\<close>

definition MAX_ARCHIVE_URLS :: nat where "MAX_ARCHIVE_URLS = 10"
definition MAX_ARCHIVE_DOWNLOAD_BYTES :: nat where "MAX_ARCHIVE_DOWNLOAD_BYTES = 25 * 1024 * 1024"
definition MAX_ARCHIVE_TOTAL_BYTES :: nat where "MAX_ARCHIVE_TOTAL_BYTES = 100 * 1024 * 1024"
definition MAX_ZIP_ENTRIES :: nat where "MAX_ZIP_ENTRIES = 5000"
definition MAX_JSON_ENTRY_BYTES :: nat where "MAX_JSON_ENTRY_BYTES = 20 * 1024 * 1024"
definition MAX_EXTRACTED_BYTES :: nat where "MAX_EXTRACTED_BYTES = 100 * 1024 * 1024"

record zip_entry =
  ze_name :: string
  ze_method :: nat
  ze_compressed :: nat
  ze_uncompressed :: nat
  ze_offset :: nat

abbreviation LOCAL_HEADER :: nat where "LOCAL_HEADER \<equiv> 0x04034b50"
abbreviation DIRECTORY_HEADER :: nat where "DIRECTORY_HEADER \<equiv> 0x02014b50"
abbreviation END_OF_DIRECTORY :: nat where "END_OF_DIRECTORY \<equiv> 0x06054b50"

definition isZip :: "bytes \<Rightarrow> bool" where
  "isZip buffer \<longleftrightarrow> 4 \<le> length buffer \<and> readUInt32LE buffer 0 = Inr LOCAL_HEADER"

text \<open>From the end backwards, past a comment of at most 65535 bytes.\<close>

fun find_backwards :: "bytes \<Rightarrow> nat \<Rightarrow> nat \<Rightarrow> http_error + nat option" where
  "find_backwards buffer minOffset offset =
     bindE (readUInt32LE buffer offset) (\<lambda>signature.
       if signature = END_OF_DIRECTORY then Inr (Some offset)
       else if offset \<le> minOffset then Inr None
       else find_backwards buffer minOffset (offset - 1))"

declare find_backwards.simps [simp del]

definition findEndOfCentralDirectory :: "bytes \<Rightarrow> http_error + nat option" where
  "findEndOfCentralDirectory buffer =
     (if length buffer < 22 then Inr None else find_backwards buffer (length buffer - 65557) (length buffer - 22))"

definition directory_error :: http_error where "directory_error = BadGateway ''Invalid Google data archive zip directory''"
definition entry_error :: http_error where "entry_error = BadGateway ''Invalid Google data archive zip entry''"
definition entry_too_large :: http_error where "entry_too_large = BadGateway ''Google data archive entry is too large''"

text \<open>The fields of one directory header and the cursor behind it.\<close>

definition read_directory_entry :: "(bytes \<Rightarrow> string) \<Rightarrow> bytes \<Rightarrow> nat \<Rightarrow> http_error + zip_entry \<times> nat" where
  "read_directory_entry utf8 buffer cursor =
     (if length buffer < cursor + 46 then Inl directory_error
      else bindE (readUInt32LE buffer cursor) (\<lambda>signature.
        if signature \<noteq> DIRECTORY_HEADER then Inl directory_error
        else
          bindE (readUInt16LE buffer (cursor + 10)) (\<lambda>method.
          bindE (readUInt32LE buffer (cursor + 20)) (\<lambda>compressedSize.
          bindE (readUInt32LE buffer (cursor + 24)) (\<lambda>uncompressedSize.
          bindE (readUInt16LE buffer (cursor + 28)) (\<lambda>fileNameLength.
          bindE (readUInt16LE buffer (cursor + 30)) (\<lambda>extraLength.
          bindE (readUInt16LE buffer (cursor + 32)) (\<lambda>commentLength.
          bindE (readUInt32LE buffer (cursor + 42)) (\<lambda>localHeaderOffset.
          let entryEnd = cursor + 46 + fileNameLength + extraLength + commentLength in
          if length buffer < entryEnd then Inl directory_error
          else if MAX_ARCHIVE_DOWNLOAD_BYTES < compressedSize \<or> MAX_JSON_ENTRY_BYTES < uncompressedSize
          then Inl entry_too_large
          else Inr (\<lparr>ze_name = utf8 (subarray buffer (cursor + 46) (cursor + 46 + fileNameLength)), ze_method = method,
                 ze_compressed = compressedSize, ze_uncompressed = uncompressedSize, ze_offset = localHeaderOffset\<rparr>,
               entryEnd))))))))))"

fun read_directory :: "(bytes \<Rightarrow> string) \<Rightarrow> bytes \<Rightarrow> nat \<Rightarrow> nat \<Rightarrow> http_error + zip_entry list" where
  "read_directory utf8 buffer 0 cursor = Inr []"
| "read_directory utf8 buffer (Suc n) cursor =
     bindE (read_directory_entry utf8 buffer cursor) (\<lambda>(entry, next).
     bindE (read_directory utf8 buffer n next) (\<lambda>entries. Inr (entry # entries)))"

definition readZipEntries :: "(bytes \<Rightarrow> string) \<Rightarrow> bytes \<Rightarrow> http_error + zip_entry list" where
  "readZipEntries utf8 buffer =
     bindE (findEndOfCentralDirectory buffer) (\<lambda>eocdOffset. case eocdOffset of
       None \<Rightarrow> Inl (BadGateway ''Invalid Google data archive zip'')
     | Some eocd \<Rightarrow>
         bindE (readUInt16LE buffer (eocd + 10)) (\<lambda>entryCount.
         if MAX_ZIP_ENTRIES < entryCount then Inl (BadGateway ''Google data archive has too many entries'')
         else bindE (readUInt32LE buffer (eocd + 16)) (\<lambda>cursor. read_directory utf8 buffer entryCount cursor)))"

section \<open>The environment\<close>

record url_parts =
  up_protocol :: string
  up_username :: string
  up_password :: string
  up_hostname :: string

text \<open>A response: \<open>Number\<close> of its content length (\<open>None\<close> for \<open>NaN\<close>) and the chunks of its body.\<close>

record archive_response =
  ar_ok :: bool
  ar_url :: string
  ar_length :: "rat option"
  ar_body :: "bytes list option"

record archive_env =
  av_url :: "string \<Rightarrow> url_parts option"
  av_isIP :: "string \<Rightarrow> nat"
  av_fetch :: "string \<Rightarrow> http_error + archive_response"
  av_inflate :: "nat \<Rightarrow> bytes \<Rightarrow> bytes option"
  av_utf8 :: "bytes \<Rightarrow> string"
  av_json :: "string \<Rightarrow> json option"

section \<open>The documents of an archive\<close>

definition inflated_entry :: "archive_env \<Rightarrow> zip_entry \<Rightarrow> bytes \<Rightarrow> http_error + bytes" where
  "inflated_entry env entry compressed = (case av_inflate env MAX_JSON_ENTRY_BYTES compressed of
     None \<Rightarrow> Inl entry_error
   | Some inflated \<Rightarrow>
       (if MAX_JSON_ENTRY_BYTES < length inflated \<or> 0 < ze_uncompressed entry \<and> length inflated \<noteq> ze_uncompressed entry
        then Inl entry_error else Inr inflated))"

definition readZipEntryBuffer :: "archive_env \<Rightarrow> bytes \<Rightarrow> zip_entry \<Rightarrow> http_error + bytes" where
  "readZipEntryBuffer env buffer entry =
     (let offset = ze_offset entry in
      if length buffer < offset + 30 then Inl entry_error
      else bindE (readUInt32LE buffer offset) (\<lambda>signature.
        if signature \<noteq> LOCAL_HEADER then Inl entry_error
        else
          bindE (readUInt16LE buffer (offset + 26)) (\<lambda>fileNameLength.
          bindE (readUInt16LE buffer (offset + 28)) (\<lambda>extraLength.
          let dataStart = offset + 30 + fileNameLength + extraLength;
              dataEnd = dataStart + ze_compressed entry;
              compressed = subarray buffer dataStart dataEnd
          in if length buffer < dataEnd then Inl entry_error
             else if ze_method entry = 0
             then (if MAX_JSON_ENTRY_BYTES < length compressed then Inl entry_too_large else Inr compressed)
             else if ze_method entry = 8 then inflated_entry env entry compressed
             else Inl (BadGateway ''Unsupported Google data archive zip compression'')))))"

record archive_document =
  ad_source :: string
  ad_payload :: json

definition ends_with :: "string \<Rightarrow> string \<Rightarrow> bool" where
  "ends_with s p \<longleftrightarrow> starts_with (rev s) (rev p)"

definition document_of :: "archive_env \<Rightarrow> string \<Rightarrow> bytes \<Rightarrow> archive_document list" where
  "document_of env source buffer = (case av_json env (av_utf8 env buffer) of
     None \<Rightarrow> [] | Some payload \<Rightarrow> [\<lparr>ad_source = source, ad_payload = payload\<rparr>])"

text \<open>The loop of \<open>parseZip\<close>, with what it extracted so far.\<close>

fun extract_entries :: "archive_env \<Rightarrow> string \<Rightarrow> bytes \<Rightarrow> nat \<Rightarrow> zip_entry list \<Rightarrow> http_error + archive_document list" where
  "extract_entries env source buffer extractedBytes [] = Inr []"
| "extract_entries env source buffer extractedBytes (e # es) =
     (if \<not> ends_with (js_lower (ze_name e)) ''.json'' then extract_entries env source buffer extractedBytes es
      else bindE (readZipEntryBuffer env buffer e) (\<lambda>entryBuffer.
        if MAX_EXTRACTED_BYTES < extractedBytes + length entryBuffer
        then Inl (BadGateway ''Google data archive expands beyond the limit'')
        else bindE (extract_entries env source buffer (extractedBytes + length entryBuffer) es) (\<lambda>ds.
          Inr (document_of env (source @ ''#'' @ ze_name e) entryBuffer @ ds))))"

definition parseZip :: "archive_env \<Rightarrow> string \<Rightarrow> bytes \<Rightarrow> http_error + archive_document list" where
  "parseZip env source buffer = bindE (readZipEntries (av_utf8 env) buffer) (extract_entries env source buffer 0)"

definition parseBuffer :: "archive_env \<Rightarrow> string \<Rightarrow> bytes \<Rightarrow> http_error + archive_document list" where
  "parseBuffer env source buffer =
     (if isZip buffer then parseZip env source buffer else Inr (document_of env source buffer))"

section \<open>Downloading\<close>

definition too_large :: http_error where "too_large = BadGateway ''Google data archive is too large''"
definition bad_url :: http_error where "bad_url = BadGateway ''Invalid Google data archive URL''"

text \<open>\<open>replace(/^\[|\]$/gu, "")\<close>.\<close>

definition strip_brackets :: "string \<Rightarrow> string" where
  "strip_brackets s =
     (let a = (if starts_with s ''['' then tl s else s) in if ends_with a '']'' then butlast a else a)"

definition private_v4 :: "string \<Rightarrow> bool" where
  "private_v4 host =
     (let parts = map text_nat (split_on (CHR ''.'') host);
          a = default_to (head_opt parts) 0; b = default_to (head_opt (tl parts)) 0
      in a = 10 \<or> a = 127 \<or> a = 0 \<or> a = 169 \<and> b = 254 \<or> a = 172 \<and> 16 \<le> b \<and> b \<le> 31 \<or> a = 192 \<and> b = 168)"

definition isLocalOrPrivateHost :: "(string \<Rightarrow> nat) \<Rightarrow> string \<Rightarrow> bool" where
  "isLocalOrPrivateHost isIP hostname =
     (let host = strip_brackets (js_lower hostname) in
      if host = ''localhost'' \<or> ends_with host ''.localhost'' \<or> ends_with host ''.local'' then True
      else if isIP host = 4 then private_v4 host
      else if isIP host = 6
      then host = ''::1'' \<or> host = ''::'' \<or> list_ex (starts_with host) [''fc'', ''fd'', ''fe8'', ''fe9'', ''fea'', ''feb'']
      else False)"

definition assertSafeArchiveUrl :: "archive_env \<Rightarrow> string \<Rightarrow> http_error + unit" where
  "assertSafeArchiveUrl env value = (case av_url env value of
     None \<Rightarrow> Inl bad_url
   | Some parsed \<Rightarrow>
       (if up_protocol parsed \<noteq> ''https:'' \<or> up_username parsed \<noteq> [] \<or> up_password parsed \<noteq> []
           \<or> isLocalOrPrivateHost (av_isIP env) (up_hostname parsed)
        then Inl bad_url else Inr ()))"

fun read_chunks :: "nat \<Rightarrow> nat \<Rightarrow> bytes list \<Rightarrow> http_error + bytes" where
  "read_chunks maxBytes totalBytes [] = Inr []"
| "read_chunks maxBytes totalBytes (c # cs) =
     (if maxBytes < totalBytes + length c then Inl too_large
      else bindE (read_chunks maxBytes (totalBytes + length c) cs) (\<lambda>rest. Inr (c @ rest)))"

definition readResponseBodyWithLimit :: "archive_response \<Rightarrow> nat \<Rightarrow> http_error + bytes" where
  "readResponseBodyWithLimit response maxBytes =
     (if (case ar_length response of Some n \<Rightarrow> rat_of_nat maxBytes < n | None \<Rightarrow> False) then Inl too_large
      else case ar_body response of None \<Rightarrow> Inr [] | Some chunks \<Rightarrow> read_chunks maxBytes 0 chunks)"

definition download_one :: "archive_env \<Rightarrow> nat \<Rightarrow> string \<Rightarrow> http_error + bytes" where
  "download_one env downloadedBytes url =
     bindE (assertSafeArchiveUrl env url) (\<lambda>_.
     if MAX_ARCHIVE_TOTAL_BYTES \<le> downloadedBytes then Inl too_large
     else bindE (av_fetch env url) (\<lambda>response.
       if \<not> ar_ok response then Inl (BadGateway ''Could not download Google data archive'')
       else bindE (assertSafeArchiveUrl env (if ar_url response \<noteq> [] then ar_url response else url)) (\<lambda>_.
         readResponseBodyWithLimit response (min MAX_ARCHIVE_DOWNLOAD_BYTES (MAX_ARCHIVE_TOTAL_BYTES - downloadedBytes)))))"

fun download_loop :: "archive_env \<Rightarrow> nat \<Rightarrow> string list \<Rightarrow> http_error + archive_document list" where
  "download_loop env downloadedBytes [] = Inr []"
| "download_loop env downloadedBytes (u # us) =
     bindE (download_one env downloadedBytes u) (\<lambda>buffer.
     bindE (parseBuffer env u buffer) (\<lambda>ds.
     bindE (download_loop env (downloadedBytes + length buffer) us) (\<lambda>rest. Inr (ds @ rest))))"

definition downloadJsonDocuments :: "archive_env \<Rightarrow> string list \<Rightarrow> http_error + archive_document list" where
  "downloadJsonDocuments env urls =
     (if MAX_ARCHIVE_URLS < length urls then Inl (BadGateway ''Google data archive has too many download URLs'')
      else download_loop env 0 urls)"

section \<open>No read out of range\<close>

definition gateway_error :: "http_error \<Rightarrow> bool" where
  "gateway_error e = (case e of BadGateway _ \<Rightarrow> True | _ \<Rightarrow> False)"

definition graceful :: "http_error + 'a \<Rightarrow> bool" where
  "graceful r = (case r of Inl e \<Rightarrow> gateway_error e | Inr _ \<Rightarrow> True)"

lemma graceful_simps [simp]: "graceful (Inl (BadGateway m))" "graceful (Inr a)"
  by (simp_all add: graceful_def gateway_error_def)

lemma graceful_bind: "graceful r \<Longrightarrow> (\<And>a. r = Inr a \<Longrightarrow> graceful (f a)) \<Longrightarrow> graceful (bindE r f)"
  by (cases r) (simp_all add: graceful_def)

lemma graceful_read: "offset + width \<le> length buffer \<Longrightarrow> graceful (readUIntLE width buffer offset)"
  by (simp add: readUIntLE_def)

lemma graceful_if: "(b \<Longrightarrow> graceful x) \<Longrightarrow> (\<not> b \<Longrightarrow> graceful y) \<Longrightarrow> graceful (if b then x else y)"
  by simp

lemma find_backwards_range:
  assumes "offset + 22 \<le> length buffer"
  shows "\<exists>found. find_backwards buffer m offset = Inr found \<and> (\<forall>x. found = Some x \<longrightarrow> x + 22 \<le> length buffer)"
  using assms
proof (induction buffer m offset rule: find_backwards.induct)
  case (1 buffer m offset)
  have r: "readUInt32LE buffer offset = Inr (le_value (take 4 (drop offset buffer)))"
    using "1.prems" by (simp add: readUIntLE_def)
  show ?case
  proof (cases "le_value (take 4 (drop offset buffer)) = END_OF_DIRECTORY \<or> offset \<le> m")
    case True
    then show ?thesis using "1.prems" by (subst find_backwards.simps) (auto simp: r)
  next
    case False
    then have "find_backwards buffer m offset = find_backwards buffer m (offset - 1)"
      by (subst find_backwards.simps) (simp add: r)
    then show ?thesis using "1.IH" [of "le_value (take 4 (drop offset buffer))"] False "1.prems" by simp
  qed
qed

lemma end_of_directory_range:
  "\<exists>found. findEndOfCentralDirectory buffer = Inr found \<and> (\<forall>x. found = Some x \<longrightarrow> x + 22 \<le> length buffer)"
  using find_backwards_range [of "length buffer - 22" buffer "length buffer - 65557"]
  by (cases "length buffer < 22") (simp_all add: findEndOfCentralDirectory_def)

lemma graceful_directory_entry: "graceful (read_directory_entry utf8 buffer cursor)"
  unfolding read_directory_entry_def directory_error_def entry_too_large_def Let_def
  by (intro graceful_if graceful_bind graceful_read) simp_all

lemma graceful_directory: "graceful (read_directory utf8 buffer n cursor)"
  by (induction utf8 buffer n cursor rule: read_directory.induct)
     (auto intro!: graceful_bind graceful_directory_entry)

lemma graceful_entries: "graceful (readZipEntries utf8 buffer)"
proof -
  obtain found where f: "findEndOfCentralDirectory buffer = Inr found" "\<forall>x. found = Some x \<longrightarrow> x + 22 \<le> length buffer"
    using end_of_directory_range by blast
  show ?thesis
  proof (cases found)
    case (Some x)
    then have "x + 22 \<le> length buffer" using f(2) by simp
    then show ?thesis unfolding readZipEntries_def f(1) Some
      by (simp only: bindE_simps option.case) (intro graceful_bind graceful_if graceful_read graceful_directory; simp)
  qed (simp add: readZipEntries_def f(1))
qed

lemma graceful_entry_buffer: "graceful (readZipEntryBuffer env buffer e)"
  unfolding readZipEntryBuffer_def entry_error_def entry_too_large_def inflated_entry_def Let_def
  by (intro graceful_if graceful_bind graceful_read) (simp_all split: option.split)

lemma graceful_extract: "graceful (extract_entries env source buffer n es)"
  by (induction env source buffer n es rule: extract_entries.induct)
     (auto intro!: graceful_bind graceful_entry_buffer)

text \<open>C23: whatever bytes an archive holds, reading it never leaves the buffer: the only errors are the answers
  \<open>502 Bad Gateway\<close> the parser chose, never the \<open>RangeError\<close> of a read outside.\<close>

theorem archive_reads_in_range: "graceful (parseBuffer env source buffer)"
  unfolding parseBuffer_def parseZip_def
  by (simp add: graceful_bind [OF graceful_entries graceful_extract])

section \<open>Writing and reading back\<close>

text \<open>A writer of archives as the format describes them, with stored files: the specification of the reader.\<close>

primrec le_bytes :: "nat \<Rightarrow> nat \<Rightarrow> bytes" where
  "le_bytes 0 n = []"
| "le_bytes (Suc w) n = word_of_nat n # le_bytes w (n div 256)"

lemma length_le_bytes [simp]: "length (le_bytes w n) = w"
  by (induction w arbitrary: n) simp_all

lemma le_value_bytes: "n < 256 ^ w \<Longrightarrow> le_value (le_bytes w n) = n"
proof (induction w arbitrary: n)
  case (Suc w)
  have "n div 256 < 256 ^ w" using Suc.prems by (simp add: div_less_iff_less_mult mult.commute)
  then have "le_value (le_bytes w (n div 256)) = n div 256" by (rule Suc.IH)
  moreover have "unat (word_of_nat n :: 8 word) = n mod 256" by (simp add: unat_of_nat)
  ultimately show ?case by simp
qed simp

text \<open>Reading a field: skip what lies before it, then take it.\<close>

named_theorems read_field "reading a field of a concatenation"

lemma read_skip [read_field]: "length a \<le> k \<Longrightarrow> readUIntLE w (a @ b) k = readUIntLE w b (k - length a)"
  by (auto simp: readUIntLE_def)

lemma read_here [read_field]: "n < 256 ^ w \<Longrightarrow> readUIntLE w (le_bytes w n @ b) 0 = Inr n"
  by (simp add: readUIntLE_def le_value_bytes)

lemma subarray_middle: "subarray (a @ m @ b) (length a) (length a + length m) = m"
  by (simp add: subarray_def)

record placed_file =
  pf_name :: bytes
  pf_data :: bytes
  pf_offset :: nat

definition local_file :: "placed_file \<Rightarrow> bytes" where
  "local_file f = le_bytes 4 LOCAL_HEADER @ replicate 22 0 @ le_bytes 2 (length (pf_name f)) @ le_bytes 2 0
     @ pf_name f @ pf_data f"

definition directory_file :: "placed_file \<Rightarrow> bytes" where
  "directory_file f = le_bytes 4 DIRECTORY_HEADER @ replicate 6 0 @ le_bytes 2 0 @ replicate 8 0
     @ le_bytes 4 (length (pf_data f)) @ le_bytes 4 (length (pf_data f)) @ le_bytes 2 (length (pf_name f))
     @ le_bytes 2 0 @ le_bytes 2 0 @ replicate 8 0 @ le_bytes 4 (pf_offset f) @ pf_name f"

definition end_record :: "nat \<Rightarrow> nat \<Rightarrow> bytes" where
  "end_record n directory = le_bytes 4 END_OF_DIRECTORY @ replicate 6 0 @ le_bytes 2 n @ replicate 4 0
     @ le_bytes 4 directory @ replicate 2 0"

fun place_files :: "nat \<Rightarrow> (bytes \<times> bytes) list \<Rightarrow> placed_file list" where
  "place_files offset [] = []"
| "place_files offset ((n, d) # fs) = \<lparr>pf_name = n, pf_data = d, pf_offset = offset\<rparr>
     # place_files (offset + 30 + length n + length d) fs"

definition make_zip :: "(bytes \<times> bytes) list \<Rightarrow> bytes" where
  "make_zip files =
     (let fs = place_files 0 files; locals = concat (map local_file fs)
      in locals @ concat (map directory_file fs) @ end_record (length files) (length locals))"

definition entry_of_file :: "(bytes \<Rightarrow> string) \<Rightarrow> placed_file \<Rightarrow> zip_entry" where
  "entry_of_file utf8 f = \<lparr>ze_name = utf8 (pf_name f), ze_method = 0, ze_compressed = length (pf_data f),
     ze_uncompressed = length (pf_data f), ze_offset = pf_offset f\<rparr>"

definition fits :: "placed_file \<Rightarrow> bool" where
  "fits f \<longleftrightarrow> length (pf_name f) < 65536 \<and> length (pf_data f) \<le> MAX_JSON_ENTRY_BYTES \<and> pf_offset f < 4294967296"

lemma entry_read_back:
  assumes "fits f"
  shows "read_directory_entry utf8 (pre @ directory_file f @ post) (length pre)
    = Inr (entry_of_file utf8 f, length pre + length (directory_file f))"
proof -
  have b: "length (pf_name f) < 256 ^ 2" "length (pf_data f) < 256 ^ 4" "pf_offset f < 256 ^ 4"
    "length (pf_data f) \<le> MAX_ARCHIVE_DOWNLOAD_BYTES" "length (pf_data f) \<le> MAX_JSON_ENTRY_BYTES"
    using assms by (simp_all add: fits_def MAX_JSON_ENTRY_BYTES_def MAX_ARCHIVE_DOWNLOAD_BYTES_def)
  have name: "subarray (pre @ directory_file f @ post) (length pre + 46) (length pre + (46 + length (pf_name f))) = pf_name f"
    by (simp add: subarray_def directory_file_def)
  have len: "length (directory_file f) = 46 + length (pf_name f)" by (simp add: directory_file_def)
  have fields: "readUInt32LE (pre @ directory_file f @ post) (length pre) = Inr DIRECTORY_HEADER"
    "readUInt16LE (pre @ directory_file f @ post) (length pre + 10) = Inr 0"
    "readUInt32LE (pre @ directory_file f @ post) (length pre + 20) = Inr (length (pf_data f))"
    "readUInt32LE (pre @ directory_file f @ post) (length pre + 24) = Inr (length (pf_data f))"
    "readUInt16LE (pre @ directory_file f @ post) (length pre + 28) = Inr (length (pf_name f))"
    "readUInt16LE (pre @ directory_file f @ post) (length pre + 30) = Inr 0"
    "readUInt16LE (pre @ directory_file f @ post) (length pre + 32) = Inr 0"
    "readUInt32LE (pre @ directory_file f @ post) (length pre + 42) = Inr (pf_offset f)"
    using b by (simp_all add: read_field directory_file_def)
  show ?thesis
    using b by (simp add: read_directory_entry_def fields Let_def len entry_of_file_def name add.assoc)
qed

lemma directory_read_back:
  assumes "list_all fits fs"
  shows "read_directory utf8 (pre @ concat (map directory_file fs) @ post) (length fs) (length pre)
    = Inr (map (entry_of_file utf8) fs)"
  using assms
proof (induction fs arbitrary: pre)
  case (Cons f fs)
  have "read_directory utf8 ((pre @ directory_file f) @ concat (map directory_file fs) @ post) (length fs)
      (length (pre @ directory_file f)) = Inr (map (entry_of_file utf8) fs)"
    using Cons.IH [of "pre @ directory_file f"] Cons.prems by simp
  then show ?case using Cons.prems entry_read_back [of f utf8 pre "concat (map directory_file fs) @ post"]
    by simp
qed simp

lemma length_local_file [simp]: "length (local_file f) = 30 + length (pf_name f) + length (pf_data f)"
  by (simp add: local_file_def)

lemma data_read_back:
  assumes "fits f" "pf_offset f = length pre"
  shows "readZipEntryBuffer env (pre @ local_file f @ post) (entry_of_file utf8 f) = Inr (pf_data f)"
proof -
  let ?b = "pre @ local_file f @ post"
  have b: "length (pf_name f) < 256 ^ 2" "length (pf_data f) \<le> MAX_JSON_ENTRY_BYTES" using assms(1) by (simp_all add: fits_def)
  have fields: "readUInt32LE ?b (length pre) = Inr LOCAL_HEADER"
    "readUInt16LE ?b (length pre + 26) = Inr (length (pf_name f))" "readUInt16LE ?b (length pre + 28) = Inr 0"
    using b by (simp_all add: read_field local_file_def)
  have data: "subarray ?b (length pre + (30 + length (pf_name f))) (length pre + (30 + (length (pf_name f) + length (pf_data f))))
      = pf_data f" by (simp add: subarray_def local_file_def)
  show ?thesis
    using b by (simp add: readZipEntryBuffer_def entry_of_file_def assms(2) fields Let_def data add.assoc)
qed

text \<open>What the files of an archive come to.\<close>

definition documents_of :: "archive_env \<Rightarrow> string \<Rightarrow> bytes \<times> bytes \<Rightarrow> archive_document list" where
  "documents_of env source file =
     (let name = av_utf8 env (fst file) in
      if ends_with (js_lower name) ''.json'' then document_of env (source @ ''#'' @ name) (snd file) else [])"

abbreviation data_bytes :: "(bytes \<times> bytes) list \<Rightarrow> nat" where
  "data_bytes files \<equiv> sum_list (map (\<lambda>f. length (snd f)) files)"

lemma extract_read_back:
  assumes "list_all fits (place_files (length pre) files)" "n + data_bytes files \<le> MAX_EXTRACTED_BYTES"
  shows "extract_entries env source (pre @ concat (map local_file (place_files (length pre) files)) @ post) n
      (map (entry_of_file (av_utf8 env)) (place_files (length pre) files)) = Inr (concat (map (documents_of env source) files))"
  using assms
proof (induction files arbitrary: pre n)
  case (Cons x files)
  obtain name d where x: "x = (name, d)" by (cases x)
  let ?f = "\<lparr>pf_name = name, pf_data = d, pf_offset = length pre\<rparr>"
  let ?pre = "pre @ local_file ?f" and ?fs = "place_files (length (pre @ local_file ?f)) files"
  have fs: "place_files (length pre) (x # files) = ?f # ?fs" by (simp add: x add.assoc)
  have fit: "fits ?f" "list_all fits ?fs" using Cons.prems(1) unfolding fs by simp_all
  define B es where B: "B = ?pre @ concat (map local_file ?fs) @ post" and es: "es = map (entry_of_file (av_utf8 env)) ?fs"
  have buf: "pre @ concat (map local_file (?f # ?fs)) @ post = B" by (simp add: B)
  have read: "readZipEntryBuffer env B (entry_of_file (av_utf8 env) ?f) = Inr d"
    using data_read_back [OF fit(1), of pre env "concat (map local_file ?fs) @ post" "av_utf8 env"] by (simp add: B)
  have IH: "extract_entries env source B m es = Inr (concat (map (documents_of env source) files))"
    if "m + data_bytes files \<le> MAX_EXTRACTED_BYTES" for m
    unfolding B es by (rule Cons.IH [OF fit(2) that])
  have name: "ze_name (entry_of_file (av_utf8 env) ?f) = av_utf8 env name" by (simp add: entry_of_file_def)
  have le: "n + length d + data_bytes files \<le> MAX_EXTRACTED_BYTES" "n + data_bytes files \<le> MAX_EXTRACTED_BYTES"
    using Cons.prems(2) by (simp_all add: x)
  then have "extract_entries env source B n (entry_of_file (av_utf8 env) ?f # es)
      = Inr (concat (map (documents_of env source) (x # files)))"
    by (simp add: read name IH documents_of_def x Let_def)
  then show ?case unfolding fs buf unfolding list.map es .
qed simp

lemma length_place_files [simp]: "length (place_files n files) = length files"
  by (induction n files rule: place_files.induct) simp_all


definition ascii_bytes :: "string \<Rightarrow> bytes" where "ascii_bytes s = map (\<lambda>c. word_of_nat (of_char c)) s"

text \<open>An environment whose hosts are all IPv6 addresses and whose JSON files hold their own text.\<close>

definition sample_archive_env :: archive_env where
  "sample_archive_env = \<lparr>av_url = (\<lambda>v. if v = ''https://[::ffff:127.0.0.1]/a'' then Some \<lparr>up_protocol = ''https:'',
       up_username = [], up_password = [], up_hostname = ''[::ffff:7f00:1]''\<rparr> else None),
     av_isIP = (\<lambda>_. 6), av_fetch = (\<lambda>_. Inl (InternalError ''fetch failed'')), av_inflate = (\<lambda>_ _. None),
     av_utf8 = map (\<lambda>b. char_of (unat b)), av_json = (\<lambda>s. Some (JStr s))\<rparr>"

definition sample_files :: "(bytes \<times> bytes) list" where
  "sample_files = [(ascii_bytes ''a.json'', ascii_bytes ''{}''), (ascii_bytes ''b'', [1])]"


section \<open>Limits and addresses\<close>

lemma read_chunks_bound: "read_chunks m n cs = Inr b \<Longrightarrow> n \<le> m \<Longrightarrow> n + length b \<le> m"
  by (induction m n cs arbitrary: b rule: read_chunks.induct) (auto simp: bindE_def split: if_splits sum.splits)

text \<open>No file, and not all of them together, is larger than its limit.\<close>

lemma download_bound:
  assumes "download_one env n u = Inr b"
  shows "length b \<le> MAX_ARCHIVE_DOWNLOAD_BYTES \<and> n + length b \<le> MAX_ARCHIVE_TOTAL_BYTES"
proof -
  let ?max = "min MAX_ARCHIVE_DOWNLOAD_BYTES (MAX_ARCHIVE_TOTAL_BYTES - n)"
  obtain response where n: "n < MAX_ARCHIVE_TOTAL_BYTES" and r: "readResponseBodyWithLimit response ?max = Inr b"
    using assms by (auto simp: download_one_def bindE_def split: sum.splits if_splits)
  have "length b \<le> ?max"
    using r read_chunks_bound [of ?max 0 _ b] by (auto simp: readResponseBodyWithLimit_def split: if_splits option.splits)
  then show ?thesis using n by auto
qed

text \<open>The check of the download address lets an IPv4 address written as IPv6 through: the loopback
  \<open>::ffff:127.0.0.1\<close>, which the \<open>URL\<close> parser writes \<open>[::ffff:7f00:1]\<close>, counts as a public host.\<close>

theorem mapped_loopback_allowed:
  assumes "av_url env value = Some \<lparr>up_protocol = ''https:'', up_username = [], up_password = [],
      up_hostname = ''[::ffff:7f00:1]''\<rparr>" "av_isIP env ''::ffff:7f00:1'' = 6"
  shows "assertSafeArchiveUrl env value = Inr ()"
proof -
  have l: "js_lower ''[::ffff:7f00:1]'' = ''[::ffff:7f00:1]''" by code_simp
  have s: "strip_brackets ''[::ffff:7f00:1]'' = ''::ffff:7f00:1''" by code_simp
  have e: "\<not> ends_with ''::ffff:7f00:1'' ''.localhost''" "\<not> ends_with ''::ffff:7f00:1'' ''.local''" by code_simp+
  have p: "\<not> list_ex (starts_with ''::ffff:7f00:1'') [''fc'', ''fd'', ''fe8'', ''fe9'', ''fea'', ''feb'']" by code_simp
  have "\<not> isLocalOrPrivateHost (av_isIP env) ''[::ffff:7f00:1]''"
    unfolding isLocalOrPrivateHost_def Let_def l s using e p assms(2) by simp
  then show ?thesis by (simp add: assertSafeArchiveUrl_def assms(1))
qed

theorem mapped_loopback_allowed_witness:
  "isLocalOrPrivateHost (\<lambda>_. 4) ''127.0.0.1''
   \<and> assertSafeArchiveUrl sample_archive_env ''https://[::ffff:127.0.0.1]/a'' = Inr ()"
proof
  show "isLocalOrPrivateHost (\<lambda>_. 4) ''127.0.0.1''" by code_simp
  show "assertSafeArchiveUrl sample_archive_env ''https://[::ffff:127.0.0.1]/a'' = Inr ()"
    by (rule mapped_loopback_allowed) (simp_all add: sample_archive_env_def)
qed

end
