(* ===== verification/ImportParser.thy ===== *)
theory ImportParser
  imports ImportArchive GooglePlaces
begin

text \<open>
  Finding saved places in the JSON of a Google export (\<open>google-data-portability-parser.service.ts\<close>): every object that
  looks like a saved item, with its title, its Maps address and its Google place id.  Outside code is a field of
  \<open>parser_env\<close>: \<open>decodeURIComponent\<close>, the query of a parsed \<open>URL\<close>, \<open>JSON.stringify\<close> and the hexadecimal SHA-256.
\<close>

record parser_env =
  ps_decode :: "string \<Rightarrow> string option"
  ps_query :: "string \<Rightarrow> (string \<Rightarrow> string option) option"
  ps_stringify :: "json \<Rightarrow> string"
  ps_sha :: "string \<Rightarrow> string"

section \<open>Searching a value\<close>

definition isRecord :: "json \<Rightarrow> bool" where
  "isRecord v = (case v of JObj _ \<Rightarrow> True | _ \<Rightarrow> False)"

text \<open>The loops return the first result that is truthy.\<close>

definition first_truthy :: "string option list \<Rightarrow> string option" where
  "first_truthy xs = (case find truthy xs of Some r \<Rightarrow> r | None \<Rightarrow> None)"

fun findString :: "(string \<Rightarrow> bool) \<Rightarrow> json \<Rightarrow> string option" where
  "findString p (JStr s) = (if p s then Some s else None)"
| "findString p (JArr vs) = first_truthy (map (findString p) vs)"
| "findString p (JObj kvs) = first_truthy (map (\<lambda>kv. findString p (snd kv)) kvs)"
| "findString p _ = None"

definition key_in :: "string list \<Rightarrow> string \<Rightarrow> bool" where
  "key_in keys k \<longleftrightarrow> js_lower k \<in> set (map js_lower keys)"

definition own_string :: "string list \<Rightarrow> (string \<times> json) list \<Rightarrow> string option" where
  "own_string keys kvs = (case find (\<lambda>kv. key_in keys (fst kv)
       \<and> (case snd kv of JStr s \<Rightarrow> js_trim s \<noteq> [] | _ \<Rightarrow> False)) kvs of
     Some (_, JStr s) \<Rightarrow> Some s | _ \<Rightarrow> None)"

fun findStringByKey :: "string list \<Rightarrow> json \<Rightarrow> string option" where
  "findStringByKey keys (JObj kvs) = (case own_string keys kvs of
     Some s \<Rightarrow> Some s
   | None \<Rightarrow> first_truthy (concat (map (\<lambda>kv. case snd kv of
       JArr vs \<Rightarrow> map (\<lambda>v. if isRecord v then findStringByKey keys v else None) vs
     | v \<Rightarrow> [if isRecord v then findStringByKey keys v else None]) kvs)))"
| "findStringByKey keys _ = None"

definition hasAnyKey :: "string list \<Rightarrow> (string \<times> json) list \<Rightarrow> bool" where
  "hasAnyKey keys kvs = list_ex (\<lambda>kv. key_in keys (fst kv)) kvs"

section \<open>Google's addresses and ids\<close>

definition decodeGoogleValue :: "parser_env \<Rightarrow> string \<Rightarrow> string" where
  "decodeGoogleValue env value = default_to (ps_decode env value) value"

definition id_char :: "char \<Rightarrow> bool" where
  "id_char c \<longleftrightarrow> (let n = code_unit c in 65 \<le> n \<and> n \<le> 90 \<or> 97 \<le> n \<and> n \<le> 122 \<or> 48 \<le> n \<and> n \<le> 57 \<or> n = 45 \<or> n = 95)"

text \<open>\<open>/^ChI[A-Za-z0-9_-]{12,}$/\<close>.\<close>

definition looksLikeGooglePlaceId :: "parser_env \<Rightarrow> string \<Rightarrow> bool" where
  "looksLikeGooglePlaceId env value =
     (let v = decodeGoogleValue env value in starts_with v ''ChI'' \<and> 15 \<le> length v \<and> list_all id_char (drop 3 v))"

text \<open>The first match of a regular expression of the form \<open>(?:key1|key2)([^stop]+)\<close>, ignoring case.\<close>

fun first_match :: "string list \<Rightarrow> string \<Rightarrow> string \<Rightarrow> string option" where
  "first_match keys stops [] = None"
| "first_match keys stops (c # s) =
     (case find (\<lambda>k. starts_with (js_lower (c # s)) k \<and> takeWhile (\<lambda>x. x \<notin> set stops) (drop (length k) (c # s)) \<noteq> []) keys of
        Some k \<Rightarrow> Some (takeWhile (\<lambda>x. x \<notin> set stops) (drop (length k) (c # s)))
      | None \<Rightarrow> first_match keys stops s)"

definition query_place_id :: "parser_env \<Rightarrow> string \<Rightarrow> string option" where
  "query_place_id env url = (case ps_query env url of
     None \<Rightarrow> None
   | Some param \<Rightarrow> (let v = or_else (param ''query_place_id'') (param ''place_id'') in if truthy v then v else None))"

definition extractGooglePlaceIdFromUrl :: "parser_env \<Rightarrow> string \<Rightarrow> string option" where
  "extractGooglePlaceIdFromUrl env url = (case query_place_id env url of
     Some v \<Rightarrow> Some (decodeGoogleValue env v)
   | None \<Rightarrow> (case first_match [''query_place_id='', ''place_id=''] ''&#'' url of
       Some v \<Rightarrow> Some (decodeGoogleValue env v)
     | None \<Rightarrow> (case first_match [''!1s''] ''!&#'' url of
         Some v \<Rightarrow> if looksLikeGooglePlaceId env v then Some (decodeGoogleValue env v) else None
       | None \<Rightarrow> None)))"

definition maps_address :: "string \<Rightarrow> bool" where
  "maps_address value = (let v = js_lower value in includes_str v ''google.'' \<and> includes_str v ''/maps'')"

definition findMapsUrl :: "json \<Rightarrow> string option" where "findMapsUrl raw = findString maps_address raw"

definition findGooglePlaceId :: "parser_env \<Rightarrow> json \<Rightarrow> string option" where
  "findGooglePlaceId env raw = findString (looksLikeGooglePlaceId env) raw"

definition looksLikeSavedCollectionsSource :: "string \<Rightarrow> bool" where
  "looksLikeSavedCollectionsSource source =
     (let s = js_lower source in includes_str s ''saved'' \<or> includes_str s ''collection'')"

section \<open>One item\<close>

definition firstNonEmptyString :: "string option list \<Rightarrow> string option" where
  "firstNonEmptyString values = find (\<lambda>s. s \<noteq> []) (map (\<lambda>v. js_trim (default_to v [])) values)"

definition stableKey :: "parser_env \<Rightarrow> string option list \<Rightarrow> string" where
  "stableKey env values = take 32 (ps_sha env (concat (map (\<lambda>v. default_to v [] @ [char_of (10::nat)]) values)))"

record saved_item =
  si_sourceKey :: "string option"
  si_title :: "string option"
  si_name :: "string option"
  si_url :: "string option"
  si_placeUrl :: "string option"
  si_googlePlaceId :: "string option"
  si_rawPayload :: "json option"

text \<open>\<open>{ ...item }\<close>: the properties that are set, in the order of the class.\<close>

definition item_json :: "saved_item \<Rightarrow> json" where
  "item_json i = JObj (List.map_filter (\<lambda>(k, v). map_option (\<lambda>s. (k, JStr s)) v)
     [(''sourceKey'', si_sourceKey i), (''title'', si_title i), (''name'', si_name i), (''url'', si_url i),
      (''placeUrl'', si_placeUrl i), (''googlePlaceId'', si_googlePlaceId i)]
     @ (case si_rawPayload i of None \<Rightarrow> [] | Some v \<Rightarrow> [(''rawPayload'', v)]))"

record parsed_place =
  pp_sourceKey :: string
  pp_title :: "string option"
  pp_url :: "string option"
  pp_googlePlaceId :: "string option"
  pp_rawPayload :: json

definition parseSavedCollectionItem :: "parser_env \<Rightarrow> saved_item \<Rightarrow> parsed_place" where
  "parseSavedCollectionItem env item =
     (let raw = default_to (si_rawPayload item) (item_json item);
          title = firstNonEmptyString [si_title item, si_name item];
          url = firstNonEmptyString [si_url item, si_placeUrl item, findMapsUrl raw];
          gid = firstNonEmptyString [si_googlePlaceId item,
            (case url of Some u \<Rightarrow> extractGooglePlaceIdFromUrl env u | None \<Rightarrow> None), findGooglePlaceId env raw];
          key = default_to (or_else (si_sourceKey item) gid) (stableKey env [title, url, Some (ps_stringify env raw)])
      in \<lparr>pp_sourceKey = key, pp_title = title, pp_url = url, pp_googlePlaceId = gid, pp_rawPayload = raw\<rparr>)"

section \<open>A whole archive\<close>

definition is_candidate :: "parser_env \<Rightarrow> (string \<times> json) list \<Rightarrow> bool" where
  "is_candidate env kvs \<longleftrightarrow> truthy (findMapsUrl (JObj kvs)) \<or> truthy (findGooglePlaceId env (JObj kvs))
     \<or> hasAnyKey [''title'', ''name'', ''placeName'', ''url'', ''placeUrl''] kvs"

fun collectCandidateObjects :: "parser_env \<Rightarrow> json \<Rightarrow> json list" where
  "collectCandidateObjects env (JArr vs) = concat (map (collectCandidateObjects env) vs)"
| "collectCandidateObjects env (JObj kvs) =
     (if is_candidate env kvs then [JObj kvs] else [])
       @ concat (map (\<lambda>kv. collectCandidateObjects env (snd kv)) kvs)"
| "collectCandidateObjects env _ = []"

definition archive_item :: "parser_env \<Rightarrow> string \<Rightarrow> nat \<times> json \<Rightarrow> saved_item option" where
  "archive_item env source x =
     (let candidate = snd x; url = findMapsUrl candidate; gid = findGooglePlaceId env candidate;
          title = firstNonEmptyString [findStringByKey [''title'', ''name'', ''placeName''] candidate,
            findString (\<lambda>v. js_trim v \<noteq> []) candidate];
          key = default_to (or_else gid url) (stableKey env [Some source, Some (nat_text (fst x)), Some (ps_stringify env candidate)])
      in if \<not> looksLikeSavedCollectionsSource source \<and> \<not> truthy url \<and> \<not> truthy gid then None
         else Some \<lparr>si_sourceKey = Some key, si_title = title, si_name = None, si_url = url, si_placeUrl = None,
                si_googlePlaceId = gid, si_rawPayload = Some candidate\<rparr>)"

definition document_items :: "parser_env \<Rightarrow> archive_document \<Rightarrow> saved_item list" where
  "document_items env d = List.map_filter (archive_item env (ad_source d))
     (enumerate 0 (collectCandidateObjects env (ad_payload d)))"

text \<open>The first item of each key, in the order of the documents.\<close>

definition parseSavedCollectionArchiveDocuments :: "parser_env \<Rightarrow> archive_document list \<Rightarrow> saved_item list" where
  "parseSavedCollectionArchiveDocuments env documents =
     first_by_key si_sourceKey [] (concat (map (document_items env) documents))"

section \<open>Properties\<close>

text \<open>The strings of a value in the order they are written: the specification of the search.\<close>

fun json_strings :: "json \<Rightarrow> string list" where
  "json_strings (JStr s) = [s]"
| "json_strings (JArr vs) = concat (map json_strings vs)"
| "json_strings (JObj kvs) = concat (map (\<lambda>kv. json_strings (snd kv)) kvs)"
| "json_strings _ = []"

lemma first_truthy_simps [simp]:
  "first_truthy [] = None" "first_truthy (r # rs) = (if truthy r then r else first_truthy rs)"
  by (simp_all add: first_truthy_def)

lemma truthy_simps [simp]: "\<not> truthy None" "truthy (Some s) = (s \<noteq> [])" by (simp_all add: truthy_def)

lemma find_append: "find P (xs @ ys) = or_else (find P xs) (find P ys)"
  by (induction xs) simp_all

lemma find_truthy: "find (\<lambda>s. s \<noteq> [] \<and> p s) xs = Some s \<Longrightarrow> truthy (Some s)"
  by (auto simp: find_Some_iff)

lemma first_truthy_map:
  assumes "\<And>x. x \<in> set xs \<Longrightarrow> first_truthy [f x] = find (\<lambda>s. s \<noteq> [] \<and> p s) (g x)"
  shows "first_truthy (map f xs) = find (\<lambda>s. s \<noteq> [] \<and> p s) (concat (map g xs))"
  using assms
proof (induction xs)
  case (Cons x xs)
  have h: "first_truthy [f x] = find (\<lambda>s. s \<noteq> [] \<and> p s) (g x)" using Cons.prems by simp
  have t: "first_truthy (map f xs) = find (\<lambda>s. s \<noteq> [] \<and> p s) (concat (map g xs))"
    using Cons.prems by (intro Cons.IH) simp
  show ?case
  proof (cases "truthy (f x)")
    case True
    then obtain s where s: "f x = Some s" by (cases "f x") simp_all
    then have "find (\<lambda>s. s \<noteq> [] \<and> p s) (g x) = Some s" using h True by simp
    then show ?thesis using True s by (simp add: find_append)
  next
    case False
    then show ?thesis using h t by (simp add: find_append)
  qed
qed simp

lemma findString_flat: "first_truthy [findString p v] = find (\<lambda>s. s \<noteq> [] \<and> p s) (json_strings v)"
proof (induction p v rule: findString.induct)
  case (2 p vs)
  then have *: "first_truthy (map (findString p) vs) = find (\<lambda>s. s \<noteq> [] \<and> p s) (concat (map json_strings vs))"
    by (intro first_truthy_map) blast
  then show ?case using find_truthy [of p "concat (map json_strings vs)"]
    by (cases "find (\<lambda>s. s \<noteq> [] \<and> p s) (concat (map json_strings vs))") simp_all
next
  case (3 p kvs)
  then have *: "first_truthy (map (\<lambda>kv. findString p (snd kv)) kvs)
      = find (\<lambda>s. s \<noteq> [] \<and> p s) (concat (map (\<lambda>kv. json_strings (snd kv)) kvs))"
    by (intro first_truthy_map) blast
  then show ?case using find_truthy [of p "concat (map (\<lambda>kv. json_strings (snd kv)) kvs)"]
    by (cases "find (\<lambda>s. s \<noteq> [] \<and> p s) (concat (map (\<lambda>kv. json_strings (snd kv)) kvs))") simp_all
qed simp_all

lemma findString_object:
  "findString p (JObj kvs) = find (\<lambda>s. s \<noteq> [] \<and> p s) (json_strings (JObj kvs))"
proof -
  have "first_truthy (map (\<lambda>kv. findString p (snd kv)) kvs)
      = find (\<lambda>s. s \<noteq> [] \<and> p s) (concat (map (\<lambda>kv. json_strings (snd kv)) kvs))"
    by (intro first_truthy_map findString_flat)
  then show ?thesis by simp
qed

text \<open>Searching an object recursively finds what a search of all its strings in document order finds: the first that
  is not empty and passes the test, for the Maps address and for the place id.\<close>

theorem search_is_first_string:
  "findMapsUrl (JObj kvs) = find (\<lambda>s. s \<noteq> [] \<and> maps_address s) (json_strings (JObj kvs))
   \<and> findGooglePlaceId env (JObj kvs) = find (\<lambda>s. s \<noteq> [] \<and> looksLikeGooglePlaceId env s) (json_strings (JObj kvs))"
  unfolding findMapsUrl_def findGooglePlaceId_def by (simp only: findString_object simp_thms)

lemma first_by_key_covers: "x \<in> set xs \<Longrightarrow> k x \<in> set seen \<or> k x \<in> set (map k (first_by_key k seen xs))"
  by (induction k seen xs rule: first_by_key.induct) auto

lemma collected_objects: "c \<in> set (collectCandidateObjects env v) \<Longrightarrow> \<exists>kvs. c = JObj kvs"
  by (induction env v rule: collectCandidateObjects.induct) (auto split: if_splits)

lemma archive_item_key:
  assumes "findGooglePlaceId env c = Some g" "c \<in> set (collectCandidateObjects env v)"
  shows "\<exists>i. archive_item env source (n, c) = Some i \<and> si_sourceKey i = Some g"
proof -
  obtain kvs where "c = JObj kvs" using collected_objects [OF assms(2)] by blast
  then have "find (\<lambda>s. s \<noteq> [] \<and> looksLikeGooglePlaceId env s) (json_strings c) = Some g"
    using assms(1) unfolding findGooglePlaceId_def by (simp only: findString_object)
  from find_truthy [OF this] have "g \<noteq> []" by simp
  then show ?thesis using assms(1) by (auto simp: archive_item_def Let_def)
qed


text \<open>The first place of a list is named after the list: the object of the list holds the id of its first place, so
  it becomes the item of that place, and the place's own object, with its title, is dropped as a second one.\<close>

theorem list_title_wins:
  assumes "looksLikeGooglePlaceId env g" "g \<noteq> []" "\<not> looksLikeGooglePlaceId env t" "\<not> looksLikeGooglePlaceId env n"
    "js_trim t \<noteq> []"
  shows "map (\<lambda>i. (si_googlePlaceId i, si_title i)) (filter (\<lambda>i. si_sourceKey i = Some g)
      (parseSavedCollectionArchiveDocuments env [\<lparr>ad_source = source, ad_payload = JObj ((''title'', JStr t)
        # (''items'', JArr (JObj [(''title'', JStr n), (''place_id'', JStr g)] # rest)) # others)\<rparr>]))
    = [(Some g, Some (js_trim t))]"
proof -
  define c where c: "c = JObj ((''title'', JStr t) # (''items'', JArr (JObj [(''title'', JStr n), (''place_id'', JStr g)] # rest)) # others)"
  have k: "key_in [''title'', ''name'', ''placeName''] ''title''" "hasAnyKey [''title'', ''name'', ''placeName'', ''url'', ''placeUrl'']
      ((''title'', JStr t) # xs)" for xs
    by (simp_all add: key_in_def hasAnyKey_def)
  have gid: "findGooglePlaceId env c = Some g"
    unfolding findGooglePlaceId_def c findString_object using assms(1-4) by simp
  have title: "findStringByKey [''title'', ''name'', ''placeName''] c = Some t"
    unfolding c using assms(5) by (simp add: own_string_def k)
  obtain cs where cs: "collectCandidateObjects env c = c # cs"
    unfolding c by (simp only: collectCandidateObjects.simps is_candidate_def k simp_thms if_True append_Cons)
  obtain i where i: "archive_item env source (0, c) = Some i" "si_sourceKey i = Some g" "si_googlePlaceId i = Some g"
      "si_title i = Some (js_trim t)"
    using assms(2,5) by (simp add: archive_item_def gid title firstNonEmptyString_def Let_def)
  obtain rest' where items: "document_items env \<lparr>ad_source = source, ad_payload = c\<rparr> = i # rest'"
    unfolding document_items_def by (simp only: archive_document.select_convs cs enumerate_simps List.map_filter_simps i option.case)
  have "Some g \<notin> set (map si_sourceKey (first_by_key si_sourceKey [Some g] rest'))"
    using first_by_key_distinct [of si_sourceKey "[Some g]" rest'] by auto
  then have "filter (\<lambda>i. si_sourceKey i = Some g) (first_by_key si_sourceKey [Some g] rest') = []"
    by (force simp: filter_empty_conv)
  then show ?thesis unfolding c [symmetric] by (simp add: parseSavedCollectionArchiveDocuments_def items i)
qed

definition sample_parser_env :: parser_env where
  "sample_parser_env = \<lparr>ps_decode = Some, ps_query = (\<lambda>_. None), ps_stringify = (\<lambda>_. []), ps_sha = (\<lambda>s. s)\<rparr>"

definition sample_list :: "json list \<Rightarrow> json" where
  "sample_list rest = JObj [(''title'', JStr ''Para el finde''), (''items'', JArr (JObj [(''title'', JStr ''Cafe Uno''),
     (''place_id'', JStr ''ChIJ0000000000000001'')] # rest))]"

theorem list_title_wins_witness:
  "map (\<lambda>i. (si_googlePlaceId i, si_title i)) (filter (\<lambda>i. si_sourceKey i = Some ''ChIJ0000000000000001'')
      (parseSavedCollectionArchiveDocuments sample_parser_env [\<lparr>ad_source = ''x'', ad_payload = sample_list []\<rparr>]))
    = [(Some ''ChIJ0000000000000001'', Some ''Para el finde'')]"
proof -
  have t: "js_trim ''Para el finde'' = ''Para el finde''" by code_simp
  show ?thesis
    unfolding sample_list_def
    using list_title_wins [of sample_parser_env "''ChIJ0000000000000001''" "''Para el finde''" "''Cafe Uno''" "''x''" "[]" "[]",
        unfolded t]
    by (simp add: looksLikeGooglePlaceId_def sample_parser_env_def decodeGoogleValue_def starts_with_def id_char_def code_unit_def)
qed

end
