(* ===== verification/ImportStore.thy ===== *)
theory ImportStore
  imports ImportParser Visits SocialFeed
begin

text \<open>
  The imports of the database (\<open>google-data-portability.repository.ts\<close>), Google's data portability interface
  (\<open>google-data-portability-archive.service.ts\<close>, \<open>-auth.service.ts\<close>) and the sealed tokens
  (\<open>-token-crypto.service.ts\<close>).  HTTP calls, AES-GCM with base64url and \<open>URLSearchParams\<close> are fields of \<open>google_env\<close>.
\<close>

section \<open>The repository\<close>

definition IMPORT_SCOPES :: "string list" where
  "IMPORT_SCOPES = [''https://www.googleapis.com/auth/dataportability.saved.collections'',
     ''https://www.googleapis.com/auth/dataportability.myactivity.maps'']"

definition IMPORT_RESOURCES :: "string list" where "IMPORT_RESOURCES = [''saved.collections'', ''myactivity.maps'']"

definition IMPORT_REASON :: string where "IMPORT_REASON = ''google_data_portability''"

definition getImportById :: "string \<Rightarrow> db \<Rightarrow> import_row option" where
  "getImportById importId w = find_unique (\<lambda>i. im_id i = importId) (t_imports w)"

definition getImportForUser :: "string \<Rightarrow> string \<Rightarrow> db \<Rightarrow> import_row option" where
  "getImportForUser userId importId w = find_unique (\<lambda>i. im_id i = importId \<and> im_user i = userId) (t_imports w)"

definition createImportRepo :: "string \<Rightarrow> import_consent \<Rightarrow> import_row dbm" where
  "createImportRepo userId consent =
     bindS (gets (user_by_id userId)) (\<lambda>u.
     bindS (require (PrismaError ''P2003'') u) (\<lambda>_.
     bindS fresh_id (\<lambda>i. bindS now (\<lambda>t.
       let row = \<lparr>im_id = i, im_user = userId, im_status = IAuthorizing, im_scopes = JArr (map JStr IMPORT_SCOPES),
             im_consent = consent, im_job = None, im_state = None, im_urls = None, im_access = None, im_refresh = None,
             im_expires = None, im_error = None, im_created = t, im_updated = t, im_completed = None\<rparr>
       in seqS (modify (\<lambda>w. w\<lparr>t_imports := t_imports w @ [row]\<rparr>)) (ret row)))))"

text \<open>\<open>update\<close> of one import: P2025 when it is gone; \<open>updatedAt\<close> is set by Prisma.\<close>

definition update_import :: "string \<Rightarrow> (import_row \<Rightarrow> import_row) \<Rightarrow> import_row dbm" where
  "update_import importId f =
     bindS now (\<lambda>t. bindS (gets (getImportById importId)) (\<lambda>row.
     bindS (require (PrismaError ''P2025'') row) (\<lambda>old.
       let g = (\<lambda>i. (f i)\<lparr>im_updated := t\<rparr>) in
       seqS (modify (\<lambda>w. w\<lparr>t_imports := update_many (\<lambda>i. im_id i = importId) g (t_imports w)\<rparr>)) (ret (g old)))))"

definition markProcessing :: "string \<Rightarrow> import_row dbm" where
  "markProcessing importId = update_import importId (\<lambda>i. i\<lparr>im_status := IProcessing, im_error := None\<rparr>)"

definition markFetching :: "string \<Rightarrow> string \<Rightarrow> string \<Rightarrow> string option \<Rightarrow> int option \<Rightarrow> import_row dbm" where
  "markFetching importId jobId access refresh expires = update_import importId (\<lambda>i. i\<lparr>im_status := IFetching,
     im_job := Some jobId, im_access := Some access, im_refresh := refresh, im_expires := expires, im_error := None\<rparr>)"

definition updateOAuthTokens :: "string \<Rightarrow> string \<Rightarrow> string option \<Rightarrow> int option \<Rightarrow> import_row dbm" where
  "updateOAuthTokens importId access refresh expires = update_import importId (\<lambda>i. i\<lparr>im_access := Some access,
     im_refresh := (if truthy refresh then refresh else im_refresh i), im_expires := expires\<rparr>)"

definition updateArchiveState :: "string \<Rightarrow> string \<Rightarrow> string list \<Rightarrow> import_row dbm" where
  "updateArchiveState importId state urls = update_import importId (\<lambda>i. i\<lparr>im_state := Some state, im_urls := Some urls,
     im_status := (if state = ''FAILED'' then IFailed else IFetching),
     im_error := (if state = ''FAILED'' then Some ''Google archive job failed'' else None)\<rparr>)"

definition markComplete :: "string \<Rightarrow> import_row dbm" where
  "markComplete importId = bindS now (\<lambda>t.
     update_import importId (\<lambda>i. i\<lparr>im_status := IComplete, im_completed := Some t, im_error := None\<rparr>))"

definition markFailed :: "string \<Rightarrow> string \<Rightarrow> import_row dbm" where
  "markFailed importId error = update_import importId (\<lambda>i. i\<lparr>im_status := IFailed, im_error := Some error\<rparr>)"

definition markRevoked :: "string \<Rightarrow> import_row dbm" where
  "markRevoked importId = update_import importId (\<lambda>i. i\<lparr>im_status := IRevoked\<rparr>)"

text \<open>\<open>deleteMany\<close> with the cascade to the items.\<close>

definition deleteImportForUser :: "string \<Rightarrow> string \<Rightarrow> unit dbm" where
  "deleteImportForUser userId importId = modify (\<lambda>w.
     let gone = (\<lambda>i. im_id i = importId \<and> im_user i = userId);
         ids = set (map im_id (filter gone (t_imports w)))
     in w\<lparr>t_imports := delete_many gone (t_imports w),
          t_import_items := delete_many (\<lambda>x. ii_import x \<in> ids) (t_import_items w)\<rparr>)"

record item_input =
  ui_import :: string
  ui_sourceKey :: string
  ui_title :: "string option"
  ui_url :: "string option"
  ui_payload :: json
  ui_place :: "string option"
  ui_confidence :: import_confidence
  ui_status :: import_item_status

abbreviation SAVED_COLLECTIONS :: string where "SAVED_COLLECTIONS \<equiv> ''saved.collections''"

definition item_at :: "string \<Rightarrow> string \<Rightarrow> import_item_row \<Rightarrow> bool" where
  "item_at importId key x \<longleftrightarrow> item_key x = (importId, SAVED_COLLECTIONS, key)"

definition item_data :: "item_input \<Rightarrow> import_item_row \<Rightarrow> import_item_row" where
  "item_data input x = x\<lparr>ii_title := ui_title input, ii_url := ui_url input, ii_payload := ui_payload input,
     ii_place := ui_place input, ii_kind := SavedPlace, ii_confidence := ui_confidence input, ii_status := ui_status input\<rparr>"

text \<open>\<open>upsert\<close> by the unique key; the import and the place it points to have to exist (P2003).\<close>

definition upsertItem :: "item_input \<Rightarrow> unit dbm" where
  "upsertItem input =
     bindS (gets (\<lambda>w. getImportById (ui_import input) w = None
        \<or> (case ui_place input of None \<Rightarrow> False | Some p \<Rightarrow> place_by_id p w = None))) (\<lambda>dangling.
     if dangling then throw (PrismaError ''P2003'')
     else bindS (gets (\<lambda>w. find_unique (item_at (ui_import input) (ui_sourceKey input)) (t_import_items w))) (\<lambda>existing.
       case existing of
         Some _ \<Rightarrow> modify (\<lambda>w. w\<lparr>t_import_items :=
           update_many (item_at (ui_import input) (ui_sourceKey input)) (item_data input) (t_import_items w)\<rparr>)
       | None \<Rightarrow> bindS fresh_id (\<lambda>i. bindS now (\<lambda>t.
           modify (\<lambda>w. w\<lparr>t_import_items := t_import_items w @ [item_data input \<lparr>ii_id = i, ii_import = ui_import input,
             ii_group = SAVED_COLLECTIONS, ii_source_key = ui_sourceKey input, ii_title = None, ii_url = None,
             ii_payload = JNull, ii_place = None, ii_kind = SavedPlace, ii_confidence = CLow, ii_status = ItParsed,
             ii_created = t\<rparr>]\<rparr>)))))"

text \<open>\<open>groupBy\<close> of kind and status.\<close>

type_synonym item_counts = "((import_item_kind \<times> import_item_status) \<times> nat) list"

definition items_of :: "string \<Rightarrow> db \<Rightarrow> import_item_row list" where
  "items_of importId w = find_many (\<lambda>x. ii_import x = importId) (t_import_items w)"

definition countItems :: "string \<Rightarrow> db \<Rightarrow> item_counts" where
  "countItems importId w =
     (let keys = map (\<lambda>x. (ii_kind x, ii_status x)) (items_of importId w)
      in map (\<lambda>k. (k, length (filter (\<lambda>k'. k' = k) keys))) (dedupe keys))"

definition listSavedCollectionItems :: "string \<Rightarrow> db \<Rightarrow> import_item_row list" where
  "listSavedCollectionItems importId w = sort_by (\<lambda>a b. ii_created a \<le> ii_created b)
     (find_many (\<lambda>x. ii_import x = importId \<and> ii_group x = SAVED_COLLECTIONS) (t_import_items w))"

section \<open>Google's interface\<close>

record portability_config =
  gc_clientId :: "string option"
  gc_webClientId :: "string option"
  gc_clientSecret :: "string option"
  gc_redirectUri :: "string option"

datatype google_call =
    TokenByCode string string string string
  | TokenByRefresh string string string
  | InitiateArchive string "string list"
  | ArchiveState string string

text \<open>A response is whether it is \<open>ok\<close> and its JSON.\<close>

record google_env =
  ge_cfg :: portability_config
  ge_call :: "google_call \<Rightarrow> http_error + bool \<times> json"
  ge_seal :: "string \<Rightarrow> string \<times> string \<times> string"
  ge_open :: "string \<Rightarrow> string \<Rightarrow> string \<Rightarrow> http_error + string"
  ge_params :: "(string \<times> string) list \<Rightarrow> string"

definition client_id :: "google_env \<Rightarrow> string option" where
  "client_id env = or_else (gc_clientId (ge_cfg env)) (gc_webClientId (ge_cfg env))"

definition not_configured :: http_error where
  "not_configured = InternalError ''Google Data Portability OAuth is not fully configured''"

definition json_text :: "json \<Rightarrow> string \<Rightarrow> string option" where
  "json_text v k = (case v of JObj kvs \<Rightarrow> (case map_of kvs k of Some (JStr s) \<Rightarrow> Some s | _ \<Rightarrow> None) | _ \<Rightarrow> None)"

record oauth_tokens =
  ot_access :: string
  ot_refresh :: "string option"
  ot_expires :: "int option"

text \<open>\<open>new Date(Date.now() + expires_in * 1000)\<close>, which drops a fraction of a millisecond.\<close>

definition expiry :: "int \<Rightarrow> json \<Rightarrow> int option" where
  "expiry t v = (case v of JObj kvs \<Rightarrow> (case map_of kvs ''expires_in'' of
       Some (JNum r) \<Rightarrow> (let x = of_int t + r * 1000 in Some (if 0 \<le> x then floor x else ceiling x)) | _ \<Rightarrow> None)
     | _ \<Rightarrow> None)"

definition token_answer :: "string \<Rightarrow> bool \<Rightarrow> int \<Rightarrow> http_error + bool \<times> json \<Rightarrow> http_error + oauth_tokens" where
  "token_answer message withRefresh t answer = bindE answer (\<lambda>(ok, v). case json_text v ''access_token'' of
     None \<Rightarrow> Inl (BadGateway message)
   | Some a \<Rightarrow> if \<not> ok then Inl (BadGateway message)
       else Inr \<lparr>ot_access = a, ot_refresh = (if withRefresh then json_text v ''refresh_token'' else None), ot_expires = expiry t v\<rparr>)"

definition exchangeCode :: "google_env \<Rightarrow> int \<Rightarrow> string \<Rightarrow> http_error + oauth_tokens" where
  "exchangeCode env t code =
     (let c = client_id env; s = gc_clientSecret (ge_cfg env); r = gc_redirectUri (ge_cfg env) in
      if \<not> (truthy c \<and> truthy s \<and> truthy r) then Inl not_configured
      else token_answer ''Google OAuth code exchange failed'' True t (ge_call env (TokenByCode (the c) (the s) (the r) code)))"

definition refreshAccessToken :: "google_env \<Rightarrow> int \<Rightarrow> string \<Rightarrow> http_error + oauth_tokens" where
  "refreshAccessToken env t refreshToken =
     (let c = client_id env; s = gc_clientSecret (ge_cfg env) in
      if \<not> (truthy c \<and> truthy s) then Inl not_configured
      else token_answer ''Google OAuth token refresh failed'' False t (ge_call env (TokenByRefresh (the c) (the s) refreshToken)))"

definition initiateArchive :: "google_env \<Rightarrow> string \<Rightarrow> http_error + string \<times> json option" where
  "initiateArchive env accessToken = bindE (ge_call env (InitiateArchive accessToken IMPORT_RESOURCES)) (\<lambda>(ok, v).
     case json_text v ''archiveJobId'' of
       None \<Rightarrow> Inl (BadGateway ''Google Data Portability archive initiation failed'')
     | Some j \<Rightarrow> if \<not> ok then Inl (BadGateway ''Google Data Portability archive initiation failed'')
         else Inr (j, (case v of JObj kvs \<Rightarrow> map_of kvs ''accessType'' | _ \<Rightarrow> None)))"

text \<open>The addresses of a finished archive; \<open>None\<close> when they are not an array of strings.\<close>

definition archive_urls :: "json \<Rightarrow> string list option" where
  "archive_urls v = (case v of
     JObj kvs \<Rightarrow> (case map_of kvs ''urls'' of
         None \<Rightarrow> Some []
       | Some (JArr vs) \<Rightarrow> those (map (\<lambda>x. case x of JStr s \<Rightarrow> Some s | _ \<Rightarrow> None) vs)
       | Some _ \<Rightarrow> None)
   | _ \<Rightarrow> None)"

definition getArchiveState :: "google_env \<Rightarrow> string \<Rightarrow> string \<Rightarrow> http_error + string \<times> string list" where
  "getArchiveState env accessToken jobId = bindE (ge_call env (ArchiveState accessToken jobId)) (\<lambda>(ok, v).
     case (json_text v ''state'', archive_urls v) of
       (Some s, Some urls) \<Rightarrow> if ok then Inr (s, urls) else Inl (BadGateway ''Google Data Portability archive state check failed'')
     | _ \<Rightarrow> Inl (BadGateway ''Google Data Portability archive state check failed''))"

definition buildAuthorizationUrl :: "google_env \<Rightarrow> string \<Rightarrow> string option" where
  "buildAuthorizationUrl env importId =
     (let c = client_id env; r = gc_redirectUri (ge_cfg env) in
      if \<not> (truthy c \<and> truthy r) then None
      else Some (''https://accounts.google.com/o/oauth2/v2/auth?'' @ ge_params env
        [(''client_id'', the c), (''redirect_uri'', the r), (''response_type'', ''code''),
         (''scope'', hd IMPORT_SCOPES @ '' '' @ hd (tl IMPORT_SCOPES)), (''state'', importId), (''access_type'', ''offline''),
         (''prompt'', ''consent'')]))"

section \<open>Sealed tokens\<close>

definition encrypt :: "google_env \<Rightarrow> string \<Rightarrow> string" where
  "encrypt env value = (case ge_seal env value of (iv, tag, body) \<Rightarrow> ''v1.'' @ iv @ ''.'' @ tag @ ''.'' @ body)"

definition decrypt :: "google_env \<Rightarrow> string \<Rightarrow> http_error + string" where
  "decrypt env value = (case split_on (CHR ''.'') value of
     version # iv # tag # body # _ \<Rightarrow>
       (if version \<noteq> ''v1'' \<or> iv = [] \<or> tag = [] \<or> body = [] then Inl (InternalError ''Unsupported encrypted token format'')
        else ge_open env iv tag body)
   | _ \<Rightarrow> Inl (InternalError ''Unsupported encrypted token format''))"

lemma split_on_piece: "CHR ''.'' \<notin> set a \<Longrightarrow> split_on (CHR ''.'') (a @ CHR ''.'' # s) = a # split_on (CHR ''.'') s"
  by (induction a) auto

lemma split_on_last: "CHR ''.'' \<notin> set a \<Longrightarrow> split_on (CHR ''.'') a = [a]"
  by (induction a) auto

text \<open>The pieces of a sealed token are base64url, without a point; AES-GCM opens what it sealed.\<close>

lemma token_roundtrip:
  assumes "ge_seal env value = (iv, tag, body)" "ge_open env iv tag body = Inr value"
    "list_all (\<lambda>s. s \<noteq> [] \<and> CHR ''.'' \<notin> set s) [iv, tag, body]"
  shows "decrypt env (encrypt env value) = Inr value"
proof -
  have "encrypt env value = ''v1'' @ CHR ''.'' # (iv @ CHR ''.'' # (tag @ CHR ''.'' # body))"
    by (simp add: encrypt_def assms(1))
  then have "split_on (CHR ''.'') (encrypt env value) = [''v1'', iv, tag, body]"
    using assms(3) by (simp add: split_on_piece split_on_last)
  then show ?thesis using assms(2,3) by (simp add: decrypt_def)
qed

end
