(* ===== verification/ImportService.thy ===== *)
theory ImportService
  imports ImportStore
begin

text \<open>
  Importing the places a user saved in Google Maps (\<open>google-data-portability-import.service.ts\<close>,
  \<open>google-data-import.worker.ts\<close>): authorising, fetching the archive, and the jobs that turn its items into saved
  places.  The queue hands a job to \<open>run_job\<close>; the methods that enqueue one return it.  Logging is left out.
\<close>

record import_env =
  ie_google :: google_env
  ie_archive :: archive_env
  ie_parser :: parser_env
  ie_places :: places_env
  ie_collate :: "string \<Rightarrow> string \<Rightarrow> bool"

definition MAX_REMOTE_PLACE_RESOLVES :: nat where "MAX_REMOTE_PLACE_RESOLVES = 25"

definition import_missing :: http_error where "import_missing = NotFound ''Google data import not found''"

text \<open>\<open>error.message\<close>.\<close>

definition error_message :: "http_error \<Rightarrow> string" where
  "error_message e = (case e of BadRequest m \<Rightarrow> m | Unauthorized m \<Rightarrow> m | Forbidden m \<Rightarrow> m | NotFound m \<Rightarrow> m | Conflict m \<Rightarrow> m
     | Unprocessable m \<Rightarrow> m | ServiceUnavailable m \<Rightarrow> m | PayloadTooLarge m \<Rightarrow> m | BadGateway m \<Rightarrow> m | PrismaError m \<Rightarrow> m
     | InternalError m \<Rightarrow> m)"

section \<open>Views\<close>

record import_view =
  iv_row :: import_row
  iv_totalItems :: nat

text \<open>\<open>serializeImport\<close>: the columns that are shown, with the number of items when the query counted them.\<close>

definition serializeImport :: "import_row \<Rightarrow> nat option \<Rightarrow> import_view" where
  "serializeImport row itemCount = \<lparr>iv_row = row\<lparr>im_user := [], im_access := None, im_refresh := None\<rparr>,
     iv_totalItems = default_to itemCount 0\<rparr>"

record import_counts =
  ct_savedPlaces :: nat
  ct_visits :: nat
  ct_skipped :: nat
  ct_manualReview :: nat

fun add_counts :: "import_counts \<Rightarrow> item_counts \<Rightarrow> import_counts" where
  "add_counts c [] = c"
| "add_counts c (((kind, status), n) # rows) =
     add_counts \<lparr>ct_savedPlaces = ct_savedPlaces c + (if kind = SavedPlace \<and> status = ItMatched then n else 0),
       ct_visits = ct_visits c + (if kind = VisitItem \<and> status = ItMatched then n else 0),
       ct_skipped = ct_skipped c + (if status = ItSkipped then n else 0),
       ct_manualReview = ct_manualReview c + (if status = ItManualReview then n else 0)\<rparr> rows"

definition getCounts :: "string \<Rightarrow> db \<Rightarrow> import_counts" where
  "getCounts importId w =
     add_counts \<lparr>ct_savedPlaces = 0, ct_visits = 0, ct_skipped = 0, ct_manualReview = 0\<rparr> (countItems importId w)"

definition getLearnedCategoryCount :: "import_env \<Rightarrow> string \<Rightarrow> db \<Rightarrow> nat" where
  "getLearnedCategoryCount env userId w = length (rs_imported (getUserRecommendationSignals (ie_collate env) userId w))"

definition ensureImportForUser :: "string \<Rightarrow> string \<Rightarrow> import_row dbm" where
  "ensureImportForUser userId importId = bindS (gets (getImportForUser userId importId)) (require import_missing)"

definition getImport :: "import_env \<Rightarrow> string \<Rightarrow> string \<Rightarrow> (import_view \<times> import_counts \<times> nat) dbm" where
  "getImport env userId importId =
     bindS (ensureImportForUser userId importId) (\<lambda>row.
     gets (\<lambda>w. (serializeImport row (Some (length (items_of importId w))), getCounts importId w,
                getLearnedCategoryCount env userId w)))"

section \<open>Authorising\<close>

definition createImport :: "import_env \<Rightarrow> string \<Rightarrow> import_consent \<Rightarrow> (import_view \<times> string option) dbm" where
  "createImport env userId consent =
     bindS (createImportRepo userId consent) (\<lambda>row.
       ret (serializeImport row None, buildAuthorizationUrl (ie_google env) (im_id row)))"

record oauth_callback =
  oc_code :: "string option"
  oc_state :: "string option"
  oc_error :: "string option"

definition start_fetching :: "import_env \<Rightarrow> string \<Rightarrow> string \<Rightarrow> (import_view \<times> json option) dbm" where
  "start_fetching env importId code =
     bindS now (\<lambda>t.
     bindS (liftE (exchangeCode (ie_google env) t code)) (\<lambda>token.
     bindS (liftE (initiateArchive (ie_google env) (ot_access token))) (\<lambda>archive.
     bindS (markFetching importId (fst archive) (encrypt (ie_google env) (ot_access token))
         (if truthy (ot_refresh token) then map_option (encrypt (ie_google env)) (ot_refresh token) else None)
         (ot_expires token)) (\<lambda>updated.
       ret (serializeImport updated None, snd archive)))))"

definition handleOAuthCallback :: "import_env \<Rightarrow> oauth_callback \<Rightarrow> (import_view \<times> json option) dbm" where
  "handleOAuthCallback env input =
     (if \<not> truthy (oc_state input) then throw (BadRequest ''Missing OAuth state'')
      else let importId = the (oc_state input) in
        bindS (gets (getImportById importId)) (\<lambda>row.
        bindS (require import_missing row) (\<lambda>_.
          if truthy (oc_error input)
          then bindS (markFailed importId (the (oc_error input))) (\<lambda>failed. ret (serializeImport failed None, None))
          else if \<not> truthy (oc_code input)
          then seqS (markFailed importId ''Missing OAuth code'') (throw (BadRequest ''Missing OAuth code''))
          else catchS (start_fetching env importId (the (oc_code input)))
                 (\<lambda>e. seqS (markFailed importId (error_message e)) (throw e)))))"

definition deleteImport :: "string \<Rightarrow> string \<Rightarrow> unit dbm" where
  "deleteImport userId importId =
     seqS (ensureImportForUser userId importId) (seqS (markRevoked importId) (deleteImportForUser userId importId))"

section \<open>The state of the archive\<close>

definition resolveAccessToken :: "import_env \<Rightarrow> import_row \<Rightarrow> string dbm" where
  "resolveAccessToken env row =
     bindS now (\<lambda>t.
       if truthy (im_access row) \<and> (case im_expires row of None \<Rightarrow> True | Some e \<Rightarrow> e = 0 \<or> t + 60000 < e)
       then liftE (decrypt (ie_google env) (the (im_access row)))
       else if \<not> truthy (im_refresh row) then throw (BadRequest ''Google OAuth token expired'')
       else
         bindS (liftE (decrypt (ie_google env) (the (im_refresh row)))) (\<lambda>refreshToken.
         bindS (liftE (refreshAccessToken (ie_google env) t refreshToken)) (\<lambda>refreshed.
         seqS (updateOAuthTokens (im_id row) (encrypt (ie_google env) (ot_access refreshed)) None (ot_expires refreshed))
           (ret (ot_access refreshed)))))"

definition syncArchiveState :: "import_env \<Rightarrow> string \<Rightarrow> string \<Rightarrow> import_view dbm" where
  "syncArchiveState env userId importId =
     bindS (ensureImportForUser userId importId) (\<lambda>row.
       if \<not> truthy (im_job row) then throw (BadRequest ''Google archive job has not been initiated'')
       else
         bindS (resolveAccessToken env row) (\<lambda>accessToken.
         bindS (liftE (getArchiveState (ie_google env) accessToken (the (im_job row)))) (\<lambda>(state, urls).
         bindS (updateArchiveState importId state urls) (\<lambda>updated. ret (serializeImport updated None)))))"

definition archive_urls_of :: "import_row \<Rightarrow> string list" where
  "archive_urls_of row = default_to (im_urls row) []"

definition assertArchiveReadyForProcessing :: "import_env \<Rightarrow> string \<Rightarrow> string \<Rightarrow> import_row dbm" where
  "assertArchiveReadyForProcessing env userId importId =
     bindS (ensureImportForUser userId importId) (\<lambda>row.
     bindS (if archive_urls_of row = [] \<and> truthy (im_job row)
            then seqS (syncArchiveState env userId importId) (ensureImportForUser userId importId) else ret row) (\<lambda>row.
       if im_state row \<noteq> Some ''COMPLETE'' \<and> archive_urls_of row = []
       then throw (BadRequest ''Google archive is not complete yet'')
       else if archive_urls_of row = [] then throw (BadRequest ''Google archive did not include download URLs'')
       else ret row))"

section \<open>One item\<close>

text \<open>\<open>toPrismaJson\<close>: a null becomes an empty object.\<close>

fun toPrismaJson :: "json \<Rightarrow> json" where
  "toPrismaJson JNull = JObj []"
| "toPrismaJson (JArr vs) = JArr (map toPrismaJson vs)"
| "toPrismaJson (JObj kvs) = JObj (map (\<lambda>kv. (fst kv, toPrismaJson (snd kv))) kvs)"
| "toPrismaJson v = v"

definition import_item ::
  "string \<Rightarrow> parsed_place \<Rightarrow> string option \<Rightarrow> import_confidence \<Rightarrow> import_item_status \<Rightarrow> item_input" where
  "import_item importId parsed placeId confidence status = \<lparr>ui_import = importId, ui_sourceKey = pp_sourceKey parsed,
     ui_title = pp_title parsed, ui_url = pp_url parsed, ui_payload = toPrismaJson (pp_rawPayload parsed),
     ui_place = placeId, ui_confidence = confidence, ui_status = status\<rparr>"

text \<open>Saving the place of an item: stored already, or resolved at Google while the run has not resolved too many; the
  answer is what the run has resolved more.\<close>

definition save_item :: "import_env \<Rightarrow> string \<Rightarrow> string \<Rightarrow> parsed_place \<Rightarrow> string \<Rightarrow> nat \<Rightarrow> nat dbm" where
  "save_item env userId importId parsed gid remoteResolveCount =
     (let matched = (\<lambda>place. seqS (savePlaceRepo userId (pl_id place) (Some IMPORT_REASON))
            (upsertItem (import_item importId parsed (Some (pl_id place)) CHigh ItMatched))) in
      bindS (gets (getPlaceBySource SrcGoogle (normalizeGooglePlaceId (ps_decode (ie_parser env)) gid))) (\<lambda>stored.
        case stored of
          Some place \<Rightarrow> seqS (matched place) (ret 0)
        | None \<Rightarrow>
            if MAX_REMOTE_PLACE_RESOLVES \<le> remoteResolveCount
            then seqS (upsertItem (import_item importId parsed None CHigh ItManualReview)) (ret 0)
            else bindS (resolver (ie_places env) gid None) (\<lambda>place. seqS (matched place) (ret 1))))"

definition processSavedCollectionItem :: "import_env \<Rightarrow> string \<Rightarrow> string \<Rightarrow> saved_item \<Rightarrow> nat \<Rightarrow> nat dbm" where
  "processSavedCollectionItem env userId importId item remoteResolveCount =
     (let parsed = parseSavedCollectionItem (ie_parser env) item in
      if \<not> truthy (pp_googlePlaceId parsed)
      then seqS (upsertItem (import_item importId parsed None CLow ItManualReview)) (ret 0)
      else catchS (save_item env userId importId parsed (the (pp_googlePlaceId parsed)) remoteResolveCount)
             (\<lambda>_. seqS (upsertItem (import_item importId parsed None CHigh ItManualReview)) (ret 0)))"

fun process_items :: "import_env \<Rightarrow> string \<Rightarrow> string \<Rightarrow> nat \<Rightarrow> saved_item list \<Rightarrow> nat dbm" where
  "process_items env userId importId remoteResolveCount [] = ret remoteResolveCount"
| "process_items env userId importId remoteResolveCount (item # items) =
     bindS (processSavedCollectionItem env userId importId item remoteResolveCount) (\<lambda>n.
       process_items env userId importId (remoteResolveCount + n) items)"

section \<open>The jobs\<close>

datatype import_job =
    ProcessArchive string string
  | IngestSaved string string "saved_item list"
  | RetryImport string string

definition import_all :: "import_env \<Rightarrow> string \<Rightarrow> string \<Rightarrow> saved_item list dbm \<Rightarrow> unit dbm" where
  "import_all env userId importId load =
     catchS (bindS load (\<lambda>items. seqS (process_items env userId importId 0 items)
               (seqS (markComplete importId) (ret ()))))
       (\<lambda>e. seqS (markFailed importId (error_message e)) (ret ()))"

definition executeProcessCompletedArchive :: "import_env \<Rightarrow> string \<Rightarrow> string \<Rightarrow> unit dbm" where
  "executeProcessCompletedArchive env userId importId =
     bindS (ensureImportForUser userId importId) (\<lambda>row.
       if archive_urls_of row = []
       then seqS (markFailed importId ''Google archive did not include download URLs'') (ret ())
       else import_all env userId importId (bindS (liftE (downloadJsonDocuments (ie_archive env) (archive_urls_of row))) (\<lambda>documents.
              ret (parseSavedCollectionArchiveDocuments (ie_parser env) documents))))"

definition executeIngestSavedCollections :: "import_env \<Rightarrow> string \<Rightarrow> string \<Rightarrow> saved_item list \<Rightarrow> unit dbm" where
  "executeIngestSavedCollections env userId importId items =
     seqS (ensureImportForUser userId importId) (import_all env userId importId (ret items))"

definition retried_item :: "import_item_row \<Rightarrow> saved_item" where
  "retried_item x = \<lparr>si_sourceKey = Some (ii_source_key x), si_title = ii_title x, si_name = None, si_url = ii_url x,
     si_placeUrl = None, si_googlePlaceId = None, si_rawPayload = Some (ii_payload x)\<rparr>"

definition executeRetry :: "import_env \<Rightarrow> string \<Rightarrow> string \<Rightarrow> unit dbm" where
  "executeRetry env userId importId =
     seqS (ensureImportForUser userId importId)
       (bindS (gets (listSavedCollectionItems importId)) (\<lambda>items.
          if items = [] then seqS (markFailed importId ''No saved collection items to retry'') (ret ())
          else import_all env userId importId (ret (map retried_item items))))"

text \<open>The handlers of the worker.\<close>

fun run_job :: "import_env \<Rightarrow> import_job \<Rightarrow> unit dbm" where
  "run_job env (ProcessArchive userId importId) = executeProcessCompletedArchive env userId importId"
| "run_job env (IngestSaved userId importId items) = executeIngestSavedCollections env userId importId items"
| "run_job env (RetryImport userId importId) = executeRetry env userId importId"

section \<open>Enqueuing\<close>

type_synonym enqueued = "import_job \<times> import_view \<times> import_counts \<times> nat"

definition enqueue :: "import_env \<Rightarrow> string \<Rightarrow> string \<Rightarrow> import_job \<Rightarrow> enqueued dbm" where
  "enqueue env userId importId job =
     seqS (markProcessing importId) (bindS (getImport env userId importId) (\<lambda>snapshot. ret (job, snapshot)))"

definition enqueueProcessCompletedArchive :: "import_env \<Rightarrow> string \<Rightarrow> string \<Rightarrow> enqueued dbm" where
  "enqueueProcessCompletedArchive env userId importId =
     seqS (assertArchiveReadyForProcessing env userId importId) (enqueue env userId importId (ProcessArchive userId importId))"

text \<open>The payload of the job keeps the key, the title, the address and the raw object only.\<close>

definition queued_item :: "saved_item \<Rightarrow> saved_item" where
  "queued_item i = \<lparr>
     si_sourceKey = Some (default_to (or_else (si_sourceKey i) (or_else (si_url i) (or_else (si_googlePlaceId i) (si_title i)))) ''unknown''),
     si_title = or_else (si_title i) (si_name i), si_name = None, si_url = or_else (si_url i) (si_placeUrl i),
     si_placeUrl = None, si_googlePlaceId = None, si_rawPayload = si_rawPayload i\<rparr>"

definition enqueueIngestSavedCollections :: "import_env \<Rightarrow> string \<Rightarrow> string \<Rightarrow> saved_item list \<Rightarrow> enqueued dbm" where
  "enqueueIngestSavedCollections env userId importId items =
     (if items = [] then throw (BadRequest ''At least one saved collection item is required'')
      else seqS (ensureImportForUser userId importId)
             (enqueue env userId importId (IngestSaved userId importId (map queued_item items))))"

definition enqueueRetry :: "import_env \<Rightarrow> string \<Rightarrow> string \<Rightarrow> enqueued dbm" where
  "enqueueRetry env userId importId =
     seqS (ensureImportForUser userId importId)
       (bindS (gets (listSavedCollectionItems importId)) (\<lambda>items.
          if items = [] then throw (BadRequest ''No saved collection items to retry'')
          else enqueue env userId importId (RetryImport userId importId)))"

section \<open>What the jobs leave alone\<close>

abbreviation imports_are :: "import_row list \<Rightarrow> db \<Rightarrow> bool" where
  "imports_are rows w \<equiv> t_imports w = rows"

lemma keeps_place_rows:
  "keeps (imports_are rows) (upsertPlace p)" "keeps (imports_are rows) (upsertCity c)"
  "keeps (imports_are rows) (savePlaceRepo u i r)" "keeps (imports_are rows) (upsertItem x)"
  unfolding upsertPlace_def upsertCity_def savePlaceRepo_def upsertItem_def
  by (rule keepsI; auto simp: bindS_apply seqS_apply now_apply Let_def fresh_id_apply gets_def split: option.splits)+

lemma keeps_resolver: "keeps (imports_are rows) (resolver env gid token)"
  unfolding resolver_def resolve_place_def ensureStoredCityForCoordinates_def getCachedReverseGeocodeCity_def
    getCachedGoogleValue_def upsertCitySummary_def
  by (auto intro!: keeps_intro keeps_place_rows split: option.splits)

lemma keeps_process: "keeps (imports_are rows) (processSavedCollectionItem env u i item n)"
  unfolding processSavedCollectionItem_def save_item_def Let_def
  by (intro keeps_intro keeps_place_rows keeps_resolver)

lemma keeps_process_items: "keeps (imports_are rows) (process_items env u i n items)"
proof (induction items arbitrary: n)
  case Nil
  show ?case by (simp only: process_items.simps keeps_ret)
next
  case (Cons item items)
  show ?case by (simp only: process_items.simps) (intro keeps_bind keeps_process Cons.IH)
qed

section \<open>A job settles its import\<close>

definition import_status_of :: "string \<Rightarrow> db \<Rightarrow> import_status option" where
  "import_status_of importId w = map_option im_status (getImportById importId w)"

text \<open>A call that succeeds and leaves the import complete or failed.\<close>

definition settles :: "string \<Rightarrow> (http_error + unit) \<times> db \<Rightarrow> bool" where
  "settles importId r \<longleftrightarrow> fst r = Inr () \<and> import_status_of importId (snd r) \<in> {Some IComplete, Some IFailed}"

lemma update_import_run:
  assumes "getImportById i w = Some old" "\<And>r. im_id (f r) = im_id r"
  shows "\<exists>row w'. update_import i f w = (Inr row, w') \<and> getImportById i w' = Some ((f old)\<lparr>im_updated := db_now w\<rparr>)"
proof -
  let ?g = "\<lambda>r. (f r)\<lparr>im_updated := db_now w\<rparr>"
  have old: "im_id old = i" using find_unique_Some [OF assms(1) [unfolded getImportById_def]] by simp
  have "update_import i f w = (Inr (?g old), w\<lparr>t_imports := update_many (\<lambda>r. im_id r = i) ?g (t_imports w)\<rparr>)"
    by (simp add: update_import_def now_apply bindS_apply gets_def assms(1) require_def ret_def seqS_apply modify_def Let_def)
  moreover have "find_unique (\<lambda>r. im_id r = i) (update_many (\<lambda>r. im_id r = i) ?g (t_imports w)) = Some (?g old)"
    using assms old by (subst find_unique_update_many_same) (simp_all add: getImportById_def)
  ultimately show ?thesis by (auto simp: getImportById_def)
qed

lemma mark_runs:
  assumes "getImportById i w \<noteq> None"
  shows "settles i (seqS (markFailed i e) (ret ()) w)" "settles i (seqS (markComplete i) (ret ()) w)"
proof -
  obtain old where old: "getImportById i w = Some old" using assms by blast
  show "settles i (seqS (markFailed i e) (ret ()) w)"
    using update_import_run [OF old, of "\<lambda>r. r\<lparr>im_status := IFailed, im_error := Some e\<rparr>"]
    by (auto simp: settles_def markFailed_def seqS_apply ret_def import_status_of_def)
  show "settles i (seqS (markComplete i) (ret ()) w)"
    using update_import_run [OF old, of "\<lambda>r. r\<lparr>im_status := IComplete, im_completed := Some (db_now w), im_error := None\<rparr>"]
    by (auto simp: settles_def markComplete_def seqS_apply bindS_apply now_apply ret_def import_status_of_def)
qed

lemma import_all_settles:
  assumes "getImportById i w \<noteq> None" "keeps (imports_are (t_imports w)) load"
  shows "settles i (import_all env u i load w)"
proof -
  let ?work = "bindS load (process_items env u i 0)"
  have k: "t_imports (snd (?work w)) = t_imports w"
    using keepsD [OF keeps_bind [OF assms(2) keeps_process_items], of w] by simp
  obtain r v where r: "?work w = (r, v)" by force
  have g: "getImportById i v \<noteq> None" using assms(1) k r by (simp add: getImportById_def)
  have run: "bindS load (\<lambda>items. seqS (process_items env u i 0 items) m) w = seqS ?work m w" for m :: "unit dbm"
    by (simp add: seqS_def bindS_assoc)
  show ?thesis
  proof (cases r)
    case (Inl e)
    then have "import_all env u i load w = seqS (markFailed i (error_message e)) (ret ()) v"
      unfolding import_all_def catchS_apply run by (simp add: seqS_apply r)
    then show ?thesis using mark_runs(1) [OF g] by simp
  next
    case (Inr n)
    have s: "settles i (seqS (markComplete i) (ret ()) v)" by (rule mark_runs(2) [OF g])
    then have "import_all env u i load w = seqS (markComplete i) (ret ()) v"
      unfolding import_all_def catchS_apply run seqS_apply [of ?work] r Inr
      by (auto simp: settles_def split: prod.splits sum.splits)
    then show ?thesis using s by simp
  qed
qed

lemma import_of_user:
  "getImportForUser u i w = Some row \<Longrightarrow> getImportById i w \<noteq> None"
  by (auto simp: getImportForUser_def getImportById_def find_unique_None dest: find_unique_Some)

lemma ensure_run: "getImportForUser u i w = Some row \<Longrightarrow> bindS (ensureImportForUser u i) f w = f row w"
  by (simp add: ensureImportForUser_def bindS_apply gets_def require_def ret_def)

fun job_target :: "import_job \<Rightarrow> string \<times> string" where
  "job_target (ProcessArchive u i) = (u, i)"
| "job_target (IngestSaved u i items) = (u, i)"
| "job_target (RetryImport u i) = (u, i)"

lemma job_settles:
  assumes "getImportForUser (fst (job_target job)) (snd (job_target job)) w \<noteq> None"
  shows "settles (snd (job_target job)) (run_job env job w)"
proof -
  obtain u i row where t: "job_target job = (u, i)" and row: "getImportForUser u i w = Some row"
    using assms by (cases "job_target job") auto
  note g = import_of_user [OF row]
  show ?thesis
  proof (cases job)
    case (ProcessArchive u' i')
    then have "u' = u" "i' = i" using t by simp_all
    then show ?thesis using mark_runs(1) [OF g] g unfolding t ProcessArchive
      by (auto simp: executeProcessCompletedArchive_def ensure_run [OF row]
          intro!: import_all_settles keeps_liftE_bind keeps_ret)
  next
    case (IngestSaved u' i' items)
    then have "u' = u" "i' = i" using t by simp_all
    then show ?thesis using g unfolding t IngestSaved
      by (simp add: executeIngestSavedCollections_def seqS_def ensure_run [OF row] import_all_settles keeps_ret)
  next
    case (RetryImport u' i')
    then have "u' = u" "i' = i" using t by simp_all
    then show ?thesis using mark_runs(1) [OF g] g unfolding t RetryImport
      by (auto simp: executeRetry_def seqS_def ensure_run [OF row] import_all_settles keeps_ret)
  qed
qed

text \<open>Every job comes to an end that its user can see: run on an import of the user, whatever Google answers, whatever
  the archive holds and whichever items fail, it does not throw and leaves the import complete or failed.\<close>

theorem import_job_settles:
  assumes "getImportForUser (fst (job_target job)) (snd (job_target job)) w \<noteq> None"
  shows "settles (snd (job_target job)) (run_job env job w)"
  using assms by (rule job_settles)

section \<open>The limit on the calls to Google\<close>

lemma process_adds:
  assumes "fst (processSavedCollectionItem env u i item n w) = Inr k"
  shows "k \<le> 1 \<and> (MAX_REMOTE_PLACE_RESOLVES \<le> n \<longrightarrow> k = 0)"
proof -
  have save: "k \<le> 1 \<and> (MAX_REMOTE_PLACE_RESOLVES \<le> n \<longrightarrow> k = 0)" if "save_item env u i parsed gid n w = (Inr k, w')" for parsed gid k w'
  proof (cases "getPlaceBySource SrcGoogle (normalizeGooglePlaceId (ps_decode (ie_parser env)) gid) w")
    case None
    then show ?thesis using that
      by (cases "MAX_REMOTE_PLACE_RESOLVES \<le> n")
        (auto simp: save_item_def Let_def bindS_apply gets_def seqS_apply ret_def split: prod.splits sum.splits)
  next
    case (Some p)
    then show ?thesis using that
      by (auto simp: save_item_def Let_def bindS_apply gets_def seqS_apply ret_def split: prod.splits sum.splits)
  qed
  have manual: "k = 0" if "seqS m (ret (0 :: nat)) v = (Inr k, v')" for m :: "unit dbm" and k v v'
    using that by (auto simp: seqS_apply ret_def split: prod.splits sum.splits)
  obtain w' where r: "processSavedCollectionItem env u i item n w = (Inr k, w')" using assms by (metis prod.collapse)
  show ?thesis
  proof (cases "truthy (pp_googlePlaceId (parseSavedCollectionItem (ie_parser env) item))")
    case True
    then show ?thesis using r save manual
      by (auto simp: processSavedCollectionItem_def Let_def catchS_apply dest!: manual split: prod.splits sum.splits)
  next
    case False
    then show ?thesis using r by (auto simp: processSavedCollectionItem_def Let_def dest!: manual)
  qed
qed

text \<open>One run adds at most twenty-five places that the database did not know.\<close>

theorem remote_resolves_bounded:
  assumes "fst (process_items env u i n items w) = Inr k" "n \<le> MAX_REMOTE_PLACE_RESOLVES"
  shows "k \<le> MAX_REMOTE_PLACE_RESOLVES"
  using assms
proof (induction items arbitrary: n w)
  case Nil
  then show ?case by (simp add: ret_def)
next
  case (Cons item items)
  obtain a v where a: "processSavedCollectionItem env u i item n w = (Inr a, v)"
    and rest: "fst (process_items env u i (n + a) items v) = Inr k"
    using Cons.prems(1) by (auto simp: bindS_apply split: prod.splits sum.splits)
  have "n + a \<le> MAX_REMOTE_PLACE_RESOLVES"
    using process_adds [of env u i item n w a] a Cons.prems(2) by (cases "MAX_REMOTE_PLACE_RESOLVES \<le> n") auto
  with rest show ?case by (rule Cons.IH)
qed

text \<open>A place that Google does not resolve, and the database does not hold.\<close>

definition unresolvable :: "import_env \<Rightarrow> db \<Rightarrow> saved_item \<Rightarrow> bool" where
  "unresolvable env w item \<longleftrightarrow> (case pp_googlePlaceId (parseSavedCollectionItem (ie_parser env) item) of
     None \<Rightarrow> False
   | Some gid \<Rightarrow> gid \<noteq> [] \<and> getPlaceBySource SrcGoogle (normalizeGooglePlaceId (ps_decode (ie_parser env)) gid) w = None
       \<and> getPlaceBySource SrcGoogle (normalizeGooglePlaceId (en_decode (ie_places env)) gid) w = None
       \<and> isl (ga_place (en_api (ie_places env)) (normalizeGooglePlaceId (en_decode (ie_places env))
             (normalizeGooglePlaceId (en_decode (ie_places env)) gid))))"

lemma upsert_unmapped:
  assumes "getImportById (ui_import x) w \<noteq> None" "ui_place x = None"
  shows "\<exists>w'. upsertItem x w = (Inr (), w') \<and> t_places w' = t_places w \<and> t_imports w' = t_imports w"
  using assms
  by (cases "find_unique (item_at (ui_import x) (ui_sourceKey x)) (t_import_items w)")
     (simp_all add: upsertItem_def bindS_apply gets_def modify_def fresh_id_apply now_apply)

lemma resolver_fails:
  assumes "google_on env" "getPlaceBySource SrcGoogle (normalizeGooglePlaceId (en_decode env) gid) w = None"
    "isl (ga_place (en_api env) (normalizeGooglePlaceId (en_decode env) (normalizeGooglePlaceId (en_decode env) gid)))"
  shows "\<exists>e. resolver env gid token w = (Inl e, w)"
proof -
  obtain e where e: "ga_place (en_api env) (normalizeGooglePlaceId (en_decode env) (normalizeGooglePlaceId (en_decode env) gid)) = Inl e"
    using assms(3) by (auto simp: isl_def)
  have "getPlaceDetails (en_api env) (en_decode env) (en_photo env) t (normalizeGooglePlaceId (en_decode env) gid) = Inl e" for t
    by (simp add: getPlaceDetails_def Let_def e)
  then show ?thesis
    using assms(1,2)
    by (cases "normalizeGooglePlaceId (en_decode env) gid = []")
       (simp_all add: resolver_def resolve_place_def Let_def bindS_apply throw_def gets_def catchS_apply liftE_def now_apply)
qed

lemma unresolvable_item:
  assumes "getImportById i w \<noteq> None" "google_on (ie_places env)" "unresolvable env w item" "n < MAX_REMOTE_PLACE_RESOLVES"
  shows "\<exists>w'. processSavedCollectionItem env u i item n w = (Inr 0, w') \<and> t_places w' = t_places w \<and> t_imports w' = t_imports w"
proof -
  let ?p = "parseSavedCollectionItem (ie_parser env) item"
  obtain gid where gid: "pp_googlePlaceId ?p = Some gid" "gid \<noteq> []"
    "getPlaceBySource SrcGoogle (normalizeGooglePlaceId (ps_decode (ie_parser env)) gid) w = None"
    "getPlaceBySource SrcGoogle (normalizeGooglePlaceId (en_decode (ie_places env)) gid) w = None"
    "isl (ga_place (en_api (ie_places env)) (normalizeGooglePlaceId (en_decode (ie_places env))
       (normalizeGooglePlaceId (en_decode (ie_places env)) gid)))"
    using assms(3) by (auto simp: unresolvable_def split: option.splits)
  obtain e where "resolver (ie_places env) gid None w = (Inl e, w)" using resolver_fails [OF assms(2) gid(4,5)] by blast
  then have "save_item env u i ?p gid n w = (Inl e, w)"
    using gid(3) assms(4) by (simp add: save_item_def Let_def bindS_apply gets_def)
  then have run: "processSavedCollectionItem env u i item n w
      = seqS (upsertItem (import_item i ?p None CHigh ItManualReview)) (ret 0) w"
    using gid(1,2) by (simp add: processSavedCollectionItem_def Let_def catchS_apply)
  obtain w' where "upsertItem (import_item i ?p None CHigh ItManualReview) w = (Inr (), w')"
      "t_places w' = t_places w" "t_imports w' = t_imports w"
    using upsert_unmapped [of "import_item i ?p None CHigh ItManualReview" w] assms(1) by (auto simp: import_item_def)
  then show ?thesis unfolding run by (simp add: seqS_apply ret_def)
qed

text \<open>The limit counts successes only: a run over any number of places that Google does not resolve asks Google for
  each of them, because the count it compares with the limit stays what it was.\<close>

theorem failed_resolves_uncounted:
  assumes "getImportById i w \<noteq> None" "google_on (ie_places env)" "list_all (unresolvable env w) items"
    "n < MAX_REMOTE_PLACE_RESOLVES"
  shows "fst (process_items env u i n items w) = Inr n"
  using assms(1,3)
proof (induction items arbitrary: w)
  case Nil
  then show ?case by (simp add: ret_def)
next
  case (Cons item items)
  obtain w' where r: "processSavedCollectionItem env u i item n w = (Inr 0, w')"
    and f: "t_places w' = t_places w" "t_imports w' = t_imports w"
    using unresolvable_item [OF Cons.prems(1) assms(2) _ assms(4)] Cons.prems(2) by (simp only: list.pred_inject) blast
  have "unresolvable env w' = unresolvable env w"
    using f by (simp add: unresolvable_def getPlaceBySource_def fun_eq_iff split: option.split)
  moreover have "getImportById i w' \<noteq> None" using Cons.prems(1) f by (simp add: getImportById_def)
  ultimately have "fst (process_items env u i n items w') = Inr n" using Cons by (intro Cons.IH) simp_all
  then show ?case by (simp add: bindS_apply r)
qed

section \<open>Every item is recorded\<close>

definition recorded :: "string \<Rightarrow> string \<Rightarrow> db \<Rightarrow> bool" where
  "recorded importId key w = list_ex (item_at importId key) (t_import_items w)"

lemma item_at_data [simp]: "item_at i k (item_data x r) = item_at i k r"
  by (simp add: item_at_def item_data_def)

lemma recorded_update: "list_ex (item_at i k) (update_many p (item_data x) rows) = list_ex (item_at i k) rows"
  by (induction rows) (simp_all add: update_many_def)

lemma keeps_recorded_stores:
  "keeps (recorded i k) (upsertPlace p)" "keeps (recorded i k) (upsertCity c)"
  "keeps (recorded i k) (savePlaceRepo u pid r)" "keeps (recorded i k) (upsertItem x)"
  unfolding upsertPlace_def upsertCity_def savePlaceRepo_def upsertItem_def recorded_def
  by (rule keepsI; auto simp: bindS_apply seqS_apply now_apply Let_def fresh_id_apply gets_def recorded_update split: option.splits)+

lemma keeps_recorded_resolver: "keeps (recorded i k) (resolver env gid token)"
  unfolding resolver_def resolve_place_def ensureStoredCityForCoordinates_def getCachedReverseGeocodeCity_def
    getCachedGoogleValue_def upsertCitySummary_def
  by (auto intro!: keeps_intro keeps_recorded_stores split: option.splits)

lemma keeps_recorded: "keeps (recorded i k) (processSavedCollectionItem env u i' item n)"
  unfolding processSavedCollectionItem_def save_item_def Let_def
  by (intro keeps_intro keeps_recorded_stores keeps_recorded_resolver)

lemma keeps_recorded_items: "keeps (recorded i k) (process_items env u i' n items)"
proof (induction items arbitrary: n)
  case (Cons item items)
  show ?case by (simp only: process_items.simps) (intro keeps_bind keeps_recorded Cons.IH)
qed (simp only: process_items.simps keeps_ret)

lemma upsert_records:
  assumes "upsertItem x w = (Inr a, w')" shows "recorded (ui_import x) (ui_sourceKey x) w'"
proof (cases "find_unique (item_at (ui_import x) (ui_sourceKey x)) (t_import_items w)")
  case None
  then show ?thesis using assms
    by (auto simp: upsertItem_def bindS_apply gets_def modify_def fresh_id_apply now_apply throw_def recorded_def
        item_at_def item_data_def split: if_splits)
next
  case (Some r)
  then have "list_ex (item_at (ui_import x) (ui_sourceKey x)) (t_import_items w)"
    using find_unique_Some by (fastforce simp: list_ex_iff)
  then show ?thesis using assms Some
    by (auto simp: upsertItem_def bindS_apply gets_def modify_def throw_def recorded_def recorded_update split: if_splits)
qed

lemma seq_ret: "seqS m (ret a) w = (Inr b, v) \<Longrightarrow> \<exists>c. m w = (Inr c, v)"
  by (auto simp: seqS_apply ret_def split: prod.splits sum.splits)

lemma item_recorded:
  assumes "processSavedCollectionItem env u i item n w = (Inr k, w')"
  shows "recorded i (pp_sourceKey (parseSavedCollectionItem (ie_parser env) item)) w'"
proof -
  let ?p = "parseSavedCollectionItem (ie_parser env) item" let ?key = "pp_sourceKey ?p"
  have manual: "recorded i ?key v'" if "seqS (upsertItem (import_item i ?p placeId c s)) (ret (a :: nat)) v = (Inr b, v')" for placeId c s a v b v'
    using seq_ret [OF that] upsert_records [of "import_item i ?p placeId c s" v _ v'] by (auto simp: import_item_def)
  have matched: "recorded i ?key v'"
    if "seqS (seqS (savePlaceRepo u pid r) (upsertItem (import_item i ?p placeId c s))) (ret (a :: nat)) v = (Inr b, v')"
    for pid r placeId c s a v b v'
    using seq_ret [OF that] upsert_records [of "import_item i ?p placeId c s" _ _ v']
    by (auto simp: seqS_apply import_item_def split: prod.splits sum.splits)
  have save: "recorded i ?key v'" if "save_item env u i ?p gid n v = (Inr b, v')" for gid v b v'
    using that manual matched
    by (auto simp: save_item_def Let_def bindS_apply gets_def split: option.splits if_splits prod.splits sum.splits)
  show ?thesis
    using assms save manual
    by (auto simp: processSavedCollectionItem_def Let_def catchS_apply split: if_splits prod.splits sum.splits)
qed

text \<open>C28: no item of a finished run is lost: each of them, found or not, resolved or not, has its row under its key.\<close>

theorem items_recorded:
  assumes "fst (process_items env u i n items w) = Inr k"
  shows "list_all (\<lambda>item. recorded i (pp_sourceKey (parseSavedCollectionItem (ie_parser env) item))
    (snd (process_items env u i n items w))) items"
  using assms
proof (induction items arbitrary: n w)
  case (Cons item items)
  obtain a v where a: "processSavedCollectionItem env u i item n w = (Inr a, v)"
    and rest: "fst (process_items env u i (n + a) items v) = Inr k"
    using Cons.prems by (auto simp: bindS_apply split: prod.splits sum.splits)
  have s: "process_items env u i n (item # items) w = process_items env u i (n + a) items v"
    by (simp add: bindS_apply a)
  have "recorded i (pp_sourceKey (parseSavedCollectionItem (ie_parser env) item)) (snd (process_items env u i (n + a) items v))"
    using item_recorded [OF a] by (rule keepsD [OF keeps_recorded_items])
  then show ?case unfolding s using Cons.IH [OF rest] by simp
qed simp

section \<open>Counts\<close>

lemma add_counts_sum:
  "ct_savedPlaces (add_counts c rows) = ct_savedPlaces c + sum_list (map snd (filter (\<lambda>r. fst r = (SavedPlace, ItMatched)) rows))"
  "ct_manualReview (add_counts c rows) = ct_manualReview c + sum_list (map snd (filter (\<lambda>r. snd (fst r) = ItManualReview) rows))"
  by (induction c rows rule: add_counts.induct) auto

lemma sum_groups:
  assumes "distinct ks" "set xs \<subseteq> set ks"
  shows "sum_list (map snd (filter (\<lambda>r. P (fst r)) (map (\<lambda>k. (k, length (filter (\<lambda>x. x = k) xs))) ks))) = length (filter P xs)"
proof -
  have "sum_list (map snd (filter (\<lambda>r. P (fst r)) (map (\<lambda>k. (k, length (filter (\<lambda>x. x = k) xs))) ks)))
      = (\<Sum>k\<leftarrow>filter P ks. count_list xs k)"
    by (simp add: filter_map comp_def count_list_eq_length_filter eq_commute)
  also have "\<dots> = (\<Sum>k\<in>set (filter P ks). count_list (filter P xs) k)"
    using assms(1) by (subst sum_list_distinct_conv_sum_set) (auto intro!: sum.cong simp: count_list_eq_length_filter
        intro: arg_cong [where f = length] filter_cong)
  also have "\<dots> = (\<Sum>k\<in>set (filter P xs). count_list (filter P xs) k)"
    using assms(2) by (intro sum.mono_neutral_right) (auto simp: count_list_0_iff)
  also have "\<dots> = length (filter P xs)" by (rule sum_count_set) simp_all
  finally show ?thesis .
qed

text \<open>The counts shown to the user are those of the rows: the groups of the query add up to the matched places and to
  the items left for a manual review.\<close>

theorem counts_exact:
  "(ct_savedPlaces (getCounts importId w), ct_manualReview (getCounts importId w))
   = (count_rows (\<lambda>x. ii_kind x = SavedPlace \<and> ii_status x = ItMatched) (items_of importId w),
      count_rows (\<lambda>x. ii_status x = ItManualReview) (items_of importId w))"
proof -
  let ?keys = "map (\<lambda>x. (ii_kind x, ii_status x)) (items_of importId w)"
  have "sum_list (map snd (filter (\<lambda>r. P (fst r)) (countItems importId w))) = length (filter P ?keys)" for P
    unfolding countItems_def Let_def by (rule sum_groups) simp_all
  from this [of "\<lambda>k. k = (SavedPlace, ItMatched)"] this [of "\<lambda>k. snd k = ItManualReview"] show ?thesis
    by (simp add: getCounts_def add_counts_sum count_rows_def filter_map comp_def)
qed

section \<open>What the interface lets through\<close>

text \<open>The OAuth callback, which anyone can call, fails any import whose id is given as its state: a complete import of
  whichever user ends as failed, with the error of the caller.\<close>

theorem callback_fails_any_import:
  assumes "getImportById i w = Some row" "i \<noteq> []" "e \<noteq> []"
  shows "map_option (\<lambda>r. (im_status r, im_error r))
      (getImportById i (snd (handleOAuthCallback env \<lparr>oc_code = c, oc_state = Some i, oc_error = Some e\<rparr> w)))
    = Some (IFailed, Some e)"
proof -
  obtain r w' where u: "markFailed i e w = (Inr r, w')"
      "getImportById i w' = Some (row\<lparr>im_status := IFailed, im_error := Some e, im_updated := db_now w\<rparr>)"
    using update_import_run [OF assms(1), of "\<lambda>r. r\<lparr>im_status := IFailed, im_error := Some e\<rparr>"]
    by (auto simp: markFailed_def)
  have "snd (handleOAuthCallback env \<lparr>oc_code = c, oc_state = Some i, oc_error = Some e\<rparr> w) = w'"
    using assms(2,3) by (simp add: handleOAuthCallback_def bindS_apply gets_def assms(1) require_def ret_def u(1))
  then show ?thesis by (simp add: u(2))
qed

text \<open>An item sent with its own key loses its Google place id on the way to the job: the item as sent names its place,
  the item the job gets does not.\<close>

theorem ingest_loses_place_id:
  assumes "js_trim g = g" "g \<noteq> []" "\<not> looksLikeGooglePlaceId env key" "\<not> looksLikeGooglePlaceId env title"
    "\<not> maps_address key" "\<not> maps_address title"
    "item = \<lparr>si_sourceKey = Some key, si_title = Some title, si_name = None, si_url = None, si_placeUrl = None,
       si_googlePlaceId = Some g, si_rawPayload = None\<rparr>"
  shows "pp_googlePlaceId (parseSavedCollectionItem env item) = Some g
    \<and> pp_googlePlaceId (parseSavedCollectionItem env (queued_item item)) = None"
proof
  have json: "item_json item = JObj [(''sourceKey'', JStr key), (''title'', JStr title), (''googlePlaceId'', JStr g)]"
    "item_json (queued_item item) = JObj [(''sourceKey'', JStr key), (''title'', JStr title)]"
    by (simp_all add: assms(7) item_json_def queued_item_def List.map_filter_simps)
  show "pp_googlePlaceId (parseSavedCollectionItem env item) = Some g"
    using assms(1,2) by (simp add: parseSavedCollectionItem_def Let_def firstNonEmptyString_def assms(7))
  have "findMapsUrl (item_json (queued_item item)) = None" "findGooglePlaceId env (item_json (queued_item item)) = None"
    unfolding json findMapsUrl_def findGooglePlaceId_def using assms by simp_all
  moreover have "js_trim [] = []" by (simp add: js_trim_def)
  ultimately show "pp_googlePlaceId (parseSavedCollectionItem env (queued_item item)) = None"
    by (simp add: parseSavedCollectionItem_def Let_def firstNonEmptyString_def) (simp add: queued_item_def assms(7))
qed

section \<open>Examples\<close>

definition sample_import_env :: import_env where
  "sample_import_env = \<lparr>ie_google = \<lparr>ge_cfg = \<lparr>gc_clientId = None, gc_webClientId = None, gc_clientSecret = None,
       gc_redirectUri = None\<rparr>, ge_call = (\<lambda>_. Inl (BadGateway ''down'')), ge_seal = (\<lambda>v. (v, v, v)), ge_open = (\<lambda>_ _ v. Inr v),
       ge_params = (\<lambda>_. [])\<rparr>,
     ie_archive = sample_archive_env, ie_parser = sample_parser_env, ie_places = sample_env False, ie_collate = (\<lambda>_ _. True)\<rparr>"

definition sample_import :: import_row where
  "sample_import = \<lparr>im_id = ''i'', im_user = ''u'', im_status = IComplete, im_scopes = JArr [], im_consent = OneTime, im_job = None,
     im_state = None, im_urls = None, im_access = None, im_refresh = None, im_expires = None, im_error = None, im_created = 0,
     im_updated = 0, im_completed = Some 0\<rparr>"

definition sample_import_db :: db where
  "sample_import_db = (empty_db 0)\<lparr>t_users := [sample_user ''u''], t_imports := [sample_import]\<rparr>"

definition sample_saved :: "string \<Rightarrow> saved_item" where
  "sample_saved g = \<lparr>si_sourceKey = Some ''k'', si_title = Some ''Bar'', si_name = None, si_url = None, si_placeUrl = None,
     si_googlePlaceId = Some g, si_rawPayload = None\<rparr>"

abbreviation sample_gid :: string where "sample_gid \<equiv> ''ChIJ0000000000000001''"

theorem import_job_settles_witness:
  "settles ''i'' (run_job sample_import_env (IngestSaved ''u'' ''i'' [sample_saved sample_gid]) sample_import_db)"
  using import_job_settles [of "IngestSaved ''u'' ''i'' [sample_saved sample_gid]" sample_import_db sample_import_env]
  by (simp add: getImportForUser_def sample_import_db_def sample_import_def find_unique_def)

lemma sample_found: "getImportById ''i'' sample_import_db \<noteq> None" "google_on (ie_places sample_import_env)"
  by (simp_all add: getImportById_def sample_import_db_def sample_import_def find_unique_def shouldUseGooglePlaces_def
      sample_import_env_def sample_env_def)

lemma sample_trim: "js_trim sample_gid = sample_gid" by (simp add: js_trim_def is_ws_def code_unit_def)

lemma sample_unresolvable: "unresolvable sample_import_env sample_import_db (sample_saved sample_gid)"
proof -
  have "normalizeGooglePlaceId Some sample_gid = sample_gid"
    by (simp add: normalizeGooglePlaceId_def sample_trim segment_after_def starts_with_def Let_def)
  moreover have "pp_googlePlaceId (parseSavedCollectionItem sample_parser_env (sample_saved sample_gid)) = Some sample_gid"
    by (simp add: parseSavedCollectionItem_def Let_def firstNonEmptyString_def sample_saved_def sample_trim)
  ultimately show ?thesis
    by (simp add: unresolvable_def sample_import_env_def sample_env_def silent_google_def sample_parser_env_def
        getPlaceBySource_def sample_import_db_def empty_db_def find_unique_def)
qed

lemma sample_run:
  assumes "n < MAX_REMOTE_PLACE_RESOLVES"
  shows "fst (process_items sample_import_env ''u'' ''i'' n [sample_saved sample_gid] sample_import_db) = Inr n"
proof -
  from unresolvable_item [OF sample_found sample_unresolvable assms, of "''u''"] show ?thesis
    by (auto simp: bindS_apply ret_def)
qed

theorem remote_resolves_bounded_witness:
  "fst (process_items sample_import_env ''u'' ''i'' 24 [sample_saved sample_gid] sample_import_db) = Inr 24
   \<and> (24 :: nat) \<le> MAX_REMOTE_PLACE_RESOLVES"
proof
  show run: "fst (process_items sample_import_env ''u'' ''i'' 24 [sample_saved sample_gid] sample_import_db) = Inr 24"
    by (rule sample_run) (simp add: MAX_REMOTE_PLACE_RESOLVES_def)
  show "(24 :: nat) \<le> MAX_REMOTE_PLACE_RESOLVES"
    by (rule remote_resolves_bounded [OF run]) (simp add: MAX_REMOTE_PLACE_RESOLVES_def)
qed

theorem failed_resolves_uncounted_witness:
  "fst (process_items sample_import_env ''u'' ''i'' 0 (replicate 30 (sample_saved sample_gid)) sample_import_db) = Inr 0"
proof (rule failed_resolves_uncounted [OF sample_found])
  show "list_all (unresolvable sample_import_env sample_import_db) (replicate 30 (sample_saved sample_gid))"
    using sample_unresolvable by (simp add: list_all_iff)
qed (simp add: MAX_REMOTE_PLACE_RESOLVES_def)

theorem items_recorded_witness:
  "recorded ''i'' ''k'' (snd (process_items sample_import_env ''u'' ''i'' 0 [sample_saved sample_gid] sample_import_db))"
proof -
  have "fst (process_items sample_import_env ''u'' ''i'' 0 [sample_saved sample_gid] sample_import_db) = Inr 0"
    by (rule sample_run) (simp add: MAX_REMOTE_PLACE_RESOLVES_def)
  from items_recorded [OF this] show ?thesis
    by (simp add: parseSavedCollectionItem_def Let_def sample_saved_def)
qed

theorem callback_fails_any_import_witness:
  "map_option (\<lambda>r. (im_status r, im_error r)) (getImportById ''i'' (snd (handleOAuthCallback sample_import_env
      \<lparr>oc_code = None, oc_state = Some ''i'', oc_error = Some ''no''\<rparr> sample_import_db))) = Some (IFailed, Some ''no'')
   \<and> im_status sample_import = IComplete"
proof
  show "map_option (\<lambda>r. (im_status r, im_error r)) (getImportById ''i'' (snd (handleOAuthCallback sample_import_env
      \<lparr>oc_code = None, oc_state = Some ''i'', oc_error = Some ''no''\<rparr> sample_import_db))) = Some (IFailed, Some ''no'')"
    by (rule callback_fails_any_import [where row = sample_import])
       (simp_all add: getImportById_def sample_import_db_def sample_import_def find_unique_def)
qed (simp add: sample_import_def)

theorem ingest_loses_place_id_witness:
  "pp_googlePlaceId (parseSavedCollectionItem sample_parser_env (sample_saved sample_gid)) = Some sample_gid
   \<and> pp_googlePlaceId (parseSavedCollectionItem sample_parser_env (queued_item (sample_saved sample_gid))) = None"
proof (rule ingest_loses_place_id)
  show "sample_saved sample_gid = \<lparr>si_sourceKey = Some ''k'', si_title = Some ''Bar'', si_name = None, si_url = None,
     si_placeUrl = None, si_googlePlaceId = Some sample_gid, si_rawPayload = None\<rparr>" by (simp add: sample_saved_def)
qed (simp_all add: sample_trim looksLikeGooglePlaceId_def decodeGoogleValue_def sample_parser_env_def starts_with_def
    maps_address_def js_lower_def lower_char_def code_unit_def)

end
