(* ===== verification/JobQueue.thy ===== *)
theory JobQueue
  imports FecaTables
begin

text \<open>
  The job queue (\<open>infrastructure/queue/queue.service.ts\<close>): handlers registered by name, jobs sent to pg-boss or run in the
  process with \<open>setImmediate\<close>.  pg-boss is what it answers: the id \<open>send\<close> returns (\<open>None\<close> when it drops the job as a
  duplicate of its singleton key) and the ids of its workers.  A handler is a function on the state \<open>'w\<close> of the rest of the
  program that may throw; it is one step here, so the interleaving of handlers that wait for the network is not part of this
  model.
\<close>

type_synonym ('p, 'w) job_handler = "'p \<Rightarrow> 'w \<Rightarrow> (string + unit) \<times> 'w"

datatype queue_log = JobFailed string string string | NoHandler string

record ('p, 'w) queue_state =
  qu_workers :: "(string \<times> ('p, 'w) job_handler) list"
  qu_boss :: bool
  qu_started :: bool
  qu_workerIds :: "string list"
  qu_tasks :: "(string \<times> string \<times> 'p) list"
  qu_sent :: "(string \<times> 'p) list"
  qu_log :: "queue_log list"

definition new_queue :: "('p, 'w) queue_state" where
  "new_queue = \<lparr>qu_workers = [], qu_boss = False, qu_started = False, qu_workerIds = [], qu_tasks = [], qu_sent = [], qu_log = []\<rparr>"

definition registerHandler :: "string \<Rightarrow> ('p, 'w) job_handler \<Rightarrow> ('p, 'w) queue_state \<Rightarrow> ('p, 'w) queue_state" where
  "registerHandler name handler q = q\<lparr>qu_workers := qu_workers q @ [(name, handler)]\<rparr>"

text \<open>\<open>answer\<close> is what pg-boss makes of the job and its singleton key, \<open>uuid\<close> a random id.\<close>

definition enqueue_job :: "(string \<Rightarrow> 'p \<Rightarrow> string option \<Rightarrow> string option) \<Rightarrow> string \<Rightarrow> string \<Rightarrow> 'p \<Rightarrow> string option
    \<Rightarrow> ('p, 'w) queue_state \<Rightarrow> string \<times> ('p, 'w) queue_state" where
  "enqueue_job answer uuid name payload singletonKey q =
     (if qu_boss q then (case answer name payload singletonKey of
          Some jobId \<Rightarrow> (jobId, q\<lparr>qu_sent := qu_sent q @ [(name, payload)]\<rparr>)
        | None \<Rightarrow> (uuid, q))
      else (uuid, q\<lparr>qu_tasks := qu_tasks q @ [(uuid, name, payload)]\<rparr>))"

definition usesPgBoss :: "('p, 'w) queue_state \<Rightarrow> bool" where "usesPgBoss q = qu_boss q"

record queue_status =
  qt_backend :: string
  qt_healthy :: bool
  qt_registeredWorkers :: nat
  qt_started :: bool

definition queue_operational_status :: "string \<Rightarrow> ('p, 'w) queue_state \<Rightarrow> queue_status" where
  "queue_operational_status backend q = \<lparr>qt_backend = backend,
     qt_healthy = (qu_started q \<and> (backend \<noteq> ''pg-boss'' \<or> qu_boss q)),
     qt_registeredWorkers = length (qu_workers q), qt_started = qu_started q\<rparr>"

text \<open>\<open>starts\<close>: \<open>boss.start()\<close> succeeds; \<open>work\<close> gives the id of the worker of a queue.\<close>

definition queue_init :: "string \<Rightarrow> bool \<Rightarrow> (string \<Rightarrow> string) \<Rightarrow> ('p, 'w) queue_state \<Rightarrow> (string + unit) \<times> ('p, 'w) queue_state" where
  "queue_init backend starts work q =
     (if backend \<noteq> ''pg-boss'' then (Inr (), q\<lparr>qu_started := True\<rparr>)
      else if \<not> starts then (Inl ''pg-boss'', q\<lparr>qu_boss := True\<rparr>)
      else (Inr (), q\<lparr>qu_boss := True, qu_workerIds := qu_workerIds q @ map (\<lambda>w. work (fst w)) (qu_workers q), qu_started := True\<rparr>))"

definition queue_destroy :: "('p, 'w) queue_state \<Rightarrow> ('p, 'w) queue_state" where
  "queue_destroy q = (if \<not> qu_boss q then q else q\<lparr>qu_boss := False\<rparr>)"

text \<open>A job in the process: the first handler of its name; a throw is logged with the job's id.\<close>

definition runInProcess :: "(string \<times> ('p, 'w) job_handler) list \<Rightarrow> string \<times> string \<times> 'p \<Rightarrow> 'w \<Rightarrow> queue_log list \<times> 'w" where
  "runInProcess workers task w = (case task of (jobId, name, payload) \<Rightarrow>
     (case map_of workers name of
        None \<Rightarrow> ([NoHandler name], w)
      | Some handler \<Rightarrow> (case handler payload w of
            (Inl e, w') \<Rightarrow> ([JobFailed name jobId e], w') | (Inr _, w') \<Rightarrow> ([], w'))))"

text \<open>One turn of the event loop runs the oldest task.\<close>

definition queue_turn :: "('p, 'w) queue_state \<times> 'w \<Rightarrow> ('p, 'w) queue_state \<times> 'w" where
  "queue_turn s = (case s of (q, w) \<Rightarrow> (case qu_tasks q of
     [] \<Rightarrow> (q, w)
   | task # rest \<Rightarrow> (let (lines, w') = runInProcess (qu_workers q) task w in (q\<lparr>qu_tasks := rest, qu_log := qu_log q @ lines\<rparr>, w'))))"

text \<open>A batch pg-boss hands to a worker: the first throw ends it.\<close>

fun work_batch :: "('p, 'w) job_handler \<Rightarrow> 'p list \<Rightarrow> 'w \<Rightarrow> (string + unit) \<times> 'w" where
  "work_batch handler [] w = (Inr (), w)"
| "work_batch handler (p # ps) w = (case handler p w of (Inl e, w') \<Rightarrow> (Inl e, w') | (Inr _, w') \<Rightarrow> work_batch handler ps w')"

section \<open>What becomes of the jobs\<close>

text \<open>What every job does when the handlers run one after the other.\<close>

definition task_effect :: "(string \<times> ('p, 'w) job_handler) list \<Rightarrow> string \<times> string \<times> 'p \<Rightarrow> 'w \<Rightarrow> 'w" where
  "task_effect workers task w = snd (runInProcess workers task w)"

lemma queue_turn_Cons:
  assumes "qu_tasks q = task # rest"
  shows "queue_turn (q, w) = (q\<lparr>qu_tasks := rest, qu_log := qu_log q @ fst (runInProcess (qu_workers q) task w)\<rparr>, task_effect (qu_workers q) task w)"
  using assms by (simp add: queue_turn_def task_effect_def split: prod.splits)

text \<open>As many turns as there are tasks run every task once, in the order they were queued, whichever of them fail.\<close>

lemma drain_queue:
  "qu_tasks q = tasks \<Longrightarrow> \<exists>lines. (queue_turn ^^ length tasks) (q, w) =
     (q\<lparr>qu_tasks := [], qu_log := qu_log q @ lines\<rparr>, fold (task_effect (qu_workers q)) tasks w)
     \<and> length lines \<le> length tasks"
proof (induction tasks arbitrary: q w)
  case Nil
  then show ?case by (intro exI [of _ "[]"]) simp
next
  case (Cons task rest)
  let ?l = "fst (runInProcess (qu_workers q) task w)"
  let ?q = "q\<lparr>qu_tasks := rest, qu_log := qu_log q @ ?l\<rparr>"
  have "length ?l \<le> 1" by (simp add: runInProcess_def split: prod.splits option.splits sum.splits)
  moreover obtain lines where "(queue_turn ^^ length rest) (?q, task_effect (qu_workers q) task w) =
      (?q\<lparr>qu_tasks := [], qu_log := qu_log ?q @ lines\<rparr>, fold (task_effect (qu_workers ?q)) rest (task_effect (qu_workers q) task w))"
    "length lines \<le> length rest"
    using Cons.IH [of ?q "task_effect (qu_workers q) task w"] by auto
  ultimately show ?case
    using queue_turn_Cons [OF Cons.prems, of w]
    by (intro exI [of _ "?l @ lines"]) (simp add: funpow_swap1 del: funpow.simps add: funpow_Suc_right)
qed

definition enqueue_all :: "(string \<Rightarrow> 'p \<Rightarrow> string option \<Rightarrow> string option) \<Rightarrow> (string \<times> string \<times> 'p) list
    \<Rightarrow> ('p, 'w) queue_state \<Rightarrow> ('p, 'w) queue_state" where
  "enqueue_all answer jobs q = fold (\<lambda>(uuid, name, p) r. snd (enqueue_job answer uuid name p None r)) jobs q"

lemma enqueue_all_in_process: "\<not> qu_boss q \<Longrightarrow> enqueue_all answer jobs q = q\<lparr>qu_tasks := qu_tasks q @ jobs\<rparr>"
  by (induction jobs arbitrary: q) (auto simp: enqueue_all_def enqueue_job_def)

text \<open>With the in-process backend every job handed to the queue runs exactly once and in order, after the jobs queued before
  it: after as many turns of the event loop as there are jobs the queue is empty and the program is in the state the handlers
  make of it one after the other, a job that throws or has no handler leaving one line in the log and not stopping the rest.\<close>

theorem jobs_run_once_in_order:
  assumes "\<not> qu_boss q"
  shows "\<exists>lines. (queue_turn ^^ (length (qu_tasks q) + length jobs)) (enqueue_all answer jobs q, w) =
      (q\<lparr>qu_tasks := [], qu_log := qu_log q @ lines\<rparr>, fold (task_effect (qu_workers q)) (qu_tasks q @ jobs) w)
      \<and> length lines \<le> length (qu_tasks q) + length jobs"
  using drain_queue [of "q\<lparr>qu_tasks := qu_tasks q @ jobs\<rparr>" "qu_tasks q @ jobs" w] enqueue_all_in_process [OF assms]
  by simp

definition counter_queue :: "(nat, nat list) queue_state" where
  "counter_queue = registerHandler ''a'' (\<lambda>n w. (Inr (), w @ [n])) (registerHandler ''b'' (\<lambda>n w. (Inl ''x'', w)) new_queue)"

theorem jobs_run_once_in_order_witness:
  "snd ((queue_turn ^^ 3) (enqueue_all (\<lambda>_ _ _. None) [(''1'', ''a'', 1), (''2'', ''b'', 2), (''3'', ''a'', 3)] counter_queue, [])) = [1, 3]"
proof -
  let ?jobs = "[(''1'', ''a'', 1), (''2'', ''b'', 2), (''3'', ''a'', 3)]"
  have "\<not> qu_boss counter_queue" by (simp add: counter_queue_def registerHandler_def new_queue_def)
  moreover have "length (qu_tasks counter_queue) + length ?jobs = 3"
    by (simp add: counter_queue_def registerHandler_def new_queue_def)
  ultimately have "\<exists>lines. (queue_turn ^^ 3) (enqueue_all (\<lambda>_ _ _. None) ?jobs counter_queue, []) =
      (counter_queue\<lparr>qu_tasks := [], qu_log := qu_log counter_queue @ lines\<rparr>,
        fold (task_effect (qu_workers counter_queue)) (qu_tasks counter_queue @ ?jobs) [])"
    using jobs_run_once_in_order [of counter_queue ?jobs "\<lambda>_ _ _. None" "[]"] by metis
  then have "snd ((queue_turn ^^ 3) (enqueue_all (\<lambda>_ _ _. None) ?jobs counter_queue, [])) =
      fold (task_effect (qu_workers counter_queue)) (qu_tasks counter_queue @ ?jobs) []" by (metis snd_conv)
  then show ?thesis
    by (simp add: counter_queue_def registerHandler_def new_queue_def task_effect_def runInProcess_def)
qed

text \<open>A job that pg-boss drops as a duplicate still gets an id, of no job.\<close>

lemma dropped_job_gets_id:
  "qu_boss q \<Longrightarrow> answer name payload key = None \<Longrightarrow> enqueue_job answer uuid name payload key q = (uuid, q)"
  by (simp add: enqueue_job_def)

end
