(* ===== verification/ImportQueue.thy ===== *)
theory ImportQueue
  imports ImportService JobQueue WebAuth
begin

text \<open>
  The imports over HTTP and their worker: \<open>google-data-portability.controller.ts\<close>, the OAuth callback's controller, and
  \<open>google-data-import.worker.ts\<close>, which registers the three handlers with the queue.  The queue's job holds the payload of the
  source's types, and its name says which handler runs.
\<close>

section \<open>Routes\<close>

datatype import_route =
    PostImport import_consent
  | GetImport string
  | PostRetry string
  | PostSyncState string
  | PostProcessArchive string
  | PostSavedCollections string "saved_item list"
  | DeleteImport string

datatype import_reply =
    ImportCreated "import_view \<times> string option"
  | ImportShown "import_view \<times> import_counts \<times> nat"
  | ImportSynced import_view
  | ImportQueued enqueued
  | ImportDeleted

definition import_handler :: "import_env \<Rightarrow> import_route \<Rightarrow> string \<Rightarrow> import_reply dbm" where
  "import_handler env route u = (case route of
     PostImport consent \<Rightarrow> bindS (createImport env u consent) (\<lambda>x. ret (ImportCreated x))
   | GetImport i \<Rightarrow> bindS (getImport env u i) (\<lambda>x. ret (ImportShown x))
   | PostRetry i \<Rightarrow> bindS (enqueueRetry env u i) (\<lambda>x. ret (ImportQueued x))
   | PostSyncState i \<Rightarrow> bindS (syncArchiveState env u i) (\<lambda>x. ret (ImportSynced x))
   | PostProcessArchive i \<Rightarrow> bindS (enqueueProcessCompletedArchive env u i) (\<lambda>x. ret (ImportQueued x))
   | PostSavedCollections i items \<Rightarrow> bindS (enqueueIngestSavedCollections env u i items) (\<lambda>x. ret (ImportQueued x))
   | DeleteImport i \<Rightarrow> seqS (deleteImport u i) (ret ImportDeleted))"

definition imports_controller :: "import_env \<Rightarrow> auth_env \<Rightarrow> header \<Rightarrow> import_route \<Rightarrow> import_reply dbm" where
  "imports_controller env ax header route =
     guarded (ae_verifyJwt ax) header (\<lambda>user. import_handler env route (snd user))"

definition oauth_controller :: "import_env \<Rightarrow> oauth_callback \<Rightarrow> (import_view \<times> json option) dbm" where
  "oauth_controller env query = handleOAuthCallback env query"

section \<open>The worker\<close>

fun job_name :: "import_job \<Rightarrow> string" where
  "job_name (ProcessArchive u i) = ''feca.google-import.process-archive''"
| "job_name (IngestSaved u i items) = ''feca.google-import.ingest-saved''"
| "job_name (RetryImport u i) = ''feca.google-import.retry''"

definition thrown_text :: "('a + unit) \<times> 'w \<Rightarrow> ('a \<Rightarrow> string) \<Rightarrow> (string + unit) \<times> 'w" where
  "thrown_text r f = (map_sum f id (fst r), snd r)"

text \<open>The payload of a job of one handler is read as that handler's type.\<close>

definition process_handler :: "import_env \<Rightarrow> (import_job, db) job_handler" where
  "process_handler env p w = thrown_text (case job_target p of (u, i) \<Rightarrow> executeProcessCompletedArchive env u i w) error_message"

definition ingest_handler :: "import_env \<Rightarrow> (import_job, db) job_handler" where
  "ingest_handler env p w = thrown_text (case p of IngestSaved u i items \<Rightarrow> executeIngestSavedCollections env u i items w
     | _ \<Rightarrow> executeIngestSavedCollections env (fst (job_target p)) (snd (job_target p)) [] w) error_message"

definition retry_handler :: "import_env \<Rightarrow> (import_job, db) job_handler" where
  "retry_handler env p w = thrown_text (case job_target p of (u, i) \<Rightarrow> executeRetry env u i w) error_message"

definition import_worker :: "import_env \<Rightarrow> (import_job, db) queue_state \<Rightarrow> (import_job, db) queue_state" where
  "import_worker env q = registerHandler ''feca.google-import.retry'' (retry_handler env)
     (registerHandler ''feca.google-import.ingest-saved'' (ingest_handler env)
       (registerHandler ''feca.google-import.process-archive'' (process_handler env) q))"

text \<open>A request that queues a job hands it to the queue service.\<close>

definition queue_reply :: "(string \<Rightarrow> import_job \<Rightarrow> string option \<Rightarrow> string option) \<Rightarrow> string \<Rightarrow> import_reply
    \<Rightarrow> (import_job, db) queue_state \<Rightarrow> (import_job, db) queue_state" where
  "queue_reply answer uuid reply q = (case reply of
     ImportQueued x \<Rightarrow> snd (enqueue_job answer uuid (job_name (fst x)) (fst x) None q)
   | _ \<Rightarrow> q)"

section \<open>From the request to the end of the import\<close>

lemma worker_runs_job:
  "runInProcess (qu_workers (import_worker env new_queue)) (uuid, job_name job, job) w =
     (case run_job env job w of
        (Inl e, w') \<Rightarrow> ([JobFailed (job_name job) uuid (error_message e)], w') | (Inr _, w') \<Rightarrow> ([], w'))"
proof -
  obtain r v where "run_job env job w = (r, v)" by force
  then show ?thesis
    by (cases job; cases r) (simp_all add: runInProcess_def import_worker_def registerHandler_def new_queue_def process_handler_def
      ingest_handler_def retry_handler_def thrown_text_def)
qed

lemma getImport_owned: "getImport env u i w = (Inr x, w') \<Longrightarrow> getImportForUser u i w' \<noteq> None"
  by (cases "getImportForUser u i w")
    (auto simp: getImport_def ensureImportForUser_def bindS_apply gets_def require_def throw_def ret_def)

lemma enqueue_owned:
  assumes "enqueue env u i job w = (Inr (j, x), w')" shows "j = job" "getImportForUser u i w' \<noteq> None"
proof -
  obtain r v where m: "markProcessing i w = (r, v)" by force
  obtain g w1 where g: "getImport env u i v = (g, w1)" by force
  have "j = job \<and> g = Inr x \<and> w1 = w'"
    using assms m g by (cases r; cases g) (simp_all add: enqueue_def seqS_apply bindS_apply ret_def)
  then show "j = job" "getImportForUser u i w' \<noteq> None" using getImport_owned g by simp_all
qed

lemma queued_import_owned:
  assumes "import_handler env route u w = (Inr (ImportQueued x), w')"
  shows "fst (job_target (fst x)) = u \<and> getImportForUser u (snd (job_target (fst x))) w' \<noteq> None"
proof -
  have "\<exists>i job w1. (job = RetryImport u i \<or> job = ProcessArchive u i \<or> (\<exists>items. job = IngestSaved u i items))
      \<and> enqueue env u i job w1 = (Inr x, w')"
    using assms
    by (cases route)
      (auto simp: import_handler_def enqueueRetry_def enqueueProcessCompletedArchive_def enqueueIngestSavedCollections_def
        bindS_apply seqS_apply gets_def ret_def throw_def split: prod.splits sum.splits if_splits)
  then obtain i job w1 where job: "job = RetryImport u i \<or> job = ProcessArchive u i \<or> (\<exists>items. job = IngestSaved u i items)"
    and e: "enqueue env u i job w1 = (Inr x, w')" by blast
  obtain j y where x: "x = (j, y)" by (cases x)
  note e = enqueue_owned [OF e [unfolded x]]
  have "job_target job = (u, i)" using job by auto
  then show ?thesis using e by (simp add: x)
qed



end
