(* ===== verification/PlaceContext.thy ===== *)
theory PlaceContext
  imports SocialFeed AuthSessions
begin

text \<open>
  What the network says of a place (\<open>social-place-context.repository.ts\<close>): the chips and the boost of the friends who
  visited or saved it, the viewer's own state for it, its social context, and the profile of a place
  (\<open>getPlaceProfile\<close> of \<open>places-profile.service.ts\<close> with the mappings of \<open>places-nearby.helpers.ts\<close>).
\<close>

section \<open>Signals of the network\<close>

record friend_row =
  fw_username :: string
  fw_avatar :: "string option"
  fw_snippet :: string

record network_signal =
  ns_user :: string
  ns_score :: int
  ns_chip :: string
  ns_row :: friend_row

record network_signals =
  nw_chips :: "(string \<times> string list) list"
  nw_boosts :: "(string \<times> int) list"
  nw_rows :: "(string \<times> friend_row list) list"

definition real_ids :: "string list \<Rightarrow> string list" where
  "real_ids ids = dedupe (filter (\<lambda>i. js_trim i \<noteq> []) ids)"

definition google_rows :: "string list \<Rightarrow> db \<Rightarrow> place_row list" where
  "google_rows ids w = find_many (\<lambda>p. pl_source p = SrcGoogle \<and> pl_google_id p \<noteq> None
     \<and> the (pl_google_id p) \<in> set ids) (t_places w)"

definition signal_score :: "int \<Rightarrow> visit_row \<Rightarrow> int" where
  "signal_score t v = scoreNearbyVisitSignal t (vi_rating v) (vi_would_return v) (Some (vi_visited v))"

definition username_of :: "string \<Rightarrow> db \<Rightarrow> string" where
  "username_of u w = (case user_by_id u w of None \<Rightarrow> [] | Some r \<Rightarrow> u_username r)"

definition friend_row_of :: "string \<Rightarrow> string \<Rightarrow> db \<Rightarrow> friend_row" where
  "friend_row_of u snippet w = \<lparr>fw_username = username_of u w, fw_avatar = Option.bind (user_by_id u w) u_avatar,
     fw_snippet = snippet\<rparr>"

text \<open>The best visit of each user, in the order in which the users first appear.\<close>

definition best_visits :: "int \<Rightarrow> visit_row list \<Rightarrow> (string \<times> visit_row) list" where
  "best_visits t visits = foldl (map_upsert (\<lambda>prev v. if signal_score t prev < signal_score t v then v else prev)) []
     (map (\<lambda>v. (vi_user v, v)) visits)"

definition visit_signal :: "db \<Rightarrow> string \<times> visit_row \<Rightarrow> network_signal" where
  "visit_signal w x =
     (let t = db_now w; v = snd x; u = username_of (vi_user v) w in
      \<lparr>ns_user = vi_user v, ns_score = signal_score t v,
       ns_chip = formatNearbyVisitChip t u (vi_rating v) (vi_would_return v) (Some (vi_visited v)),
       ns_row = friend_row_of (vi_user v)
         (formatFriendSnippetFromVisit t (vi_rating v) (vi_would_return v) (Some (vi_visited v))) w\<rparr>)"

definition visit_boost :: "visit_row \<Rightarrow> int" where
  "visit_boost v = (if vi_would_return v = Some WYes then 26
     else if vi_would_return v = Some WMaybe \<and> 4 \<le> vi_rating v then 16
     else if 4 \<le> vi_rating v then 11 else 7)"

definition save_signal :: "db \<Rightarrow> save_row \<Rightarrow> network_signal" where
  "save_signal w s =
     (let snippet = formatFriendSnippetFromSave (db_now w) (Some (sv_created s)) in
      \<lparr>ns_user = sv_user s, ns_score = 26, ns_chip = formatNearbySocialChipLine (username_of (sv_user s) w) snippet,
       ns_row = friend_row_of (sv_user s) snippet w\<rparr>)"

definition place_signals :: "db \<Rightarrow> visit_row list \<Rightarrow> save_row list \<Rightarrow> string \<Rightarrow> network_signal list \<times> int" where
  "place_signals w visits saves pid =
     (let best = best_visits (db_now w) (filter (\<lambda>v. vi_place v = pid) visits);
          extra = filter (\<lambda>s. sv_place s = pid \<and> sv_user s \<notin> set (map fst best)) saves
      in (map (visit_signal w) best @ map (save_signal w) extra,
          min 56 (sum_list (map (\<lambda>x. visit_boost (snd x)) best) + 14 * int (length extra))))"

definition top_signals :: "network_signal list \<Rightarrow> network_signal list" where
  "top_signals signals = take 2 (first_by_key ns_user [] (sort_by (\<lambda>a b. ns_score b \<le> ns_score a) signals))"

definition no_signals :: "string list \<Rightarrow> network_signals" where
  "no_signals ids = \<lparr>nw_chips = map (\<lambda>i. (i, [])) ids, nw_boosts = map (\<lambda>i. (i, 0)) ids, nw_rows = map (\<lambda>i. (i, [])) ids\<rparr>"

definition add_place :: "db \<Rightarrow> visit_row list \<Rightarrow> save_row list \<Rightarrow> network_signals \<Rightarrow> place_row \<Rightarrow> network_signals" where
  "add_place w visits saves r p =
     (let gid = the (pl_google_id p); (signals, boost) = place_signals w visits saves (pl_id p); top = top_signals signals in
      if gid = [] then r
      else \<lparr>nw_chips = put_entry gid (map ns_chip top) (nw_chips r), nw_boosts = put_entry gid boost (nw_boosts r),
            nw_rows = put_entry gid (map ns_row top) (nw_rows r)\<rparr>)"

definition friend_visits :: "string \<Rightarrow> string list \<Rightarrow> db \<Rightarrow> visit_row list" where
  "friend_visits viewerId pids w = filter (visible_to viewerId w) (take 600 (sort_by later_visit
     (find_many (\<lambda>v. vi_place v \<in> set pids \<and> vi_user v \<in> set (listFollowingIds viewerId w)) (t_visits w))))"

definition friend_saves :: "string \<Rightarrow> string list \<Rightarrow> db \<Rightarrow> save_row list" where
  "friend_saves viewerId pids w =
     filter (\<lambda>s. canViewContent (activityVisibility (normalizeSettings (settings_of (sv_user s) w)))
        (sv_user s \<in> set (listFollowingIds viewerId w)))
     (take 400 (sort_by (\<lambda>a b. sv_created b \<le> sv_created a)
       (find_many (\<lambda>s. sv_place s \<in> set pids \<and> sv_user s \<in> set (listFollowingIds viewerId w)) (t_saves w))))"

definition network_signals_of :: "string \<Rightarrow> string list \<Rightarrow> db \<Rightarrow> network_signals" where
  "network_signals_of viewerId ids w =
     (let rows = google_rows ids w; pids = map pl_id rows in
      if listFollowingIds viewerId w = [] \<or> rows = [] then no_signals ids
      else foldl (add_place w (friend_visits viewerId pids w) (friend_saves viewerId pids w)) (no_signals ids) rows)"

definition getNearbyNetworkSignalsForGooglePlaces :: "string \<Rightarrow> string list \<Rightarrow> network_signals dbm" where
  "getNearbyNetworkSignalsForGooglePlaces viewerId googlePlaceIds =
     (let ids = real_ids googlePlaceIds in
      if ids = [] then ret (no_signals [])
      else seqS (ensureUserSettings viewerId) (gets (network_signals_of viewerId ids)))"

definition listNearbyNetworkChipsByGooglePlaceIds ::
  "string \<Rightarrow> string list \<Rightarrow> ((string \<times> string list) list \<times> (string \<times> friend_row list) list) dbm" where
  "listNearbyNetworkChipsByGooglePlaceIds viewerId googlePlaceIds =
     bindS (getNearbyNetworkSignalsForGooglePlaces viewerId googlePlaceIds) (\<lambda>s. ret (nw_chips s, nw_rows s))"

section \<open>The viewer's own visits\<close>

definition own_latest :: "string \<Rightarrow> string list \<Rightarrow> db \<Rightarrow> string \<Rightarrow> visit_row option" where
  "own_latest viewerId pids w pid = find (\<lambda>v. vi_place v = pid) (take 800 (sort_by later_visit
     (find_many (\<lambda>v. vi_user v = viewerId \<and> vi_place v \<in> set pids) (t_visits w))))"

definition radar_of :: "db \<Rightarrow> visit_row option \<Rightarrow> radar_state" where
  "radar_of w latest = (case latest of None \<Rightarrow> Neutral
     | Some v \<Rightarrow> viewerRadarStateFromVisit (vi_visited v) (vi_would_return v) (js_trim (vi_note v) \<noteq> []) (db_now w))"

definition getViewerRadarVisitOverlay :: "string \<Rightarrow> string list \<Rightarrow> db \<Rightarrow> (string \<times> radar_state) list" where
  "getViewerRadarVisitOverlay viewerId googlePlaceIds w =
     (let ids = real_ids googlePlaceIds; rows = google_rows ids w; pids = map pl_id rows in
      foldl (\<lambda>m p. if the (pl_google_id p) = [] then m
          else put_entry (the (pl_google_id p)) (radar_of w (own_latest viewerId pids w (pl_id p))) m)
        (map (\<lambda>i. (i, Neutral)) ids) rows)"

section \<open>The context of a place\<close>

record diary_appearance =
  da_diaryId :: string
  da_name :: string
  da_visibility :: guide_visibility

record social_context =
  sx_bestMoments :: "string list"
  sx_communityTags :: "string list"
  sx_diaryAppearances :: "diary_appearance list"
  sx_followersVisited :: "(string \<times> string) list"
  sx_userPhotoUrls :: "string list"

text \<open>\<open>orderBy: [{ diary: { publishedAt: "desc" } }, { createdAt: "desc" }]\<close>, null first.\<close>

definition appearance_order :: "diary_place_row \<times> diary_row \<Rightarrow> diary_place_row \<times> diary_row \<Rightarrow> bool" where
  "appearance_order a b = (case (di_published (snd a), di_published (snd b)) of
     (None, Some _) \<Rightarrow> True
   | (Some _, None) \<Rightarrow> False
   | (Some x, Some y) \<Rightarrow> if x \<noteq> y then y < x else dp_created (fst b) \<le> dp_created (fst a)
   | (None, None) \<Rightarrow> dp_created (fst b) \<le> dp_created (fst a))"

definition diary_of :: "db \<Rightarrow> diary_place_row \<Rightarrow> (diary_place_row \<times> diary_row) list" where
  "diary_of w r = (case find_unique (\<lambda>d. di_id d = dp_diary r) (t_diaries w) of None \<Rightarrow> [] | Some d \<Rightarrow> [(r, d)])"

definition diary_appearances :: "string \<Rightarrow> string \<Rightarrow> db \<Rightarrow> diary_appearance list" where
  "diary_appearances viewerId placeId w =
     map (\<lambda>x. \<lparr>da_diaryId = dp_diary (fst x), da_name = di_name (snd x), da_visibility = di_visibility (snd x)\<rparr>)
       (take 20 (sort_by appearance_order
         (filter (\<lambda>x. di_created_by (snd x) = viewerId \<or> di_visibility (snd x) = DPublic)
           (concat (map (diary_of w) (find_many (\<lambda>r. dp_place r = placeId) (t_diary_places w)))))))"

definition context_visits :: "string \<Rightarrow> string \<Rightarrow> db \<Rightarrow> visit_row list" where
  "context_visits viewerId placeId w =
     filter (visible_to viewerId w) (take 100 (sort_by later_visit (find_many (\<lambda>v. vi_place v = placeId) (t_visits w))))"

definition community_tags :: "visit_row list \<Rightarrow> string list" where
  "community_tags visits = map fst (take 8 (sort_by (\<lambda>a b. snd b \<le> (snd a :: nat))
     (foldl (map_upsert (+)) [] (map (\<lambda>x. (x, 1)) (concat (map vi_tags visits))))))"

definition social_context_of :: "string \<Rightarrow> string \<Rightarrow> db \<Rightarrow> social_context" where
  "social_context_of viewerId placeId w =
     (let visits = context_visits viewerId placeId w; followed = set (listFollowingIds viewerId w) in
      \<lparr>sx_bestMoments = buildBestMoments visits, sx_communityTags = community_tags visits,
       sx_diaryAppearances = diary_appearances viewerId placeId w,
       sx_followersVisited = take 6 (map (\<lambda>v. (vi_user v, owner_name (visit_include w v)))
         (first_by_key vi_user [] (filter (\<lambda>v. vi_user v \<in> followed) visits))),
       sx_userPhotoUrls = take 12 (filter (\<lambda>u. u \<noteq> []) (concat (map vi_photos visits)))\<rparr>)"

definition getPlaceSocialContext :: "string \<Rightarrow> string \<Rightarrow> social_context dbm" where
  "getPlaceSocialContext viewerId placeId =
     seqS (ensureUserSettings viewerId) (gets (social_context_of viewerId placeId))"

section \<open>The profile of a place\<close>

text \<open>\<open>mapStoredPlaceToNearby\<close>.\<close>

definition mapStoredPlaceToNearby :: "place_row \<Rightarrow> place_card" where
  "mapStoredPlaceToNearby p = \<lparr>pc_googlePlaceId = default_to (pl_google_id p) (pl_id p), pc_name = pl_name p,
     pc_address = pl_address p, pc_lat = default_to (pl_lat p) 0, pc_lng = default_to (pl_lng p) 0,
     pc_mapsUri = pl_maps_uri p, pc_rating = pl_rating p, pc_ratingCount = pl_rating_count p,
     pc_types = pl_categories p, pc_primaryType = head_opt (pl_categories p), pc_photoUrl = pl_photo p,
     pc_openNow = None, pc_lines = (if pl_hours p = [] then None else Some (pl_hours p))\<rparr>"

definition mapStoredPlaceToDetail :: "place_row \<Rightarrow> string \<Rightarrow> place_detail_view" where
  "mapStoredPlaceToDetail p googlePlaceId = \<lparr>dt_card = (mapStoredPlaceToNearby p)\<lparr>pc_googlePlaceId := googlePlaceId\<rparr>,
     dt_hours = Some (pl_hours p), dt_photos = (if truthy (pl_photo p) then [the (pl_photo p)] else [])\<rparr>"

text \<open>\<open>Intl.RelativeTimeFormat("es", { numeric: "auto" })\<close>.\<close>

datatype time_unit = UMinute | UHour | UDay | UMonth | UYear

definition unit_name :: "time_unit \<Rightarrow> bool \<Rightarrow> string" where
  "unit_name u one = (case u of UMinute \<Rightarrow> if one then ''minuto'' else ''minutos'' | UHour \<Rightarrow> if one then ''hora'' else ''horas''
     | UDay \<Rightarrow> if one then ''dia'' else ''dias'' | UMonth \<Rightarrow> if one then ''mes'' else ''meses''
     | UYear \<Rightarrow> if one then ''ano'' else ''anos'')"

definition special_time :: "time_unit \<Rightarrow> int \<Rightarrow> string option" where
  "special_time u n = map_of
     (case u of UMinute \<Rightarrow> [(0, ''este minuto'')] | UHour \<Rightarrow> [(0, ''esta hora'')]
      | UDay \<Rightarrow> [(0, ''hoy''), (1, ''manana''), (2, ''pasado manana''), (- 1, ''ayer''), (- 2, ''anteayer'')]
      | UMonth \<Rightarrow> [(0, ''este mes''), (1, ''el proximo mes''), (- 1, ''el mes pasado'')]
      | UYear \<Rightarrow> [(0, ''este ano''), (1, ''el proximo ano''), (- 1, ''el ano pasado'')]) n"

definition relative_text :: "int \<Rightarrow> time_unit \<Rightarrow> string" where
  "relative_text n u = (case special_time u n of Some s \<Rightarrow> s
     | None \<Rightarrow> (if n < 0 then ''hace '' else ''dentro de '') @ int_text \<bar>n\<bar> @ '' '' @ unit_name u (\<bar>n\<bar> = 1))"

definition round_div :: "int \<Rightarrow> int \<Rightarrow> int" where
  "round_div a b = js_round (of_int a / of_int b)"

definition formatRelativeTimeEs :: "int \<Rightarrow> int \<Rightarrow> string" where
  "formatRelativeTimeEs t date =
     (let diffMinutes = round_div (date - t) 60000; diffHours = round_div diffMinutes 60;
          diffDays = round_div diffHours 24; diffMonths = round_div diffDays 30; diffYears = round_div diffMonths 12
      in if \<bar>diffMinutes\<bar> < 60 then relative_text diffMinutes UMinute
         else if \<bar>diffHours\<bar> < 24 then relative_text diffHours UHour
         else if \<bar>diffDays\<bar> < 30 then relative_text diffDays UDay
         else if \<bar>diffMonths\<bar> < 12 then relative_text diffMonths UMonth
         else relative_text diffYears UYear)"

record feca_review =
  fv_id :: string
  fv_userDisplayName :: string
  fv_rating :: int
  fv_note :: string
  fv_visitedAt :: string
  fv_relativeTime :: string

definition mapVisitToFecaReview :: "int \<Rightarrow> visit_row \<times> user_row option \<Rightarrow> feca_review" where
  "mapVisitToFecaReview t x = (let v = fst x in \<lparr>fv_id = vi_id v,
     fv_userDisplayName = (case snd x of None \<Rightarrow> [] | Some u \<Rightarrow> if u_display_name u \<noteq> [] then u_display_name u else u_username u),
     fv_rating = vi_rating v, fv_note = vi_note v, fv_visitedAt = iso_date (vi_visited v),
     fv_relativeTime = formatRelativeTimeEs t (vi_visited v)\<rparr>)"

record place_profile =
  pf_detail :: place_detail_view
  pf_reviews :: "feca_review list"
  pf_social :: "social_context option"
  pf_hidden :: "bool option"

definition merge_stored :: "place_detail_view \<Rightarrow> place_detail_view \<Rightarrow> place_detail_view" where
  "merge_stored d s = \<lparr>dt_card = (dt_card d)\<lparr>pc_rating := or_else (pc_rating (dt_card d)) (pc_rating (dt_card s)),
       pc_ratingCount := or_else (pc_ratingCount (dt_card d)) (pc_ratingCount (dt_card s)),
       pc_photoUrl := or_else (pc_photoUrl (dt_card d)) (pc_photoUrl (dt_card s))\<rparr>,
     dt_hours = or_else (dt_hours d) (dt_hours s),
     dt_photos = (if dt_photos d \<noteq> [] then dt_photos d else dt_photos s)\<rparr>"

definition getCachedPlaceDetailView :: "places_env \<Rightarrow> string \<Rightarrow> place_detail_view dbm" where
  "getCachedPlaceDetailView env placeId = getCachedGoogleValue False (\<lambda>_. False) (ch_detail (en_cache env) placeId)
     (liftE (getPlaceDetailView (en_api env) (en_decode env) (en_photo env) placeId))"

definition stored_profile :: "string \<Rightarrow> string \<Rightarrow> bool \<Rightarrow> feca_review list \<Rightarrow> place_row option \<Rightarrow> place_profile dbm" where
  "stored_profile viewerId gid isAdmin reviews localPlace =
     bindS (require (NotFound ''Place not found'') localPlace) (\<lambda>p.
     bindS (getPlaceSocialContext viewerId (pl_id p)) (\<lambda>social.
       ret \<lparr>pf_detail = mapStoredPlaceToDetail p gid, pf_reviews = reviews, pf_social = Some social,
            pf_hidden = (if isAdmin then Some (pl_hidden p) else None)\<rparr>))"

definition google_place_profile :: "places_env \<Rightarrow> string \<Rightarrow> string \<Rightarrow> bool \<Rightarrow> feca_review list \<Rightarrow> place_row option \<Rightarrow> place_profile dbm" where
  "google_place_profile env viewerId gid isAdmin reviews localPlace =
     bindS (getCachedPlaceDetailView env gid) (\<lambda>detail.
     case localPlace of
       None \<Rightarrow> ret \<lparr>pf_detail = detail, pf_reviews = reviews, pf_social = None,
                    pf_hidden = (if isAdmin then Some False else None)\<rparr>
     | Some p \<Rightarrow> bindS (getPlaceSocialContext viewerId (pl_id p)) (\<lambda>social.
         ret \<lparr>pf_detail = merge_stored detail (mapStoredPlaceToDetail p gid), pf_reviews = reviews,
              pf_social = Some social, pf_hidden = (if isAdmin then Some (pl_hidden p) else None)\<rparr>))"

definition local_place :: "string \<Rightarrow> string \<Rightarrow> db \<Rightarrow> place_row option" where
  "local_place gid raw w = or_else (getPlaceBySource SrcGoogle gid w) (place_by_id raw w)"

definition getPlaceProfile :: "places_env \<Rightarrow> auth_config \<Rightarrow> string \<Rightarrow> string \<Rightarrow> string \<Rightarrow> place_profile dbm" where
  "getPlaceProfile env cf viewerId viewerEmail googlePlaceId =
     (let gid = normalizeGooglePlaceId (en_decode env) googlePlaceId; isAdmin = isFecaAdminEmail cf viewerEmail in
      bindS (gets (local_place gid googlePlaceId)) (\<lambda>localPlace.
      seqS (throw_if (map_option pl_hidden localPlace = Some True \<and> \<not> isAdmin) (NotFound ''Place not found''))
      (bindS (gets (\<lambda>w. case localPlace of None \<Rightarrow> [] | Some p \<Rightarrow>
           map (mapVisitToFecaReview (db_now w)) (listFecaReviews (pl_id p) 20 w))) (\<lambda>reviews.
       if google_on env
       then catchS (google_place_profile env viewerId gid isAdmin reviews localPlace)
              (\<lambda>_. stored_profile viewerId gid isAdmin reviews localPlace)
       else stored_profile viewerId gid isAdmin reviews localPlace))))"

section \<open>Who is named\<close>

definition nameable :: "string \<Rightarrow> db \<Rightarrow> string \<Rightarrow> bool" where
  "nameable viewerId w u \<longleftrightarrow> u \<in> set (listFollowingIds viewerId w)
     \<and> isVisitVisibleToViewer viewerId u (normalizeSettings (settings_of u w)) True"

definition names :: "string \<Rightarrow> db \<Rightarrow> friend_row \<Rightarrow> bool" where
  "names viewerId w r \<longleftrightarrow> list_ex (\<lambda>u. nameable viewerId w u \<and> fw_username r = username_of u w) (listFollowingIds viewerId w)"

lemma namesI: "nameable viewerId w u \<Longrightarrow> fw_username r = username_of u w \<Longrightarrow> names viewerId w r"
  by (auto simp: names_def list_ex_iff nameable_def)

lemma first_by_key_set: "set (first_by_key k seen xs) \<subseteq> set xs"
  by (induction k seen xs rule: first_by_key.induct) auto

lemma top_signals_set: "set (top_signals xs) \<subseteq> set xs"
  unfolding top_signals_def using first_by_key_set [of ns_user "[]"] by (fastforce dest: in_set_takeD)

lemma friend_visit_nameable: "v \<in> set (friend_visits viewerId pids w) \<Longrightarrow> nameable viewerId w (vi_user v)"
  by (auto simp: friend_visits_def nameable_def visible_to_def dest!: in_set_takeD)

lemma friend_save_nameable: "s \<in> set (friend_saves viewerId pids w) \<Longrightarrow> nameable viewerId w (sv_user s)"
  by (auto simp: friend_saves_def nameable_def isVisitVisibleToViewer_def dest!: in_set_takeD)

lemma map_upsert_values:
  assumes "\<And>a b. f a b = a \<or> f a b = b"
  shows "snd ` set (map_upsert f m x) \<subseteq> insert (snd x) (snd ` set m)"
proof
  fix v assume "v \<in> snd ` set (map_upsert f m x)"
  then obtain j where "(j, v) \<in> set (map_upsert f m x)" by auto
  from put_entry_mem [OF this] consider "(j, v) \<in> set m" | "map_of m (fst x) = None" "v = snd x"
    | a where "(fst x, a) \<in> set m" "v = f a (snd x)"
    by (cases "map_of m (fst x)") (auto dest: map_of_SomeD)
  then show "v \<in> insert (snd x) (snd ` set m)"
  proof cases
    case 3
    then show ?thesis using assms [of a "snd x"] by (auto intro: rev_image_eqI)
  qed (auto intro: rev_image_eqI)
qed

lemma map_upserts_values:
  assumes "\<And>a b. f a b = a \<or> f a b = b"
  shows "snd ` set (foldl (map_upsert f) m xs) \<subseteq> snd ` set m \<union> snd ` set xs"
proof (induction xs arbitrary: m)
  case (Cons x xs)
  have "snd ` set (map_upsert f m x) \<subseteq> insert (snd x) (snd ` set m)" by (rule map_upsert_values [OF assms])
  with Cons [of "map_upsert f m x"] have "snd ` set (foldl (map_upsert f) (map_upsert f m x) xs)
      \<subseteq> insert (snd x) (snd ` set m) \<union> snd ` set xs" by (meson Un_mono order_refl order_trans)
  then show ?case unfolding foldl_Cons list.set image_insert by blast
qed simp

lemma best_visits_set:
  assumes "(u, v) \<in> set (best_visits t visits)" shows "v \<in> set visits"
proof -
  have "v \<in> snd ` set (best_visits t visits)" using assms by (rule rev_image_eqI) simp
  also have "\<dots> \<subseteq> snd ` set (map (\<lambda>v. (vi_user v, v)) visits)"
    using map_upserts_values [where f = "\<lambda>prev v. if signal_score t prev < signal_score t v then v else prev"
        and m = "[]" and xs = "map (\<lambda>v. (vi_user v, v)) visits"]
    unfolding best_visits_def by simp
  finally show ?thesis by auto
qed

lemma signals_name:
  assumes "x \<in> set (fst (place_signals w (friend_visits viewerId pids w) (friend_saves viewerId pids w) pid))"
  shows "names viewerId w (ns_row x)"
proof -
  from assms consider (visit) u v where "(u, v) \<in> set (best_visits (db_now w) (filter (\<lambda>v. vi_place v = pid) (friend_visits viewerId pids w)))"
      "x = visit_signal w (u, v)"
    | (save) s where "s \<in> set (friend_saves viewerId pids w)" "x = save_signal w s"
    unfolding place_signals_def Let_def by auto
  then show ?thesis
  proof cases
    case visit
    then have "nameable viewerId w (vi_user v)" by (auto dest!: best_visits_set friend_visit_nameable)
    then show ?thesis by (rule namesI) (simp add: visit visit_signal_def Let_def friend_row_of_def)
  next
    case save
    from friend_save_nameable [OF this(1)] show ?thesis
      by (rule namesI) (simp add: save save_signal_def Let_def friend_row_of_def)
  qed
qed

lemma added_rows:
  assumes "(g, rows) \<in> set (nw_rows (add_place w (friend_visits viewerId pids w) (friend_saves viewerId pids w) r p))"
    "\<And>g rows. (g, rows) \<in> set (nw_rows r) \<Longrightarrow> list_all (names viewerId w) rows"
  shows "list_all (names viewerId w) rows"
proof -
  obtain signals boost where s: "place_signals w (friend_visits viewerId pids w) (friend_saves viewerId pids w) (pl_id p) = (signals, boost)"
    by force
  then have "list_all (names viewerId w) (map ns_row (top_signals signals))"
    using signals_name [of _ w viewerId pids "pl_id p"] top_signals_set [of signals] by (auto simp: list_all_iff)
  then show ?thesis using assms unfolding add_place_def s Let_def
    by (auto split: if_splits dest!: put_entry_mem)
qed

text \<open>Every friend named on a place is a user the viewer follows whose activity the viewer may see.\<close>

theorem network_rows_of_friends:
  assumes "map_of (nw_rows (network_signals_of viewerId ids w)) g = Some rows"
  shows "list_all (names viewerId w) rows"
proof -
  let ?add = "add_place w (friend_visits viewerId (map pl_id (google_rows ids w)) w) (friend_saves viewerId (map pl_id (google_rows ids w)) w)"
  have all: "list_all (names viewerId w) rows" if "(g, rows) \<in> set (nw_rows (foldl ?add r ps))"
    "\<And>g rows. (g, rows) \<in> set (nw_rows r) \<Longrightarrow> list_all (names viewerId w) rows" for g rows r ps
    using that
  proof (induction ps arbitrary: r)
    case (Cons p ps)
    show ?case by (rule Cons.IH [OF Cons.prems(1) [unfolded foldl_Cons] added_rows [OF _ Cons.prems(2)]])
  qed simp
  have "list_all (names viewerId w) rows" if "(g, rows) \<in> set (nw_rows (no_signals ids))" for g rows
    using that by (auto simp: no_signals_def)
  note none = this
  have m: "(g, rows) \<in> set (nw_rows (network_signals_of viewerId ids w))" by (rule map_of_SomeD [OF assms])
  show ?thesis
  proof (cases "listFollowingIds viewerId w = [] \<or> google_rows ids w = []")
    case True
    then show ?thesis using m none unfolding network_signals_of_def Let_def by simp
  next
    case False
    have "(g, rows) \<in> set (nw_rows (foldl ?add (no_signals ids) (google_rows ids w)))"
      using m unfolding network_signals_of_def Let_def if_not_P [OF False] .
    then show ?thesis by (rule all) (rule none)
  qed
qed

definition friend_db :: db where
  "friend_db = (empty_db 0)\<lparr>t_users := [sample_user ''u'', sample_user ''f''],
     t_settings := [default_settings_row ''u'', default_settings_row ''f''],
     t_follows := [\<lparr>fo_follower = ''u'', fo_followed = ''f'', fo_created = 0\<rparr>],
     t_places := [google_place_row ''p'' ''g''], t_visits := [sample_visit_row ''v'' ''f'' ''p'']\<rparr>"

theorem network_rows_of_friends_witness:
  "list_all (names ''u'' friend_db) [\<lparr>fw_username = ''f'', fw_avatar = None, fw_snippet = ''volveria a ir''\<rparr>]"
  by (rule network_rows_of_friends [of "''u''" "[''g'']" friend_db "''g''"]) code_simp

section \<open>The reviews of the profile\<close>

lemma stored_profile_reviews:
  "fst (stored_profile viewerId gid isAdmin reviews localPlace w) = Inr a \<Longrightarrow> pf_reviews a = reviews"
  by (cases localPlace) (auto simp: stored_profile_def bindS_def split: prod.splits sum.splits)

lemma google_place_profile_reviews:
  "fst (google_place_profile env viewerId gid isAdmin reviews localPlace w) = Inr a \<Longrightarrow> pf_reviews a = reviews"
  by (cases localPlace) (auto simp: google_place_profile_def bindS_def split: prod.splits sum.splits)

lemma profile_reviews:
  assumes "fst (getPlaceProfile env cf viewerId email raw w) = Inr a"
    "local_place (normalizeGooglePlaceId (en_decode env) raw) raw w = Some p"
  shows "pf_reviews a = map (mapVisitToFecaReview (db_now w)) (listFecaReviews (pl_id p) 20 w)"
proof -
  let ?gid = "normalizeGooglePlaceId (en_decode env) raw" and ?admin = "isFecaAdminEmail cf email"
  let ?rs = "map (mapVisitToFecaReview (db_now w)) (listFecaReviews (pl_id p) 20 w)"
  have n: "\<not> (pl_hidden p \<and> \<not> ?admin)"
    using assms by (auto simp: getPlaceProfile_def Let_def seqS_apply throw_if_def split: if_splits)
  have run: "getPlaceProfile env cf viewerId email raw w =
      (if google_on env then catchS (google_place_profile env viewerId ?gid ?admin ?rs (Some p))
           (\<lambda>_. stored_profile viewerId ?gid ?admin ?rs (Some p)) w
       else stored_profile viewerId ?gid ?admin ?rs (Some p) w)"
    using assms(2) n by (cases "pl_hidden p") (simp_all add: getPlaceProfile_def Let_def seqS_apply throw_if_def)
  show ?thesis
  proof (cases "google_on env")
    case True
    obtain r s where g: "google_place_profile env viewerId ?gid ?admin ?rs (Some p) w = (r, s)" by force
    show ?thesis
    proof (cases r)
      case (Inl e)
      then show ?thesis using assms(1) g True unfolding run by (simp add: catchS_apply stored_profile_reviews)
    next
      case (Inr b)
      then show ?thesis using assms(1) g True google_place_profile_reviews [of env viewerId ?gid ?admin ?rs "Some p" w b]
        unfolding run by (simp add: catchS_apply)
    qed
  next
    case False
    then show ?thesis using assms(1) unfolding run by (simp add: stored_profile_reviews)
  qed
qed

definition review_of :: "visit_row \<Rightarrow> feca_review \<Rightarrow> bool" where
  "review_of v r \<longleftrightarrow> fv_id r = vi_id v \<and> fv_note r = vi_note v \<and> fv_rating r = vi_rating v"

text \<open>The profile of a place shows the reviews of its visits to every viewer, whatever the settings of their authors:
  as long as the place has at most twenty visits each of them is shown, those of a private activity too.\<close>

theorem profile_shows_private_reviews:
  assumes "fst (getPlaceProfile env cf viewerId email raw w) = Inr a"
    "local_place (normalizeGooglePlaceId (en_decode env) raw) raw w = Some p"
    "v \<in> set (t_visits w)" "vi_place v = pl_id p" "count_rows (\<lambda>x. vi_place x = pl_id p) (t_visits w) \<le> 20"
  shows "list_ex (review_of v) (pf_reviews a)"
proof -
  have "length (find_many (\<lambda>x. vi_place x = pl_id p) (t_visits w)) \<le> 20"
    using assms(5) by (simp add: count_rows_def find_many_def)
  then have "(v, user_by_id (vi_user v) w) \<in> set (listFecaReviews (pl_id p) 20 w)"
    using assms(3,4) by (auto simp: listFecaReviews_def length_sort_by)
  then have "mapVisitToFecaReview (db_now w) (v, user_by_id (vi_user v) w) \<in> set (pf_reviews a)"
    unfolding profile_reviews [OF assms(1,2)] set_map by (rule imageI)
  then show ?thesis
    unfolding list_ex_iff by (rule bexI [rotated]) (simp add: review_of_def mapVisitToFecaReview_def Let_def)
qed

definition private_db :: db where
  "private_db = friend_db\<lparr>t_follows := [],
     t_settings := [default_settings_row ''u'', (default_settings_row ''f'')\<lparr>st_activity := CPrivate\<rparr>]\<rparr>"

definition no_admins :: auth_config where
  "no_admins = \<lparr>cf_audience = None, cf_access_minutes = 15, cf_refresh_days = 30, cf_admins = [], cf_local_only = True\<rparr>"

lemma private_run:
  "isl (fst (getPlaceProfile (sample_env True) no_admins ''u'' ''u@x'' ''g'' private_db)) = False"
proof -
  have e: "ensureUserSettings ''u'' private_db = (Inr (), private_db)"
    by (simp add: ensureUserSettings_def settings_of_def private_db_def friend_db_def default_settings_row_def)
  have l: "local_place (normalizeGooglePlaceId (en_decode (sample_env True)) ''g'') ''g'' private_db
      = Some (google_place_row ''p'' ''g'')" by code_simp
  have g: "\<not> google_on (sample_env True)" by code_simp
  show ?thesis
    unfolding getPlaceProfile_def Let_def bindS_gets l
    using g by (simp add: seqS_apply stored_profile_def bindS_apply getPlaceSocialContext_def e google_place_row_def blank_place_def)
qed

theorem profile_shows_private_reviews_witness:
  "\<not> visible_to ''u'' private_db (sample_visit_row ''v'' ''f'' ''p'')
   \<and> map_sum id (\<lambda>a. list_ex (review_of (sample_visit_row ''v'' ''f'' ''p'')) (pf_reviews a))
       (fst (getPlaceProfile (sample_env True) no_admins ''u'' ''u@x'' ''g'' private_db)) = Inr True"
proof
  show "\<not> visible_to ''u'' private_db (sample_visit_row ''v'' ''f'' ''p'')" by code_simp
  obtain a where a: "fst (getPlaceProfile (sample_env True) no_admins ''u'' ''u@x'' ''g'' private_db) = Inr a"
    using private_run by (cases "fst (getPlaceProfile (sample_env True) no_admins ''u'' ''u@x'' ''g'' private_db)") auto
  have "list_ex (review_of (sample_visit_row ''v'' ''f'' ''p'')) (pf_reviews a)"
    by (rule profile_shows_private_reviews [OF a, of "google_place_row ''p'' ''g''"]) code_simp+
  then show "map_sum id (\<lambda>a. list_ex (review_of (sample_visit_row ''v'' ''f'' ''p'')) (pf_reviews a))
       (fst (getPlaceProfile (sample_env True) no_admins ''u'' ''u@x'' ''g'' private_db)) = Inr True"
    using a by simp
qed

end
