(* ===== verification/NearbyPool.thy ===== *)
theory NearbyPool
  imports PlaceContext Curation
begin

text \<open>
  The pool of candidates around a user (\<open>places-nearby-pool.service.ts\<close>, \<open>places-nearby.helpers.ts\<close>): the places Google
  finds, merged by id with Feca's own and with the editors' picks, in a shuffle that changes every hour.  Maps are
  lists of entries in insertion order.
\<close>

section \<open>Merging candidates\<close>

text \<open>\<open>{...existing, ...incoming}\<close> with the fields that keep the existing value.\<close>

definition mergeGooglePlaceSummaries :: "place_card \<Rightarrow> place_card \<Rightarrow> place_card" where
  "mergeGooglePlaceSummaries existing incoming = incoming\<lparr>
     pc_photoUrl := or_else (pc_photoUrl existing) (pc_photoUrl incoming),
     pc_rating := or_else (pc_rating existing) (pc_rating incoming),
     pc_ratingCount := or_else (pc_ratingCount existing) (pc_ratingCount incoming),
     pc_openNow := or_else (pc_openNow existing) (pc_openNow incoming),
     pc_lines := or_else (pc_lines existing) (pc_lines incoming),
     pc_types := (if pc_types existing \<noteq> [] then pc_types existing else pc_types incoming),
     pc_primaryType := or_else (pc_primaryType existing) (pc_primaryType incoming)\<rparr>"

type_synonym candidates = "(string \<times> place_card) list"

definition upsertNearbyCandidate :: "candidates \<Rightarrow> place_card \<Rightarrow> candidates" where
  "upsertNearbyCandidate byId p = (if pc_googlePlaceId p = [] then byId
     else map_upsert mergeGooglePlaceSummaries byId (pc_googlePlaceId p, p))"

definition mergeGooglePlacesById :: "place_card list \<Rightarrow> place_card list" where
  "mergeGooglePlacesById places = first_by_key pc_googlePlaceId [] (filter (\<lambda>p. pc_googlePlaceId p \<noteq> []) places)"

definition nearbyPoolRankSlotKey :: "google_type option \<Rightarrow> string" where
  "nearbyPoolRankSlotKey typ = (if typ = None then ''dist'' else ''typed'')"

definition shuffleSeed :: "string \<Rightarrow> rat \<times> rat \<Rightarrow> google_type option \<Rightarrow> int \<Rightarrow> string \<Rightarrow> string" where
  "shuffleSeed userId origin typ t tag = userId @ '':'' @ utcHourBucketId t @ '':'' @ fixed_text 3 (fst origin) @ '':''
     @ fixed_text 3 (snd origin) @ '':'' @ (if typ = None then ''mix'' else type_text typ) @ '':'' @ tag"

fun stable_shuffle_loop :: "(string \<Rightarrow> 32 word) \<Rightarrow> string \<Rightarrow> nat \<Rightarrow> place_card list \<Rightarrow> place_card list" where
  "stable_shuffle_loop sha seed 0 arr = arr"
| "stable_shuffle_loop sha seed (Suc i) arr =
     (let h = sha (seed @ '':'' @ pc_googlePlaceId (arr ! Suc i) @ '':'' @ nat_text (Suc i));
          j = unat h mod (Suc i + 1)
      in stable_shuffle_loop sha seed i (swap_items (Suc i) j arr))"

definition stableShuffleGooglePlaces :: "(string \<Rightarrow> 32 word) \<Rightarrow> place_card list \<Rightarrow> string \<Rightarrow> place_card list" where
  "stableShuffleGooglePlaces sha items seed =
     (if length items \<le> 1 then items else stable_shuffle_loop sha seed (length items - 1) items)"

section \<open>The editors' rows\<close>

definition injected :: "curated \<Rightarrow> bool" where
  "injected x \<longleftrightarrow> cu_pick (fst x) \<or> 0 < cu_boost (fst x) \<or> cu_badge (fst x)"

definition curated_card :: "(string \<Rightarrow> string option) \<Rightarrow> place_row \<Rightarrow> place_card option" where
  "curated_card decode p = map_option (\<lambda>g. (mapStoredPlaceToNearby p)\<lparr>pc_googlePlaceId := g\<rparr>) (curated_google_id decode p)"

definition start_candidates :: "(string \<Rightarrow> string option) \<Rightarrow> place_card list \<Rightarrow> candidates" where
  "start_candidates decode places =
     foldl (\<lambda>m p. let g = normalizeGooglePlaceId decode (pc_googlePlaceId p) in put_entry g (p\<lparr>pc_googlePlaceId := g\<rparr>) m) []
       (filter (\<lambda>p. pc_googlePlaceId p \<noteq> []) places)"

definition mergeCityCurationsIntoNearbyCandidates ::
  "(string \<Rightarrow> string option) \<Rightarrow> place_card list \<Rightarrow> curated list \<Rightarrow> place_card list" where
  "mergeCityCurationsIntoNearbyCandidates decode places rows =
     map snd (foldl upsertNearbyCandidate (start_candidates decode places)
       (List.map_filter (\<lambda>x. curated_card decode (snd x)) (filter injected rows)))"

definition admin_order :: "curated \<Rightarrow> curated \<Rightarrow> bool" where "admin_order = curation_order"

fun force_places :: "nat \<Rightarrow> place_card list \<Rightarrow> place_card list \<Rightarrow> place_card list" where
  "force_places limit forced [] = forced"
| "force_places limit forced (p # ps) =
     (if limit \<le> length forced then forced
      else if pc_googlePlaceId p \<in> set (map pc_googlePlaceId forced) then force_places limit forced ps
      else force_places limit (forced @ [p]) ps)"

definition prependAdminCuratedPlaces ::
  "(string \<Rightarrow> string option) \<Rightarrow> place_card list \<Rightarrow> curated list \<Rightarrow> nat \<Rightarrow> place_card list" where
  "prependAdminCuratedPlaces decode ranked rows limit =
     (let prioritized = sort_by admin_order (filter injected rows);
          forced = force_places limit [] (List.map_filter (\<lambda>x. curated_card decode (snd x)) prioritized)
      in take limit (forced @ filter (\<lambda>p. pc_googlePlaceId p \<notin> set (map pc_googlePlaceId forced)) ranked))"

section \<open>The pool\<close>

record nearby_search_query =
  nq_origin :: "rat \<times> rat"
  nq_query :: "string option"
  nq_type :: "google_type option"
  nq_variant :: "nearby_variant option"
  nq_limit :: nat
  nq_intent :: "explore_intent option"
  nq_rotate :: "int option"
  nq_city :: "string option"
  nq_debug :: bool

definition buildNearbyQueryCacheKey :: "nearby_search_query \<Rightarrow> bool \<Rightarrow> string" where
  "buildNearbyQueryCacheKey input includePhotos =
     ''places:nearby:q:v4:'' @ js_lower (js_trim (default_to (nq_query input) [])) @ '':'' @ type_text (nq_type input) @ '':''
     @ fixed_text 3 (fst (nq_origin input)) @ '':'' @ fixed_text 3 (snd (nq_origin input)) @ '':'' @ nat_text (nq_limit input)
     @ '':'' @ (if includePhotos then ''photos'' else ''nophotos'')"

definition profile_text :: "pool_profile \<Rightarrow> string" where
  "profile_text p = (case p of PoolDefault \<Rightarrow> ''default'' | CafeFocus \<Rightarrow> ''cafe_focus'' | DiningFocus \<Rightarrow> ''dining_focus''
     | BarFocus \<Rightarrow> ''bar_focus'')"

definition buildNearbyPoolCacheKey :: "nearby_search_query \<Rightarrow> pool_profile \<Rightarrow> bool \<Rightarrow> bool \<Rightarrow> string" where
  "buildNearbyPoolCacheKey input poolProfile includeEnterpriseFields includePhotos =
     ''places:nearby:pool:v10:'' @ (if nq_type input = None then profile_text poolProfile else type_text (nq_type input)) @ '':''
     @ fixed_text 3 (fst (nq_origin input)) @ '':'' @ fixed_text 3 (snd (nq_origin input)) @ '':''
     @ nearbyPoolRankSlotKey (nq_type input) @ '':'' @ (if includeEnterpriseFields then ''enterprise'' else ''pro'') @ '':''
     @ (if includePhotos then ''photos'' else ''nophotos'')"

text \<open>The environment of the nearby search: the clock and the random functions of the server, the geometry, the
  configuration and what is cached.  \<open>ne_search\<close> is Google's nearby search, \<open>ne_text\<close> its text search.\<close>

record nearby_env =
  ne_places :: places_env
  ne_metres :: distance
  ne_bounds :: "rat \<times> rat \<Rightarrow> rat \<Rightarrow> geo_bounds"
  ne_radius :: rat
  ne_sha :: "string \<Rightarrow> 32 word"
  ne_collate :: "string \<Rightarrow> string \<Rightarrow> bool"
  ne_hour :: int
  ne_day :: int
  ne_photosHome :: bool
  ne_photosLimit :: nat
  ne_cache :: "string \<Rightarrow> place_card list option"
  ne_search :: "google_type \<Rightarrow> rat \<times> rat \<Rightarrow> bool \<Rightarrow> bool \<Rightarrow> http_error + place_card list"
  ne_text :: "string \<Rightarrow> google_type option \<Rightarrow> rat \<times> rat \<Rightarrow> bool \<Rightarrow> bool \<Rightarrow> nat \<Rightarrow> http_error + place_card list"

abbreviation ne_decode :: "nearby_env \<Rightarrow> string \<Rightarrow> string option" where
  "ne_decode env \<equiv> en_decode (ne_places env)"

definition add_curation ::
  "(string \<Rightarrow> string option) \<Rightarrow> string option \<Rightarrow> candidates \<Rightarrow> curated \<Rightarrow> candidates" where
  "add_curation decode cityId byId x =
     (if truthy cityId \<and> truthy (pl_city_id (snd x)) \<and> pl_city_id (snd x) \<noteq> cityId then byId
      else case curated_card decode (snd x) of
        None \<Rightarrow> byId
      | Some c \<Rightarrow> if \<not> injected x \<and> pc_googlePlaceId c \<notin> set (map fst byId) then byId else upsertNearbyCandidate byId c)"

definition candidate_map ::
  "nearby_env \<Rightarrow> nearby_search_query \<Rightarrow> recommendation_signals \<Rightarrow> place_card list \<Rightarrow> db \<Rightarrow> candidates" where
  "candidate_map env q signals googlePool w =
     (let byId = start_candidates (ne_decode env) googlePool;
          fecaPositive = listNearbyPlacesWithPositiveVisits (ne_metres env) (ne_bounds env) (nq_origin q) (ne_radius env) 25 w;
          similarPlaces = listNearbyPlacesMatchingCategories (ne_metres env) (ne_bounds env) (nq_origin q)
            (rs_liked signals) (map fst byId) (ne_radius env) 20 w;
          cityCurations = (if truthy (rs_cityId signals) then listActiveForCity (the (rs_cityId signals)) w else []);
          stored = map (\<lambda>x. mapStoredPlaceToNearby (fst x)) (fecaPositive @ similarPlaces)
      in foldl (add_curation (ne_decode env) (rs_cityId signals)) (foldl upsertNearbyCandidate byId stored) cityCurations)"

definition buildNearbyCandidatePool ::
  "nearby_env \<Rightarrow> string \<Rightarrow> nearby_search_query \<Rightarrow> recommendation_signals \<Rightarrow> place_card list \<Rightarrow> db \<Rightarrow> place_card list" where
  "buildNearbyCandidatePool env userId q signals googlePool w =
     stableShuffleGooglePlaces (ne_sha env) (map snd (candidate_map env q signals googlePool w))
       (shuffleSeed userId (nq_origin q) (nq_type q) (db_now w) ''pool'')"

text \<open>\<open>Promise.all\<close>: one failing search fails the pool.\<close>

fun all_searches :: "(http_error + place_card list) list \<Rightarrow> http_error + place_card list" where
  "all_searches [] = Inr []"
| "all_searches (Inl e # rs) = Inl e"
| "all_searches (Inr ps # rs) = map_sum id (\<lambda>qs. ps @ qs) (all_searches rs)"

definition fetchNearbyGooglePool ::
  "nearby_env \<Rightarrow> int \<Rightarrow> string \<Rightarrow> nearby_search_query \<Rightarrow> bool \<Rightarrow> bool \<Rightarrow> google_type list \<Rightarrow> http_error + place_card list" where
  "fetchNearbyGooglePool env t userId q includeEnterpriseFields includePhotos googleTypes =
     (let uniqueTypes = dedupe googleTypes;
          search = (\<lambda>typ. ne_search env typ (nq_origin q) includeEnterpriseFields includePhotos);
          shuffled = (\<lambda>rows tag. stableShuffleGooglePlaces (ne_sha env) rows (shuffleSeed userId (nq_origin q) (nq_type q) t tag))
      in if length uniqueTypes = 1 then map_sum id (\<lambda>rows. shuffled rows ''typed'') (search (hd uniqueTypes))
         else map_sum id (\<lambda>rows. shuffled (mergeGooglePlacesById rows) ''dist'') (all_searches (map search uniqueTypes)))"

section \<open>What the pool holds\<close>

lemma mset_stable_loop: "i < length xs \<Longrightarrow> mset (stable_shuffle_loop sha seed i xs) = mset xs"
proof (induction sha seed i xs rule: stable_shuffle_loop.induct)
  case (2 sha seed i xs)
  let ?j = "unat (sha (seed @ '':'' @ pc_googlePlaceId (xs ! Suc i) @ '':'' @ nat_text (Suc i))) mod (Suc i + 1)"
  have "?j < Suc i + 1" by (rule mod_less_divisor) simp
  then have j: "?j < length xs" using 2(2) by linarith
  have "mset (stable_shuffle_loop sha seed i (swap_items (Suc i) ?j xs)) = mset (swap_items (Suc i) ?j xs)"
    by (rule 2) (use 2(2) in \<open>simp_all add: swap_items_def\<close>)
  also have "\<dots> = mset xs" using 2(2) j by (rule mset_swap_items)
  finally show ?case by (simp add: Let_def)
qed simp

lemma mset_stable_shuffle [simp]: "mset (stableShuffleGooglePlaces sha items seed) = mset items"
  by (auto simp: stableShuffleGooglePlaces_def intro: mset_stable_loop)

lemma set_stable_shuffle [simp]: "set (stableShuffleGooglePlaces sha items seed) = set items"
  by (metis mset_stable_shuffle set_mset_mset)

definition by_id :: "candidates \<Rightarrow> bool" where
  "by_id m \<longleftrightarrow> distinct (map fst m) \<and> list_all (\<lambda>x. pc_googlePlaceId (snd x) = fst x) m"

lemma by_id_Nil: "by_id []" by (simp add: by_id_def)

lemma put_entry_binds: "(j, y) \<in> set (put_entry k x m) \<Longrightarrow> (j, y) \<in> set m \<or> j = k \<and> y = x"
  by (auto simp: put_entry_def split: if_splits)

lemma by_id_put: "by_id m \<Longrightarrow> pc_googlePlaceId c = k \<Longrightarrow> by_id (put_entry k c m)"
  unfolding by_id_def list_all_iff using distinct_put_entry [of m k c]
  by (fastforce dest!: put_entry_binds)

lemma by_id_upsert: "by_id m \<Longrightarrow> by_id (upsertNearbyCandidate m p)"
  by (auto simp: upsertNearbyCandidate_def mergeGooglePlaceSummaries_def intro!: by_id_put split: option.split)

lemma by_id_foldl: "(\<And>m x. by_id m \<Longrightarrow> by_id (f m x)) \<Longrightarrow> by_id m \<Longrightarrow> by_id (foldl f m xs)"
  by (induction xs arbitrary: m) auto

lemma by_id_start: "by_id (start_candidates decode places)"
  unfolding start_candidates_def Let_def by (intro by_id_foldl by_id_put by_id_Nil) simp_all

lemma by_id_curation: "by_id m \<Longrightarrow> by_id (add_curation decode cityId m x)"
  unfolding add_curation_def by (auto intro: by_id_upsert split: option.split)

lemma by_id_map: "by_id m \<Longrightarrow> map pc_googlePlaceId (map snd m) = map fst m"
  by (simp add: by_id_def list_all_iff)

lemma candidate_map_by_id: "by_id (candidate_map env q signals googlePool w)"
  unfolding candidate_map_def Let_def by (intro by_id_foldl by_id_curation by_id_upsert by_id_start)

text \<open>No two candidates of the pool have the same Google id, whatever Google, the database and the editors bring.\<close>

theorem pool_ids_distinct:
  "distinct (map pc_googlePlaceId (buildNearbyCandidatePool env userId q signals googlePool w))"
proof -
  let ?m = "candidate_map env q signals googlePool w"
  have "mset (map pc_googlePlaceId (buildNearbyCandidatePool env userId q signals googlePool w))
      = mset (map fst ?m)"
    unfolding buildNearbyCandidatePool_def mset_map mset_stable_shuffle
    using by_id_map [OF candidate_map_by_id] by (metis mset_map)
  then show ?thesis using candidate_map_by_id [of env q signals googlePool w] mset_eq_imp_distinct_iff
    unfolding by_id_def by blast
qed

section \<open>The merge by id\<close>

lemma by_id_find: "by_id m \<Longrightarrow> find (\<lambda>c. pc_googlePlaceId c = g) (map snd m) = map_of m g"
  by (induction m) (auto simp: by_id_def)

text \<open>The place with the id \<open>g\<close> that the merge should give: the last candidate with that id, then the cards of the injected
  rows with it, one after the other.\<close>

definition named_card :: "(string \<Rightarrow> string option) \<Rightarrow> place_card \<Rightarrow> place_card" where
  "named_card decode p = p\<lparr>pc_googlePlaceId := normalizeGooglePlaceId decode (pc_googlePlaceId p)\<rparr>"

definition having_id :: "string \<Rightarrow> place_card list \<Rightarrow> place_card list" where
  "having_id g cs = filter (\<lambda>c. pc_googlePlaceId c = g) cs"

definition injected_cards :: "(string \<Rightarrow> string option) \<Rightarrow> curated list \<Rightarrow> place_card list" where
  "injected_cards decode rows = List.map_filter (\<lambda>x. curated_card decode (snd x)) (filter injected rows)"

definition merged_spec :: "(string \<Rightarrow> string option) \<Rightarrow> place_card list \<Rightarrow> curated list \<Rightarrow> string \<Rightarrow> place_card option" where
  "merged_spec decode places rows g =
     (let old = having_id g (map (named_card decode) (filter (\<lambda>p. pc_googlePlaceId p \<noteq> []) places));
          new = having_id g (injected_cards decode rows)
      in case (old, new) of
           ([], []) \<Rightarrow> None
         | ([], c # cs) \<Rightarrow> Some (foldl mergeGooglePlaceSummaries c cs)
         | (_, cs) \<Rightarrow> Some (foldl mergeGooglePlaceSummaries (last old) cs))"

lemma start_fetch:
  "map_of (start_candidates decode places) g =
     (let old = having_id g (map (named_card decode) (filter (\<lambda>p. pc_googlePlaceId p \<noteq> []) places))
      in if old = [] then None else Some (last old))"
proof -
  have "map_of (foldl (\<lambda>m p. put_entry (pc_googlePlaceId p) p m) m ps) g =
      (if having_id g ps = [] then map_of m g else Some (last (having_id g ps)))" for m and ps :: "place_card list"
    by (induction ps arbitrary: m) (simp_all add: having_id_def map_of_put_entry)
  from this [of "[]" "map (named_card decode) (filter (\<lambda>p. pc_googlePlaceId p \<noteq> []) places)"] show ?thesis
    by (simp add: start_candidates_def Let_def foldl_map named_card_def)
qed

lemma upsert_fetch:
  "g \<noteq> [] \<Longrightarrow> map_of (upsertNearbyCandidate m c) g =
     (if pc_googlePlaceId c = g
      then Some (case map_of m g of None \<Rightarrow> c | Some u \<Rightarrow> mergeGooglePlaceSummaries u c) else map_of m g)"
  by (simp add: upsertNearbyCandidate_def map_of_put_entry split: option.split)

lemma upserts_fetch:
  assumes "g \<noteq> []"
  shows "map_of (foldl upsertNearbyCandidate m cs) g = js_map.gather mergeGooglePlaceSummaries (map_of m g) (having_id g cs)"
proof (induction cs arbitrary: m)
  case (Cons c cs)
  show ?case unfolding foldl_Cons Cons upsert_fetch [OF assms] by (simp add: having_id_def js_map.gather_def)
qed (simp add: having_id_def js_map.gather_def)

text \<open>C20: merging the editors' rows into the candidates refines the merge of each id by itself: the place with an id in the
  result is the last candidate with it, with the injected rows of that id merged in order, and does not depend on
  any other id.\<close>

theorem merge_refines_by_id:
  assumes "g \<noteq> []"
  shows "find (\<lambda>c. pc_googlePlaceId c = g) (mergeCityCurationsIntoNearbyCandidates decode places rows)
    = merged_spec decode places rows g"
proof -
  let ?m = "foldl upsertNearbyCandidate (start_candidates decode places) (injected_cards decode rows)"
  have "by_id ?m" by (intro by_id_foldl by_id_upsert by_id_start)
  from by_id_find [OF this] have "find (\<lambda>c. pc_googlePlaceId c = g) (mergeCityCurationsIntoNearbyCandidates decode places rows)
      = map_of ?m g" by (simp add: mergeCityCurationsIntoNearbyCandidates_def injected_cards_def)
  also have "\<dots> = merged_spec decode places rows g"
    unfolding upserts_fetch [OF assms] start_fetch merged_spec_def Let_def
    by (simp add: js_map.gather_None js_map.gather_Some split: list.split)
  finally show ?thesis .
qed

theorem merge_refines_by_id_witness:
  "find (\<lambda>c. pc_googlePlaceId c = ''g'')
     (mergeCityCurationsIntoNearbyCandidates Some [sample_card ''places/g'' ''bar'', sample_card ''h'' ''cafe'']
       (curated_rows (curated_db False)))
   = Some ((mapStoredPlaceToNearby (google_place_row ''p'' ''g''))\<lparr>pc_rating := Some 4, pc_ratingCount := Some 20,
       pc_types := [''bar''], pc_primaryType := Some ''bar''\<rparr>)"
  by (subst merge_refines_by_id) code_simp+

end
