(* ===== verification/NearbyService.thy ===== *)
theory NearbyService
  imports NearbyPool
begin

text \<open>
  The nearby search itself (\<open>places-nearby.service.ts\<close>) and the presentation of its places
  (\<open>places-nearby-presentation.service.ts\<close>).  The cache is a snapshot; what is stored in it after a search is not
  modelled, nor are the logging and the single flight, which joins concurrent misses of one key.
\<close>

section \<open>Presentation\<close>

definition shouldIncludeNearbyPhotos :: "nearby_env \<Rightarrow> bool" where
  "shouldIncludeNearbyPhotos env \<longleftrightarrow> ne_photosHome env \<and> 0 < ne_photosLimit env"

definition shouldServeStoredNearbyPhotos :: "nearby_env \<Rightarrow> bool" where
  "shouldServeStoredNearbyPhotos env \<longleftrightarrow> pcf_localOnly (en_cfg (ne_places env))"

definition getNearbyPhotoLimit :: "nearby_env \<Rightarrow> nat" where
  "getNearbyPhotoLimit env = (if \<not> shouldIncludeNearbyPhotos env
     then (if shouldServeStoredNearbyPhotos env then 999 else 0) else ne_photosLimit env)"

record nearby_view =
  nv_card :: place_card
  nv_openingChip :: "string option"
  nv_socialChips :: "string list option"
  nv_friendRows :: "friend_row list option"
  nv_reminder :: "string option"
  nv_badge :: "string option"

text \<open>What is loaded for the places shown.\<close>

record preloaded =
  pr_chips :: "(string \<times> string list) list"
  pr_rows :: "(string \<times> friend_row list) list"
  pr_photoLimit :: nat
  pr_priority :: "string list"
  pr_radar :: "(string \<times> radar_state) list"
  pr_badges :: "(string \<times> string) list"

definition non_empty :: "'a list option \<Rightarrow> 'a list option" where
  "non_empty xs = (case xs of Some (x # rest) \<Rightarrow> Some (x # rest) | _ \<Rightarrow> None)"

fun present_loop :: "bool \<Rightarrow> preloaded \<Rightarrow> nat \<Rightarrow> nat \<Rightarrow> place_card list \<Rightarrow> nearby_view list" where
  "present_loop stored pre index badgesShown [] = []"
| "present_loop stored pre index badgesShown (p # ps) =
     (let i = pc_googlePlaceId p;
          keepPhoto = (stored \<and> truthy (pc_photoUrl p) \<or> index < pr_photoLimit pre \<or> i \<in> set (pr_priority pre));
          badge = (if badgesShown < MAX_VISIBLE_RECOMMENDED_BADGES \<and> truthy (map_of (pr_badges pre) i)
                   then map_of (pr_badges pre) i else None)
      in \<lparr>nv_card = p\<lparr>pc_lines := None, pc_photoUrl := (if keepPhoto then pc_photoUrl p else None)\<rparr>,
          nv_openingChip = buildNearbyOpeningChip (pc_openNow p),
          nv_socialChips = non_empty (map_of (pr_chips pre) i), nv_friendRows = non_empty (map_of (pr_rows pre) i),
          nv_reminder = (case map_of (pr_radar pre) i of Some (Remind chip) \<Rightarrow> Some chip | _ \<Rightarrow> None),
          nv_badge = badge\<rparr>
         # present_loop stored pre (Suc index) (if badge = None then badgesShown else Suc badgesShown) ps)"

definition presentNearbyPlaces ::
  "nearby_env \<Rightarrow> string option \<Rightarrow> (string \<times> string list) list \<Rightarrow> (string \<times> friend_row list) list \<Rightarrow> string list
     \<Rightarrow> (string \<times> radar_state) list \<Rightarrow> place_card list \<Rightarrow> db \<Rightarrow> nearby_view list" where
  "presentNearbyPlaces env cityId chips rows priority radar places w =
     present_loop (shouldServeStoredNearbyPhotos env)
       \<lparr>pr_chips = chips, pr_rows = rows, pr_photoLimit = getNearbyPhotoLimit env, pr_priority = priority, pr_radar = radar,
        pr_badges = (if truthy cityId then getRecommendedBadgesByGooglePlaceIds (ne_decode env) cityId
          (map pc_googlePlaceId places) w else [])\<rparr> 0 0 places"

text \<open>One detail, from the cache or from Google.\<close>

definition cached_detail :: "nearby_env \<Rightarrow> string \<Rightarrow> http_error + place_detail_view" where
  "cached_detail env i = (case ch_detail (en_cache (ne_places env)) i of Some v \<Rightarrow> Inr v
     | None \<Rightarrow> getPlaceDetailView (en_api (ne_places env)) (ne_decode env) (en_photo (ne_places env)) i)"

definition priority_first :: "string list \<Rightarrow> place_card list \<Rightarrow> place_card list" where
  "priority_first priority places = filter (\<lambda>p. pc_googlePlaceId p \<in> set priority) places
     @ filter (\<lambda>p. pc_googlePlaceId p \<notin> set priority) places"

definition hydrateMissingNearbyPhotos :: "nearby_env \<Rightarrow> string list \<Rightarrow> place_card list \<Rightarrow> place_card list" where
  "hydrateMissingNearbyPhotos env priority places =
     (let budget = getNearbyPhotoLimit env in
      if budget = 0 \<or> \<not> google_on (ne_places env) then places
      else
        let toHydrate = take budget (filter (\<lambda>p. \<not> truthy (pc_photoUrl p) \<and> pc_googlePlaceId p \<noteq> [])
              (priority_first priority places));
            photos = map_of (rev (concat (map (\<lambda>p. case cached_detail env (pc_googlePlaceId p) of Inl _ \<Rightarrow> []
              | Inr d \<Rightarrow> if truthy (pc_photoUrl (dt_card d)) then [(pc_googlePlaceId p, pc_photoUrl (dt_card d))] else []) toHydrate)))
        in map (\<lambda>p. case photos (pc_googlePlaceId p) of None \<Rightarrow> p | Some u \<Rightarrow> p\<lparr>pc_photoUrl := u\<rparr>) places)"

definition hydrateMissingOpenNow :: "nearby_env \<Rightarrow> string list \<Rightarrow> nat \<Rightarrow> place_card list \<Rightarrow> place_card list" where
  "hydrateMissingOpenNow env priority budget places =
     (let toHydrate = take budget (filter (\<lambda>p. pc_openNow p = None \<and> pc_googlePlaceId p \<noteq> []) (priority_first priority places));
          patches = (if google_on (ne_places env) then map_of (rev (concat (map (\<lambda>p. case cached_detail env (pc_googlePlaceId p) of
              Inl _ \<Rightarrow> [] | Inr d \<Rightarrow> [(pc_googlePlaceId p, (pc_openNow (dt_card d), or_else (pc_lines (dt_card d)) (pc_lines p)))])
              toHydrate))) else Map.empty)
      in map (\<lambda>p. case patches (pc_googlePlaceId p) of None \<Rightarrow> p
           | Some (o', lines) \<Rightarrow> p\<lparr>pc_openNow := o', pc_lines := lines\<rparr>) places)"

section \<open>The page\<close>

text \<open>What the page is made from, once it is loaded: the candidates, those that are visible, the curation of the city with
  its picks, and the signals.\<close>

record page_data =
  pg_candidates :: "place_card list"
  pg_visible :: "place_card list"
  pg_curation :: curation_signals
  pg_rows :: "curated list"
  pg_cityPicks :: "place_card list"
  pg_overlay :: network_signals
  pg_radar :: "(string \<times> radar_state) list"
  pg_quality :: "string \<rightharpoonup> feca_quality"
  pg_signals :: recommendation_signals
  pg_inferred :: explore_intent

definition boosted_by_network :: "network_signals \<Rightarrow> place_card \<Rightarrow> bool" where
  "boosted_by_network overlay p \<longleftrightarrow> 0 < default_to (map_of (nw_boosts overlay) (pc_googlePlaceId p)) 0"

definition excluded_from_radar :: "(string \<times> radar_state) list \<Rightarrow> place_card \<Rightarrow> bool" where
  "excluded_from_radar radar p \<longleftrightarrow> map_of radar (pc_googlePlaceId p) = Some ExcludeFromRadar"

definition page_work :: "nearby_env \<Rightarrow> nearby_search_query \<Rightarrow> page_data \<Rightarrow> place_card list" where
  "page_work env q d =
     (let visible = (if nq_variant q = Some HomeOpenNow
            then hydrateMissingOpenNow env (sg_curated (pg_curation d)) (max (nq_limit q * 4) 20) (pg_visible d) else pg_visible d);
          work = (if nq_variant q = Some HomeOpenNow then filter (\<lambda>p. pc_openNow p = Some True) visible
            else if nq_variant q = Some HomeFriendsLiked then filter (boosted_by_network (pg_overlay d)) (pg_candidates d)
            else visible)
      in filter (\<lambda>p. \<not> excluded_from_radar (pg_radar d) p) work)"

definition page_context :: "nearby_search_query \<Rightarrow> page_data \<Rightarrow> nearby_context" where
  "page_context q d = \<lparr>nc_tastes = rs_tastes (pg_signals d), nc_imported = rs_imported (pg_signals d),
     nc_liked = rs_liked (pg_signals d), nc_disliked = rs_disliked (pg_signals d), nc_outing = rs_outing (pg_signals d),
     nc_inferred = pg_inferred d, nc_explicit = (if nq_variant q = Some HomeOpenNow then Some IOpenNow else nq_intent q),
     nc_likedIds = rs_likedIds (pg_signals d), nc_feca = pg_quality d, nc_boosts = sg_boosts (pg_curation d),
     nc_curated = sg_curated (pg_curation d), nc_cityPicks = pg_cityPicks d,
     nc_network = (\<lambda>i. map_option of_int (map_of (nw_boosts (pg_overlay d)) i))\<rparr>"

definition page_input :: "nearby_search_query \<Rightarrow> nearby_input" where
  "page_input q = \<lparr>ni_origin = nq_origin q, ni_limit = nq_limit q, ni_type = nq_type q, ni_variant = nq_variant q,
     ni_rotate = nq_rotate q\<rparr>"

definition text_query :: "nearby_search_query \<Rightarrow> bool" where
  "text_query q \<longleftrightarrow> js_trim (default_to (nq_query q) []) \<noteq> []"

definition prepends_admin :: "nearby_search_query \<Rightarrow> page_data \<Rightarrow> bool" where
  "prepends_admin q d \<longleftrightarrow> \<not> text_query q \<and> pg_rows d \<noteq> [] \<and> nq_variant q \<noteq> Some HomeFriendsLiked
     \<and> nq_variant q \<noteq> Some OnboardingPast"

definition ranked_page :: "nearby_env \<Rightarrow> int \<Rightarrow> string \<Rightarrow> nearby_search_query \<Rightarrow> page_data \<Rightarrow> place_card list" where
  "ranked_page env t userId q d =
     (let work = page_work env q d;
          ranked = (if text_query q then take (nq_limit q) work
            else rankNearbyPlaceResults (ne_metres env) (ne_sha env) (ne_collate env) t userId (page_input q) (page_context q d) work)
      in if work = [] then []
         else if prepends_admin q d then prependAdminCuratedPlaces (ne_decode env) ranked (pg_rows d) (nq_limit q) else ranked)"

definition page_debug :: "nearby_env \<Rightarrow> int \<Rightarrow> string \<Rightarrow> nearby_search_query \<Rightarrow> page_data \<Rightarrow> debug_row list option" where
  "page_debug env t userId q d =
     (if text_query q \<or> \<not> nq_debug q \<or> filter (admitted (page_input q) (page_context q d)) (page_work env q d) = [] then None
      else Some (debug_scores (ne_metres env) (ne_sha env) (ne_collate env) t userId (page_input q) (page_context q d)
        (page_work env q d)))"

section \<open>The search\<close>

definition visible_places :: "(string \<Rightarrow> bool) \<Rightarrow> place_card list \<Rightarrow> place_card list" where
  "visible_places hidden places = filter (\<lambda>p. \<not> hidden (pc_googlePlaceId p)) places"

definition no_curation :: curation_signals where
  "no_curation = \<lparr>sg_boosts = [], sg_picks = [], sg_curated = []\<rparr>"

definition page_places ::
  "nearby_env \<Rightarrow> string \<Rightarrow> nearby_search_query \<Rightarrow> recommendation_signals \<Rightarrow> place_card list \<Rightarrow> db \<Rightarrow> place_card list \<times> place_card list" where
  "page_places env userId q signals googlePool w =
     (let hidden = (\<lambda>i. i \<in> set (getHiddenGooglePlaceIds w));
          visiblePool = visible_places hidden googlePool;
          candidates = (if text_query q then visiblePool else buildNearbyCandidatePool env userId q signals visiblePool w);
          visible = visible_places hidden candidates;
          rows = (if truthy (rs_cityId signals) then listActiveForCity (the (rs_cityId signals)) w else [])
      in (candidates, if \<not> text_query q \<and> rows \<noteq> []
            then visible_places hidden (mergeCityCurationsIntoNearbyCandidates (ne_decode env) visible rows) else visible))"

definition load_page ::
  "nearby_env \<Rightarrow> string \<Rightarrow> nearby_search_query \<Rightarrow> recommendation_signals \<Rightarrow> explore_intent \<Rightarrow> place_card list \<times> place_card list
     \<Rightarrow> network_signals \<Rightarrow> db \<Rightarrow> page_data" where
  "load_page env userId q signals inferred places overlay w =
     (let ids = map pc_googlePlaceId (snd places); city = rs_cityId signals;
          (curation, rows) = (if truthy city then getCurationSignalsForCity (ne_decode env) (the city) w else (no_curation, []));
          picks = (if truthy city then listCityPickPlacesForCity (the city) 8 w else [])
      in \<lparr>pg_candidates = fst places, pg_visible = snd places, pg_curation = curation, pg_rows = rows,
          pg_cityPicks = visible_places (\<lambda>i. i \<in> set (getHiddenGooglePlaceIds w)) (map (\<lambda>x. mapStoredPlaceToNearby (snd x)) picks),
          pg_overlay = overlay, pg_radar = getViewerRadarVisitOverlay userId ids w,
          pg_quality = getFecaQualityByGooglePlaceIds ids w, pg_signals = signals, pg_inferred = inferred\<rparr>)"

record nearby_answer =
  na_places :: "nearby_view list"
  na_debug :: "debug_row list option"

definition no_places :: nearby_answer where "no_places = \<lparr>na_places = [], na_debug = None\<rparr>"

definition present_page :: "nearby_env \<Rightarrow> string \<Rightarrow> nearby_search_query \<Rightarrow> page_data \<Rightarrow> db \<Rightarrow> nearby_answer" where
  "present_page env userId q d w =
     (let priority = dedupe (sg_curated (pg_curation d) @ sg_picks (pg_curation d));
          places = hydrateMissingNearbyPhotos env priority (ranked_page env (db_now w) userId q d)
      in if page_work env q d = [] then no_places
         else \<lparr>na_places = presentNearbyPlaces env (rs_cityId (pg_signals d)) (nw_chips (pg_overlay d)) (nw_rows (pg_overlay d))
                 priority (pg_radar d) places w,
               na_debug = page_debug env (db_now w) userId q d\<rparr>)"

definition finalizeNearby ::
  "nearby_env \<Rightarrow> string \<Rightarrow> nearby_search_query \<Rightarrow> recommendation_signals \<Rightarrow> explore_intent \<Rightarrow> place_card list \<Rightarrow> nearby_answer dbm" where
  "finalizeNearby env userId q signals inferred googlePool =
     bindS (gets (page_places env userId q signals googlePool)) (\<lambda>places.
       if snd places = [] then ret no_places
       else bindS (getNearbyNetworkSignalsForGooglePlaces userId (map pc_googlePlaceId (snd places))) (\<lambda>overlay.
         gets (\<lambda>w. present_page env userId q (load_page env userId q signals inferred places overlay w) w)))"

definition resolveCurationCityId ::
  "nearby_env \<Rightarrow> string option \<Rightarrow> rat \<times> rat \<Rightarrow> string option \<Rightarrow> string option dbm" where
  "resolveCurationCityId env profileCityId origin cityGooglePlaceId =
     (let g = js_trim (default_to cityGooglePlaceId []) in
      bindS (if g = [] then ret None
             else catchS (bindS (ensureStoredCityByGooglePlaceId (ne_places env) g) (\<lambda>c. ret (Some (ci_id c))))
                    (\<lambda>_. gets (\<lambda>w. map_option ci_id (findCityByGooglePlaceId g w))))
        (\<lambda>found. if found \<noteq> None then ret found
          else if truthy profileCityId then ret profileCityId
          else catchS (bindS (ensureStoredCityForCoordinates (ne_places env) (Some (fst origin)) (Some (snd origin)))
                 (\<lambda>c. ret (Some (ci_id c))))
               (\<lambda>_. gets (\<lambda>w. map_option ci_id (findNearestCityByCoordinates (ne_metres env) (fst origin) (snd origin) 80000 w)))))"

text \<open>The candidates of Google: from the cache, else searched for; \<open>None\<close> sends the call to the database.\<close>

definition google_pool ::
  "nearby_env \<Rightarrow> int \<Rightarrow> string \<Rightarrow> nearby_search_query \<Rightarrow> pool_profile \<Rightarrow> place_card list option" where
  "google_pool env t userId q profile =
     (let photos = shouldIncludeNearbyPhotos env; hours = (nq_variant q = Some HomeOpenNow);
          valid = filter (\<lambda>p. pc_googlePlaceId p \<noteq> []);
          key = (if text_query q then buildNearbyQueryCacheKey q photos else buildNearbyPoolCacheKey q profile hours photos);
          answer = (if text_query q
            then ne_text env (js_trim (the (nq_query q))) (nq_type q) (nq_origin q) hours photos (nq_limit q)
            else fetchNearbyGooglePool env t userId q hours photos (resolveGoogleTypesForNearbyPool (nq_type q) profile))
      in case ne_cache env key of
           Some places \<Rightarrow> Some places
         | None \<Rightarrow> if google_on (ne_places env) then (case answer of Inl _ \<Rightarrow> None | Inr places \<Rightarrow> Some (valid places)) else None)"

definition stored_pool :: "nearby_env \<Rightarrow> nearby_search_query \<Rightarrow> db \<Rightarrow> place_card list" where
  "stored_pool env q w = map (\<lambda>x. mapStoredPlaceToNearby (fst x))
     (listNearbyPlaces (ne_metres env) (ne_bounds env) (nq_origin q) None (if text_query q then nq_limit q else 30) (ne_radius env) w)"

definition inferred_intent :: "nearby_env \<Rightarrow> nearby_search_query \<Rightarrow> recommendation_signals \<Rightarrow> explore_intent" where
  "inferred_intent env q signals = default_to (nq_intent q) (inferNearbyExploreIntent (rs_outing signals) (ne_hour env) (ne_day env))"

definition pool_profile_of :: "nearby_env \<Rightarrow> nearby_search_query \<Rightarrow> recommendation_signals \<Rightarrow> pool_profile" where
  "pool_profile_of env q signals = (if nq_type q \<noteq> None then PoolDefault
     else resolveNearbyGooglePoolProfile (rs_tastes signals) (rs_outing signals) (inferred_intent env q signals) (nq_intent q))"

definition search_nearby :: "nearby_env \<Rightarrow> string \<Rightarrow> nearby_search_query \<Rightarrow> nearby_answer dbm" where
  "search_nearby env userId q =
     bindS (gets (getUserRecommendationSignals (ne_collate env) userId)) (\<lambda>s.
     bindS (resolveCurationCityId env (rs_cityId s) (nq_origin q) (nq_city q)) (\<lambda>city.
     let signals = s\<lparr>rs_cityId := or_else city (rs_cityId s)\<rparr> in
     bindS (gets (\<lambda>w. default_to (google_pool env (db_now w) userId q (pool_profile_of env q s)) (stored_pool env q w)))
       (finalizeNearby env userId q signals (inferred_intent env q s))))"

definition nearby :: "nearby_env \<Rightarrow> string \<Rightarrow> (rat \<times> rat) option \<Rightarrow> nearby_search_query \<Rightarrow> nearby_answer dbm" where
  "nearby env userId point q =
     bindS (gets (\<lambda>w. or_else point (getUserCoordinates userId w))) (\<lambda>coords. case coords of
       None \<Rightarrow> ret no_places
     | Some p \<Rightarrow> search_nearby env userId (q\<lparr>nq_origin := p\<rparr>))"

definition exploreContext ::
  "nearby_env \<Rightarrow> string \<Rightarrow> (rat \<times> rat) option \<Rightarrow> explore_intent \<Rightarrow> nat \<Rightarrow> string option \<Rightarrow> (nearby_view \<times> string) list dbm" where
  "exploreContext env userId point intent limit city =
     bindS (nearby env userId point \<lparr>nq_origin = (0, 0), nq_query = None, nq_type = None,
         nq_variant = (if intent = IOpenNow then Some HomeOpenNow else None), nq_limit = limit, nq_intent = Some intent,
         nq_rotate = None, nq_city = city, nq_debug = False\<rparr>)
       (\<lambda>a. ret (map (\<lambda>v. (v, exploreReasonLine intent (nv_card v))) (na_places a)))"

section \<open>Properties\<close>

lemma force_places_extends: "\<exists>zs. force_places limit forced ps = forced @ zs"
  by (induction limit forced ps rule: force_places.induct) auto

lemma curated_card_unknown: "curated_card decode p = Some c \<Longrightarrow> pc_openNow c = None"
  by (auto simp: curated_card_def mapStoredPlaceToNearby_def)

lemma prepended_head:
  assumes "0 < limit" "x \<in> set rows" "injected x" "curated_card decode (snd x) \<noteq> None"
  shows "prependAdminCuratedPlaces decode ranked rows limit \<noteq> []
    \<and> pc_openNow (hd (prependAdminCuratedPlaces decode ranked rows limit)) = None"
proof -
  let ?cs = "List.map_filter (\<lambda>x. curated_card decode (snd x)) (sort_by admin_order (filter injected rows))"
  have unknown: "pc_openNow c = None" if "c \<in> set ?cs" for c
    using that curated_card_unknown by (auto simp: map_filter_def)
  obtain c0 where "curated_card decode (snd x) = Some c0" using assms(4) by blast
  then have "c0 \<in> set ?cs" using assms(2,3) by (force simp: map_filter_def)
  then have "?cs \<noteq> []" by auto
  then obtain c cs where cs: "?cs = c # cs" by (cases ?cs) auto
  then obtain zs where "force_places limit [] ?cs = c # zs"
    using assms(1) force_places_extends [of limit "[c]" cs] by auto
  then have "\<exists>ys. prependAdminCuratedPlaces decode ranked rows limit = c # ys"
    using assms(1) unfolding prependAdminCuratedPlaces_def Let_def by (cases limit) auto
  then show ?thesis using unknown [of c] cs by auto
qed

text \<open>On the variants that show the editors' places, the page of the places open now too, the first place is one the
  editors put there whose opening is unknown: they are prepended after the filter on the opening.\<close>

theorem curated_first_without_opening:
  assumes "prepends_admin q d" "page_work env q d \<noteq> []" "0 < nq_limit q" "x \<in> set (pg_rows d)" "injected x"
    "curated_card (ne_decode env) (snd x) \<noteq> None"
  shows "ranked_page env t userId q d \<noteq> [] \<and> pc_openNow (hd (ranked_page env t userId q d)) = None"
  using prepended_head [OF assms(3-6)] assms(1,2) by (simp add: ranked_page_def Let_def)

text \<open>Without Google and with nothing cached a text search ignores the text: two searches that differ only in their
  text have the same answer and the same effect.\<close>

theorem offline_text_ignored:
  assumes "\<not> google_on (ne_places env)" "ne_cache env = (\<lambda>_. None)" "js_trim a \<noteq> []" "js_trim b \<noteq> []"
  shows "nearby env userId point (q\<lparr>nq_query := Some a\<rparr>) = nearby env userId point (q\<lparr>nq_query := Some b\<rparr>)"
proof -
  have t: "text_query (q\<lparr>nq_query := Some s, nq_origin := p\<rparr>)" if "js_trim s \<noteq> []" for s p
    using that by (simp add: text_query_def)
  have g: "google_pool env t userId r profile = None" for t r profile
    using assms(1,2) by (simp add: google_pool_def Let_def)
  let ?qa = "\<lambda>p. q\<lparr>nq_query := Some a, nq_origin := p\<rparr>" and ?qb = "\<lambda>p. q\<lparr>nq_query := Some b, nq_origin := p\<rparr>"
  note ta = t [OF assms(3)] and tb = t [OF assms(4)]
  have work: "page_work env (?qa p) = page_work env (?qb p)" for p by (rule ext) (simp add: page_work_def)
  have ranked: "ranked_page env r userId (?qa p) = ranked_page env r userId (?qb p)" for r p
    by (rule ext) (simp add: ranked_page_def Let_def ta tb work prepends_admin_def)
  have debug: "page_debug env r userId (?qa p) = page_debug env r userId (?qb p)" for r p
    by (rule ext) (simp add: page_debug_def ta tb)
  have present: "present_page env userId (?qa p) = present_page env userId (?qb p)" for p
    by (intro ext) (simp only: present_page_def work ranked debug)
  have places: "page_places env userId (?qa p) = page_places env userId (?qb p)" for p
    by (intro ext) (simp add: page_places_def ta tb)
  have load: "load_page env userId (?qa p) = load_page env userId (?qb p)" for p
    by (intro ext) (simp add: load_page_def)
  have f: "finalizeNearby env userId (?qa p) = finalizeNearby env userId (?qb p)" for p
    by (intro ext) (simp only: finalizeNearby_def present places load)
  show ?thesis
    using ta tb
    by (simp add: nearby_def search_nearby_def g f stored_pool_def inferred_intent_def pool_profile_of_def cong: option.case_cong)
qed

definition offline_env :: nearby_env where
  "offline_env = \<lparr>ne_places = sample_env True, ne_metres = flat, ne_bounds = (\<lambda>p r. \<lparr>gb_minLat = - 90, gb_maxLat = 90,
       gb_minLng = - 180, gb_maxLng = 180\<rparr>), ne_radius = 3000, ne_sha = (\<lambda>_. 0), ne_collate = (\<lambda>_ _. True), ne_hour = 10,
     ne_day = 1, ne_photosHome = False, ne_photosLimit = 0, ne_cache = (\<lambda>_. None), ne_search = (\<lambda>_ _ _ _. Inr []),
     ne_text = (\<lambda>_ _ _ _ _ _. Inr [])\<rparr>"

definition sample_query :: nearby_search_query where
  "sample_query = \<lparr>nq_origin = (- 31, - 64), nq_query = None, nq_type = None, nq_variant = Some HomeOpenNow, nq_limit = 6,
     nq_intent = None, nq_rotate = None, nq_city = None, nq_debug = False\<rparr>"

theorem offline_text_ignored_witness:
  "nearby offline_env ''u'' None (sample_query\<lparr>nq_query := Some ''pizza''\<rparr>)
     = nearby offline_env ''u'' None (sample_query\<lparr>nq_query := Some ''cafe''\<rparr>)"
proof (rule offline_text_ignored)
  show "\<not> google_on (ne_places offline_env)" by code_simp
  show "ne_cache offline_env = (\<lambda>_. None)" by (simp add: offline_env_def)
qed code_simp+

definition sample_page :: page_data where
  "sample_page = \<lparr>pg_candidates = [], pg_visible = [(sample_card ''b'' ''cafe'')\<lparr>pc_openNow := Some True\<rparr>],
     pg_curation = fst (getCurationSignalsForCity Some ''m'' (curated_db False)), pg_rows = curated_rows (curated_db False),
     pg_cityPicks = [], pg_overlay = no_signals [], pg_radar = [], pg_quality = Map.empty,
     pg_signals = getUserRecommendationSignals (\<lambda>_ _. True) ''u'' (curated_db False), pg_inferred = ISolo\<rparr>"

theorem curated_first_without_opening_witness:
  "nq_variant sample_query = Some HomeOpenNow
   \<and> (ranked_page offline_env 0 ''u'' sample_query sample_page \<noteq> []
      \<and> pc_openNow (hd (ranked_page offline_env 0 ''u'' sample_query sample_page)) = None)"
proof
  show "nq_variant sample_query = Some HomeOpenNow" by (simp add: sample_query_def)
  show "ranked_page offline_env 0 ''u'' sample_query sample_page \<noteq> []
      \<and> pc_openNow (hd (ranked_page offline_env 0 ''u'' sample_query sample_page)) = None"
    by (rule curated_first_without_opening [where x = "hd (curated_rows (curated_db False))"]) code_simp+
qed

end
