(* ===== verification/Automation.thy ===== *)
theory Automation
  imports NearbyService
begin

text \<open>
  The notifications that are sent without anyone acting (\<open>social/notifications-automation.service.ts\<close>): reminders of
  invitations, of answers and of today's events, the digest of the week and the recommendation of the hour.  A cron
  calls \<open>runDueAutomations\<close>; what is due is decided by the user's local time, and a dedupe key per event, user and day
  keeps a second run from telling anyone twice.  \<open>Intl.DateTimeFormat\<close> is the parameter \<open>zone\<close>: the reader of the
  parts of a time in a time zone, \<open>None\<close> for a zone it does not know.  Texts are written without accents.
\<close>

section \<open>Local time\<close>

record local_date_time =
  ld_date :: string
  ld_hour :: "rat option"
  ld_minute :: "rat option"
  ld_weekday :: int

type_synonym zone_format = "int \<Rightarrow> string \<Rightarrow> (string \<Rightarrow> string option) option"

definition mapWeekday :: "string \<Rightarrow> int" where
  "mapWeekday value = (if value = ''Sun'' then 0 else if value = ''Mon'' then 1 else if value = ''Tue'' then 2
     else if value = ''Wed'' then 3 else if value = ''Thu'' then 4 else if value = ''Fri'' then 5
     else if value = ''Sat'' then 6 else - 1)"

definition tryGetLocalDateTime :: "zone_format \<Rightarrow> int \<Rightarrow> string \<Rightarrow> local_date_time option" where
  "tryGetLocalDateTime zone date timezone = (case zone date timezone of
     None \<Rightarrow> None
   | Some part \<Rightarrow>
       (if list_all (\<lambda>k. truthy (part k)) [''year'', ''month'', ''day'', ''hour'', ''minute'', ''weekday'']
        then Some \<lparr>ld_date = the (part ''year'') @ ''-'' @ the (part ''month'') @ ''-'' @ the (part ''day''),
               ld_hour = js_number (the (part ''hour'')), ld_minute = js_number (the (part ''minute'')),
               ld_weekday = mapWeekday (the (part ''weekday''))\<rparr>
        else None))"

text \<open>\<open>Number(...)\<close> of a text that is no number is \<open>NaN\<close>, which is not at or after anything.\<close>

definition isDueAtLocalTime :: "local_date_time \<Rightarrow> rat \<Rightarrow> rat \<Rightarrow> bool" where
  "isDueAtLocalTime l hour minute = (case (ld_hour l, ld_minute l) of
     (Some h, Some m) \<Rightarrow> hour * 60 + minute \<le> h * 60 + m \<and> h * 60 + m < hour * 60 + minute + 60
   | _ \<Rightarrow> False)"

definition startOfUtcDay :: "int \<Rightarrow> int" where "startOfUtcDay t = day_number t * ms_per_day"

text \<open>\<open>new Date("yyyy-mm-ddT00:00:00.000Z")\<close>, on the texts \<open>toDateOnlyString\<close> makes.\<close>

definition date_of_text :: "string \<Rightarrow> int" where
  "date_of_text d = days_from_civil (int (text_nat (take 4 d))) (int (text_nat (take 2 (drop 5 d))))
     (int (text_nat (take 2 (drop 8 d)))) * ms_per_day"

definition shiftDateOnly :: "string \<Rightarrow> int \<Rightarrow> string" where
  "shiftDateOnly dateOnly offsetDays = iso_date (addDays (date_of_text dateOnly) offsetDays)"

section \<open>Users with a time zone\<close>

record timezone_user =
  tu_city :: "string option"
  tu_cityId :: "string option"
  tu_id :: string
  tu_point :: "rat option \<times> rat option"
  tu_outing :: "json option"
  tu_timezone :: string

definition listUsersWithLatestTimezone :: "db \<Rightarrow> timezone_user list" where
  "listUsersWithLatestTimezone w =
     filter (\<lambda>u. tu_timezone u \<noteq> [])
       (map (\<lambda>u. \<lparr>tu_city = u_city u, tu_cityId = u_city_id u, tu_id = u_id u, tu_point = (u_lat u, u_lng u),
             tu_outing = u_outing u,
             tu_timezone = default_to (map_option pi_timezone (head_opt (active_installations (u_id u) w))) []\<rparr>)
         (find_many (\<lambda>u. active_installations (u_id u) w \<noteq> []) (t_users w)))"

text \<open>\<open>localTimeByUserId\<close>.\<close>

definition local_times :: "zone_format \<Rightarrow> int \<Rightarrow> timezone_user list \<Rightarrow> string \<Rightarrow> local_date_time option" where
  "local_times zone t users = map_of (rev (concat (map (\<lambda>u. case tryGetLocalDateTime zone t (tu_timezone u) of
     None \<Rightarrow> [] | Some l \<Rightarrow> [(tu_id u, l)]) users)))"

section \<open>Publishing a list\<close>

definition text_entry :: "string \<Rightarrow> string \<Rightarrow> string \<times> json option" where
  "text_entry k v = (k, Some (JStr v))"

definition publish_all :: "publish_input list \<Rightarrow> nat dbm" where
  "publish_all inputs = bindS (mapS publish inputs) (\<lambda>rs. ret (sum_list (map pr_count rs)))"

section \<open>Reminders\<close>

definition invite_reminder :: "member_row \<Rightarrow> group_row \<Rightarrow> publish_input" where
  "invite_reminder m g = \<lparr>pb_actorId = gm_inviter m, pb_dedupeKey = Some (''group-invite-reminder:'' @ gm_id m),
     pb_entity = Some (g_id g, EntGroup),
     pb_payload = Some [text_entry ''body'' (''Todavia tenes pendiente la invitacion a '' @ g_name g @ ''.''),
       text_entry ''deepLink'' (''/group/'' @ g_id g), text_entry ''groupId'' (g_id g), text_entry ''groupName'' (g_name g),
       text_entry ''title'' ''Invitacion pendiente''],
     pb_recipientIds = [gm_user m], pb_scheduledFor = None, pb_type = NGroupInviteReminder\<rparr>"

definition due_invites :: "int \<Rightarrow> db \<Rightarrow> publish_input list" where
  "due_invites t w =
     List.map_filter (\<lambda>m. map_option (invite_reminder m) (group_by_id (gm_group m) w))
       (sort_by (\<lambda>a b. gm_created a \<le> gm_created b)
          (find_many (\<lambda>m. gm_created m \<le> t - ms_per_day \<and> gm_status m = MPending) (t_members w)))"

definition runInviteReminders :: "int \<Rightarrow> nat dbm" where
  "runInviteReminders t = bindS (gets (due_invites t)) publish_all"

text \<open>The events of the days around now, with their group and place, by date and creation.\<close>

definition events_between :: "int \<Rightarrow> int \<Rightarrow> group_event_status list \<Rightarrow> db \<Rightarrow> (event_row \<times> group_row \<times> place_row) list" where
  "events_between start stop statuses w =
     List.map_filter (\<lambda>e. case (group_by_id (ev_group e) w, place_by_id (ev_place e) w) of
         (Some g, Some p) \<Rightarrow> Some (e, g, p) | _ \<Rightarrow> None)
       (sort_by (\<lambda>a b. ev_date a < ev_date b \<or> ev_date a = ev_date b \<and> ev_created a \<le> ev_created b)
          (find_many (\<lambda>e. start \<le> ev_date e \<and> ev_date e < stop \<and> ev_status e \<in> set statuses) (t_events w)))"

definition accepted_in :: "group_row \<Rightarrow> db \<Rightarrow> member_row list" where
  "accepted_in g w = find_many (\<lambda>m. gm_group m = g_id g \<and> gm_status m = MAccepted) (t_members w)"

definition event_entries :: "event_row \<Rightarrow> group_row \<Rightarrow> place_row \<Rightarrow> (string \<times> json option) list" where
  "event_entries e g p = [text_entry ''deepLink'' (''/group/'' @ g_id g), text_entry ''eventDate'' (iso_date (ev_date e)),
     text_entry ''eventId'' (ev_id e), text_entry ''groupId'' (g_id g), text_entry ''groupName'' (g_name g),
     text_entry ''placeName'' (pl_name p)]"

definition event_reminder :: "string \<Rightarrow> notification_type \<Rightarrow> string \<Rightarrow> string \<Rightarrow> event_row \<times> group_row \<times> place_row \<Rightarrow> string
    \<Rightarrow> publish_input" where
  "event_reminder key typ title body x userId = (case x of (e, g, p) \<Rightarrow> \<lparr>pb_actorId = None,
     pb_dedupeKey = Some (key @ '':'' @ ev_id e @ '':'' @ userId @ '':'' @ iso_date (ev_date e)),
     pb_entity = Some (ev_id e, EntGroupEvent),
     pb_payload = Some (text_entry ''body'' body # event_entries e g p @ [text_entry ''title'' title]),
     pb_recipientIds = [userId], pb_scheduledFor = None, pb_type = typ\<rparr>)"

definition rsvp_reminder :: "event_row \<times> group_row \<times> place_row \<Rightarrow> string \<Rightarrow> publish_input" where
  "rsvp_reminder x userId = event_reminder ''group-event-rsvp-reminder'' NGroupEventRsvpReminder ''Recordatorio de RSVP''
     (''Falta tu respuesta para '' @ pl_name (snd (snd x)) @ '' en '' @ g_name (fst (snd x)) @ ''.'') x userId"

definition today_reminder :: "event_row \<times> group_row \<times> place_row \<Rightarrow> string \<Rightarrow> publish_input" where
  "today_reminder x userId = event_reminder ''group-event-today-reminder'' NGroupEventTodayReminder ''Plan para hoy''
     (''Hoy tenes '' @ pl_name (snd (snd x)) @ '' con '' @ g_name (fst (snd x)) @ ''.'') x userId"

text \<open>Those who did not answer, at six in the evening before the event.\<close>

definition wants_rsvp_reminder :: "(string \<Rightarrow> local_date_time option) \<Rightarrow> db \<Rightarrow> event_row \<Rightarrow> string \<Rightarrow> bool" where
  "wants_rsvp_reminder localTimes w e userId = (case localTimes userId of
     None \<Rightarrow> False
   | Some l \<Rightarrow> \<not> list_ex (\<lambda>r. rs_event r = ev_id e \<and> rs_user r = userId) (t_rsvps w)
       \<and> ld_date l = shiftDateOnly (iso_date (ev_date e)) (- 1) \<and> isDueAtLocalTime l 18 0)"

text \<open>Those who did not decline, at nine in the morning of the event.\<close>

definition wants_today_reminder :: "(string \<Rightarrow> local_date_time option) \<Rightarrow> db \<Rightarrow> event_row \<Rightarrow> string \<Rightarrow> bool" where
  "wants_today_reminder localTimes w e userId = (case localTimes userId of
     None \<Rightarrow> False
   | Some l \<Rightarrow> map_of (rev (map (\<lambda>r. (rs_user r, rs_rsvp r)) (find_many (\<lambda>r. rs_event r = ev_id e) (t_rsvps w)))) userId
           \<noteq> Some RDeclined
       \<and> ld_date l = iso_date (ev_date e) \<and> isDueAtLocalTime l 9 0)"

definition due_rsvps :: "int \<Rightarrow> (string \<Rightarrow> local_date_time option) \<Rightarrow> db \<Rightarrow> publish_input list" where
  "due_rsvps t localTimes w =
     concat (map (\<lambda>x. map (\<lambda>m. rsvp_reminder x (gm_user m))
         (filter (\<lambda>m. wants_rsvp_reminder localTimes w (fst x) (gm_user m)) (accepted_in (fst (snd x)) w)))
       (events_between (startOfUtcDay (addDays t (- 1))) (startOfUtcDay (addDays t 3)) [EProposed, EConfirmed] w))"

definition runRsvpReminders :: "int \<Rightarrow> (string \<Rightarrow> local_date_time option) \<Rightarrow> nat dbm" where
  "runRsvpReminders t localTimes = bindS (gets (due_rsvps t localTimes)) publish_all"

definition due_today :: "int \<Rightarrow> (string \<Rightarrow> local_date_time option) \<Rightarrow> db \<Rightarrow> publish_input list" where
  "due_today t localTimes w =
     concat (map (\<lambda>x. map (\<lambda>m. today_reminder x (gm_user m))
         (filter (\<lambda>m. wants_today_reminder localTimes w (fst x) (gm_user m)) (accepted_in (fst (snd x)) w)))
       (events_between (startOfUtcDay (addDays t (- 1))) (startOfUtcDay (addDays t 2)) [EConfirmed] w))"

definition runTodayReminders :: "int \<Rightarrow> (string \<Rightarrow> local_date_time option) \<Rightarrow> nat dbm" where
  "runTodayReminders t localTimes = bindS (gets (due_today t localTimes)) publish_all"

section \<open>The digest of the week\<close>

definition findWeeklyGuide :: "string option \<Rightarrow> db \<Rightarrow> diary_row option" where
  "findWeeklyGuide cityId w =
     (let editorial = (\<lambda>d. (case user_by_id (di_created_by d) w of Some u \<Rightarrow> u_is_editor u | None \<Rightarrow> False)
            \<and> di_published d \<noteq> None \<and> di_visibility d = DPublic);
          first = (\<lambda>p. head_opt (sort_by (\<lambda>a b. the (di_published b) < the (di_published a)
            \<or> di_published b = di_published a \<and> di_created b \<le> di_created a) (find_many p (t_diaries w))))
      in or_else (if truthy cityId then first (\<lambda>d. editorial d \<and> di_city d = cityId) else None) (first editorial))"

definition digest_visits :: "int \<Rightarrow> string list \<Rightarrow> db \<Rightarrow> nat" where
  "digest_visits since followedIds w = count_rows (\<lambda>v. since \<le> vi_created v \<and> vi_user v \<in> set followedIds
     \<and> (case settings_of (vi_user v) w of Some s \<Rightarrow> st_activity s = CPublic \<or> st_activity s = CFollowers | None \<Rightarrow> False))
     (t_visits w)"

definition digest_diaries :: "int \<Rightarrow> string list \<Rightarrow> db \<Rightarrow> nat" where
  "digest_diaries since followedIds w = count_rows (\<lambda>d. di_created_by d \<in> set followedIds
     \<and> (case di_published d of Some t \<Rightarrow> since \<le> t | None \<Rightarrow> False) \<and> di_visibility d = DPublic) (t_diaries w)"

text \<open>\<open>parts.join(sep)\<close>.\<close>

fun join_texts :: "string \<Rightarrow> string list \<Rightarrow> string" where
  "join_texts sep [] = []"
| "join_texts sep [s] = s"
| "join_texts sep (s # t # ts) = s @ sep @ join_texts sep (t # ts)"

definition plural :: "nat \<Rightarrow> string" where "plural n = (if n = 1 then [] else ''s'')"

definition buildWeeklyDigestBody :: "string option \<Rightarrow> nat \<Rightarrow> string option \<Rightarrow> nat \<Rightarrow> string" where
  "buildWeeklyDigestBody city diaries guideName visits = join_texts '' ''
     ((if 0 < visits then [''Tu red compartio '' @ nat_text visits @ '' visita'' @ plural visits
         @ '' en los ultimos 7 dias.''] else [])
      @ (if 0 < diaries then [''Tambien aparecieron '' @ nat_text diaries @ '' guia'' @ plural diaries
         @ '' nueva'' @ plural diaries @ ''.''] else [])
      @ (if truthy guideName then [''Te dejamos '' @ the guideName @ '' para ''
         @ (if truthy city then the city else ''inspirarte'') @ ''.''] else []))"

definition id_or_null :: "string option \<Rightarrow> json" where
  "id_or_null v = (case v of None \<Rightarrow> JNull | Some s \<Rightarrow> JStr s)"

definition weekly_digest :: "timezone_user \<Rightarrow> string \<Rightarrow> nat \<Rightarrow> nat \<Rightarrow> diary_row option \<Rightarrow> publish_input" where
  "weekly_digest u date visits diaries guide = \<lparr>pb_actorId = None,
     pb_dedupeKey = Some (''weekly-digest:'' @ tu_id u @ '':'' @ date), pb_entity = None,
     pb_payload = Some [text_entry ''body'' (buildWeeklyDigestBody (tu_city u) diaries (map_option di_name guide) visits),
       text_entry ''deepLink'' (case guide of Some g \<Rightarrow> ''/diary/'' @ di_id g | None \<Rightarrow> ''/notifications''),
       (''diaryCount'', Some (JNum (of_nat diaries))), (''guideId'', Some (id_or_null (map_option di_id guide))),
       (''guideName'', Some (id_or_null (map_option di_name guide))), text_entry ''title'' ''Resumen semanal'',
       (''visitCount'', Some (JNum (of_nat visits)))],
     pb_recipientIds = [tu_id u], pb_scheduledFor = None, pb_type = NWeeklyDigest\<rparr>"

text \<open>On Sundays at six in the evening; nothing is sent when there is nothing to tell.\<close>

definition due_digest :: "int \<Rightarrow> (string \<Rightarrow> local_date_time option) \<Rightarrow> timezone_user \<Rightarrow> db \<Rightarrow> publish_input list" where
  "due_digest t localTimes u w = (case localTimes (tu_id u) of
     None \<Rightarrow> []
   | Some l \<Rightarrow>
       (let followedIds = map fo_followed (find_many (\<lambda>f. fo_follower f = tu_id u) (t_follows w));
            since = t - 7 * ms_per_day;
            visits = digest_visits since followedIds w; diaries = digest_diaries since followedIds w;
            guide = findWeeklyGuide (tu_cityId u) w
        in if \<not> (ld_weekday l = 0 \<and> isDueAtLocalTime l 18 0) \<or> visits = 0 \<and> diaries = 0 \<and> guide = None then []
           else [weekly_digest u (ld_date l) visits diaries guide]))"

definition runWeeklyDigests :: "int \<Rightarrow> timezone_user list \<Rightarrow> (string \<Rightarrow> local_date_time option) \<Rightarrow> nat dbm" where
  "runWeeklyDigests t users localTimes =
     bindS (mapS (\<lambda>u. bindS (gets (due_digest t localTimes u)) publish_all) users) (\<lambda>ns. ret (sum_list ns))"

section \<open>The recommendation of the hour\<close>

datatype contextual_slot = WeekdayMorning | WeekdayAfternoon | WeekdayEvening | WeekendDay | WeekendNight

definition slot_text :: "contextual_slot \<Rightarrow> string" where
  "slot_text s = (case s of WeekdayMorning \<Rightarrow> ''weekday_morning'' | WeekdayAfternoon \<Rightarrow> ''weekday_afternoon''
     | WeekdayEvening \<Rightarrow> ''weekday_evening'' | WeekendDay \<Rightarrow> ''weekend_day'' | WeekendNight \<Rightarrow> ''weekend_night'')"

record contextual_schedule =
  cs_hour :: rat
  cs_minute :: rat
  cs_slot :: contextual_slot
  cs_weekdays :: "int list"

definition CONTEXTUAL_SCHEDULES :: "contextual_schedule list" where
  "CONTEXTUAL_SCHEDULES =
     [\<lparr>cs_hour = 7, cs_minute = 30, cs_slot = WeekdayMorning, cs_weekdays = [1, 2, 3, 4, 5]\<rparr>,
      \<lparr>cs_hour = 11, cs_minute = 0, cs_slot = WeekdayAfternoon, cs_weekdays = [1, 2, 3, 4, 5]\<rparr>,
      \<lparr>cs_hour = 16, cs_minute = 30, cs_slot = WeekdayEvening, cs_weekdays = [1, 2, 3, 4, 5]\<rparr>,
      \<lparr>cs_hour = 9, cs_minute = 0, cs_slot = WeekendDay, cs_weekdays = [0, 6]\<rparr>,
      \<lparr>cs_hour = 17, cs_minute = 0, cs_slot = WeekendNight, cs_weekdays = [5, 6]\<rparr>]"

text \<open>\<open>isContextualSlot\<close> and \<open>isTypicalCompany\<close> on the entries of an array.\<close>

definition slot_of_json :: "json \<Rightarrow> contextual_slot option" where
  "slot_of_json v = (case v of JStr s \<Rightarrow>
       find (\<lambda>x. slot_text x = s) [WeekdayMorning, WeekdayAfternoon, WeekdayEvening, WeekendDay, WeekendNight]
     | _ \<Rightarrow> None)"

definition company_of_json :: "json \<Rightarrow> string option" where
  "company_of_json v = (case v of JStr s \<Rightarrow> if s \<in> set ALLOWED_COMPANY then Some s else None | _ \<Rightarrow> None)"

record outing_reading =
  or_companies :: "string list"
  or_slots :: "contextual_slot list"

definition readOutingPreferences :: "json option \<Rightarrow> outing_reading" where
  "readOutingPreferences raw = (case raw of
     Some (JObj p) \<Rightarrow> \<lparr>
       or_companies = (case map_of p ''typicalCompanies'' of Some (JArr vs) \<Rightarrow> List.map_filter company_of_json vs
         | _ \<Rightarrow> (case map_of p ''typicalCompany'' of Some v \<Rightarrow> List.map_filter company_of_json [v] | None \<Rightarrow> [])),
       or_slots = (case map_of p ''typicalOutingSlots'' of Some (JArr vs) \<Rightarrow> List.map_filter slot_of_json vs | _ \<Rightarrow> [])\<rparr>
   | _ \<Rightarrow> \<lparr>or_companies = [], or_slots = []\<rparr>)"

definition due_schedules :: "local_date_time \<Rightarrow> contextual_slot list \<Rightarrow> contextual_schedule list" where
  "due_schedules l configured = filter (\<lambda>s. cs_slot s \<in> set configured \<and> ld_weekday l \<in> set (cs_weekdays s)
     \<and> isDueAtLocalTime l (cs_hour s) (cs_minute s)) CONTEXTUAL_SCHEDULES"

text \<open>The latest of the schedules that are due.\<close>

definition pickDueContextualSlot :: "local_date_time \<Rightarrow> contextual_slot list \<Rightarrow> contextual_slot option" where
  "pickDueContextualSlot l configuredSlots =
     (if configuredSlots = [] then None
      else map_option cs_slot (head_opt (sort_by (\<lambda>a b. cs_hour b * 60 + cs_minute b \<le> cs_hour a * 60 + cs_minute a)
             (due_schedules l configuredSlots))))"

definition mapContextualIntent :: "contextual_slot \<Rightarrow> string list \<Rightarrow> explore_intent" where
  "mapContextualIntent slot companies = (case slot of
     WeekdayMorning \<Rightarrow> IWork2h
   | WeekdayAfternoon \<Rightarrow> ISnackFast
   | WeekdayEvening \<Rightarrow> IReading
   | WeekendDay \<Rightarrow> IBrunchLong
   | WeekendNight \<Rightarrow> if ''couple'' \<in> set companies then IFirstDate
       else if ''small_group'' \<in> set companies \<or> ''large_group'' \<in> set companies then IGroup4 else IReading)"

definition buildContextualBody :: "contextual_slot \<Rightarrow> string \<Rightarrow> string" where
  "buildContextualBody slot placeName = ''Te recomendamos '' @ placeName @ (case slot of
     WeekdayMorning \<Rightarrow> '' para trabajar un rato.''
   | WeekdayAfternoon \<Rightarrow> '' para una pausa rapida.''
   | WeekdayEvening \<Rightarrow> '' para bajar el ritmo.''
   | WeekendDay \<Rightarrow> '' para un plan largo de dia.''
   | WeekendNight \<Rightarrow> '' para salir esta tarde.'')"

definition intent_text :: "explore_intent \<Rightarrow> string" where
  "intent_text i = (case i of IOpenNow \<Rightarrow> ''open_now'' | IWork2h \<Rightarrow> ''work_2h'' | IBrunchLong \<Rightarrow> ''brunch_long''
     | ISolo \<Rightarrow> ''solo'' | IFirstDate \<Rightarrow> ''first_date'' | ISnackFast \<Rightarrow> ''snack_fast'' | IReading \<Rightarrow> ''reading''
     | IGroup4 \<Rightarrow> ''group_4'')"

definition contextual_notification :: "timezone_user \<Rightarrow> string \<Rightarrow> contextual_slot \<Rightarrow> explore_intent \<Rightarrow> place_card \<Rightarrow> publish_input" where
  "contextual_notification u date slot intent p = \<lparr>pb_actorId = None,
     pb_dedupeKey = Some (''contextual:'' @ slot_text slot @ '':'' @ tu_id u @ '':'' @ date),
     pb_entity = Some (pc_googlePlaceId p, EntPlace),
     pb_payload = Some [text_entry ''body'' (buildContextualBody slot (pc_name p)),
       text_entry ''deepLink'' (''/place/'' @ pc_googlePlaceId p), text_entry ''intent'' (intent_text intent),
       text_entry ''placeGooglePlaceId'' (pc_googlePlaceId p), text_entry ''placeName'' (pc_name p),
       text_entry ''slot'' (slot_text slot), text_entry ''title'' ''Recomendacion para vos''],
     pb_recipientIds = [tu_id u], pb_scheduledFor = None, pb_type = NContextualRecommendation\<rparr>"

definition recommend ::
  "nearby_env \<Rightarrow> int \<Rightarrow> timezone_user \<Rightarrow> string \<Rightarrow> contextual_slot \<Rightarrow> explore_intent \<Rightarrow> nat dbm" where
  "recommend env t u date slot intent =
     bindS (exploreContext env (tu_id u) None intent 12 None) (\<lambda>explored.
     bindS (gets (listRecentlyInteractedPlaceRouteIds (tu_id u) (t - 30 * ms_per_day))) (\<lambda>recents.
       case find (\<lambda>x. pc_googlePlaceId (nv_card (fst x)) \<notin> set recents) explored of
         None \<Rightarrow> ret 0
       | Some x \<Rightarrow> publish_all [contextual_notification u date slot intent (nv_card (fst x))]))"

definition contextual_for ::
  "nearby_env \<Rightarrow> int \<Rightarrow> (string \<Rightarrow> local_date_time option) \<Rightarrow> timezone_user \<Rightarrow> nat dbm" where
  "contextual_for env t localTimes u = (case localTimes (tu_id u) of
     None \<Rightarrow> ret 0
   | Some l \<Rightarrow>
       (let preferences = readOutingPreferences (tu_outing u)
        in case pickDueContextualSlot l (or_slots preferences) of
             None \<Rightarrow> ret 0
           | Some slot \<Rightarrow>
               (if \<not> truthy (tu_city u) \<or> fst (tu_point u) = None \<or> snd (tu_point u) = None then ret 0
                else catchS (recommend env t u (ld_date l) slot (mapContextualIntent slot (or_companies preferences)))
                       (\<lambda>_. ret 0))))"

definition runContextualRecommendations ::
  "nearby_env \<Rightarrow> int \<Rightarrow> timezone_user list \<Rightarrow> (string \<Rightarrow> local_date_time option) \<Rightarrow> nat dbm" where
  "runContextualRecommendations env t users localTimes =
     bindS (mapS (contextual_for env t localTimes) users) (\<lambda>ns. ret (sum_list ns))"

section \<open>A run\<close>

record automation_counts =
  ac_contextual :: nat
  ac_invites :: nat
  ac_rsvps :: nat
  ac_today :: nat
  ac_weekly :: nat

definition runDueAutomations :: "nearby_env \<Rightarrow> zone_format \<Rightarrow> int \<Rightarrow> automation_counts dbm" where
  "runDueAutomations env zone t =
     bindS (gets listUsersWithLatestTimezone) (\<lambda>users.
     let localTimes = local_times zone t users in
     bindS (runInviteReminders t) (\<lambda>invites.
     bindS (runRsvpReminders t localTimes) (\<lambda>rsvps.
     bindS (runTodayReminders t localTimes) (\<lambda>today.
     bindS (runWeeklyDigests t users localTimes) (\<lambda>weekly.
     bindS (runContextualRecommendations env t users localTimes) (\<lambda>contextual.
       ret \<lparr>ac_contextual = contextual, ac_invites = invites, ac_rsvps = rsvps, ac_today = today, ac_weekly = weekly\<rparr>))))))"

section \<open>Nobody is told twice\<close>

definition keyed :: "publish_input \<Rightarrow> bool" where
  "keyed x \<longleftrightarrow> truthy (pb_dedupeKey x)"

lemma keyed_inputs [simp]:
  "keyed (invite_reminder m g)" "keyed (rsvp_reminder e u)" "keyed (today_reminder e u)"
  "keyed (weekly_digest v d i j guide)" "keyed (contextual_notification v d s n p)"
  by (simp_all add: keyed_def truthy_def invite_reminder_def rsvp_reminder_def today_reminder_def event_reminder_def
      weekly_digest_def contextual_notification_def split: prod.split)

text \<open>What the automations and the searches they make leave alone: everything a reminder is made from.\<close>

definition later :: "db \<Rightarrow> db \<Rightarrow> bool" where
  "later w w' \<longleftrightarrow> t_users w' = t_users w \<and> t_groups w' = t_groups w \<and> t_members w' = t_members w
     \<and> t_events w' = t_events w \<and> t_rsvps w' = t_rsvps w \<and> t_places w' = t_places w
     \<and> (\<exists>ns. t_notifications w' = t_notifications w @ ns) \<and> wf_notif w'"

lemma later_refl: "wf_notif w \<Longrightarrow> later w w" by (simp add: later_def)

lemma later_trans: "later u v \<Longrightarrow> later v w \<Longrightarrow> later u w"
  by (fastforce simp: later_def)

lemma later_told: "later w w' \<Longrightarrow> notified_users x w = [] \<Longrightarrow> notified_users x w' = []"
  unfolding later_def using notified_users_later by blast

lemma later_publish:
  assumes "later u w" "keyed x" shows "later u (snd (publish x w))"
proof (rule later_trans [OF assms(1)])
  have wf: "wf_notif w" using assms(1) by (simp add: later_def)
  have k: "pb_dedupeKey x \<noteq> Some []" using assms(2) by (auto simp: keyed_def truthy_def)
  obtain k where "published x (default_to (pb_scheduledFor x) (db_now w)) (notified_users x w) w (snd (publish x w)) k"
    using publish_run [OF wf k] by auto
  then show "later w (snd (publish x w))"
    using notif_frame_fields [of w "snd (publish x w)"] by (auto simp: published_def later_def)
qed

lemma keeps_publish_all: "list_all keyed xs \<Longrightarrow> keeps (later u) (publish_all xs)"
  unfolding publish_all_def
  by (intro keeps_bind keeps_mapS keeps_ret) (auto simp: list_all_iff intro: keepsI later_publish)

lemma publish_all_told:
  assumes "list_all keyed xs" "list_all (\<lambda>x. notified_users x w = []) xs"
  shows "publish_all xs w = (Inr 0, w)"
proof -
  have "mapS publish xs w = (Inr (map (\<lambda>_. \<lparr>pr_count = 0, pr_deliveryCount = 0\<rparr>) xs), w)"
    using assms
  proof (induction xs)
    case (Cons x xs)
    then have "publish x w = (Inr \<lparr>pr_count = 0, pr_deliveryCount = 0\<rparr>, w)"
      by (intro publish_nobody) (auto simp: keyed_def truthy_def)
    then show ?case using Cons by (simp add: bindS_apply)
  qed simp
  then show ?thesis by (simp add: publish_all_def bindS_apply comp_def)
qed

lemma publish_all_tells:
  assumes "list_all keyed xs" "later u w"
  shows "later u (snd (publish_all xs w)) \<and> list_all (\<lambda>x. notified_users x (snd (publish_all xs w)) = []) xs"
proof -
  have "\<exists>rs w'. mapS publish xs w = (Inr rs, w') \<and> later u w' \<and> list_all (\<lambda>x. notified_users x w' = []) xs"
    using assms
  proof (induction xs arbitrary: u w)
    case (Cons x xs)
    have k: "keyed x" using Cons.prems by simp
    obtain r v where r: "publish x w = (Inr r, v)"
      using returnsD [OF publish_returns_keyed] k unfolding keyed_def by blast
    have v: "later u v" using later_publish [OF Cons.prems(2) k] r by simp
    have "notified_users x (snd (publish x w)) = []"
      using publish_settles [of w x] Cons.prems(2) k by (auto simp: later_def keyed_def truthy_def split: option.splits)
    then have told: "notified_users x v = []" using r by simp
    have vv: "later v v" using v by (simp add: later_def)
    obtain rs w' where h: "mapS publish xs v = (Inr rs, w')" "later v w'" "list_all (\<lambda>x. notified_users x w' = []) xs"
      using Cons.IH [OF _ vv] Cons.prems by auto
    have "mapS publish (x # xs) w = (Inr (r # rs), w')" by (simp add: bindS_apply r h(1))
    then show ?case using later_told [OF h(2) told] later_trans [OF v h(2)] h(3) by simp
  qed simp
  then show ?thesis by (auto simp: publish_all_def bindS_apply)
qed

text \<open>A search writes cities and settings only.\<close>

definition search_frame :: "(db \<Rightarrow> bool) \<Rightarrow> bool" where
  "search_frame P \<longleftrightarrow> (\<forall>w. P w \<longrightarrow> (\<forall>cs. P (w\<lparr>t_cities := cs\<rparr>)) \<and> (\<forall>ss. P (w\<lparr>t_settings := ss\<rparr>))
     \<and> (\<forall>cs. P (w\<lparr>db_next := Suc (db_next w), t_cities := cs\<rparr>)))"

lemma search_frameD:
  assumes "search_frame P" "P w"
  shows "P (w\<lparr>t_cities := cs\<rparr>)" "P (w\<lparr>t_settings := ss\<rparr>)" "P (w\<lparr>db_next := Suc (db_next w), t_cities := cs\<rparr>)"
  using assms by (auto simp: search_frame_def)

lemma later_search_frame: "search_frame (later u)"
  unfolding search_frame_def later_def wf_notif_def
  by (auto intro: ids_below_Suc)

lemma keeps_upsert_city:
  assumes "search_frame P" shows "keeps P (upsertCity c)"
  unfolding upsertCity_def
  by (rule keepsI) (auto simp: bindS_apply seqS_apply now_apply Let_def fresh_id_apply search_frameD [OF assms] split: option.splits)

lemma keeps_exploreContext:
  assumes "search_frame P" shows "keeps P (exploreContext env userId point intent limit city)"
proof -
  have u: "keeps P (upsertCitySummary c)" for c
    unfolding upsertCitySummary_def by (rule keeps_upsert_city [OF assms])
  have by_id: "keeps P (ensureStoredCityByGooglePlaceId e g)" for e g
    unfolding ensureStoredCityByGooglePlaceId_def getCachedGoogleValue_def
    by (auto intro!: keeps_intro u split: option.splits)
  have by_point: "keeps P (ensureStoredCityForCoordinates e la lo)" for e la lo
    unfolding ensureStoredCityForCoordinates_def getCachedReverseGeocodeCity_def getCachedGoogleValue_def
    by (auto intro!: keeps_intro u split: option.splits)
  have settings: "keeps P (ensureUserSettings i)" for i
    unfolding ensureUserSettings_def
    by (intro keeps_intro keeps_modify) (rule search_frameD(2) [OF assms])
  have curated: "keeps P (resolveCurationCityId env pc p g)" for pc p g
    unfolding resolveCurationCityId_def Let_def by (intro keeps_intro by_id by_point)
  have net: "keeps P (getNearbyNetworkSignalsForGooglePlaces userId ids)" for ids
    unfolding getNearbyNetworkSignalsForGooglePlaces_def Let_def by (intro keeps_intro settings)
  show ?thesis
    unfolding exploreContext_def nearby_def search_nearby_def finalizeNearby_def Let_def
    by (intro keeps_intro curated net)
qed

lemma returns_publish_all: "list_all keyed xs \<Longrightarrow> returns (publish_all xs)"
  unfolding publish_all_def
  by (intro returns_bind returns_mapS returns_ret) (auto simp: list_all_iff keyed_def intro: publish_returns_keyed)

lemma keyed_due:
  "list_all keyed (due_invites t w)" "list_all keyed (due_rsvps t lt w)" "list_all keyed (due_today t lt w)"
  "list_all keyed (due_digest t lt u w)"
  by (auto simp: due_invites_def due_rsvps_def due_today_def due_digest_def list_all_iff map_filter_def Let_def
      split: option.splits)

text \<open>A stage: what is due is read, then told.\<close>

definition stage :: "(db \<Rightarrow> publish_input list) \<Rightarrow> nat dbm" where
  "stage due = bindS (gets due) publish_all"

lemma stage_run: "stage due w = publish_all (due w) w" by (simp add: stage_def bindS_apply gets_def)

lemma returns_stage: "(\<And>w. list_all keyed (due w)) \<Longrightarrow> returns (stage due)"
  using returns_publish_all by (simp add: returns_def stage_run)

lemma keeps_stage: "(\<And>w. list_all keyed (due w)) \<Longrightarrow> keeps (later u) (stage due)"
  using keeps_publish_all by (simp add: keeps_def stage_run)

lemma stage_again:
  assumes "\<And>w. list_all keyed (due w)" "\<And>u w. later u w \<Longrightarrow> due w = due u" "later u w" "later (snd (stage due w)) v"
  shows "stage due v = (Inr 0, v)"
proof -
  note told = publish_all_tells [OF assms(1) [of w] assms(3), folded stage_run]
  have wf: "later w w" using assms(3) by (simp add: later_def)
  then have "later w v" using publish_all_tells [OF assms(1) [of w] wf, folded stage_run] later_trans assms(4) by blast
  then have "due v = due w" by (rule assms(2))
  moreover have "list_all (\<lambda>x. notified_users x v = []) (due w)"
    using told later_told [OF assms(4)] by (auto simp: list_all_iff)
  ultimately show ?thesis using publish_all_told [OF assms(1)] by (simp add: stage_run)
qed

lemma stages:
  "runInviteReminders t = stage (due_invites t)" "runRsvpReminders t lt = stage (due_rsvps t lt)"
  "runTodayReminders t lt = stage (due_today t lt)"
  "runWeeklyDigests t users lt = bindS (mapS (\<lambda>u. stage (due_digest t lt u)) users) (\<lambda>ns. ret (sum_list ns))"
  by (simp_all add: runInviteReminders_def runRsvpReminders_def runTodayReminders_def runWeeklyDigests_def stage_def)

lemma due_later:
  assumes "later u w"
  shows "due_invites t w = due_invites t u" "due_rsvps t lt w = due_rsvps t lt u" "due_today t lt w = due_today t lt u"
proof -
  note f = assms [unfolded later_def]
  have g: "group_by_id i w = group_by_id i u" "place_by_id i w = place_by_id i u" for i
    using f by (simp_all add: group_by_id_def place_by_id_def)
  show "due_invites t w = due_invites t u" using f by (simp add: due_invites_def g)
  have e: "events_between a b s w = events_between a b s u" "accepted_in x w = accepted_in x u" for a b s x
    using f by (simp_all add: events_between_def accepted_in_def g)
  have r: "wants_rsvp_reminder lt w = wants_rsvp_reminder lt u" "wants_today_reminder lt w = wants_today_reminder lt u"
    using f by (simp_all add: wants_rsvp_reminder_def wants_today_reminder_def fun_eq_iff split: option.split)
  show "due_rsvps t lt w = due_rsvps t lt u" "due_today t lt w = due_today t lt u"
    by (simp_all add: due_rsvps_def due_today_def e r)
qed

lemma returns_contextual: "returns (runContextualRecommendations env t users lt)"
  unfolding runContextualRecommendations_def contextual_for_def Let_def
  by (rule returns_bind [OF returns_mapS returns_ret], rule returns_case_option, rule returns_ret, rule returns_case_option,
      rule returns_ret, rule returns_if, rule returns_ret, rule returns_catch_errors, rule returns_ret)

lemma keeps_contextual: "keeps (later u) (runContextualRecommendations env t users lt)"
  unfolding runContextualRecommendations_def contextual_for_def recommend_def Let_def
  by (intro keeps_intro keeps_exploreContext later_search_frame keeps_publish_all) simp

text \<open>A run of the automations never fails, whatever the database, the clock, the time zones, Google or the cache
  hold.\<close>

theorem automations_never_fail: "returns (runDueAutomations env zone t)"
  unfolding runDueAutomations_def Let_def stages
  by (intro returns_intro returns_stage returns_contextual keyed_due)

text \<open>C16: nobody is reminded twice: after a complete run, with its digests and recommendations, the reminders of the
  same time find nobody left to tell and change nothing.\<close>

theorem reminders_told_once:
  assumes "wf_notif w"
  shows "(let w' = snd (runDueAutomations env zone t w); lt = local_times zone t (listUsersWithLatestTimezone w)
     in runInviteReminders t w' = (Inr 0, w') \<and> runRsvpReminders t lt w' = (Inr 0, w') \<and> runTodayReminders t lt w' = (Inr 0, w'))"
proof -
  let ?us = "listUsersWithLatestTimezone w" let ?lt = "local_times zone t ?us"
  let ?m1 = "stage (due_invites t)" and ?m2 = "stage (due_rsvps t ?lt)" and ?m3 = "stage (due_today t ?lt)"
  let ?m4 = "runWeeklyDigests t ?us ?lt" and ?m5 = "runContextualRecommendations env t ?us ?lt"
  have r: "returns ?m1" "returns ?m2" "returns ?m3" by (intro returns_stage keyed_due)+
  have r4: "returns ?m4" unfolding stages by (intro returns_intro returns_stage keyed_due)
  have k: "keeps (later u) ?m1" "keeps (later u) ?m2" "keeps (later u) ?m3" "keeps (later u) ?m4" "keeps (later u) ?m5" for u
    unfolding stages by (intro keeps_intro keeps_stage keyed_due keeps_contextual)+
  obtain a1 w1 where 1: "?m1 w = (Inr a1, w1)" using returnsD [OF r(1)] by blast
  obtain a2 w2 where 2: "?m2 w1 = (Inr a2, w2)" using returnsD [OF r(2)] by blast
  obtain a3 w3 where 3: "?m3 w2 = (Inr a3, w3)" using returnsD [OF r(3)] by blast
  obtain a4 w4 where 4: "?m4 w3 = (Inr a4, w4)" using returnsD [OF r4] by blast
  obtain a5 w5 where 5: "?m5 w4 = (Inr a5, w5)" using returnsD [OF returns_contextual] by blast
  have run: "snd (runDueAutomations env zone t w) = w5"
    unfolding runDueAutomations_def Let_def stages(1-3) by (simp add: bindS_apply gets_def 1 2 3 4 5)
  have l1: "later w w1" using keepsD [OF k(1)] later_refl [OF assms] 1 by (metis snd_conv)
  have l2: "later u w2" if "later u w1" for u using keepsD [OF k(2) that] 2 by simp
  have l3: "later u w3" if "later u w2" for u using keepsD [OF k(3) that] 3 by simp
  have l5: "later u w5" if "later u w3" for u using keepsD [OF k(5), of u w4] keepsD [OF k(4) that] 4 5 by simp
  have refl: "later w w" "later w1 w1" "later w2 w2" "later w3 w3" using l1 l2 l3 assms by (auto simp: later_def)
  have "?m1 w5 = (Inr 0, w5)" by (rule stage_again [OF keyed_due(1) due_later(1) refl(1)]) (simp_all add: 1 l2 l3 l5 refl)
  moreover have "?m2 w5 = (Inr 0, w5)" by (rule stage_again [OF keyed_due(2) due_later(2) refl(2)]) (simp_all add: 2 l3 l5 refl)
  moreover have "?m3 w5 = (Inr 0, w5)" by (rule stage_again [OF keyed_due(3) due_later(3) refl(3)]) (simp_all add: 3 l5 refl)
  ultimately show ?thesis by (simp add: Let_def run stages)
qed

definition invited_db :: db where
  "invited_db = (empty_db 0)\<lparr>t_users := [sample_user ''a'', sample_user ''b''],
     t_groups := [\<lparr>g_id = ''g'', g_name = ''Cafe'', g_description = None, g_created_by = ''a'', g_invite_code = ''x'',
       g_visibility = GPrivate, g_join_policy = JInviteOnly, g_proposal_policy = AllMembers, g_interaction = Collaborative,
       g_created = 0\<rparr>],
     t_members := [\<lparr>gm_id = ''m'', gm_group = ''g'', gm_user = ''b'', gm_inviter = Some ''a'', gm_role = Member,
       gm_status = MPending, gm_created = 0\<rparr>]\<rparr>"

lemma invited_wf: "wf_notif invited_db"
  by (simp add: wf_notif_def invited_db_def empty_db_def ids_below_def)

theorem reminders_told_once_witness:
  "fst (runInviteReminders (2 * ms_per_day) invited_db) = Inr 1
   \<and> (let w' = snd (runDueAutomations offline_env (\<lambda>_ _. None) (2 * ms_per_day) invited_db);
          lt = local_times (\<lambda>_ _. None) (2 * ms_per_day) (listUsersWithLatestTimezone invited_db)
      in runInviteReminders (2 * ms_per_day) w' = (Inr 0, w') \<and> runRsvpReminders (2 * ms_per_day) lt w' = (Inr 0, w')
         \<and> runTodayReminders (2 * ms_per_day) lt w' = (Inr 0, w'))"
proof
  show "fst (runInviteReminders (2 * ms_per_day) invited_db) = Inr 1" by code_simp
qed (rule reminders_told_once [OF invited_wf])

end
