(* ===== verification/ServiceApi.thy ===== *)
theory ServiceApi
  imports Automation JobQueue WebAuth PushDispatch
begin

text \<open>
  The routes of places, explore and cities behind the session guard (\<open>places.controller.ts\<close>, \<open>explore.controller.ts\<close>,
  \<open>cities.controller.ts\<close>, with the facade \<open>places.service.ts\<close> between them and the services), and the routes of operations
  behind the shared secret (\<open>internal-notifications.controller.ts\<close>).  A request that passed validation is a value of the
  route type (a place that could not be resolved is answered with \<open>place: null\<close>); the header with the origin of a search only reaches the trace.
\<close>

section \<open>Places, explore and cities\<close>

record places_api =
  px_auth :: auth_env
  px_nearby :: nearby_env
  px_places :: places_env
  px_admins :: auth_config
  px_collate :: "string \<Rightarrow> string \<Rightarrow> bool"
  px_payload :: "string \<Rightarrow> autocomplete_payload option"

datatype place_route =
    GetAutocomplete string "string option" nat
  | PostResolve string
  | PostManual string string string string "rat option" "rat option"
  | GetNearby "(rat \<times> rat) option" nearby_search_query
  | GetPlace string

datatype place_reply =
    Autocompleted autocomplete_payload
  | PlaceShown "place_row option"
  | NearbyShown nearby_answer
  | ProfileShown place_profile

definition places_handler :: "places_api \<Rightarrow> place_route \<Rightarrow> string \<times> string \<Rightarrow> place_reply dbm" where
  "places_handler px route user = (case route of
     GetAutocomplete q city limit \<Rightarrow>
       gets (\<lambda>w. Autocompleted (autocomplete (px_places px) (px_collate px) (px_payload px) q city limit w))
   | PostResolve g \<Rightarrow> bindS (resolve_place (px_places px) SrcGoogle g) (\<lambda>p. ret (PlaceShown p))
   | PostManual city name address cityName lat lng \<Rightarrow>
       bindS (createManualPlace_service (px_places px) city name address cityName lat lng) (\<lambda>p. ret (PlaceShown (Some p)))
   | GetNearby point q \<Rightarrow> bindS (nearby (px_nearby px) (snd user) point q) (\<lambda>a. ret (NearbyShown a))
   | GetPlace g \<Rightarrow> bindS (getPlaceProfile (px_places px) (px_admins px) (snd user) (fst user) g) (\<lambda>p. ret (ProfileShown p)))"

definition places_controller :: "places_api \<Rightarrow> header \<Rightarrow> place_route \<Rightarrow> place_reply dbm" where
  "places_controller px header route = guarded (ae_verifyJwt (px_auth px)) header (places_handler px route)"

definition explore_controller ::
  "places_api \<Rightarrow> header \<Rightarrow> (rat \<times> rat) option \<Rightarrow> explore_intent \<Rightarrow> nat \<Rightarrow> string option \<Rightarrow> (nearby_view \<times> string) list dbm" where
  "explore_controller px header point intent limit city = guarded (ae_verifyJwt (px_auth px)) header
     (\<lambda>user. exploreContext (px_nearby px) (snd user) point intent limit city)"

datatype city_route = GetCities string nat | GetReverse rat rat | GetCity string

datatype city_reply = CitiesShown "city_summary list" | CityShown city_summary

definition cities_handler :: "places_api \<Rightarrow> city_route \<Rightarrow> city_reply dbm" where
  "cities_handler px route = (case route of
     GetCities q limit \<Rightarrow> bindS (autocompleteCities (px_places px) (px_collate px) q limit) (\<lambda>cs. ret (CitiesShown cs))
   | GetReverse lat lng \<Rightarrow> bindS (reverseGeocodeCity_service (px_places px) (lat, lng)) (\<lambda>c. ret (CityShown c))
   | GetCity g \<Rightarrow> bindS (resolveCityByGooglePlaceId (px_places px) g) (\<lambda>c. ret (CityShown c)))"

definition cities_controller :: "places_api \<Rightarrow> header \<Rightarrow> city_route \<Rightarrow> city_reply dbm" where
  "cities_controller px header route = guarded (ae_verifyJwt (px_auth px)) header (\<lambda>_. cities_handler px route)"

section \<open>Operations\<close>

text \<open>\<open>Math.trunc\<close> of a finite number.\<close>

definition normalizeInternalLimit :: "json option \<Rightarrow> nat \<Rightarrow> nat" where
  "normalizeInternalLimit value fallback = (case value of
     Some (JNum r) \<Rightarrow> nat (max 1 (if 0 \<le> r then \<lfloor>r\<rfloor> else \<lceil>r\<rceil>))
   | _ \<Rightarrow> fallback)"

record ops_env =
  ox_secret :: "string option"
  ox_backend :: string
  ox_send :: "push_message list \<Rightarrow> expo_data option fetch_response dbm"
  ox_receipts :: "string list \<Rightarrow> (string \<times> expo_receipt) list option fetch_response dbm"
  ox_message :: "http_error \<Rightarrow> string"
  ox_nearby :: nearby_env
  ox_zone :: zone_format

datatype internal_route = GetStatus | PostDispatch "json option" | PostReceipts "json option" | PostAutomations

datatype internal_reply =
    StatusShown operational_status queue_status int
  | Dispatched dispatch_result
  | Synced sync_result
  | Automated automation_counts

text \<open>The 503 of an unhealthy status carries the same object as its body.\<close>

definition internal_handler :: "ops_env \<Rightarrow> ('p, db) queue_state \<Rightarrow> internal_route \<Rightarrow> internal_reply dbm" where
  "internal_handler ox q route = (case route of
     GetStatus \<Rightarrow> bindS now (\<lambda>t. bindS (gets (getOperationalStatus t)) (\<lambda>push.
       let queue = queue_operational_status (ox_backend ox) q in
       if \<not> (os_healthy push \<and> qt_healthy queue) then throw (ServiceUnavailable ''Service Unavailable Exception'')
       else ret (StatusShown push queue t)))
   | PostDispatch limit \<Rightarrow> bindS (dispatchPending (ox_send ox) (ox_message ox) (normalizeInternalLimit limit 100)) (\<lambda>r. ret (Dispatched r))
   | PostReceipts limit \<Rightarrow> bindS (syncReceipts (ox_receipts ox) (normalizeInternalLimit limit 300)) (\<lambda>r. ret (Synced r))
   | PostAutomations \<Rightarrow> bindS now (\<lambda>t. bindS (runDueAutomations (ox_nearby ox) (ox_zone ox) t) (\<lambda>r. ret (Automated r))))"

text \<open>The secret is read from the new header, or from the old one when the new one is absent.\<close>

definition given_secret :: "string option \<Rightarrow> string option \<Rightarrow> string option" where
  "given_secret headerSecret legacyHeaderSecret = (case headerSecret of None \<Rightarrow> legacyHeaderSecret | Some s \<Rightarrow> Some s)"

definition internal_controller ::
  "ops_env \<Rightarrow> ('p, db) queue_state \<Rightarrow> string option \<Rightarrow> string option \<Rightarrow> internal_route \<Rightarrow> internal_reply dbm" where
  "internal_controller ox q headerSecret legacyHeaderSecret route =
     seqS (liftE (assertInternalSecret (ox_secret ox) (given_secret headerSecret legacyHeaderSecret))) (internal_handler ox q route)"

text \<open>\<open>push-dispatch.worker.ts\<close>: the handler of the queue's push jobs, whose payload is an optional limit.\<close>

definition push_handler :: "ops_env \<Rightarrow> (nat option, db) job_handler" where
  "push_handler ox limit w = (case dispatchPending (ox_send ox) (ox_message ox) (default_to limit 100) w of
     (Inl e, w') \<Rightarrow> (Inl (ox_message ox e), w') | (Inr _, w') \<Rightarrow> (Inr (), w'))"

definition push_worker :: "ops_env \<Rightarrow> (nat option, db) queue_state \<Rightarrow> (nat option, db) queue_state" where
  "push_worker ox q = registerHandler ''feca.push.dispatch'' (push_handler ox) q"

section \<open>Properties\<close>

lemma internal_limit_positive: "1 \<le> fallback \<Longrightarrow> 1 \<le> normalizeInternalLimit asked fallback"
  by (simp add: normalizeInternalLimit_def split: option.splits json.splits) linarith

text \<open>The operations behind the shared secret run for nobody else: unless the configured secret is non-empty and the
  request's secret equals it, a request is refused with 503 (nothing configured) or 401 and no delivery, receipt or
  notification is touched; with it, the request is handled, and never with a limit below one.\<close>

theorem operations_need_the_secret:
  "internal_controller ox q h l route w =
     (let configured = js_trim (default_to (ox_secret ox) []) in
      if configured = [] then (Inl (ServiceUnavailable ''Internal operations secret is not configured''), w)
      else if given_secret h l \<noteq> Some configured then (Inl (Unauthorized ''Invalid internal operations secret''), w)
      else internal_handler ox q route w)
   \<and> 1 \<le> normalizeInternalLimit asked 100 \<and> 1 \<le> normalizeInternalLimit asked 300"
proof -
  have "internal_controller ox q h l route w =
     (let configured = js_trim (default_to (ox_secret ox) []) in
      if configured = [] then (Inl (ServiceUnavailable ''Internal operations secret is not configured''), w)
      else if given_secret h l \<noteq> Some configured then (Inl (Unauthorized ''Invalid internal operations secret''), w)
      else internal_handler ox q route w)"
    by (cases "given_secret h l") (auto simp: internal_controller_def assertInternalSecret_def Let_def truthy_def seqS_apply liftE_def)
  then show ?thesis using internal_limit_positive [of 100 asked] internal_limit_positive [of 300 asked] by simp
qed

end
