(* ===== verification/Spec2Isabelle.thy ===== *)
theory Spec2Isabelle
  imports PushProperties SingleFlight Config Backfill GoogleRequests HttpApi ImportQueue ServiceApi
begin

text \<open>
  \<^bold>\<open>Feca: a backend for going out with friends.\<close>

  The program is the NestJS service under \<open>src/src\<close>: users follow each other, write visits to places, keep guides of
  places, meet in groups and plans, receive notifications on their phones, and ask which places around them are worth
  going to; their saved places come in from a Google data export.  A request passes the guards to a controller, which calls a
  service; a service checks who may do what, calls repositories, which are sequences of Prisma queries over PostgreSQL,
  and presents the rows as JSON views; what it throws is answered by one exception filter.  Long work goes to a job queue,
  and calls to Google go through a cache with a single flight per key.

  \<^bold>\<open>How a component is modelled.\<close>  The database of \<open>src/prisma/schema.prisma\<close> is the record \<open>db\<close> of \<open>FecaDb\<close>, one list
  of rows per table, with its clock and its supply of ids.  An asynchronous method is a state transformer
  \<open>db \<Rightarrow> (http_error + 'a) \<times> db\<close> (\<open>FecaPrelude\<close>): \<open>Inl\<close> is the exception the caller sees, every write made before it
  stays in the state, and only \<open>tx\<close> (\<open>$transaction\<close>) undoes.  A method that only reads is a function of the database.
  Names are those of the code; a repository method whose name its service uses too ends in \<open>Repo\<close>.  Numbers that
  JavaScript holds as doubles are rationals, integers are \<open>int\<close> or \<open>nat\<close>, and the generator of the shuffles (mulberry32)
  and its hash work on 32-bit words.  Strings are character lists; collation, JSON and base64 codecs, SHA-256, the
  haversine formula, Google's and Expo's HTTP services and token verification are parameters, and so are inflate, UTF-8 and URL parsing, AES-GCM,
  time zones, zod's base parsing and what Redis and pg-boss answer.

  \<^bold>\<open>The theories, in the order of the imports.\<close>
  \<^item> \<open>FecaPrelude\<close>: the monad and its rules, two predicates that carry most proofs about effects (\<open>keeps P m\<close>: a step
    preserves an invariant whether it fails or not; \<open>returns P m\<close>), sorting as JavaScript does it, strings.
  \<^item> \<open>FecaTables\<close>: Prisma's operations on a table (find, create with P2002, update many, delete many) and four
    interfaces: \<open>claim_store\<close> (a guarded update that succeeds once), \<open>keyset_pages\<close> (cursors over a sorted table),
    \<open>transition_system\<close> (reachable states and invariants), \<open>keyed_store\<close> (JavaScript's \<open>Map\<close> with get, set and merge).
  \<^item> \<open>FecaDb\<close>: enums, rows and the database.
  \<^item> \<open>SocialPermissions\<close> (\<open>social.repository.helpers.ts\<close>, \<open>social.repository.support.ts\<close>, \<open>user.presenter.ts\<close>): settings
    and who may see or invite whom.  \<open>Notifications\<close> (\<open>notifications.service.ts\<close>, \<open>notifications.repository.ts\<close>):
    publishing, the inbox and push installations, with the interface \<open>notifier\<close> its callers rely on.
  \<^item> \<open>GroupViews\<close>, \<open>SocialGroups\<close>, \<open>Plans\<close>, \<open>PlansService\<close>, \<open>PlanProperties\<close> (\<open>social-groups.*\<close>, \<open>social-group-*\<close>,
    \<open>plans.*\<close>, \<open>group.presenter.ts\<close>): groups, events, plans and chat.  \<open>GroupSystem\<close> composes them with accounts: every
    operation of every caller is a step, failing ones too, and the membership invariant holds in each reachable database.
  \<^item> \<open>Calendar\<close>, \<open>Ranking\<close>, \<open>OutingPreferences\<close>, \<open>NearbyScore\<close>, \<open>NearbyRanking\<close> (\<open>lib/*.ts\<close>): dates, seeded shuffles,
    the rotating ranking, scores, intents, chips, and the composition of the page of places.
  \<^item> \<open>SocialGraph\<close> (\<open>social-graph.repository.ts\<close>, \<open>social-users.service.ts\<close>, \<open>social-taste.service.ts\<close>): follows,
    suggestions, profiles.  \<open>AuthSessions\<close>, \<open>AccountDeletion\<close> (\<open>auth/\<close>, the guards): sign-in, rotating refresh tokens,
    and what deleting an account leaves.
  \<^item> \<open>PushDispatch\<close>, \<open>PushProperties\<close> (\<open>push-dispatch.service.ts\<close>): sending and the receipts.
  \<^item> \<open>Cities\<close>, \<open>PlacesStore\<close>, \<open>GooglePlaces\<close>, \<open>PlaceResolution\<close>: the stored cities and places, what the backend makes of
    Google's answers, and resolving the one to the other.  \<open>Curation\<close> (\<open>place-curation.repository.ts\<close>,
    \<open>admin.service.ts\<close>): the editors' picks and boosts.
  \<^item> \<open>Diaries\<close>, \<open>Visits\<close>, \<open>SocialFeed\<close>, \<open>PlaceContext\<close>: guides, visits with their labels, the four feeds, and what
    friends say of a place.  \<open>NearbyPool\<close>, \<open>NearbyService\<close> (\<open>places-nearby*.ts\<close>): the nearby search over all of these.
  \<^item> \<open>Automation\<close> (\<open>notifications-automation.service.ts\<close>): reminders, digests and recommendations by local time.
    \<open>ImportArchive\<close>, \<open>ImportParser\<close>, \<open>ImportStore\<close>, \<open>ImportService\<close> (\<open>google-data-portability-*.ts\<close>): downloading an export,
    reading its zip byte by byte, finding the saved places in it, the rows of an import, and its jobs.
  \<^item> \<open>GoogleRequests\<close> (\<open>google-places.client.ts\<close>): every request with its field mask, the fetch helpers with their trace
    lines, and the client over a transport as the \<open>google_api\<close> the other theories take.  \<open>SingleFlight\<close>
    (\<open>distributed-single-flight.service.ts\<close>): flights of several processes over one Redis, as a state machine.
    \<open>JobQueue\<close> (\<open>queue.service.ts\<close>): handlers and jobs.
  \<^item> \<open>HttpEdge\<close> (\<open>common/\<close>, \<open>health/\<close>, the CORS matcher of \<open>main.ts\<close>): request ids, logs, the exception filter, metrics.
    \<open>Config\<close> (\<open>config/\<close>): the rules of the environment.  \<open>WebAuth\<close> (\<open>auth.controller.ts\<close>), \<open>HttpApi\<close> (the controllers of
    \<open>social/\<close>, \<open>visits/\<close> and \<open>admin/\<close> with the facade \<open>social.service.ts\<close>), \<open>ImportQueue\<close> (the import's routes and worker),
    \<open>ServiceApi\<close> (the routes of \<open>places/\<close> and of operations): each route behind its guard as a step of the state.
    \<open>Backfill\<close> (\<open>scripts/backfill-city-ids.ts\<close>): the script that gives old rows their city.

  \<^bold>\<open>What the lemmas show.\<close>  Per component: an invariant and its preservation (\<open>group_inv\<close>, \<open>wf_notif\<close>, \<open>push_inv\<close>),
  the outcome of each operation on every branch, and then the properties with a claim number.  These are of four
  sorts.  Correctness of an effect: exactly who is notified, what joining a plan does by status and policy, that one
  of several competing decisions counts, that a refresh token works once, that following and unfollowing cancel out.
  Completeness of an enumeration: cursors of the chat and of the plans visit everything once, one run of the
  dispatcher attempts each due delivery once.  Privacy: feeds, diaries, group and plan views, friends on a place, and
  the answers to failures.  Concurrency: one flight per key and process, one holder of a lock while loads are timely, jobs
  once and in order, an import that a request queued comes to its end.  Composition: any sequence of HTTP requests to groups,
  plans and accounts stays within the steps of the group system, whose invariant then holds.
  Refinement and bounds of computations: boosts as a maximum, the merge of candidates by id, variety and slots of
  the page, the search in a bounding box.  Where the code departs from what it means to do, the property states
  what it does (the error properties, listed under \<open>findings\<close> in the manifest).

  \<^bold>\<open>Bounds and fuel.\<close>  Loops are structural or have a measure (\<open>chunk\<close>, \<open>dash_runs\<close>, \<open>unique_username\<close>, whose fuel is the
  number of taken names: \<open>generated_username_free\<close> shows it is enough).  Running out the dispatcher's queue needs at
  most five runs per pending delivery (\<open>MAX_SEND_ATTEMPTS\<close>); a single flight gets at most \<open>4 * attempt_cost\<close> answers
  before it ends, since every poll costs at least a step of its deadline; the ranking's limits are the constants of the code.

  \<^bold>\<open>Not modelled.\<close>  The framework: routing by path, throttling, validation by decorators (a route is a value of its
  route type, already validated), dependency injection, modules and DTOs.  Facades and mappers that only forward or rename
  (\<open>places.service.ts\<close>, \<open>social.repository.ts\<close>, \<open>prisma-mappers.ts\<close>).  The cache as a running system: a search reads a
  snapshot, and what it writes back is left out; the single flight is proved on its own and not joined to it.  The connections
  to PostgreSQL, Redis and pg-boss.  Concurrency inside a method, other than the single flight and the atomic guarded updates,
  which are modelled as such: handlers and jobs run one at a time.  Columns nothing reads.
\<close>

end
